(* ===== verification/Prelude.thy ===== *)
theory Prelude
  imports Main "HOL-Library.Word"
begin

text \<open>
  Shared vocabulary of the development: bytes and Go strings, the three ways a Go call can
  end (a value, an error value, a panic), out-of-range reads and writes of byte slices, big
  endian 32-bit numbers, and the generic notion of a component driven by a list of
  operations.
\<close>

unbundle bit_operations_syntax

named_theorems outcome_simps \<open>elimination of the three-valued results\<close>
named_theorems slice_simps \<open>facts on slice reads and writes\<close>

section \<open>Types\<close>

type_synonym byte = "8 word"
type_synonym u32 = "32 word"

text \<open>A Go function with an error result may return, return an error, or panic.\<close>

datatype ('e, 'a) outcome = Ok 'a | Err 'e | Panic

fun obind :: "('e, 'a) outcome \<Rightarrow> ('a \<Rightarrow> ('e, 'b) outcome) \<Rightarrow> ('e, 'b) outcome" where
  "obind (Ok x) f = f x"
| "obind (Err e) f = Err e"
| "obind Panic f = Panic"

lemma obind_Ok_iff [outcome_simps]:
  "obind r f = Ok y \<longleftrightarrow> (\<exists>x. r = Ok x \<and> f x = Ok y)"
  by (cases r) auto

lemma obind_Err_iff [outcome_simps]:
  "obind r f = Err e \<longleftrightarrow> r = Err e \<or> (\<exists>x. r = Ok x \<and> f x = Err e)"
  by (cases r) auto

lemma obind_Panic_iff [outcome_simps]:
  "obind r f = Panic \<longleftrightarrow> r = Panic \<or> (\<exists>x. r = Ok x \<and> f x = Panic)"
  by (cases r) auto

fun is_Ok :: "('e, 'a) outcome \<Rightarrow> bool" where
  "is_Ok (Ok _) = True"
| "is_Ok _ = False"

section \<open>Go strings and byte slices\<close>

text \<open>A Go string is a byte string; \<open>char\<close> is an 8-bit value, so the conversion is one to one.\<close>

definition byte_of_char :: "char \<Rightarrow> byte" where
  "byte_of_char c = of_nat (of_char c)"

definition char_of_byte :: "byte \<Rightarrow> char" where
  "char_of_byte b = char_of (unat b)"

definition str_bytes :: "string \<Rightarrow> byte list" where
  "str_bytes s = map byte_of_char s"

definition bytes_str :: "byte list \<Rightarrow> string" where
  "bytes_str bs = map char_of_byte bs"

lemma of_char_lt_256: "(of_char c :: nat) < 256"
  by (metis nat_of_char_less_256)

lemma char_of_byte_of_char [simp]: "char_of_byte (byte_of_char c) = c"
  using of_char_lt_256 [of c]
  by (simp add: char_of_byte_def byte_of_char_def unat_of_nat)

lemma byte_of_char_of_byte [simp]: "byte_of_char (char_of_byte b) = b"
proof -
  have "unat b < 256" using unsigned_less [of b, where 'a = nat] by simp
  then show ?thesis by (simp add: byte_of_char_def char_of_byte_def)
qed

lemma bytes_str_bytes [simp]: "bytes_str (str_bytes s) = s"
  by (simp add: bytes_str_def str_bytes_def comp_def)

lemma str_bytes_str [simp]: "str_bytes (bytes_str bs) = bs"
  by (simp add: bytes_str_def str_bytes_def comp_def)

lemma length_str_bytes [simp]: "length (str_bytes s) = length s"
  by (simp add: str_bytes_def)

lemma length_bytes_str [simp]: "length (bytes_str bs) = length bs"
  by (simp add: bytes_str_def)

lemma bytes_str_inject [simp]: "bytes_str a = bytes_str b \<longleftrightarrow> a = b"
  by (metis str_bytes_str)

text \<open>
  \<open>store_at\<close> is an indexed store (or \<open>PutUint32\<close>), which panics (\<open>None\<close>) when it does not
  fit; \<open>copy_at\<close> is \<open>copy(buf[off:], src)\<close>, which copies as much as fits and panics only when
  the slice expression itself is out of range; \<open>load_at\<close> reads \<open>n\<close> bytes or panics.
\<close>

definition store_at :: "'a list \<Rightarrow> nat \<Rightarrow> 'a list \<Rightarrow> 'a list option" where
  "store_at buf off src =
     (if off + length src \<le> length buf
      then Some (take off buf @ src @ drop (off + length src) buf) else None)"

definition copy_at :: "'a list \<Rightarrow> nat \<Rightarrow> 'a list \<Rightarrow> 'a list option" where
  "copy_at buf off src =
     (if off \<le> length buf then store_at buf off (take (length buf - off) src) else None)"

definition load_at :: "'a list \<Rightarrow> nat \<Rightarrow> nat \<Rightarrow> 'a list option" where
  "load_at buf off n = (if off + n \<le> length buf then Some (take n (drop off buf)) else None)"

lemma store_at_replicate [slice_simps]:
  "length src \<le> n \<Longrightarrow>
     store_at (done @ replicate n z) (length done) src = Some ((done @ src) @ replicate (n - length src) z)"
  by (simp add: store_at_def)

lemma copy_at_replicate [slice_simps]:
  "length src \<le> n \<Longrightarrow>
     copy_at (done @ replicate n z) (length done) src = Some ((done @ src) @ replicate (n - length src) z)"
  by (simp add: copy_at_def store_at_replicate)

lemma load_at_append [slice_simps]:
  "load_at (pre @ xs @ post) (length pre) (length xs) = Some xs"
  by (simp add: load_at_def)

section \<open>Big endian 32-bit numbers (\<open>encoding/binary\<close>)\<close>

definition be32 :: "u32 \<Rightarrow> byte list" where
  "be32 w = [ucast (drop_bit 24 w), ucast (drop_bit 16 w), ucast (drop_bit 8 w), ucast w]"

fun be32_val :: "byte list \<Rightarrow> u32" where
  "be32_val [a, b, c, d] =
     push_bit 24 (ucast a) OR push_bit 16 (ucast b) OR push_bit 8 (ucast c) OR ucast d"
| "be32_val _ = 0"

definition be32_at :: "byte list \<Rightarrow> nat \<Rightarrow> u32 option" where
  "be32_at buf off = map_option be32_val (load_at buf off 4)"

text \<open>Equality of bytes, bit by bit, for goals that evaluate at every position.\<close>

lemma bit_byte_beyond: "8 \<le> n \<Longrightarrow> \<not> bit (b :: byte) n"
  by (auto dest: bit_imp_le_length)

lemma byte_eqI:
  assumes "bit a 0 = bit b 0" "bit a 1 = bit b 1" "bit a 2 = bit b 2" "bit a 3 = bit b 3"
    "bit a 4 = bit b 4" "bit a 5 = bit b 5" "bit a 6 = bit b 6" "bit a 7 = bit b 7"
  shows "a = (b :: byte)"
proof (rule bit_word_eqI)
  fix n
  assume "n < LENGTH(8)"
  then have "n \<in> {0, 1, 2, 3, 4, 5, 6, 7}" by auto
  with assms show "bit a n = bit b n" by auto
qed

lemma length_be32 [simp]: "length (be32 w) = 4"
  by (simp add: be32_def)

lemma be32_val_be32 [simp]: "be32_val (be32 w) = w"
proof (rule bit_word_eqI)
  fix n
  assume "n < LENGTH(32)"
  then consider "n < 8" | "8 \<le> n" "n < 16" | "16 \<le> n" "n < 24" | "24 \<le> n" "n < 32"
    by force
  then show "bit (be32_val (be32 w)) n = bit w n"
    by cases (auto simp: be32_def bit_simps)
qed

lemma be32_be32_val:
  assumes "length bs = 4"
  shows "be32 (be32_val bs) = bs"
proof -
  from assms obtain a b c d where bs: "bs = [a, b, c, d]"
    by (auto simp: eval_nat_numeral length_Suc_conv)
  show ?thesis
    unfolding bs be32_def be32_val.simps list.inject
    by (intro conjI bit_word_eqI) (auto simp: bit_simps dest: bit_imp_le_length)
qed

lemma unat_of_nat_byte: "n \<le> 255 \<Longrightarrow> unat (of_nat n :: byte) = n"
  by (simp add: unat_of_nat)

lemma unat_of_nat_u32: "n < 2 ^ 32 \<Longrightarrow> unat (of_nat n :: u32) = n"
  by (simp add: unat_of_nat)

section \<open>Components driven by operations\<close>

text \<open>
  A stateful component is a step function over a datatype of operations; \<open>ok\<close> says which
  operations its callers make. An invariant kept by one operation holds after any run, and
  after every prefix of it.
\<close>

locale op_machine =
  fixes step :: "'s \<Rightarrow> 'op \<Rightarrow> 's"
    and inv :: "'s \<Rightarrow> bool"
    and ok :: "'op \<Rightarrow> bool"
  assumes step_inv: "inv s \<Longrightarrow> ok e \<Longrightarrow> inv (step s e)"
begin

lemma run_inv: "inv s \<Longrightarrow> list_all ok es \<Longrightarrow> inv (foldl step s es)"
  by (induction es arbitrary: s) (auto simp: step_inv)

lemma prefix_inv: "inv s \<Longrightarrow> list_all ok es \<Longrightarrow> inv (foldl step s (take n es))"
  by (rule run_inv) (auto simp: list_all_iff dest: in_set_takeD)

end

text \<open>
  An admission window: requests are granted exactly while they fit under the capacity. The
  total granted without a release is then bounded by the capacity left, and a request that
  does not fit leaves the window as it is, so repeating it never helps.
\<close>

primrec total_granted ::
    "('w \<Rightarrow> 'n::linordered_idom \<Rightarrow> 'w \<times> bool) \<Rightarrow> 'w \<Rightarrow> 'n list \<Rightarrow> 'n" where
  "total_granted request w [] = 0"
| "total_granted request w (n # ns) =
     (if snd (request w n) then n else 0) + total_granted request (fst (request w n)) ns"

locale admission =
  fixes request :: "'w \<Rightarrow> 'n::linordered_idom \<Rightarrow> 'w \<times> bool"
    and used :: "'w \<Rightarrow> 'n"
    and capacity :: "'w \<Rightarrow> 'n"
  assumes granted_iff: "snd (request w n) \<longleftrightarrow> used w + n \<le> capacity w"
    and used_granted: "0 \<le> n \<Longrightarrow> snd (request w n) \<Longrightarrow> used (fst (request w n)) = used w + n"
    and used_refused: "\<not> snd (request w n) \<Longrightarrow> used (fst (request w n)) = used w"
    and capacity_request: "capacity (fst (request w n)) = capacity w"
begin

lemma used_request:
  "0 \<le> n \<Longrightarrow> used (fst (request w n)) = (if snd (request w n) then used w + n else used w)"
  by (simp add: used_granted used_refused)

lemma used_total:
  "\<forall>n \<in> set ns. 0 \<le> n \<Longrightarrow>
     used (foldl (\<lambda>w n. fst (request w n)) w ns) = used w + total_granted request w ns"
  by (induction ns arbitrary: w) (auto simp: used_request)

lemma total_bound:
  assumes "used w \<le> capacity w" and "\<forall>n \<in> set ns. 0 \<le> n"
  shows "used w + total_granted request w ns \<le> capacity w"
  using assms
proof (induction ns arbitrary: w)
  case (Cons n ns)
  have "used (fst (request w n)) \<le> capacity (fst (request w n))"
    using Cons.prems granted_iff [of w n] by (simp add: used_request capacity_request)
  with Cons have "used (fst (request w n)) + total_granted request (fst (request w n)) ns \<le> capacity w"
    by (metis capacity_request list.set_intros(2))
  then show ?case using Cons.prems(2) by (simp add: used_request add.assoc split: if_splits)
qed simp

lemma refused_stable:
  "\<not> snd (request w n) \<Longrightarrow> \<not> snd (request (fst (request w n)) n)"
  by (simp add: granted_iff used_refused capacity_request)

lemma refused_forever:
  "\<not> snd (request w n) \<Longrightarrow> \<not> snd (request (((\<lambda>w. fst (request w n)) ^^ k) w) n)"
  by (induction k) (auto simp: refused_stable)

end

end
