(* ===== verification/Base64.thy ===== *)
theory Base64
  imports Prelude
begin

text \<open>
  The standard base64 encoding (\<open>base64.StdEncoding\<close> of Go's library), which wraps every
  binary frame on the monitor channel and both layers of the legacy tunnel encoding. The
  decoder skips line ends, wants full quanta with padding at the very end only, and does not
  insist on zero padding bits, as \<open>DecodeString\<close> does.
\<close>

type_synonym sextet = "6 word"

definition b64_alphabet :: string where
  "b64_alphabet = ''ABCDEFGHIJKLMNOPQRSTUVWXYZabcdefghijklmnopqrstuvwxyz0123456789+/''"

definition b64_char :: "sextet \<Rightarrow> char" where
  "b64_char w = b64_alphabet ! unat w"

fun index_of :: "'a \<Rightarrow> 'a list \<Rightarrow> nat option" where
  "index_of x [] = None"
| "index_of x (y # ys) = (if x = y then Some 0 else map_option Suc (index_of x ys))"

definition b64_value :: "char \<Rightarrow> sextet option" where
  "b64_value c = map_option of_nat (index_of c b64_alphabet)"

text \<open>Three bytes as four sextets, and back.\<close>

definition sextets :: "byte \<Rightarrow> byte \<Rightarrow> byte \<Rightarrow> sextet list" where
  "sextets a b c =
     [ucast (drop_bit 2 a), ucast (push_bit 4 a) OR ucast (drop_bit 4 b),
      ucast (push_bit 2 b) OR ucast (drop_bit 6 c), ucast c]"

definition octet1 :: "sextet \<Rightarrow> sextet \<Rightarrow> byte" where
  "octet1 s t = push_bit 2 (ucast s) OR drop_bit 4 (ucast t)"

definition octet2 :: "sextet \<Rightarrow> sextet \<Rightarrow> byte" where
  "octet2 t u = push_bit 4 (ucast t) OR drop_bit 2 (ucast u)"

definition octet3 :: "sextet \<Rightarrow> sextet \<Rightarrow> byte" where
  "octet3 u v = push_bit 6 (ucast u) OR ucast v"

fun base64Encode :: "byte list \<Rightarrow> string" where
  "base64Encode (a # b # c # rest) = map b64_char (sextets a b c) @ base64Encode rest"
| "base64Encode [a, b] = map b64_char (take 3 (sextets a b 0)) @ ''=''"
| "base64Encode [a] = map b64_char (take 2 (sextets a 0 0)) @ ''==''"
| "base64Encode [] = []"

fun b64_quanta :: "string \<Rightarrow> byte list option" where
  "b64_quanta [] = Some []"
| "b64_quanta (c1 # c2 # c3 # c4 # rest) =
     (case (b64_value c1, b64_value c2) of
        (Some s, Some t) \<Rightarrow>
          (case (b64_value c3, b64_value c4) of
             (Some u, Some v) \<Rightarrow>
               map_option (\<lambda>bs. octet1 s t # octet2 t u # octet3 u v # bs) (b64_quanta rest)
           | (Some u, None) \<Rightarrow>
               if c4 = CHR ''='' \<and> rest = [] then Some [octet1 s t, octet2 t u] else None
           | (None, _) \<Rightarrow>
               if c3 = CHR ''='' \<and> c4 = CHR ''='' \<and> rest = [] then Some [octet1 s t] else None)
      | _ \<Rightarrow> None)"
| "b64_quanta _ = None"

definition base64Decode :: "string \<Rightarrow> byte list option" where
  "base64Decode s = b64_quanta (filter (\<lambda>c. c \<noteq> CHR 0x0A \<and> c \<noteq> CHR 0x0D) s)"

section \<open>Round trip\<close>

lemma b64_value_table: "list_all (\<lambda>n. b64_value (b64_alphabet ! n) = Some (of_nat n)
    \<and> b64_alphabet ! n \<noteq> CHR 0x0A \<and> b64_alphabet ! n \<noteq> CHR 0x0D) [0..<64]"
  by code_simp

lemma b64_char_facts:
  shows b64_value_char [simp]: "b64_value (b64_char w) = Some w"
    and b64_char_not_eol [simp]: "b64_char w \<noteq> CHR 0x0A" "b64_char w \<noteq> CHR 0x0D"
proof -
  have "unat w < 64" using unsigned_less [of w, where 'a = nat] by simp
  then have "b64_value (b64_alphabet ! unat w) = Some (of_nat (unat w))
      \<and> b64_alphabet ! unat w \<noteq> CHR 0x0A \<and> b64_alphabet ! unat w \<noteq> CHR 0x0D"
    using b64_value_table by (simp add: list_all_iff)
  then show "b64_value (b64_char w) = Some w" "b64_char w \<noteq> CHR 0x0A" "b64_char w \<noteq> CHR 0x0D"
    by (simp_all add: b64_char_def)
qed

lemma b64_value_pad [simp]: "b64_value CHR ''='' = None"
  by code_simp

lemma octet1_sextets [simp]:
  "octet1 (ucast (drop_bit 2 a)) (ucast (push_bit 4 a) OR ucast (drop_bit 4 (b :: byte))) = a"
  by (rule byte_eqI) (simp_all add: octet1_def bit_simps bit_byte_beyond)

lemma octet2_sextets [simp]:
  "octet2 (ucast (push_bit 4 (a :: byte)) OR ucast (drop_bit 4 b)) (ucast (push_bit 2 b) OR ucast (drop_bit 6 (c :: byte))) = b"
  by (rule byte_eqI) (simp_all add: octet2_def bit_simps bit_byte_beyond)

lemma octet3_sextets [simp]:
  "octet3 (ucast (push_bit 2 (b :: byte)) OR ucast (drop_bit 6 c)) (ucast c) = c"
  by (rule byte_eqI) (simp_all add: octet3_def bit_simps bit_byte_beyond)

lemma base64Encode_no_eol:
  "filter (\<lambda>c. c \<noteq> CHR 0x0A \<and> c \<noteq> CHR 0x0D) (base64Encode bs) = base64Encode bs"
  by (induction bs rule: base64Encode.induct) (simp_all add: sextets_def)

lemma b64_quanta_encode: "b64_quanta (base64Encode bs) = Some bs"
  by (induction bs rule: base64Encode.induct)
    (simp_all add: sextets_def octet1_sextets [where b = 0, simplified]
      octet2_sextets [where c = 0, simplified] split: option.split)

lemma base64_roundtrip [simp]: "base64Decode (base64Encode bs) = Some bs"
  by (simp add: base64Decode_def base64Encode_no_eol b64_quanta_encode)

lemma base64Encode_eq_Nil [simp]: "base64Encode bs = [] \<longleftrightarrow> bs = []"
  by (cases bs rule: base64Encode.cases) (simp_all add: sextets_def)

end
