(* ===== verification/BinaryFrame.thy ===== *)
theory BinaryFrame
  imports Prelude
begin

text \<open>
  The binary frame format: \<^verbatim>\<open>internal/server/protocol/binary.go\<close>
  (\<open>BuildBinaryMessage\<close>, \<open>ParseBinaryMessage\<close>) and the client's own copy in
  \<^verbatim>\<open>internal/client/utils.go\<close> (\<open>buildBinaryMessage\<close>, \<open>parseBinaryMessage\<close>). Both build
  the frame by writes into a zeroed buffer of the exact size; the two parsers differ in
  the bounds check before the fixed part of the header, and the model keeps the
  out-of-range reads of the server's parser as \<open>Panic\<close>. Message types and flags are plain
  \<open>uint8\<close> values, as in the code: any byte can arrive.
\<close>

named_theorems frame_consts \<open>values of the protocol's constants\<close>

section \<open>Constants and the message record\<close>

definition MessageTypeControl :: byte where [frame_consts]: "MessageTypeControl = 0"
definition MessageTypeHTTPRequest :: byte where [frame_consts]: "MessageTypeHTTPRequest = 1"
definition MessageTypeHTTPResponse :: byte where [frame_consts]: "MessageTypeHTTPResponse = 2"
definition MessageTypeTCPData :: byte where [frame_consts]: "MessageTypeTCPData = 3"
definition MessageTypeTCPOpen :: byte where [frame_consts]: "MessageTypeTCPOpen = 4"
definition MessageTypeTCPClose :: byte where [frame_consts]: "MessageTypeTCPClose = 5"
definition MessageTypeFlowControl :: byte where [frame_consts]: "MessageTypeFlowControl = 6"
definition MessageTypeHTTPRequestHead :: byte where [frame_consts]: "MessageTypeHTTPRequestHead = 7"
definition MessageTypeHTTPRequestBody :: byte where [frame_consts]: "MessageTypeHTTPRequestBody = 8"
definition MessageTypeHTTPResponseHead :: byte where [frame_consts]: "MessageTypeHTTPResponseHead = 9"
definition MessageTypeHTTPResponseBody :: byte where [frame_consts]: "MessageTypeHTTPResponseBody = 10"

definition MessageFlagFIN :: byte where [frame_consts]: "MessageFlagFIN = 1"
definition MessageFlagACK :: byte where [frame_consts]: "MessageFlagACK = 2"
definition MessageFlagBackpressure :: byte where [frame_consts]: "MessageFlagBackpressure = 4"

record BinaryMessage =
  bm_Type :: byte
  bm_StreamID :: string
  bm_Sequence :: u32
  bm_Flags :: byte
  bm_Data :: "byte list"

datatype frame_error =
    StreamIDTooLong            \<comment> \<open>stream ID too long (max 255 bytes)\<close>
  | MessageTooShort            \<comment> \<open>message too short (min 11 bytes)\<close>
  | TooShortForStreamID        \<comment> \<open>message too short for stream ID\<close>
  | TooShortForData            \<comment> \<open>message too short for data\<close>

section \<open>The server's codec\<close>

text \<open>
  The writes of \<open>BuildBinaryMessage\<close> in order. Every store is checked against the buffer;
  \<open>None\<close> is the run-time panic of an out-of-range store. The length field is the data
  length cut to 32 bits, as \<open>uint32(len(msg.Data))\<close> is.
\<close>

definition fill_frame :: "BinaryMessage \<Rightarrow> byte list option" where
  "fill_frame msg =
     (let streamIDBytes = str_bytes (bm_StreamID msg);
          streamIDLength = length streamIDBytes;
          headerSize = 1 + 1 + streamIDLength + 4 + 1 + 4;
          totalSize = headerSize + length (bm_Data msg);
          buffer = replicate totalSize 0
      in Option.bind (store_at buffer 0 [bm_Type msg]) (\<lambda>buffer.
         Option.bind (store_at buffer 1 [of_nat streamIDLength]) (\<lambda>buffer.
         Option.bind (copy_at buffer 2 streamIDBytes) (\<lambda>buffer.
         let offset = 2 + streamIDLength in
         Option.bind (store_at buffer offset (be32 (bm_Sequence msg))) (\<lambda>buffer.
         Option.bind (store_at buffer (offset + 4) [bm_Flags msg]) (\<lambda>buffer.
         Option.bind (store_at buffer (offset + 5) (be32 (of_nat (length (bm_Data msg))))) (\<lambda>buffer.
         copy_at buffer (offset + 9) (bm_Data msg))))))))"

definition BuildBinaryMessage :: "BinaryMessage \<Rightarrow> (frame_error, byte list) outcome" where
  "BuildBinaryMessage msg =
     (if length (str_bytes (bm_StreamID msg)) > 255 then Err StreamIDTooLong
      else case fill_frame msg of None \<Rightarrow> Panic | Some buffer \<Rightarrow> Ok buffer)"

text \<open>
  The reads after the stream id: sequence, flags, data length, data. Shared by both
  parsers, because the code after their (different) bounds checks is the same.
\<close>

definition parse_tail :: "byte list \<Rightarrow> byte \<Rightarrow> string \<Rightarrow> nat \<Rightarrow> (frame_error, BinaryMessage) outcome" where
  "parse_tail buffer msgType streamID offset =
     (case be32_at buffer offset of None \<Rightarrow> Panic | Some sequence \<Rightarrow>
      (case load_at buffer (offset + 4) 1 of None \<Rightarrow> Panic | Some flags \<Rightarrow>
       (case be32_at buffer (offset + 5) of None \<Rightarrow> Panic | Some dataLength \<Rightarrow>
        (if length buffer < offset + 9 + unat dataLength then Err TooShortForData
         else case load_at buffer (offset + 9) (unat dataLength) of None \<Rightarrow> Panic
              | Some data \<Rightarrow>
                Ok \<lparr>bm_Type = msgType, bm_StreamID = streamID, bm_Sequence = sequence,
                    bm_Flags = hd flags, bm_Data = data\<rparr>))))"

definition ParseBinaryMessage :: "byte list \<Rightarrow> (frame_error, BinaryMessage) outcome" where
  "ParseBinaryMessage buffer =
     (if length buffer < 11 then Err MessageTooShort
      else let msgType = buffer ! 0; streamIDLength = unat (buffer ! 1) in
        if length buffer < 2 + streamIDLength then Err TooShortForStreamID
        else case load_at buffer 2 streamIDLength of None \<Rightarrow> Panic
             | Some streamID \<Rightarrow>
               parse_tail buffer msgType (bytes_str streamID) (2 + streamIDLength))"

section \<open>The client's codec\<close>

text \<open>
  \<open>buildBinaryMessage\<close> panics where the server's version returns an error, and
  \<open>parseBinaryMessage\<close> checks the whole fixed header at once.
\<close>

definition buildBinaryMessage :: "BinaryMessage \<Rightarrow> (frame_error, byte list) outcome" where
  "buildBinaryMessage msg =
     (if length (str_bytes (bm_StreamID msg)) > 255 then Panic
      else case fill_frame msg of None \<Rightarrow> Panic | Some buffer \<Rightarrow> Ok buffer)"

definition parseBinaryMessage :: "byte list \<Rightarrow> (frame_error, BinaryMessage) outcome" where
  "parseBinaryMessage buffer =
     (if length buffer < 11 then Err MessageTooShort
      else let msgType = buffer ! 0; streamIDLen = unat (buffer ! 1) in
        if length buffer < 2 + streamIDLen + 4 + 1 + 4 then Err TooShortForStreamID
        else case load_at buffer 2 streamIDLen of None \<Rightarrow> Panic
             | Some streamID \<Rightarrow>
               parse_tail buffer msgType (bytes_str streamID) (2 + streamIDLen))"

section \<open>The layout of a frame\<close>

text \<open>The reference layout, and the proof that the buffer writes produce it.\<close>

definition frame_layout :: "BinaryMessage \<Rightarrow> byte list" where
  "frame_layout msg =
     [bm_Type msg] @ [of_nat (length (bm_StreamID msg))] @ str_bytes (bm_StreamID msg)
       @ be32 (bm_Sequence msg) @ [bm_Flags msg] @ be32 (of_nat (length (bm_Data msg))) @ bm_Data msg"

definition wf_frame :: "BinaryMessage \<Rightarrow> bool" where
  "wf_frame msg \<longleftrightarrow> length (bm_StreamID msg) \<le> 255 \<and> length (bm_Data msg) < 2 ^ 32"

lemma store_at_zeros:
  "off = length done \<Longrightarrow> length src \<le> n \<Longrightarrow>
     store_at (done @ replicate n z) off src = Some (done @ src @ replicate (n - length src) z)"
  by (simp add: store_at_replicate)

lemma copy_at_zeros:
  "off = length done \<Longrightarrow> length src \<le> n \<Longrightarrow>
     copy_at (done @ replicate n z) off src = Some (done @ src @ replicate (n - length src) z)"
  by (simp add: copy_at_replicate)

lemma fill_frame_layout: "fill_frame msg = Some (frame_layout msg)"
proof -
  let ?s = "str_bytes (bm_StreamID msg)" and ?d = "bm_Data msg"
  let ?z = "\<lambda>n. replicate n (0::byte)"
  let ?b0 = "[] @ ?z (11 + length ?s + length ?d)"
  let ?p1 = "[bm_Type msg]"
  let ?p2 = "?p1 @ [of_nat (length ?s)]"
  let ?p3 = "?p2 @ ?s"
  let ?p4 = "?p3 @ be32 (bm_Sequence msg)"
  let ?p5 = "?p4 @ [bm_Flags msg]"
  let ?p6 = "?p5 @ be32 (of_nat (length ?d))"
  have "store_at ?b0 0 [bm_Type msg] = Some (?p1 @ ?z (10 + length ?s + length ?d))"
    by (subst store_at_zeros) auto
  moreover have "store_at (?p1 @ ?z (10 + length ?s + length ?d)) 1 [of_nat (length ?s)]
      = Some (?p2 @ ?z (9 + length ?s + length ?d))"
    by (subst store_at_zeros) auto
  moreover have "copy_at (?p2 @ ?z (9 + length ?s + length ?d)) 2 ?s = Some (?p3 @ ?z (9 + length ?d))"
    by (subst copy_at_zeros) auto
  moreover have "store_at (?p3 @ ?z (9 + length ?d)) (2 + length ?s) (be32 (bm_Sequence msg))
      = Some (?p4 @ ?z (5 + length ?d))"
    by (subst store_at_zeros) auto
  moreover have "store_at (?p4 @ ?z (5 + length ?d)) (2 + length ?s + 4) [bm_Flags msg]
      = Some (?p5 @ ?z (4 + length ?d))"
    by (subst store_at_zeros) auto
  moreover have "store_at (?p5 @ ?z (4 + length ?d)) (2 + length ?s + 5) (be32 (of_nat (length ?d)))
      = Some (?p6 @ ?z (length ?d))"
    by (subst store_at_zeros) auto
  moreover have "copy_at (?p6 @ ?z (length ?d)) (2 + length ?s + 9) ?d = Some (?p6 @ ?d)"
    by (subst copy_at_zeros) auto
  ultimately show ?thesis
    by (simp add: fill_frame_def frame_layout_def Let_def eval_nat_numeral)
qed

lemma length_frame_layout [simp]:
  "length (frame_layout msg) = 11 + length (bm_StreamID msg) + length (bm_Data msg)"
  by (simp add: frame_layout_def)

section \<open>Reading a frame back\<close>

text \<open>The reads of \<open>parse_tail\<close>, in terms of the bytes that lie at the offset.\<close>

lemma parse_tail_at:
  assumes "length sq = 4" "length dl = 4" "offset = length pre"
  shows "parse_tail (pre @ sq @ [fl] @ dl @ rest) ty sid offset =
     (if length rest < unat (be32_val dl) then Err TooShortForData
      else Ok \<lparr>bm_Type = ty, bm_StreamID = sid, bm_Sequence = be32_val sq, bm_Flags = fl,
               bm_Data = take (unat (be32_val dl)) rest\<rparr>)"
proof -
  have "load_at (pre @ sq @ [fl] @ dl @ rest) offset 4 = Some sq"
    using assms load_at_append [of pre sq "[fl] @ dl @ rest"] by simp
  moreover have "load_at (pre @ sq @ [fl] @ dl @ rest) (offset + 4) 1 = Some [fl]"
    using assms load_at_append [of "pre @ sq" "[fl]" "dl @ rest"] by simp
  moreover have "load_at (pre @ sq @ [fl] @ dl @ rest) (offset + 5) 4 = Some dl"
    using assms load_at_append [of "pre @ sq @ [fl]" dl "rest"] by simp
  ultimately show ?thesis
    using assms by (simp add: parse_tail_def be32_at_def load_at_def)
qed

text \<open>Any buffer with the full fixed header has that shape.\<close>

lemma buffer_shape:
  assumes "offset + 9 \<le> length buffer"
  obtains sq fl dl rest where "buffer = take offset buffer @ sq @ [fl] @ dl @ rest"
    and "length sq = 4" and "length dl = 4"
proof
  let ?b = "drop offset buffer"
  have len: "length ?b \<ge> 9" using assms by simp
  have "?b = take 4 ?b @ drop 4 ?b" by (rule append_take_drop_id [symmetric])
  also have "drop 4 ?b = [?b ! 4] @ drop 5 ?b"
    using len Cons_nth_drop_Suc [of 4 ?b] by simp
  also have "drop 5 ?b = take 4 (drop 5 ?b) @ drop 4 (drop 5 ?b)"
    by (rule append_take_drop_id [symmetric])
  finally have "?b = take 4 ?b @ [?b ! 4] @ take 4 (drop 5 ?b) @ drop 4 (drop 5 ?b)" .
  then show "buffer = take offset buffer @ take 4 ?b @ [?b ! 4] @ take 4 (drop 5 ?b) @ drop 4 (drop 5 ?b)"
    by (metis append_take_drop_id)
  show "length (take 4 ?b) = 4" "length (take 4 (drop 5 ?b)) = 4"
    using assms by simp_all
qed

lemma parse_tail_Panic_iff:
  "parse_tail buffer ty sid offset = Panic \<longleftrightarrow> length buffer < offset + 9"
proof (cases "offset + 9 \<le> length buffer")
  case True
  from buffer_shape [OF this] obtain sq fl dl rest where
    b: "buffer = take offset buffer @ sq @ [fl] @ dl @ rest" "length sq = 4" "length dl = 4"
    by blast
  have "parse_tail buffer ty sid offset \<noteq> Panic"
    using True parse_tail_at [OF b(2,3), of offset "take offset buffer" fl rest ty sid] b(1)
    by (simp split: if_splits)
  with True show ?thesis by simp
next
  case False
  then show ?thesis
    by (auto simp: parse_tail_def be32_at_def load_at_def split: option.split)
qed

lemma parse_tail_Ok:
  assumes "parse_tail buffer ty sid offset = Ok msg"
  obtains rest where
    "buffer = take offset buffer @ be32 (bm_Sequence msg) @ [bm_Flags msg]
        @ be32 (of_nat (length (bm_Data msg))) @ bm_Data msg @ rest"
    and "bm_Type msg = ty" and "bm_StreamID msg = sid" and "length (bm_Data msg) < 2 ^ 32"
    and "offset \<le> length buffer"
proof -
  have "offset + 9 \<le> length buffer"
    using assms parse_tail_Panic_iff [of buffer ty sid offset] by fastforce
  from buffer_shape [OF this] obtain sq fl dl rest where
    b: "buffer = take offset buffer @ sq @ [fl] @ dl @ rest" "length sq = 4" "length dl = 4"
    by blast
  let ?n = "unat (be32_val dl)"
  from parse_tail_at [OF b(2,3), of offset "take offset buffer" fl rest ty sid] assms b(1)
    \<open>offset + 9 \<le> length buffer\<close>
  have n: "?n \<le> length rest" and msg: "msg = \<lparr>bm_Type = ty, bm_StreamID = sid,
      bm_Sequence = be32_val sq, bm_Flags = fl, bm_Data = take ?n rest\<rparr>"
    by (simp_all split: if_splits)
  show thesis
  proof (rule that [of "drop ?n rest"])
    have "of_nat (length (take ?n rest)) = be32_val dl" using n by simp
    then show "buffer = take offset buffer @ be32 (bm_Sequence msg) @ [bm_Flags msg]
        @ be32 (of_nat (length (bm_Data msg))) @ bm_Data msg @ drop ?n rest"
      using b n by (simp add: msg be32_be32_val)
    show "length (bm_Data msg) < 2 ^ 32"
      using n unsigned_less [of "be32_val dl", where 'a = nat] by (simp add: msg)
  qed (use msg \<open>offset + 9 \<le> length buffer\<close> in simp_all)
qed

text \<open>Both parsers, as the common tail behind their own bounds check.\<close>

lemma parse_head:
  assumes "2 + n \<le> length buffer"
  shows "load_at buffer 2 n = Some (take n (drop 2 buffer))"
  using assms by (simp add: load_at_def)

lemma ParseBinaryMessage_cases:
  "ParseBinaryMessage buffer =
     (if length buffer < 11 then Err MessageTooShort
      else if length buffer < 2 + unat (buffer ! 1) then Err TooShortForStreamID
      else parse_tail buffer (buffer ! 0) (bytes_str (take (unat (buffer ! 1)) (drop 2 buffer)))
             (2 + unat (buffer ! 1)))"
  by (simp add: ParseBinaryMessage_def Let_def parse_head)

lemma parseBinaryMessage_cases:
  "parseBinaryMessage buffer =
     (if length buffer < 11 then Err MessageTooShort
      else if length buffer < 11 + unat (buffer ! 1) then Err TooShortForStreamID
      else ParseBinaryMessage buffer)"
  by (simp add: parseBinaryMessage_def ParseBinaryMessage_cases Let_def parse_head)

lemma ParseBinaryMessage_Panic_iff:
  "ParseBinaryMessage buffer = Panic \<longleftrightarrow>
     11 \<le> length buffer \<and> 2 + unat (buffer ! 1) \<le> length buffer
       \<and> length buffer < 11 + unat (buffer ! 1)"
  by (auto simp: ParseBinaryMessage_cases parse_tail_Panic_iff)

lemma parseBinaryMessage_not_Panic: "parseBinaryMessage buffer \<noteq> Panic"
  by (simp add: parseBinaryMessage_cases ParseBinaryMessage_Panic_iff)

lemma ParseBinaryMessage_layout:
  assumes "wf_frame msg"
  shows "ParseBinaryMessage (frame_layout msg @ rest) = Ok msg"
proof -
  let ?s = "str_bytes (bm_StreamID msg)" and ?n = "length (bm_StreamID msg)"
  let ?pre = "[bm_Type msg, of_nat ?n] @ ?s"
  let ?dl = "be32 (of_nat (length (bm_Data msg)))"
  have n: "unat (of_nat ?n :: byte) = ?n" and d: "unat (of_nat (length (bm_Data msg)) :: u32) = length (bm_Data msg)"
    using assms by (simp_all only: wf_frame_def unat_of_nat_byte unat_of_nat_u32)
  have buf: "frame_layout msg @ rest
      = ?pre @ be32 (bm_Sequence msg) @ [bm_Flags msg] @ ?dl @ (bm_Data msg @ rest)"
    by (simp add: frame_layout_def)
  have "parse_tail (frame_layout msg @ rest) (bm_Type msg) (bm_StreamID msg) (2 + ?n) = Ok msg"
    unfolding buf
    by (subst parse_tail_at) (simp_all add: d)
  moreover have "(frame_layout msg @ rest) ! 0 = bm_Type msg"
    and "(frame_layout msg @ rest) ! 1 = of_nat ?n"
    and "take ?n (drop 2 (frame_layout msg @ rest)) = ?s"
    by (simp_all add: frame_layout_def)
  ultimately show ?thesis
    by (simp add: ParseBinaryMessage_cases n)
qed

lemma ParseBinaryMessage_sound:
  assumes "ParseBinaryMessage buffer = Ok msg"
  shows "wf_frame msg \<and> (\<exists>rest. buffer = frame_layout msg @ rest)"
proof -
  let ?n = "unat (buffer ! 1)"
  from assms have len: "11 \<le> length buffer" "2 + ?n \<le> length buffer"
    and tail: "parse_tail buffer (buffer ! 0) (bytes_str (take ?n (drop 2 buffer))) (2 + ?n) = Ok msg"
    by (auto simp: ParseBinaryMessage_cases split: if_splits)
  from parse_tail_Ok [OF tail] obtain rest where
    b: "buffer = take (2 + ?n) buffer @ be32 (bm_Sequence msg) @ [bm_Flags msg]
          @ be32 (of_nat (length (bm_Data msg))) @ bm_Data msg @ rest"
    and m: "bm_Type msg = buffer ! 0" "bm_StreamID msg = bytes_str (take ?n (drop 2 buffer))"
      "length (bm_Data msg) < 2 ^ 32"
    by blast
  have lid: "length (bm_StreamID msg) = ?n" using m(2) len by simp
  have "take (2 + ?n) buffer = [buffer ! 0, buffer ! 1] @ take ?n (drop 2 buffer)"
    using len by (cases buffer; cases "tl buffer") (simp_all add: numeral_2_eq_2)
  moreover have "of_nat (length (bm_StreamID msg)) = buffer ! 1"
    unfolding lid by simp
  ultimately have "take (2 + ?n) buffer
      = [bm_Type msg] @ [of_nat (length (bm_StreamID msg))] @ str_bytes (bm_StreamID msg)"
    unfolding m(1) m(2) str_bytes_str by simp
  with b have "buffer = frame_layout msg @ rest"
    unfolding frame_layout_def by (metis append.assoc)
  moreover have "length (bm_StreamID msg) \<le> 255"
    using lid unsigned_less [of "buffer ! 1", where 'a = nat] by simp
  ultimately show ?thesis using m(3) by (auto simp: wf_frame_def)
qed

lemma frame_layout_second: "wf_frame msg \<Longrightarrow>
    unat ((frame_layout msg @ rest) ! 1) = length (bm_StreamID msg)"
  by (simp add: frame_layout_def wf_frame_def unat_of_nat_byte)

lemma parse_agree: "parseBinaryMessage buffer = Ok msg \<longleftrightarrow> ParseBinaryMessage buffer = Ok msg"
proof
  assume ok: "ParseBinaryMessage buffer = Ok msg"
  from ParseBinaryMessage_sound [OF this] obtain rest where
    wf: "wf_frame msg" and b: "buffer = frame_layout msg @ rest" by blast
  with frame_layout_second [OF wf, of rest] ok show "parseBinaryMessage buffer = Ok msg"
    by (simp add: parseBinaryMessage_cases)
qed (simp add: parseBinaryMessage_cases split: if_splits)

section \<open>A frame link: the builder of one end and the parser of the other\<close>

text \<open>
  What the two ends of the tunnel rely on. The tunnel runs two links, server to client and
  client to server, and both are instances below.
\<close>

locale frame_link =
  fixes build :: "BinaryMessage \<Rightarrow> (frame_error, byte list) outcome"
    and parse :: "byte list \<Rightarrow> (frame_error, BinaryMessage) outcome"
  assumes build_layout: "wf_frame m \<Longrightarrow> build m = Ok (frame_layout m)"
    and parse_layout: "wf_frame m \<Longrightarrow> parse (frame_layout m @ rest) = Ok m"
    and parse_sound: "parse b = Ok m \<Longrightarrow> wf_frame m \<and> (\<exists>rest. b = frame_layout m @ rest)"
begin

lemma roundtrip: "wf_frame m \<Longrightarrow> obind (build m) parse = Ok m"
  using parse_layout [of m "[]"] by (simp add: build_layout)

lemma build_inject:
  assumes "wf_frame m" "wf_frame m'" "build m = build m'"
  shows "m = m'"
  by (metis assms outcome.inject(1) roundtrip)

lemma reencode:
  assumes "parse b = Ok m"
  shows "\<exists>frame rest. build m = Ok frame \<and> b = frame @ rest"
  using parse_sound [OF assms] build_layout by blast

end

interpretation server_to_client: frame_link BuildBinaryMessage parseBinaryMessage
proof
  show "wf_frame m \<Longrightarrow> BuildBinaryMessage m = Ok (frame_layout m)" for m
    by (simp add: BuildBinaryMessage_def wf_frame_def fill_frame_layout)
  show "wf_frame m \<Longrightarrow> parseBinaryMessage (frame_layout m @ rest) = Ok m" for m rest
    by (simp add: parse_agree ParseBinaryMessage_layout)
  show "parseBinaryMessage b = Ok m \<Longrightarrow> wf_frame m \<and> (\<exists>rest. b = frame_layout m @ rest)" for b m
    by (simp add: parse_agree ParseBinaryMessage_sound)
qed

interpretation client_to_server: frame_link buildBinaryMessage ParseBinaryMessage
proof
  show "wf_frame m \<Longrightarrow> buildBinaryMessage m = Ok (frame_layout m)" for m
    by (simp add: buildBinaryMessage_def wf_frame_def fill_frame_layout)
qed (simp_all add: ParseBinaryMessage_layout ParseBinaryMessage_sound)

end
