(* ===== verification/Capabilities.thy ===== *)
theory Capabilities
  imports GoStrings
begin

text \<open>
  Versions and capability negotiation: \<open>compareVersion\<close> and \<open>GetClientCapabilities\<close> of
  \<^verbatim>\<open>internal/client/types.go\<close>, the server's \<open>negotiateCapabilities\<close> of
  \<^verbatim>\<open>internal/server/channels/monitor/helpers.go\<close>, the server's \<open>CompareVersion\<close> of
  \<^verbatim>\<open>internal/server/utils/utils.go\<close>, the choice of the adapter in
  \<^verbatim>\<open>internal/server/protocol/factory.go\<close>, and the legacy wire switch by peer version of
  \<^verbatim>\<open>internal/server/protocol/legacy.go\<close>. Pointers that may be nil are options; flags are
  Go integers, hence \<open>int\<close> with the bitwise operators.
\<close>

named_theorems capability_consts \<open>values of the capability constants\<close>

section \<open>Data\<close>

definition CapabilityFlagBinaryProtocol :: int where [capability_consts]: "CapabilityFlagBinaryProtocol = 1"
definition CapabilityFlagCompression :: int where [capability_consts]: "CapabilityFlagCompression = 2"
definition CapabilityFlagStreaming :: int where [capability_consts]: "CapabilityFlagStreaming = 4"
definition CapabilityFlagFlowControl :: int where [capability_consts]: "CapabilityFlagFlowControl = 8"
definition CapabilityFlagHTTPBinary :: int where [capability_consts]: "CapabilityFlagHTTPBinary = 16"
definition CapabilityFlagHTTPStreaming :: int where [capability_consts]: "CapabilityFlagHTTPStreaming = 32"
definition CapabilityFlagTCPOverWS :: int where [capability_consts]: "CapabilityFlagTCPOverWS = 64"
definition CapabilityFlagTCPMultiplex :: int where [capability_consts]: "CapabilityFlagTCPMultiplex = 128"
definition CapabilityFlagHTTPBodyStream :: int where [capability_consts]: "CapabilityFlagHTTPBodyStream = 256"
definition CapabilityFlagTCPEarlyStreamRegister :: int where
  [capability_consts]: "CapabilityFlagTCPEarlyStreamRegister = 512"

record CompressionFeatures =
  Algorithms :: "string list"
  Preferred :: string

record ChunkSizeFeatures =
  cs_Min :: int
  cs_Max :: int
  cs_Default :: int

record CapabilityFeatures =
  f_Compression :: "CompressionFeatures option"
  f_ChunkSize :: "ChunkSizeFeatures option"
  f_FlowControl :: "int option"   \<comment> \<open>\<open>FlowControlFeatures\<close> has the one field \<open>WindowSize\<close>\<close>

record Capabilities =
  cap_Flags :: int
  cap_Version :: string
  cap_Features :: "CapabilityFeatures option"

definition has_flag :: "Capabilities \<Rightarrow> int \<Rightarrow> bool" where
  "has_flag c f \<longleftrightarrow> cap_Flags c AND f \<noteq> 0"

section \<open>Versions\<close>

fun compare_parts :: "string list \<Rightarrow> string list \<Rightarrow> nat \<Rightarrow> nat \<Rightarrow> int" where
  "compare_parts parts1 parts2 i 0 = 0"
| "compare_parts parts1 parts2 i (Suc k) =
     (let num1 = (if i < length parts1 then fst (Atoi (parts1 ! i)) else 0);
          num2 = (if i < length parts2 then fst (Atoi (parts2 ! i)) else 0)
      in if num1 < num2 then -1 else if num1 > num2 then 1
         else compare_parts parts1 parts2 (Suc i) k)"

definition compareVersion :: "string \<Rightarrow> string \<Rightarrow> int" where
  "compareVersion v1 v2 =
     (let parts1 = Split v1 CHR ''.''; parts2 = Split v2 CHR ''.'';
          maxLen = max (length parts1) (length parts2)
      in compare_parts parts1 parts2 0 maxLen)"

text \<open>The server's comparison is the comparison of the strings.\<close>

definition CompareVersion :: "string \<Rightarrow> string \<Rightarrow> int" where
  "CompareVersion v1 v2 = (if v1 < v2 then -1 else if v1 > v2 then 1 else 0)"

definition IsVersionGreaterOrEqual :: "string \<Rightarrow> string \<Rightarrow> bool" where
  "IsVersionGreaterOrEqual v1 v2 \<longleftrightarrow> CompareVersion v1 v2 \<ge> 0"

definition parse_nums :: "string list \<Rightarrow> int list option" where
  "parse_nums parts =
     (if list_all (\<lambda>p. snd (Atoi p) \<and> fst (Atoi p) \<ge> 0) parts then Some (map (fst \<circ> Atoi) parts) else None)"

definition parseSemver :: "string \<Rightarrow> int \<times> int \<times> int \<times> bool" where
  "parseSemver version =
     (let v = TrimSpace (TrimPrefix version ''v'') in
      if v = [] then (0, 0, 0, False)
      else
        let v = takeWhile (\<lambda>c. c \<noteq> CHR ''-'' \<and> c \<noteq> CHR ''+'') v;
            parts = Split v CHR ''.''
        in if length parts = 0 \<or> length parts > 3 then (0, 0, 0, False)
           else case parse_nums parts of
                  None \<Rightarrow> (0, 0, 0, False)
                | Some ns \<Rightarrow>
                    let nums = ns @ replicate (3 - length ns) 0 in (nums ! 0, nums ! 1, nums ! 2, True))"

definition shouldUseCompressedOuter :: "string \<Rightarrow> bool" where
  "shouldUseCompressedOuter version =
     (case parseSemver version of (major, minor, patch, ok) \<Rightarrow>
        if \<not> ok then True
        else if major > 1 then True
        else if major < 1 then False
        else if minor > 3 then True
        else if minor < 3 then False
        else patch \<ge> 0)"

section \<open>Capabilities of the two ends\<close>

definition GetClientCapabilities :: "string \<Rightarrow> Capabilities option" where
  "GetClientCapabilities version =
     (if compareVersion version ''2.0.0'' < 0 then None
      else Some
        \<lparr>cap_Flags = CapabilityFlagBinaryProtocol OR CapabilityFlagCompression OR
             CapabilityFlagStreaming OR CapabilityFlagFlowControl OR CapabilityFlagHTTPBinary OR
             CapabilityFlagTCPOverWS OR CapabilityFlagHTTPBodyStream OR
             CapabilityFlagTCPEarlyStreamRegister,
         cap_Version = ''2.0.0'',
         cap_Features = Some
           \<lparr>f_Compression = Some \<lparr>Algorithms = [''brotli'', ''gzip''], Preferred = ''''\<rparr>,
            f_ChunkSize = Some \<lparr>cs_Min = 1024, cs_Max = 512 * 1024, cs_Default = 64 * 1024\<rparr>,
            f_FlowControl = Some (512 * 1024)\<rparr>\<rparr>)"

definition serverFlags :: int where
  "serverFlags = CapabilityFlagBinaryProtocol OR CapabilityFlagCompression OR
     CapabilityFlagStreaming OR CapabilityFlagFlowControl OR CapabilityFlagHTTPBinary OR
     CapabilityFlagHTTPStreaming OR CapabilityFlagTCPOverWS OR CapabilityFlagTCPMultiplex OR
     CapabilityFlagHTTPBodyStream OR CapabilityFlagTCPEarlyStreamRegister"

definition serverAlgorithms :: "string list" where
  "serverAlgorithms = [''brotli'', ''gzip'']"

definition serverChunk :: ChunkSizeFeatures where
  "serverChunk = \<lparr>cs_Min = 1024, cs_Max = 1024 * 1024, cs_Default = 64 * 1024\<rparr>"

definition serverWindow :: int where
  "serverWindow = 1024 * 1024"

definition serverCapabilities :: Capabilities where
  "serverCapabilities =
     \<lparr>cap_Flags = serverFlags, cap_Version = ''2.0.0'',
      cap_Features = Some
        \<lparr>f_Compression = Some \<lparr>Algorithms = serverAlgorithms, Preferred = ''''\<rparr>,
         f_ChunkSize = Some serverChunk, f_FlowControl = Some serverWindow\<rparr>\<rparr>"

section \<open>Negotiation\<close>

definition clientAlgorithms :: "Capabilities \<Rightarrow> string list" where
  "clientAlgorithms c = (case cap_Features c of None \<Rightarrow> []
     | Some f \<Rightarrow> (case f_Compression f of None \<Rightarrow> [] | Some k \<Rightarrow> Algorithms k))"

definition negotiateCompression :: "Capabilities \<Rightarrow> CompressionFeatures option" where
  "negotiateCompression c =
     (let commonAlgorithms = filter (\<lambda>alg. alg \<in> set serverAlgorithms) (clientAlgorithms c)
      in if commonAlgorithms = [] then None
         else Some \<lparr>Algorithms = commonAlgorithms,
                    Preferred = (if ''brotli'' \<in> set commonAlgorithms then ''brotli''
                                 else hd commonAlgorithms)\<rparr>)"

text \<open>
  The chunk sizes read \<open>clientCapabilities.Features\<close> without a nil check, and panic on nil.
\<close>

definition negotiateChunkSize :: "Capabilities \<Rightarrow> (unit, ChunkSizeFeatures) outcome" where
  "negotiateChunkSize c =
     (case cap_Features c of
        None \<Rightarrow> Panic
      | Some f \<Rightarrow>
          (case f_ChunkSize f of
             Some clientChunk \<Rightarrow> Ok
               \<lparr>cs_Min = (if cs_Min serverChunk > cs_Min clientChunk then cs_Min serverChunk else cs_Min clientChunk),
                cs_Max = (if cs_Max serverChunk < cs_Max clientChunk then cs_Max serverChunk else cs_Max clientChunk),
                cs_Default = (if cs_Default serverChunk < cs_Default clientChunk
                              then cs_Default serverChunk else cs_Default clientChunk)\<rparr>
           | None \<Rightarrow> Ok serverChunk))"

definition negotiateWindow :: "Capabilities \<Rightarrow> int" where
  "negotiateWindow c =
     (let clientWindow = (case cap_Features c of None \<Rightarrow> 0
            | Some f \<Rightarrow> (case f_FlowControl f of None \<Rightarrow> 0 | Some w \<Rightarrow> w));
          windowSize = (if serverWindow < clientWindow \<or> clientWindow = 0 then serverWindow else clientWindow)
      in if windowSize = 0 then 1024 * 1024 else windowSize)"

definition negotiateCapabilities :: "Capabilities option \<Rightarrow> (unit, Capabilities option) outcome" where
  "negotiateCapabilities clientCapabilities =
     (case clientCapabilities of
        None \<Rightarrow> Ok None
      | Some c \<Rightarrow>
          if cap_Flags c = 0 then Ok None
          else let negotiatedFlags = cap_Flags c AND cap_Flags serverCapabilities in
            if negotiatedFlags = 0 then Ok None
            else
              let compression = (if negotiatedFlags AND CapabilityFlagCompression \<noteq> 0
                                 then negotiateCompression c else None);
                  window = (if negotiatedFlags AND CapabilityFlagFlowControl \<noteq> 0
                            then Some (negotiateWindow c) else None);
                  finish = (\<lambda>chunk. Ok (Some
                    \<lparr>cap_Flags = negotiatedFlags, cap_Version = cap_Version serverCapabilities,
                     cap_Features = Some \<lparr>f_Compression = compression, f_ChunkSize = chunk,
                                          f_FlowControl = window\<rparr>\<rparr>))
              in if negotiatedFlags AND CapabilityFlagStreaming \<noteq> 0
                 then obind (negotiateChunkSize c) (\<lambda>chunk. finish (Some chunk))
                 else finish None)"

definition isLegacyClient :: "Capabilities option \<Rightarrow> bool" where
  "isLegacyClient caps = (case caps of None \<Rightarrow> True | Some c \<Rightarrow> cap_Flags c = 0)"

text \<open>The adapter the factory builds: the binary one needs capabilities with some flag.\<close>

datatype adapter_kind = LegacyAdapter | BinaryAdapter Capabilities

definition FactoryCreate :: "Capabilities option \<Rightarrow> adapter_kind" where
  "FactoryCreate capabilities =
     (case capabilities of
        None \<Rightarrow> LegacyAdapter
      | Some c \<Rightarrow> if cap_Flags c = 0 then LegacyAdapter else BinaryAdapter c)"

section \<open>Facts about negotiation\<close>

lemma serverFlags_value [simp]: "serverFlags = 1023"
  by (simp add: serverFlags_def capability_consts)

lemma and_server_flag:
  "f \<in> {1, 2, 4, 8, 16, 32, 64, 128, 256, 512} \<Longrightarrow> (x AND 1023) AND f = x AND (f :: int)"
  by (auto simp: and.assoc)

lemma server_window_value [simp]: "serverWindow = 1048576"
  by (simp add: serverWindow_def)

lemma negotiate_cases:
  "negotiateCapabilities (Some c) =
     (if cap_Flags c AND 1023 = 0 then Ok None
      else if has_flag c CapabilityFlagStreaming \<and> cap_Features c = None then Panic
      else Ok (Some
        \<lparr>cap_Flags = cap_Flags c AND 1023, cap_Version = ''2.0.0'',
         cap_Features = Some
           \<lparr>f_Compression = (if has_flag c CapabilityFlagCompression then negotiateCompression c else None),
            f_ChunkSize = (if has_flag c CapabilityFlagStreaming
              then (case negotiateChunkSize c of Ok k \<Rightarrow> Some k | _ \<Rightarrow> None) else None),
            f_FlowControl = (if has_flag c CapabilityFlagFlowControl then Some (negotiateWindow c) else None)\<rparr>\<rparr>))"
  by (auto simp: negotiateCapabilities_def Let_def has_flag_def capability_consts serverCapabilities_def
      and.assoc negotiateChunkSize_def split: option.split)

lemma negotiateCompression_sound:
  assumes "negotiateCompression c = Some k"
  shows "Preferred k \<in> set (Algorithms k)
    \<and> set (Algorithms k) = set (clientAlgorithms c) \<inter> set serverAlgorithms"
proof -
  let ?common = "filter (\<lambda>alg. alg \<in> set serverAlgorithms) (clientAlgorithms c)"
  have "?common \<noteq> []" and k: "k = \<lparr>Algorithms = ?common,
      Preferred = (if ''brotli'' \<in> set ?common then ''brotli'' else hd ?common)\<rparr>"
    using assms by (auto simp: negotiateCompression_def Let_def split: if_splits)
  then have "Preferred k \<in> set ?common" by (simp del: set_filter)
  then show ?thesis by (auto simp: k)
qed

lemma Preferred_brotli_gzip:
  "negotiateCompression c = Some k \<Longrightarrow> Preferred k = ''brotli'' \<or> Preferred k = ''gzip''"
  using negotiateCompression_sound [of c k] by (auto simp: serverAlgorithms_def)

lemma negotiateWindow_bounds:
  "negotiateWindow c \<le> serverWindow"
  "negotiateWindow c \<noteq> 0"
  by (auto simp: negotiateWindow_def Let_def split: option.split)

lemma negotiateChunkSize_bounds:
  "negotiateChunkSize c = Ok k \<Longrightarrow>
     cs_Default k \<le> cs_Default serverChunk \<and> cs_Min serverChunk \<le> cs_Min k \<and> cs_Max k \<le> cs_Max serverChunk"
  by (auto simp: negotiateChunkSize_def split: option.splits)

section \<open>Semantic versions in their order\<close>

datatype semver = SemVer int int int

instantiation semver :: linorder
begin

fun less_eq_semver :: "semver \<Rightarrow> semver \<Rightarrow> bool" where
  "less_eq_semver (SemVer a b c) (SemVer a' b' c') \<longleftrightarrow>
     a < a' \<or> a = a' \<and> (b < b' \<or> b = b' \<and> c \<le> c')"

definition less_semver :: "semver \<Rightarrow> semver \<Rightarrow> bool" where
  "less_semver v w \<longleftrightarrow> v \<le> w \<and> \<not> w \<le> v"

instance
proof
  fix x y z :: semver
  show "x < y \<longleftrightarrow> x \<le> y \<and> \<not> y \<le> x" by (rule less_semver_def)
  show "x \<le> x" by (cases x) simp
  show "x \<le> y \<Longrightarrow> y \<le> z \<Longrightarrow> x \<le> z" by (cases x; cases y; cases z) auto
  show "x \<le> y \<Longrightarrow> y \<le> x \<Longrightarrow> x = y" by (cases x; cases y) auto
  show "x \<le> y \<or> y \<le> x" by (cases x; cases y) auto
qed

end

lemma parse_nums_nonneg: "parse_nums parts = Some ns \<Longrightarrow> list_all (\<lambda>n. 0 \<le> n) ns"
  by (auto simp: parse_nums_def list_all_iff split: if_splits)

lemma parse_nums_length: "parse_nums parts = Some ns \<Longrightarrow> length ns = length parts"
  by (auto simp: parse_nums_def split: if_splits)

lemma parseSemver_nonneg:
  assumes "parseSemver v = (major, minor, patch, True)"
  shows "0 \<le> major \<and> 0 \<le> minor \<and> 0 \<le> patch"
proof -
  let ?parts = "Split (takeWhile (\<lambda>c. c \<noteq> CHR ''-'' \<and> c \<noteq> CHR ''+'') (TrimSpace (TrimPrefix v ''v''))) CHR ''.''"
  from assms obtain ns where ns: "parse_nums ?parts = Some ns" and "length ?parts \<le> 3"
    and eq: "major = (ns @ replicate (3 - length ns) 0) ! 0" "minor = (ns @ replicate (3 - length ns) 0) ! 1"
      "patch = (ns @ replicate (3 - length ns) 0) ! 2"
    by (simp add: parseSemver_def Let_def not_less split: if_splits option.splits)
  moreover have "length ns = length ?parts" using parse_nums_length [OF ns] .
  ultimately have len: "length ns \<le> 3" by simp
  let ?l = "ns @ replicate (3 - length ns) 0"
  have "list_all (\<lambda>n. 0 \<le> n) ?l" and "length ?l = 3"
    using parse_nums_nonneg [OF ns] len by (auto simp: list_all_iff)
  then have "0 \<le> ?l ! 0" "0 \<le> ?l ! 1" "0 \<le> ?l ! 2"
    unfolding list_all_length by simp_all
  then show ?thesis unfolding eq by blast
qed

section \<open>The numeric comparison\<close>

lemma compare_parts_antisym:
  "compare_parts ps qs i k = - compare_parts qs ps i k"
  by (induction ps qs i k rule: compare_parts.induct) (auto simp: Let_def)

lemma compareVersion_antisym: "compareVersion v w = - compareVersion w v"
  unfolding compareVersion_def Let_def
  by (subst max.commute) (rule compare_parts_antisym)

lemma compare_parts_refl [simp]: "compare_parts ps ps i k = 0"
  by (induction k arbitrary: i) (auto simp: Let_def)

lemma compareVersion_refl [simp]: "compareVersion v v = 0"
  by (simp add: compareVersion_def)

end
