(* ===== verification/Payloads.thy ===== *)
theory Payloads
  imports Base64 BinaryFrame Capabilities
begin

text \<open>
  The payload encodings on the monitor channel: the legacy tunnel encoding of
  \<^verbatim>\<open>internal/legacytunnel/codec.go\<close>, the compression helpers of
  \<^verbatim>\<open>internal/server/protocol/compression.go\<close>, and the client's decoders of
  \<^verbatim>\<open>internal/client/http_tunnel_decode.go\<close>. The Brotli codec (a third-party package) and
  the deflate coding of \<open>compress/gzip\<close> are parameters, the record \<open>Codec\<close>: each function
  gives \<open>None\<close> where the Go call returns an error.
\<close>

section \<open>The compression codecs as parameters\<close>

record Codec =
  brotli_compress :: "byte list \<Rightarrow> byte list option"
  brotli_decompress :: "byte list \<Rightarrow> byte list option"
  gzip_compress :: "byte list \<Rightarrow> byte list option"
  gzip_decompress :: "byte list \<Rightarrow> byte list option"

text \<open>
  What the code relies on: a compressed stream is never empty and decompresses to the data
  it was made from.
\<close>

definition codec_ok :: "Codec \<Rightarrow> bool" where
  "codec_ok k \<longleftrightarrow>
     (\<forall>x y. brotli_compress k x = Some y \<longrightarrow> y \<noteq> [] \<and> brotli_decompress k y = Some x) \<and>
     (\<forall>x y. gzip_compress k x = Some y \<longrightarrow> y \<noteq> [] \<and> gzip_decompress k y = Some x)"

definition compressBrotli :: "Codec \<Rightarrow> byte list \<Rightarrow> byte list option" where
  "compressBrotli k data = brotli_compress k data"

definition decompressBrotli :: "Codec \<Rightarrow> byte list \<Rightarrow> byte list option" where
  "decompressBrotli k data = brotli_decompress k data"

definition compressGzipBytes :: "Codec \<Rightarrow> byte list \<Rightarrow> byte list option" where
  "compressGzipBytes k data = gzip_compress k data"

definition decompressGzipBytes :: "Codec \<Rightarrow> byte list \<Rightarrow> byte list option" where
  "decompressGzipBytes k data = gzip_decompress k data"

definition compressGzip :: "Codec \<Rightarrow> string \<Rightarrow> string option" where
  "compressGzip k data = map_option base64Encode (compressGzipBytes k (str_bytes data))"

definition decompressGzip :: "Codec \<Rightarrow> string \<Rightarrow> string option" where
  "decompressGzip k data =
     (case base64Decode data of None \<Rightarrow> None
      | Some compressed \<Rightarrow> map_option bytes_str (decompressGzipBytes k compressed))"

section \<open>The legacy tunnel encoding\<close>

datatype payload_error =
    OuterBase64 | DecompressOuter | InnerBase64 | CompressFailed
  | ParseBinary frame_error | UnexpectedType byte | DecompressFailed

definition EncodeOuter :: "Codec \<Rightarrow> string \<Rightarrow> (payload_error, string) outcome" where
  "EncodeOuter k innerBase64 =
     (case compressBrotli k (str_bytes innerBase64) of
        None \<Rightarrow> Err CompressFailed
      | Some buf \<Rightarrow> Ok (base64Encode buf))"

definition http_methods :: "string list" where
  "http_methods = [''GET '', ''POST '', ''PUT '', ''DELETE '', ''HEAD '', ''OPTIONS '',
     ''CONNECT '', ''PATCH '', ''TRACE '']"

definition looksLikeRawHTTP :: "byte list \<Rightarrow> bool" where
  "looksLikeRawHTTP b =
     (if b = [] then False
      else let h = bytes_str (take 24 b) in
        if HasPrefix h ''HTTP/'' then True else list_ex (HasPrefix h) http_methods)"

definition DecodePayload :: "Codec \<Rightarrow> string \<Rightarrow> (payload_error, byte list) outcome" where
  "DecodePayload k wire =
     (case base64Decode wire of
        None \<Rightarrow> Err OuterBase64
      | Some b \<Rightarrow>
          if looksLikeRawHTTP b then Ok b
          else
            case (case decompressBrotli k b of
                    Some inner \<Rightarrow> Some inner
                  | None \<Rightarrow> decompressGzipBytes k b) of
              None \<Rightarrow> Err DecompressOuter
            | Some inner \<Rightarrow>
                (case base64Decode (bytes_str inner) of
                   None \<Rightarrow> Err InnerBase64
                 | Some raw \<Rightarrow> Ok raw))"

definition CallbackWireString :: "Codec \<Rightarrow> string \<Rightarrow> (payload_error, string) outcome" where
  "CallbackWireString k wire = obind (DecodePayload k wire) (\<lambda>raw. Ok (base64Encode raw))"

section \<open>Decompression by negotiated capabilities\<close>

text \<open>The algorithm a receiver assumes: the preferred one, Brotli when none is named.\<close>

definition receiver_algorithm :: "Capabilities \<Rightarrow> string" where
  "receiver_algorithm caps =
     (case cap_Features caps of None \<Rightarrow> ''brotli''
      | Some f \<Rightarrow> (case f_Compression f of None \<Rightarrow> ''brotli''
          | Some c \<Rightarrow> if Preferred c = '''' then ''brotli'' else ToLower (Preferred c)))"

definition decompress_by :: "Codec \<Rightarrow> string \<Rightarrow> byte list \<Rightarrow> byte list option" where
  "decompress_by k alg data =
     (if alg = ''gzip'' then decompressGzipBytes k data else decompressBrotli k data)"

definition DecompressBinaryPayloadForCapabilities ::
    "Codec \<Rightarrow> Capabilities option \<Rightarrow> byte list \<Rightarrow> byte list option" where
  "DecompressBinaryPayloadForCapabilities k caps data =
     (case caps of None \<Rightarrow> Some data
      | Some c \<Rightarrow>
          if \<not> has_flag c CapabilityFlagCompression \<or> data = [] then Some data
          else decompress_by k (receiver_algorithm c) data)"

definition decompressTunnelSemanticHead ::
    "Codec \<Rightarrow> byte list \<Rightarrow> Capabilities option \<Rightarrow> byte list option" where
  "decompressTunnelSemanticHead k data caps =
     (case caps of None \<Rightarrow> Some data
      | Some c \<Rightarrow>
          if \<not> has_flag c CapabilityFlagCompression \<or> data = [] then Some data
          else decompress_by k (receiver_algorithm c) data)"

definition decodeLegacyHTTPRequestPayload :: "Codec \<Rightarrow> string \<Rightarrow> (payload_error, byte list) outcome" where
  "decodeLegacyHTTPRequestPayload k data = DecodePayload k data"

definition decodeNewProtocolHTTPRequestPayload ::
    "Codec \<Rightarrow> string \<Rightarrow> Capabilities option \<Rightarrow> (payload_error, byte list) outcome" where
  "decodeNewProtocolHTTPRequestPayload k data caps =
     (case base64Decode data of
        None \<Rightarrow> Err OuterBase64
      | Some raw \<Rightarrow>
          (case parseBinaryMessage raw of
             Err e \<Rightarrow> Err (ParseBinary e)
           | Panic \<Rightarrow> Panic
           | Ok msg \<Rightarrow>
               if bm_Type msg \<noteq> MessageTypeHTTPRequest then Err (UnexpectedType (bm_Type msg))
               else
                 let payload = bm_Data msg in
                 case caps of None \<Rightarrow> Ok payload
                 | Some c \<Rightarrow>
                     if has_flag c CapabilityFlagCompression \<and> payload \<noteq> [] then
                       (case decompress_by k (receiver_algorithm c) payload of
                          None \<Rightarrow> Err DecompressFailed
                        | Some p \<Rightarrow> Ok p)
                     else Ok payload))"

lemma codec_okD:
  assumes "codec_ok k"
  shows "brotli_compress k x = Some y \<Longrightarrow> y \<noteq> [] \<and> brotli_decompress k y = Some x"
    and "gzip_compress k x = Some y \<Longrightarrow> y \<noteq> [] \<and> gzip_decompress k y = Some x"
  using assms by (auto simp: codec_ok_def)

lemma gzip_string_roundtrip:
  "codec_ok k \<Longrightarrow> compressGzip k s = Some z \<Longrightarrow> decompressGzip k z = Some s"
  by (auto simp: compressGzip_def decompressGzip_def compressGzipBytes_def decompressGzipBytes_def
      codec_okD)

text \<open>The two receivers decompress alike.\<close>

lemma receivers_agree:
  "decompressTunnelSemanticHead k data caps = DecompressBinaryPayloadForCapabilities k caps data"
  by (simp add: decompressTunnelSemanticHead_def DecompressBinaryPayloadForCapabilities_def)

end
