(* ===== verification/Json.thy ===== *)
theory Json
  imports Prelude
begin

text \<open>
  JSON values as the code builds and inspects them (\<open>[]interface{}\<close>, \<open>map[string]interface{}\<close>
  and type assertions). The text form of JSON is not modelled: a text frame on a WebSocket
  is the value it carries. \<open>json.Marshal\<close> does not fail on these values.
\<close>

datatype json =
    JNull | JBool bool | JNum int | JStr string
  | JArr "json list" | JObj "(string \<times> json) list"

text \<open>\<open>v, _ := m[key].(string)\<close>: the empty string when the key is missing or not a string.\<close>

definition get_string :: "(string \<times> json) list \<Rightarrow> string \<Rightarrow> string" where
  "get_string m key = (case map_of m key of Some (JStr s) \<Rightarrow> s | _ \<Rightarrow> '''')"

text \<open>A monitor message is \<open>[event, payload]\<close>; a tunnel payload is \<open>{id, data}\<close>.\<close>

definition monitor_message :: "string \<Rightarrow> json \<Rightarrow> json" where
  "monitor_message event payload = JArr [JStr event, payload]"

definition id_data :: "string \<Rightarrow> string \<Rightarrow> json" where
  "id_data sid data = JObj [(''id'', JStr sid), (''data'', JStr data)]"

lemma get_string_id_data [simp]:
  "get_string [(''id'', JStr sid), (''data'', JStr data)] ''id'' = sid"
  "get_string [(''id'', JStr sid), (''data'', JStr data)] ''data'' = data"
  by (simp_all add: get_string_def)

end
