(* ===== verification/FlowControl.thy ===== *)
theory FlowControl
  imports Prelude "HOL-Library.Signed_Division"
begin

text \<open>
  \<^verbatim>\<open>internal/server/protocol/flow_controller.go\<close>: the send and receive windows of each
  stream. An operation returns the new controller, its result, and the call of
  \<open>onBackpressure\<close> it makes, if any: every operation makes at most one such call, as its
  last action, and the adapter (theory \<open>Adapter\<close>) carries it out. Go's \<open>int\<close> is modelled
  by \<open>int\<close>: the windows stay between 0 and the maximum window (shown below), so no sum
  leaves the 64-bit range. Go's division truncates towards zero, hence \<open>sdiv\<close>.
\<close>

section \<open>State and operations\<close>

record WindowState =
  SendWindow :: int
  ReceiveWindow :: int
  MaxWindowSize :: int

record FlowController =
  windows :: "string \<Rightarrow> WindowState option"
  defaultMaxWindowSize :: int
  onBackpressure :: bool   \<comment> \<open>whether a callback is installed\<close>

text \<open>A call of \<open>onBackpressure(streamId, pause)\<close>.\<close>

type_synonym signal = "(string \<times> bool) option"

definition NewFlowController :: "int \<Rightarrow> bool \<Rightarrow> FlowController" where
  "NewFlowController sz cb =
     \<lparr>windows = Map.empty, defaultMaxWindowSize = sz, onBackpressure = cb\<rparr>"

definition fresh_window :: "int \<Rightarrow> WindowState" where
  "fresh_window sz = \<lparr>SendWindow = 0, ReceiveWindow = sz, MaxWindowSize = sz\<rparr>"

definition notify :: "FlowController \<Rightarrow> string \<Rightarrow> bool \<Rightarrow> signal" where
  "notify fc streamId pause = (if onBackpressure fc then Some (streamId, pause) else None)"

definition set_window :: "FlowController \<Rightarrow> string \<Rightarrow> WindowState \<Rightarrow> FlowController" where
  "set_window fc streamId w = fc\<lparr>windows := (windows fc)(streamId \<mapsto> w)\<rparr>"

text \<open>The optional argument \<open>maxWindowSize ...int\<close> is a list; only a positive first element counts.\<close>

definition InitializeStream :: "FlowController \<Rightarrow> string \<Rightarrow> int list \<Rightarrow> FlowController" where
  "InitializeStream fc streamId maxWindowSize =
     (let windowSize = (case maxWindowSize of
            [] \<Rightarrow> defaultMaxWindowSize fc
          | m # _ \<Rightarrow> if m > 0 then m else defaultMaxWindowSize fc)
      in set_window fc streamId (fresh_window windowSize))"

definition CanSend :: "FlowController \<Rightarrow> string \<Rightarrow> int \<Rightarrow> bool" where
  "CanSend fc streamId sz =
     (case windows fc streamId of
        None \<Rightarrow> True
      | Some w \<Rightarrow> SendWindow w + sz \<le> MaxWindowSize w)"

text \<open>The window of a stream, created with the default sz when the stream is new.\<close>

definition auto_init :: "FlowController \<Rightarrow> string \<Rightarrow> FlowController \<times> WindowState" where
  "auto_init fc streamId =
     (case windows fc streamId of
        None \<Rightarrow> (let w = fresh_window (defaultMaxWindowSize fc) in (set_window fc streamId w, w))
      | Some w \<Rightarrow> (fc, w))"

definition TrySend :: "FlowController \<Rightarrow> string \<Rightarrow> int \<Rightarrow> FlowController \<times> bool \<times> signal" where
  "TrySend fc streamId sz =
     (let (fc, w) = auto_init fc streamId in
      if SendWindow w + sz > MaxWindowSize w then (fc, False, notify fc streamId True)
      else (set_window fc streamId (w\<lparr>SendWindow := SendWindow w + sz\<rparr>), True, None))"

definition Send :: "FlowController \<Rightarrow> string \<Rightarrow> int \<Rightarrow> FlowController \<times> bool \<times> signal" where
  "Send fc streamId sz = TrySend fc streamId sz"

definition OnAck :: "FlowController \<Rightarrow> string \<Rightarrow> int \<Rightarrow> FlowController \<times> signal" where
  "OnAck fc streamId ackedSize =
     (case windows fc streamId of
        None \<Rightarrow> (fc, None)
      | Some w \<Rightarrow>
          let w = (if SendWindow w > ackedSize then w\<lparr>SendWindow := SendWindow w - ackedSize\<rparr>
                   else w\<lparr>SendWindow := 0\<rparr>)
          in (set_window fc streamId w,
              if SendWindow w < MaxWindowSize w sdiv 2 then notify fc streamId False else None))"

definition Receive :: "FlowController \<Rightarrow> string \<Rightarrow> int \<Rightarrow> FlowController \<times> bool \<times> signal" where
  "Receive fc streamId sz =
     (let (fc, w) = auto_init fc streamId in
      if ReceiveWindow w < sz then (fc, False, notify fc streamId True)
      else (set_window fc streamId (w\<lparr>ReceiveWindow := ReceiveWindow w - sz\<rparr>), True, None))"

definition ReleaseReceiveWindow :: "FlowController \<Rightarrow> string \<Rightarrow> int \<Rightarrow> FlowController \<times> signal" where
  "ReleaseReceiveWindow fc streamId sz =
     (case windows fc streamId of
        None \<Rightarrow> (fc, None)
      | Some w \<Rightarrow>
          let newWindow = ReceiveWindow w + sz;
              w = (if newWindow > MaxWindowSize w then w\<lparr>ReceiveWindow := MaxWindowSize w\<rparr>
                   else w\<lparr>ReceiveWindow := newWindow\<rparr>)
          in (set_window fc streamId w,
              if ReceiveWindow w > MaxWindowSize w sdiv 2 then notify fc streamId False else None))"

definition GetWindowState :: "FlowController \<Rightarrow> string \<Rightarrow> WindowState option" where
  "GetWindowState fc streamId = windows fc streamId"

definition fc_RemoveStream :: "FlowController \<Rightarrow> string \<Rightarrow> FlowController" where
  "fc_RemoveStream fc streamId = fc\<lparr>windows := (windows fc)(streamId := None)\<rparr>"

definition fc_Clear :: "FlowController \<Rightarrow> FlowController" where
  "fc_Clear fc = fc\<lparr>windows := Map.empty\<rparr>"

section \<open>The controller as a machine\<close>

datatype fc_op =
    OpInit string "int list"
  | OpTrySend string int
  | OpAck string int
  | OpReceive string int
  | OpRelease string int
  | OpRemove string
  | OpClear

fun fc_step :: "FlowController \<Rightarrow> fc_op \<Rightarrow> FlowController" where
  "fc_step fc (OpInit s m) = InitializeStream fc s m"
| "fc_step fc (OpTrySend s n) = fst (TrySend fc s n)"
| "fc_step fc (OpAck s n) = fst (OnAck fc s n)"
| "fc_step fc (OpReceive s n) = fst (Receive fc s n)"
| "fc_step fc (OpRelease s n) = fst (ReleaseReceiveWindow fc s n)"
| "fc_step fc (OpRemove s) = fc_RemoveStream fc s"
| "fc_step fc OpClear = fc_Clear fc"

text \<open>Sizes are lengths of byte slices, so they are never negative.\<close>

fun fc_op_ok :: "fc_op \<Rightarrow> bool" where
  "fc_op_ok (OpTrySend s n) = (0 \<le> n)"
| "fc_op_ok (OpAck s n) = (0 \<le> n)"
| "fc_op_ok (OpReceive s n) = (0 \<le> n)"
| "fc_op_ok (OpRelease s n) = (0 \<le> n)"
| "fc_op_ok _ = True"

definition window_ok :: "WindowState \<Rightarrow> bool" where
  "window_ok w \<longleftrightarrow> 0 \<le> SendWindow w \<and> SendWindow w \<le> MaxWindowSize w
     \<and> 0 \<le> ReceiveWindow w \<and> ReceiveWindow w \<le> MaxWindowSize w"

definition fc_inv :: "FlowController \<Rightarrow> bool" where
  "fc_inv fc \<longleftrightarrow> 0 \<le> defaultMaxWindowSize fc \<and> (\<forall>s w. windows fc s = Some w \<longrightarrow> window_ok w)"

lemmas fc_defs = InitializeStream_def TrySend_def OnAck_def Receive_def ReleaseReceiveWindow_def
  fc_RemoveStream_def fc_Clear_def auto_init_def set_window_def fresh_window_def

lemma window_ok_fresh [simp]: "0 \<le> n \<Longrightarrow> window_ok (fresh_window n)"
  by (simp add: window_ok_def fresh_window_def)

lemma fc_inv_window: "fc_inv fc \<Longrightarrow> windows fc s = Some w \<Longrightarrow> window_ok w"
  by (simp add: fc_inv_def)

lemma fc_inv_set_window [intro]: "fc_inv fc \<Longrightarrow> window_ok w \<Longrightarrow> fc_inv (set_window fc s w)"
  by (auto simp: fc_inv_def set_window_def)

lemma fc_inv_auto_init:
  "fc_inv fc \<Longrightarrow> auto_init fc s = (fc', w) \<Longrightarrow> fc_inv fc' \<and> window_ok w"
  by (auto simp: auto_init_def Let_def fc_inv_def set_window_def split: option.splits if_splits)

lemma fc_step_inv: "fc_inv fc \<Longrightarrow> fc_op_ok e \<Longrightarrow> fc_inv (fc_step fc e)"
proof (cases e)
  case (OpInit s m)
  assume "fc_inv fc"
  then have "0 \<le> defaultMaxWindowSize fc" by (simp add: fc_inv_def)
  with \<open>fc_inv fc\<close> show ?thesis
    using OpInit by (auto simp: InitializeStream_def split: list.split)
next
  case (OpTrySend s n)
  assume "fc_inv fc" "fc_op_ok e"
  with OpTrySend show ?thesis
    using fc_inv_auto_init [of fc s]
    by (auto simp: TrySend_def window_ok_def split: prod.split)
next
  case (OpAck s n)
  assume "fc_inv fc" "fc_op_ok e"
  with OpAck show ?thesis
    using fc_inv_window [of fc s]
    by (auto simp: OnAck_def Let_def window_ok_def split: option.split)
next
  case (OpReceive s n)
  assume "fc_inv fc" "fc_op_ok e"
  with OpReceive show ?thesis
    using fc_inv_auto_init [of fc s]
    by (auto simp: Receive_def window_ok_def split: prod.split)
next
  case (OpRelease s n)
  assume "fc_inv fc" "fc_op_ok e"
  with OpRelease show ?thesis
    using fc_inv_window [of fc s]
    by (auto simp: ReleaseReceiveWindow_def Let_def window_ok_def split: option.split)
qed (auto simp: fc_RemoveStream_def fc_Clear_def fc_inv_def)

interpretation fc: op_machine fc_step fc_inv fc_op_ok
  by unfold_locales (rule fc_step_inv)

section \<open>The send side against its contract\<close>

text \<open>
  What a sender relies on: the credit counter of one stream as an abstract admission
  window. \<open>in_flight\<close> reads the bytes admitted and not yet acknowledged, and an admission
  never takes it past the capacity.
\<close>

definition in_flight :: "FlowController \<Rightarrow> string \<Rightarrow> int" where
  "in_flight fc s = (case windows fc s of None \<Rightarrow> 0 | Some w \<Rightarrow> SendWindow w)"

definition send_limit :: "FlowController \<Rightarrow> string \<Rightarrow> int" where
  "send_limit fc s = (case windows fc s of None \<Rightarrow> defaultMaxWindowSize fc | Some w \<Rightarrow> MaxWindowSize w)"

lemma TrySend_admits:
  "fst (snd (TrySend fc s n)) \<longleftrightarrow> in_flight fc s + n \<le> send_limit fc s"
  by (auto simp: TrySend_def auto_init_def in_flight_def send_limit_def fresh_window_def Let_def
      split: option.split)

lemma TrySend_in_flight:
  "in_flight (fst (TrySend fc s n)) s =
     (if fst (snd (TrySend fc s n)) then in_flight fc s + n else in_flight fc s)"
  by (auto simp: TrySend_def auto_init_def in_flight_def fresh_window_def set_window_def Let_def
      split: option.split)

lemma TrySend_send_limit [simp]: "send_limit (fst (TrySend fc s n)) s = send_limit fc s"
  by (auto simp: TrySend_def auto_init_def send_limit_def fresh_window_def set_window_def Let_def
      split: option.split)

lemma TrySend_other [simp]: "t \<noteq> s \<Longrightarrow> windows (fst (TrySend fc s n)) t = windows fc t"
  by (auto simp: TrySend_def auto_init_def set_window_def Let_def split: option.split)

lemma CanSend_in_flight:
  "windows fc s \<noteq> None \<Longrightarrow> CanSend fc s n \<longleftrightarrow> in_flight fc s + n \<le> send_limit fc s"
  by (auto simp: CanSend_def in_flight_def send_limit_def split: option.split)

lemma OnAck_in_flight:
  "0 \<le> n \<Longrightarrow> 0 \<le> in_flight fc s \<Longrightarrow>
     in_flight (fst (OnAck fc s n)) s = max 0 (in_flight fc s - n)"
  by (auto simp: OnAck_def in_flight_def set_window_def Let_def split: option.split)

lemma OnAck_send_limit [simp]: "send_limit (fst (OnAck fc s n)) s = send_limit fc s"
  by (auto simp: OnAck_def send_limit_def set_window_def Let_def split: option.split)

interpretation stream_window: admission
  "\<lambda>fc n. (fst (TrySend fc s n), fst (snd (TrySend fc s n)))"
  "\<lambda>fc. in_flight fc s" "\<lambda>fc. send_limit fc s" for s
  by unfold_locales (simp_all add: TrySend_admits TrySend_in_flight split: if_splits)

end
