(* ===== verification/StreamManager.thy ===== *)
theory StreamManager
  imports Prelude
begin

text \<open>
  \<^verbatim>\<open>internal/server/protocol/stream_manager.go\<close>: reassembly of chunked messages. A
  \<open>Stream\<close> buffers chunks by sequence number and hands the whole message to \<open>OnComplete\<close>;
  the \<open>StreamManager\<close> keeps the streams by id, splits outgoing data and evicts stalled
  streams. Calls of the callbacks are returned as values, for the adapter to carry out.
  A nil map (after \<open>Destroy\<close>) is \<open>None\<close>: it reads as empty, and a store into it panics.
  Times are nanoseconds; the clock reading is an argument.
\<close>

section \<open>A stream\<close>

datatype StreamState =
    StreamStateInitializing | StreamStateActive | StreamStatePaused
  | StreamStateCompleted | StreamStateError

record StreamChunk =
  ck_Sequence :: u32
  ck_Data :: "byte list"
  ck_IsLast :: bool

record Stream =
  st_ID :: string
  st_State :: StreamState
  st_Chunks :: "(u32 \<Rightarrow> StreamChunk option) option"
  st_ExpectedSequence :: u32
  st_TotalChunks :: int
  st_OnComplete :: bool   \<comment> \<open>whether a callback is set\<close>
  st_OnError :: bool
  st_CompletedData :: "byte list option"
  st_createdAt :: int
  st_lastActivity :: int

definition NewStream :: "int \<Rightarrow> string \<Rightarrow> Stream" where
  "NewStream now sid =
     \<lparr>st_ID = sid, st_State = StreamStateInitializing, st_Chunks = Some Map.empty,
      st_ExpectedSequence = 0, st_TotalChunks = -1, st_OnComplete = False, st_OnError = False,
      st_CompletedData = None, st_createdAt = now, st_lastActivity = now\<rparr>"

definition chunk_at :: "Stream \<Rightarrow> u32 \<Rightarrow> StreamChunk option" where
  "chunk_at s q = (case st_Chunks s of None \<Rightarrow> None | Some m \<Rightarrow> m q)"

text \<open>One turn of the reassembly loop: take the chunk out, append its data, advance.\<close>

definition consume_chunk :: "Stream \<Rightarrow> StreamChunk \<Rightarrow> Stream" where
  "consume_chunk s c = s\<lparr>
     st_Chunks := map_option (\<lambda>m. m(st_ExpectedSequence s := None)) (st_Chunks s),
     st_CompletedData := Some ((case st_CompletedData s of None \<Rightarrow> [] | Some d \<Rightarrow> d) @ ck_Data c),
     st_ExpectedSequence := st_ExpectedSequence s + 1\<rparr>"

definition complete_stream :: "Stream \<Rightarrow> Stream \<times> byte list option" where
  "complete_stream s =
     (s\<lparr>st_State := StreamStateCompleted\<rparr>, if st_OnComplete s then st_CompletedData s else None)"

lemma chunk_at_consume:
  "chunk_at (consume_chunk s c) q = (if q = st_ExpectedSequence s then None else chunk_at s q)"
  by (simp add: chunk_at_def consume_chunk_def split: option.split)

definition buffered :: "Stream \<Rightarrow> u32 set" where
  "buffered s = {q. chunk_at s q \<noteq> None}"

lemma card_buffered_consume:
  assumes "chunk_at s (st_ExpectedSequence s) = Some c"
  shows "card (buffered (consume_chunk s c)) < card (buffered s)"
proof (rule psubset_card_mono)
  show "buffered (consume_chunk s c) \<subset> buffered s"
    using assms by (auto simp: buffered_def chunk_at_consume)
qed simp

function tryReassemble :: "Stream \<Rightarrow> Stream \<times> byte list option" where
  "tryReassemble s =
     (case chunk_at s (st_ExpectedSequence s) of
        None \<Rightarrow> (s, None)
      | Some c \<Rightarrow>
          let s' = consume_chunk s c in
          if ck_IsLast c then complete_stream s'
          else if st_TotalChunks s' > 0 \<and> st_ExpectedSequence s' \<ge> word_of_int (st_TotalChunks s')
          then complete_stream s'
          else tryReassemble s')"
  by pat_completeness auto
termination
  by (relation "measure (\<lambda>s. card (buffered s))") (auto simp: card_buffered_consume)

declare tryReassemble.simps [simp del]

definition stream_AddChunk ::
    "int \<Rightarrow> Stream \<Rightarrow> u32 \<Rightarrow> byte list \<Rightarrow> bool \<Rightarrow> (unit, Stream \<times> byte list option) outcome" where
  "stream_AddChunk now s sq data isLast =
     (if st_State s = StreamStateCompleted \<or> st_State s = StreamStateError then Ok (s, None)
      else
        let s = s\<lparr>st_lastActivity := now\<rparr> in
        case st_Chunks s of
          None \<Rightarrow> Panic
        | Some m \<Rightarrow>
            let s = s\<lparr>st_Chunks := Some (m(sq \<mapsto>
                  \<lparr>ck_Sequence = sq, ck_Data = data, ck_IsLast = isLast\<rparr>))\<rparr>;
                s = (if isLast then s\<lparr>st_TotalChunks := int (unat sq) + 1\<rparr> else s)
            in Ok (tryReassemble s))"

definition stream_Pause :: "Stream \<Rightarrow> Stream" where
  "stream_Pause s = (if st_State s = StreamStateActive then s\<lparr>st_State := StreamStatePaused\<rparr> else s)"

definition stream_Resume :: "Stream \<Rightarrow> Stream \<times> byte list option" where
  "stream_Resume s =
     (if st_State s = StreamStatePaused then tryReassemble (s\<lparr>st_State := StreamStateActive\<rparr>)
      else (s, None))"

definition stream_Destroy :: "Stream \<Rightarrow> Stream" where
  "stream_Destroy s =
     s\<lparr>st_Chunks := None, st_CompletedData := None, st_OnComplete := False, st_OnError := False\<rparr>"

section \<open>The manager\<close>

record StreamManager =
  sm_streams :: "(string \<Rightarrow> Stream option) option"
  sm_defaultChunkSize :: int
  sm_maxStreamAge :: int
  sm_stallTimeout :: int
  sm_stopped :: bool   \<comment> \<open>\<open>stopCleanup\<close> is closed\<close>

definition ns_minute :: int where "ns_minute = 60000000000"

definition NewStreamManager :: "int \<Rightarrow> StreamManager" where
  "NewStreamManager sz =
     \<lparr>sm_streams = Some Map.empty, sm_defaultChunkSize = sz, sm_maxStreamAge = 5 * ns_minute,
      sm_stallTimeout = 2 * ns_minute, sm_stopped = False\<rparr>"

text \<open>
  The splitting loop. \<open>None\<close> is a loop that never returns: with size 0 the index stays put.
  The slice \<open>data[i:end]\<close> panics when \<open>end < i\<close>.
\<close>

partial_function (option) split_loop ::
    "byte list \<Rightarrow> int \<Rightarrow> int \<Rightarrow> byte list list \<Rightarrow> (unit, byte list list) outcome option" where
  "split_loop data sz i chunks =
     (if i < int (length data) then
        (let en = (if i + sz > int (length data) then int (length data) else i + sz) in
         if 0 \<le> i \<and> i \<le> en
         then split_loop data sz (i + sz) (chunks @ [take (nat (en - i)) (drop (nat i) data)])
         else Some Panic)
      else Some (Ok chunks))"

definition SplitIntoChunks ::
    "StreamManager \<Rightarrow> byte list \<Rightarrow> int \<Rightarrow> (unit, byte list list) outcome option" where
  "SplitIntoChunks sm data chunkSize =
     split_loop data (if chunkSize \<le> 0 then sm_defaultChunkSize sm else chunkSize) 0 []"

definition new_active :: "int \<Rightarrow> string \<Rightarrow> bool \<Rightarrow> bool \<Rightarrow> Stream" where
  "new_active now sid onComplete onError =
     (NewStream now sid)\<lparr>st_State := StreamStateActive, st_OnComplete := onComplete,
        st_OnError := onError\<rparr>"

definition GetStream :: "StreamManager \<Rightarrow> string \<Rightarrow> Stream option" where
  "GetStream sm sid = (case sm_streams sm of None \<Rightarrow> None | Some m \<Rightarrow> m sid)"

definition put_stream :: "StreamManager \<Rightarrow> string \<Rightarrow> Stream \<Rightarrow> (unit, StreamManager) outcome" where
  "put_stream sm sid s =
     (case sm_streams sm of None \<Rightarrow> Panic | Some m \<Rightarrow> Ok (sm\<lparr>sm_streams := Some (m(sid \<mapsto> s))\<rparr>))"

definition CreateStream ::
    "int \<Rightarrow> StreamManager \<Rightarrow> string \<Rightarrow> bool \<Rightarrow> bool \<Rightarrow> (unit, StreamManager) outcome" where
  "CreateStream now sm sid onComplete onError =
     put_stream sm sid (new_active now sid onComplete onError)"

definition EnsureStream ::
    "int \<Rightarrow> StreamManager \<Rightarrow> string \<Rightarrow> bool \<Rightarrow> bool \<Rightarrow> (unit, StreamManager) outcome" where
  "EnsureStream now sm sid onComplete onError =
     (case GetStream sm sid of
        Some _ \<Rightarrow> Ok sm
      | None \<Rightarrow> put_stream sm sid (new_active now sid onComplete onError))"

text \<open>\<open>AddChunk\<close> drops a chunk of an unknown stream; the stream object is updated in place.\<close>

definition update_stream :: "StreamManager \<Rightarrow> string \<Rightarrow> Stream \<Rightarrow> StreamManager" where
  "update_stream sm sid s =
     sm\<lparr>sm_streams := map_option (\<lambda>m. m(sid \<mapsto> s)) (sm_streams sm)\<rparr>"

definition sm_AddChunk ::
    "int \<Rightarrow> StreamManager \<Rightarrow> string \<Rightarrow> int \<Rightarrow> byte list \<Rightarrow> bool
       \<Rightarrow> (unit, StreamManager \<times> byte list option) outcome" where
  "sm_AddChunk now sm sid sq data isLast =
     (case GetStream sm sid of
        None \<Rightarrow> Ok (sm, None)
      | Some s \<Rightarrow>
          obind (stream_AddChunk now s (word_of_int sq) data isLast)
            (\<lambda>(s', done). Ok (update_stream sm sid s', done)))"

definition sm_RemoveStream :: "StreamManager \<Rightarrow> string \<Rightarrow> StreamManager" where
  "sm_RemoveStream sm sid = sm\<lparr>sm_streams := map_option (\<lambda>m. m(sid := None)) (sm_streams sm)\<rparr>"

text \<open>
  \<open>cleanup\<close> walks a snapshot of the ids, in the map's unspecified order: the order is the
  argument \<open>ids\<close>. The result lists the streams whose error callback was called.
\<close>

definition stream_stale :: "StreamManager \<Rightarrow> int \<Rightarrow> Stream \<Rightarrow> bool" where
  "stream_stale sm now s =
     (let stall = (if sm_stallTimeout sm \<le> 0 then 2 * ns_minute else sm_stallTimeout sm) in
      \<not> (st_State s = StreamStateCompleted \<or> st_State s = StreamStateError) \<and>
      (now - st_lastActivity s > stall \<or> now - st_createdAt s > sm_maxStreamAge sm))"

definition cleanup_one :: "int \<Rightarrow> string \<Rightarrow> StreamManager \<times> string list \<Rightarrow> StreamManager \<times> string list" where
  "cleanup_one now sid st =
     (let (sm, errs) = st in
      case GetStream sm sid of
        None \<Rightarrow> (sm, errs)
      | Some s \<Rightarrow>
          let completedOrErr = (st_State s = StreamStateCompleted \<or> st_State s = StreamStateError);
              stale = stream_stale sm now s
          in (if completedOrErr \<or> stale then sm_RemoveStream sm sid else sm,
              if stale \<and> st_OnError s then errs @ [sid] else errs))"

definition cleanup :: "int \<Rightarrow> string list \<Rightarrow> StreamManager \<Rightarrow> StreamManager \<times> string list" where
  "cleanup now ids sm = fold (cleanup_one now) ids (sm, [])"

text \<open>Closing a closed channel panics, so a second \<open>Destroy\<close> does.\<close>

definition sm_Destroy :: "StreamManager \<Rightarrow> (unit, StreamManager) outcome" where
  "sm_Destroy sm =
     (if sm_stopped sm then Panic else Ok (sm\<lparr>sm_stopped := True, sm_streams := None\<rparr>))"

end
