(* ===== verification/Reassembly.thy ===== *)
theory Reassembly
  imports StreamManager
begin

text \<open>
  What the stream manager promises: splitting a message and adding its chunks to a stream,
  in any order and with repetitions, hands back exactly the message, once, at the moment
  the last missing chunk arrives. The specification \<open>chunks_of\<close> is the plain list function;
  the loops of the code are shown to compute it.
\<close>

section \<open>Splitting\<close>

function chunks_of :: "nat \<Rightarrow> byte list \<Rightarrow> byte list list" where
  "chunks_of n xs = (if n = 0 \<or> xs = [] then [] else take n xs # chunks_of n (drop n xs))"
  by pat_completeness auto
termination
  by (relation "measure (\<lambda>(n, xs). length xs)") auto

declare chunks_of.simps [simp del]

lemma concat_chunks_of: "0 < n \<Longrightarrow> concat (chunks_of n xs) = xs"
proof (induction n xs rule: chunks_of.induct)
  case (1 n xs)
  then show ?case by (subst chunks_of.simps) auto
qed

lemma chunks_of_bounds: "c \<in> set (chunks_of n xs) \<Longrightarrow> c \<noteq> [] \<and> length c \<le> n"
proof (induction n xs rule: chunks_of.induct)
  case (1 n xs)
  show ?case
  proof (cases "n = 0 \<or> xs = []")
    case True
    with "1.prems" show ?thesis by (simp add: chunks_of.simps [of n xs])
  next
    case False
    with 1 show ?thesis by (auto simp: chunks_of.simps [of n xs])
  qed
qed

lemma chunks_of_eq_Nil [simp]: "chunks_of n xs = [] \<longleftrightarrow> n = 0 \<or> xs = []"
  by (subst chunks_of.simps) simp

lemma length_chunks_of_le: "length (chunks_of n xs) \<le> length xs"
proof (induction n xs rule: chunks_of.induct)
  case (1 n xs)
  show ?case
  proof (cases "n = 0 \<or> xs = []")
    case False
    with 1 have "length (chunks_of n (drop n xs)) \<le> length (drop n xs)" by simp
    moreover have "length (drop n xs) < length xs" using False by (cases xs) auto
    ultimately have "Suc (length (chunks_of n (drop n xs))) \<le> length xs" by linarith
    with False show ?thesis by (simp add: chunks_of.simps [of n xs])
  qed (simp add: chunks_of.simps [of n xs])
qed

lemma split_loop_chunks:
  assumes "0 < n"
  shows "split_loop data (int n) (int i) acc = Some (Ok (acc @ chunks_of n (drop i data)))"
  using assms
proof (induction "length data - i" arbitrary: i acc rule: less_induct)
  case less
  show ?case
  proof (cases "i < length data")
    case True
    have slice: "take (nat ((if int i + int n > int (length data) then int (length data)
          else int i + int n) - int i)) (drop i data) = take n (drop i data)"
      using True by (cases "i + n \<le> length data") auto
    have "split_loop data (int n) (int (i + n)) (acc @ [take n (drop i data)])
        = Some (Ok ((acc @ [take n (drop i data)]) @ chunks_of n (drop (i + n) data)))"
      using less True by (intro less.hyps) auto
    moreover have "chunks_of n (drop i data) = take n (drop i data) # chunks_of n (drop (i + n) data)"
      using True less.prems by (subst chunks_of.simps) (simp add: add.commute)
    ultimately show ?thesis
      using True slice by (subst split_loop.simps) (simp add: Let_def)
  qed (subst split_loop.simps, simp)
qed

lemma SplitIntoChunks_ok:
  assumes "0 < chunkSize \<or> 0 < sm_defaultChunkSize sm"
  shows "SplitIntoChunks sm data chunkSize =
    Some (Ok (chunks_of (nat (if chunkSize \<le> 0 then sm_defaultChunkSize sm else chunkSize)) data))"
proof -
  let ?n = "nat (if chunkSize \<le> 0 then sm_defaultChunkSize sm else chunkSize)"
  have n: "0 < ?n" "int ?n = (if chunkSize \<le> 0 then sm_defaultChunkSize sm else chunkSize)"
    using assms by auto
  from split_loop_chunks [OF n(1), of data 0 "[]"] n(2) show ?thesis
    by (simp add: SplitIntoChunks_def)
qed

text \<open>With size 0 the loop never returns, and with a negative size it panics.\<close>

lemma split_loop_zero_returns:
  "split_loop data sz i acc = Some r \<Longrightarrow> sz = 0 \<longrightarrow> \<not> i < int (length data) \<or> i < 0"
proof (rule split_loop.raw_induct
    [where P = "\<lambda>data sz i acc r. sz = 0 \<longrightarrow> \<not> i < int (length data) \<or> i < 0"])
  fix f :: "byte list \<Rightarrow> int \<Rightarrow> int \<Rightarrow> byte list list \<Rightarrow> (unit, byte list list) outcome option"
    and data sz i chunks y
  assume IH: "\<And>data sz i chunks y. f data sz i chunks = Some y \<Longrightarrow>
      sz = 0 \<longrightarrow> \<not> i < int (length data) \<or> i < 0"
    and eq: "(if i < int (length data)
      then let en = if int (length data) < i + sz then int (length data) else i + sz
        in if 0 \<le> i \<and> i \<le> en
           then f data sz (i + sz) (chunks @ [take (nat (en - i)) (drop (nat i) data)])
           else Some Panic
      else Some (Ok chunks)) = Some y"
  show "sz = 0 \<longrightarrow> \<not> i < int (length data) \<or> i < 0"
  proof
    assume "sz = 0"
    with eq IH show "\<not> i < int (length data) \<or> i < 0"
      by (auto simp: Let_def split: if_splits)
  qed
qed

lemma SplitIntoChunks_zero:
  assumes "chunkSize \<le> 0" "sm_defaultChunkSize sm = 0" "data \<noteq> []"
  shows "SplitIntoChunks sm data chunkSize = None"
proof (cases "split_loop data 0 0 []")
  case (Some r)
  from split_loop_zero_returns [OF this] assms show ?thesis by simp
qed (use assms in \<open>simp add: SplitIntoChunks_def\<close>)

lemma SplitIntoChunks_negative:
  assumes "chunkSize \<le> 0" "sm_defaultChunkSize sm < 0" "data \<noteq> []"
  shows "SplitIntoChunks sm data chunkSize = Some Panic"
  using assms by (simp add: SplitIntoChunks_def split_loop.simps [of data _ 0] Let_def)

section \<open>Reassembly\<close>

definition accumulated :: "Stream \<Rightarrow> byte list" where
  "accumulated s = (case st_CompletedData s of None \<Rightarrow> [] | Some d \<Rightarrow> d)"

definition chunk_of :: "byte list list \<Rightarrow> nat \<Rightarrow> StreamChunk" where
  "chunk_of cs i = \<lparr>ck_Sequence = of_nat i, ck_Data = cs ! i, ck_IsLast = (Suc i = length cs)\<rparr>"

text \<open>
  \<open>stream_rel cs A e s\<close>: the stream \<open>s\<close> has consumed the chunks before \<open>e\<close> of the message
  \<open>cs\<close>, and of the chunks from \<open>e\<close> on it has buffered those in \<open>A\<close>.
\<close>

definition stream_rel :: "byte list list \<Rightarrow> nat set \<Rightarrow> nat \<Rightarrow> Stream \<Rightarrow> bool" where
  "stream_rel cs A e s \<longleftrightarrow>
     e < length cs \<and> st_ExpectedSequence s = of_nat e \<and> accumulated s = concat (take e cs)
     \<and> (\<forall>i. e \<le> i \<and> i < length cs \<longrightarrow> chunk_at s (of_nat i) = (if i \<in> A then Some (chunk_of cs i) else None))
     \<and> (st_TotalChunks s = -1 \<or> st_TotalChunks s = int (length cs))
     \<and> st_OnComplete s \<and> st_Chunks s \<noteq> None"

lemma of_nat_u32_eq:
  "i < 2 ^ 32 \<Longrightarrow> j < 2 ^ 32 \<Longrightarrow> (of_nat i :: u32) = of_nat j \<longleftrightarrow> i = j"
  by (metis unat_of_nat_u32)

lemma accumulated_consume: "accumulated (consume_chunk s c) = accumulated s @ ck_Data c"
  by (simp add: accumulated_def consume_chunk_def)

lemma consume_chunk_fields [simp]:
  "st_ExpectedSequence (consume_chunk s c) = st_ExpectedSequence s + 1"
  "st_TotalChunks (consume_chunk s c) = st_TotalChunks s"
  "st_OnComplete (consume_chunk s c) = st_OnComplete s"
  "st_State (consume_chunk s c) = st_State s"
  "st_Chunks (consume_chunk s c) = None \<longleftrightarrow> st_Chunks s = None"
  "st_CompletedData (consume_chunk s c) = Some (accumulated s @ ck_Data c)"
  by (simp_all add: consume_chunk_def accumulated_def)

lemma stream_rel_consume:
  assumes rel: "stream_rel cs A e s" and "length cs < 2 ^ 32" and "Suc e < length cs"
  shows "stream_rel cs A (Suc e) (consume_chunk s (chunk_of cs e))"
proof -
  have "chunk_at (consume_chunk s (chunk_of cs e)) (of_nat i)
      = (if i \<in> A then Some (chunk_of cs i) else None)" if "Suc e \<le> i" "i < length cs" for i
    using that assms of_nat_u32_eq [of i e]
    by (auto simp: chunk_at_consume stream_rel_def)
  then show ?thesis
    using assms unfolding stream_rel_def
    by (simp add: accumulated_consume chunk_of_def take_Suc_conv_app_nth add.commute)
qed

lemma tryReassemble_rel:
  assumes "stream_rel cs A e s" and "length cs < 2 ^ 32"
  shows "if {e..<length cs} \<subseteq> A
    then snd (tryReassemble s) = Some (concat cs) \<and> st_State (fst (tryReassemble s)) = StreamStateCompleted
    else snd (tryReassemble s) = None \<and> st_State (fst (tryReassemble s)) = st_State s
       \<and> (\<exists>e'. e' \<notin> A \<and> {e..<e'} \<subseteq> A \<and> e \<le> e' \<and> stream_rel cs A e' (fst (tryReassemble s)))"
  using assms(1)
proof (induction "length cs - e" arbitrary: e s rule: less_induct)
  case less
  let ?n = "length cs"
  note rel = less.prems
  then have e: "e < ?n" and exp: "st_ExpectedSequence s = of_nat e"
    and at: "chunk_at s (of_nat e) = (if e \<in> A then Some (chunk_of cs e) else None)"
    by (simp_all add: stream_rel_def)
  show ?case
  proof (cases "e \<in> A")
    case False
    then have "tryReassemble s = (s, None)"
      using at exp by (subst tryReassemble.simps) simp
    with False e rel show ?thesis by auto
  next
    case True
    let ?s = "consume_chunk s (chunk_of cs e)"
    have acc: "accumulated s @ cs ! e = concat (take (Suc e) cs)"
      using rel e by (simp add: stream_rel_def take_Suc_conv_app_nth)
    show ?thesis
    proof (cases "Suc e = ?n")
      case last: True
      have "tryReassemble s = complete_stream ?s"
        using at exp True last by (subst tryReassemble.simps) (simp add: chunk_of_def)
      moreover have "{e..<?n} \<subseteq> A" using True unfolding last [symmetric] by simp
      ultimately show ?thesis
        using rel acc last by (simp add: complete_stream_def stream_rel_def chunk_of_def)
    next
      case more: False
      with e have e': "Suc e < ?n" by simp
      then have "of_nat (Suc e) < (of_nat ?n :: u32)"
        using assms(2) by (simp add: word_less_nat_alt unat_of_nat_u32 del: of_nat_Suc)
      then have "\<not> (st_TotalChunks ?s > 0 \<and> st_ExpectedSequence ?s \<ge> word_of_int (st_TotalChunks ?s))"
        using rel exp by (auto simp: stream_rel_def add.commute)
      then have eq: "tryReassemble s = tryReassemble ?s"
        using at exp True more by (subst tryReassemble.simps) (auto simp: chunk_of_def)
      have sub: "{e..<k} \<subseteq> A \<longleftrightarrow> {Suc e..<k} \<subseteq> A" for k
      proof -
        have "{e..<k} \<subseteq> insert e {Suc e..<k}" and "{Suc e..<k} \<subseteq> {e..<k}" by auto
        with True show ?thesis by blast
      qed
      from less.hyps [OF _ stream_rel_consume [OF rel assms(2) e']] e'
      have IH: "if {Suc e..<?n} \<subseteq> A
        then snd (tryReassemble ?s) = Some (concat cs) \<and> st_State (fst (tryReassemble ?s)) = StreamStateCompleted
        else snd (tryReassemble ?s) = None \<and> st_State (fst (tryReassemble ?s)) = st_State s
          \<and> (\<exists>e'. e' \<notin> A \<and> {Suc e..<e'} \<subseteq> A \<and> Suc e \<le> e' \<and> stream_rel cs A e' (fst (tryReassemble ?s)))"
        by simp
      show ?thesis
      proof (cases "{Suc e..<?n} \<subseteq> A")
        case True
        with IH show ?thesis unfolding eq sub by simp
      next
        case False
        with IH obtain k where "k \<notin> A" "{Suc e..<k} \<subseteq> A" "e \<le> k" "stream_rel cs A k (fst (tryReassemble ?s))"
          by (auto dest: Suc_leD)
        with IH False show ?thesis unfolding eq sub by auto
      qed
    qed
  qed
qed

text \<open>One chunk added: the buffered set grows, the stream stays related or completes.\<close>

definition consumable :: "nat set \<Rightarrow> nat \<Rightarrow> bool" where
  "consumable A e \<longleftrightarrow> {..<e} \<subseteq> A \<and> e \<notin> A"

lemma stream_rel_store:
  assumes rel: "stream_rel cs A e s" and len: "length cs < 2 ^ 32" and i: "i < length cs"
    and m: "st_Chunks s = Some m"
  shows "stream_rel cs (insert i A) e
     (s\<lparr>st_lastActivity := now, st_Chunks := Some (m(of_nat i \<mapsto> chunk_of cs i)),
        st_TotalChunks := (if Suc i = length cs then int (length cs) else st_TotalChunks s)\<rparr>)"
  using assms of_nat_u32_eq [of _ i]
  by (auto simp: stream_rel_def accumulated_def chunk_at_def)

definition add_indexed :: "byte list list \<Rightarrow> nat \<times> int \<Rightarrow> Stream \<Rightarrow> (unit, Stream \<times> byte list option) outcome" where
  "add_indexed cs ev s = (case ev of (i, now) \<Rightarrow> stream_AddChunk now s (of_nat i) (cs ! i) (Suc i = length cs))"

lemma add_indexed_active:
  assumes rel: "stream_rel cs A e s" and act: "st_State s = StreamStateActive"
    and len: "length cs < 2 ^ 32" and i: "i < length cs" and A: "consumable A e" "A \<subseteq> {..<length cs}"
  shows "\<exists>s'. if insert i A = {..<length cs}
    then add_indexed cs (i, now) s = Ok (s', Some (concat cs)) \<and> st_State s' = StreamStateCompleted
    else add_indexed cs (i, now) s = Ok (s', None) \<and> st_State s' = StreamStateActive
       \<and> (\<exists>e'. consumable (insert i A) e' \<and> stream_rel cs (insert i A) e' s')"
proof -
  let ?n = "length cs" and ?A = "insert i A"
  from rel obtain m where m: "st_Chunks s = Some m" by (auto simp: stream_rel_def)
  let ?t = "s\<lparr>st_lastActivity := now, st_Chunks := Some (m(of_nat i \<mapsto> chunk_of cs i)),
        st_TotalChunks := (if Suc i = ?n then int ?n else st_TotalChunks s)\<rparr>"
  have un: "int (unat (of_nat i :: u32)) + 1 = int (Suc i)"
    using i len by (simp add: unat_of_nat_u32)
  have add: "add_indexed cs (i, now) s = Ok (tryReassemble ?t)"
  proof (cases "Suc i = ?n")
    case True
    then show ?thesis
      using act m un by (simp add: add_indexed_def stream_AddChunk_def chunk_of_def Let_def)
  next
    case False
    then have "?t = s\<lparr>st_lastActivity := now, st_Chunks := Some (m(of_nat i \<mapsto> chunk_of cs i))\<rparr>"
      by simp
    with False show ?thesis
      using act m by (simp add: add_indexed_def stream_AddChunk_def chunk_of_def Let_def)
  qed
  have full: "{e..<?n} \<subseteq> ?A \<longleftrightarrow> ?A = {..<?n}"
  proof
    have "{..<?n} \<subseteq> {..<e} \<union> {e..<?n}" by auto
    also assume "{e..<?n} \<subseteq> ?A"
    finally have "{..<?n} \<subseteq> {..<e} \<union> ?A" by blast
    with A i show "?A = {..<?n}" unfolding consumable_def by blast
  next
    assume eq: "?A = {..<?n}"
    show "{e..<?n} \<subseteq> ?A" unfolding eq by auto
  qed
  note T = tryReassemble_rel [OF stream_rel_store [OF rel len i m, of now] len, unfolded full]
  show ?thesis
  proof (cases "?A = {..<?n}")
    case True
    with T add show ?thesis by (cases "tryReassemble ?t") auto
  next
    case False
    with T act obtain k where "k \<notin> ?A" "{e..<k} \<subseteq> ?A" "e \<le> k"
      "stream_rel cs ?A k (fst (tryReassemble ?t))" "snd (tryReassemble ?t) = None"
      "st_State (fst (tryReassemble ?t)) = StreamStateActive"
      by auto
    moreover from this A have "consumable ?A k"
      unfolding consumable_def by (auto simp: subset_iff) (metis linorder_not_less)+
    ultimately show ?thesis
      using False add by (cases "tryReassemble ?t") auto
  qed
qed

text \<open>
  Any sequence of deliveries (index and arrival time). The result lists the data handed to
  \<open>OnComplete\<close>, call by call.
\<close>

fun deliver :: "byte list list \<Rightarrow> (nat \<times> int) list \<Rightarrow> Stream \<Rightarrow> (unit, Stream \<times> byte list list) outcome" where
  "deliver cs [] s = Ok (s, [])"
| "deliver cs (ev # evs) s =
     obind (add_indexed cs ev s) (\<lambda>(s', d).
     obind (deliver cs evs s') (\<lambda>(s'', ds).
       Ok (s'', (case d of None \<Rightarrow> ds | Some x \<Rightarrow> x # ds))))"

lemma deliver_completed:
  "st_State s = StreamStateCompleted \<Longrightarrow> deliver cs evs s = Ok (s, [])"
  by (induction evs) (auto simp: add_indexed_def stream_AddChunk_def)

lemma deliver_active:
  assumes "stream_rel cs A e s" "st_State s = StreamStateActive" "length cs < 2 ^ 32"
    "consumable A e" "A \<subseteq> {..<length cs}" "\<forall>ev \<in> set evs. fst ev < length cs"
  shows "\<exists>s'. deliver cs evs s =
    Ok (s', if A \<union> fst ` set evs = {..<length cs} then [concat cs] else [])"
  using assms
proof (induction evs arbitrary: A e s)
  case Nil
  then have "A \<noteq> {..<length cs}" by (auto simp: stream_rel_def consumable_def)
  then show ?case by simp
next
  case (Cons ev evs)
  obtain i now where ev: "ev = (i, now)" by force
  with Cons.prems have i: "i < length cs" by simp
  note step = add_indexed_active [OF Cons.prems(1,2,3) i Cons.prems(4,5), of now]
  show ?case
  proof (cases "insert i A = {..<length cs}")
    case True
    with step obtain s' where s': "add_indexed cs (i, now) s = Ok (s', Some (concat cs))"
      "st_State s' = StreamStateCompleted" by auto
    have "A \<union> fst ` set (ev # evs) = {..<length cs}"
      using True Cons.prems(5,6) unfolding ev by fastforce
    with s' show ?thesis by (simp add: ev deliver_completed)
  next
    case False
    with step obtain s' e' where s': "add_indexed cs (i, now) s = Ok (s', None)"
      and rel: "st_State s' = StreamStateActive" "consumable (insert i A) e'"
        "stream_rel cs (insert i A) e' s'"
      by auto
    have "insert i A \<subseteq> {..<length cs}" using Cons.prems(5) i by auto
    from Cons.IH [OF rel(3,1) Cons.prems(3) rel(2) this] Cons.prems(6)
    obtain s'' where "deliver cs evs s' = Ok (s'',
        if insert i A \<union> fst ` set evs = {..<length cs} then [concat cs] else [])"
      by auto
    moreover have "insert i A \<union> fst ` set evs = A \<union> fst ` set (ev # evs)" by (auto simp: ev)
    ultimately show ?thesis using s' by (simp add: ev)
  qed
qed

lemma stream_rel_new:
  "cs \<noteq> [] \<Longrightarrow> stream_rel cs {} 0 (new_active now sid True oe)"
  by (simp add: stream_rel_def new_active_def NewStream_def accumulated_def chunk_at_def)

lemma deliver_new:
  assumes "cs \<noteq> []" "length cs < 2 ^ 32" "\<forall>ev \<in> set evs. fst ev < length cs"
  shows "\<exists>s'. deliver cs evs (new_active now sid True oe) =
    Ok (s', if fst ` set evs = {..<length cs} then [concat cs] else [])"
  using deliver_active [OF stream_rel_new [OF assms(1), of now sid oe], of evs] assms(2,3)
  by (simp add: new_active_def consumable_def)

end
