(* ===== verification/Adapter.thy ===== *)
theory Adapter
  imports Payloads Json FlowControl Reassembly
begin

text \<open>
  \<^verbatim>\<open>internal/server/protocol/binary.go\<close>, the type \<open>BinaryProtocolAdapter\<close>: sending and
  receiving on the monitor and data channels, with compression, chunked streaming and flow
  control. The state is the struct; a method maps the state to the new state and a result.
  Frames written and handlers called are appended to the trace \<open>ad_out\<close>. A handler is a
  function to an optional error text.

  Locks: a method of the flow controller holds \<open>fc.mu\<close> while it calls \<open>onBackpressure\<close>, and
  \<open>Stream.AddChunk\<close> holds \<open>s.mu\<close> while it calls \<open>OnComplete\<close>. Go mutexes are not reentrant,
  so a second acquisition by the same goroutine never returns: the result \<open>Blocked\<close>.
\<close>

section \<open>State, results, effects\<close>

type_synonym handler = "string \<Rightarrow> byte list \<Rightarrow> string option"
type_synonym fin_handler = "string \<Rightarrow> byte list \<Rightarrow> bool \<Rightarrow> string option"
type_synonym close_handler = "string \<Rightarrow> string option"

datatype out_event =
    MonitorText json
  | DataBinary nat "byte list"
  | HandledRequest string "byte list"
  | HandledResponse string "byte list"
  | HandledRequestHead string "byte list" bool
  | HandledRequestBody string "byte list" bool
  | HandledResponseHead string "byte list" bool
  | HandledResponseBody string "byte list" bool
  | HandledTCPData nat string "byte list"
  | HandledTCPClose nat string

text \<open>The \<open>OnComplete\<close> closure of a stream: what it captured when the stream was made.\<close>

datatype sink =
    SinkRequest handler
  | SinkResponse handler
  | SinkTCP "(nat \<times> handler) list"

datatype adapter_error =
    EncodeError frame_error | ParseError frame_error | CompressError | DecompressError
  | WriteError string | FlowTimeout string int | DataChannelNotReady string
  | NoTCPHandlers string | NoHandler byte string | HandlerError string

datatype result = Return | Raise adapter_error | Crash | Blocked | Diverges

record Adapter =
  ad_isClient :: bool
  ad_capabilities :: Capabilities
  ad_dataConn :: "nat option"
  ad_dataChannels :: "string \<Rightarrow> nat option"
  ad_httpRequestHandler :: "handler option"
  ad_httpResponseHandler :: "handler option"
  ad_httpRequestHeadHandler :: "fin_handler option"
  ad_httpRequestBodyHandler :: "fin_handler option"
  ad_httpResponseHeadHandler :: "fin_handler option"
  ad_httpResponseBodyHandler :: "fin_handler option"
  ad_tcpDataHandlers :: "(nat \<times> handler) list"
  ad_tcpCloseHandlers :: "(nat \<times> close_handler) list"
  ad_handlerIDCounter :: nat
  ad_tcpCloseHandlerIDCounter :: nat
  ad_sequenceCounter :: "string \<Rightarrow> u32 option"
  ad_compressionAlgorithm :: string
  ad_streamManager :: "StreamManager option"
  ad_sinks :: "string \<Rightarrow> sink option"
  ad_flowController :: "FlowController option"
  ad_chunkSize :: int
  ad_out :: "out_event list"

text \<open>
  The surroundings of a call: the codecs, the clock reading, the error a write gets (given
  the trace so far and the frame), and what other goroutines do to the flow controller while
  a sender sleeps (given the nanoseconds waited so far).
\<close>

record Env =
  en_codec :: Codec
  en_now :: int
  en_write_err :: "out_event list \<Rightarrow> out_event \<Rightarrow> string option"
  en_flowSendWaitTimeout :: int
  en_meanwhile :: "int \<Rightarrow> fc_op list"

fun and_then :: "Adapter \<times> result \<Rightarrow> (Adapter \<Rightarrow> Adapter \<times> result) \<Rightarrow> Adapter \<times> result" where
  "and_then (a, Return) f = f a"
| "and_then (a, r) f = (a, r)"

definition emit :: "out_event \<Rightarrow> Adapter \<Rightarrow> Adapter" where
  "emit ev a = a\<lparr>ad_out := ad_out a @ [ev]\<rparr>"

definition write_frame :: "Env \<Rightarrow> out_event \<Rightarrow> Adapter \<Rightarrow> Adapter \<times> result" where
  "write_frame env ev a =
     (case en_write_err env (ad_out a) ev of
        Some e \<Rightarrow> (a, Raise (WriteError e))
      | None \<Rightarrow> (emit ev a, Return))"

text \<open>A handler's error is the error of the call.\<close>

definition handler_result :: "string option \<Rightarrow> result" where
  "handler_result r = (case r of None \<Rightarrow> Return | Some e \<Rightarrow> Raise (HandlerError e))"

section \<open>Construction\<close>

definition has_cap :: "Adapter \<Rightarrow> int \<Rightarrow> bool" where
  "has_cap a f = has_flag (ad_capabilities a) f"

definition adapter_algorithm :: "Capabilities \<Rightarrow> string" where
  "adapter_algorithm caps =
     (case cap_Features caps of None \<Rightarrow> ''brotli''
      | Some f \<Rightarrow> (case f_Compression f of None \<Rightarrow> ''brotli''
          | Some c \<Rightarrow> if Preferred c \<noteq> '''' then Preferred c
                      else if Algorithms c \<noteq> [] then hd (Algorithms c) else ''brotli''))"

definition adapter_chunk_size :: "Capabilities \<Rightarrow> int" where
  "adapter_chunk_size caps =
     (case cap_Features caps of None \<Rightarrow> 64 * 1024
      | Some f \<Rightarrow> (case f_ChunkSize f of None \<Rightarrow> 64 * 1024 | Some k \<Rightarrow> cs_Default k))"

definition adapter_window :: "Capabilities \<Rightarrow> int" where
  "adapter_window caps =
     (case cap_Features caps of None \<Rightarrow> 1024 * 1024
      | Some f \<Rightarrow> (case f_FlowControl f of None \<Rightarrow> 1024 * 1024 | Some w \<Rightarrow> w))"

definition NewBinaryProtocolAdapter :: "Capabilities \<Rightarrow> bool \<Rightarrow> Adapter" where
  "NewBinaryProtocolAdapter caps isClient =
     \<lparr>ad_isClient = isClient, ad_capabilities = caps, ad_dataConn = None,
      ad_dataChannels = Map.empty, ad_httpRequestHandler = None, ad_httpResponseHandler = None,
      ad_httpRequestHeadHandler = None, ad_httpRequestBodyHandler = None,
      ad_httpResponseHeadHandler = None, ad_httpResponseBodyHandler = None,
      ad_tcpDataHandlers = [], ad_tcpCloseHandlers = [], ad_handlerIDCounter = 0,
      ad_tcpCloseHandlerIDCounter = 0, ad_sequenceCounter = Map.empty,
      ad_compressionAlgorithm = adapter_algorithm caps,
      ad_streamManager = (if has_flag caps CapabilityFlagStreaming
        then Some (NewStreamManager (adapter_chunk_size caps)) else None),
      ad_sinks = Map.empty,
      ad_flowController = (if has_flag caps CapabilityFlagFlowControl
        then Some (NewFlowController (adapter_window caps) True) else None),
      ad_chunkSize = adapter_chunk_size caps, ad_out = []\<rparr>"

definition NegotiatedFlags :: "Adapter \<Rightarrow> int" where
  "NegotiatedFlags a = cap_Flags (ad_capabilities a)"

definition isSemanticHTTPMessageType :: "byte \<Rightarrow> bool" where
  "isSemanticHTTPMessageType t \<longleftrightarrow>
     t = MessageTypeHTTPRequestHead \<or> t = MessageTypeHTTPRequestBody \<or>
     t = MessageTypeHTTPResponseHead \<or> t = MessageTypeHTTPResponseBody"

definition semanticHTTPHeadType :: "byte \<Rightarrow> bool" where
  "semanticHTTPHeadType t \<longleftrightarrow> t = MessageTypeHTTPRequestHead \<or> t = MessageTypeHTTPResponseHead"

definition shouldUseSemanticHeadCompression :: "Adapter \<Rightarrow> bool" where
  "shouldUseSemanticHeadCompression a = has_cap a CapabilityFlagCompression"

definition shouldUseCompression :: "Adapter \<Rightarrow> byte \<Rightarrow> bool" where
  "shouldUseCompression a msgType =
     (if msgType = MessageTypeTCPData \<or> msgType = MessageTypeTCPClose then False
      else has_cap a CapabilityFlagCompression)"

definition shouldUseStreaming :: "Adapter \<Rightarrow> byte \<Rightarrow> bool" where
  "shouldUseStreaming a msgType =
     (if msgType = MessageTypeHTTPRequest then has_cap a CapabilityFlagHTTPStreaming
      else if msgType = MessageTypeHTTPResponse then has_cap a CapabilityFlagHTTPStreaming
      else False)"

definition compressData :: "Env \<Rightarrow> Adapter \<Rightarrow> byte list \<Rightarrow> byte list option" where
  "compressData env a data =
     (if ad_compressionAlgorithm a = ''brotli'' then compressBrotli (en_codec env) data
      else if ad_compressionAlgorithm a = ''gzip'' then compressGzipBytes (en_codec env) data
      else Some data)"

definition decompressData :: "Env \<Rightarrow> Adapter \<Rightarrow> byte list \<Rightarrow> byte list option" where
  "decompressData env a data =
     (if ad_compressionAlgorithm a = ''brotli'' then decompressBrotli (en_codec env) data
      else if ad_compressionAlgorithm a = ''gzip'' then decompressGzipBytes (en_codec env) data
      else Some data)"

definition getNextSequence :: "Adapter \<Rightarrow> string \<Rightarrow> u32 \<times> Adapter" where
  "getNextSequence a sid =
     (let current = (case ad_sequenceCounter a sid of None \<Rightarrow> 0 | Some n \<Rightarrow> n);
          next_seq = current + 1
      in (next_seq, a\<lparr>ad_sequenceCounter := (ad_sequenceCounter a)(sid \<mapsto> next_seq)\<rparr>))"

section \<open>Backpressure and flow control\<close>

text \<open>
  \<open>OnComplete\<close> of a stream. A failed decompression is dropped, because \<open>onError\<close> is nil. The
  release of the receive window is the argument \<open>release\<close>: what it does depends on the locks
  held at the call.
\<close>

definition set_stream :: "string \<Rightarrow> Stream \<Rightarrow> Adapter \<Rightarrow> Adapter" where
  "set_stream sid s a =
     a\<lparr>ad_streamManager := map_option (\<lambda>sm. update_stream sm sid s) (ad_streamManager a)\<rparr>"

definition decompress_sink :: "Env \<Rightarrow> Adapter \<Rightarrow> byte \<Rightarrow> byte list \<Rightarrow> byte list option" where
  "decompress_sink env a msgType data =
     (if shouldUseCompression a msgType then decompressData env a data else Some data)"

definition on_complete ::
    "Env \<Rightarrow> (nat \<Rightarrow> Adapter \<Rightarrow> Adapter \<times> result) \<Rightarrow> string \<Rightarrow> byte list \<Rightarrow> Adapter \<Rightarrow> Adapter \<times> result" where
  "on_complete env release sid data a =
     (let finish = (\<lambda>a. if ad_flowController a = None then (a, Return) else release (length data) a) in
      case ad_sinks a sid of
        None \<Rightarrow> (a, Return)
      | Some (SinkRequest h) \<Rightarrow>
          (case decompress_sink env a MessageTypeHTTPRequest data of
             None \<Rightarrow> (a, Return)
           | Some payload \<Rightarrow> finish (emit (HandledRequest sid payload) a))
      | Some (SinkResponse h) \<Rightarrow>
          (case decompress_sink env a MessageTypeHTTPResponse data of
             None \<Rightarrow> (a, Return)
           | Some payload \<Rightarrow> finish (emit (HandledResponse sid payload) a))
      | Some (SinkTCP hs) \<Rightarrow>
          finish (fold (\<lambda>(i, h). emit (HandledTCPData i sid data)) hs a))"

text \<open>
  \<open>handleBackpressure\<close> runs inside a method of the flow controller, with \<open>fc.mu\<close> held, so a
  completion from within \<open>Resume\<close> would block on the release of the window. \<open>held\<close> is the
  stream whose mutex the goroutine already holds, if any.
\<close>

definition handleBackpressure ::
    "Env \<Rightarrow> string option \<Rightarrow> string \<Rightarrow> bool \<Rightarrow> Adapter \<Rightarrow> Adapter \<times> result" where
  "handleBackpressure env held sid pause a =
     (case ad_streamManager a of
        None \<Rightarrow> (a, Return)
      | Some sm \<Rightarrow>
          (case GetStream sm sid of
             None \<Rightarrow> (a, Return)
           | Some s \<Rightarrow>
               if held = Some sid then (a, Blocked)
               else if pause then (set_stream sid (stream_Pause s) a, Return)
               else let (s', done) = stream_Resume s; a = set_stream sid s' a in
                 case done of
                   None \<Rightarrow> (a, Return)
                 | Some data \<Rightarrow> on_complete env (\<lambda>n a. (a, Blocked)) sid data a))"

definition apply_signal :: "Env \<Rightarrow> string option \<Rightarrow> signal \<Rightarrow> Adapter \<Rightarrow> Adapter \<times> result" where
  "apply_signal env held sig a =
     (case sig of None \<Rightarrow> (a, Return)
      | Some (sid, pause) \<Rightarrow> handleBackpressure env held sid pause a)"

definition release_window ::
    "Env \<Rightarrow> string option \<Rightarrow> string \<Rightarrow> nat \<Rightarrow> Adapter \<Rightarrow> Adapter \<times> result" where
  "release_window env held sid n a =
     (case ad_flowController a of
        None \<Rightarrow> (a, Return)
      | Some fc \<Rightarrow>
          let (fc, sig) = ReleaseReceiveWindow fc sid (int n)
          in apply_signal env held sig (a\<lparr>ad_flowController := Some fc\<rparr>))"

text \<open>
  \<open>waitFlowSendSlot\<close>: attempt \<open>k\<close> happens \<open>t\<close> nanoseconds after the first; the back-off doubles
  from 5 ms to at most 100 ms, so it is \<open>flow_backoff k\<close> after attempt \<open>k\<close>.
\<close>

definition flow_backoff :: "nat \<Rightarrow> int" where
  "flow_backoff k = min (5000000 * 2 ^ k) 100000000"

lemma flow_backoff_pos [simp]: "0 < flow_backoff k"
  by (simp add: flow_backoff_def)

lemma flow_backoff_doubles:
  "flow_backoff 0 = 5000000"
  "flow_backoff (Suc k) = (let next_backoff = flow_backoff k * 2
     in if next_backoff > 100000000 then 100000000 else next_backoff)"
  by (auto simp: flow_backoff_def Let_def min_def)

function wait_loop :: "Env \<Rightarrow> string \<Rightarrow> nat \<Rightarrow> nat \<Rightarrow> int \<Rightarrow> Adapter \<Rightarrow> Adapter \<times> result" where
  "wait_loop env sid chunkLen k t a =
     (case ad_flowController a of
        None \<Rightarrow> (a, Return)
      | Some fc \<Rightarrow>
          (case TrySend fc sid (int chunkLen) of
             (fc, ok, sig) \<Rightarrow>
               if ok then (a\<lparr>ad_flowController := Some fc\<rparr>, Return)
               else
                 (case apply_signal env None sig (a\<lparr>ad_flowController := Some fc\<rparr>) of
                    (a, Return) \<Rightarrow>
                      if t > en_flowSendWaitTimeout env then (a, Raise (FlowTimeout sid (int chunkLen)))
                      else wait_loop env sid chunkLen (Suc k) (t + flow_backoff k)
                             (a\<lparr>ad_flowController := map_option
                                  (\<lambda>fc. foldl fc_step fc (en_meanwhile env t)) (ad_flowController a)\<rparr>)
                  | (a, r) \<Rightarrow> (a, r))))"
  by pat_completeness auto
termination
  by (relation "measure (\<lambda>(env, sid, n, k, t, a). nat (en_flowSendWaitTimeout env + 1 - t))") auto

declare wait_loop.simps [simp del]

definition waitFlowSendSlot :: "Env \<Rightarrow> string \<Rightarrow> nat \<Rightarrow> Adapter \<Rightarrow> Adapter \<times> result" where
  "waitFlowSendSlot env sid chunkLen a = wait_loop env sid chunkLen 0 0 a"

section \<open>What no method changes\<close>

text \<open>The role, the negotiated parameters, the handlers and the channel table.\<close>

definition config :: "Adapter \<Rightarrow> bool \<times> Capabilities \<times> string \<times> int \<times> nat option \<times> (string \<Rightarrow> nat option)
    \<times> (handler option \<times> handler option) \<times> (nat \<times> handler) list \<times> (nat \<times> close_handler) list" where
  "config a = (ad_isClient a, ad_capabilities a, ad_compressionAlgorithm a, ad_chunkSize a,
     ad_dataConn a, ad_dataChannels a, (ad_httpRequestHandler a, ad_httpResponseHandler a),
     ad_tcpDataHandlers a, ad_tcpCloseHandlers a)"

text \<open>
  \<open>moves P a a'\<close>: from \<open>a\<close> to \<open>a'\<close> the configuration is kept, the trace only grows, and every
  new event satisfies \<open>P\<close>.
\<close>

definition moves :: "(out_event \<Rightarrow> bool) \<Rightarrow> Adapter \<Rightarrow> Adapter \<Rightarrow> bool" where
  "moves P a a' \<longleftrightarrow> config a' = config a \<and> (\<exists>new. ad_out a' = ad_out a @ new \<and> list_all P new)"

lemma moves_refl [simp, intro]: "moves P a a"
  by (simp add: moves_def)

lemma moves_trans [trans]: "moves P a b \<Longrightarrow> moves P b c \<Longrightarrow> moves P a c"
  by (auto simp: moves_def)

lemma moves_emit [intro]: "moves P a b \<Longrightarrow> P ev \<Longrightarrow> moves P a (emit ev b)"
  by (auto simp: moves_def emit_def config_def)

lemma moves_fold_emit:
  "moves P a b \<Longrightarrow> (\<And>x. x \<in> set xs \<Longrightarrow> P (f x)) \<Longrightarrow> moves P a (fold (\<lambda>x. emit (f x)) xs b)"
  by (induction xs arbitrary: b) auto

lemma moves_upd [simp]:
  "moves P a (b\<lparr>ad_flowController := f\<rparr>) = moves P a b"
  "moves P a (b\<lparr>ad_streamManager := sm\<rparr>) = moves P a b"
  "moves P a (b\<lparr>ad_sinks := sk\<rparr>) = moves P a b"
  "moves P a (b\<lparr>ad_sequenceCounter := c\<rparr>) = moves P a b"
  "moves P a (set_stream sid s b) = moves P a b"
  by (simp_all add: moves_def config_def set_stream_def)

lemma moves_and_then:
  assumes "moves P a (fst x)" and "\<And>b. moves P a b \<Longrightarrow> moves P a (fst (f b))"
  shows "moves P a (fst (and_then x f))"
  using assms by (cases "(x, f)" rule: and_then.cases) auto

lemma and_then_Return_iff:
  "and_then x f = (a', Return) \<longleftrightarrow> (\<exists>b. x = (b, Return) \<and> f b = (a', Return))"
  by (cases "(x, f)" rule: and_then.cases) auto

lemma moves_config: "moves P a a' \<Longrightarrow> config a' = config a"
  by (simp add: moves_def)

lemma config_has_cap: "config b = config a \<Longrightarrow> has_cap b f = has_cap a f"
  by (simp add: config_def has_cap_def)

lemma config_fields:
  assumes "config b = config a"
  shows "ad_isClient b = ad_isClient a" "ad_capabilities b = ad_capabilities a"
    "ad_compressionAlgorithm b = ad_compressionAlgorithm a" "ad_chunkSize b = ad_chunkSize a"
    "ad_dataConn b = ad_dataConn a" "ad_dataChannels b = ad_dataChannels a"
    "ad_tcpDataHandlers b = ad_tcpDataHandlers a"
  using assms by (simp_all add: config_def)

lemma getNextSequence_moves [simp]: "moves P a (snd (getNextSequence b sid)) = moves P a b"
  by (simp add: getNextSequence_def Let_def)

section \<open>Roles\<close>

text \<open>
  The events an adapter of a role may cause: a client is handed requests, a server responses.
\<close>

fun role_event :: "bool \<Rightarrow> out_event \<Rightarrow> bool" where
  "role_event c (HandledRequest _ _) = c"
| "role_event c (HandledRequestHead _ _ _) = c"
| "role_event c (HandledRequestBody _ _ _) = c"
| "role_event c (HandledResponse _ _) = (\<not> c)"
| "role_event c (HandledResponseHead _ _ _) = (\<not> c)"
| "role_event c (HandledResponseBody _ _ _) = (\<not> c)"
| "role_event c (HandledTCPData _ _ _) = True"
| "role_event c (HandledTCPClose _ _) = True"
| "role_event c (MonitorText _) = False"
| "role_event c (DataBinary _ _) = False"

fun role_sink :: "bool \<Rightarrow> sink \<Rightarrow> bool" where
  "role_sink c (SinkRequest _) = c"
| "role_sink c (SinkResponse _) = (\<not> c)"
| "role_sink c (SinkTCP _) = True"

definition sinks_ok :: "Adapter \<Rightarrow> bool" where
  "sinks_ok a \<longleftrightarrow> (\<forall>sid sk. ad_sinks a sid = Some sk \<longrightarrow> role_sink (ad_isClient a) sk)"

text \<open>
  \<open>recv_ok c a0 a\<close>: from \<open>a0\<close> on, an adapter of role \<open>c\<close> has only caused events of its role, and
  so will its streams.
\<close>

definition recv_ok :: "bool \<Rightarrow> Adapter \<Rightarrow> Adapter \<Rightarrow> bool" where
  "recv_ok c a0 a \<longleftrightarrow> moves (role_event c) a0 a \<and> sinks_ok a \<and> ad_isClient a = c"

lemma sinks_ok_upd [simp]:
  "sinks_ok (emit ev a) = sinks_ok a"
  "sinks_ok (a\<lparr>ad_flowController := f\<rparr>) = sinks_ok a"
  "sinks_ok (a\<lparr>ad_streamManager := sm\<rparr>) = sinks_ok a"
  "sinks_ok (set_stream sid s a) = sinks_ok a"
  by (simp_all add: sinks_ok_def emit_def set_stream_def)

lemma sinks_ok_fold_emit [simp]: "sinks_ok (fold (\<lambda>x. emit (f x)) xs a) = sinks_ok a"
  by (induction xs arbitrary: a) auto

lemma recv_ok_upd [simp]:
  "recv_ok c a0 (a\<lparr>ad_flowController := f\<rparr>) = recv_ok c a0 a"
  "recv_ok c a0 (a\<lparr>ad_streamManager := sm\<rparr>) = recv_ok c a0 a"
  "recv_ok c a0 (set_stream sid s a) = recv_ok c a0 a"
  by (simp_all add: recv_ok_def) (simp add: set_stream_def)

lemma emit_fields [simp]:
  "ad_isClient (emit ev a) = ad_isClient a" "ad_flowController (emit ev a) = ad_flowController a"
  "ad_streamManager (emit ev a) = ad_streamManager a" "ad_sinks (emit ev a) = ad_sinks a"
  "ad_capabilities (emit ev a) = ad_capabilities a" "ad_out (emit ev a) = ad_out a @ [ev]"
  by (simp_all add: emit_def)

lemma recv_ok_emit: "recv_ok c a0 a \<Longrightarrow> role_event c ev \<Longrightarrow> recv_ok c a0 (emit ev a)"
  by (auto simp: recv_ok_def)

lemma recv_ok_fold_emit:
  "recv_ok c a0 a \<Longrightarrow> (\<And>x. role_event c (f x)) \<Longrightarrow> recv_ok c a0 (fold (\<lambda>x. emit (f x)) xs a)"
  by (induction xs arbitrary: a) (auto simp: recv_ok_emit)

lemma recv_ok_and_then:
  assumes "recv_ok c a0 (fst x)" and "\<And>b. recv_ok c a0 b \<Longrightarrow> recv_ok c a0 (fst (f b))"
  shows "recv_ok c a0 (fst (and_then x f))"
  using assms by (cases "(x, f)" rule: and_then.cases) auto

lemma recv_ok_on_complete:
  assumes a: "recv_ok c a0 a" and rel: "\<And>n b. recv_ok c a0 b \<Longrightarrow> recv_ok c a0 (fst (release n b))"
  shows "recv_ok c a0 (fst (on_complete env release sid data a))"
proof (cases "ad_sinks a sid")
  case (Some sk)
  with a have role: "role_sink c sk" by (auto simp: recv_ok_def sinks_ok_def)
  have fin: "recv_ok c a0 (fst (if ad_flowController b = None then (b, Return) else release (length data) b))"
    if "recv_ok c a0 b" for b
    using that rel by simp
  show ?thesis
  proof (cases sk)
    case (SinkRequest h)
    with role have "recv_ok c a0 (emit (HandledRequest sid p) a)" for p
      by (intro recv_ok_emit a) simp
    from fin [OF this] show ?thesis
      using a Some SinkRequest by (simp add: on_complete_def Let_def split: option.split)
  next
    case (SinkResponse h)
    with role have "recv_ok c a0 (emit (HandledResponse sid p) a)" for p
      by (intro recv_ok_emit a) simp
    from fin [OF this] show ?thesis
      using a Some SinkResponse by (simp add: on_complete_def Let_def split: option.split)
  next
    case (SinkTCP hs)
    have "recv_ok c a0 (fold (\<lambda>(i, h). emit (HandledTCPData i sid data)) hs a)"
      by (simp add: case_prod_unfold recv_ok_fold_emit a)
    from fin [OF this] show ?thesis
      using Some SinkTCP by (simp add: on_complete_def Let_def)
  qed
qed (simp add: on_complete_def a Let_def)

lemma recv_ok_handleBackpressure:
  assumes "recv_ok c a0 a"
  shows "recv_ok c a0 (fst (handleBackpressure env held sid pause a))"
  using assms recv_ok_on_complete [of c a0 _ "\<lambda>n a. (a, Blocked)"]
  by (auto simp: handleBackpressure_def Let_def split: option.split prod.split)

lemma recv_ok_apply_signal:
  "recv_ok c a0 a \<Longrightarrow> recv_ok c a0 (fst (apply_signal env held sig a))"
  by (auto simp: apply_signal_def recv_ok_handleBackpressure split: option.split)

lemma recv_ok_release_window:
  "recv_ok c a0 a \<Longrightarrow> recv_ok c a0 (fst (release_window env held sid n a))"
  by (auto simp: release_window_def recv_ok_apply_signal Let_def split: option.split prod.split)

lemmas recv_ok_intros = recv_ok_and_then recv_ok_emit recv_ok_fold_emit recv_ok_on_complete
  recv_ok_apply_signal recv_ok_release_window

end
