(* ===== verification/AdapterSend.thy ===== *)
theory AdapterSend
  imports Adapter
begin

text \<open>
  The sending half of \<open>BinaryProtocolAdapter\<close> (\<^verbatim>\<open>internal/server/protocol/binary.go\<close>): direct
  and chunked sends on the monitor channel and on data channels, the semantic head and body
  frames, and the routing of TCP data.
\<close>

section \<open>One frame\<close>

definition event_for :: "byte \<Rightarrow> string" where
  "event_for msgType =
     (if msgType = MessageTypeHTTPRequest then ''request''
      else if msgType = MessageTypeHTTPResponse then ''response''
      else if msgType = MessageTypeTCPData then ''tcp:data''
      else ''data'')"

definition semanticMonitorEventForType :: "byte \<Rightarrow> string" where
  "semanticMonitorEventForType mt =
     (if mt = MessageTypeHTTPRequestHead \<or> mt = MessageTypeHTTPRequestBody then ''request''
      else if mt = MessageTypeHTTPResponseHead \<or> mt = MessageTypeHTTPResponseBody then ''response''
      else ''data'')"

text \<open>A binary frame on the monitor channel is base64 text inside a JSON message.\<close>

definition monitor_frame :: "string \<Rightarrow> string \<Rightarrow> byte list \<Rightarrow> out_event" where
  "monitor_frame event sid messageBytes =
     MonitorText (monitor_message event (id_data sid (base64Encode messageBytes)))"

definition build_and_write ::
    "Env \<Rightarrow> (byte list \<Rightarrow> out_event) \<Rightarrow> BinaryMessage \<Rightarrow> Adapter \<Rightarrow> Adapter \<times> result" where
  "build_and_write env mk msg a =
     (case BuildBinaryMessage msg of
        Err e \<Rightarrow> (a, Raise (EncodeError e))
      | Panic \<Rightarrow> (a, Crash)
      | Ok messageBytes \<Rightarrow> write_frame env (mk messageBytes) a)"

definition maybe_compress :: "Env \<Rightarrow> Adapter \<Rightarrow> byte \<Rightarrow> byte list \<Rightarrow> byte list option" where
  "maybe_compress env a msgType data =
     (if shouldUseCompression a msgType then compressData env a data else Some data)"

text \<open>The body shared by the direct sends: compress, take the next sequence number, build, write.\<close>

definition send_one ::
    "Env \<Rightarrow> (byte list \<Rightarrow> out_event) \<Rightarrow> byte \<Rightarrow> string \<Rightarrow> byte list \<Rightarrow> Adapter \<Rightarrow> Adapter \<times> result" where
  "send_one env mk msgType sid data a =
     (case maybe_compress env a msgType data of
        None \<Rightarrow> (a, Raise CompressError)
      | Some processedData \<Rightarrow>
          let (sequence, a) = getNextSequence a sid in
          build_and_write env mk
            \<lparr>bm_Type = msgType, bm_StreamID = sid, bm_Sequence = sequence, bm_Flags = 0,
             bm_Data = processedData\<rparr> a)"

definition sendDirect :: "Env \<Rightarrow> byte \<Rightarrow> string \<Rightarrow> byte list \<Rightarrow> Adapter \<Rightarrow> Adapter \<times> result" where
  "sendDirect env msgType sid data a =
     send_one env (monitor_frame (event_for msgType) sid) msgType sid data a"

definition sendMessageViaSpecificDataChannel ::
    "Env \<Rightarrow> nat \<Rightarrow> byte \<Rightarrow> string \<Rightarrow> byte list \<Rightarrow> Adapter \<Rightarrow> Adapter \<times> result" where
  "sendMessageViaSpecificDataChannel env dc msgType sid data a =
     send_one env (DataBinary dc) msgType sid data a"

text \<open>A write to the shared data connection; without one the write dereferences nil.\<close>

definition sendDirectViaDataChannel ::
    "Env \<Rightarrow> byte \<Rightarrow> string \<Rightarrow> byte list \<Rightarrow> Adapter \<Rightarrow> Adapter \<times> result" where
  "sendDirectViaDataChannel env msgType sid data a =
     (case ad_dataConn a of
        None \<Rightarrow>
          (case maybe_compress env a msgType data of
             None \<Rightarrow> (a, Raise CompressError)
           | Some d \<Rightarrow> if length sid > 255 then (snd (getNextSequence a sid), Raise (EncodeError StreamIDTooLong))
                      else (snd (getNextSequence a sid), Crash))
      | Some conn \<Rightarrow> send_one env (DataBinary conn) msgType sid data a)"

section \<open>Chunked sends\<close>

text \<open>
  The loop over the chunks. The sequence numbers of a chunked message start at 0 and do not
  use the stream's counter; the last chunk carries FIN.
\<close>

fun send_chunks ::
    "Env \<Rightarrow> (byte list \<Rightarrow> out_event) \<Rightarrow> byte \<Rightarrow> string \<Rightarrow> byte list list \<Rightarrow> u32 \<Rightarrow> Adapter \<Rightarrow> Adapter \<times> result" where
  "send_chunks env mk msgType sid [] sequence a = (a, Return)"
| "send_chunks env mk msgType sid (chunk # chunks) sequence a =
     and_then
       (and_then
         (if ad_flowController a = None then (a, Return) else waitFlowSendSlot env sid (length chunk) a)
         (build_and_write env mk
            \<lparr>bm_Type = msgType, bm_StreamID = sid, bm_Sequence = sequence,
             bm_Flags = (if chunks = [] then MessageFlagFIN else 0), bm_Data = chunk\<rparr>))
       (send_chunks env mk msgType sid chunks (sequence + 1))"

definition init_flow :: "string \<Rightarrow> Adapter \<Rightarrow> Adapter" where
  "init_flow sid a =
     a\<lparr>ad_flowController := map_option (\<lambda>fc. InitializeStream fc sid []) (ad_flowController a)\<rparr>"

definition stream_out ::
    "Env \<Rightarrow> (byte list \<Rightarrow> out_event) \<Rightarrow> StreamManager \<Rightarrow> byte \<Rightarrow> string \<Rightarrow> byte list \<Rightarrow> Adapter \<Rightarrow> Adapter \<times> result" where
  "stream_out env mk sm msgType sid data a =
     (let a = init_flow sid a in
      case maybe_compress env a msgType data of
        None \<Rightarrow> (a, Raise CompressError)
      | Some processedData \<Rightarrow>
          (case SplitIntoChunks sm processedData (ad_chunkSize a) of
             None \<Rightarrow> (a, Diverges)
           | Some (Ok chunks) \<Rightarrow> send_chunks env mk msgType sid chunks 0 a
           | Some _ \<Rightarrow> (a, Crash)))"

definition sendStreaming :: "Env \<Rightarrow> byte \<Rightarrow> string \<Rightarrow> byte list \<Rightarrow> Adapter \<Rightarrow> Adapter \<times> result" where
  "sendStreaming env msgType sid data a =
     (case ad_streamManager a of
        None \<Rightarrow> sendDirect env msgType sid data a
      | Some sm \<Rightarrow> stream_out env (monitor_frame (event_for msgType) sid) sm msgType sid data a)"

definition sendStreamingViaDataChannel ::
    "Env \<Rightarrow> nat \<Rightarrow> byte \<Rightarrow> string \<Rightarrow> byte list \<Rightarrow> Adapter \<Rightarrow> Adapter \<times> result" where
  "sendStreamingViaDataChannel env conn msgType sid data a =
     (case ad_streamManager a of
        None \<Rightarrow> sendDirectViaDataChannel env msgType sid data a
      | Some sm \<Rightarrow> stream_out env (DataBinary conn) sm msgType sid data a)"

section \<open>The public senders\<close>

definition sendMessage :: "Env \<Rightarrow> byte \<Rightarrow> string \<Rightarrow> byte list \<Rightarrow> Adapter \<Rightarrow> Adapter \<times> result" where
  "sendMessage env msgType sid data a =
     (if shouldUseStreaming a msgType \<and> ad_streamManager a \<noteq> None
      then sendStreaming env msgType sid data a
      else sendDirect env msgType sid data a)"

definition sendMessageViaDataChannel ::
    "Env \<Rightarrow> nat \<Rightarrow> byte \<Rightarrow> string \<Rightarrow> byte list \<Rightarrow> Adapter \<Rightarrow> Adapter \<times> result" where
  "sendMessageViaDataChannel env conn msgType sid data a =
     (if shouldUseStreaming a msgType \<and> ad_streamManager a \<noteq> None
      then sendStreamingViaDataChannel env conn msgType sid data a
      else sendDirectViaDataChannel env msgType sid data a)"

definition SendHTTPRequest :: "Env \<Rightarrow> string \<Rightarrow> byte list \<Rightarrow> Adapter \<Rightarrow> Adapter \<times> result" where
  "SendHTTPRequest env sid data a = sendMessage env MessageTypeHTTPRequest sid data a"

definition SendHTTPResponse :: "Env \<Rightarrow> string \<Rightarrow> byte list \<Rightarrow> Adapter \<Rightarrow> Adapter \<times> result" where
  "SendHTTPResponse env sid data a = sendMessage env MessageTypeHTTPResponse sid data a"

definition SendTCPData :: "Env \<Rightarrow> string \<Rightarrow> byte list \<Rightarrow> Adapter \<Rightarrow> Adapter \<times> result" where
  "SendTCPData env sid data a =
     (let useTCPOverWS = has_cap a CapabilityFlagTCPOverWS in
      case ad_dataChannels a sid of
        Some dc \<Rightarrow> sendMessageViaSpecificDataChannel env dc MessageTypeTCPData sid data a
      | None \<Rightarrow>
          (case ad_dataConn a of
             Some conn \<Rightarrow> sendMessageViaDataChannel env conn MessageTypeTCPData sid data a
           | None \<Rightarrow>
               if useTCPOverWS then (a, Raise (DataChannelNotReady sid))
               else sendMessage env MessageTypeTCPData sid data a))"

definition sendSemanticHTTPMonitor ::
    "Env \<Rightarrow> byte \<Rightarrow> string \<Rightarrow> byte list \<Rightarrow> byte \<Rightarrow> Adapter \<Rightarrow> Adapter \<times> result" where
  "sendSemanticHTTPMonitor env mt sid data flags a =
     (case (if semanticHTTPHeadType mt \<and> shouldUseSemanticHeadCompression a
            then compressData env a data else Some data) of
        None \<Rightarrow> (a, Raise CompressError)
      | Some processed \<Rightarrow>
          let (sequence, a) = getNextSequence a sid in
          build_and_write env (monitor_frame (semanticMonitorEventForType mt) sid)
            \<lparr>bm_Type = mt, bm_StreamID = sid, bm_Sequence = sequence, bm_Flags = flags,
             bm_Data = processed\<rparr> a)"

definition fin_flags :: "bool \<Rightarrow> byte" where
  "fin_flags fin = (if fin then 0 OR MessageFlagFIN else 0)"

definition SendHTTPRequestHead :: "Env \<Rightarrow> string \<Rightarrow> byte list \<Rightarrow> bool \<Rightarrow> Adapter \<Rightarrow> Adapter \<times> result" where
  "SendHTTPRequestHead env sid head fin a =
     sendSemanticHTTPMonitor env MessageTypeHTTPRequestHead sid head (fin_flags fin) a"

definition SendHTTPRequestBody :: "Env \<Rightarrow> string \<Rightarrow> byte list \<Rightarrow> bool \<Rightarrow> Adapter \<Rightarrow> Adapter \<times> result" where
  "SendHTTPRequestBody env sid chunk fin a =
     sendSemanticHTTPMonitor env MessageTypeHTTPRequestBody sid chunk (fin_flags fin) a"

definition SendHTTPResponseHead :: "Env \<Rightarrow> string \<Rightarrow> byte list \<Rightarrow> bool \<Rightarrow> Adapter \<Rightarrow> Adapter \<times> result" where
  "SendHTTPResponseHead env sid head fin a =
     sendSemanticHTTPMonitor env MessageTypeHTTPResponseHead sid head (fin_flags fin) a"

definition SendHTTPResponseBody :: "Env \<Rightarrow> string \<Rightarrow> byte list \<Rightarrow> bool \<Rightarrow> Adapter \<Rightarrow> Adapter \<times> result" where
  "SendHTTPResponseBody env sid chunk fin a =
     sendSemanticHTTPMonitor env MessageTypeHTTPResponseBody sid chunk (fin_flags fin) a"

section \<open>Single frames\<close>

definition writes_ok :: "Env \<Rightarrow> bool" where
  "writes_ok env \<longleftrightarrow> (\<forall>out ev. en_write_err env out ev = None)"

lemma write_frame_ok: "writes_ok env \<Longrightarrow> write_frame env ev a = (emit ev a, Return)"
  by (simp add: write_frame_def writes_ok_def)

lemma BuildBinaryMessage_ok: "wf_frame msg \<Longrightarrow> BuildBinaryMessage msg = Ok (frame_layout msg)"
  by (rule server_to_client.build_layout)

lemma build_and_write_ok:
  "wf_frame msg \<Longrightarrow> writes_ok env \<Longrightarrow>
     build_and_write env mk msg a = (emit (mk (frame_layout msg)) a, Return)"
  by (simp add: build_and_write_def BuildBinaryMessage_ok write_frame_ok)

lemma BuildBinaryMessage_result:
  "BuildBinaryMessage msg = (if length (bm_StreamID msg) > 255 then Err StreamIDTooLong
     else Ok (frame_layout msg))"
  by (simp add: BuildBinaryMessage_def fill_frame_layout)

lemma build_and_write_moves:
  assumes "\<And>bs. P (mk bs)" "moves P a0 a"
  shows "moves P a0 (fst (build_and_write env mk msg a))"
  using assms by (auto simp: build_and_write_def BuildBinaryMessage_result write_frame_def split: option.split)

lemma build_and_write_Return:
  assumes "build_and_write env mk msg a = (a', Return)"
  shows "a' = emit (mk (frame_layout msg)) a \<and> length (bm_StreamID msg) \<le> 255"
  using assms by (auto simp: build_and_write_def BuildBinaryMessage_result write_frame_def
      split: option.splits if_splits)

section \<open>Waiting for the send window\<close>

text \<open>Nothing but this sender touches the flow controller: no acknowledgement arrives.\<close>

definition quiet :: "Env \<Rightarrow> bool" where
  "quiet env \<longleftrightarrow> (\<forall>t. en_meanwhile env t = [])"

lemma pause_signal:
  "\<exists>b. apply_signal env None (notify fc sid True) a = (b, Return) \<and> moves P a b
     \<and> ad_flowController b = ad_flowController a"
  by (auto simp: apply_signal_def notify_def handleBackpressure_def split: option.split)
    (simp_all add: set_stream_def)

lemma TrySend_refused:
  "\<not> fst (snd (TrySend fc sid n)) \<Longrightarrow> snd (snd (TrySend fc sid n)) = notify (fst (TrySend fc sid n)) sid True"
  by (auto simp: TrySend_def split: prod.splits if_splits)

lemma wait_admitted:
  assumes "ad_flowController a = Some fc" "in_flight fc sid + int n \<le> send_limit fc sid"
  shows "wait_loop env sid n k t a = (a\<lparr>ad_flowController := Some (fst (TrySend fc sid (int n)))\<rparr>, Return)"
proof -
  have "fst (snd (TrySend fc sid (int n)))" using assms(2) by (simp add: TrySend_admits)
  then show ?thesis using assms(1) by (subst wait_loop.simps) (auto split: prod.split)
qed

lemma wait_loop_refused:
  assumes "quiet env" "ad_flowController a = Some fc" "\<not> in_flight fc sid + int n \<le> send_limit fc sid"
  shows "\<exists>b. wait_loop env sid n k t a = (b, Raise (FlowTimeout sid (int n))) \<and> moves P a b"
  using assms
proof (induction env sid n k t a arbitrary: fc rule: wait_loop.induct)
  case (1 env sid n k t a)
  obtain fc' ok sig where attempt: "TrySend fc sid (int n) = (fc', ok, sig)"
    by (cases "TrySend fc sid (int n)")
  with "1.prems" TrySend_admits [of fc sid "int n"] have no: "\<not> ok" by simp
  with attempt TrySend_refused [of fc sid "int n"] have sig: "sig = notify fc' sid True" by simp
  let ?a = "a\<lparr>ad_flowController := Some fc'\<rparr>"
  obtain b where b: "apply_signal env None sig ?a = (b, Return)" "moves P ?a b"
      "ad_flowController b = Some fc'"
    using pause_signal [of env fc' sid ?a P] sig by auto
  have ab: "moves P a b"
    using b(2) by (intro moves_trans [OF _ b(2)]) simp
  show ?case
  proof (cases "t > en_flowSendWaitTimeout env")
    case True
    then show ?thesis
      using b(1) ab attempt no "1.prems"(2) by (subst wait_loop.simps) simp
  next
    case False
    let ?b = "b\<lparr>ad_flowController := map_option (\<lambda>fc. foldl fc_step fc (en_meanwhile env t)) (ad_flowController b)\<rparr>"
    have stay: "\<not> in_flight fc' sid + int n \<le> send_limit fc' sid"
      using attempt no "1.prems"(3) TrySend_in_flight [of fc sid "int n"]
        TrySend_send_limit [of fc sid "int n"] by simp
    have flow: "ad_flowController ?b = Some fc'"
      using "1.prems"(1) b(3) by (simp add: quiet_def)
    obtain d where d: "wait_loop env sid n (Suc k) (t + flow_backoff k) ?b
        = (d, Raise (FlowTimeout sid (int n)))" "moves P ?b d"
      using "1.IH" [OF "1.prems"(2) attempt [symmetric] refl no b(1) [symmetric] refl False
        "1.prems"(1) flow stay] by blast
    have "moves P a d" using ab by (intro moves_trans [OF _ d(2)]) simp
    then show ?thesis
      using b(1) attempt no "1.prems"(2) False d(1) by (subst wait_loop.simps) simp
  qed
qed

end
