(* ===== verification/AdapterReceive.thy ===== *)
theory AdapterReceive
  imports Adapter
begin

text \<open>
  The receiving half of \<open>BinaryProtocolAdapter\<close> (\<^verbatim>\<open>internal/server/protocol/binary.go\<close>): the
  dispatch of a parsed frame, the registration of handlers, the data channel table and
  \<open>Destroy\<close>.
\<close>

section \<open>Dispatch\<close>

definition call_fin ::
    "fin_handler option \<Rightarrow> bool \<Rightarrow> (string \<Rightarrow> byte list \<Rightarrow> bool \<Rightarrow> out_event) \<Rightarrow> string \<Rightarrow> byte list \<Rightarrow> bool
       \<Rightarrow> Adapter \<Rightarrow> Adapter \<times> result" where
  "call_fin h role ev sid payload fin a =
     (case h of
        Some f \<Rightarrow> if role then (emit (ev sid payload fin) a, handler_result (f sid payload fin)) else (a, Return)
      | None \<Rightarrow> (a, Return))"

definition dispatchSemanticHTTPMessage ::
    "Env \<Rightarrow> BinaryMessage \<Rightarrow> bool \<Rightarrow> Adapter \<Rightarrow> Adapter \<times> result" where
  "dispatchSemanticHTTPMessage env msg fin a =
     (case (if semanticHTTPHeadType (bm_Type msg) \<and> shouldUseSemanticHeadCompression a
            then decompressData env a (bm_Data msg) else Some (bm_Data msg)) of
        None \<Rightarrow> (a, Raise DecompressError)
      | Some payload \<Rightarrow>
          let t = bm_Type msg; sid = bm_StreamID msg in
          and_then (release_window env None sid (length (bm_Data msg)) a) (\<lambda>a.
            if t = MessageTypeHTTPRequestHead then
              call_fin (ad_httpRequestHeadHandler a) (ad_isClient a) HandledRequestHead sid payload fin a
            else if t = MessageTypeHTTPRequestBody then
              call_fin (ad_httpRequestBodyHandler a) (ad_isClient a) HandledRequestBody sid payload fin a
            else if t = MessageTypeHTTPResponseHead then
              call_fin (ad_httpResponseHeadHandler a) (\<not> ad_isClient a) HandledResponseHead sid payload fin a
            else if t = MessageTypeHTTPResponseBody then
              call_fin (ad_httpResponseBodyHandler a) (\<not> ad_isClient a) HandledResponseBody sid payload fin a
            else (a, Return)))"

text \<open>The closure a new stream gets, by message type and role.\<close>

definition choose_sink :: "byte \<Rightarrow> string \<Rightarrow> Adapter \<Rightarrow> (adapter_error, sink) outcome" where
  "choose_sink msgType sid a =
     (case (msgType = MessageTypeHTTPRequest \<and> ad_isClient a, ad_httpRequestHandler a) of
        (True, Some h) \<Rightarrow> Ok (SinkRequest h)
      | _ \<Rightarrow>
        (case (msgType = MessageTypeHTTPResponse \<and> \<not> ad_isClient a, ad_httpResponseHandler a) of
           (True, Some h) \<Rightarrow> Ok (SinkResponse h)
         | _ \<Rightarrow>
           if msgType = MessageTypeTCPData then
             (if ad_tcpDataHandlers a = [] then Err (NoTCPHandlers sid) else Ok (SinkTCP (ad_tcpDataHandlers a)))
           else Err (NoHandler msgType sid)))"

definition ensure_stream :: "Env \<Rightarrow> BinaryMessage \<Rightarrow> StreamManager \<Rightarrow> Adapter \<Rightarrow> Adapter \<times> result" where
  "ensure_stream env msg sm a =
     (case GetStream sm (bm_StreamID msg) of
        Some _ \<Rightarrow> (a, Return)
      | None \<Rightarrow>
          (case choose_sink (bm_Type msg) (bm_StreamID msg) a of
             Err e \<Rightarrow> (a, Raise e)
           | Panic \<Rightarrow> (a, Crash)
           | Ok sk \<Rightarrow>
               (case EnsureStream (en_now env) sm (bm_StreamID msg) True False of
                  Ok sm' \<Rightarrow> (a\<lparr>ad_streamManager := Some sm',
                              ad_sinks := (ad_sinks a)(bm_StreamID msg \<mapsto> sk)\<rparr>, Return)
                | _ \<Rightarrow> (a, Crash))))"

text \<open>
  \<open>AddChunk\<close> and the completion it may cause. \<open>OnComplete\<close> runs with the mutex of the stream
  held, so its release of the window passes the stream as held.
\<close>

definition add_chunk :: "Env \<Rightarrow> BinaryMessage \<Rightarrow> bool \<Rightarrow> Adapter \<Rightarrow> Adapter \<times> result" where
  "add_chunk env msg isLast a =
     (case ad_streamManager a of
        None \<Rightarrow> (a, Crash)
      | Some sm \<Rightarrow>
          (case sm_AddChunk (en_now env) sm (bm_StreamID msg) (int (unat (bm_Sequence msg))) (bm_Data msg) isLast of
             Ok (sm', done) \<Rightarrow>
               let a = a\<lparr>ad_streamManager := Some sm'\<rparr> in
               (case done of
                  None \<Rightarrow> (a, Return)
                | Some data \<Rightarrow>
                    on_complete env (\<lambda>n. release_window env (Some (bm_StreamID msg)) (bm_StreamID msg) n)
                      (bm_StreamID msg) data a)
           | _ \<Rightarrow> (a, Crash)))"

definition handle_streamed :: "Env \<Rightarrow> BinaryMessage \<Rightarrow> bool \<Rightarrow> StreamManager \<Rightarrow> Adapter \<Rightarrow> Adapter \<times> result" where
  "handle_streamed env msg isLast sm a =
     and_then (ensure_stream env msg sm a) (add_chunk env msg isLast)"

text \<open>
  A whole message in one frame. The handler's return value is returned at once for requests
  and responses, before the release of the receive window.
\<close>

definition handle_direct :: "Env \<Rightarrow> BinaryMessage \<Rightarrow> Adapter \<Rightarrow> Adapter \<times> result" where
  "handle_direct env msg a =
     (let t = bm_Type msg; sid = bm_StreamID msg in
      case (if shouldUseCompression a t then decompressData env a (bm_Data msg) else Some (bm_Data msg)) of
        None \<Rightarrow> (a, Raise DecompressError)
      | Some payload \<Rightarrow>
          (case (t = MessageTypeHTTPRequest \<and> ad_isClient a, ad_httpRequestHandler a) of
             (True, Some h) \<Rightarrow> (emit (HandledRequest sid payload) a, handler_result (h sid payload))
           | _ \<Rightarrow>
             (case (t = MessageTypeHTTPResponse \<and> \<not> ad_isClient a, ad_httpResponseHandler a) of
                (True, Some h) \<Rightarrow> (emit (HandledResponse sid payload) a, handler_result (h sid payload))
              | _ \<Rightarrow>
                let a = (if t = MessageTypeTCPData
                         then fold (\<lambda>(i, h). emit (HandledTCPData i sid payload)) (ad_tcpDataHandlers a) a
                         else a)
                in release_window env None sid (length (bm_Data msg)) a)))"

text \<open>The receive window of an arriving frame; when it is too small the code sleeps and goes on.\<close>

definition receive_window :: "Env \<Rightarrow> BinaryMessage \<Rightarrow> Adapter \<Rightarrow> Adapter \<times> result" where
  "receive_window env msg a =
     (case ad_flowController a of
        None \<Rightarrow> (a, Return)
      | Some fc \<Rightarrow>
          (case Receive fc (bm_StreamID msg) (int (length (bm_Data msg))) of
             (fc, ok, sig) \<Rightarrow> apply_signal env None sig (a\<lparr>ad_flowController := Some fc\<rparr>)))"

definition handleBinaryMessage :: "Env \<Rightarrow> BinaryMessage \<Rightarrow> Adapter \<Rightarrow> Adapter \<times> result" where
  "handleBinaryMessage env msg a =
     (if bm_Type msg = MessageTypeTCPClose then
        (fold (\<lambda>(i, h). emit (HandledTCPClose i (bm_StreamID msg))) (ad_tcpCloseHandlers a) a, Return)
      else
        let isLast = (bm_Flags msg AND MessageFlagFIN \<noteq> 0) in
        and_then (receive_window env msg a) (\<lambda>a.
          if isSemanticHTTPMessageType (bm_Type msg) then dispatchSemanticHTTPMessage env msg isLast a
          else
            (case (shouldUseStreaming a (bm_Type msg), ad_streamManager a) of
               (True, Some sm) \<Rightarrow> handle_streamed env msg isLast sm a
             | _ \<Rightarrow> handle_direct env msg a)))"

definition HandleBinaryMessage :: "Env \<Rightarrow> byte list \<Rightarrow> Adapter \<Rightarrow> Adapter \<times> result" where
  "HandleBinaryMessage env message a =
     (case ParseBinaryMessage message of
        Panic \<Rightarrow> (a, Crash)
      | Err e \<Rightarrow> (a, Raise (ParseError e))
      | Ok binaryMsg \<Rightarrow> handleBinaryMessage env binaryMsg a)"

section \<open>Registration and data channels\<close>

definition OnHTTPRequest :: "handler \<Rightarrow> Adapter \<Rightarrow> Adapter" where
  "OnHTTPRequest h a = a\<lparr>ad_httpRequestHandler := Some h\<rparr>"

definition OnHTTPResponse :: "handler \<Rightarrow> Adapter \<Rightarrow> Adapter" where
  "OnHTTPResponse h a = a\<lparr>ad_httpResponseHandler := Some h\<rparr>"

definition OnHTTPRequestHead :: "fin_handler \<Rightarrow> Adapter \<Rightarrow> Adapter" where
  "OnHTTPRequestHead h a = a\<lparr>ad_httpRequestHeadHandler := Some h\<rparr>"

definition OnHTTPRequestBody :: "fin_handler \<Rightarrow> Adapter \<Rightarrow> Adapter" where
  "OnHTTPRequestBody h a = a\<lparr>ad_httpRequestBodyHandler := Some h\<rparr>"

definition OnHTTPResponseHead :: "fin_handler \<Rightarrow> Adapter \<Rightarrow> Adapter" where
  "OnHTTPResponseHead h a = a\<lparr>ad_httpResponseHeadHandler := Some h\<rparr>"

definition OnHTTPResponseBody :: "fin_handler \<Rightarrow> Adapter \<Rightarrow> Adapter" where
  "OnHTTPResponseBody h a = a\<lparr>ad_httpResponseBodyHandler := Some h\<rparr>"

text \<open>A registration returns the id under which its unsubscribe function deletes the handler.\<close>

definition OnTCPData :: "handler \<Rightarrow> Adapter \<Rightarrow> nat \<times> Adapter" where
  "OnTCPData h a =
     (let i = ad_handlerIDCounter a in
      (i, a\<lparr>ad_handlerIDCounter := Suc i, ad_tcpDataHandlers := ad_tcpDataHandlers a @ [(i, h)]\<rparr>))"

definition unsubscribe_data :: "nat \<Rightarrow> Adapter \<Rightarrow> Adapter" where
  "unsubscribe_data i a = a\<lparr>ad_tcpDataHandlers := filter (\<lambda>p. fst p \<noteq> i) (ad_tcpDataHandlers a)\<rparr>"

definition OnTCPClose :: "close_handler \<Rightarrow> Adapter \<Rightarrow> nat \<times> Adapter" where
  "OnTCPClose h a =
     (let i = ad_tcpCloseHandlerIDCounter a in
      (i, a\<lparr>ad_tcpCloseHandlerIDCounter := Suc i,
            ad_tcpCloseHandlers := ad_tcpCloseHandlers a @ [(i, h)]\<rparr>))"

definition unsubscribe_close :: "nat \<Rightarrow> Adapter \<Rightarrow> Adapter" where
  "unsubscribe_close i a = a\<lparr>ad_tcpCloseHandlers := filter (\<lambda>p. fst p \<noteq> i) (ad_tcpCloseHandlers a)\<rparr>"

definition SetDataChannel :: "nat option \<Rightarrow> Adapter \<Rightarrow> Adapter" where
  "SetDataChannel conn a = a\<lparr>ad_dataConn := conn\<rparr>"

definition SetDataChannelForStream :: "string \<Rightarrow> nat \<Rightarrow> Adapter \<Rightarrow> Adapter" where
  "SetDataChannelForStream sid conn a = a\<lparr>ad_dataChannels := (ad_dataChannels a)(sid \<mapsto> conn)\<rparr>"

definition RemoveDataChannelForStream :: "string \<Rightarrow> Adapter \<Rightarrow> Adapter" where
  "RemoveDataChannelForStream sid a =
     a\<lparr>ad_dataChannels := (ad_dataChannels a)(sid := None),
       ad_flowController := map_option (\<lambda>fc. fc_RemoveStream fc sid) (ad_flowController a),
       ad_streamManager := map_option (\<lambda>sm. sm_RemoveStream sm sid) (ad_streamManager a)\<rparr>"

definition adapter_Destroy :: "Adapter \<Rightarrow> Adapter \<times> result" where
  "adapter_Destroy a =
     (case (case ad_streamManager a of None \<Rightarrow> Ok None
            | Some sm \<Rightarrow> obind (sm_Destroy sm) (\<lambda>sm. Ok (Some sm))) of
        Ok sm \<Rightarrow> (a\<lparr>ad_streamManager := sm,
                   ad_flowController := map_option fc_Clear (ad_flowController a)\<rparr>, Return)
      | _ \<Rightarrow> (a, Crash))"

section \<open>Roles are respected\<close>

lemma recv_ok_call_fin:
  "recv_ok c a0 a \<Longrightarrow> (role \<Longrightarrow> role_event c (ev sid payload fin)) \<Longrightarrow>
     recv_ok c a0 (fst (call_fin h role ev sid payload fin a))"
  by (auto simp: call_fin_def recv_ok_emit split: option.split)

lemma recv_ok_isClient: "recv_ok c a0 a \<Longrightarrow> ad_isClient a = c"
  by (simp add: recv_ok_def)

lemma recv_ok_dispatch:
  assumes "recv_ok c a0 a"
  shows "recv_ok c a0 (fst (dispatchSemanticHTTPMessage env msg fin a))"
proof -
  have "recv_ok c a0 (fst (and_then (release_window env None sid n a) (\<lambda>a.
            if t = MessageTypeHTTPRequestHead then
              call_fin (ad_httpRequestHeadHandler a) (ad_isClient a) HandledRequestHead sid payload fin a
            else if t = MessageTypeHTTPRequestBody then
              call_fin (ad_httpRequestBodyHandler a) (ad_isClient a) HandledRequestBody sid payload fin a
            else if t = MessageTypeHTTPResponseHead then
              call_fin (ad_httpResponseHeadHandler a) (\<not> ad_isClient a) HandledResponseHead sid payload fin a
            else if t = MessageTypeHTTPResponseBody then
              call_fin (ad_httpResponseBodyHandler a) (\<not> ad_isClient a) HandledResponseBody sid payload fin a
            else (a, Return))))" for sid n t payload
    by (rule recv_ok_and_then) (auto simp: recv_ok_release_window assms recv_ok_isClient intro!: recv_ok_call_fin)
  with assms show ?thesis
    by (auto simp: dispatchSemanticHTTPMessage_def Let_def split: option.split)
qed

lemma choose_sink_role: "choose_sink t sid a = Ok sk \<Longrightarrow> role_sink (ad_isClient a) sk"
  by (auto simp: choose_sink_def split: option.splits bool.splits if_splits)

lemma recv_ok_ensure_stream:
  assumes "recv_ok c a0 a"
  shows "recv_ok c a0 (fst (ensure_stream env msg sm a))"
  using assms choose_sink_role [of "bm_Type msg" "bm_StreamID msg" a]
  by (auto simp: ensure_stream_def recv_ok_def sinks_ok_def split: option.split outcome.split)

lemma recv_ok_add_chunk:
  assumes "recv_ok c a0 a"
  shows "recv_ok c a0 (fst (add_chunk env msg isLast a))"
  using assms
  by (auto simp: add_chunk_def Let_def recv_ok_release_window intro!: recv_ok_on_complete
      split: option.split outcome.split)

lemma recv_ok_tcp_handlers:
  "recv_ok c a0 a \<Longrightarrow> recv_ok c a0 (fold (\<lambda>(i, h). emit (HandledTCPData i sid payload)) hs a)"
  by (auto simp: case_prod_unfold intro!: recv_ok_fold_emit)

lemma recv_ok_handle_direct:
  assumes "recv_ok c a0 a"
  shows "recv_ok c a0 (fst (handle_direct env msg a))"
proof -
  have request: "ad_isClient a \<Longrightarrow> recv_ok c a0 (emit (HandledRequest sid payload) a)"
    and response: "\<not> ad_isClient a \<Longrightarrow> recv_ok c a0 (emit (HandledResponse sid payload) a)" for sid payload
    using assms recv_ok_isClient [OF assms] by (auto intro!: recv_ok_emit)
  show ?thesis
    unfolding handle_direct_def Let_def
    by (cases "bm_Type msg = MessageTypeHTTPRequest \<and> ad_isClient a"; cases "bm_Type msg = MessageTypeHTTPResponse \<and> \<not> ad_isClient a";
        cases "ad_httpRequestHandler a"; cases "ad_httpResponseHandler a")
      (simp_all add: assms request response recv_ok_release_window recv_ok_tcp_handlers split: option.split bool.split)
qed

lemma recv_ok_receive_window:
  "recv_ok c a0 a \<Longrightarrow> recv_ok c a0 (fst (receive_window env msg a))"
  by (auto simp: receive_window_def recv_ok_apply_signal split: option.split prod.split)

lemma recv_ok_handleBinaryMessage:
  assumes "recv_ok c a0 a"
  shows "recv_ok c a0 (fst (handleBinaryMessage env msg a))"
proof (cases "bm_Type msg = MessageTypeTCPClose")
  case True
  with assms show ?thesis
    by (simp add: handleBinaryMessage_def case_prod_unfold recv_ok_fold_emit)
next
  case False
  have "recv_ok c a0 (fst (and_then (receive_window env msg a) (\<lambda>a.
          if isSemanticHTTPMessageType (bm_Type msg) then dispatchSemanticHTTPMessage env msg isLast a
          else
            (case (shouldUseStreaming a (bm_Type msg), ad_streamManager a) of
               (True, Some sm) \<Rightarrow> handle_streamed env msg isLast sm a
             | _ \<Rightarrow> handle_direct env msg a))))" for isLast
    by (rule recv_ok_and_then)
      (auto simp: assms recv_ok_receive_window recv_ok_dispatch handle_streamed_def recv_ok_handle_direct
        recv_ok_ensure_stream recv_ok_add_chunk intro!: recv_ok_and_then split: option.split bool.split)
  with False show ?thesis by (simp add: handleBinaryMessage_def Let_def)
qed

lemma recv_ok_HandleBinaryMessage:
  "recv_ok c a0 a \<Longrightarrow> recv_ok c a0 (fst (HandleBinaryMessage env bs a))"
  by (auto simp: HandleBinaryMessage_def recv_ok_handleBinaryMessage split: outcome.split)

end
