(* ===== verification/TunnelLink.thy ===== *)
theory TunnelLink
  imports AdapterSend AdapterReceive
begin

text \<open>
  Both ends of a tunnel together: what the senders of \<^verbatim>\<open>internal/server/protocol/binary.go\<close> put
  on the wire, chunk by chunk, and what the receiving adapter makes of it.
\<close>

section \<open>Chunked sends\<close>

definition chunk_message :: "byte \<Rightarrow> string \<Rightarrow> u32 \<Rightarrow> bool \<Rightarrow> byte list \<Rightarrow> BinaryMessage" where
  "chunk_message msgType sid sequence isLast chunk =
     \<lparr>bm_Type = msgType, bm_StreamID = sid, bm_Sequence = sequence,
      bm_Flags = (if isLast then MessageFlagFIN else 0), bm_Data = chunk\<rparr>"

fun chunk_messages :: "byte \<Rightarrow> string \<Rightarrow> u32 \<Rightarrow> byte list list \<Rightarrow> BinaryMessage list" where
  "chunk_messages msgType sid sequence [] = []"
| "chunk_messages msgType sid sequence (chunk # chunks) =
     chunk_message msgType sid sequence (chunks = []) chunk
       # chunk_messages msgType sid (sequence + 1) chunks"

lemma length_chunk_messages [simp]: "length (chunk_messages t sid q cs) = length cs"
  by (induction cs arbitrary: q) auto

lemma nth_chunk_messages:
  "i < length cs \<Longrightarrow> chunk_messages t sid q cs ! i =
     chunk_message t sid (q + of_nat i) (Suc i = length cs) (cs ! i)"
proof (induction cs arbitrary: q i)
  case (Cons c cs)
  then show ?case by (cases i) (auto simp: add.assoc)
qed simp

text \<open>The credit left for a stream, when flow control is on at all.\<close>

definition credit_for :: "Adapter \<Rightarrow> string \<Rightarrow> int \<Rightarrow> bool" where
  "credit_for a sid n \<longleftrightarrow>
     (case ad_flowController a of None \<Rightarrow> True
      | Some fc \<Rightarrow> in_flight fc sid + n \<le> send_limit fc sid)"

definition sendable :: "string \<Rightarrow> byte list list \<Rightarrow> bool" where
  "sendable sid cs \<longleftrightarrow> length sid \<le> 255 \<and> (\<forall>c \<in> set cs. length c < 2 ^ 32)"

lemma sendable_wf: "sendable sid (c # cs) \<Longrightarrow> wf_frame (chunk_message t sid q l c)"
  by (simp add: sendable_def wf_frame_def chunk_message_def)

lemma send_chunks_step:
  assumes "writes_ok env" "sendable sid (c # cs)"
    and "ad_flowController a = None \<or>
      (\<exists>fc. ad_flowController a = Some fc \<and> in_flight fc sid + int (length c) \<le> send_limit fc sid)"
  shows "send_chunks env mk t sid (c # cs) q a =
    send_chunks env mk t sid cs (q + 1)
      (emit (mk (frame_layout (chunk_message t sid q (cs = []) c)))
        (a\<lparr>ad_flowController := map_option (\<lambda>fc. fst (TrySend fc sid (int (length c)))) (ad_flowController a)\<rparr>))"
proof -
  have build: "build_and_write env mk \<lparr>bm_Type = t, bm_StreamID = sid, bm_Sequence = q,
      bm_Flags = (if cs = [] then MessageFlagFIN else 0), bm_Data = c\<rparr> b
    = (emit (mk (frame_layout (chunk_message t sid q (cs = []) c))) b, Return)" for b
    using build_and_write_ok [OF sendable_wf [OF assms(2)] assms(1), of mk t q "cs = []" b]
    by (simp add: chunk_message_def)
  from assms(3) show ?thesis
  proof
    assume "ad_flowController a = None"
    then show ?thesis by (cases a) (simp add: build)
  next
    assume "\<exists>fc. ad_flowController a = Some fc \<and> in_flight fc sid + int (length c) \<le> send_limit fc sid"
    then obtain fc where fc: "ad_flowController a = Some fc"
        "in_flight fc sid + int (length c) \<le> send_limit fc sid"
      by blast
    from fc(1) show ?thesis by (simp add: build waitFlowSendSlot_def wait_admitted [OF fc])
  qed
qed

lemma emit_credit [simp]: "credit_for (emit ev a) sid n = credit_for a sid n"
  by (simp add: credit_for_def)

lemma credit_after:
  assumes "credit_for a sid (int (length c) + n)" "0 \<le> n"
  shows "ad_flowController a = None \<or> (\<exists>fc. ad_flowController a = Some fc \<and>
      in_flight fc sid + int (length c) \<le> send_limit fc sid)"
    and "credit_for (a\<lparr>ad_flowController := map_option (\<lambda>fc. fst (TrySend fc sid (int (length c))))
      (ad_flowController a)\<rparr>) sid n"
  using assms by (auto simp: credit_for_def TrySend_in_flight TrySend_admits split: option.splits)

lemma send_chunks_admitted:
  assumes "writes_ok env" "sendable sid cs" "credit_for a sid (int (length (concat cs)))"
  shows "\<exists>b. send_chunks env mk t sid cs q a = (b, Return) \<and> config b = config a
    \<and> ad_out b = ad_out a @ map (mk \<circ> frame_layout) (chunk_messages t sid q cs)"
  using assms
proof (induction cs arbitrary: q a)
  case (Cons c cs)
  let ?a = "a\<lparr>ad_flowController := map_option (\<lambda>fc. fst (TrySend fc sid (int (length c)))) (ad_flowController a)\<rparr>"
  let ?b = "emit (mk (frame_layout (chunk_message t sid q (cs = []) c))) ?a"
  have credit: "credit_for a sid (int (length c) + int (length (concat cs)))"
    using Cons.prems(3) by simp
  from Cons.prems(2) have "sendable sid cs" by (simp add: sendable_def)
  from Cons.IH [OF Cons.prems(1) this, of ?b "q + 1"] credit_after(2) [OF credit]
  obtain b where "send_chunks env mk t sid cs (q + 1) ?b = (b, Return)" "config b = config ?b"
    "ad_out b = ad_out ?b @ map (mk \<circ> frame_layout) (chunk_messages t sid (q + 1) cs)"
    by auto
  with send_chunks_step [OF Cons.prems(1,2) credit_after(1) [OF credit], of mk t q] show ?case
    by (simp add: config_def emit_def)
qed simp

lemma send_chunks_refused:
  assumes "writes_ok env" "quiet env" "sendable sid cs" "\<not> credit_for a sid (int (length (concat cs)))"
    and "credit_for a sid 0"
  shows "\<exists>b n. send_chunks env mk t sid cs q a = (b, Raise (FlowTimeout sid n))"
  using assms
proof (induction cs arbitrary: q a)
  case (Cons c cs)
  let ?a = "a\<lparr>ad_flowController := map_option (\<lambda>fc. fst (TrySend fc sid (int (length c)))) (ad_flowController a)\<rparr>"
  let ?b = "emit (mk (frame_layout (chunk_message t sid q (cs = []) c))) ?a"
  from Cons.prems(4) obtain fc where fc: "ad_flowController a = Some fc"
    by (auto simp: credit_for_def split: option.splits)
  show ?case
  proof (cases "in_flight fc sid + int (length c) \<le> send_limit fc sid")
    case True
    then have "\<not> credit_for ?a sid (int (length (concat cs)))" "credit_for ?a sid 0"
      using Cons.prems(4) fc by (auto simp: credit_for_def TrySend_in_flight TrySend_admits)
    moreover from Cons.prems(3) have "sendable sid cs" by (simp add: sendable_def)
    ultimately obtain b n where "send_chunks env mk t sid cs (q + 1) ?b = (b, Raise (FlowTimeout sid n))"
      using Cons.IH [OF Cons.prems(1,2), of ?b "q + 1"] by auto
    with send_chunks_step [OF Cons.prems(1,3), of a mk t q] True fc show ?thesis by auto
  next
    case False
    from wait_loop_refused [OF Cons.prems(2) fc, of sid "length c" 0 0]
    obtain b where "waitFlowSendSlot env sid (length c) a = (b, Raise (FlowTimeout sid (int (length c))))"
      using False unfolding waitFlowSendSlot_def by blast
    with fc show ?thesis by simp
  qed
qed (simp add: credit_for_def split: option.splits)

end
