(* ===== verification/NegotiationLaws.thy ===== *)
theory NegotiationLaws
  imports Payloads
begin

text \<open>
  The properties of versions, capability negotiation and the payload encodings (theories
  \<open>Capabilities\<close> and \<open>Payloads\<close>).
\<close>

lemma semver_less [simp]:
  "SemVer a b c < SemVer a' b' c' \<longleftrightarrow> a < a' \<or> a = a' \<and> (b < b' \<or> b = b' \<and> c < c')"
  unfolding less_semver_def less_eq_semver.simps by linarith

section \<open>Decimal version strings\<close>

text \<open>The decimal digits of a number, and versions written with three of them.\<close>

fun decimal :: "nat \<Rightarrow> string" where
  "decimal n = (if n < 10 then [char_of (48 + n)] else decimal (n div 10) @ [char_of (48 + n mod 10)])"

declare decimal.simps [simp del]

definition dotted :: "nat \<Rightarrow> nat \<Rightarrow> nat \<Rightarrow> string" where
  "dotted a b c = decimal a @ CHR ''.'' # decimal b @ CHR ''.'' # decimal c"

lemma digit_code: "d < 10 \<Longrightarrow> of_char (char_of (48 + d) :: char) = (48 + d :: nat)"
  by simp

lemma digits_value_snoc: "digits_value (s @ [c]) = digits_value s * 10 + (int (of_char c) - 48)"
  by (simp add: digits_value_def)

lemma decimal_digits: "list_all is_digit (decimal n) \<and> decimal n \<noteq> [] \<and> digits_value (decimal n) = int n"
proof (induction n rule: decimal.induct)
  case (1 n)
  show ?case
  proof (cases "n < 10")
    case True
    then show ?thesis
      by (simp add: decimal.simps [of n] is_digit_def digits_value_def digit_code del: of_char_of)
  next
    case False
    have m: "n mod 10 < 10" by simp
    have "int (n div 10) * 10 + int (n mod 10) = int n" using div_mult_mod_eq [of n 10] by linarith
    with False 1 show ?thesis
      by (simp add: decimal.simps [of n] is_digit_def digits_value_snoc digit_code [OF m] del: of_char_of)
  qed
qed

lemma decimal_one_digit: "n < 10 \<Longrightarrow> decimal n = [char_of (48 + n)]"
  by (simp add: decimal.simps [of n])

lemma decimal_head: "decimal n = c # cs \<Longrightarrow> c \<noteq> CHR ''-'' \<and> c \<noteq> CHR ''+''"
  using decimal_digits [of n] by (auto simp: is_digit_def)

lemma Atoi_decimal: "int n \<le> max_int \<Longrightarrow> Atoi (decimal n) = (int n, True)"
proof -
  assume n: "int n \<le> max_int"
  obtain c cs where c: "decimal n = c # cs" using decimal_digits [of n] by (cases "decimal n") auto
  have "\<not> int n < min_int" by (simp add: min_int_def)
  with n decimal_digits [of n] decimal_head [OF c] show ?thesis
    unfolding c by (simp add: Atoi_def)
qed

lemma dot_free: "CHR ''.'' \<notin> set (decimal n)"
  using decimal_digits [of n] by (auto simp: list_all_iff is_digit_def)

lemma Split_dotted: "Split (dotted a b c) CHR ''.'' = [decimal a, decimal b, decimal c]"
  by (simp add: dotted_def Split_append_sep Split_free dot_free)

lemma compare_three_parts:
  "compare_parts [p, q, r] [p', q', r'] 0 (max (length [p, q, r]) (length [p', q', r'])) =
     (if fst (Atoi p) < fst (Atoi p') then -1 else if fst (Atoi p') < fst (Atoi p) then 1
      else if fst (Atoi q) < fst (Atoi q') then -1 else if fst (Atoi q') < fst (Atoi q) then 1
      else if fst (Atoi r) < fst (Atoi r') then -1 else if fst (Atoi r') < fst (Atoi r) then 1 else 0)"
proof -
  have n: "max (length [p, q, r]) (length [p', q', r']) = Suc (Suc (Suc 0))" by simp
  show ?thesis unfolding n by (simp add: Let_def)
qed

lemma compareVersion_dotted:
  assumes "\<forall>n \<in> {a, b, c, a', b', c'}. int n \<le> max_int"
  shows "compareVersion (dotted a b c) (dotted a' b' c') =
    (let v = SemVer (int a) (int b) (int c); w = SemVer (int a') (int b') (int c')
     in if v < w then -1 else if w < v then 1 else 0)"
proof -
  have v: "fst (Atoi (decimal n)) = int n" if "n \<in> {a, b, c, a', b', c'}" for n
    using assms that by (auto simp: Atoi_decimal)
  have "compareVersion (dotted a b c) (dotted a' b' c') =
      (if a < a' then -1 else if a' < a then 1 else if b < b' then -1 else if b' < b then 1
       else if c < c' then -1 else if c' < c then 1 else 0)"
    unfolding compareVersion_def Split_dotted Let_def compare_three_parts
    by (simp only: v insert_iff simp_thms of_nat_less_iff)
  then show ?thesis by (auto simp: Let_def)
qed

lemma CompareVersion_one_digit:
  assumes "\<forall>n \<in> {a, b, c, a', b', c'}. n < 10"
  shows "CompareVersion (dotted a b c) (dotted a' b' c') =
    (let v = SemVer (int a) (int b) (int c); w = SemVer (int a') (int b') (int c')
     in if v < w then -1 else if w < v then 1 else 0)"
proof -
  have code: "d < 10 \<Longrightarrow> e < 10 \<Longrightarrow> char_of (48 + d) < (char_of (48 + e) :: char) \<longleftrightarrow> d < e" for d e :: nat
    by (simp only: less_char_def digit_code) simp
  have eq: "d < 10 \<Longrightarrow> e < 10 \<Longrightarrow> char_of (48 + d) = (char_of (48 + e) :: char) \<longleftrightarrow> d = e" for d e :: nat
    using digit_code by (metis add_left_cancel)
  from assms show ?thesis
    by (auto simp: CompareVersion_def dotted_def decimal_one_digit code eq Let_def
        simp del: of_char_of)
qed

lemma CompareVersion_ten: "CompareVersion (dotted 10 0 0) (dotted 2 0 0) = -1"
proof -
  have "decimal 10 = ''10''" "decimal 2 = ''2''" "decimal 0 = ''0''" by code_simp+
  then show ?thesis by (simp add: dotted_def CompareVersion_def less_char_def)
qed

text \<open>On versions of three decimal numbers the client's \<open>compareVersion\<close> is the numeric
  comparison of the version triples; the server's \<open>CompareVersion\<close>, a comparison of strings, gives
  the same answer while every number has one digit, but ranks 10.0.0 below 2.0.0.\<close>

theorem version_comparisons:
  assumes "\<forall>n \<in> {a, b, c, a', b', c'}. int n \<le> max_int"
  shows "compareVersion (dotted a b c) (dotted a' b' c') =
      (let v = SemVer (int a) (int b) (int c); w = SemVer (int a') (int b') (int c')
       in if v < w then -1 else if w < v then 1 else 0)
    \<and> ((\<forall>n \<in> {a, b, c, a', b', c'}. n < 10) \<longrightarrow>
        CompareVersion (dotted a b c) (dotted a' b' c') = compareVersion (dotted a b c) (dotted a' b' c'))
    \<and> CompareVersion (dotted 10 0 0) (dotted 2 0 0) = -1
    \<and> compareVersion (dotted 10 0 0) (dotted 2 0 0) = 1"
  using compareVersion_dotted [OF assms] CompareVersion_one_digit [of a b c a' b' c'] CompareVersion_ten
    compareVersion_dotted [of 10 0 0 2 0 0]
  by (simp add: Let_def max_int_def)

lemma version_comparisons_witness:
  "compareVersion (dotted 1 12 0) (dotted 1 9 3) = 1 \<and> CompareVersion (dotted 10 0 0) (dotted 2 0 0) = -1"
  using version_comparisons [of 1 12 0 1 9 3] by (simp add: max_int_def)

text \<open>The switch to the compressed legacy wire format is the order of semantic versions: a peer
  gets it exactly if its version does not parse or is at least 1.3.0.\<close>

theorem compressed_outer_from_1_3_0:
  "shouldUseCompressedOuter version \<longleftrightarrow>
     (case parseSemver version of (major, minor, patch, ok) \<Rightarrow>
        if ok then SemVer 1 3 0 \<le> SemVer major minor patch else True)"
proof (cases "parseSemver version")
  case (fields major minor patch ok)
  then show ?thesis
    using parseSemver_nonneg [of version major minor patch] by (cases ok) (auto simp: shouldUseCompressedOuter_def)
qed


section \<open>Negotiation\<close>


definition official_client :: Capabilities where
  "official_client = the (GetClientCapabilities ''2.0.0'')"

definition official_agreement :: Capabilities where
  "official_agreement =
     \<lparr>cap_Flags = 863, cap_Version = ''2.0.0'', cap_Features = Some
       \<lparr>f_Compression = Some \<lparr>Algorithms = [''brotli'', ''gzip''], Preferred = ''brotli''\<rparr>,
        f_ChunkSize = Some \<lparr>cs_Min = 1024, cs_Max = 524288, cs_Default = 65536\<rparr>,
        f_FlowControl = Some 524288\<rparr>\<rparr>"

lemma official_negotiation:
  assumes "0 \<le> compareVersion v ''2.0.0''"
  shows "negotiateCapabilities (GetClientCapabilities v) = Ok (Some official_agreement)"
proof -
  have flags: "(863 :: int) AND 1023 = 863" "(863 :: int) AND 2 = 2" "(863 :: int) AND 4 = 4" "(863 :: int) AND 8 = 8"
    by code_simp+
  from assms show ?thesis
    by (simp add: GetClientCapabilities_def negotiate_cases has_flag_def capability_consts flags
        negotiateCompression_def clientAlgorithms_def serverAlgorithms_def negotiateChunkSize_def
        serverChunk_def negotiateWindow_def official_agreement_def Let_def)
qed

lemma official_client_eq: "GetClientCapabilities ''2.0.0'' = Some official_client"
  by (simp add: official_client_def GetClientCapabilities_def)


text \<open>The negotiation panics exactly when the client announces streaming but no features at all;
  it falls back to the legacy adapter exactly when no capability is shared.\<close>

theorem negotiation_panics_iff:
  "(negotiateCapabilities (Some c) = Panic \<longleftrightarrow>
      has_flag c CapabilityFlagStreaming \<and> cap_Features c = None)
    \<and> (negotiateCapabilities (Some c) = Ok None \<longleftrightarrow> (\<forall>i. \<not> (bit (cap_Flags c) i \<and> bit serverFlags i)))"
proof -
  have "cap_Flags c AND 4 \<noteq> 0 \<Longrightarrow> cap_Flags c AND 1023 \<noteq> 0"
    using and_server_flag [of 4 "cap_Flags c"] by auto
  moreover have "cap_Flags c AND 1023 = 0 \<longleftrightarrow> (\<forall>i. \<not> (bit (cap_Flags c) i \<and> bit (1023 :: int) i))"
    by (simp add: bit_eq_iff bit_and_iff)
  ultimately show ?thesis
    by (auto simp: negotiate_cases has_flag_def capability_consts)
qed

text \<open>What the shipped client gets: from version 2.0.0 on, Brotli, chunks of 64 KiB, a window of
  512 KiB and the flags 863, so never HTTP streaming over the binary protocol; an older one announces
  nothing and is served by the legacy adapter.\<close>

theorem official_client_agreement:
  "(if compareVersion v ''2.0.0'' < 0 then GetClientCapabilities v = None
     else negotiateCapabilities (GetClientCapabilities v) = Ok (Some official_agreement))
    \<and> FactoryCreate None = LegacyAdapter \<and> negotiateCapabilities None = Ok None
    \<and> \<not> has_flag official_agreement CapabilityFlagHTTPStreaming"
proof -
  have "\<not> has_flag official_agreement CapabilityFlagHTTPStreaming" by code_simp
  then show ?thesis
    using official_negotiation [of v]
    by (auto simp: GetClientCapabilities_def FactoryCreate_def negotiateCapabilities_def)
qed

section \<open>Legacy payloads\<close>

text \<open>A payload put on the wire in either legacy form is decoded to the bytes it was made from:
  base64 of a raw HTTP message directly, and base64 of the Brotli stream of the inner base64 text
  whenever that stream does not itself begin like an HTTP message (otherwise it is taken for one).
  The codec is assumed to decompress what it compressed. The callback text is then the base64 of the
  bytes.\<close>

theorem legacy_payload_roundtrip:
  assumes "codec_ok k"
  shows "(looksLikeRawHTTP raw \<longrightarrow> DecodePayload k (base64Encode raw) = Ok raw)
    \<and> (\<forall>y wire. brotli_compress k (str_bytes (base64Encode raw)) = Some y
        \<and> EncodeOuter k (base64Encode raw) = Ok wire \<longrightarrow>
          DecodePayload k wire = Ok (if looksLikeRawHTTP y then y else raw)
        \<and> (\<not> looksLikeRawHTTP y \<longrightarrow> CallbackWireString k wire = Ok (base64Encode raw)))"
  using codec_okD(1) [OF assms]
  by (auto simp: DecodePayload_def EncodeOuter_def compressBrotli_def decompressBrotli_def CallbackWireString_def)

text \<open>A codec that satisfies the assumption: it marks the data with one leading byte.\<close>

definition marking_codec :: Codec where
  "marking_codec = \<lparr>brotli_compress = (\<lambda>x. Some (1 # x)),
     brotli_decompress = (\<lambda>y. case y of b # x \<Rightarrow> if b = 1 then Some x else None | [] \<Rightarrow> None),
     gzip_compress = (\<lambda>x. Some (2 # x)),
     gzip_decompress = (\<lambda>y. case y of b # x \<Rightarrow> if b = 2 then Some x else None | [] \<Rightarrow> None)\<rparr>"

lemma marking_codec_ok: "codec_ok marking_codec"
  by (simp add: codec_ok_def marking_codec_def)

lemma legacy_payload_roundtrip_witness:
  "DecodePayload marking_codec (base64Encode [71, 69, 84, 32]) = Ok [71, 69, 84, 32]
    \<and> CallbackWireString marking_codec (base64Encode (1 # str_bytes (base64Encode [9, 9]))) = Ok (base64Encode [9, 9])"
proof -
  have http: "looksLikeRawHTTP [71, 69, 84, 32]" "\<not> looksLikeRawHTTP (1 # str_bytes (base64Encode [9, 9]))"
    by code_simp+
  have brotli: "brotli_compress marking_codec (str_bytes (base64Encode [9, 9])) = Some (1 # str_bytes (base64Encode [9, 9]))"
    by (simp add: marking_codec_def)
  then have "EncodeOuter marking_codec (base64Encode [9, 9]) = Ok (base64Encode (1 # str_bytes (base64Encode [9, 9])))"
    by (simp add: EncodeOuter_def compressBrotli_def)
  with http brotli legacy_payload_roundtrip [OF marking_codec_ok, of "[71, 69, 84, 32]"]
    legacy_payload_roundtrip [OF marking_codec_ok, of "[9, 9]"]
  show ?thesis by blast
qed

end
