(* ===== verification/FrameLaws.thy ===== *)
theory FrameLaws
  imports BinaryFrame FlowControl Reassembly
begin

text \<open>
  The properties of the frame codec, the flow controller and the stream manager
  (\<^verbatim>\<open>internal/server/protocol/binary.go\<close>, \<^verbatim>\<open>flow_controller.go\<close>, \<^verbatim>\<open>stream_manager.go\<close>, and
  the client's codec in \<^verbatim>\<open>internal/client/types.go\<close>). They rest on the interpretations of the
  locales \<open>frame_link\<close>, \<open>op_machine\<close> and \<open>admission\<close>.
\<close>

section \<open>Frames\<close>

text \<open>A frame whose stream id has at most 255 bytes and whose data is shorter than 2^32
  bytes survives both links: what the server builds the client parses back, and what the client
  builds the server parses back, field for field.\<close>

theorem frames_cross_both_links:
  assumes "length (bm_StreamID msg) \<le> 255" "length (bm_Data msg) < 2 ^ 32"
  shows "obind (BuildBinaryMessage msg) parseBinaryMessage = Ok msg
    \<and> obind (buildBinaryMessage msg) ParseBinaryMessage = Ok msg"
proof -
  have "wf_frame msg" using assms by (simp add: wf_frame_def)
  then show ?thesis by (simp only: server_to_client.roundtrip client_to_server.roundtrip)
qed

definition sample_frame :: BinaryMessage where
  "sample_frame = \<lparr>bm_Type = 1, bm_StreamID = ''s'', bm_Sequence = 7, bm_Flags = 1, bm_Data = [9, 0]\<rparr>"

lemma frames_cross_both_links_witness:
  "obind (BuildBinaryMessage sample_frame) parseBinaryMessage = Ok sample_frame
    \<and> obind (buildBinaryMessage sample_frame) ParseBinaryMessage = Ok sample_frame"
  by (rule frames_cross_both_links) (simp_all add: sample_frame_def)

text \<open>C35: On arbitrary bytes the client's parser never panics, and it accepts exactly the buffers
  the server's parser accepts, with the same message; the server's parser panics exactly on the
  buffers that hold the stream id they announce but not the nine bytes that follow it.\<close>

theorem parsers_on_arbitrary_bytes:
  "parseBinaryMessage buffer \<noteq> Panic
    \<and> (parseBinaryMessage buffer = Ok msg \<longleftrightarrow> ParseBinaryMessage buffer = Ok msg)
    \<and> (ParseBinaryMessage buffer = Panic \<longleftrightarrow>
        11 \<le> length buffer \<and> 2 + unat (buffer ! 1) \<le> length buffer
          \<and> length buffer < 11 + unat (buffer ! 1))"
  by (simp only: parseBinaryMessage_not_Panic parse_agree ParseBinaryMessage_Panic_iff) simp

text \<open>The parser accepts nothing that a sender would not have built: an accepted buffer begins
  with the very bytes its peer's builder produces for the parsed message, and the rest is ignored.\<close>

theorem accepted_buffers_are_built_frames:
  assumes "ParseBinaryMessage buffer = Ok msg"
  shows "\<exists>frame rest. buildBinaryMessage msg = Ok frame \<and> buffer = frame @ rest"
  using assms by (rule client_to_server.reencode)

lemma accepted_buffers_are_built_frames_witness:
  "\<exists>frame rest. buildBinaryMessage sample_frame = Ok frame
     \<and> frame_layout sample_frame @ [4, 5] = frame @ rest"
  by (rule accepted_buffers_are_built_frames)
    (simp add: ParseBinaryMessage_layout sample_frame_def wf_frame_def)

section \<open>Flow control\<close>

text \<open>C33: Whatever sequence of initialisations, sends, acknowledgements, receives, releases and
  removals a new controller goes through (with sizes that are lengths, so not negative), every
  stream's send and receive windows stay between 0 and the stream's maximum.\<close>

theorem flow_windows_bounded:
  assumes "0 \<le> sz" "list_all fc_op_ok ops"
    and "windows (foldl fc_step (NewFlowController sz cb) ops) s = Some w"
  shows "0 \<le> SendWindow w \<and> SendWindow w \<le> MaxWindowSize w
    \<and> 0 \<le> ReceiveWindow w \<and> ReceiveWindow w \<le> MaxWindowSize w"
proof -
  have "fc_inv (NewFlowController sz cb)" using assms(1) by (simp add: fc_inv_def NewFlowController_def)
  from fc_inv_window [OF fc.run_inv [OF this assms(2)] assms(3)] show ?thesis by (simp add: window_ok_def)
qed

lemma flow_windows_bounded_witness:
  "0 \<le> SendWindow \<lparr>SendWindow = 2, ReceiveWindow = 7, MaxWindowSize = 10\<rparr>
    \<and> SendWindow \<lparr>SendWindow = 2, ReceiveWindow = 7, MaxWindowSize = 10\<rparr>
        \<le> MaxWindowSize \<lparr>SendWindow = 2, ReceiveWindow = 7, MaxWindowSize = 10\<rparr>
    \<and> 0 \<le> ReceiveWindow \<lparr>SendWindow = 2, ReceiveWindow = 7, MaxWindowSize = 10\<rparr>
    \<and> ReceiveWindow \<lparr>SendWindow = 2, ReceiveWindow = 7, MaxWindowSize = 10\<rparr>
        \<le> MaxWindowSize \<lparr>SendWindow = 2, ReceiveWindow = 7, MaxWindowSize = 10\<rparr>"
  by (rule flow_windows_bounded
      [where sz = 10 and cb = True and s = "''s''"
        and ops = "[OpTrySend ''s'' 5, OpTrySend ''s'' 8, OpAck ''s'' 3, OpReceive ''s'' 4, OpRelease ''s'' 1]"])
    (simp_all add: fc_defs NewFlowController_def notify_def Let_def)

text \<open>Without an acknowledgement the send window of a stream only fills: the bytes granted by
  any sequence of \<open>TrySend\<close> calls fit into the credit that was left, and a request that was
  refused once is refused however often it is repeated.\<close>

theorem unacknowledged_sends_bounded:
  assumes "in_flight fc s \<le> send_limit fc s" "\<forall>n \<in> set ns. 0 \<le> n"
  shows "in_flight fc s
      + total_granted (\<lambda>fc n. (fst (TrySend fc s n), fst (snd (TrySend fc s n)))) fc ns \<le> send_limit fc s
    \<and> (\<not> fst (snd (TrySend fc s n)) \<longrightarrow>
        \<not> fst (snd (TrySend (((\<lambda>fc. fst (TrySend fc s n)) ^^ k) fc) s n)))"
  using stream_window.total_bound [OF assms] stream_window.refused_forever [of fc s n k] by simp

lemma unacknowledged_sends_bounded_witness:
  "in_flight (NewFlowController 10 True) ''s''
      + total_granted (\<lambda>fc n. (fst (TrySend fc ''s'' n), fst (snd (TrySend fc ''s'' n))))
          (NewFlowController 10 True) [4, 7, 6] \<le> send_limit (NewFlowController 10 True) ''s''
    \<and> \<not> fst (snd (TrySend (((\<lambda>fc. fst (TrySend fc ''s'' 11)) ^^ 3) (NewFlowController 10 True)) ''s'' 11))"
proof -
  have "\<not> fst (snd (TrySend (NewFlowController 10 True) ''s'' 11))"
    "in_flight (NewFlowController 10 True) ''s'' \<le> send_limit (NewFlowController 10 True) ''s''"
    by (simp_all add: TrySend_admits in_flight_def send_limit_def NewFlowController_def)
  then show ?thesis
    using unacknowledged_sends_bounded [of "NewFlowController 10 True" "''s''" "[4, 7, 6]" 11 3] by simp
qed

text \<open>Acknowledging what was sent restores the credit: a granted send of \<open>n\<close> bytes followed by
  an acknowledgement of \<open>n\<close> bytes leaves the bytes in flight as they were, and the streams of other
  ids are untouched by both.\<close>

theorem ack_restores_credit:
  assumes "0 \<le> in_flight fc s" "0 \<le> n" "fst (snd (TrySend fc s n))"
  shows "in_flight (fst (OnAck (fst (TrySend fc s n)) s n)) s = in_flight fc s
    \<and> send_limit (fst (OnAck (fst (TrySend fc s n)) s n)) s = send_limit fc s
    \<and> (t \<noteq> s \<longrightarrow> GetWindowState (fst (OnAck (fst (TrySend fc s n)) s n)) t = GetWindowState fc t)"
  using assms TrySend_other [of t s fc n]
  by (simp add: OnAck_in_flight TrySend_in_flight GetWindowState_def)
    (simp add: OnAck_def set_window_def Let_def split: option.split)

lemma ack_restores_credit_witness:
  "in_flight (fst (OnAck (fst (TrySend (NewFlowController 10 True) ''s'' 4)) ''s'' 4)) ''s''
      = in_flight (NewFlowController 10 True) ''s''
    \<and> GetWindowState (fst (OnAck (fst (TrySend (NewFlowController 10 True) ''s'' 4)) ''s'' 4)) ''t''
      = GetWindowState (NewFlowController 10 True) ''t''"
proof -
  have "0 \<le> in_flight (NewFlowController 10 True) ''s''" "fst (snd (TrySend (NewFlowController 10 True) ''s'' 4))"
    by (simp_all add: TrySend_admits in_flight_def send_limit_def NewFlowController_def)
  then show ?thesis
    using ack_restores_credit [of "NewFlowController 10 True" "''s''" 4 "''t''"] by simp
qed

section \<open>Splitting and reassembly\<close>

text \<open>C32: Splitting a message with a positive chunk size returns non-empty chunks of at most that
  size whose concatenation is the message. Deliver those chunks to a new stream in any order and
  with any repetitions: \<open>OnComplete\<close> is called exactly once, with the message, if every chunk was
  delivered, and never otherwise. (Sequence numbers have 32 bits, so below 2^32 bytes.)\<close>

theorem reassembly_in_any_order:
  assumes "0 < chunkSize" "data \<noteq> []" "length data < 2 ^ 32"
    and "SplitIntoChunks sm data chunkSize = Some (Ok chunks)"
    and "\<forall>ev \<in> set evs. fst ev < length chunks"
  shows "concat chunks = data \<and> (\<forall>c \<in> set chunks. c \<noteq> [] \<and> int (length c) \<le> chunkSize)
    \<and> (\<exists>s'. deliver chunks evs (new_active now sid True oe) =
        Ok (s', if fst ` set evs = {..<length chunks} then [data] else []))"
proof -
  have chunks: "chunks = chunks_of (nat chunkSize) data"
    using assms(1,4) SplitIntoChunks_ok [of chunkSize sm data] by simp
  have con: "concat chunks = data" using assms(1) by (simp add: chunks concat_chunks_of)
  have len: "length chunks < 2 ^ 32"
    using length_chunks_of_le [of "nat chunkSize" data] assms(3) unfolding chunks by linarith
  have ne: "chunks \<noteq> []" using assms(2) con by auto
  have "\<forall>c \<in> set chunks. c \<noteq> [] \<and> int (length c) \<le> chunkSize"
    using chunks_of_bounds [of _ "nat chunkSize" data] assms(1) unfolding chunks by fastforce
  with con deliver_new [OF ne len assms(5), of now sid oe, unfolded con] show ?thesis by blast
qed

lemma reassembly_in_any_order_witness:
  "\<exists>s'. deliver [[1, 2], [3, 4], [5]] [(2, 0), (0, 1), (0, 2), (1, 3)] (new_active 0 ''s'' True True) =
     Ok (s', [[1, 2, 3, 4, 5]])"
proof -
  have split: "SplitIntoChunks (NewStreamManager 64) [1, 2, 3, 4, 5] 2 = Some (Ok [[1, 2], [3, 4], [5]])"
    by (simp add: SplitIntoChunks_ok chunks_of.simps)
  have all: "fst ` set [(2, 0), (0, 1), (0, 2), (1, 3 :: int)] = {..<length [[1, 2], [3, 4], [5 :: byte]]}"
    by (auto simp: less_Suc_eq)
  have "\<exists>s'. deliver [[1, 2], [3, 4], [5]] [(2, 0), (0, 1), (0, 2), (1, 3)] (new_active 0 ''s'' True True) =
      Ok (s', if fst ` set [(2, 0), (0, 1), (0, 2), (1, 3 :: int)] = {..<length [[1, 2], [3, 4], [5 :: byte]]}
              then [[1, 2, 3, 4, 5]] else [])"
    by (rule reassembly_in_any_order [OF _ _ _ split, THEN conjunct2, THEN conjunct2]) simp_all
  then show ?thesis unfolding all by (simp only: if_True refl)
qed

text \<open>C36: \<open>SplitIntoChunks\<close> returns for every data and every requested size exactly when the default
  size of its manager is positive: with a default of 0 the loop never ends, and with a negative one it
  panics, on any non-empty data for which no positive size was requested.\<close>

theorem splitting_returns_iff_default_positive:
  "(\<forall>data chunkSize. \<exists>cs. SplitIntoChunks sm data chunkSize = Some (Ok cs)) \<longleftrightarrow> 0 < sm_defaultChunkSize sm"
proof
  assume all: "\<forall>data chunkSize. \<exists>cs. SplitIntoChunks sm data chunkSize = Some (Ok cs)"
  show "0 < sm_defaultChunkSize sm"
  proof (rule ccontr)
    assume "\<not> 0 < sm_defaultChunkSize sm"
    then have "SplitIntoChunks sm [0] 0 = None \<or> SplitIntoChunks sm [0] 0 = Some Panic"
      using SplitIntoChunks_zero [of 0 sm "[0]"] SplitIntoChunks_negative [of 0 sm "[0]"] by force
    with all show False by (metis option.distinct(1) option.inject outcome.distinct(3))
  qed
qed (auto simp: SplitIntoChunks_ok)

end
