(* ===== verification/TunnelLaws.thy ===== *)
theory TunnelLaws
  imports TunnelLink NegotiationLaws FrameLaws
begin

text \<open>
  The properties of the binary tunnel as a whole: a request sent by the server's adapter and
  decoded by the client, the routing of TCP data, sequence numbers, the isolation of streams, the
  separation of roles, and the behaviour of streamed messages under flow control.
\<close>

section \<open>One message, end to end\<close>

lemma algorithms_agree:
  assumes "negotiateCapabilities (Some client) = Ok (Some agreed)"
  shows "adapter_algorithm agreed = receiver_algorithm agreed
    \<and> (adapter_algorithm agreed = ''brotli'' \<or> adapter_algorithm agreed = ''gzip'')"
proof -
  from assms have "\<exists>fs. cap_Features agreed = Some fs \<and>
      (f_Compression fs = None \<or> (\<exists>k. f_Compression fs = Some k \<and> negotiateCompression client = Some k))"
    by (auto simp: negotiate_cases split: if_splits)
  then obtain fs where fs: "cap_Features agreed = Some fs"
    and "f_Compression fs = None \<or> (\<exists>k. f_Compression fs = Some k \<and> negotiateCompression client = Some k)"
    by blast
  then show ?thesis
    using Preferred_brotli_gzip [of client]
    by (auto simp: adapter_algorithm_def receiver_algorithm_def ToLower_def lower_char_def)
qed

text \<open>The adapter as the monitor makes it after a negotiation.\<close>

definition negotiated_adapter :: "Capabilities \<Rightarrow> Adapter \<Rightarrow> bool" where
  "negotiated_adapter agreed a \<longleftrightarrow>
     ad_capabilities a = agreed \<and> ad_compressionAlgorithm a = adapter_algorithm agreed"

lemma decompress_compressed:
  assumes "codec_ok (en_codec env)" "alg = ''brotli'' \<or> alg = ''gzip''"
    and "ad_compressionAlgorithm a = alg" "compressData env a data = Some z"
  shows "z \<noteq> [] \<and> decompress_by (en_codec env) alg z = Some data"
  using assms(2-4) codec_okD [OF assms(1), of data z]
  by (auto simp: compressData_def decompress_by_def compressBrotli_def compressGzipBytes_def
      decompressBrotli_def decompressGzipBytes_def)

lemma monitor_request_sent:
  assumes "writes_ok env" "length sid \<le> 255" "length z < 2 ^ 32"
    and "maybe_compress env a MessageTypeHTTPRequest data = Some z"
  shows "sendDirect env MessageTypeHTTPRequest sid data a =
    (emit (monitor_frame ''request'' sid (frame_layout
        \<lparr>bm_Type = MessageTypeHTTPRequest, bm_StreamID = sid, bm_Sequence = fst (getNextSequence a sid),
         bm_Flags = 0, bm_Data = z\<rparr>)) (snd (getNextSequence a sid)), Return)"
  using assms
  by (simp add: sendDirect_def send_one_def case_prod_unfold Let_def event_for_def build_and_write_ok wf_frame_def)

text \<open>C1: A request sent whole by an adapter with negotiated capabilities reaches the other end
  unchanged: exactly one \<open>request\<close> message is written to the monitor channel, and the client's decoder,
  given the same capabilities, turns its text back into the bytes of the request. (The codec decompresses
  what it compressed, compression succeeds, writes succeed, and the sizes fit the frame.)\<close>

theorem request_reaches_the_client:
  assumes "negotiateCapabilities (Some client) = Ok (Some agreed)" "negotiated_adapter agreed a"
    and "codec_ok (en_codec env)" "writes_ok env" "length sid \<le> 255" "length z < 2 ^ 32"
    and "maybe_compress env a MessageTypeHTTPRequest data = Some z"
  shows "\<exists>b wire. sendDirect env MessageTypeHTTPRequest sid data a = (b, Return)
    \<and> ad_out b = ad_out a @ [MonitorText (monitor_message ''request'' (id_data sid wire))]
    \<and> decodeNewProtocolHTTPRequestPayload (en_codec env) wire (Some agreed) = Ok data"
proof -
  let ?m = "\<lparr>bm_Type = MessageTypeHTTPRequest, bm_StreamID = sid,
    bm_Sequence = fst (getNextSequence a sid), bm_Flags = 0, bm_Data = z\<rparr>"
  have parse: "parseBinaryMessage (frame_layout ?m) = Ok ?m"
    using server_to_client.parse_layout [of ?m "[]"] assms(5,6) by (simp add: wf_frame_def)
  have alg: "ad_compressionAlgorithm a = receiver_algorithm agreed"
    "receiver_algorithm agreed = ''brotli'' \<or> receiver_algorithm agreed = ''gzip''"
    using algorithms_agree [OF assms(1)] assms(2) by (auto simp: negotiated_adapter_def)
  have use: "shouldUseCompression a MessageTypeHTTPRequest = has_flag agreed CapabilityFlagCompression"
    using assms(2) by (simp add: shouldUseCompression_def has_cap_def negotiated_adapter_def frame_consts)
  have "decodeNewProtocolHTTPRequestPayload (en_codec env) (base64Encode (frame_layout ?m)) (Some agreed) = Ok data"
  proof (cases "has_flag agreed CapabilityFlagCompression")
    case True
    with assms(7) use have "compressData env a data = Some z" by (simp add: maybe_compress_def)
    from decompress_compressed [OF assms(3) alg(2,1) this] parse True show ?thesis
      by (simp add: decodeNewProtocolHTTPRequestPayload_def Let_def)
  next
    case False
    with assms(7) use parse show ?thesis
      by (simp add: decodeNewProtocolHTTPRequestPayload_def Let_def maybe_compress_def)
  qed
  then show ?thesis
    unfolding monitor_request_sent [OF assms(4-7)]
    by (auto simp: monitor_frame_def getNextSequence_def Let_def)
qed

text \<open>The surroundings used by the witnesses: writes succeed, nobody else touches the windows.\<close>

definition calm :: Env where
  "calm = \<lparr>en_codec = marking_codec, en_now = 0, en_write_err = (\<lambda>out ev. None),
     en_flowSendWaitTimeout = 0, en_meanwhile = (\<lambda>t. [])\<rparr>"

lemma calm_facts: "codec_ok (en_codec calm)" "writes_ok calm" "quiet calm"
  by (simp_all add: calm_def marking_codec_ok writes_ok_def quiet_def)

definition official_adapter :: Adapter where
  "official_adapter = NewBinaryProtocolAdapter official_agreement False"

lemma official_adapter_negotiated: "negotiated_adapter official_agreement official_adapter"
  by (simp add: negotiated_adapter_def official_adapter_def NewBinaryProtocolAdapter_def)

lemma request_reaches_the_client_witness:
  "\<exists>b wire. sendDirect calm MessageTypeHTTPRequest ''s'' [7, 8] official_adapter = (b, Return)
    \<and> ad_out b = ad_out official_adapter @ [MonitorText (monitor_message ''request'' (id_data ''s'' wire))]
    \<and> decodeNewProtocolHTTPRequestPayload (en_codec calm) wire (Some official_agreement) = Ok [7, 8]"
proof (rule request_reaches_the_client)
  show "negotiateCapabilities (Some official_client) = Ok (Some official_agreement)"
    using official_negotiation [of "''2.0.0''"] by (simp add: official_client_eq)
  show "maybe_compress calm official_adapter MessageTypeHTTPRequest [7, 8] = Some [1, 7, 8]"
    by code_simp
qed (simp_all add: calm_facts official_adapter_negotiated)

section \<open>TCP data\<close>

lemma send_one_tcp:
  assumes "writes_ok env" "length sid \<le> 255" "length data < 2 ^ 32"
  shows "send_one env mk MessageTypeTCPData sid data a =
    (emit (mk (frame_layout \<lparr>bm_Type = MessageTypeTCPData, bm_StreamID = sid,
        bm_Sequence = fst (getNextSequence a sid), bm_Flags = 0, bm_Data = data\<rparr>))
      (snd (getNextSequence a sid)), Return)"
  using assms
  by (simp add: send_one_def maybe_compress_def shouldUseCompression_def case_prod_unfold Let_def
      build_and_write_ok wf_frame_def)

lemma SendTCPData_channel:
  assumes "writes_ok env" "length sid \<le> 255" "length data < 2 ^ 32" "ad_dataChannels a sid = Some dc"
  shows "SendTCPData env sid data a =
    (emit (DataBinary dc (frame_layout \<lparr>bm_Type = MessageTypeTCPData, bm_StreamID = sid,
        bm_Sequence = fst (getNextSequence a sid), bm_Flags = 0, bm_Data = data\<rparr>))
      (snd (getNextSequence a sid)), Return)"
  using send_one_tcp [OF assms(1-3)] assms(4)
  by (simp add: SendTCPData_def sendMessageViaSpecificDataChannel_def Let_def)

text \<open>TCP bytes take the data channel of their stream and no other way: with one registered, one
  binary frame goes to that channel and the peer parses it back to the very bytes, uncompressed; with
  none, and no shared data connection, an adapter that negotiated TCP over WebSocket writes nothing and
  fails with \<open>DataChannelNotReady\<close>, instead of falling back to the monitor channel.\<close>

theorem tcp_data_routing:
  assumes "writes_ok env" "length sid \<le> 255" "length data < 2 ^ 32"
  shows "(\<forall>dc. ad_dataChannels a sid = Some dc \<longrightarrow>
      (\<exists>b frame q. SendTCPData env sid data a = (b, Return)
        \<and> ad_out b = ad_out a @ [DataBinary dc frame]
        \<and> parseBinaryMessage frame = Ok \<lparr>bm_Type = MessageTypeTCPData, bm_StreamID = sid,
            bm_Sequence = q, bm_Flags = 0, bm_Data = data\<rparr>))
    \<and> (ad_dataChannels a sid = None \<and> ad_dataConn a = None \<and> has_cap a CapabilityFlagTCPOverWS \<longrightarrow>
        SendTCPData env sid data a = (a, Raise (DataChannelNotReady sid)))"
proof -
  have "parseBinaryMessage (frame_layout \<lparr>bm_Type = MessageTypeTCPData, bm_StreamID = sid,
      bm_Sequence = q, bm_Flags = 0, bm_Data = data\<rparr>) =
    Ok \<lparr>bm_Type = MessageTypeTCPData, bm_StreamID = sid, bm_Sequence = q, bm_Flags = 0, bm_Data = data\<rparr>" for q
    using server_to_client.parse_layout [of _ "[]"] assms(2,3) by (simp add: wf_frame_def)
  then show ?thesis
    using SendTCPData_channel [OF assms]
    by (auto simp: SendTCPData_def getNextSequence_def Let_def)
qed

lemma tcp_data_routing_witness:
  "(\<exists>b frame q. SendTCPData calm ''s'' [1] (SetDataChannelForStream ''s'' 3 official_adapter) = (b, Return)
      \<and> ad_out b = ad_out (SetDataChannelForStream ''s'' 3 official_adapter) @ [DataBinary 3 frame]
      \<and> parseBinaryMessage frame = Ok \<lparr>bm_Type = MessageTypeTCPData, bm_StreamID = ''s'',
          bm_Sequence = q, bm_Flags = 0, bm_Data = [1]\<rparr>)
    \<and> SendTCPData calm ''s'' [1] official_adapter = (official_adapter, Raise (DataChannelNotReady ''s''))"
proof -
  have "ad_dataChannels (SetDataChannelForStream ''s'' 3 official_adapter) ''s'' = Some 3"
    by (simp add: SetDataChannelForStream_def)
  moreover have "has_cap official_adapter CapabilityFlagTCPOverWS" by code_simp
  moreover have "ad_dataChannels official_adapter ''s'' = None" "ad_dataConn official_adapter = None"
    by (simp_all add: official_adapter_def NewBinaryProtocolAdapter_def)
  ultimately show ?thesis
    using tcp_data_routing [OF calm_facts(2), of "''s''" "[1]" "SetDataChannelForStream ''s'' 3 official_adapter"]
      tcp_data_routing [OF calm_facts(2), of "''s''" "[1]" official_adapter]
    by simp
qed

section \<open>Sequence numbers\<close>

fun send_all :: "Env \<Rightarrow> (string \<times> byte list) list \<Rightarrow> Adapter \<Rightarrow> Adapter \<times> result" where
  "send_all env [] a = (a, Return)"
| "send_all env ((sid, data) # rest) a = and_then (SendTCPData env sid data a) (send_all env rest)"

text \<open>The sequence numbers of the frames of a stream, as the receiver of the frames reads them.\<close>

fun seqs_of :: "string \<Rightarrow> out_event \<Rightarrow> u32 list" where
  "seqs_of sid (DataBinary _ frame) =
     (case parseBinaryMessage frame of
        Ok m \<Rightarrow> if bm_StreamID m = sid then [bm_Sequence m] else []
      | _ \<Rightarrow> [])"
| "seqs_of sid _ = []"

definition counter :: "Adapter \<Rightarrow> string \<Rightarrow> u32" where
  "counter a sid = (case ad_sequenceCounter a sid of None \<Rightarrow> 0 | Some n \<Rightarrow> n)"

definition tcp_ready :: "Adapter \<Rightarrow> string \<times> byte list \<Rightarrow> bool" where
  "tcp_ready a = (\<lambda>(sid, data). length sid \<le> 255 \<and> length data < 2 ^ 32 \<and> ad_dataChannels a sid \<noteq> None)"

lemma SendTCPData_step:
  assumes "writes_ok env" "tcp_ready a (t, data)"
  shows "\<exists>b dc frame. SendTCPData env t data a = (b, Return) \<and> ad_dataChannels b = ad_dataChannels a
    \<and> ad_out b = ad_out a @ [DataBinary dc frame]
    \<and> seqs_of sid (DataBinary dc frame) = (if t = sid then [counter a sid + 1] else [])
    \<and> counter b sid = (if t = sid then counter a sid + 1 else counter a sid)"
proof -
  from assms(2) obtain dc where dc: "length t \<le> 255" "length data < 2 ^ 32" "ad_dataChannels a t = Some dc"
    by (auto simp: tcp_ready_def)
  let ?m = "\<lparr>bm_Type = MessageTypeTCPData, bm_StreamID = t,
        bm_Sequence = fst (getNextSequence a t), bm_Flags = 0, bm_Data = data\<rparr>"
  have "parseBinaryMessage (frame_layout ?m) = Ok ?m"
    using server_to_client.parse_layout [of ?m "[]"] dc by (simp add: wf_frame_def)
  then show ?thesis
    unfolding SendTCPData_channel [OF assms(1) dc]
    by (auto simp: getNextSequence_def Let_def counter_def emit_def)
qed

lemma send_all_sequences:
  assumes "writes_ok env" "list_all (tcp_ready a) msgs"
  shows "\<exists>b new. send_all env msgs a = (b, Return) \<and> ad_out b = ad_out a @ new
    \<and> concat (map (seqs_of sid) new)
      = map (\<lambda>i. counter a sid + of_nat i) [1..<Suc (length (filter (\<lambda>m. fst m = sid) msgs))]"
  using assms(2)
proof (induction msgs arbitrary: a)
  case (Cons m msgs)
  obtain t data where m: "m = (t, data)" by force
  let ?n = "length (filter (\<lambda>m. fst m = sid) msgs)"
  from SendTCPData_step [OF assms(1), of a t data sid] Cons.prems m
  obtain b dc frame where b: "SendTCPData env t data a = (b, Return)" "ad_dataChannels b = ad_dataChannels a"
    "ad_out b = ad_out a @ [DataBinary dc frame]"
    "seqs_of sid (DataBinary dc frame) = (if t = sid then [counter a sid + 1] else [])"
    "counter b sid = (if t = sid then counter a sid + 1 else counter a sid)"
    by auto
  have "list_all (tcp_ready b) msgs" using Cons.prems b(2) by (simp add: tcp_ready_def)
  from Cons.IH [OF this] obtain c new where c: "send_all env msgs b = (c, Return)" "ad_out c = ad_out b @ new"
    "concat (map (seqs_of sid) new) = map (\<lambda>i. counter b sid + of_nat i) [1..<Suc ?n]"
    by auto
  have shift: "map (\<lambda>i. (x + 1) + of_nat i) [1..<Suc ?n] = map (\<lambda>i. x + of_nat i) [2..<Suc (Suc ?n)]" for x :: u32
    unfolding map_Suc_upt [of 1 "Suc ?n", symmetric, unfolded Suc_1] by (simp add: comp_def add.assoc)
  have "concat (map (seqs_of sid) (DataBinary dc frame # new)) =
      map (\<lambda>i. counter a sid + of_nat i) [1..<Suc (length (filter (\<lambda>m. fst m = sid) (m # msgs)))]"
  proof (cases "t = sid")
    case True
    have len: "length (filter (\<lambda>m. fst m = sid) (m # msgs)) = Suc ?n" using True by (simp add: m)
    have cons: "[1..<Suc (Suc ?n)] = 1 # [2..<Suc (Suc ?n)]" by (subst upt_conv_Cons) (simp_all add: numeral_2_eq_2)
    have "concat (map (seqs_of sid) (DataBinary dc frame # new))
        = (counter a sid + 1) # map (\<lambda>i. (counter a sid + 1) + of_nat i) [1..<Suc ?n]"
      using True by (simp add: b(4) c(3) b(5) del: upt_Suc seqs_of.simps)
    then show ?thesis unfolding len cons shift by simp
  qed (simp add: b(4) c(3) b(5) m del: seqs_of.simps)
  moreover have "send_all env (m # msgs) a = (c, Return)" by (simp add: m b(1) c(1))
  ultimately show ?case using b(3) c(2) by (intro exI [of _ c] exI [of _ "DataBinary dc frame # new"]) simp
qed simp

text \<open>Whatever the interleaving of streams, the TCP frames of one stream that a new adapter sends
  carry the sequence numbers 1, 2, 3, and so on, without gap or repetition, modulo 2^32: the counters of
  different streams do not disturb each other.\<close>

theorem tcp_frames_numbered_per_stream:
  assumes "writes_ok env" "list_all (tcp_ready a) msgs" "ad_sequenceCounter a = Map.empty"
  shows "\<exists>b new. send_all env msgs a = (b, Return) \<and> ad_out b = ad_out a @ new
    \<and> concat (map (seqs_of sid) new)
      = map of_nat [1..<Suc (length (filter (\<lambda>m. fst m = sid) msgs))]"
  using send_all_sequences [OF assms(1,2), of sid] assms(3) by (simp add: counter_def)

lemma tcp_frames_numbered_per_stream_witness:
  "\<exists>b new. send_all calm [(''s'', [1]), (''t'', [2]), (''s'', [3])]
        (SetDataChannelForStream ''s'' 1 (SetDataChannelForStream ''t'' 2 official_adapter)) = (b, Return)
    \<and> ad_out b = ad_out (SetDataChannelForStream ''s'' 1 (SetDataChannelForStream ''t'' 2 official_adapter)) @ new
    \<and> concat (map (seqs_of ''s'') new)
      = map of_nat [1..<Suc (length (filter (\<lambda>m. fst m = ''s'') [(''s'', [1 :: byte]), (''t'', [2]), (''s'', [3])]))]"
  by (rule tcp_frames_numbered_per_stream)
    (simp_all add: calm_facts tcp_ready_def SetDataChannelForStream_def official_adapter_def NewBinaryProtocolAdapter_def)

section \<open>Isolation of streams\<close>

text \<open>Removing a stream's data channel forgets the stream everywhere: its channel, its flow window
  and its reassembly state are gone, TCP data for it is refused from then on (when TCP over WebSocket was
  negotiated and no shared data connection exists), and every other stream keeps all three.\<close>

theorem removed_stream_is_forgotten:
  "(let b = RemoveDataChannelForStream sid a in
      ad_dataChannels b sid = None
    \<and> (\<forall>fc. ad_flowController b = Some fc \<longrightarrow> GetWindowState fc sid = None)
    \<and> (\<forall>sm. ad_streamManager b = Some sm \<longrightarrow> GetStream sm sid = None)
    \<and> (has_cap a CapabilityFlagTCPOverWS \<and> ad_dataConn a = None \<longrightarrow>
        SendTCPData env sid data b = (b, Raise (DataChannelNotReady sid)))
    \<and> (\<forall>t. t \<noteq> sid \<longrightarrow> ad_dataChannels b t = ad_dataChannels a t
        \<and> map_option (\<lambda>fc. GetWindowState fc t) (ad_flowController b)
            = map_option (\<lambda>fc. GetWindowState fc t) (ad_flowController a)
        \<and> map_option (\<lambda>sm. GetStream sm t) (ad_streamManager b)
            = map_option (\<lambda>sm. GetStream sm t) (ad_streamManager a)))"
proof -
  let ?b = "RemoveDataChannelForStream sid a"
  have maps: "ad_dataChannels ?b = (ad_dataChannels a)(sid := None)"
    "ad_flowController ?b = map_option (\<lambda>fc. fc_RemoveStream fc sid) (ad_flowController a)"
    "ad_streamManager ?b = map_option (\<lambda>sm. sm_RemoveStream sm sid) (ad_streamManager a)"
    "ad_dataConn ?b = ad_dataConn a" "has_cap ?b = has_cap a"
    by (simp_all add: RemoveDataChannelForStream_def has_cap_def fun_eq_iff)
  have window: "GetWindowState (fc_RemoveStream fc sid) t = (if t = sid then None else GetWindowState fc t)" for fc t
    by (simp add: GetWindowState_def fc_RemoveStream_def)
  have stream: "GetStream (sm_RemoveStream sm sid) t = (if t = sid then None else GetStream sm t)" for sm t
    by (simp add: GetStream_def sm_RemoveStream_def split: option.split)
  have "SendTCPData env sid data ?b = (?b, Raise (DataChannelNotReady sid))"
    if "has_cap a CapabilityFlagTCPOverWS" "ad_dataConn a = None"
    using that by (simp add: SendTCPData_def maps Let_def)
  then show ?thesis
    by (auto simp: Let_def maps window stream option.map_comp comp_def)
qed

lemma removed_stream_is_forgotten_witness:
  "ad_dataChannels (RemoveDataChannelForStream ''s'' (SetDataChannelForStream ''s'' 1 official_adapter)) ''s'' = None"
  using removed_stream_is_forgotten [of "''s''" "SetDataChannelForStream ''s'' 1 official_adapter" calm "[]"]
  by (simp add: Let_def)

section \<open>Roles\<close>

text \<open>The operations that change an adapter other than by a frame: registrations and channels.\<close>

datatype adapter_op =
    OpFrame "byte list"
  | OpOnHTTPRequest handler | OpOnHTTPResponse handler
  | OpOnHTTPRequestHead fin_handler | OpOnHTTPRequestBody fin_handler
  | OpOnHTTPResponseHead fin_handler | OpOnHTTPResponseBody fin_handler
  | OpOnTCPData handler | OpUnsubscribeData nat | OpOnTCPClose close_handler | OpUnsubscribeClose nat
  | OpSetChannel string nat | OpRemoveChannel string | OpDestroy

fun adapter_step :: "Env \<Rightarrow> Adapter \<Rightarrow> adapter_op \<Rightarrow> Adapter" where
  "adapter_step env a (OpFrame bs) = fst (HandleBinaryMessage env bs a)"
| "adapter_step env a (OpOnHTTPRequest h) = OnHTTPRequest h a"
| "adapter_step env a (OpOnHTTPResponse h) = OnHTTPResponse h a"
| "adapter_step env a (OpOnHTTPRequestHead h) = OnHTTPRequestHead h a"
| "adapter_step env a (OpOnHTTPRequestBody h) = OnHTTPRequestBody h a"
| "adapter_step env a (OpOnHTTPResponseHead h) = OnHTTPResponseHead h a"
| "adapter_step env a (OpOnHTTPResponseBody h) = OnHTTPResponseBody h a"
| "adapter_step env a (OpOnTCPData h) = snd (OnTCPData h a)"
| "adapter_step env a (OpUnsubscribeData i) = unsubscribe_data i a"
| "adapter_step env a (OpOnTCPClose h) = snd (OnTCPClose h a)"
| "adapter_step env a (OpUnsubscribeClose i) = unsubscribe_close i a"
| "adapter_step env a (OpSetChannel s i) = SetDataChannelForStream s i a"
| "adapter_step env a (OpRemoveChannel s) = RemoveDataChannelForStream s a"
| "adapter_step env a OpDestroy = fst (adapter_Destroy a)"

text \<open>What a role may have caused so far, and will cause through the streams it has open.\<close>

definition role_inv :: "bool \<Rightarrow> Adapter \<Rightarrow> bool" where
  "role_inv c a \<longleftrightarrow> ad_isClient a = c \<and> sinks_ok a \<and> list_all (role_event c) (ad_out a)"

lemma role_inv_frame: "role_inv c a \<Longrightarrow> role_inv c (fst (HandleBinaryMessage env bs a))"
  using recv_ok_HandleBinaryMessage [of c a a env bs]
  by (auto simp: role_inv_def recv_ok_def moves_def)

lemmas adapter_op_defs = OnHTTPRequest_def OnHTTPResponse_def OnHTTPRequestHead_def OnHTTPRequestBody_def
  OnHTTPResponseHead_def OnHTTPResponseBody_def OnTCPData_def unsubscribe_data_def OnTCPClose_def
  unsubscribe_close_def SetDataChannelForStream_def RemoveDataChannelForStream_def adapter_Destroy_def

interpretation adapter_roles: op_machine "adapter_step env" "role_inv c" "\<lambda>e. True" for env c
proof
  fix a e
  assume inv: "role_inv c a"
  show "role_inv c (adapter_step env a e)"
  proof (cases e)
    case (OpFrame bs)
    then show ?thesis using role_inv_frame [OF inv] by simp
  qed (use inv in \<open>auto simp: role_inv_def sinks_ok_def adapter_op_defs Let_def split: outcome.split option.split\<close>)
qed

text \<open>C3: Roles are never confused: whatever frames arrive (malformed ones included) and whatever
  handlers are registered or removed in between, a server's adapter is never made to call a request
  handler, nor a client's adapter a response handler.\<close>

theorem adapters_keep_their_role:
  assumes "a = foldl (adapter_step env) (NewBinaryProtocolAdapter caps isClient) ops" "ev \<in> set (ad_out a)"
  shows "role_event isClient ev"
proof -
  have "role_inv isClient (NewBinaryProtocolAdapter caps isClient)"
    by (simp add: role_inv_def sinks_ok_def NewBinaryProtocolAdapter_def)
  from adapter_roles.run_inv [OF this, of ops env] assms show ?thesis
    by (simp add: role_inv_def list_all_iff)
qed

definition client_after_request :: Adapter where
  "client_after_request = foldl (adapter_step calm) (NewBinaryProtocolAdapter official_agreement True)
     [OpOnHTTPRequest (\<lambda>sid data. None),
      OpFrame (frame_layout \<lparr>bm_Type = MessageTypeHTTPRequest, bm_StreamID = ''s'', bm_Sequence = 1,
        bm_Flags = 0, bm_Data = [1, 7]\<rparr>)]"

lemma adapters_keep_their_role_witness: "role_event True (HandledRequest ''s'' [7])"
proof (rule adapters_keep_their_role [OF client_after_request_def])
  show "HandledRequest ''s'' [7] \<in> set (ad_out client_after_request)" by code_simp
qed

end
