(* ===== verification/StreamingLaws.thy ===== *)
theory StreamingLaws
  imports TunnelLaws
begin

text \<open>
  HTTP messages sent in chunks: when such a send returns, what the peer's adapter makes of the
  frames in whatever order they arrive, and what happens when flow control is on as well.
\<close>

section \<open>The chunked send\<close>

definition streaming_sender :: "Env \<Rightarrow> string \<Rightarrow> byte list \<Rightarrow> byte list \<Rightarrow> Adapter \<Rightarrow> bool" where
  "streaming_sender env sid data z a \<longleftrightarrow>
     writes_ok env \<and> length sid \<le> 255 \<and> length z < 2 ^ 32 \<and> 0 < ad_chunkSize a
     \<and> has_cap a CapabilityFlagHTTPStreaming \<and> ad_streamManager a \<noteq> None
     \<and> maybe_compress env a MessageTypeHTTPRequest data = Some z"

definition window_fits :: "Adapter \<Rightarrow> int \<Rightarrow> bool" where
  "window_fits a n \<longleftrightarrow> (case ad_flowController a of None \<Rightarrow> True | Some fc \<Rightarrow> n \<le> defaultMaxWindowSize fc)"

lemma init_flow_credit: "credit_for (init_flow sid a) sid n \<longleftrightarrow> window_fits a n"
  by (simp add: window_fits_def init_flow_def credit_for_def InitializeStream_def in_flight_def send_limit_def
      set_window_def fresh_window_def Let_def split: option.split)

lemma init_flow_same [simp]:
  "ad_chunkSize (init_flow sid a) = ad_chunkSize a" "ad_out (init_flow sid a) = ad_out a"
  "maybe_compress env (init_flow sid a) t data = maybe_compress env a t data"
  by (simp_all add: init_flow_def maybe_compress_def shouldUseCompression_def has_cap_def compressData_def)

lemma chunks_sendable:
  assumes "length sid \<le> 255" "length z < 2 ^ 32"
  shows "sendable sid (chunks_of n z)"
proof -
  have "length c < 2 ^ 32" if "c \<in> set (chunks_of n z)" for c
  proof -
    from that have "n \<noteq> 0" by (metis chunks_of_eq_Nil empty_iff list.set(1))
    then have z: "concat (chunks_of n z) = z" by (simp add: concat_chunks_of)
    from split_list [OF that] obtain us vs where "chunks_of n z = us @ c # vs" by blast
    with z have "z = concat us @ c @ concat vs" by (metis concat.simps(2) concat_append)
    then have "length c \<le> length z" by simp
    with assms(2) show ?thesis by linarith
  qed
  with assms(1) show ?thesis by (simp add: sendable_def)
qed

lemma streamed_request:
  assumes "streaming_sender env sid data z a"
  shows "SendHTTPRequest env sid data a =
    send_chunks env (monitor_frame ''request'' sid) MessageTypeHTTPRequest sid
      (chunks_of (nat (ad_chunkSize a)) z) 0 (init_flow sid a)"
proof -
  from assms obtain sm where sm: "ad_streamManager a = Some sm"
    and c: "0 < ad_chunkSize a" "maybe_compress env a MessageTypeHTTPRequest data = Some z"
      "shouldUseStreaming a MessageTypeHTTPRequest"
    by (auto simp: streaming_sender_def shouldUseStreaming_def)
  from SplitIntoChunks_ok [of "ad_chunkSize a" sm z] c(1)
  have "SplitIntoChunks sm z (ad_chunkSize a) = Some (Ok (chunks_of (nat (ad_chunkSize a)) z))" by simp
  with sm c show ?thesis
    by (simp add: SendHTTPRequest_def sendMessage_def sendStreaming_def stream_out_def event_for_def)
qed

lemma chunk_total: "0 < k \<Longrightarrow> length (concat (chunks_of (nat k) z)) = length z"
  by (simp add: concat_chunks_of)

text \<open>C34: A chunked request send returns exactly if the (compressed) request fits the stream's window.
  Since nothing acknowledges in this program, a longer one never gets through: after the time-out the
  send fails with \<open>FlowTimeout\<close>. Without flow control every request is sent.\<close>

theorem streamed_send_returns_iff_it_fits:
  assumes "streaming_sender env sid data z a" "quiet env" "window_fits a 0"
  shows "(snd (SendHTTPRequest env sid data a) = Return \<longleftrightarrow> window_fits a (int (length z)))
    \<and> (\<not> window_fits a (int (length z)) \<longrightarrow>
        (\<exists>n. snd (SendHTTPRequest env sid data a) = Raise (FlowTimeout sid n)))"
proof -
  let ?cs = "chunks_of (nat (ad_chunkSize a)) z" and ?a = "init_flow sid a"
  have s: "writes_ok env" "length sid \<le> 255" "length z < 2 ^ 32" "0 < ad_chunkSize a"
    using assms(1) by (simp_all add: streaming_sender_def)
  note ok = chunks_sendable [OF s(2,3), of "nat (ad_chunkSize a)"]
  have total: "credit_for ?a sid (int (length (concat ?cs))) \<longleftrightarrow> window_fits a (int (length z))"
    and zero: "credit_for ?a sid 0"
    using chunk_total [OF s(4), of z] assms(3) by (simp_all add: init_flow_credit)
  let ?send = "send_chunks env (monitor_frame ''request'' sid) MessageTypeHTTPRequest sid ?cs 0 ?a"
  show ?thesis
    unfolding streamed_request [OF assms(1)]
  proof (cases "window_fits a (int (length z))")
    case True
    with send_chunks_admitted [OF s(1) ok, of ?a "monitor_frame ''request'' sid" MessageTypeHTTPRequest 0, unfolded total]
    have "snd ?send = Return" by (metis snd_conv)
    with True show "(snd ?send = Return \<longleftrightarrow> window_fits a (int (length z)))
        \<and> (\<not> window_fits a (int (length z)) \<longrightarrow> (\<exists>n. snd ?send = Raise (FlowTimeout sid n)))"
      by simp
  next
    case False
    with send_chunks_refused [OF s(1) assms(2) ok, of ?a "monitor_frame ''request'' sid" MessageTypeHTTPRequest 0, unfolded total]
      zero
    obtain n where "snd ?send = Raise (FlowTimeout sid n)" by (metis snd_conv)
    with False show "(snd ?send = Return \<longleftrightarrow> window_fits a (int (length z)))
        \<and> (\<not> window_fits a (int (length z)) \<longrightarrow> (\<exists>n. snd ?send = Raise (FlowTimeout sid n)))"
      by simp
  qed
qed

text \<open>An agreement of all features, and one of streaming without flow control and compression.\<close>

definition streaming_caps :: "int \<Rightarrow> Capabilities" where
  "streaming_caps flags = official_agreement\<lparr>cap_Flags := flags\<rparr>"

definition streaming_adapter :: "int \<Rightarrow> bool \<Rightarrow> Adapter" where
  "streaming_adapter flags isClient = (NewBinaryProtocolAdapter (streaming_caps flags) isClient)\<lparr>ad_chunkSize := 2\<rparr>"

definition narrow_adapter :: Adapter where
  "narrow_adapter = (streaming_adapter 47 False)\<lparr>ad_flowController := Some (NewFlowController 5 True)\<rparr>"

lemma streamed_send_returns_iff_it_fits_witness:
  "snd (SendHTTPRequest calm ''s'' [7, 8, 9] narrow_adapter) = Return
    \<and> (\<exists>n. snd (SendHTTPRequest calm ''s'' [7, 8, 9, 10, 11] narrow_adapter) = Raise (FlowTimeout ''s'' n))"
proof -
  have "maybe_compress calm narrow_adapter MessageTypeHTTPRequest [7, 8, 9] = Some [1, 7, 8, 9]"
    "maybe_compress calm narrow_adapter MessageTypeHTTPRequest [7, 8, 9, 10, 11] = Some [1, 7, 8, 9, 10, 11]"
    "has_cap narrow_adapter CapabilityFlagHTTPStreaming" "ad_streamManager narrow_adapter \<noteq> None"
    by code_simp+
  then have "streaming_sender calm ''s'' [7, 8, 9] [1, 7, 8, 9] narrow_adapter"
    "streaming_sender calm ''s'' [7, 8, 9, 10, 11] [1, 7, 8, 9, 10, 11] narrow_adapter"
    by (simp_all add: streaming_sender_def calm_facts narrow_adapter_def streaming_adapter_def)
  moreover have "window_fits narrow_adapter n \<longleftrightarrow> n \<le> 5" for n
    by (simp add: window_fits_def narrow_adapter_def NewFlowController_def)
  ultimately show ?thesis
    using streamed_send_returns_iff_it_fits [OF _ calm_facts(3), of "''s''" "[7, 8, 9]" "[1, 7, 8, 9]" narrow_adapter]
      streamed_send_returns_iff_it_fits [OF _ calm_facts(3), of "''s''" "[7, 8, 9, 10, 11]" "[1, 7, 8, 9, 10, 11]" narrow_adapter]
    by simp
qed

section \<open>The chunked receive\<close>

text \<open>
  The receiver of a chunked request, without flow control: \<open>s\<close> is the stream the next frame meets,
  either the one stored or the one that frame will create.
\<close>

definition receiving :: "Env \<Rightarrow> string \<Rightarrow> handler \<Rightarrow> Stream \<Rightarrow> Adapter \<Rightarrow> bool" where
  "receiving env sid h s c \<longleftrightarrow>
     ad_isClient c \<and> ad_flowController c = None \<and> has_cap c CapabilityFlagHTTPStreaming
     \<and> ad_httpRequestHandler c = Some h
     \<and> (\<exists>sm m. ad_streamManager c = Some sm \<and> sm_streams sm = Some m
         \<and> (m sid = None \<and> s = new_active (en_now env) sid True False
            \<or> m sid = Some s \<and> ad_sinks c sid = Some (SinkRequest h)))"

definition handed :: "Env \<Rightarrow> Adapter \<Rightarrow> string \<Rightarrow> byte list \<Rightarrow> out_event list" where
  "handed env c sid data =
     (case decompress_sink env c MessageTypeHTTPRequest data of
        None \<Rightarrow> [] | Some payload \<Rightarrow> [HandledRequest sid payload])"

lemma decompress_sink_cong:
  "ad_capabilities b = ad_capabilities a \<Longrightarrow> ad_compressionAlgorithm b = ad_compressionAlgorithm a \<Longrightarrow>
     decompress_sink env b = decompress_sink env a"
  by (simp add: decompress_sink_def shouldUseCompression_def decompressData_def has_cap_def fun_eq_iff)

lemma handed_cong:
  "ad_capabilities b = ad_capabilities a \<Longrightarrow> ad_compressionAlgorithm b = ad_compressionAlgorithm a \<Longrightarrow>
     handed env b = handed env a"
  by (simp add: handed_def fun_eq_iff decompress_sink_cong [of b a])

lemma receive_chunk:
  assumes rec: "receiving env sid h s c"
    and add: "stream_AddChunk (en_now env) s q d l = Ok (s', r)" and wf: "length sid \<le> 255" "length d < 2 ^ 32"
  shows "\<exists>c'. HandleBinaryMessage env (frame_layout (chunk_message MessageTypeHTTPRequest sid q l d)) c = (c', Return)
    \<and> receiving env sid h s' c' \<and> handed env c' = handed env c
    \<and> ad_out c' = ad_out c @ (case r of None \<Rightarrow> [] | Some data \<Rightarrow> handed env c sid data)"
proof -
  define f where "f = chunk_message MessageTypeHTTPRequest sid q l d"
  have parse: "ParseBinaryMessage (frame_layout f) = Ok f"
    using ParseBinaryMessage_layout [of f "[]"] wf by (simp add: wf_frame_def chunk_message_def f_def)
  have fields: "bm_Type f = 1" "bm_StreamID f = sid" "bm_Sequence f = q" "bm_Data f = d"
    "bm_Flags f AND 1 \<noteq> 0 \<longleftrightarrow> l"
    by (simp_all add: chunk_message_def f_def frame_consts)
  from rec obtain sm m where c: "ad_isClient c" "ad_flowController c = None" "has_cap c CapabilityFlagHTTPStreaming"
    "ad_httpRequestHandler c = Some h" "ad_streamManager c = Some sm" "sm_streams sm = Some m"
    and cases: "m sid = None \<and> s = new_active (en_now env) sid True False
            \<or> m sid = Some s \<and> ad_sinks c sid = Some (SinkRequest h)"
    unfolding receiving_def by blast
  have handle: "HandleBinaryMessage env (frame_layout f) c = handle_streamed env f l sm c"
    using c
    by (simp add: HandleBinaryMessage_def parse handleBinaryMessage_def fields receive_window_def Let_def
        isSemanticHTTPMessageType_def shouldUseStreaming_def frame_consts)
  obtain sm' sinks where b: "ensure_stream env f sm c
      = (c\<lparr>ad_streamManager := Some sm', ad_sinks := sinks\<rparr>, Return)"
    "sm_streams sm' = Some (m(sid \<mapsto> s))" "sinks sid = Some (SinkRequest h)"
  proof (cases "m sid")
    case None
    with cases c show ?thesis
      by (intro that [where sm' = "sm\<lparr>sm_streams := Some (m(sid \<mapsto> s))\<rparr>" and sinks = "(ad_sinks c)(sid \<mapsto> SinkRequest h)"])
        (simp_all add: ensure_stream_def fields GetStream_def choose_sink_def EnsureStream_def put_stream_def
          frame_consts)
  next
    case (Some t)
    moreover have "c\<lparr>ad_streamManager := Some sm, ad_sinks := ad_sinks c\<rparr> = c" using c(5) by (cases c) simp
    ultimately show ?thesis
      using cases c by (intro that [where sm' = sm and sinks = "ad_sinks c"]) (auto simp: ensure_stream_def fields GetStream_def fun_upd_idem)
  qed
  define b where "b = c\<lparr>ad_streamManager := Some sm', ad_sinks := sinks,
    ad_streamManager := Some (update_stream sm' sid s')\<rparr>"
  have got: "GetStream sm' sid = Some s" by (simp add: GetStream_def b(2))
  have step: "add_chunk env f l (c\<lparr>ad_streamManager := Some sm', ad_sinks := sinks\<rparr>) =
      (case r of None \<Rightarrow> (b, Return)
       | Some data \<Rightarrow> on_complete env (\<lambda>n. release_window env (Some sid) sid n) sid data b)"
    by (simp add: add_chunk_def fields sm_AddChunk_def got add b_def Let_def split: option.split)
  have fb: "ad_flowController b = None" "ad_sinks b sid = Some (SinkRequest h)" "ad_out b = ad_out c"
    "receiving env sid h s' b" "handed env b = handed env c"
    using c b(2,3)
    by (simp_all add: b_def receiving_def has_cap_def update_stream_def) (rule handed_cong, simp_all)
  have emit: "receiving env sid h s' (emit ev b)" "handed env (emit ev b) = handed env b" for ev
    using fb(4) by (simp_all add: receiving_def has_cap_def emit_def) (rule handed_cong, simp_all)
  show ?thesis
    unfolding f_def [symmetric] handle handle_streamed_def b(1) and_then.simps step fb(5) [symmetric]
    using fb(1-4) emit
    by (auto simp: on_complete_def handed_def Let_def split: option.split)
qed


fun receive_all :: "Env \<Rightarrow> byte list list \<Rightarrow> Adapter \<Rightarrow> Adapter \<times> result" where
  "receive_all env [] c = (c, Return)"
| "receive_all env (frame # frames) c = and_then (HandleBinaryMessage env frame c) (receive_all env frames)"

lemma receive_indexed:
  assumes "receiving env sid h s c" "deliver cs (map (\<lambda>i. (i, en_now env)) js) s = Ok (s', ds)"
    and "length sid \<le> 255" "\<forall>d \<in> set cs. length d < 2 ^ 32" "\<forall>i \<in> set js. i < length cs"
    and "frames = map frame_layout (chunk_messages MessageTypeHTTPRequest sid 0 cs)"
  shows "\<exists>c'. receive_all env (map (nth frames) js) c = (c', Return)
    \<and> ad_out c' = ad_out c @ concat (map (handed env c sid) ds)"
  using assms(1,2,5)
proof (induction js arbitrary: s c ds)
  case (Cons i js)
  let ?d = "cs ! i" and ?l = "Suc i = length cs"
  from Cons.prems(3) have i: "i < length cs" by simp
  then have frame: "frames ! i = frame_layout (chunk_message MessageTypeHTTPRequest sid (of_nat i) ?l ?d)"
    by (simp add: assms(6) nth_chunk_messages)
  from Cons.prems(2) obtain t r ds' where add: "stream_AddChunk (en_now env) s (of_nat i) ?d ?l = Ok (t, r)"
    and rest: "deliver cs (map (\<lambda>i. (i, en_now env)) js) t = Ok (s', ds')"
    and ds: "ds = (case r of None \<Rightarrow> ds' | Some x \<Rightarrow> x # ds')"
    by (auto simp: add_indexed_def outcome_simps)
  from receive_chunk [OF Cons.prems(1) add assms(3)] assms(4) i
  obtain b where b: "HandleBinaryMessage env (frames ! i) c = (b, Return)" "receiving env sid h t b"
    "handed env b = handed env c" "ad_out b = ad_out c @ (case r of None \<Rightarrow> [] | Some data \<Rightarrow> handed env c sid data)"
    unfolding frame by auto
  from Cons.IH [OF b(2) rest] Cons.prems(3) obtain c' where
    "receive_all env (map (nth frames) js) b = (c', Return)"
    "ad_out c' = ad_out b @ concat (map (handed env b sid) ds')"
    by auto
  with b ds show ?case by (auto split: option.split)
qed simp

text \<open>C2: A chunked request arrives: when it fits the sender's window, every chunk goes out as a
  \<open>request\<close> frame, and a peer adapter with the same capabilities (and no flow control, see the next
  property) that receives those frames in any order, with any repetitions, hands the request to its handler
  exactly once, byte for byte, and only when all frames have arrived.\<close>

theorem streamed_request_arrives:
  assumes "streaming_sender env sid data z a" "window_fits a (int (length z))" "z \<noteq> []"
    and "codec_ok (en_codec env)"
    and "ad_capabilities c = ad_capabilities a" "ad_compressionAlgorithm c = ad_compressionAlgorithm a"
    and "receiving env sid h (new_active (en_now env) sid True False) c"
  shows "\<exists>b frames. SendHTTPRequest env sid data a = (b, Return)
    \<and> ad_out b = ad_out a @ map (monitor_frame ''request'' sid) frames
    \<and> (\<forall>js. (\<forall>i \<in> set js. i < length frames) \<longrightarrow>
        (\<exists>c'. receive_all env (map (nth frames) js) c = (c', Return)
          \<and> ad_out c' = ad_out c @ (if set js = {..<length frames} then [HandledRequest sid data] else [])))"
proof -
  let ?cs = "chunks_of (nat (ad_chunkSize a)) z"
  let ?frames = "map frame_layout (chunk_messages MessageTypeHTTPRequest sid 0 ?cs)"
  have s: "writes_ok env" "length sid \<le> 255" "length z < 2 ^ 32" "0 < ad_chunkSize a"
    "maybe_compress env a MessageTypeHTTPRequest data = Some z"
    using assms(1) by (simp_all add: streaming_sender_def)
  note ok = chunks_sendable [OF s(2,3), of "nat (ad_chunkSize a)"]
  have credit: "credit_for (init_flow sid a) sid (int (length (concat ?cs)))"
    using assms(2) chunk_total [OF s(4), of z] by (simp add: init_flow_credit)
  from send_chunks_admitted [OF s(1) ok credit, of "monitor_frame ''request'' sid" MessageTypeHTTPRequest 0]
  obtain b where b: "SendHTTPRequest env sid data a = (b, Return)"
    "ad_out b = ad_out a @ map (monitor_frame ''request'' sid) ?frames"
    unfolding streamed_request [OF assms(1)] by (auto simp: comp_def)
  have con: "concat ?cs = z" using s(4) by (simp add: concat_chunks_of)
  then have ne: "?cs \<noteq> []" using assms(3) by (metis concat.simps(1))
  have len: "length ?cs < 2 ^ 32" using length_chunks_of_le [of "nat (ad_chunkSize a)" z] s(3) by linarith
  have handed: "handed env c sid z = [HandledRequest sid data]"
  proof -
    have "decompress_sink env c MessageTypeHTTPRequest z = Some data"
      using s(5) assms(5,6) codec_okD [OF assms(4), of data z]
      by (auto simp: decompress_sink_def maybe_compress_def shouldUseCompression_def has_cap_def compressData_def
          decompressData_def compressBrotli_def decompressBrotli_def compressGzipBytes_def decompressGzipBytes_def
          split: if_splits)
    then show ?thesis by (simp add: handed_def)
  qed
  have "\<exists>c'. receive_all env (map (nth ?frames) js) c = (c', Return)
      \<and> ad_out c' = ad_out c @ (if set js = {..<length ?frames} then [HandledRequest sid data] else [])"
    if js: "\<forall>i \<in> set js. i < length ?frames" for js
  proof -
    have fst: "fst ` set (map (\<lambda>i. (i, en_now env)) js) = set js" by force
    from deliver_new [OF ne len, of "map (\<lambda>i. (i, en_now env)) js" "en_now env" sid False] js
    obtain s' where "deliver ?cs (map (\<lambda>i. (i, en_now env)) js) (new_active (en_now env) sid True False) =
        Ok (s', if set js = {..<length ?cs} then [z] else [])"
      unfolding fst con by auto
    from receive_indexed [OF assms(7) this s(2) _ _ refl] ok js handed show ?thesis
      by (auto simp: sendable_def)
  qed
  with b show ?thesis by blast
qed

definition request_receiver :: Adapter where
  "request_receiver = OnHTTPRequest (\<lambda>sid data. None) (streaming_adapter 39 True)"

lemma streamed_request_arrives_witness:
  "\<exists>b frames. SendHTTPRequest calm ''s'' [7, 8, 9] (streaming_adapter 39 False) = (b, Return)
    \<and> ad_out b = ad_out (streaming_adapter 39 False) @ map (monitor_frame ''request'' ''s'') frames
    \<and> (\<forall>js. (\<forall>i \<in> set js. i < length frames) \<longrightarrow>
        (\<exists>c'. receive_all calm (map (nth frames) js) request_receiver = (c', Return)
          \<and> ad_out c' = ad_out request_receiver
              @ (if set js = {..<length frames} then [HandledRequest ''s'' [7, 8, 9]] else [])))"
proof (rule streamed_request_arrives [where z = "[1, 7, 8, 9]" and h = "\<lambda>sid data. None"])
  have "maybe_compress calm (streaming_adapter 39 False) MessageTypeHTTPRequest [7, 8, 9] = Some [1, 7, 8, 9]"
    "has_cap (streaming_adapter 39 False) CapabilityFlagHTTPStreaming"
    "ad_streamManager (streaming_adapter 39 False) \<noteq> None" by code_simp+
  then show "streaming_sender calm ''s'' [7, 8, 9] [1, 7, 8, 9] (streaming_adapter 39 False)"
    by (simp add: streaming_sender_def calm_facts streaming_adapter_def)
  have flags: "has_flag (streaming_caps 39) CapabilityFlagHTTPStreaming"
    "has_flag (streaming_caps 39) CapabilityFlagStreaming" "\<not> has_flag (streaming_caps 39) CapabilityFlagFlowControl"
    by code_simp+
  then show "window_fits (streaming_adapter 39 False) (int (length [1, 7, 8, 9 :: byte]))"
    "receiving calm ''s'' (\<lambda>sid data. None) (new_active (en_now calm) ''s'' True False) request_receiver"
    by (simp_all add: window_fits_def receiving_def request_receiver_def OnHTTPRequest_def streaming_adapter_def
        NewBinaryProtocolAdapter_def has_cap_def NewStreamManager_def)
qed (simp_all add: calm_facts request_receiver_def OnHTTPRequest_def streaming_adapter_def NewBinaryProtocolAdapter_def)


section \<open>Flow control at the receiver\<close>

lemma release_full_signals:
  assumes "ad_flowController a = Some fc" "onBackpressure fc" "windows fc sid = Some w"
    "MaxWindowSize w \<le> ReceiveWindow w + int n" "0 < MaxWindowSize w"
    and "ad_streamManager a = Some sm" "GetStream sm sid = Some s"
  shows "snd (release_window env (Some sid) sid n a) = Blocked"
proof -
  have "MaxWindowSize w sdiv 2 < MaxWindowSize w"
    using assms(5) by (simp add: signed_divide_int_def)
  then show ?thesis
    using assms
    by (auto simp: release_window_def ReleaseReceiveWindow_def Let_def notify_def apply_signal_def
        handleBackpressure_def)
qed

text \<open>With flow control and streaming both on, a chunked request deadlocks the receiver: the frame
  that completes the message calls the handler and then never returns, because the window it releases
  resumes the very stream whose mutex is still held. Stated for a message of one frame on a fresh
  stream that fits the window.\<close>

theorem streamed_completion_blocks:
  assumes "ad_isClient c" "has_cap c CapabilityFlagHTTPStreaming" "ad_httpRequestHandler c = Some h"
    and "ad_streamManager c = Some sm" "sm_streams sm = Some m" "m sid = None"
    and "ad_flowController c = Some fc" "onBackpressure fc" "windows fc sid = None"
    and "0 < defaultMaxWindowSize fc" "int (length z) \<le> defaultMaxWindowSize fc"
    and "length sid \<le> 255" "length z < 2 ^ 32" "decompress_sink env c MessageTypeHTTPRequest z = Some data"
  shows "\<exists>c'. HandleBinaryMessage env (frame_layout (chunk_message MessageTypeHTTPRequest sid 0 True z)) c = (c', Blocked)
    \<and> ad_out c' = ad_out c @ [HandledRequest sid data]"
proof -
  define f where "f = chunk_message MessageTypeHTTPRequest sid 0 True z"
  have parse: "ParseBinaryMessage (frame_layout f) = Ok f"
    using ParseBinaryMessage_layout [of f "[]"] assms(12,13) by (simp add: wf_frame_def chunk_message_def f_def)
  have fields: "bm_Type f = 1" "bm_StreamID f = sid" "bm_Sequence f = 0" "bm_Data f = z" "bm_Flags f = 1"
    by (simp_all add: chunk_message_def f_def frame_consts)
  define w where "w = \<lparr>SendWindow = 0, ReceiveWindow = defaultMaxWindowSize fc - int (length z),
    MaxWindowSize = defaultMaxWindowSize fc\<rparr>"
  define fc' where "fc' = fst (Receive fc sid (int (length z)))"
  have fc': "Receive fc sid (int (length z)) = (fc', True, None)" "onBackpressure fc'" "windows fc' sid = Some w"
    using assms(8,9,11) by (auto simp: fc'_def w_def fc_defs Let_def)
  define c1 where "c1 = c\<lparr>ad_flowController := Some fc'\<rparr>"
  have recv: "receive_window env f c = (c1, Return)"
    by (simp add: receive_window_def assms(7) fields fc' apply_signal_def c1_def)
  have handle: "HandleBinaryMessage env (frame_layout f) c = handle_streamed env f True sm c1"
    using assms(2,4)
    by (simp add: HandleBinaryMessage_def parse handleBinaryMessage_def recv fields Let_def
        isSemanticHTTPMessageType_def shouldUseStreaming_def frame_consts c1_def has_cap_def)
  define sm1 where "sm1 = sm\<lparr>sm_streams := Some (m(sid \<mapsto> new_active (en_now env) sid True False))\<rparr>"
  define c2 where "c2 = c1\<lparr>ad_streamManager := Some sm1, ad_sinks := (ad_sinks c1)(sid \<mapsto> SinkRequest h)\<rparr>"
  have ensure: "ensure_stream env f sm c1 = (c2, Return)"
    using assms(1,3-6)
    by (simp add: ensure_stream_def fields GetStream_def choose_sink_def EnsureStream_def put_stream_def
        frame_consts c1_def c2_def sm1_def)
  obtain s' where add: "stream_AddChunk (en_now env) (new_active (en_now env) sid True False) 0 z True = Ok (s', Some z)"
    using deliver_new [of "[z]" "[(0, en_now env)]" "en_now env" sid False]
    by (auto simp: add_indexed_def outcome_simps lessThan_Suc split: option.splits)
  define c3 where "c3 = c2\<lparr>ad_streamManager := Some (update_stream sm1 sid s')\<rparr>"
  have "add_chunk env f True c2 = on_complete env (\<lambda>n. release_window env (Some sid) sid n) sid z c3"
    by (simp add: add_chunk_def fields c2_def sm1_def sm_AddChunk_def GetStream_def add c3_def Let_def)
  moreover have "decompress_sink env c3 MessageTypeHTTPRequest z = Some data"
    using assms(14) by (subst decompress_sink_cong [of c3 c]) (simp_all add: c1_def c2_def c3_def)
  moreover have "snd (release_window env (Some sid) sid (length z) (emit (HandledRequest sid data) c3)) = Blocked"
    using fc'(2,3) assms(10)
    by (intro release_full_signals [where fc = fc' and w = w and sm = "update_stream sm1 sid s'" and s = s'])
      (simp_all add: c1_def c2_def c3_def w_def GetStream_def update_stream_def sm1_def)
  moreover have "ad_out (fst (release_window env (Some sid) sid (length z) (emit (HandledRequest sid data) c3)))
      = ad_out c @ [HandledRequest sid data]"
    by (auto simp: release_window_def apply_signal_def handleBackpressure_def c1_def c2_def c3_def Let_def
        ReleaseReceiveWindow_def notify_def split: option.split)
  ultimately show ?thesis
    unfolding f_def [symmetric] handle handle_streamed_def ensure and_then.simps
    by (simp add: on_complete_def c1_def c2_def c3_def prod_eq_iff)
qed


definition blocked_receiver :: Adapter where
  "blocked_receiver = OnHTTPRequest (\<lambda>sid data. None) (streaming_adapter 47 True)"

lemma streamed_completion_blocks_witness:
  "\<exists>c'. HandleBinaryMessage calm (frame_layout (chunk_message MessageTypeHTTPRequest ''s'' 0 True [1, 7])) blocked_receiver
      = (c', Blocked)
    \<and> ad_out c' = ad_out blocked_receiver @ [HandledRequest ''s'' [7]]"
proof (rule streamed_completion_blocks)
  have "has_flag (streaming_caps 47) CapabilityFlagHTTPStreaming"
    "has_flag (streaming_caps 47) CapabilityFlagStreaming" "has_flag (streaming_caps 47) CapabilityFlagFlowControl"
    "adapter_window (streaming_caps 47) = 524288"
    by code_simp+
  then show "has_cap blocked_receiver CapabilityFlagHTTPStreaming"
    "ad_streamManager blocked_receiver = Some (NewStreamManager (adapter_chunk_size (streaming_caps 47)))"
    "ad_flowController blocked_receiver = Some (NewFlowController 524288 True)"
    by (simp_all add: blocked_receiver_def OnHTTPRequest_def streaming_adapter_def NewBinaryProtocolAdapter_def has_cap_def)
  show "decompress_sink calm blocked_receiver MessageTypeHTTPRequest [1, 7] = Some [7]" by code_simp
qed (simp_all add: blocked_receiver_def OnHTTPRequest_def streaming_adapter_def NewBinaryProtocolAdapter_def
    NewStreamManager_def NewFlowController_def)

lemma receive_fits:
  assumes "windows fc sid = Some w" "n \<le> ReceiveWindow w"
  shows "Receive fc sid n = (set_window fc sid (w\<lparr>ReceiveWindow := ReceiveWindow w - n\<rparr>), True, None)"
  using assms by (simp add: Receive_def auto_init_def)

lemma release_restores:
  assumes "ReceiveWindow w + n \<le> MaxWindowSize w" "windows fc sid = Some w"
  shows "windows (fst (ReleaseReceiveWindow fc sid n)) sid = Some (w\<lparr>ReceiveWindow := ReceiveWindow w + n\<rparr>)"
  using assms by (simp add: ReleaseReceiveWindow_def set_window_def Let_def)

lemma handle_direct_request:
  "bm_Type m = MessageTypeHTTPRequest \<Longrightarrow> ad_isClient a \<Longrightarrow> ad_httpRequestHandler a = Some h \<Longrightarrow>
     decompress_sink env a MessageTypeHTTPRequest (bm_Data m) = Some data \<Longrightarrow>
     handle_direct env m a = (emit (HandledRequest (bm_StreamID m) data) a, handler_result (h (bm_StreamID m) data))"
  by (simp add: handle_direct_def decompress_sink_def Let_def)

lemma signal_without_stream:
  "\<forall>sm. ad_streamManager a = Some sm \<longrightarrow> GetStream sm sid = None \<Longrightarrow>
     apply_signal env held (if p then notify fc sid b else None) a = (a, Return)"
  by (auto simp: apply_signal_def notify_def handleBackpressure_def split: option.split)

text \<open>The receive window of a stream in an adapter.\<close>

definition receive_left :: "Adapter \<Rightarrow> string \<Rightarrow> int option" where
  "receive_left a sid =
     (case ad_flowController a of None \<Rightarrow> None | Some fc \<Rightarrow> map_option ReceiveWindow (GetWindowState fc sid))"

text \<open>A direct HTTP request shrinks its stream's receive window for good: the handler's result is
  returned before the release, so the window stays smaller by the frame's length; a semantic body chunk
  or head of the same length takes the release first and leaves the window as it was.\<close>

theorem direct_request_keeps_window_taken:
  assumes "ad_isClient c" "ad_httpRequestHandler c = Some h" "\<not> has_cap c CapabilityFlagHTTPStreaming"
    and "ad_flowController c = Some fc" "windows fc sid = Some w"
    and "\<forall>sm. ad_streamManager c = Some sm \<longrightarrow> GetStream sm sid = None"
    and "int (length z) \<le> ReceiveWindow w" "ReceiveWindow w \<le> MaxWindowSize w"
    and "length sid \<le> 255" "length z < 2 ^ 32" "decompress_sink env c MessageTypeHTTPRequest z = Some data"
  shows "receive_left (fst (HandleBinaryMessage env (frame_layout (chunk_message MessageTypeHTTPRequest sid q fin z)) c)) sid
      = Some (ReceiveWindow w - int (length z))
    \<and> receive_left (fst (HandleBinaryMessage env (frame_layout (chunk_message MessageTypeHTTPRequestBody sid q fin z)) c)) sid
      = Some (ReceiveWindow w)"
proof -
  define c1 where "c1 = c\<lparr>ad_flowController := Some (set_window fc sid (w\<lparr>ReceiveWindow := ReceiveWindow w - int (length z)\<rparr>))\<rparr>"
  have parse: "ParseBinaryMessage (frame_layout (chunk_message t sid q fin z)) = Ok (chunk_message t sid q fin z)" for t
    using ParseBinaryMessage_layout [of _ "[]"] assms(9,10) by (simp add: wf_frame_def chunk_message_def)
  have fields: "bm_Type (chunk_message t sid q fin z) = t" "bm_StreamID (chunk_message t sid q fin z) = sid"
    "bm_Data (chunk_message t sid q fin z) = z" for t
    by (simp_all add: chunk_message_def)
  have recv: "receive_window env (chunk_message t sid q fin z) c = (c1, Return)" for t
    by (simp add: receive_window_def assms(4) fields receive_fits [OF assms(5,7)] apply_signal_def c1_def)
  have c1: "ad_isClient c1" "ad_httpRequestHandler c1 = Some h" "\<not> has_cap c1 CapabilityFlagHTTPStreaming"
    "decompress_sink env c1 MessageTypeHTTPRequest z = Some data"
    using assms(1-3,11) decompress_sink_cong [of c1 c env] by (simp_all add: c1_def has_cap_def)
  have "handle_direct env (chunk_message MessageTypeHTTPRequest sid q fin z) c1
      = (emit (HandledRequest sid data) c1, handler_result (h sid data))"
    using handle_direct_request [of "chunk_message MessageTypeHTTPRequest sid q fin z", OF _ c1(1,2)] c1(4)
    by (simp add: fields)
  moreover have "\<not> shouldUseStreaming c1 MessageTypeHTTPRequest" using c1(3) by (simp add: shouldUseStreaming_def)
  ultimately have request: "fst (HandleBinaryMessage env (frame_layout (chunk_message MessageTypeHTTPRequest sid q fin z)) c)
      = emit (HandledRequest sid data) c1"
    unfolding HandleBinaryMessage_def parse
    by (simp add: handleBinaryMessage_def fields recv Let_def)
      (simp add: isSemanticHTTPMessageType_def frame_consts)
  define c2 where "c2 = c1\<lparr>ad_flowController := Some (set_window fc sid w)\<rparr>"
  have "ReleaseReceiveWindow (set_window fc sid (w\<lparr>ReceiveWindow := ReceiveWindow w - int (length z)\<rparr>)) sid (int (length z))
      = (set_window fc sid w, if ReceiveWindow w > MaxWindowSize w sdiv 2
          then notify (set_window fc sid (w\<lparr>ReceiveWindow := ReceiveWindow w - int (length z)\<rparr>)) sid False else None)"
    using assms(8) by (simp add: ReleaseReceiveWindow_def set_window_def Let_def)
  moreover have "\<forall>sm. ad_streamManager c2 = Some sm \<longrightarrow> GetStream sm sid = None"
    using assms(6) by (simp add: c2_def c1_def)
  ultimately have freed: "release_window env None sid (length z) c1 = (c2, Return)"
    using signal_without_stream [of c2 sid] by (simp add: release_window_def c1_def c2_def)
  have left: "receive_left c2 sid = Some (ReceiveWindow w)"
    by (simp add: c2_def receive_left_def GetWindowState_def set_window_def)
  have body: "receive_left (fst (HandleBinaryMessage env (frame_layout (chunk_message MessageTypeHTTPRequestBody sid q fin z)) c)) sid
      = receive_left c2 sid"
    unfolding HandleBinaryMessage_def parse
    by (auto simp: handleBinaryMessage_def fields recv dispatchSemanticHTTPMessage_def freed call_fin_def Let_def
        isSemanticHTTPMessageType_def semanticHTTPHeadType_def frame_consts receive_left_def split: option.split)
  show ?thesis
    unfolding request body left
    by (simp add: receive_left_def c1_def GetWindowState_def set_window_def)
qed


definition request_client :: Adapter where
  "request_client = OnHTTPRequest (\<lambda>sid data. None)
     ((NewBinaryProtocolAdapter official_agreement True)
        \<lparr>ad_flowController := Some (InitializeStream (NewFlowController 524288 True) ''s'' [])\<rparr>)"

lemma direct_request_keeps_window_taken_witness:
  "receive_left (fst (HandleBinaryMessage calm
        (frame_layout (chunk_message MessageTypeHTTPRequest ''s'' 1 False [1, 7])) request_client)) ''s''
      = Some (ReceiveWindow (fresh_window 524288) - int (length [1, 7 :: byte]))
    \<and> receive_left (fst (HandleBinaryMessage calm
        (frame_layout (chunk_message MessageTypeHTTPRequestBody ''s'' 1 False [1, 7])) request_client)) ''s''
      = Some (ReceiveWindow (fresh_window 524288))"
proof (rule direct_request_keeps_window_taken
    [where fc = "InitializeStream (NewFlowController 524288 True) ''s'' []" and h = "\<lambda>sid data. None"])
  show "decompress_sink calm request_client MessageTypeHTTPRequest [1, 7] = Some [7]" by code_simp
  show "\<not> has_cap request_client CapabilityFlagHTTPStreaming" by code_simp
qed (simp_all add: request_client_def OnHTTPRequest_def NewBinaryProtocolAdapter_def fc_defs NewFlowController_def
    NewStreamManager_def GetStream_def split: option.split)

end
