(* ===== verification/Limiter.thy ===== *)
theory Limiter
  imports Complex_Main Prelude "HOL-Library.AList"
begin

text \<open>
  \<^verbatim>\<open>internal/server/limiter/bandwidth.go\<close>: token buckets and the per-client and global
  bandwidth limits. Go's \<open>float64\<close> amounts are rational numbers here, so rounding is not
  modelled. Every call of \<open>refill\<close> reads the clock: the readings, in nanoseconds, are arguments.
  The upload and download halves of the code are the same text on different fields; they
  share the definitions over \<open>Buckets\<close>. A check locks each bucket on its own, four times in
  a row, so concurrent checks interleave: a check is modelled as a sequence of atomic steps.
\<close>

section \<open>The token bucket\<close>

record TokenBucket =
  tb_tokens :: rat
  tb_lastRefill :: int
  tb_capacity :: rat
  tb_refillRate :: rat

definition NewTokenBucket :: "int \<Rightarrow> rat \<Rightarrow> rat \<Rightarrow> TokenBucket" where
  "NewTokenBucket now cap rate =
     \<lparr>tb_tokens = cap, tb_lastRefill = now, tb_capacity = cap, tb_refillRate = rate\<rparr>"

definition refill :: "int \<Rightarrow> TokenBucket \<Rightarrow> TokenBucket" where
  "refill now tb =
     (let elapsed = of_int (now - tb_lastRefill tb) / 1000000000;
          tokensToAdd = elapsed * tb_refillRate tb
      in tb\<lparr>tb_tokens := (if tb_capacity tb < tb_tokens tb + tokensToAdd then tb_capacity tb
                          else tb_tokens tb + tokensToAdd),
            tb_lastRefill := now\<rparr>)"

definition CanConsume :: "int \<Rightarrow> TokenBucket \<Rightarrow> rat \<Rightarrow> TokenBucket \<times> bool" where
  "CanConsume now tb n = (let tb = refill now tb in (tb, tb_tokens tb \<ge> n))"

definition Consume :: "int \<Rightarrow> TokenBucket \<Rightarrow> rat \<Rightarrow> TokenBucket \<times> bool" where
  "Consume now tb n =
     (let tb = refill now tb in
      if tb_tokens tb \<ge> n then (tb\<lparr>tb_tokens := tb_tokens tb - n\<rparr>, True) else (tb, False))"

definition GetAvailableTokens :: "int \<Rightarrow> TokenBucket \<Rightarrow> TokenBucket \<times> rat" where
  "GetAvailableTokens now tb = (let tb = refill now tb in (tb, tb_tokens tb))"

section \<open>The limiter\<close>

record BandwidthLimit =
  UploadBytesPerSecond :: "int option"
  DownloadBytesPerSecond :: "int option"

text \<open>A nil entry of the map \<open>ByClientId\<close> is \<open>None\<close>; a nil map reads as the empty one.\<close>

record ClientBandwidthLimits =
  ByClientId :: "(string \<times> BandwidthLimit option) list"
  Global :: "BandwidthLimit option"

text \<open>The two bucket fields of one direction.\<close>

record Buckets =
  bk_global :: "TokenBucket option"
  bk_clients :: "string \<Rightarrow> TokenBucket option"

record bandwidthLimiter =
  bl_limits :: ClientBandwidthLimits
  bl_upload :: Buckets     \<comment> \<open>\<open>globalUploadBucket\<close>, \<open>clientUploadBuckets\<close>\<close>
  bl_download :: Buckets   \<comment> \<open>\<open>globalDownloadBucket\<close>, \<open>clientDownloadBuckets\<close>\<close>

definition rate_bucket :: "int \<Rightarrow> int option \<Rightarrow> TokenBucket option" where
  "rate_bucket now limit = map_option (\<lambda>r. NewTokenBucket now (of_int r) (of_int r)) limit"

definition no_limits :: ClientBandwidthLimits where
  "no_limits = \<lparr>ByClientId = [], Global = None\<rparr>"

definition global_bucket ::
    "int \<Rightarrow> (BandwidthLimit \<Rightarrow> int option) \<Rightarrow> ClientBandwidthLimits \<Rightarrow> TokenBucket option" where
  "global_bucket now rate limits =
     (case Global limits of None \<Rightarrow> None | Some g \<Rightarrow> rate_bucket now (rate g))"

definition NewBandwidthLimiter :: "int \<Rightarrow> ClientBandwidthLimits option \<Rightarrow> bandwidthLimiter" where
  "NewBandwidthLimiter now limits =
     (let limits = (case limits of None \<Rightarrow> no_limits | Some l \<Rightarrow> l) in
      \<lparr>bl_limits = limits,
       bl_upload = \<lparr>bk_global = global_bucket now UploadBytesPerSecond limits, bk_clients = Map.empty\<rparr>,
       bl_download = \<lparr>bk_global = global_bucket now DownloadBytesPerSecond limits, bk_clients = Map.empty\<rparr>\<rparr>)"

text \<open>The rate configured for a client, and its bucket, made at the first use.\<close>

definition client_rate ::
    "(BandwidthLimit \<Rightarrow> int option) \<Rightarrow> ClientBandwidthLimits \<Rightarrow> string \<Rightarrow> int option" where
  "client_rate rate limits clientId =
     (if clientId = '''' then None
      else case map_of (ByClientId limits) clientId of
        None \<Rightarrow> None
      | Some None \<Rightarrow> None
      | Some (Some limit) \<Rightarrow> rate limit)"

definition getClientBucket :: "int \<Rightarrow> int option \<Rightarrow> string \<Rightarrow> Buckets \<Rightarrow> Buckets \<times> bool" where
  "getClientBucket now rate clientId bk =
     (case rate of
        None \<Rightarrow> (bk, False)
      | Some r \<Rightarrow>
          (case bk_clients bk clientId of
             Some _ \<Rightarrow> (bk, True)
           | None \<Rightarrow> (bk\<lparr>bk_clients := (bk_clients bk)(clientId \<mapsto> NewTokenBucket now (of_int r) (of_int r))\<rparr>, True)))"

section \<open>A check, step by step\<close>

text \<open>
  Where a check stands. \<open>has\<close> says whether the client has a bucket (the local
  \<open>clientBucket != nil\<close>); a check without a client only takes from the global bucket.
\<close>

datatype check_pc = OnlyGlobal | CheckClient bool | CheckGlobal bool | TakeGlobal bool | TakeClient bool | Done bool

definition on_global :: "(TokenBucket \<Rightarrow> TokenBucket \<times> bool) \<Rightarrow> Buckets \<Rightarrow> Buckets \<times> bool" where
  "on_global f bk =
     (case bk_global bk of None \<Rightarrow> (bk, True)
      | Some tb \<Rightarrow> let (tb, ok) = f tb in (bk\<lparr>bk_global := Some tb\<rparr>, ok))"

definition on_client :: "bool \<Rightarrow> string \<Rightarrow> (TokenBucket \<Rightarrow> TokenBucket \<times> bool) \<Rightarrow> Buckets \<Rightarrow> Buckets \<times> bool" where
  "on_client has clientId f bk =
     (if \<not> has then (bk, True)
      else case bk_clients bk clientId of
        None \<Rightarrow> (bk, True)
      | Some tb \<Rightarrow> let (tb, ok) = f tb in (bk\<lparr>bk_clients := (bk_clients bk)(clientId \<mapsto> tb)\<rparr>, ok))"

fun check_step :: "int \<Rightarrow> string \<Rightarrow> rat \<Rightarrow> check_pc \<Rightarrow> Buckets \<Rightarrow> Buckets \<times> check_pc" where
  "check_step now clientId n OnlyGlobal bk =
     (let (bk, ok) = on_global (\<lambda>tb. Consume now tb n) bk in (bk, Done ok))"
| "check_step now clientId n (CheckClient has) bk =
     (let (bk, ok) = on_client has clientId (\<lambda>tb. CanConsume now tb n) bk
      in (bk, if ok then CheckGlobal has else Done False))"
| "check_step now clientId n (CheckGlobal has) bk =
     (let (bk, ok) = on_global (\<lambda>tb. CanConsume now tb n) bk
      in (bk, if ok then TakeGlobal has else Done False))"
| "check_step now clientId n (TakeGlobal has) bk =
     (let (bk, ok) = on_global (\<lambda>tb. Consume now tb n) bk
      in (bk, if ok then TakeClient has else Done False))"
| "check_step now clientId n (TakeClient has) bk =
     (let (bk, ok) = on_client has clientId (\<lambda>tb. Consume now tb n) bk in (bk, Done ok))"
| "check_step now clientId n (Done b) bk = (bk, Done b)"

definition check_start :: "int \<Rightarrow> int option \<Rightarrow> string \<Rightarrow> Buckets \<Rightarrow> Buckets \<times> check_pc" where
  "check_start now rate clientId bk =
     (if clientId = '''' then (bk, OnlyGlobal)
      else let (bk, has) = getClientBucket now rate clientId bk in (bk, CheckClient has))"

text \<open>An undisturbed check: four steps always reach the answer. \<open>clk i\<close> is the \<open>i\<close>-th reading.\<close>

primrec check_run :: "(nat \<Rightarrow> int) \<Rightarrow> string \<Rightarrow> rat \<Rightarrow> nat \<Rightarrow> Buckets \<times> check_pc \<Rightarrow> Buckets \<times> check_pc" where
  "check_run clk clientId n 0 st = st"
| "check_run clk clientId n (Suc k) st =
     check_run clk clientId n k (check_step (clk (4 - k)) clientId n (snd st) (fst st))"

definition check_dir ::
    "(nat \<Rightarrow> int) \<Rightarrow> int option \<Rightarrow> string \<Rightarrow> int \<Rightarrow> Buckets \<Rightarrow> Buckets \<times> bool" where
  "check_dir clk rate clientId bytes bk =
     (case check_run clk clientId (of_int bytes) 4 (check_start (clk 0) rate clientId bk) of
        (bk, pc) \<Rightarrow> (bk, pc = Done True))"

definition CheckUpload :: "(nat \<Rightarrow> int) \<Rightarrow> string \<Rightarrow> int \<Rightarrow> bandwidthLimiter \<Rightarrow> bandwidthLimiter \<times> bool" where
  "CheckUpload clk clientId bytes bl =
     (let (bk, ok) = check_dir clk (client_rate UploadBytesPerSecond (bl_limits bl) clientId) clientId bytes (bl_upload bl)
      in (bl\<lparr>bl_upload := bk\<rparr>, ok))"

definition CheckDownload :: "(nat \<Rightarrow> int) \<Rightarrow> string \<Rightarrow> int \<Rightarrow> bandwidthLimiter \<Rightarrow> bandwidthLimiter \<times> bool" where
  "CheckDownload clk clientId bytes bl =
     (let (bk, ok) = check_dir clk (client_rate DownloadBytesPerSecond (bl_limits bl) clientId) clientId bytes (bl_download bl)
      in (bl\<lparr>bl_download := bk\<rparr>, ok))"

section \<open>Changing the limits\<close>

definition merge_limit :: "BandwidthLimit option \<Rightarrow> BandwidthLimit \<Rightarrow> BandwidthLimit" where
  "merge_limit old limit =
     (let existing = (case old of None \<Rightarrow> \<lparr>UploadBytesPerSecond = None, DownloadBytesPerSecond = None\<rparr> | Some l \<Rightarrow> l)
      in \<lparr>UploadBytesPerSecond = (if UploadBytesPerSecond limit \<noteq> None then UploadBytesPerSecond limit
                                  else UploadBytesPerSecond existing),
          DownloadBytesPerSecond = (if DownloadBytesPerSecond limit \<noteq> None then DownloadBytesPerSecond limit
                                    else DownloadBytesPerSecond existing)\<rparr>)"

definition reset_client :: "int \<Rightarrow> string \<Rightarrow> int option \<Rightarrow> Buckets \<Rightarrow> Buckets" where
  "reset_client now clientId rate bk =
     (case rate_bucket now rate of None \<Rightarrow> bk
      | Some tb \<Rightarrow> bk\<lparr>bk_clients := (bk_clients bk)(clientId \<mapsto> tb)\<rparr>)"

definition SetClientLimit :: "int \<Rightarrow> string \<Rightarrow> BandwidthLimit \<Rightarrow> bandwidthLimiter \<Rightarrow> bandwidthLimiter" where
  "SetClientLimit now clientId limit bl =
     (let old = (case map_of (ByClientId (bl_limits bl)) clientId of None \<Rightarrow> None | Some l \<Rightarrow> l) in
      bl\<lparr>bl_limits := (bl_limits bl)\<lparr>ByClientId :=
           AList.update clientId (Some (merge_limit old limit)) (ByClientId (bl_limits bl))\<rparr>,
         bl_upload := reset_client now clientId (UploadBytesPerSecond limit) (bl_upload bl),
         bl_download := reset_client now clientId (DownloadBytesPerSecond limit) (bl_download bl)\<rparr>)"

definition RemoveClientLimit :: "string \<Rightarrow> bandwidthLimiter \<Rightarrow> bandwidthLimiter" where
  "RemoveClientLimit clientId bl =
     bl\<lparr>bl_limits := (bl_limits bl)\<lparr>ByClientId := AList.delete clientId (ByClientId (bl_limits bl))\<rparr>,
        bl_upload := (bl_upload bl)\<lparr>bk_clients := (bk_clients (bl_upload bl))(clientId := None)\<rparr>,
        bl_download := (bl_download bl)\<lparr>bk_clients := (bk_clients (bl_download bl))(clientId := None)\<rparr>\<rparr>"

text \<open>\<open>UpdateLimits\<close> dereferences every entry, so a nil entry panics.\<close>

definition client_buckets ::
    "int \<Rightarrow> (BandwidthLimit \<Rightarrow> int option) \<Rightarrow> (string \<times> BandwidthLimit option) list \<Rightarrow> string \<Rightarrow> TokenBucket option" where
  "client_buckets now rate entries clientId =
     (case map_of entries clientId of
        Some (Some limit) \<Rightarrow> rate_bucket now (rate limit)
      | _ \<Rightarrow> None)"

definition UpdateLimits ::
    "int \<Rightarrow> ClientBandwidthLimits option \<Rightarrow> bandwidthLimiter \<Rightarrow> (unit, bandwidthLimiter) outcome" where
  "UpdateLimits now limits bl =
     (let limits = (case limits of None \<Rightarrow> no_limits | Some l \<Rightarrow> l) in
      if list_ex (\<lambda>(k, l). l = None) (ByClientId limits) then Panic
      else Ok \<lparr>bl_limits = limits,
         bl_upload = \<lparr>bk_global = global_bucket now UploadBytesPerSecond limits,
                      bk_clients = client_buckets now UploadBytesPerSecond (ByClientId limits)\<rparr>,
         bl_download = \<lparr>bk_global = global_bucket now DownloadBytesPerSecond limits,
                        bk_clients = client_buckets now DownloadBytesPerSecond (ByClientId limits)\<rparr>\<rparr>)"


section \<open>Concurrent checks\<close>

text \<open>
  Any number of goroutines check one direction of one limiter, whose limits stay as they are. A
  step is the passing of time, the start of a check, or one atomic step of a check in progress.
\<close>

record check_state =
  cs_now :: int
  cs_buckets :: Buckets
  cs_checks :: "(string \<times> rat \<times> check_pc) list"

inductive lim_step :: "(string \<Rightarrow> int option) \<Rightarrow> check_state \<Rightarrow> check_state \<Rightarrow> bool"
  for rates :: "string \<Rightarrow> int option" where
  tick: "cs_now s \<le> t \<Longrightarrow> lim_step rates s (s\<lparr>cs_now := t\<rparr>)"
| start: "check_start (cs_now s) (rates clientId) clientId (cs_buckets s) = (bk, pc) \<Longrightarrow> 0 \<le> bytes \<Longrightarrow>
    lim_step rates s (s\<lparr>cs_buckets := bk, cs_checks := cs_checks s @ [(clientId, of_int bytes, pc)]\<rparr>)"
| go_on: "i < length (cs_checks s) \<Longrightarrow> cs_checks s ! i = (clientId, n, pc) \<Longrightarrow>
    check_step (cs_now s) clientId n pc (cs_buckets s) = (bk, pc') \<Longrightarrow>
    lim_step rates s (s\<lparr>cs_buckets := bk, cs_checks := (cs_checks s)[i := (clientId, n, pc')]\<rparr>)"

inductive_cases lim_stepE: "lim_step rates s s'"

definition checks_begin :: "int \<Rightarrow> int option \<Rightarrow> check_state" where
  "checks_begin now limit =
     \<lparr>cs_now = now, cs_buckets = \<lparr>bk_global = rate_bucket now limit, bk_clients = Map.empty\<rparr>, cs_checks = []\<rparr>"

end
