(* ===== verification/LimiterLaws.thy ===== *)
theory LimiterLaws
  imports Limiter
begin

text \<open>
  The properties of the bandwidth limiter: the token bucket's rate bound, what one check takes,
  and the bound that holds for every interleaving of concurrent checks.
\<close>

section \<open>One bucket\<close>

definition available :: "int \<Rightarrow> TokenBucket \<Rightarrow> rat" where
  "available now tb = tb_tokens (refill now tb)"

lemma refill_fields [simp]:
  "tb_lastRefill (refill now tb) = now" "tb_capacity (refill now tb) = tb_capacity tb"
  "tb_refillRate (refill now tb) = tb_refillRate tb"
  by (simp_all add: refill_def Let_def)

lemma refill_le: "tb_tokens (refill now tb) \<le> tb_capacity tb"
  by (simp add: refill_def Let_def)

lemma refill_idem: "tb_tokens tb \<le> tb_capacity tb \<Longrightarrow> tb_lastRefill tb = now \<Longrightarrow> refill now tb = tb"
  by (simp add: refill_def Let_def)

lemma available_refill [simp]: "available now (refill now tb) = available now tb"
  by (simp add: available_def refill_idem refill_le)

lemma Consume_granted: "snd (Consume now tb n) \<longleftrightarrow> n \<le> available now tb"
  by (simp add: Consume_def available_def Let_def)

lemma Consume_available:
  assumes "0 \<le> n"
  shows "available now (fst (Consume now tb n)) = (if n \<le> available now tb then available now tb - n else available now tb)"
proof -
  have "refill now ((refill now tb)\<lparr>tb_tokens := tb_tokens (refill now tb) - n\<rparr>)
      = (refill now tb)\<lparr>tb_tokens := tb_tokens (refill now tb) - n\<rparr>"
    using refill_le [of now tb] assms by (simp add: refill_idem)
  then show ?thesis by (simp add: Consume_def available_def Let_def refill_idem refill_le)
qed

interpretation burst: admission "\<lambda>tb n. Consume now tb n" "\<lambda>tb. - available now tb" "\<lambda>tb. 0" for now
proof
  fix tb n
  show "snd (Consume now tb n) \<longleftrightarrow> - available now tb + n \<le> 0" by (auto simp: Consume_granted)
  show "0 \<le> n \<Longrightarrow> snd (Consume now tb n) \<Longrightarrow> - available now (fst (Consume now tb n)) = - available now tb + n"
    by (simp add: Consume_granted Consume_available)
  show "\<not> snd (Consume now tb n) \<Longrightarrow> - available now (fst (Consume now tb n)) = - available now tb"
    by (auto simp: Consume_granted Consume_def available_def Let_def refill_idem refill_le)
qed simp

text \<open>A bucket over time: the requests are pairs of a clock reading and an amount.\<close>

fun consume_all :: "TokenBucket \<Rightarrow> (int \<times> rat) list \<Rightarrow> TokenBucket \<times> rat" where
  "consume_all tb [] = (tb, 0)"
| "consume_all tb ((now, n) # rest) =
     (let (tb, ok) = Consume now tb n; (tb', total) = consume_all tb rest
      in (tb', (if ok then n else 0) + total))"

definition bucket_ok :: "TokenBucket \<Rightarrow> bool" where
  "bucket_ok tb \<longleftrightarrow> 0 \<le> tb_tokens tb \<and> tb_tokens tb \<le> tb_capacity tb \<and> 0 \<le> tb_refillRate tb"

definition elapsed_tokens :: "TokenBucket \<Rightarrow> int \<Rightarrow> rat" where
  "elapsed_tokens tb now = of_int (now - tb_lastRefill tb) / 1000000000 * tb_refillRate tb"

lemma elapsed_nonneg: "bucket_ok tb \<Longrightarrow> tb_lastRefill tb \<le> now \<Longrightarrow> 0 \<le> elapsed_tokens tb now"
  by (simp add: elapsed_tokens_def bucket_ok_def)

lemma elapsed_add:
  "elapsed_tokens tb later = elapsed_tokens tb now + elapsed_tokens (refill now tb) later"
  by (simp add: elapsed_tokens_def diff_divide_distrib left_diff_distrib)

lemma refill_ok: "bucket_ok tb \<Longrightarrow> tb_lastRefill tb \<le> now \<Longrightarrow> bucket_ok (refill now tb)
    \<and> tb_tokens (refill now tb) \<le> tb_tokens tb + elapsed_tokens tb now"
  using elapsed_nonneg [of tb now] refill_le [of now tb]
  by (auto simp: bucket_ok_def) (auto simp: refill_def elapsed_tokens_def Let_def)

lemma Consume_bound:
  assumes "bucket_ok tb" "tb_lastRefill tb \<le> now" "0 \<le> n" "Consume now tb n = (tb', ok)"
  shows "bucket_ok tb' \<and> tb_lastRefill tb' = now \<and> tb_capacity tb' = tb_capacity tb
    \<and> (if ok then n else 0) + tb_tokens tb' \<le> tb_tokens tb + elapsed_tokens tb now
    \<and> elapsed_tokens tb later = elapsed_tokens tb now + elapsed_tokens tb' later"
  using refill_ok [OF assms(1,2)] assms(3,4) elapsed_add [of tb later now]
  by (auto simp: Consume_def Let_def bucket_ok_def elapsed_tokens_def split: if_splits)

lemma consume_all_bound:
  assumes "bucket_ok tb" "sorted (tb_lastRefill tb # map fst reqs)" "\<forall>r \<in> set reqs. 0 \<le> snd r"
    and "\<forall>r \<in> set reqs. fst r \<le> later" "tb_lastRefill tb \<le> later"
  shows "snd (consume_all tb reqs) \<le> tb_tokens tb + elapsed_tokens tb later"
  using assms
proof (induction reqs arbitrary: tb)
  case Nil
  then show ?case using elapsed_nonneg [of tb later] by (simp add: bucket_ok_def)
next
  case (Cons r reqs)
  obtain now n tb' ok where r: "r = (now, n)" "Consume now tb n = (tb', ok)"
    by (cases r; cases "Consume (fst r) tb (snd r)") auto
  have b: "bucket_ok tb'" "tb_lastRefill tb' = now"
    "(if ok then n else 0) + tb_tokens tb' \<le> tb_tokens tb + elapsed_tokens tb now"
    "elapsed_tokens tb later = elapsed_tokens tb now + elapsed_tokens tb' later"
    using Consume_bound [OF Cons.prems(1) _ _ r(2), of later] Cons.prems(2,3) r(1) by simp_all
  have "snd (consume_all tb' reqs) \<le> tb_tokens tb' + elapsed_tokens tb' later"
    using Cons.prems b(1,2) r(1) by (intro Cons.IH) auto
  moreover have "snd (consume_all tb (r # reqs)) = (if ok then n else 0) + snd (consume_all tb' reqs)"
    by (cases "consume_all tb' reqs") (simp add: r)
  ultimately show ?case using b(3,4) by linarith
qed

text \<open>A token bucket limits the rate over every period: whatever is asked of a new bucket, at times
  that do not run backwards, the amounts granted until a moment sum up to at most the capacity plus the
  refill rate times the seconds passed; and at one moment no more is granted than was available then.\<close>

theorem bucket_limits_the_rate:
  assumes "0 \<le> cap" "0 \<le> rate" "sorted (start # map fst reqs)" "\<forall>r \<in> set reqs. 0 \<le> snd r \<and> fst r \<le> later"
    and "start \<le> later" "\<forall>n \<in> set ns. 0 \<le> n"
  shows "snd (consume_all (NewTokenBucket start cap rate) reqs)
      \<le> cap + of_int (later - start) / 1000000000 * rate
    \<and> total_granted (Consume now) tb ns \<le> max 0 (available now tb)"
proof
  have "bucket_ok (NewTokenBucket start cap rate)" using assms by (simp add: bucket_ok_def NewTokenBucket_def)
  from consume_all_bound [OF this, of reqs later] assms(3-5)
  show "snd (consume_all (NewTokenBucket start cap rate) reqs) \<le> cap + of_int (later - start) / 1000000000 * rate"
    by (simp add: NewTokenBucket_def elapsed_tokens_def)
  show "total_granted (Consume now) tb ns \<le> max 0 (available now tb)"
  proof (cases "0 \<le> available now tb")
    case True
    with burst.total_bound [of now tb ns] assms(6) show ?thesis by simp
  next
    case False
    have "\<not> n \<le> available now tb" if "0 \<le> n" for n using that False by simp
    then have "total_granted (Consume now) b ns = 0" if "available now b = available now tb" for b
      using that assms(6)
      by (induction ns arbitrary: b) (auto simp: Consume_granted Consume_available)
    then show ?thesis by simp
  qed
qed

lemma bucket_limits_the_rate_witness:
  "snd (consume_all (NewTokenBucket 0 10 5) [(0, 8), (1000000000, 7), (1000000000, 3)])
      \<le> 10 + of_int (2000000000 - 0) / 1000000000 * 5
    \<and> total_granted (Consume 0) (NewTokenBucket 0 10 5) [6, 6, 4] \<le> max 0 (available 0 (NewTokenBucket 0 10 5))"
  by (rule bucket_limits_the_rate) auto


section \<open>Concurrent checks\<close>

text \<open>
  The ledger of a bucket: what it holds and what was taken from it never exceed its capacity
  plus what the time since \<open>t0\<close> refilled.
\<close>

definition ledger :: "int \<Rightarrow> int \<Rightarrow> rat \<Rightarrow> TokenBucket \<Rightarrow> rat \<Rightarrow> bool" where
  "ledger t0 now r tb spent \<longleftrightarrow>
     bucket_ok tb \<and> tb_capacity tb = r \<and> tb_refillRate tb = r \<and> tb_lastRefill tb \<le> now \<and> t0 \<le> tb_lastRefill tb
     \<and> tb_tokens tb + spent \<le> r + of_int (tb_lastRefill tb - t0) / 1000000000 * r"

lemma ledger_new: "0 \<le> r \<Longrightarrow> t0 \<le> now \<Longrightarrow> ledger t0 now r (NewTokenBucket now r r) 0"
  by (simp add: ledger_def bucket_ok_def NewTokenBucket_def)

lemma ledger_less: "ledger t0 now r tb spent \<Longrightarrow> spent' \<le> spent \<Longrightarrow> now \<le> now' \<Longrightarrow> ledger t0 now' r tb spent'"
  by (auto simp: ledger_def)

lemma ledger_refill: "ledger t0 now r tb spent \<Longrightarrow> ledger t0 now r (refill now tb) spent"
  using refill_ok [of tb now]
  by (auto simp: ledger_def elapsed_tokens_def diff_divide_distrib left_diff_distrib)

lemma ledger_CanConsume: "ledger t0 now r tb spent \<Longrightarrow> ledger t0 now r (fst (CanConsume now tb n)) spent"
  by (simp add: CanConsume_def Let_def ledger_refill)

lemma ledger_Consume:
  assumes "ledger t0 now r tb spent" "0 \<le> n"
  shows "ledger t0 now r (fst (Consume now tb n)) (if snd (Consume now tb n) then spent + n else spent)"
  using ledger_refill [OF assms(1)] assms(2)
  by (auto simp: Consume_def Let_def ledger_def bucket_ok_def)

lemma ledger_bound:
  assumes "ledger t0 now r tb spent"
  shows "spent \<le> r + of_int (now - t0) / 1000000000 * r"
proof -
  have r: "0 \<le> r" "0 \<le> tb_tokens tb" "tb_lastRefill tb \<le> now"
    using assms by (auto simp: ledger_def bucket_ok_def)
  have "of_int (tb_lastRefill tb - t0) / 1000000000 * r \<le> of_int (now - t0) / 1000000000 * r"
    using r by (intro mult_right_mono divide_right_mono) simp_all
  with assms r show ?thesis by (simp add: ledger_def)
qed

text \<open>What a check has taken from the global bucket, and from the bucket of a client.\<close>

fun from_global :: "string \<times> rat \<times> check_pc \<Rightarrow> rat" where
  "from_global (c, n, TakeClient _) = n"
| "from_global (c, n, Done True) = n"
| "from_global _ = 0"

fun from_client :: "string \<Rightarrow> string \<times> rat \<times> check_pc \<Rightarrow> rat" where
  "from_client c (c', n, Done True) = (if c' = c then n else 0)"
| "from_client c _ = 0"

definition taken :: "(string \<times> rat \<times> check_pc \<Rightarrow> rat) \<Rightarrow> check_state \<Rightarrow> rat" where
  "taken f s = sum_list (map f (cs_checks s))"

lemma sum_list_changed:
  "i < length xs \<Longrightarrow> sum_list (map f (xs[i := x])) = sum_list (map f xs) - f (xs ! i) + (f x :: rat)"
  by (induction xs arbitrary: i) (auto split: nat.split)

lemma taken_append: "taken f (s\<lparr>cs_buckets := bk, cs_checks := cs_checks s @ [x]\<rparr>) = taken f s + f x"
  by (simp add: taken_def)

lemma taken_update:
  "i < length (cs_checks s) \<Longrightarrow> cs_checks s ! i = y \<Longrightarrow>
     taken f (s\<lparr>cs_buckets := bk, cs_checks := (cs_checks s)[i := x]\<rparr>) = taken f s - f y + f x"
  by (simp add: taken_def sum_list_changed)

lemma taken_tick [simp]: "taken f (s\<lparr>cs_now := t\<rparr>) = taken f s"
  by (simp add: taken_def)

definition amounts_ok :: "check_state \<Rightarrow> bool" where
  "amounts_ok s \<longleftrightarrow> (\<forall>x \<in> set (cs_checks s). 0 \<le> fst (snd x))"

lemma amounts_ok_nth: "amounts_ok s \<Longrightarrow> i < length (cs_checks s) \<Longrightarrow> cs_checks s ! i = (c, n, pc) \<Longrightarrow> 0 \<le> n"
  by (metis amounts_ok_def fst_conv nth_mem snd_conv)

lemma amounts_ok_step:
  assumes "lim_step rates s s'" "amounts_ok s"
  shows "amounts_ok s'"
  using assms
proof (cases rule: lim_step.cases)
  case (go_on i c n pc bk pc')
  from amounts_ok_nth [OF assms(2) go_on(2,3)] assms(2) show ?thesis
    by (auto simp: go_on amounts_ok_def dest!: subsetD [OF set_update_subset_insert])
qed (auto simp: amounts_ok_def)

definition global_inv :: "int \<Rightarrow> rat \<Rightarrow> check_state \<Rightarrow> bool" where
  "global_inv t0 r s \<longleftrightarrow> (\<exists>tb. bk_global (cs_buckets s) = Some tb \<and> ledger t0 (cs_now s) r tb (taken from_global s))"

lemma check_start_global: "check_start now rate c bk = (bk', pc) \<Longrightarrow> bk_global bk' = bk_global bk
    \<and> from_global (c, n, pc) = 0 \<and> from_client d (c, n, pc) = 0"
  by (auto simp: check_start_def getClientBucket_def split: if_splits option.splits)

lemma on_client_global [simp]: "bk_global (fst (on_client has c f bk)) = bk_global bk"
  by (auto simp: on_client_def split: option.split prod.split)

text \<open>A step of a check keeps the global ledger: the check's share grows by what it takes.\<close>

lemma check_step_global:
  assumes "check_step now c n pc bk = (bk', pc')" "bk_global bk = Some tb" "0 \<le> n"
    and "ledger t0 now r tb (spent + from_global (c, n, pc))"
  shows "\<exists>tb'. bk_global bk' = Some tb' \<and> ledger t0 now r tb' (spent + from_global (c, n, pc'))"
proof -
  note can = ledger_CanConsume [OF assms(4), of n] and con = ledger_Consume [OF assms(4,3)]
  show ?thesis
  proof (cases pc)
    case OnlyGlobal
    with assms(1,2) con show ?thesis by (cases "snd (Consume now tb n)") (auto simp: on_global_def case_prod_unfold Let_def)
  next
    case (CheckClient has)
    with assms(1,2,4) show ?thesis
      by (cases "snd (on_client has c (\<lambda>tb. CanConsume now tb n) bk)")
        (auto simp: case_prod_unfold Let_def dest: arg_cong [where f = bk_global])
  next
    case (CheckGlobal has)
    with assms(1,2) can show ?thesis by (cases "snd (CanConsume now tb n)") (auto simp: on_global_def case_prod_unfold Let_def)
  next
    case (TakeGlobal has)
    with assms(1,2) con show ?thesis by (cases "snd (Consume now tb n)") (auto simp: on_global_def case_prod_unfold Let_def)
  next
    case (TakeClient has)
    have less: "ledger t0 now r tb spent" using assms(3,4) TakeClient by (auto intro: ledger_less)
    from TakeClient assms(1,2,4) less show ?thesis
      by (cases "snd (on_client has c (\<lambda>tb. Consume now tb n) bk)")
        (auto simp: case_prod_unfold Let_def dest: arg_cong [where f = bk_global])
  next
    case (Done b)
    with assms show ?thesis by auto
  qed
qed

lemma global_inv_step:
  assumes "lim_step rates s s'" "amounts_ok s" "global_inv t0 r s"
  shows "global_inv t0 r s'"
  using assms
proof (cases rule: lim_step.cases)
  case (go_on i c n pc bk pc')
  from assms(3) obtain tb where tb: "bk_global (cs_buckets s) = Some tb" "ledger t0 (cs_now s) r tb (taken from_global s)"
    by (auto simp: global_inv_def)
  from check_step_global [OF go_on(4) tb(1) amounts_ok_nth [OF assms(2) go_on(2,3)], of t0 r "taken from_global s - from_global (c, n, pc)"] tb(2)
  show ?thesis by (simp add: global_inv_def go_on taken_update)
next
  case (start c bk pc bytes)
  from check_start_global [OF start(2)] assms(3) show ?thesis
    by (simp add: global_inv_def start taken_append)
qed (auto simp: global_inv_def intro: ledger_less)

text \<open>The same for the bucket of one client with a limit; a check of this client sees its bucket.\<close>

fun sees_bucket :: "check_pc \<Rightarrow> bool" where
  "sees_bucket OnlyGlobal = False"
| "sees_bucket (CheckClient has) = has"
| "sees_bucket (CheckGlobal has) = has"
| "sees_bucket (TakeGlobal has) = has"
| "sees_bucket (TakeClient has) = has"
| "sees_bucket (Done b) = True"

definition client_inv :: "int \<Rightarrow> string \<Rightarrow> rat \<Rightarrow> check_state \<Rightarrow> bool" where
  "client_inv t0 c r s \<longleftrightarrow> t0 \<le> cs_now s \<and>
     (case bk_clients (cs_buckets s) c of
        None \<Rightarrow> \<forall>x \<in> set (cs_checks s). fst x \<noteq> c
      | Some tb \<Rightarrow> ledger t0 (cs_now s) r tb (taken (from_client c) s)
          \<and> (\<forall>x \<in> set (cs_checks s). fst x = c \<longrightarrow> sees_bucket (snd (snd x))))"

lemma from_client_other: "c' \<noteq> c \<Longrightarrow> from_client c (c', n, pc) = 0"
  by (cases "(c, (c', n, pc))" rule: from_client.cases) auto

lemma taken_none: "\<forall>x \<in> set (cs_checks s). fst x \<noteq> c \<Longrightarrow> taken (from_client c) s = 0"
proof -
  assume "\<forall>x \<in> set (cs_checks s). fst x \<noteq> c"
  then have zeros: "map (from_client c) (cs_checks s) = map (\<lambda>x. 0) (cs_checks s)"
    by (auto simp: from_client_other)
  show ?thesis by (simp only: taken_def zeros sum_list_0)
qed

lemma on_global_clients [simp]: "bk_clients (fst (on_global f bk)) = bk_clients bk"
  by (auto simp: on_global_def split: option.split prod.split)

lemma on_client_other: "c' \<noteq> c \<Longrightarrow> bk_clients (fst (on_client has c' f bk)) c = bk_clients bk c"
  by (auto simp: on_client_def split: option.split prod.split)

lemma check_step_other: "check_step now c' n pc bk = (bk', pc') \<Longrightarrow> c' \<noteq> c \<Longrightarrow> bk_clients bk' c = bk_clients bk c"
  using on_client_other [of c' c] on_global_clients
  by (cases pc) (auto simp: case_prod_unfold Let_def)

lemma check_step_client:
  assumes "check_step now c n pc bk = (bk', pc')" "bk_clients bk c = Some tb" "0 \<le> n" "sees_bucket pc"
    and "ledger t0 now r tb (spent + from_client c (c, n, pc))"
  shows "\<exists>tb'. bk_clients bk' c = Some tb' \<and> sees_bucket pc' \<and> ledger t0 now r tb' (spent + from_client c (c, n, pc'))"
proof -
  note can = ledger_CanConsume [OF assms(5), of n] and con = ledger_Consume [OF assms(5,3)]
  have glob: "bk_clients (fst (on_global f bk)) c = Some tb" for f using assms(2) by simp
  show ?thesis
  proof (cases pc)
    case (CheckClient has)
    with assms(1,2,4) can show ?thesis
      by (cases "snd (CanConsume now tb n)") (auto simp: on_client_def case_prod_unfold Let_def)
  next
    case (TakeClient has)
    with assms(1,2,4) con show ?thesis
      by (cases "snd (Consume now tb n)") (auto simp: on_client_def case_prod_unfold Let_def)
  next
    case (CheckGlobal has)
    with assms glob show ?thesis by (auto simp: case_prod_unfold Let_def)
  next
    case (TakeGlobal has)
    with assms glob show ?thesis by (auto simp: case_prod_unfold Let_def)
  qed (use assms in auto)
qed

lemma client_inv_step:
  assumes "lim_step rates s s'" "amounts_ok s" "client_inv t0 c r s" "c \<noteq> ''''" "rates c = Some l" "r = of_int l" "0 \<le> r"
  shows "client_inv t0 c r s'"
  using assms(1)
proof (cases rule: lim_step.cases)
  case (tick t)
  then show ?thesis
    using assms(3) by (auto simp: client_inv_def intro: ledger_less split: option.splits)
next
  case (go_on i c' n pc bk pc')
  note n = amounts_ok_nth [OF assms(2) go_on(2,3)]
  have mem: "(c', n, pc) \<in> set (cs_checks s)" using go_on(2,3) nth_mem by metis
  have sub: "set ((cs_checks s)[i := (c', n, pc')]) \<subseteq> insert (c', n, pc') (set (cs_checks s))"
    by (rule set_update_subset_insert)
  show ?thesis
  proof (cases "c' = c")
    case False
    with check_step_other [OF go_on(4)] assms(3) show ?thesis
      by (auto simp: client_inv_def go_on(1) taken_update [OF go_on(2,3)] from_client_other
          split: option.splits dest!: subsetD [OF sub])
  next
    case True
    with assms(3) mem obtain tb where tb: "bk_clients (cs_buckets s) c = Some tb" "sees_bucket pc"
      "ledger t0 (cs_now s) r tb (taken (from_client c) s)" "t0 \<le> cs_now s"
      "\<forall>x \<in> set (cs_checks s). fst x = c \<longrightarrow> sees_bucket (snd (snd x))"
      by (auto simp: client_inv_def split: option.splits)
    from check_step_client [OF go_on(4) [unfolded True] tb(1) n tb(2), of t0 r "taken (from_client c) s - from_client c (c, n, pc)"] tb(3)
    obtain tb' where "bk_clients bk c = Some tb'" "sees_bucket pc'"
      "ledger t0 (cs_now s) r tb' (taken (from_client c) s - from_client c (c, n, pc) + from_client c (c, n, pc'))"
      by auto
    with tb(4,5) True show ?thesis
      by (auto simp: client_inv_def go_on(1) taken_update [OF go_on(2,3)] dest!: subsetD [OF sub])
  qed
next
  case (start c' bk pc bytes)
  have zero: "from_client c (c', n, pc) = 0" for n using check_start_global [OF start(2)] by simp
  show ?thesis
  proof (cases "c' = c")
    case False
    with start(2) have "bk_clients bk c = bk_clients (cs_buckets s) c"
      by (auto simp: check_start_def getClientBucket_def split: if_splits option.splits)
    with False assms(3) zero show ?thesis
      by (auto simp: client_inv_def start(1) taken_append split: option.splits)
  next
    case True
    with start(2) assms(4,5) have pc: "pc = CheckClient True"
      and bk: "bk_clients bk c = (case bk_clients (cs_buckets s) c of
          None \<Rightarrow> Some (NewTokenBucket (cs_now s) (of_int l) (of_int l)) | Some tb \<Rightarrow> Some tb)"
      by (auto simp: check_start_def getClientBucket_def split: option.splits)
    have new: "ledger t0 (cs_now s) r (NewTokenBucket (cs_now s) r r) 0" if "t0 \<le> cs_now s"
      using ledger_new [OF assms(7) that] .
    from assms(3,6) bk zero new taken_none [of s c] show ?thesis
      by (auto simp: client_inv_def start(1) taken_append True pc split: option.splits)
  qed
qed

section \<open>The limits hold for every interleaving\<close>

text \<open>The bytes of the checks that have answered yes, for the clients in \<open>P\<close>.\<close>

definition allowed :: "(string \<Rightarrow> bool) \<Rightarrow> check_state \<Rightarrow> rat" where
  "allowed P s = sum_list (map (\<lambda>(c, n, pc). if P c \<and> pc = Done True then n else 0) (cs_checks s))"

lemma allowed_le_global:
  assumes "amounts_ok s"
  shows "allowed (\<lambda>c. True) s \<le> taken from_global s"
proof -
  have le: "(if pc = Done True then n else 0) \<le> from_global (c, n, pc)" if "0 \<le> n" for c n pc
    using that by (cases "(c, n, pc)" rule: from_global.cases) auto
  show ?thesis
    unfolding allowed_def taken_def
    by (rule sum_list_mono) (use assms le in \<open>auto simp: amounts_ok_def\<close>)
qed

lemma allowed_client: "allowed (\<lambda>d. d = c) s = taken (from_client c) s"
proof -
  have "(if d = c \<and> pc = Done True then n else 0) = from_client c (d, n, pc)" for d n pc
    by (cases "(c, (d, n, pc))" rule: from_client.cases) auto
  then show ?thesis by (simp add: allowed_def taken_def)
qed

lemma reachable_amounts: "(lim_step rates)\<^sup>*\<^sup>* (checks_begin t0 g) s \<Longrightarrow> amounts_ok s"
  by (induction rule: rtranclp_induct) (auto simp: checks_begin_def amounts_ok_def dest: amounts_ok_step [unfolded amounts_ok_def])


section \<open>Schedules that can be run\<close>

datatype sched = Tick int | Begin string int | Go nat

fun sched_step :: "(string \<Rightarrow> int option) \<Rightarrow> check_state \<Rightarrow> sched \<Rightarrow> check_state" where
  "sched_step rates s (Tick t) = (if cs_now s \<le> t then s\<lparr>cs_now := t\<rparr> else s)"
| "sched_step rates s (Begin c bytes) =
     (if 0 \<le> bytes then
        (case check_start (cs_now s) (rates c) c (cs_buckets s) of
           (bk, pc) \<Rightarrow> s\<lparr>cs_buckets := bk, cs_checks := cs_checks s @ [(c, of_int bytes, pc)]\<rparr>)
      else s)"
| "sched_step rates s (Go i) =
     (if i < length (cs_checks s) then
        (case cs_checks s ! i of (c, n, pc) \<Rightarrow>
          (case check_step (cs_now s) c n pc (cs_buckets s) of
             (bk, pc') \<Rightarrow> s\<lparr>cs_buckets := bk, cs_checks := (cs_checks s)[i := (c, n, pc')]\<rparr>))
      else s)"

lemma sched_step_reachable: "(lim_step rates)\<^sup>*\<^sup>* s (sched_step rates s e)"
  by (cases e) (auto intro: lim_step.intros split: prod.split)

lemma sched_reachable: "(lim_step rates)\<^sup>*\<^sup>* s (foldl (sched_step rates) s es)"
  by (induction es arbitrary: s) (auto intro: rtranclp_trans sched_step_reachable)

definition one_rate :: "string \<Rightarrow> int option" where
  "one_rate c = (if c = ''c'' then Some 5 else None)"

text \<open>Two checks of the same client overtake each other.\<close>

definition overtaken :: check_state where
  "overtaken = foldl (sched_step one_rate) (checks_begin 0 (Some 100))
     [Begin ''c'' 4, Begin ''c'' 4, Go 0, Go 1, Go 0, Go 0, Go 0, Go 1, Go 1, Go 1]"


text \<open>The converse bound fails: checking and taking are separate, so a check can be refused after
  it took from the global bucket. Two checks of 4 bytes, one client with 5 bytes a second, a global limit
  of 100: one is allowed and one refused, but 8 bytes are gone from the shared bucket.\<close>

theorem refused_check_may_cost_global_tokens:
  "\<exists>s tb. (lim_step one_rate)\<^sup>*\<^sup>* (checks_begin 0 (Some 100)) s \<and> cs_now s = 0
    \<and> map (snd \<circ> snd) (cs_checks s) = [Done True, Done False]
    \<and> allowed (\<lambda>c. True) s = 4 \<and> bk_global (cs_buckets s) = Some tb \<and> tb_tokens tb = 92"
proof (intro exI conjI)
  show "(lim_step one_rate)\<^sup>*\<^sup>* (checks_begin 0 (Some 100)) overtaken"
    unfolding overtaken_def by (rule sched_reachable)
  show "cs_now overtaken = 0" "map (snd \<circ> snd) (cs_checks overtaken) = [Done True, Done False]"
    "allowed (\<lambda>c. True) overtaken = 4"
    by code_simp+
  show "bk_global (cs_buckets overtaken) = Some \<lparr>tb_tokens = 92, tb_lastRefill = 0, tb_capacity = 100, tb_refillRate = 100\<rparr>"
    by code_simp
qed simp

section \<open>An undisturbed check\<close>

lemma refill_refill: "refill now (refill now tb) = refill now tb"
  by (simp add: refill_idem refill_le)

lemma CanConsume_eq: "CanConsume now tb n = (refill now tb, n \<le> available now tb)"
  by (simp add: CanConsume_def available_def Let_def)

definition minus_tokens :: "rat \<Rightarrow> TokenBucket \<Rightarrow> TokenBucket" where
  "minus_tokens n tb = tb\<lparr>tb_tokens := tb_tokens tb - n\<rparr>"

lemma Consume_eq:
  "Consume now tb n = (if n \<le> available now tb then (minus_tokens n (refill now tb), True) else (refill now tb, False))"
  by (simp add: Consume_def available_def minus_tokens_def Let_def)

lemma available_minus: "0 \<le> n \<Longrightarrow> available now (minus_tokens n (refill now tb)) = available now tb - n"
proof -
  assume "0 \<le> n"
  then have "refill now (minus_tokens n (refill now tb)) = minus_tokens n (refill now tb)"
    using refill_le [of now tb] by (intro refill_idem) (simp_all add: minus_tokens_def)
  then show ?thesis by (simp add: available_def minus_tokens_def)
qed

lemmas check_eval = check_dir_def check_start_def getClientBucket_def eval_nat_numeral on_client_def on_global_def
  CanConsume_eq Consume_eq refill_refill available_minus

text \<open>A check that nobody disturbs is all or nothing. Read at one moment, it says yes exactly if
  the client's bucket (if it has a limit) and the global one (if there is one) both hold the bytes, and then
  takes them from both; otherwise it takes from neither. The buckets of other clients are not touched.\<close>

theorem undisturbed_check_is_all_or_nothing:
  assumes "c \<noteq> ''''" "check_dir (\<lambda>i. now) rate c bytes bk = (bk', ok)" "0 \<le> bytes"
    and "bk_clients bk c \<noteq> None \<longleftrightarrow> rate \<noteq> None"
  shows "ok = ((\<forall>tb. bk_clients bk c = Some tb \<longrightarrow> of_int bytes \<le> available now tb)
        \<and> (\<forall>tb. bk_global bk = Some tb \<longrightarrow> of_int bytes \<le> available now tb))
    \<and> map_option (available now) (bk_clients bk' c)
        = map_option (\<lambda>tb. available now tb - (if ok then of_int bytes else 0)) (bk_clients bk c)
    \<and> map_option (available now) (bk_global bk')
        = map_option (\<lambda>tb. available now tb - (if ok then of_int bytes else 0)) (bk_global bk)
    \<and> (d \<noteq> c \<longrightarrow> bk_clients bk' d = bk_clients bk d)"
proof -
  note eval = assms(1,3) check_eval
  show ?thesis
  proof (cases "bk_clients bk c")
    case None
    with assms(2,4) show ?thesis
      by (cases "bk_global bk") (auto simp: eval split: if_splits)
  next
    case (Some tb)
    with assms(4) obtain r where "rate = Some r" by auto
    with Some assms(2) show ?thesis
      by (cases "bk_global bk") (auto simp: eval split: if_splits)
  qed
qed

definition two_buckets :: Buckets where
  "two_buckets = \<lparr>bk_global = Some (NewTokenBucket 0 10 10), bk_clients = [''c'' \<mapsto> NewTokenBucket 0 5 5]\<rparr>"

lemma undisturbed_check_is_all_or_nothing_witness:
  "snd (check_dir (\<lambda>i. 0) (Some 5) ''c'' 4 two_buckets) = True
    \<and> map_option (available 0) (bk_global (fst (check_dir (\<lambda>i. 0) (Some 5) ''c'' 4 two_buckets))) = Some 6"
proof -
  obtain bk' ok where run: "check_dir (\<lambda>i. 0) (Some 5) ''c'' 4 two_buckets = (bk', ok)"
    by (cases "check_dir (\<lambda>i. 0) (Some 5) ''c'' 4 two_buckets")
  have two: "bk_clients two_buckets ''c'' = Some (NewTokenBucket 0 5 5)"
    "bk_global two_buckets = Some (NewTokenBucket 0 10 10)"
    "available 0 (NewTokenBucket 0 5 5) = 5" "available 0 (NewTokenBucket 0 10 10) = 10"
    by (simp_all add: two_buckets_def NewTokenBucket_def available_def refill_def)
  from undisturbed_check_is_all_or_nothing [OF _ run, of "''d''"] show ?thesis
    by (auto simp: two run)
qed

end
