(* ===== verification/ClientTypes.thy ===== *)
theory ClientTypes
  imports GoStrings Capabilities
begin

text \<open>
  The data types of \<^verbatim>\<open>internal/client/types.go\<close> that the client and the server share: the
  client's options, the tunnel specifications and the authentication message.
\<close>

text \<open>\<open>HTTPTunnelAuth\<close>: one allowed \<open>Authorization\<close> value.\<close>

record HTTPTunnelAuth =
  ha_Type :: string
  ha_Username :: string
  ha_Password :: string
  ha_Token :: string

record HTTPIncomingAuthRule =
  au_Enable :: bool
  au_Users :: "HTTPTunnelAuth list"

record TunnelSpec =
  ts_Name :: string
  ts_Type :: string
  ts_Upstream :: string
  ts_SubDomain :: string
  ts_RemotePort :: int
  ts_Auth :: "HTTPIncomingAuthRule option"
  ts_Auths :: "HTTPTunnelAuth list"

record Options =
  op_Type :: string
  op_UpstreamHost :: string
  op_UpstreamPort :: int
  op_UpstreamUsername :: string
  op_UpstreamPassword :: string
  op_AuthType :: string
  op_Token :: string
  op_ClientId :: string
  op_ClientSecret :: string
  op_SubDomain :: string
  op_TunnelPort :: int
  op_Server :: string
  op_Remote :: string
  op_RemoteTCPPort :: int
  op_HealthcheckInt :: int
  op_ReportURL :: string
  op_Version :: string
  op_ReconnectMaxRetries :: int
  op_ReconnectInterval :: int
  op_OpaqueChild :: bool

record Authentication =
  at_Version :: string
  at_Type :: string
  at_Port :: int
  at_SubDomain :: string
  at_TunnelPort :: int
  at_Timestamp :: int
  at_AuthType :: string
  at_ClientId :: string
  at_Signature :: string
  at_Capabilities :: "Capabilities option"
  at_OpaqueChild :: bool
  at_HTTPIngressBasic :: "HTTPTunnelAuth option"

text \<open>\<open>AlertConfig\<close> and \<open>NotificationConfig\<close> only travel; \<open>Config\<close> is what a server sends a client.\<close>

record AlertConfig =
  al_Provider :: string
  al_URL :: string
  al_Interval :: int

record NotificationConfig =
  nc_Provider :: string
  nc_URL :: string
  nc_Interval :: int
  nc_Alert :: "AlertConfig option"

record Config =
  cf_Version :: string
  cf_Notification :: "NotificationConfig option"
  cf_NegotiatedCapabilities :: "Capabilities option"
  cf_Tunnels :: "TunnelSpec list"

end
