(* ===== verification/Containers.thy ===== *)
theory Containers
  imports ClientTypes "HOL-Library.AList"
begin

text \<open>
  The registries of \<^verbatim>\<open>internal/server/container/\<close>: subdomains (\<^verbatim>\<open>domain.go\<close>), pending
  response callbacks (\<^verbatim>\<open>callback.go\<close>) and tunnels (\<^verbatim>\<open>tunnel.go\<close>). Each operation runs under the
  registry's mutex, so it is one state transition. Sockets, listeners, adapters and callback functions
  are passed around but not used here: they are references, natural numbers.
\<close>

section \<open>Subdomains\<close>

record DomainMapping =
  dm_WSSocket :: "nat option"
  dm_TCPSocket :: "nat option"
  dm_ContainerID :: string
  dm_ClientID :: string
  dm_HTTPAuths :: "HTTPTunnelAuth list"
  dm_Adapter :: "nat option"
  dm_UseNewProtocol :: bool

type_synonym domains = "string \<Rightarrow> DomainMapping option"

definition NewDomainContainer :: domains where
  "NewDomainContainer = Map.empty"

definition domain_Get :: "domains \<Rightarrow> string \<Rightarrow> DomainMapping option" where
  "domain_Get hosts i = hosts (ToLower i)"

definition domain_GetAll :: "domains \<Rightarrow> domains" where
  "domain_GetAll hosts = hosts"

definition domain_Has :: "domains \<Rightarrow> string \<Rightarrow> bool" where
  "domain_Has hosts i \<longleftrightarrow> hosts (ToLower i) \<noteq> None"

text \<open>An empty subdomain is replaced by the first eight characters of a new UUID, the argument \<open>uuid\<close>.\<close>

definition BindWSWithMetadata ::
    "string \<Rightarrow> nat option \<Rightarrow> string \<Rightarrow> string \<Rightarrow> nat option \<Rightarrow> bool \<Rightarrow> HTTPTunnelAuth list \<Rightarrow> string
       \<Rightarrow> domains \<Rightarrow> domains \<times> string" where
  "BindWSWithMetadata uuid ws subDomain clientID adapter useNew httpAuths containerID hosts =
     (let uid = ToLower (if subDomain = '''' then take 8 uuid else subDomain) in
      (hosts(uid \<mapsto> \<lparr>dm_WSSocket = ws, dm_TCPSocket = None, dm_ContainerID = containerID,
          dm_ClientID = clientID, dm_HTTPAuths = httpAuths, dm_Adapter = adapter,
          dm_UseNewProtocol = useNew\<rparr>), uid))"

definition BindWS :: "string \<Rightarrow> nat option \<Rightarrow> string \<Rightarrow> domains \<Rightarrow> domains \<times> string" where
  "BindWS uuid ws subDomain hosts = BindWSWithMetadata uuid ws subDomain '''' None False [] '''' hosts"

definition UnbindWS :: "string \<Rightarrow> domains \<Rightarrow> domains" where
  "UnbindWS i hosts = hosts(ToLower i := None)"

definition BindTCP :: "string \<Rightarrow> nat option \<Rightarrow> domains \<Rightarrow> domains" where
  "BindTCP i tcp hosts =
     (case hosts (ToLower i) of
        None \<Rightarrow> hosts
      | Some mapping \<Rightarrow> hosts(ToLower i \<mapsto> mapping\<lparr>dm_TCPSocket := tcp\<rparr>))"

section \<open>Callbacks\<close>

text \<open>The inner maps are association lists, because \<open>Take\<close> asks whether one is empty.\<close>

type_synonym callbacks = "string \<Rightarrow> (string \<times> nat) list option"

definition NewCallbackContainer :: callbacks where
  "NewCallbackContainer = Map.empty"

definition callback_Get :: "callbacks \<Rightarrow> string \<Rightarrow> string \<Rightarrow> nat option" where
  "callback_Get c tcpId requestId =
     (case c tcpId of None \<Rightarrow> None | Some tcpCallbacks \<Rightarrow> map_of tcpCallbacks requestId)"

definition callback_Take :: "string \<Rightarrow> string \<Rightarrow> callbacks \<Rightarrow> callbacks \<times> nat option" where
  "callback_Take tcpId requestId c =
     (case c tcpId of
        None \<Rightarrow> (c, None)
      | Some tcpCallbacks \<Rightarrow>
          (case map_of tcpCallbacks requestId of
             None \<Rightarrow> (c, None)
           | Some callback \<Rightarrow>
               let rest = AList.delete requestId tcpCallbacks in
               (if rest = [] then c(tcpId := None) else c(tcpId \<mapsto> rest), Some callback)))"

definition callback_Set :: "string \<Rightarrow> string \<Rightarrow> nat \<Rightarrow> callbacks \<Rightarrow> callbacks" where
  "callback_Set tcpId requestId callback c =
     (let tcpCallbacks = (case c tcpId of None \<Rightarrow> [] | Some m \<Rightarrow> m)
      in c(tcpId \<mapsto> AList.update requestId callback tcpCallbacks))"

definition callback_Remove :: "string \<Rightarrow> callbacks \<Rightarrow> callbacks" where
  "callback_Remove tcpId c = c(tcpId := None)"

section \<open>Tunnels\<close>

text \<open>A Go value of type \<open>interface{}\<close>, as far as \<open>Set\<close> tells values apart.\<close>

datatype any_value = NilValue | IntValue int | IntPointer "int option" | ListenerValue nat | BoolValue bool
  | OtherValue nat

record TunnelMapping =
  tm_WSSocket :: nat
  tm_DataSockets :: "string \<Rightarrow> nat option"
  tm_WriteMu :: nat
  tm_Token :: nat
  tm_Type :: string
  tm_Port :: int
  tm_TargetPort :: "int option"
  tm_SourcePort :: "int option"
  tm_SourceServer :: "nat option"
  tm_Version :: string
  tm_AuthType :: string
  tm_ClientId :: string
  tm_Signature :: string
  tm_ClientTimestamp :: int
  tm_TunnelPort :: "int option"
  tm_Requests :: "string \<Rightarrow> nat option option"
  tm_Adapter :: any_value
  tm_UseNewProtocol :: bool

type_synonym tunnels = "string \<Rightarrow> TunnelMapping option"

datatype container_error = InvalidId | UnknownKey string | ContainerNotFound | SourceSocketNotFound

definition NewTunnelContainer :: tunnels where
  "NewTunnelContainer = Map.empty"

definition tunnel_Create :: "string \<Rightarrow> nat \<Rightarrow> nat \<Rightarrow> Authentication \<Rightarrow> nat \<Rightarrow> tunnels \<Rightarrow> tunnels" where
  "tunnel_Create i token ws auth writeMu c =
     c(i \<mapsto> \<lparr>tm_WSSocket = ws, tm_DataSockets = Map.empty, tm_WriteMu = writeMu, tm_Token = token,
        tm_Type = at_Type auth, tm_Port = at_Port auth, tm_TargetPort = None, tm_SourcePort = None,
        tm_SourceServer = None, tm_Version = at_Version auth, tm_AuthType = at_AuthType auth,
        tm_ClientId = at_ClientId auth, tm_Signature = at_Signature auth,
        tm_ClientTimestamp = at_Timestamp auth, tm_TunnelPort = Some (at_TunnelPort auth),
        tm_Requests = Map.empty, tm_Adapter = NilValue, tm_UseNewProtocol = False\<rparr>)"

text \<open>
  The closure \<open>destroy\<close> of a tunnel: it looks the id up again when it is called. The second
  component is the listener it closes.
\<close>

definition tunnel_destroy :: "string \<Rightarrow> tunnels \<Rightarrow> tunnels \<times> nat option" where
  "tunnel_destroy i c =
     (case c i of
        None \<Rightarrow> (c, None)
      | Some mapping \<Rightarrow> (c(i := None), tm_SourceServer mapping))"

definition tunnel_Get :: "tunnels \<Rightarrow> string \<Rightarrow> TunnelMapping option" where
  "tunnel_Get c i = c i"

definition tunnel_ListAll :: "tunnels \<Rightarrow> tunnels" where
  "tunnel_ListAll c = c"

definition set_field :: "string \<Rightarrow> any_value \<Rightarrow> TunnelMapping \<Rightarrow> (container_error, TunnelMapping) outcome" where
  "set_field key value m =
     (if key = ''sourcePort'' then Ok
        (case value of IntValue p \<Rightarrow> m\<lparr>tm_SourcePort := Some p\<rparr>
         | IntPointer p \<Rightarrow> m\<lparr>tm_SourcePort := p\<rparr> | _ \<Rightarrow> m)
      else if key = ''sourceServer'' then Ok
        (case value of NilValue \<Rightarrow> m\<lparr>tm_SourceServer := None\<rparr>
         | ListenerValue s \<Rightarrow> m\<lparr>tm_SourceServer := Some s\<rparr> | _ \<Rightarrow> m)
      else if key = ''targetPort'' then Ok
        (case value of IntValue p \<Rightarrow> m\<lparr>tm_TargetPort := Some p\<rparr>
         | IntPointer p \<Rightarrow> m\<lparr>tm_TargetPort := p\<rparr> | _ \<Rightarrow> m)
      else if key = ''adapter'' then Ok (m\<lparr>tm_Adapter := value\<rparr>)
      else if key = ''useNewProtocol'' then Ok
        (case value of BoolValue b \<Rightarrow> m\<lparr>tm_UseNewProtocol := b\<rparr> | _ \<Rightarrow> m)
      else Err (UnknownKey key))"

definition tunnel_Set :: "string \<Rightarrow> string \<Rightarrow> any_value \<Rightarrow> tunnels \<Rightarrow> (container_error, tunnels) outcome" where
  "tunnel_Set i key value c =
     (case c i of
        None \<Rightarrow> Err InvalidId
      | Some m \<Rightarrow> obind (set_field key value m) (\<lambda>m. Ok (c(i \<mapsto> m))))"

definition tunnel_Remove :: "string \<Rightarrow> tunnels \<Rightarrow> tunnels" where
  "tunnel_Remove i c = c(i := None)"

definition RegisterRequest :: "string \<Rightarrow> string \<Rightarrow> nat option \<Rightarrow> tunnels \<Rightarrow> tunnels" where
  "RegisterRequest containerId requestId sourceSocket c =
     (case c containerId of
        None \<Rightarrow> c
      | Some m \<Rightarrow> c(containerId \<mapsto> m\<lparr>tm_Requests := (tm_Requests m)(requestId \<mapsto> sourceSocket)\<rparr>))"

text \<open>The result of success is the pair of sockets handed to \<open>pipeConnections\<close>.\<close>

definition ConnectRequest ::
    "string \<Rightarrow> string \<Rightarrow> nat \<Rightarrow> tunnels \<Rightarrow> (container_error, tunnels \<times> nat \<times> nat) outcome" where
  "ConnectRequest containerId requestId targetSocket c =
     (case c containerId of
        None \<Rightarrow> Err ContainerNotFound
      | Some m \<Rightarrow>
          (case tm_Requests m requestId of
             Some (Some source) \<Rightarrow>
               Ok (c(containerId \<mapsto> m\<lparr>tm_Requests := (tm_Requests m)(requestId := None)\<rparr>), source, targetSocket)
           | _ \<Rightarrow> Err SourceSocketNotFound))"


section \<open>What a registry promises\<close>

text \<open>
  The contract of a keyed registry: a lookup after an insertion or a deletion. \<open>norm\<close> is what
  the registry makes of a key, \<open>made\<close> the value it builds from the arguments of an insertion.
\<close>

datatype ('k, 'a) store_op = Put 'k 'a | Del 'k

fun store_step :: "('s \<Rightarrow> 'k \<Rightarrow> 'a \<Rightarrow> 's) \<Rightarrow> ('s \<Rightarrow> 'k \<Rightarrow> 's) \<Rightarrow> 's \<Rightarrow> ('k, 'a) store_op \<Rightarrow> 's" where
  "store_step put del s (Put k a) = put s k a"
| "store_step put del s (Del k) = del s k"

text \<open>The value of one key after a history: that of the last insertion, unless deleted since.\<close>

fun store_effect :: "('k \<Rightarrow> 'n) \<Rightarrow> ('a \<Rightarrow> 'v) \<Rightarrow> 'k \<Rightarrow> 'v option \<Rightarrow> ('k, 'a) store_op \<Rightarrow> 'v option" where
  "store_effect norm made k v (Put k' a) = (if norm k' = norm k then Some (made a) else v)"
| "store_effect norm made k v (Del k') = (if norm k' = norm k then None else v)"

fun store_keys :: "('k, 'a) store_op \<Rightarrow> 'k" where
  "store_keys (Put k a) = k"
| "store_keys (Del k) = k"

locale keyed_store =
  fixes get :: "'s \<Rightarrow> 'k \<Rightarrow> 'v option"
    and put :: "'s \<Rightarrow> 'k \<Rightarrow> 'a \<Rightarrow> 's"
    and del :: "'s \<Rightarrow> 'k \<Rightarrow> 's"
    and norm :: "'k \<Rightarrow> 'n"
    and made :: "'a \<Rightarrow> 'v"
    and valid :: "'k \<Rightarrow> bool"
  assumes get_put: "valid k \<Longrightarrow> get (put s k a) k' = (if norm k = norm k' then Some (made a) else get s k')"
    and get_del: "get (del s k) k' = (if norm k = norm k' then None else get s k')"
begin

lemma get_run:
  "list_all (valid \<circ> store_keys) ops \<Longrightarrow>
     get (foldl (store_step put del) s ops) k = foldl (store_effect norm made k) (get s k) ops"
proof (induction ops arbitrary: s)
  case (Cons e ops)
  then show ?case by (cases e) (simp_all add: get_put get_del)
qed simp

lemma get_norm: "list_all (valid \<circ> store_keys) ops \<Longrightarrow> norm k = norm k' \<Longrightarrow> get s k = get s k' \<Longrightarrow>
    get (foldl (store_step put del) s ops) k = get (foldl (store_step put del) s ops) k'"
proof (induction ops arbitrary: s)
  case (Cons e ops)
  then show ?case by (cases e) (simp_all add: get_put get_del)
qed simp

end

type_synonym bind_args = "nat option \<times> string \<times> nat option \<times> bool \<times> HTTPTunnelAuth list \<times> string"

definition domain_put :: "string \<Rightarrow> domains \<Rightarrow> string \<Rightarrow> bind_args \<Rightarrow> domains" where
  "domain_put uuid hosts sub = (\<lambda>(ws, client, adapter, useNew, auths, cid).
     fst (BindWSWithMetadata uuid ws sub client adapter useNew auths cid hosts))"

definition domain_made :: "bind_args \<Rightarrow> DomainMapping" where
  "domain_made = (\<lambda>(ws, client, adapter, useNew, auths, cid).
     \<lparr>dm_WSSocket = ws, dm_TCPSocket = None, dm_ContainerID = cid, dm_ClientID = client,
      dm_HTTPAuths = auths, dm_Adapter = adapter, dm_UseNewProtocol = useNew\<rparr>)"

interpretation domain_store: keyed_store domain_Get "domain_put uuid" "\<lambda>h i. UnbindWS i h" ToLower domain_made
    "\<lambda>sub. sub \<noteq> ''''" for uuid
  by unfold_locales
    (auto simp: domain_Get_def domain_put_def domain_made_def BindWSWithMetadata_def UnbindWS_def Let_def split: prod.split)

definition tunnel_put :: "tunnels \<Rightarrow> string \<Rightarrow> nat \<times> nat \<times> Authentication \<times> nat \<Rightarrow> tunnels" where
  "tunnel_put c i = (\<lambda>(token, ws, auth, writeMu). tunnel_Create i token ws auth writeMu c)"

definition tunnel_made :: "nat \<times> nat \<times> Authentication \<times> nat \<Rightarrow> TunnelMapping" where
  "tunnel_made a = the (tunnel_Get (tunnel_put Map.empty '''' a) '''')"

interpretation tunnel_store: keyed_store tunnel_Get tunnel_put "\<lambda>c i. tunnel_Remove i c" id tunnel_made "\<lambda>i. True"
  by unfold_locales
    (auto simp: tunnel_Get_def tunnel_put_def tunnel_made_def tunnel_Create_def tunnel_Remove_def split: prod.split)

lemma callback_Get_Set:
  "callback_Get (callback_Set t r cb c) t' r' = (if t = t' \<and> r = r' then Some cb else callback_Get c t' r')"
  by (auto simp: callback_Get_def callback_Set_def Let_def update_conv' split: option.split)

lemma callback_Take_result: "snd (callback_Take t r c) = callback_Get c t r"
  by (auto simp: callback_Take_def callback_Get_def Let_def split: option.split)

lemma callback_Get_Take:
  "callback_Get (fst (callback_Take t r c)) t' r' = (if t = t' \<and> r = r' then None else callback_Get c t' r')"
proof (cases "callback_Get c t r")
  case None
  then show ?thesis by (auto simp: callback_Take_def callback_Get_def split: option.splits)
next
  case (Some cb)
  then obtain m where m: "c t = Some m" "map_of m r = Some cb"
    by (auto simp: callback_Get_def split: option.splits)
  have del: "map_of (AList.delete r m) r' = (if r = r' then None else map_of m r')"
    by (simp add: delete_conv')
  from m del show ?thesis
    by (cases "AList.delete r m = []") (auto simp: callback_Take_def callback_Get_def Let_def split: if_splits)
qed

interpretation callback_store: keyed_store "\<lambda>c (t, r). callback_Get c t r"
    "\<lambda>c (t, r) cb. callback_Set t r cb c" "\<lambda>c (t, r). fst (callback_Take t r c)" id id "\<lambda>k. True"
  by unfold_locales (auto simp: callback_Get_Set callback_Get_Take split: prod.split)

section \<open>Properties\<close>

text \<open>A subdomain belongs to whoever bound it last: after any history of bindings (of non-empty
  names) and unbindings, a lookup finds the metadata of the last binding of that name, up to letter case,
  unless the name was unbound since, and then nothing. Spellings that differ only in case are one name.\<close>

theorem subdomain_belongs_to_last_binding:
  assumes "list_all (\<lambda>e. store_keys e \<noteq> '''') ops"
  shows "domain_Get (foldl (store_step (domain_put uuid) (\<lambda>h i. UnbindWS i h)) NewDomainContainer ops) name
      = foldl (store_effect ToLower domain_made name) None ops
    \<and> (ToLower name = ToLower name' \<longrightarrow>
        domain_Get (foldl (store_step (domain_put uuid) (\<lambda>h i. UnbindWS i h)) NewDomainContainer ops) name
          = domain_Get (foldl (store_step (domain_put uuid) (\<lambda>h i. UnbindWS i h)) NewDomainContainer ops) name')"
proof -
  have ops: "list_all ((\<lambda>sub. sub \<noteq> '''') \<circ> store_keys) ops" using assms by (simp add: comp_def)
  from domain_store.get_run [OF ops, of uuid NewDomainContainer name]
    domain_store.get_norm [OF ops, of name name' NewDomainContainer uuid]
  show ?thesis by (simp add: domain_Get_def NewDomainContainer_def)
qed

definition bind_a :: bind_args where
  "bind_a = (Some 1, ''cid'', None, True, [], ''container'')"

lemma subdomain_belongs_to_last_binding_witness:
  "domain_Get (foldl (store_step (domain_put ''u'') (\<lambda>h i. UnbindWS i h)) NewDomainContainer
      [Put ''App'' bind_a, Put ''b'' bind_a, Del ''B'']) ''aPP'' = Some (domain_made bind_a)
    \<and> domain_Get (foldl (store_step (domain_put ''u'') (\<lambda>h i. UnbindWS i h)) NewDomainContainer
      [Put ''App'' bind_a, Put ''b'' bind_a, Del ''B'']) ''b'' = None"
proof -
  have low: "ToLower ''App'' = ''app''" "ToLower ''aPP'' = ''app''" "ToLower ''b'' = ''b''" "ToLower ''B'' = ''b''"
    by code_simp+
  show ?thesis
    using subdomain_belongs_to_last_binding [of "[Put ''App'' bind_a, Put ''b'' bind_a, Del ''B'']" "''u''" "''aPP''" "''aPP''"]
      subdomain_belongs_to_last_binding [of "[Put ''App'' bind_a, Put ''b'' bind_a, Del ''B'']" "''u''" "''b''" "''b''"]
    by (simp add: low)
qed

datatype callback_op = CSet string string nat | CTake string string | CRemove string

fun callback_run :: "callback_op list \<Rightarrow> callbacks \<Rightarrow> (string \<times> string \<times> nat) list" where
  "callback_run [] c = []"
| "callback_run (CSet t r cb # ops) c = callback_run ops (callback_Set t r cb c)"
| "callback_run (CRemove t # ops) c = callback_run ops (callback_Remove t c)"
| "callback_run (CTake t r # ops) c =
     (case callback_Take t r c of
        (c', Some cb) \<Rightarrow> (t, r, cb) # callback_run ops c'
      | (c', None) \<Rightarrow> callback_run ops c')"

definition takes_of :: "string \<Rightarrow> string \<Rightarrow> (string \<times> string \<times> nat) list \<Rightarrow> nat" where
  "takes_of t r = (\<lambda>l. length (filter (\<lambda>(t', r', cb). t' = t \<and> r' = r) l))"

fun is_set_of :: "string \<Rightarrow> string \<Rightarrow> callback_op \<Rightarrow> bool" where
  "is_set_of t r (CSet t' r' cb) = (t' = t \<and> r' = r)"
| "is_set_of t r _ = False"

lemma callback_Get_Remove: "callback_Get (callback_Remove t c) t' r' = (if t = t' then None else callback_Get c t' r')"
  by (simp add: callback_Get_def callback_Remove_def)

lemma takes_bounded:
  "takes_of t r (callback_run ops c)
     \<le> length (filter (is_set_of t r) ops) + (if callback_Get c t r = None then 0 else 1)"
proof (induction ops arbitrary: c)
  case Nil
  then show ?case by (simp add: takes_of_def)
next
  case (Cons e ops)
  show ?case
  proof (cases e)
    case (CSet t' r' cb)
    with Cons [of "callback_Set t' r' cb c"] show ?thesis by (auto simp: callback_Get_Set split: if_splits)
  next
    case (CRemove t')
    with Cons [of "callback_Remove t' c"] show ?thesis by (auto simp: callback_Get_Remove split: if_splits)
  next
    case (CTake t' r')
    obtain c' res where take: "callback_Take t' r' c = (c', res)" by force
    then have "callback_Get c t' r' = res" and "callback_Get c' t r = (if t' = t \<and> r' = r then None else callback_Get c t r)"
      using callback_Take_result [of t' r' c] callback_Get_Take [of t' r' c t r] by auto
    with Cons [of c'] CTake take show ?thesis
      by (cases res) (auto simp: takes_of_def split: if_splits)
  qed
qed

text \<open>A response is delivered at most once per registration: over any history of the callback
  registry, the number of successful \<open>Take\<close>s for a request is at most the number of times a callback
  was set for it, and right after a \<open>Take\<close> the next one for the same request finds nothing.\<close>

theorem callbacks_taken_at_most_once:
  "takes_of t r (callback_run ops NewCallbackContainer) \<le> length (filter (is_set_of t r) ops)
    \<and> snd (callback_Take t r (fst (callback_Take t r c))) = None
    \<and> snd (callback_Take t r (callback_Set t r cb c)) = Some cb"
  using takes_bounded [of t r ops NewCallbackContainer]
  by (simp add: callback_Take_result callback_Get_Take callback_Get_Set)
    (simp add: callback_Get_def NewCallbackContainer_def)

text \<open>A waiting connection is joined exactly once: after it is registered for a request of a known
  tunnel, the next \<open>ConnectRequest\<close> for that request pairs it with the target, a second one is refused,
  and neither touches another tunnel or another request.\<close>

theorem waiting_connection_joined_once:
  assumes "tunnel_Get c i = Some m"
  shows "\<exists>c' m'. ConnectRequest i r target (RegisterRequest i r (Some source) c) = Ok (c', source, target)
    \<and> ConnectRequest i r target' c' = Err SourceSocketNotFound
    \<and> tunnel_Get c' i = Some m' \<and> m'\<lparr>tm_Requests := tm_Requests m\<rparr> = m
    \<and> (\<forall>r'. r' \<noteq> r \<longrightarrow> tm_Requests m' r' = tm_Requests m r') \<and> (\<forall>j. j \<noteq> i \<longrightarrow> tunnel_Get c' j = tunnel_Get c j)"
  using assms by (simp add: ConnectRequest_def RegisterRequest_def tunnel_Get_def)

definition sample_auth :: Authentication where
  "sample_auth = \<lparr>at_Version = ''2.0.0'', at_Type = ''tcp'', at_Port = 80, at_SubDomain = '''', at_TunnelPort = 0,
     at_Timestamp = 0, at_AuthType = '''', at_ClientId = '''', at_Signature = '''', at_Capabilities = None,
     at_OpaqueChild = False, at_HTTPIngressBasic = None\<rparr>"

lemma waiting_connection_joined_once_witness:
  "\<exists>c'. ConnectRequest ''t'' ''r'' 9 (RegisterRequest ''t'' ''r'' (Some 8)
        (tunnel_Create ''t'' 1 2 sample_auth 3 NewTunnelContainer)) = Ok (c', 8, 9)
    \<and> ConnectRequest ''t'' ''r'' 10 c' = Err SourceSocketNotFound"
proof -
  have "tunnel_Get (tunnel_Create ''t'' 1 2 sample_auth 3 NewTunnelContainer) ''t'' = Some (tunnel_made (1, 2, sample_auth, 3))"
    by (simp add: tunnel_Get_def tunnel_made_def tunnel_put_def tunnel_Create_def)
  from waiting_connection_joined_once [OF this, of "''r''" 9 8 10] show ?thesis by blast
qed

text \<open>\<open>Set\<close> answers for the tunnel it is given: on an unknown id and on an unknown key it reports
  an error and changes nothing, otherwise it succeeds and changes at most one tunnel; a value of the wrong
  type is silently ignored.\<close>

theorem tunnel_Set_behaviour:
  "tunnel_Set i key value c =
     (case tunnel_Get c i of
        None \<Rightarrow> Err InvalidId
      | Some m \<Rightarrow>
          if key \<in> {''sourcePort'', ''sourceServer'', ''targetPort'', ''adapter'', ''useNewProtocol''}
          then Ok (c(i \<mapsto> (case set_field key value m of Ok m' \<Rightarrow> m' | _ \<Rightarrow> m)))
          else Err (UnknownKey key))
    \<and> set_field ''sourcePort'' (BoolValue b) m = Ok m \<and> set_field ''useNewProtocol'' (IntValue n) m = Ok m"
  by (auto simp: tunnel_Set_def tunnel_Get_def set_field_def split: option.split)

end
