(* ===== verification/Stats.thy ===== *)
theory Stats
  imports Prelude
begin

text \<open>
  \<^verbatim>\<open>internal/server/stats/traffic.go\<close>: traffic counters per client and in total. Counters are
  64-bit and wrap; times are milliseconds since the epoch, and every operation takes its clock
  reading as an argument. Operations run under one mutex. \<open>FormatStats\<close> only renders text and
  is not modelled, except for the duration it shows.
\<close>

type_synonym i64 = "64 word"

record TrafficStats =
  s_UploadBytes :: i64
  s_DownloadBytes :: i64
  s_Connections :: i64
  s_Requests :: i64
  s_StartTime :: int
  s_EndTime :: "int option"
  s_LastUpdateTime :: int

record TrafficStatsData =
  sd_Global :: TrafficStats
  sd_ByClientId :: "string \<Rightarrow> TrafficStats option"

definition fresh_stats :: "int \<Rightarrow> TrafficStats" where
  "fresh_stats now =
     \<lparr>s_UploadBytes = 0, s_DownloadBytes = 0, s_Connections = 0, s_Requests = 0, s_StartTime = now,
      s_EndTime = None, s_LastUpdateTime = now\<rparr>"

definition NewTrafficStatsContainer :: "int \<Rightarrow> TrafficStatsData" where
  "NewTrafficStatsContainer now = \<lparr>sd_Global = fresh_stats now, sd_ByClientId = Map.empty\<rparr>"

text \<open>
  \<open>getOrCreateClientStats\<close> returns a pointer into the data; \<open>on_client_stats\<close> applies an update
  through that pointer, and \<open>on_global_stats\<close> the one to the total that follows.
\<close>

definition getOrCreateClientStats :: "int \<Rightarrow> string \<Rightarrow> TrafficStatsData \<Rightarrow> TrafficStats" where
  "getOrCreateClientStats now clientId d =
     (if clientId = '''' then sd_Global d
      else case sd_ByClientId d clientId of None \<Rightarrow> fresh_stats now | Some s \<Rightarrow> s)"

definition on_client_stats ::
    "int \<Rightarrow> string \<Rightarrow> (TrafficStats \<Rightarrow> TrafficStats) \<Rightarrow> TrafficStatsData \<Rightarrow> TrafficStatsData" where
  "on_client_stats now clientId f d =
     (let s = f (getOrCreateClientStats now clientId d) in
      if clientId = '''' then d\<lparr>sd_Global := s\<rparr>
      else d\<lparr>sd_ByClientId := (sd_ByClientId d)(clientId \<mapsto> s)\<rparr>)"

definition on_global_stats :: "string \<Rightarrow> (TrafficStats \<Rightarrow> TrafficStats) \<Rightarrow> TrafficStatsData \<Rightarrow> TrafficStatsData" where
  "on_global_stats clientId f d = (if clientId \<noteq> '''' then d\<lparr>sd_Global := f (sd_Global d)\<rparr> else d)"

definition add_upload :: "int \<Rightarrow> i64 \<Rightarrow> TrafficStats \<Rightarrow> TrafficStats" where
  "add_upload now n s = s\<lparr>s_UploadBytes := s_UploadBytes s + n, s_LastUpdateTime := now\<rparr>"

definition add_download :: "int \<Rightarrow> i64 \<Rightarrow> TrafficStats \<Rightarrow> TrafficStats" where
  "add_download now n s = s\<lparr>s_DownloadBytes := s_DownloadBytes s + n, s_LastUpdateTime := now\<rparr>"

definition add_connection :: "int \<Rightarrow> TrafficStats \<Rightarrow> TrafficStats" where
  "add_connection now s = s\<lparr>s_Connections := s_Connections s + 1, s_LastUpdateTime := now\<rparr>"

definition add_request :: "int \<Rightarrow> TrafficStats \<Rightarrow> TrafficStats" where
  "add_request now s = s\<lparr>s_Requests := s_Requests s + 1, s_LastUpdateTime := now\<rparr>"

definition AddUploadBytes :: "int \<Rightarrow> string \<Rightarrow> i64 \<Rightarrow> TrafficStatsData \<Rightarrow> TrafficStatsData" where
  "AddUploadBytes now c n d = on_global_stats c (add_upload now n) (on_client_stats now c (add_upload now n) d)"

definition AddDownloadBytes :: "int \<Rightarrow> string \<Rightarrow> i64 \<Rightarrow> TrafficStatsData \<Rightarrow> TrafficStatsData" where
  "AddDownloadBytes now c n d = on_global_stats c (add_download now n) (on_client_stats now c (add_download now n) d)"

definition AddConnection :: "int \<Rightarrow> string \<Rightarrow> TrafficStatsData \<Rightarrow> TrafficStatsData" where
  "AddConnection now c d = on_global_stats c (add_connection now) (on_client_stats now c (add_connection now) d)"

definition AddRequest :: "int \<Rightarrow> string \<Rightarrow> TrafficStatsData \<Rightarrow> TrafficStatsData" where
  "AddRequest now c d = on_global_stats c (add_request now) (on_client_stats now c (add_request now) d)"

text \<open>\<open>GetStats\<close> returns everything, one client's counters, or nil.\<close>

datatype stats_view = AllStats TrafficStatsData | ClientStats TrafficStats | NoStats

definition GetStats :: "string \<Rightarrow> TrafficStatsData \<Rightarrow> stats_view" where
  "GetStats c d =
     (if c = '''' then AllStats d
      else case sd_ByClientId d c of None \<Rightarrow> NoStats | Some s \<Rightarrow> ClientStats s)"

definition stats_Reset :: "int \<Rightarrow> string \<Rightarrow> TrafficStatsData \<Rightarrow> TrafficStatsData" where
  "stats_Reset now c d =
     (if c = '''' then \<lparr>sd_Global = fresh_stats now, sd_ByClientId = Map.empty\<rparr>
      else d\<lparr>sd_ByClientId := (sd_ByClientId d)(c := None)\<rparr>)"

definition SetStartTime :: "int \<Rightarrow> string \<Rightarrow> TrafficStatsData \<Rightarrow> TrafficStatsData" where
  "SetStartTime now c d =
     on_client_stats now c (\<lambda>s. s\<lparr>s_StartTime := now, s_EndTime := None, s_LastUpdateTime := now\<rparr>) d"

definition SetEndTime :: "int \<Rightarrow> string \<Rightarrow> TrafficStatsData \<Rightarrow> TrafficStatsData" where
  "SetEndTime now c d =
     on_client_stats now c
       (\<lambda>s. if s_EndTime s = None then s\<lparr>s_EndTime := Some now, s_LastUpdateTime := now\<rparr> else s) d"

section \<open>Counters are tallies\<close>

datatype stats_op =
    SUpload int string i64 | SDownload int string i64 | SConnection int string | SRequest int string
  | SReset int string | SStart int string | SEnd int string

fun stats_step :: "TrafficStatsData \<Rightarrow> stats_op \<Rightarrow> TrafficStatsData" where
  "stats_step d (SUpload now c n) = AddUploadBytes now c n d"
| "stats_step d (SDownload now c n) = AddDownloadBytes now c n d"
| "stats_step d (SConnection now c) = AddConnection now c d"
| "stats_step d (SRequest now c) = AddRequest now c d"
| "stats_step d (SReset now c) = stats_Reset now c d"
| "stats_step d (SStart now c) = SetStartTime now c d"
| "stats_step d (SEnd now c) = SetEndTime now c d"

text \<open>The four counters of a client (the total for the empty id), as read from outside.\<close>

definition counters :: "string \<Rightarrow> TrafficStatsData \<Rightarrow> i64 \<times> i64 \<times> i64 \<times> i64" where
  "counters c d =
     (let s = getOrCreateClientStats 0 c d
      in (s_UploadBytes s, s_DownloadBytes s, s_Connections s, s_Requests s))"

text \<open>
  What an operation means for the tally of \<open>c\<close>: traffic counts for its own client and for the
  total; a reset clears its client, and the reset of the total clears every client.
\<close>

fun tally :: "string \<Rightarrow> i64 \<times> i64 \<times> i64 \<times> i64 \<Rightarrow> stats_op \<Rightarrow> i64 \<times> i64 \<times> i64 \<times> i64" where
  "tally c (u, v, k, r) (SUpload now c' n) = (if c' = c \<or> c = '''' then (u + n, v, k, r) else (u, v, k, r))"
| "tally c (u, v, k, r) (SDownload now c' n) = (if c' = c \<or> c = '''' then (u, v + n, k, r) else (u, v, k, r))"
| "tally c (u, v, k, r) (SConnection now c') = (if c' = c \<or> c = '''' then (u, v, k + 1, r) else (u, v, k, r))"
| "tally c (u, v, k, r) (SRequest now c') = (if c' = c \<or> c = '''' then (u, v, k, r + 1) else (u, v, k, r))"
| "tally c t (SReset now c') = (if c' = c \<or> c' = '''' then (0, 0, 0, 0) else t)"
| "tally c t (SStart now c') = t"
| "tally c t (SEnd now c') = t"

lemmas stats_defs = AddUploadBytes_def AddDownloadBytes_def AddConnection_def AddRequest_def stats_Reset_def
  SetStartTime_def SetEndTime_def on_client_stats_def on_global_stats_def getOrCreateClientStats_def
  add_upload_def add_download_def add_connection_def add_request_def fresh_stats_def

lemma counters_step: "counters c (stats_step d e) = tally c (counters c d) e"
  by (cases e) (auto simp: counters_def stats_defs Let_def split: option.split)

lemma counters_run: "counters c (foldl stats_step d ops) = foldl (tally c) (counters c d) ops"
  by (induction ops arbitrary: d) (simp_all add: counters_step)

text \<open>The counters are the tallies of what happened: after any history, each client's four counters
  are the sums (modulo 2^64) of its own traffic since its last reset, and the total's are the sums of all
  traffic since the last reset of everything. In particular the reset of one client leaves the total and the
  other clients as they are, and start and end times change no counter.\<close>

theorem counters_are_tallies:
  "counters c (foldl stats_step (NewTrafficStatsContainer now) ops) = foldl (tally c) (0, 0, 0, 0) ops"
proof -
  have "counters c (NewTrafficStatsContainer now) = (0, 0, 0, 0)"
    by (simp add: counters_def NewTrafficStatsContainer_def getOrCreateClientStats_def fresh_stats_def Let_def)
  then show ?thesis by (simp add: counters_run)
qed

fun starts :: "string \<Rightarrow> stats_op \<Rightarrow> bool" where
  "starts c (SStart now c') = (c' = c)"
| "starts c (SReset now c') = (c' = c \<or> c' = '''')"
| "starts c _ = False"

definition end_time :: "string \<Rightarrow> TrafficStatsData \<Rightarrow> int option" where
  "end_time c d = s_EndTime (getOrCreateClientStats 0 c d)"

lemma end_time_step: "\<not> starts c e \<Longrightarrow> end_time c d = Some t \<Longrightarrow> end_time c (stats_step d e) = Some t"
  by (cases e) (auto simp: end_time_def stats_defs Let_def split: option.splits if_splits)

text \<open>The end of a session is recorded once: the first \<open>SetEndTime\<close> of a session fixes it, and
  neither later ends nor traffic move it until the client starts again or is reset.\<close>

theorem session_end_is_recorded_once:
  assumes "end_time c d = None" "\<forall>e \<in> set ops. \<not> starts c e"
  shows "end_time c (foldl stats_step (SetEndTime now c d) ops) = Some now"
proof -
  have "end_time c (SetEndTime now c d) = Some now"
    using assms(1) by (auto simp: end_time_def stats_defs Let_def split: option.splits)
  then show ?thesis
    using assms(2) by (induction ops rule: rev_induct) (simp_all add: end_time_step)
qed

lemma session_end_is_recorded_once_witness:
  "end_time ''c'' (foldl stats_step (SetEndTime 7 ''c'' (SetStartTime 3 ''c'' (NewTrafficStatsContainer 0)))
     [SUpload 8 ''c'' 5, SEnd 9 ''c'', SReset 10 ''d'']) = Some 7"
  by (rule session_end_is_recorded_once)
    (simp_all add: end_time_def stats_defs NewTrafficStatsContainer_def Let_def)

end
