(* ===== verification/TunnelSpecs.thy ===== *)
theory TunnelSpecs
  imports ClientTypes NegotiationLaws
begin

text \<open>
  Server-declared tunnels on the client: \<^verbatim>\<open>internal/client/upstream.go\<close> (\<open>ParseUpstream\<close>),
  \<^verbatim>\<open>internal/client/tunnel_spec_auth.go\<close> and \<^verbatim>\<open>internal/client/child_options.go\<close>. Error
  texts are values of \<open>spec_error\<close>. Pointers that may be nil are options.
\<close>

datatype spec_error =
    NilArgument | InvalidTunnelType string | EmptyUpstream | InvalidUpstreamPort string
  | UpstreamShape | InvalidPortInUpstream string | RemotePortMissing string | InvalidRemotePort string

definition parse_port :: "string \<Rightarrow> int option" where
  "parse_port s = (case Atoi s of (port, ok) \<Rightarrow> if \<not> ok \<or> port < 1 \<or> port > 65535 then None else Some port)"

definition ParseUpstream :: "string \<Rightarrow> (spec_error, string \<times> int) outcome" where
  "ParseUpstream upstream0 =
     (let upstream = TrimSpace upstream0 in
      if upstream = '''' then Err EmptyUpstream
      else if list_all is_digit upstream then
        (case parse_port upstream of
           None \<Rightarrow> Err (InvalidUpstreamPort upstream)
         | Some port \<Rightarrow> Ok (''127.0.0.1'', port))
      else
        let parts = Split upstream CHR '':'' in
        if length parts \<noteq> 2 then Err UpstreamShape
        else
          let host = TrimSpace (parts ! 0); host = (if host = '''' then ''127.0.0.1'' else host) in
          (case parse_port (TrimSpace (parts ! 1)) of
             None \<Rightarrow> Err (InvalidPortInUpstream upstream)
           | Some port \<Rightarrow> Ok (host, port)))"

definition tunnelPortFromOptions :: "Options option \<Rightarrow> int" where
  "tunnelPortFromOptions o1 =
     (case o1 of None \<Rightarrow> 0 | Some op \<Rightarrow> if \<not> EqualFold (op_Type op) ''tcp'' then 0 else op_TunnelPort op)"

definition tunnelSpecLabel :: "TunnelSpec option \<Rightarrow> string" where
  "tunnelSpecLabel spec =
     (case spec of None \<Rightarrow> ''?''
      | Some s \<Rightarrow>
          if TrimSpace (ts_Name s) \<noteq> '''' then TrimSpace (ts_Name s)
          else if TrimSpace (ts_Upstream s) \<noteq> '''' then TrimSpace (ts_Upstream s)
          else if TrimSpace (ts_Type s) \<noteq> '''' then TrimSpace (ts_Type s) else ''?'')"

definition AuthSnapshotFromOptions :: "Options option \<Rightarrow> Authentication option" where
  "AuthSnapshotFromOptions o1 =
     (case o1 of None \<Rightarrow> None
      | Some op \<Rightarrow> Some
          \<lparr>at_Version = '''', at_Type = op_Type op, at_Port = op_UpstreamPort op, at_SubDomain = op_SubDomain op,
           at_TunnelPort = tunnelPortFromOptions o1, at_Timestamp = 0, at_AuthType = '''', at_ClientId = '''',
           at_Signature = '''', at_Capabilities = None, at_OpaqueChild = False, at_HTTPIngressBasic = None\<rparr>)"

definition spec_type :: "TunnelSpec \<Rightarrow> string" where
  "spec_type spec = ToLower (TrimSpace (ts_Type spec))"

text \<open>The public TCP port: the pinned one, or the one asked for so far when none is pinned.\<close>

definition resolve_tunnel_port :: "TunnelSpec \<Rightarrow> int \<Rightarrow> (spec_error, int) outcome" where
  "resolve_tunnel_port spec current =
     (if 1 \<le> ts_RemotePort spec \<and> ts_RemotePort spec \<le> 65535 then Ok (ts_RemotePort spec)
      else if ts_RemotePort spec = 0 then
        (if current < 1 \<or> current > 65535 then Err (RemotePortMissing (tunnelSpecLabel (Some spec)))
         else Ok current)
      else Err (InvalidRemotePort (tunnelSpecLabel (Some spec))))"

text \<open>
  \<open>ApplyTunnelSpecToAuthentication\<close> writes through the pointer as it goes: on an error the
  fields set so far stay changed, so the result carries the message in either case.
\<close>

definition apply_spec :: "Authentication \<Rightarrow> TunnelSpec \<Rightarrow> Authentication \<times> (spec_error, unit) outcome" where
  "apply_spec auth spec =
     (let t = spec_type spec in
      if t \<noteq> ''http'' \<and> t \<noteq> ''tcp'' then (auth, Err (InvalidTunnelType (ts_Type spec)))
      else case ParseUpstream (ts_Upstream spec) of
        Err e \<Rightarrow> (auth, Err e)
      | Panic \<Rightarrow> (auth, Panic)
      | Ok (host, port) \<Rightarrow>
          let auth = auth\<lparr>at_Type := t, at_Port := port\<rparr> in
          if t = ''http'' then
            (auth\<lparr>at_SubDomain := (if TrimSpace (ts_SubDomain spec) \<noteq> '''' then TrimSpace (ts_SubDomain spec)
                                   else at_SubDomain auth), at_TunnelPort := 0\<rparr>, Ok ())
          else
            let auth = auth\<lparr>at_SubDomain := ''''\<rparr> in
            (case resolve_tunnel_port spec (at_TunnelPort auth) of
               Ok p \<Rightarrow> (auth\<lparr>at_TunnelPort := p\<rparr>, Ok ())
             | Err e \<Rightarrow> (auth, Err e)
             | Panic \<Rightarrow> (auth, Panic)))"

definition ApplyTunnelSpecToAuthentication ::
    "Authentication option \<Rightarrow> TunnelSpec option \<Rightarrow> Authentication option \<times> (spec_error, unit) outcome" where
  "ApplyTunnelSpecToAuthentication auth spec =
     (case (auth, spec) of
        (Some a, Some s) \<Rightarrow> (let (a', r) = apply_spec a s in (Some a', r))
      | _ \<Rightarrow> (auth, Err NilArgument))"

definition tunnelSpecMatchesAuth :: "Authentication \<Rightarrow> TunnelSpec \<Rightarrow> bool" where
  "tunnelSpecMatchesAuth auth spec =
     (let t = spec_type spec in
      if t \<noteq> ToLower (TrimSpace (at_Type auth)) then False
      else if t \<noteq> ''http'' \<and> t \<noteq> ''tcp'' then False
      else case ParseUpstream (ts_Upstream spec) of
        Ok (host, specPort) \<Rightarrow>
          if specPort \<noteq> at_Port auth then False
          else if t = ''http'' then
            (if TrimSpace (ts_SubDomain spec) \<noteq> ''''
             then TrimSpace (ts_SubDomain spec) = TrimSpace (at_SubDomain auth) else True)
          else
            (if 1 \<le> ts_RemotePort spec \<and> ts_RemotePort spec \<le> 65535
             then ts_RemotePort spec = at_TunnelPort auth else True)
      | _ \<Rightarrow> False)"

fun match_from :: "Authentication \<Rightarrow> TunnelSpec list \<Rightarrow> int \<Rightarrow> int" where
  "match_from auth [] i = -1"
| "match_from auth (spec # specs) i =
     (if tunnelSpecMatchesAuth auth spec then i else match_from auth specs (i + 1))"

definition MatchTunnelSpecIndex :: "Authentication option \<Rightarrow> TunnelSpec list \<Rightarrow> int" where
  "MatchTunnelSpecIndex auth specs =
     (case auth of None \<Rightarrow> -1 | Some a \<Rightarrow> if specs = [] then -1 else match_from a specs 0)"

definition sync_opts :: "Options \<Rightarrow> TunnelSpec \<Rightarrow> Options \<times> (spec_error, unit) outcome" where
  "sync_opts op spec =
     (case ParseUpstream (ts_Upstream spec) of
        Err e \<Rightarrow> (op, Err e)
      | Panic \<Rightarrow> (op, Panic)
      | Ok (host, port) \<Rightarrow>
          let t = spec_type spec in
          if t \<noteq> ''http'' \<and> t \<noteq> ''tcp'' then (op, Err (InvalidTunnelType (ts_Type spec)))
          else
            let op = op\<lparr>op_Type := t, op_UpstreamHost := host, op_UpstreamPort := port\<rparr> in
            if t = ''http'' then
              (op\<lparr>op_SubDomain := (if TrimSpace (ts_SubDomain spec) \<noteq> '''' then TrimSpace (ts_SubDomain spec)
                                   else op_SubDomain op), op_TunnelPort := 0\<rparr>, Ok ())
            else
              let op = op\<lparr>op_SubDomain := ''''\<rparr> in
              (case resolve_tunnel_port spec (op_TunnelPort op) of
                 Ok p \<Rightarrow> (op\<lparr>op_TunnelPort := p\<rparr>, Ok ())
               | Err e \<Rightarrow> (op, Err e)
               | Panic \<Rightarrow> (op, Panic)))"

definition SyncOptsFromTunnelSpec ::
    "Options option \<Rightarrow> TunnelSpec option \<Rightarrow> Options option \<times> (spec_error, unit) outcome" where
  "SyncOptsFromTunnelSpec op spec =
     (case (op, spec) of
        (Some p, Some s) \<Rightarrow> (let (p', r) = sync_opts p s in (Some p', r))
      | _ \<Rightarrow> (op, Err NilArgument))"

definition ChildOptionsFromSpec :: "Options option \<Rightarrow> TunnelSpec option \<Rightarrow> (spec_error, Options) outcome" where
  "ChildOptionsFromSpec base spec =
     (case (base, spec) of
        (Some b, Some s) \<Rightarrow>
          let t = spec_type s in
          if t \<noteq> ''http'' \<and> t \<noteq> ''tcp'' then Err (InvalidTunnelType (ts_Type s))
          else obind (ParseUpstream (ts_Upstream s)) (\<lambda>(host, port).
            let op = b\<lparr>op_Type := t, op_UpstreamHost := host, op_UpstreamPort := port,
                       op_SubDomain := TrimSpace (ts_SubDomain s), op_TunnelPort := ts_RemotePort s,
                       op_OpaqueChild := True\<rparr>
            in if t = ''http'' then Ok (op\<lparr>op_TunnelPort := 0\<rparr>)
               else if 1 \<le> ts_RemotePort s \<and> ts_RemotePort s \<le> 65535
               then Ok (op\<lparr>op_SubDomain := '''', op_TunnelPort := ts_RemotePort s\<rparr>)
               else if ts_RemotePort s = 0 then Err (RemotePortMissing (tunnelSpecLabel (Some s)))
               else Err (InvalidRemotePort (tunnelSpecLabel (Some s))))
      | _ \<Rightarrow> Err NilArgument)"

section \<open>Upstreams\<close>

lemma parse_port_bounds: "parse_port s = Some p \<Longrightarrow> 1 \<le> p \<and> p \<le> 65535"
  by (auto simp: parse_port_def split: prod.splits if_splits)

lemma ParseUpstream_not_Panic [simp]: "ParseUpstream u \<noteq> Panic"
  by (simp add: ParseUpstream_def Let_def split: option.split)

lemma ParseUpstream_Ok:
  "ParseUpstream u = Ok (host, port) \<Longrightarrow> host \<noteq> '''' \<and> 1 \<le> port \<and> port \<le> 65535"
  by (auto simp: ParseUpstream_def Let_def dest: parse_port_bounds split: option.splits if_splits)

lemma dropWhile_fix: "xs = [] \<or> \<not> P (hd xs) \<Longrightarrow> dropWhile P xs = xs"
  by (cases xs) auto

lemma TrimSpace_fix: "s = [] \<or> \<not> is_space (hd s) \<and> \<not> is_space (last s) \<Longrightarrow> TrimSpace s = s"
proof -
  assume "s = [] \<or> \<not> is_space (hd s) \<and> \<not> is_space (last s)"
  then have "dropWhile is_space s = s" "dropWhile is_space (rev s) = rev s"
    by (auto intro: dropWhile_fix simp: hd_rev)
  then show ?thesis by (simp add: TrimSpace_def trim_left_def)
qed

lemma TrimSpace_ends: "TrimSpace s = [] \<or> \<not> is_space (hd (TrimSpace s)) \<and> \<not> is_space (last (TrimSpace s))"
proof -
  define x where "x = dropWhile is_space s"
  define y where "y = dropWhile is_space (rev x)"
  have x: "x = [] \<or> \<not> is_space (hd x)" by (metis hd_dropWhile x_def)
  have y: "y = [] \<or> \<not> is_space (hd y)" by (metis hd_dropWhile y_def)
  have "rev x = takeWhile is_space (rev x) @ y" by (simp add: y_def)
  then have split: "x = rev y @ rev (takeWhile is_space (rev x))" by (metis rev_append rev_rev_ident)
  then have "rev y = [] \<or> \<not> is_space (hd (rev y))" using x by (metis append_is_Nil_conv hd_append2)
  with y have "rev y = [] \<or> \<not> is_space (hd (rev y)) \<and> \<not> is_space (last (rev y))"
    by (auto simp: last_rev)
  moreover have "TrimSpace s = rev y" by (simp add: TrimSpace_def trim_left_def x_def y_def)
  ultimately show ?thesis by simp
qed

lemma TrimSpace_idem [simp]: "TrimSpace (TrimSpace s) = TrimSpace s"
  using TrimSpace_ends by (rule TrimSpace_fix)

lemma digit_no_space: "is_digit c \<Longrightarrow> \<not> is_space c"
  by (auto simp: is_digit_def is_space_def)

lemma decimal_ends: "decimal n \<noteq> [] \<and> \<not> is_space (hd (decimal n)) \<and> \<not> is_space (last (decimal n))"
  using decimal_digits [of n] digit_no_space by (simp add: list_all_iff)

lemma TrimSpace_decimal [simp]: "TrimSpace (decimal n) = decimal n"
  using decimal_ends by (intro TrimSpace_fix) blast

lemma colon_not_digit: "\<not> is_digit CHR '':''" "CHR '':'' \<notin> set (decimal n)"
  using decimal_digits [of n] by (auto simp: list_all_iff is_digit_def)

lemma parse_port_decimal: "1 \<le> n \<Longrightarrow> n \<le> 65535 \<Longrightarrow> parse_port (decimal n) = Some (int n)"
  by (simp add: parse_port_def Atoi_decimal max_int_def)

lemma type_names: "ToLower (TrimSpace ''http'') = ''http''" "ToLower (TrimSpace ''tcp'') = ''tcp''"
    "EqualFold ''http'' ''tcp'' = False" "EqualFold ''tcp'' ''tcp'' = True"
  by code_simp+

lemma resolve_tunnel_port_Ok:
  "resolve_tunnel_port spec p = Ok q \<Longrightarrow> 1 \<le> q \<and> q \<le> 65535
     \<and> (1 \<le> ts_RemotePort spec \<and> ts_RemotePort spec \<le> 65535 \<longrightarrow> q = ts_RemotePort spec)"
  by (auto simp: resolve_tunnel_port_def split: if_splits)

definition valid_port :: "int \<Rightarrow> bool" where
  "valid_port p \<longleftrightarrow> 1 \<le> p \<and> p \<le> 65535"

lemma spec_type_cases:
  "\<not> (spec_type s \<noteq> ''http'' \<and> spec_type s \<noteq> ''tcp'') \<Longrightarrow> spec_type s = ''http'' \<or> spec_type s = ''tcp''"
  by blast

lemma apply_spec_matches:
  assumes "apply_spec auth spec = (auth', Ok ())"
  shows "tunnelSpecMatchesAuth auth' spec \<and> valid_port (at_Port auth')
    \<and> (at_Type auth' = ''tcp'' \<longrightarrow> valid_port (at_TunnelPort auth'))"
proof -
  from assms obtain host port where up: "ParseUpstream (ts_Upstream spec) = Ok (host, port)"
    by (auto simp: apply_spec_def Let_def split: if_splits outcome.splits)
  from assms have "spec_type spec = ''http'' \<or> spec_type spec = ''tcp''"
    by (auto simp: apply_spec_def Let_def split: if_splits)
  then show ?thesis
  proof
    assume "spec_type spec = ''http''"
    with assms up ParseUpstream_Ok [OF up] show ?thesis
      by (auto simp: apply_spec_def tunnelSpecMatchesAuth_def Let_def type_names valid_port_def)
  next
    assume "spec_type spec = ''tcp''"
    with assms up ParseUpstream_Ok [OF up] resolve_tunnel_port_Ok [of spec "at_TunnelPort auth"] show ?thesis
      by (auto simp: apply_spec_def tunnelSpecMatchesAuth_def Let_def type_names valid_port_def split: outcome.splits)
  qed
qed

definition snapshot :: "Options \<Rightarrow> Authentication" where
  "snapshot op = the (AuthSnapshotFromOptions (Some op))"

lemma snapshot_fields [simp]:
  "at_Type (snapshot op) = op_Type op" "at_Port (snapshot op) = op_UpstreamPort op"
  "at_SubDomain (snapshot op) = op_SubDomain op" "at_TunnelPort (snapshot op) = tunnelPortFromOptions (Some op)"
  by (simp_all add: snapshot_def AuthSnapshotFromOptions_def)

lemma sync_opts_matches:
  assumes "sync_opts op spec = (op', Ok ())"
  shows "tunnelSpecMatchesAuth (snapshot op') spec \<and> valid_port (op_UpstreamPort op')"
proof -
  from assms obtain host port where up: "ParseUpstream (ts_Upstream spec) = Ok (host, port)"
    by (auto simp: sync_opts_def Let_def split: if_splits outcome.splits)
  from assms up have "spec_type spec = ''http'' \<or> spec_type spec = ''tcp''"
    by (auto simp: sync_opts_def Let_def split: if_splits)
  then show ?thesis
  proof
    assume "spec_type spec = ''http''"
    with assms up ParseUpstream_Ok [OF up] show ?thesis
      by (auto simp: sync_opts_def tunnelSpecMatchesAuth_def Let_def type_names valid_port_def)
  next
    assume "spec_type spec = ''tcp''"
    with assms up ParseUpstream_Ok [OF up] resolve_tunnel_port_Ok [of spec "op_TunnelPort op"] show ?thesis
      by (auto simp: sync_opts_def tunnelSpecMatchesAuth_def Let_def type_names valid_port_def
          tunnelPortFromOptions_def split: outcome.splits)
  qed
qed

lemma child_matches:
  assumes "ChildOptionsFromSpec (Some base) (Some spec) = Ok child"
  shows "tunnelSpecMatchesAuth (snapshot child) spec \<and> valid_port (op_UpstreamPort child)
    \<and> op_OpaqueChild child \<and> op_Token child = op_Token base \<and> op_ClientId child = op_ClientId base
    \<and> op_ClientSecret child = op_ClientSecret base \<and> op_Remote child = op_Remote base"
proof -
  from assms obtain host port where up: "ParseUpstream (ts_Upstream spec) = Ok (host, port)"
    by (auto simp: ChildOptionsFromSpec_def Let_def outcome_simps split: if_splits)
  from assms have "spec_type spec = ''http'' \<or> spec_type spec = ''tcp''"
    by (auto simp: ChildOptionsFromSpec_def Let_def split: if_splits)
  then show ?thesis
  proof
    assume "spec_type spec = ''http''"
    with assms up ParseUpstream_Ok [OF up] show ?thesis
      by (auto simp: ChildOptionsFromSpec_def tunnelSpecMatchesAuth_def Let_def type_names valid_port_def)
  next
    assume "spec_type spec = ''tcp''"
    with assms up ParseUpstream_Ok [OF up] show ?thesis
      by (auto simp: ChildOptionsFromSpec_def tunnelSpecMatchesAuth_def Let_def type_names valid_port_def
          tunnelPortFromOptions_def split: if_splits)
  qed
qed

text \<open>What a client declares and what it is matched against agree. An authentication to which a
  tunnel specification was applied matches that specification; so does the snapshot of the options of a session
  synchronised with it, and of a child session made for it, which keeps the parent's credentials; the upstream
  port is valid in all three.\<close>

theorem applied_specs_match:
  "(ApplyTunnelSpecToAuthentication (Some auth) (Some spec) = (Some auth', Ok ()) \<longrightarrow>
      tunnelSpecMatchesAuth auth' spec \<and> valid_port (at_Port auth')
        \<and> (at_Type auth' = ''tcp'' \<longrightarrow> valid_port (at_TunnelPort auth')))
    \<and> (SyncOptsFromTunnelSpec (Some base) (Some spec) = (Some op, Ok ()) \<longrightarrow>
      tunnelSpecMatchesAuth (snapshot op) spec \<and> valid_port (op_UpstreamPort op))
    \<and> (ChildOptionsFromSpec (Some base) (Some spec) = Ok child \<longrightarrow>
      tunnelSpecMatchesAuth (snapshot child) spec \<and> valid_port (op_UpstreamPort child)
        \<and> op_OpaqueChild child \<and> op_Token child = op_Token base \<and> op_ClientId child = op_ClientId base)"
  using apply_spec_matches [of auth spec auth'] sync_opts_matches [of base spec op] child_matches [of base spec child]
  by (simp add: ApplyTunnelSpecToAuthentication_def SyncOptsFromTunnelSpec_def case_prod_unfold Let_def prod_eq_iff)

definition web_spec :: TunnelSpec where
  "web_spec = \<lparr>ts_Name = ''web'', ts_Type = ''HTTP'', ts_Upstream = ''localhost:8080'', ts_SubDomain = '' app'',
     ts_RemotePort = 0, ts_Auth = None, ts_Auths = []\<rparr>"

definition plain_auth :: Authentication where
  "plain_auth = \<lparr>at_Version = ''2.0.0'', at_Type = ''tcp'', at_Port = 80, at_SubDomain = '''', at_TunnelPort = 0,
     at_Timestamp = 0, at_AuthType = '''', at_ClientId = '''', at_Signature = '''', at_Capabilities = None,
     at_OpaqueChild = False, at_HTTPIngressBasic = None\<rparr>"

lemma applied_specs_match_witness:
  "tunnelSpecMatchesAuth (plain_auth\<lparr>at_Type := ''http'', at_Port := 8080, at_SubDomain := ''app''\<rparr>) web_spec"
proof -
  have "ApplyTunnelSpecToAuthentication (Some plain_auth) (Some web_spec)
      = (Some (plain_auth\<lparr>at_Type := ''http'', at_Port := 8080, at_SubDomain := ''app''\<rparr>), Ok ())"
    by code_simp
  then show ?thesis using applied_specs_match by blast
qed

section \<open>The match\<close>

lemma match_from_spec:
  "match_from auth specs i = -1 \<and> (\<forall>s \<in> set specs. \<not> tunnelSpecMatchesAuth auth s)
   \<or> (\<exists>k. match_from auth specs i = i + int k \<and> k < length specs \<and> tunnelSpecMatchesAuth auth (specs ! k)
        \<and> (\<forall>j < k. \<not> tunnelSpecMatchesAuth auth (specs ! j)))"
proof (induction specs arbitrary: i)
  case (Cons s specs)
  show ?case
  proof (cases "tunnelSpecMatchesAuth auth s")
    case True
    then show ?thesis by (intro disjI2 exI [of _ 0]) simp
  next
    case False
    from Cons [of "i + 1"] show ?thesis
    proof
      assume "\<exists>k. match_from auth specs (i + 1) = i + 1 + int k \<and> k < length specs \<and> tunnelSpecMatchesAuth auth (specs ! k)
        \<and> (\<forall>j < k. \<not> tunnelSpecMatchesAuth auth (specs ! j))"
      then obtain k where k: "match_from auth specs (i + 1) = i + 1 + int k" "k < length specs"
        "tunnelSpecMatchesAuth auth (specs ! k)" "\<forall>j < k. \<not> tunnelSpecMatchesAuth auth (specs ! j)"
        by blast
      with False show ?thesis
        by (intro disjI2 exI [of _ "Suc k"]) (auto simp: less_Suc_eq_0_disj)
    qed (use False in simp)
  qed
qed simp

text \<open>The server picks the first tunnel row that fits: the index returned is that of the first
  matching specification, and -1 means that none matches (or there is no authentication).\<close>

theorem first_matching_tunnel:
  "(MatchTunnelSpecIndex auth specs = -1
      \<longleftrightarrow> (auth = None \<or> (\<exists>a. auth = Some a \<and> (\<forall>s \<in> set specs. \<not> tunnelSpecMatchesAuth a s))))
    \<and> (0 \<le> MatchTunnelSpecIndex auth specs \<longleftrightarrow>
        (\<exists>a k. auth = Some a \<and> MatchTunnelSpecIndex auth specs = int k \<and> k < length specs
          \<and> tunnelSpecMatchesAuth a (specs ! k) \<and> (\<forall>j < k. \<not> tunnelSpecMatchesAuth a (specs ! j))))"
proof (cases auth)
  case (Some a)
  from match_from_spec [of a specs 0] show ?thesis
  proof
    assume "match_from a specs 0 = -1 \<and> (\<forall>s \<in> set specs. \<not> tunnelSpecMatchesAuth a s)"
    with Some show ?thesis by (auto simp: MatchTunnelSpecIndex_def)
  next
    assume "\<exists>k. match_from a specs 0 = 0 + int k \<and> k < length specs \<and> tunnelSpecMatchesAuth a (specs ! k)
        \<and> (\<forall>j < k. \<not> tunnelSpecMatchesAuth a (specs ! j))"
    then obtain k where k: "match_from a specs 0 = int k" "k < length specs" "tunnelSpecMatchesAuth a (specs ! k)"
      "\<forall>j < k. \<not> tunnelSpecMatchesAuth a (specs ! j)"
      by auto
    then have "MatchTunnelSpecIndex auth specs = int k" using Some by (auto simp: MatchTunnelSpecIndex_def)
    with k Some nth_mem [OF k(2)] show ?thesis by auto
  qed
qed (simp add: MatchTunnelSpecIndex_def)

lemma first_matching_tunnel_witness: "MatchTunnelSpecIndex (Some plain_auth) [web_spec] = -1"
proof -
  have "\<forall>s \<in> set [web_spec]. \<not> tunnelSpecMatchesAuth plain_auth s" by code_simp
  then show ?thesis using first_matching_tunnel [of "Some plain_auth" "[web_spec]"] by simp
qed

text \<open>An upstream written as a port, or as host and port, is understood as written: digits alone
  give that port of 127.0.0.1, and a host without colon or outer white space gives that host. Every accepted
  upstream has a port from 1 to 65535 and a host.\<close>

theorem upstream_parsed_as_written:
  assumes "1 \<le> n" "n \<le> 65535" "host \<noteq> ''''" "TrimSpace host = host" "CHR '':'' \<notin> set host"
  shows "ParseUpstream (decimal n) = Ok (''127.0.0.1'', int n)
    \<and> ParseUpstream (host @ '':'' @ decimal n) = Ok (host, int n)
    \<and> ParseUpstream ('':'' @ decimal n) = Ok (''127.0.0.1'', int n)
    \<and> (\<forall>u h p. ParseUpstream u = Ok (h, p) \<longrightarrow> h \<noteq> '''' \<and> valid_port p)"
proof -
  have colon: "TrimSpace (CHR '':'' # decimal n) = CHR '':'' # decimal n"
    using decimal_ends [of n] by (intro TrimSpace_fix) (simp add: is_space_def)
  have ends: "\<not> is_space (hd host)" using TrimSpace_ends [of host] assms(3,4) by simp
  have whole: "TrimSpace (host @ CHR '':'' # decimal n) = host @ CHR '':'' # decimal n"
    using ends decimal_ends [of n] assms(3) by (intro TrimSpace_fix) simp
  have dec: "list_all is_digit (decimal n)" "decimal n \<noteq> []" using decimal_digits [of n] by auto
  have split: "Split (host @ CHR '':'' # decimal n) CHR '':'' = [host, decimal n]"
    "Split (CHR '':'' # decimal n) CHR '':'' = [[], decimal n]"
    using assms(5) colon_not_digit(2) [of n] by (simp_all add: Split_append_sep Split_free)
  have empty: "TrimSpace [] = []" by (simp add: TrimSpace_def trim_left_def)
  note port = parse_port_decimal [OF assms(1,2)]
  have "ParseUpstream (decimal n) = Ok (''127.0.0.1'', int n)"
    using dec port by (simp add: ParseUpstream_def)
  moreover have "ParseUpstream (host @ '':'' @ decimal n) = Ok (host, int n)"
    using whole split(1) port assms(3,4) colon_not_digit(1) by (simp add: ParseUpstream_def Let_def)
  moreover have "ParseUpstream ('':'' @ decimal n) = Ok (''127.0.0.1'', int n)"
    using colon split(2) port colon_not_digit(1) empty by (simp add: ParseUpstream_def Let_def)
  ultimately show ?thesis using ParseUpstream_Ok by (auto simp: valid_port_def)
qed

lemma upstream_parsed_as_written_witness:
  "ParseUpstream (''localhost'' @ '':'' @ decimal 8080) = Ok (''localhost'', int 8080)"
proof -
  have "TrimSpace ''localhost'' = ''localhost''" by code_simp
  then show ?thesis using upstream_parsed_as_written [of 8080 "''localhost''"] by simp
qed

end
