(* ===== verification/Legacy.thy ===== *)
theory Legacy
  imports TunnelLaws
begin

text \<open>
  \<^verbatim>\<open>internal/server/protocol/legacy.go\<close>, the type \<open>LegacyProtocolAdapter\<close>: JSON messages
  with base64 payloads for peers without negotiated capabilities. As in \<open>Adapter\<close>, frames written and
  handlers called are appended to a trace. The methods that do nothing (\<open>OnHTTPRequestHead\<close> and
  the like, \<open>OnTCPClose\<close>, \<open>Destroy\<close>) have no definition; \<open>setupEventListeners\<close> is never called.
\<close>

section \<open>The adapter\<close>

datatype legacy_error =
    LegacyPayload payload_error | LegacyWrite string | TCPNotSupported | SemanticHTTPNotSupported

record LegacyAdapter =
  la_isClient :: bool
  la_useCompressedOuter :: bool
  la_httpRequestHandler :: "handler option"
  la_httpResponseHandler :: "handler option"
  la_tcpDataHandlers :: "(nat \<times> handler) list"
  la_handlerIDCounter :: nat
  la_out :: "out_event list"

type_synonym legacy_result = "(legacy_error, unit) outcome"

definition NewLegacyProtocolAdapter :: "bool \<Rightarrow> LegacyAdapter" where
  "NewLegacyProtocolAdapter isClient =
     \<lparr>la_isClient = isClient, la_useCompressedOuter = True, la_httpRequestHandler = None,
      la_httpResponseHandler = None, la_tcpDataHandlers = [], la_handlerIDCounter = 0, la_out = []\<rparr>"

definition SetLegacyPeerVersion :: "string \<Rightarrow> LegacyAdapter \<Rightarrow> LegacyAdapter" where
  "SetLegacyPeerVersion version a = a\<lparr>la_useCompressedOuter := shouldUseCompressedOuter version\<rparr>"

definition legacy_emit :: "out_event \<Rightarrow> LegacyAdapter \<Rightarrow> LegacyAdapter" where
  "legacy_emit ev a = a\<lparr>la_out := la_out a @ [ev]\<rparr>"

definition writeMonitorText :: "Env \<Rightarrow> json \<Rightarrow> LegacyAdapter \<Rightarrow> LegacyAdapter \<times> legacy_result" where
  "writeMonitorText env msg a =
     (case en_write_err env (la_out a) (MonitorText msg) of
        Some e \<Rightarrow> (a, Err (LegacyWrite e))
      | None \<Rightarrow> (legacy_emit (MonitorText msg) a, Ok ()))"

section \<open>Encoding\<close>

definition encodeRequestData :: "Codec \<Rightarrow> byte list \<Rightarrow> LegacyAdapter \<Rightarrow> (payload_error, string) outcome" where
  "encodeRequestData k data a =
     (let base64Data = base64Encode data in
      if \<not> la_useCompressedOuter a then Ok base64Data else EncodeOuter k base64Data)"

definition decodeRequestData :: "Codec \<Rightarrow> string \<Rightarrow> (payload_error, byte list) outcome" where
  "decodeRequestData k data = DecodePayload k data"

definition encodeResponseData :: "Codec \<Rightarrow> byte list \<Rightarrow> LegacyAdapter \<Rightarrow> (payload_error, string) outcome" where
  "encodeResponseData k data a =
     (let base64Data = base64Encode data in
      if \<not> la_useCompressedOuter a then Ok base64Data else EncodeOuter k base64Data)"

definition decodeResponseData :: "Codec \<Rightarrow> string \<Rightarrow> (payload_error, byte list) outcome" where
  "decodeResponseData k data = DecodePayload k data"

section \<open>Receiving\<close>

text \<open>
  A handler's own error is dropped, and so is a payload that does not decode: the event handler
  always returns nil.
\<close>

definition handle_payload ::
    "handler option \<Rightarrow> (string \<Rightarrow> (payload_error, byte list) outcome) \<Rightarrow> (string \<Rightarrow> byte list \<Rightarrow> out_event)
       \<Rightarrow> json \<Rightarrow> LegacyAdapter \<Rightarrow> LegacyAdapter" where
  "handle_payload h decode ev payload a =
     (case (h, payload) of
        (Some _, JObj data) \<Rightarrow>
          let sid = get_string data ''id''; dataStr = get_string data ''data'' in
          if sid \<noteq> '''' \<and> dataStr \<noteq> '''' then
            (case decode dataStr of Ok decoded \<Rightarrow> legacy_emit (ev sid decoded) a | _ \<Rightarrow> a)
          else a
      | _ \<Rightarrow> a)"

definition handleEvent :: "Codec \<Rightarrow> string \<Rightarrow> json \<Rightarrow> LegacyAdapter \<Rightarrow> LegacyAdapter" where
  "handleEvent k event payload a =
     (if event = ''request'' then
        (if la_isClient a
         then handle_payload (la_httpRequestHandler a) (decodeRequestData k) HandledRequest payload a else a)
      else if event = ''response'' then
        (if \<not> la_isClient a
         then handle_payload (la_httpResponseHandler a) (decodeResponseData k) HandledResponse payload a else a)
      else a)"

definition HandleEvent :: "Codec \<Rightarrow> string \<Rightarrow> json \<Rightarrow> LegacyAdapter \<Rightarrow> LegacyAdapter" where
  "HandleEvent k event payload a = handleEvent k event payload a"

section \<open>Sending\<close>

definition legacy_send ::
    "Env \<Rightarrow> string \<Rightarrow> string \<Rightarrow> (payload_error, string) outcome \<Rightarrow> LegacyAdapter \<Rightarrow> LegacyAdapter \<times> legacy_result" where
  "legacy_send env event sid encoded a =
     (case encoded of
        Err e \<Rightarrow> (a, Err (LegacyPayload e))
      | Panic \<Rightarrow> (a, Panic)
      | Ok wire \<Rightarrow> writeMonitorText env (monitor_message event (id_data sid wire)) a)"

definition legacy_SendHTTPRequest :: "Env \<Rightarrow> string \<Rightarrow> byte list \<Rightarrow> LegacyAdapter \<Rightarrow> LegacyAdapter \<times> legacy_result" where
  "legacy_SendHTTPRequest env sid data a =
     legacy_send env ''request'' sid (encodeRequestData (en_codec env) data a) a"

definition legacy_SendHTTPResponse :: "Env \<Rightarrow> string \<Rightarrow> byte list \<Rightarrow> LegacyAdapter \<Rightarrow> LegacyAdapter \<times> legacy_result" where
  "legacy_SendHTTPResponse env sid data a =
     legacy_send env ''response'' sid (encodeResponseData (en_codec env) data a) a"

definition legacy_SendTCPData :: "string \<Rightarrow> byte list \<Rightarrow> LegacyAdapter \<Rightarrow> LegacyAdapter \<times> legacy_result" where
  "legacy_SendTCPData sid data a = (a, Err TCPNotSupported)"

definition legacy_SendHTTPRequestHead :: "string \<Rightarrow> byte list \<Rightarrow> bool \<Rightarrow> LegacyAdapter \<Rightarrow> LegacyAdapter \<times> legacy_result" where
  "legacy_SendHTTPRequestHead sid head fin a = (a, Err SemanticHTTPNotSupported)"

definition legacy_SendHTTPRequestBody :: "string \<Rightarrow> byte list \<Rightarrow> bool \<Rightarrow> LegacyAdapter \<Rightarrow> LegacyAdapter \<times> legacy_result" where
  "legacy_SendHTTPRequestBody sid chunk fin a = (a, Err SemanticHTTPNotSupported)"

definition legacy_SendHTTPResponseHead :: "string \<Rightarrow> byte list \<Rightarrow> bool \<Rightarrow> LegacyAdapter \<Rightarrow> LegacyAdapter \<times> legacy_result" where
  "legacy_SendHTTPResponseHead sid head fin a = (a, Err SemanticHTTPNotSupported)"

definition legacy_SendHTTPResponseBody :: "string \<Rightarrow> byte list \<Rightarrow> bool \<Rightarrow> LegacyAdapter \<Rightarrow> LegacyAdapter \<times> legacy_result" where
  "legacy_SendHTTPResponseBody sid chunk fin a = (a, Err SemanticHTTPNotSupported)"

section \<open>Handlers\<close>

definition legacy_OnHTTPRequest :: "handler \<Rightarrow> LegacyAdapter \<Rightarrow> LegacyAdapter" where
  "legacy_OnHTTPRequest h a = a\<lparr>la_httpRequestHandler := Some h\<rparr>"

definition legacy_OnHTTPResponse :: "handler \<Rightarrow> LegacyAdapter \<Rightarrow> LegacyAdapter" where
  "legacy_OnHTTPResponse h a = a\<lparr>la_httpResponseHandler := Some h\<rparr>"

text \<open>The result is the handler's id, which the returned closure removes.\<close>

definition legacy_OnTCPData :: "handler \<Rightarrow> LegacyAdapter \<Rightarrow> nat \<times> LegacyAdapter" where
  "legacy_OnTCPData h a =
     (let i = la_handlerIDCounter a in
      (i, a\<lparr>la_tcpDataHandlers := la_tcpDataHandlers a @ [(i, h)], la_handlerIDCounter := i + 1\<rparr>))"

definition legacy_unsubscribe :: "nat \<Rightarrow> LegacyAdapter \<Rightarrow> LegacyAdapter" where
  "legacy_unsubscribe i a = a\<lparr>la_tcpDataHandlers := filter (\<lambda>(j, h). j \<noteq> i) (la_tcpDataHandlers a)\<rparr>"

definition legacy_NegotiatedFlags :: "LegacyAdapter \<Rightarrow> int" where
  "legacy_NegotiatedFlags a = 0"

section \<open>Properties\<close>

text \<open>What a peer sees of a trace: the text frames.\<close>

definition frames :: "out_event list \<Rightarrow> json list" where
  "frames out = concat (map (\<lambda>ev. case ev of MonitorText j \<Rightarrow> [j] | _ \<Rightarrow> []) out)"

fun deliver :: "Codec \<Rightarrow> json \<Rightarrow> LegacyAdapter \<Rightarrow> LegacyAdapter" where
  "deliver k (JArr [JStr event, payload]) a = HandleEvent k event payload a"
| "deliver k _ a = a"

text \<open>
  The condition under which the two encodings can be told apart: an uncompressed message must look
  like HTTP, a compressed one must not.
\<close>

definition recognisable :: "Codec \<Rightarrow> bool \<Rightarrow> byte list \<Rightarrow> bool" where
  "recognisable k compressed raw =
     (if compressed then
        (case brotli_compress k (str_bytes (base64Encode raw)) of None \<Rightarrow> False | Some y \<Rightarrow> \<not> looksLikeRawHTTP y)
      else looksLikeRawHTTP raw)"

lemma base64_wire_nonempty: "raw \<noteq> [] \<Longrightarrow> base64Encode raw \<noteq> ''''"
proof
  assume "raw \<noteq> []" and empty: "base64Encode raw = ''''"
  have "base64Decode (base64Encode raw) = Some raw" by simp
  moreover have "base64Decode '''' = Some []" by code_simp
  ultimately show False using \<open>raw \<noteq> []\<close> empty by simp
qed

lemma recognisable_wire:
  assumes "codec_ok k" "recognisable k (la_useCompressedOuter a) raw"
  shows "\<exists>wire. encodeRequestData k raw a = Ok wire \<and> encodeResponseData k raw a = Ok wire \<and> wire \<noteq> ''''
    \<and> DecodePayload k wire = Ok raw"
proof (cases "la_useCompressedOuter a")
  case True
  with assms(2) obtain y where y: "brotli_compress k (str_bytes (base64Encode raw)) = Some y" "\<not> looksLikeRawHTTP y"
    by (auto simp: recognisable_def split: option.splits)
  with codec_okD(1) [OF assms(1) y(1)] True show ?thesis
    by (auto simp: encodeRequestData_def encodeResponseData_def EncodeOuter_def compressBrotli_def DecodePayload_def
        decompressBrotli_def base64_wire_nonempty)
next
  case False
  with assms(2) have "looksLikeRawHTTP raw" by (simp add: recognisable_def)
  then have "raw \<noteq> []" by (auto simp: looksLikeRawHTTP_def)
  with False \<open>looksLikeRawHTTP raw\<close> show ?thesis
    by (simp add: encodeRequestData_def encodeResponseData_def DecodePayload_def base64_wire_nonempty)
qed

text \<open>Over the legacy protocol a request and its response arrive as they were sent, whichever encoding
  the peer's version selects: the server's adapter writes one \<open>request\<close> frame, on which the client's adapter
  calls its request handler once with the same id and bytes, and the same holds for responses from client to
  server; a frame delivered to the end that sent it is ignored, and stream data is always refused. (The codec decompresses what it
  compressed, writes succeed, an uncompressed message looks like HTTP and a compressed one does not.)\<close>

theorem legacy_messages_arrive:
  assumes "codec_ok (en_codec env)" "writes_ok env" "sid \<noteq> ''''"
    and "recognisable (en_codec env) (la_useCompressedOuter a) raw"
    and "la_isClient client" "la_httpRequestHandler client = Some h"
    and "\<not> la_isClient server" "la_httpResponseHandler server = Some h'"
  shows "\<exists>wire.
      legacy_SendHTTPRequest env sid raw a
        = (legacy_emit (MonitorText (monitor_message ''request'' (id_data sid wire))) a, Ok ())
    \<and> legacy_SendHTTPResponse env sid raw a
        = (legacy_emit (MonitorText (monitor_message ''response'' (id_data sid wire))) a, Ok ())
    \<and> deliver (en_codec env) (monitor_message ''request'' (id_data sid wire)) client
        = legacy_emit (HandledRequest sid raw) client
    \<and> deliver (en_codec env) (monitor_message ''response'' (id_data sid wire)) server
        = legacy_emit (HandledResponse sid raw) server
    \<and> deliver (en_codec env) (monitor_message ''request'' (id_data sid wire)) server = server
    \<and> deliver (en_codec env) (monitor_message ''response'' (id_data sid wire)) client = client
    \<and> legacy_SendTCPData sid raw a = (a, Err TCPNotSupported)"
proof -
  from recognisable_wire [OF assms(1,4)] obtain wire where wire: "encodeRequestData (en_codec env) raw a = Ok wire"
    "encodeResponseData (en_codec env) raw a = Ok wire" "wire \<noteq> ''''" "DecodePayload (en_codec env) wire = Ok raw"
    by blast
  with assms show ?thesis
    by (intro exI [of _ wire])
      (simp add: legacy_SendHTTPRequest_def legacy_SendHTTPResponse_def legacy_send_def writeMonitorText_def writes_ok_def
        monitor_message_def HandleEvent_def handleEvent_def handle_payload_def decodeRequestData_def decodeResponseData_def
        id_data_def legacy_SendTCPData_def)
qed

definition legacy_client :: LegacyAdapter where
  "legacy_client = legacy_OnHTTPRequest (\<lambda>i d. None) (NewLegacyProtocolAdapter True)"

definition legacy_server :: LegacyAdapter where
  "legacy_server = legacy_OnHTTPResponse (\<lambda>i d. None) (SetLegacyPeerVersion ''1.2.9'' (NewLegacyProtocolAdapter False))"

lemma legacy_messages_arrive_witness:
  "\<exists>wire. deliver marking_codec (monitor_message ''request'' (id_data ''c:r'' wire)) legacy_client
     = legacy_emit (HandledRequest ''c:r'' [71, 69, 84, 32]) legacy_client"
proof -
  have env: "en_codec calm = marking_codec" by (simp add: calm_def)
  have http: "recognisable (en_codec calm) (la_useCompressedOuter legacy_server) [71, 69, 84, 32]"
    unfolding env by code_simp
  have ends: "la_isClient legacy_client" "la_httpRequestHandler legacy_client = Some (\<lambda>i d. None)"
    "\<not> la_isClient legacy_server" "la_httpResponseHandler legacy_server = Some (\<lambda>i d. None)"
    by (simp_all add: legacy_client_def legacy_server_def legacy_OnHTTPRequest_def legacy_OnHTTPResponse_def
        NewLegacyProtocolAdapter_def SetLegacyPeerVersion_def)
  show ?thesis
    using legacy_messages_arrive [OF calm_facts(1,2) _ http ends, of "''c:r''"] unfolding env by auto
qed

end
