(* ===== verification/GoLib.thy ===== *)
theory GoLib
  imports NegotiationLaws
begin

text \<open>
  The functions of Go's \<open>time\<close>, \<open>net\<close> and \<open>path/filepath\<close> packages that the configuration and
  the monitor call: \<open>ParseDuration\<close>, \<open>SplitHostPort\<close>, \<open>JoinHostPort\<close>, and the path
  functions for a slash-separated file system. Durations are nanoseconds.
\<close>

section \<open>Durations\<close>

definition nanosecond :: int where "nanosecond = 1"
definition second_ns :: int where "second_ns = 10 ^ 9"

definition duration_unit :: "string \<Rightarrow> int option" where
  "duration_unit u =
     (if u = ''ns'' then Some 1
      else if u = ''us'' \<or> u = [CHR 0xC2, CHR 0xB5] @ ''s'' \<or> u = [CHR 0xCE, CHR 0xBC] @ ''s'' then Some (10 ^ 3)
      else if u = ''ms'' then Some (10 ^ 6) else if u = ''s'' then Some (10 ^ 9)
      else if u = ''m'' then Some (60 * 10 ^ 9) else if u = ''h'' then Some (3600 * 10 ^ 9) else None)"

text \<open>
  The loop of \<open>time.ParseDuration\<close>: a number, an optional fraction, a unit, and so on. A fraction
  is computed exactly (the library rounds through \<open>float64\<close>).
\<close>

function duration_loop :: "string \<Rightarrow> int \<Rightarrow> int option" where
  "duration_loop s d =
     (if s = '''' then Some d
      else
        let whole = takeWhile is_digit s;
            s1 = dropWhile is_digit s;
            dot = (s1 \<noteq> '''' \<and> hd s1 = CHR ''.'');
            frac = (if dot then takeWhile is_digit (tl s1) else '''');
            s2 = (if dot then dropWhile is_digit (tl s1) else s1);
            u = takeWhile (\<lambda>c. c \<noteq> CHR ''.'' \<and> \<not> is_digit c) s2;
            s3 = dropWhile (\<lambda>c. c \<noteq> CHR ''.'' \<and> \<not> is_digit c) s2
        in if (whole = '''' \<and> frac = '''') \<or> u = '''' \<or> digits_value whole > 2 ^ 63 then None
           else
             case duration_unit u of
               None \<Rightarrow> None
             | Some unit \<Rightarrow>
                 let v = digits_value whole * unit + digits_value frac * unit div 10 ^ length frac
                 in if v > 2 ^ 63 \<or> d + v > 2 ^ 63 then None else duration_loop s3 (d + v))"
  by pat_completeness auto
termination
proof (relation "measure (\<lambda>(s, d). length s)", goal_cases)
  case (2 s d whole s1 dot frac s2 u s3 unit v)
  have "length s1 \<le> length s" using 2(3) by (simp add: length_dropWhile_le)
  moreover have "length s2 \<le> length s1"
  proof (cases dot)
    case True
    then show ?thesis using 2(6) length_dropWhile_le [of is_digit "tl s1"] by simp
  qed (use 2(6) in simp)
  moreover have "length s3 < length s2"
  proof -
    have "length u + length s3 = length s2" using 2(7,8) by (metis length_append takeWhile_dropWhile_id)
    moreover have "u \<noteq> ''''" using 2(9) by simp
    ultimately show ?thesis by (cases u) auto
  qed
  ultimately show ?case by simp
qed auto

declare duration_loop.simps [simp del]

definition ParseDuration :: "string \<Rightarrow> int option" where
  "ParseDuration s0 =
     (let (neg, s) = (case s0 of c # cs \<Rightarrow> if c = CHR ''-'' then (True, cs) else if c = CHR ''+'' then (False, cs) else (False, s0)
                      | [] \<Rightarrow> (False, []))
      in if s = ''0'' then Some 0
         else if s = '''' then None
         else case duration_loop s 0 of
           None \<Rightarrow> None
         | Some d \<Rightarrow> if neg then Some (- d) else if d > 2 ^ 63 - 1 then None else Some d)"

section \<open>Hosts and ports\<close>

text \<open>The position of the last occurrence of a character.\<close>

definition last_index :: "char \<Rightarrow> string \<Rightarrow> nat option" where
  "last_index c s = (if c \<in> set s then Some (length s - 1 - length (takeWhile (\<lambda>x. x \<noteq> c) (rev s))) else None)"

definition index_of :: "char \<Rightarrow> string \<Rightarrow> nat option" where
  "index_of c s = (if c \<in> set s then Some (length (takeWhile (\<lambda>x. x \<noteq> c) s)) else None)"

definition SplitHostPort :: "string \<Rightarrow> (string \<times> string) option" where
  "SplitHostPort hostport =
     (case last_index CHR '':'' hostport of
        None \<Rightarrow> None
      | Some i \<Rightarrow>
          let port = drop (i + 1) hostport in
          if hd hostport = CHR ''['' then
            (case index_of CHR '']'' hostport of
               None \<Rightarrow> None
             | Some e \<Rightarrow>
                 if e + 1 \<noteq> i \<or> CHR ''['' \<in> set (drop 1 hostport) \<or> CHR '']'' \<in> set (drop (e + 1) hostport) then None
                 else Some (drop 1 (take e hostport), port))
          else
            let host = take i hostport in
            if CHR '':'' \<in> set host \<or> CHR ''['' \<in> set hostport \<or> CHR '']'' \<in> set hostport then None
            else Some (host, port))"

definition JoinHostPort :: "string \<Rightarrow> string \<Rightarrow> string" where
  "JoinHostPort host port =
     (if CHR '':'' \<in> set host then ''['' @ host @ '']:'' @ port else host @ '':'' @ port)"

section \<open>File paths\<close>

fun clean_elems :: "bool \<Rightarrow> string list \<Rightarrow> string list \<Rightarrow> string list" where
  "clean_elems rooted acc [] = rev acc"
| "clean_elems rooted acc (e # es) =
     (if e = '''' \<or> e = ''.'' then clean_elems rooted acc es
      else if e = ''..'' then
        (case acc of
           a # as \<Rightarrow> if a \<noteq> ''..'' then clean_elems rooted as es else clean_elems rooted (e # acc) es
         | [] \<Rightarrow> if rooted then clean_elems rooted [] es else clean_elems rooted [e] es)
      else clean_elems rooted (e # acc) es)"

definition path_IsAbs :: "string \<Rightarrow> bool" where
  "path_IsAbs p \<longleftrightarrow> HasPrefix p ''/''"

definition path_Clean :: "string \<Rightarrow> string" where
  "path_Clean p =
     (let rooted = path_IsAbs p; body = Join (clean_elems rooted [] (Split p CHR ''/'')) ''/''
      in if rooted then ''/'' @ body else if body = '''' then ''.'' else body)"

definition path_Join :: "string \<Rightarrow> string \<Rightarrow> string" where
  "path_Join a b =
     (if a = '''' \<and> b = '''' then '''' else if a = '''' then path_Clean b
      else if b = '''' then path_Clean a else path_Clean (a @ ''/'' @ b))"

definition path_Dir :: "string \<Rightarrow> string" where
  "path_Dir p = path_Clean (case last_index CHR ''/'' p of None \<Rightarrow> '''' | Some i \<Rightarrow> take (i + 1) p)"

section \<open>Facts\<close>

lemma last_index_append: "c \<notin> set t \<Longrightarrow> last_index c (s @ c # t) = Some (length s)"
  by (simp add: last_index_def takeWhile_append)

lemma split_join_host_port:
  assumes "CHR ''['' \<notin> set host" "CHR '']'' \<notin> set host"
    and "CHR '':'' \<notin> set port" "CHR ''['' \<notin> set port" "CHR '']'' \<notin> set port"
  shows "SplitHostPort (JoinHostPort host port) = Some (host, port)"
proof (cases "CHR '':'' \<in> set host")
  case True
  have last: "last_index CHR '':'' (''['' @ host @ '']:'' @ port) = Some (length host + 2)"
    using last_index_append [of "CHR '':''" port "''['' @ host @ '']''"] assms(3) by simp
  have idx: "index_of CHR '']'' (''['' @ host @ '']:'' @ port) = Some (length host + 1)"
    using assms(2) by (simp add: index_of_def takeWhile_append)
  from True last idx assms show ?thesis
    by (simp add: SplitHostPort_def JoinHostPort_def Let_def)
next
  case False
  have last: "last_index CHR '':'' (host @ '':'' @ port) = Some (length host)"
    using last_index_append [of "CHR '':''" port host] assms(3) by simp
  have "hd (host @ '':'' @ port) \<noteq> CHR ''[''" using assms(1) by (cases host) auto
  with False last assms show ?thesis
    by (simp add: SplitHostPort_def JoinHostPort_def Let_def)
qed

end
