(* ===== verification/Config.thy ===== *)
theory Config
  imports ClientTypes GoLib Limiter "HOL-Library.AList"
begin

text \<open>
  The server's configuration, \<^verbatim>\<open>internal/server/config/\<close>: the document (\<^verbatim>\<open>types.go\<close>), its
  validation (\<^verbatim>\<open>validate.go\<close>), the admin settings (\<^verbatim>\<open>admin.go\<close>), the secrets it provides
  (\<^verbatim>\<open>token.go\<close>, \<^verbatim>\<open>ref.go\<close>), reloading (\<^verbatim>\<open>load.go\<close>, \<^verbatim>\<open>reload.go\<close>) and saving (\<^verbatim>\<open>save.go\<close>).
  The YAML codec is a third-party package and a parameter. The file system is a map from paths to
  contents together with the outcome of each system call.
\<close>

section \<open>The document\<close>

record PublicHTTPNoAuthConfig =
  pn_Timeout :: string
  pn_WarnLead :: string

record ClientConfig =
  cc_ClientID :: string
  cc_ClientSecret :: string
  cc_Config :: "Config option"
  cc_BandwidthLimit :: "BandwidthLimit option"
  cc_Tunnels :: "TunnelSpec list"

text \<open>A nil map \<open>Clients\<close> is \<open>None\<close>: unlike an empty one it is not shared with the limiter.\<close>

record BandwidthLimitsConfig =
  bl_Global :: "BandwidthLimit option"
  bl_Clients :: "(string \<times> BandwidthLimit option) list option"

record AdminConfig =
  ad_Enabled :: bool
  ad_Listen :: string
  ad_DatabasePath :: string
  ad_PidFile :: string
  ad_SnapshotInterval :: string
  ad_UIBasePath :: string

record FileConfig =
  fc_Domain :: string
  fc_Port :: int
  fc_TCPPort :: int
  fc_Secure :: "bool option"
  fc_Token :: string
  fc_Clients :: "ClientConfig list"
  fc_Notification :: "NotificationConfig option"
  fc_BandwidthLimits :: "BandwidthLimitsConfig option"
  fc_PublicHTTPNoAuth :: "PublicHTTPNoAuthConfig option"
  fc_Admin :: "AdminConfig option"

record ResolvedAdmin =
  ra_Enabled :: bool
  ra_Host :: string
  ra_Port :: int
  ra_DatabasePath :: string
  ra_PidFile :: string
  ra_SnapshotInterval :: int
  ra_UIBasePath :: string

definition SameListen :: "ResolvedAdmin option \<Rightarrow> ResolvedAdmin option \<Rightarrow> bool" where
  "SameListen r other =
     (case (r, other) of
        (Some a, Some b) \<Rightarrow> ra_Host a = ra_Host b \<and> ra_Port a = ra_Port b \<and> ra_UIBasePath a = ra_UIBasePath b
      | (None, None) \<Rightarrow> True | _ \<Rightarrow> False)"

section \<open>Admin settings\<close>

datatype config_error =
    InvalidListen string | InvalidListenPort | InvalidSnapshotInterval | PathRequired | NilConfig
  | ReadFailed | ParseFailed | MarshalFailed | MkdirFailed | WriteTempFailed | RenameFailed
  | PathNotSet | ApplyFailed string

text \<open>
  \<open>net.LookupPort\<close>: numbers, with an optional sign; any other service name is looked up by the
  operating system, the parameter \<open>services\<close>.
\<close>

definition LookupPort :: "(string \<Rightarrow> int option) \<Rightarrow> string \<Rightarrow> int option" where
  "LookupPort services service =
     (let (neg, s) = (case service of c # cs \<Rightarrow> if c = CHR ''-'' then (True, cs) else if c = CHR ''+'' then (False, cs)
                        else (False, service) | [] \<Rightarrow> (False, []))
      in case (if list_all is_digit s then Some (if neg then - digits_value s else digits_value s) else services service) of
           None \<Rightarrow> None
         | Some n \<Rightarrow> if 0 \<le> n \<and> n \<le> 65535 then Some n else None)"

definition parseListen :: "(string \<Rightarrow> int option) \<Rightarrow> string \<Rightarrow> (config_error, string \<times> int) outcome" where
  "parseListen services listen =
     (let v = TrimSpace listen;
          v = (if v = '''' then ''127.0.0.1:9090'' else v);
          v = (if CHR '':'' \<notin> set v then '':'' @ v else v)
      in case SplitHostPort v of
           None \<Rightarrow> Err (InvalidListen listen)
         | Some (h, p) \<Rightarrow>
             (case LookupPort services p of
                None \<Rightarrow> Err InvalidListenPort
              | Some portNum \<Rightarrow> Ok (if h = '''' then ''0.0.0.0'' else h, portNum)))"

text \<open>The directory of the configuration file; \<open>wd\<close> is the working directory.\<close>

definition config_Dir :: "string \<Rightarrow> string \<Rightarrow> string" where
  "config_Dir wd configPath = (if configPath = '''' then wd else path_Dir configPath)"

definition absolute_in :: "string \<Rightarrow> string \<Rightarrow> string" where
  "absolute_in dir p = (if path_IsAbs p then p else path_Join dir p)"

definition snapshot_interval :: "string \<Rightarrow> (config_error, int) outcome" where
  "snapshot_interval s =
     (if TrimSpace s = '''' then Ok (60 * second_ns)
      else case ParseDuration (TrimSpace s) of
        None \<Rightarrow> Err InvalidSnapshotInterval
      | Some d \<Rightarrow> Ok (if d > 0 then d else 60 * second_ns))"

definition ResolveAdmin ::
    "(string \<Rightarrow> int option) \<Rightarrow> string \<Rightarrow> FileConfig option \<Rightarrow> string \<Rightarrow> (config_error, ResolvedAdmin option) outcome" where
  "ResolveAdmin services wd cfg configPath =
     (case cfg of None \<Rightarrow> Ok None | Some c \<Rightarrow>
      (case fc_Admin c of None \<Rightarrow> Ok None | Some a \<Rightarrow>
       (if \<not> ad_Enabled a then Ok None else
        obind (parseListen services (ad_Listen a)) (\<lambda>(host, port).
          let dbPath = TrimSpace (ad_DatabasePath a);
              dbPath = absolute_in (config_Dir wd configPath) (if dbPath = '''' then ''data/admin.db'' else dbPath);
              pid = TrimSpace (ad_PidFile a);
              pidFile = (if pid = '''' then configPath @ ''.pid'' else absolute_in (config_Dir wd configPath) pid)
          in obind (snapshot_interval (ad_SnapshotInterval a)) (\<lambda>snap.
            let base = TrimSpace (ad_UIBasePath a);
                base = (if base = '''' then ''/'' else base);
                base = (if HasPrefix base ''/'' then base else ''/'' @ base)
            in Ok (Some \<lparr>ra_Enabled = True, ra_Host = host, ra_Port = port, ra_DatabasePath = dbPath,
                 ra_PidFile = pidFile, ra_SnapshotInterval = snap, ra_UIBasePath = base\<rparr>))))))"

section \<open>Validation\<close>

datatype problem =
    ConfigIsNil | IsRequired | PortOutOfRange | ClientsRequired | DuplicatesClient nat
  | MustBeHttpOrTcp | InvalidDuration | InvalidAdmin config_error

record ValidationError =
  ve_Path :: string
  ve_Message :: problem

definition verr :: "string \<Rightarrow> problem \<Rightarrow> ValidationError" where
  "verr path p = \<lparr>ve_Path = path, ve_Message = p\<rparr>"

definition validate_tunnel :: "string \<Rightarrow> nat \<Rightarrow> TunnelSpec \<Rightarrow> ValidationError list" where
  "validate_tunnel base j t =
     (let tpath = base @ ''.tunnels['' @ decimal j @ '']'' in
      (if ts_Type t = ''http'' \<or> ts_Type t = ''tcp'' then [] else [verr (tpath @ ''.type'') MustBeHttpOrTcp])
      @ (if TrimSpace (ts_Upstream t) = '''' then [verr (tpath @ ''.upstream'') IsRequired] else []))"

fun validate_tunnels :: "string \<Rightarrow> nat \<Rightarrow> TunnelSpec list \<Rightarrow> ValidationError list" where
  "validate_tunnels base j [] = []"
| "validate_tunnels base j (t # ts) = validate_tunnel base j t @ validate_tunnels base (j + 1) ts"

text \<open>\<open>seen\<close> maps each client id to the index of its last occurrence so far.\<close>

fun validate_clients :: "(string \<Rightarrow> nat option) \<Rightarrow> nat \<Rightarrow> ClientConfig list \<Rightarrow> ValidationError list" where
  "validate_clients seen i [] = []"
| "validate_clients seen i (c # cs) =
     (let base = ''clients['' @ decimal i @ '']'';
          blank = TrimSpace (cc_ClientID c) = '''' in
      (if blank then [verr (base @ ''.clientId'') IsRequired]
       else case seen (cc_ClientID c) of
         Some prev \<Rightarrow> [verr (base @ ''.clientId'') (DuplicatesClient prev)] | None \<Rightarrow> [])
      @ (if TrimSpace (cc_ClientSecret c) = '''' then [verr (base @ ''.clientSecret'') IsRequired] else [])
      @ validate_tunnels base 0 (cc_Tunnels c)
      @ validate_clients (if blank then seen else seen(cc_ClientID c \<mapsto> i)) (i + 1) cs)"

definition validate_duration :: "string \<Rightarrow> string \<Rightarrow> ValidationError list" where
  "validate_duration path s =
     (if TrimSpace s \<noteq> '''' \<and> ParseDuration (TrimSpace s) = None then [verr path InvalidDuration] else [])"

definition validate_public :: "PublicHTTPNoAuthConfig option \<Rightarrow> ValidationError list" where
  "validate_public p =
     (case p of None \<Rightarrow> []
      | Some p \<Rightarrow> validate_duration ''publicHTTPNoAuth.timeout'' (pn_Timeout p)
          @ validate_duration ''publicHTTPNoAuth.warnLead'' (pn_WarnLead p))"

definition validate_port :: "string \<Rightarrow> int \<Rightarrow> ValidationError list" where
  "validate_port path p = (if p < 0 \<or> p > 65535 then [verr path PortOutOfRange] else [])"

definition ValidateWithDetails ::
    "(string \<Rightarrow> int option) \<Rightarrow> string \<Rightarrow> FileConfig option \<Rightarrow> ValidationError list" where
  "ValidateWithDetails services wd cfg =
     (case cfg of None \<Rightarrow> [verr '''' ConfigIsNil]
      | Some c \<Rightarrow>
          (if TrimSpace (fc_Domain c) = '''' then [verr ''domain'' IsRequired] else [])
          @ validate_port ''port'' (fc_Port c)
          @ validate_port ''tcpPort'' (fc_TCPPort c)
          @ (if fc_Clients c = [] then [verr ''clients'' ClientsRequired] else [])
          @ validate_clients Map.empty 0 (fc_Clients c)
          @ validate_public (fc_PublicHTTPNoAuth c)
          @ (case fc_Admin c of
               Some a \<Rightarrow> if ad_Enabled a then
                   (case ResolveAdmin services wd (Some c) '''' of Err e \<Rightarrow> [verr ''admin'' (InvalidAdmin e)] | _ \<Rightarrow> [])
                 else []
             | None \<Rightarrow> []))"

text \<open>\<open>Validate\<close> joins the errors; nil when there is none.\<close>

definition Validate :: "(string \<Rightarrow> int option) \<Rightarrow> string \<Rightarrow> FileConfig option \<Rightarrow> ValidationError list option" where
  "Validate services wd cfg =
     (let details = ValidateWithDetails services wd cfg in if details = [] then None else Some details)"

section \<open>Secrets\<close>

record TokenResponse =
  tr_AuthType :: string
  tr_Token :: string
  tr_Config :: "Config option"

datatype token_error = PublicOnlyForHttp | ConfigRequired | ClientNotFound string | TokenRequired

record GetTokenOptions =
  go_Type :: string
  go_OpaqueChild :: bool

fun find_client :: "string \<Rightarrow> ClientConfig list \<Rightarrow> ClientConfig option" where
  "find_client i [] = None"
| "find_client i (c # cs) = (if cc_ClientID c = i then Some c else find_client i cs)"

definition has_edge_auth :: "TunnelSpec \<Rightarrow> bool" where
  "has_edge_auth t \<longleftrightarrow>
     (case ts_Auth t of Some a \<Rightarrow> au_Enable a \<and> au_Users a \<noteq> [] | None \<Rightarrow> False) \<or> ts_Auths t \<noteq> []"

definition collectHTTPAuthTunnels :: "ClientConfig list \<Rightarrow> TunnelSpec list" where
  "collectHTTPAuthTunnels clients =
     filter (\<lambda>t. EqualFold (TrimSpace (ts_Type t)) ''http'' \<and> has_edge_auth t) (concat (map cc_Tunnels clients))"

definition client_config :: "string \<Rightarrow> ClientConfig \<Rightarrow> Config" where
  "client_config serverVersion c =
     (let base = (case cc_Config c of
            Some k \<Rightarrow> \<lparr>cf_Version = (if cf_Version k = '''' then serverVersion else cf_Version k),
                cf_Notification = cf_Notification k, cf_NegotiatedCapabilities = cf_NegotiatedCapabilities k,
                cf_Tunnels = []\<rparr>
          | None \<Rightarrow> \<lparr>cf_Version = serverVersion, cf_Notification = None, cf_NegotiatedCapabilities = None,
                cf_Tunnels = []\<rparr>)
      in if cc_Tunnels c \<noteq> [] then base\<lparr>cf_Tunnels := cc_Tunnels c\<rparr> else base)"

text \<open>The closure of \<open>CreateGetToken\<close>: \<open>cfg\<close> is what the reference holds when it is called.\<close>

definition CreateGetToken ::
    "FileConfig option \<Rightarrow> string \<Rightarrow> string \<Rightarrow> string \<Rightarrow> GetTokenOptions option \<Rightarrow> (token_error, TokenResponse) outcome" where
  "CreateGetToken cfg serverVersion authType clientId options =
     (if authType = ''public'' then
        (case options of
           Some op \<Rightarrow> if go_Type op \<noteq> ''http'' then Err PublicOnlyForHttp
             else Ok \<lparr>tr_AuthType = ''public'', tr_Token = ''public'', tr_Config = None\<rparr>
         | None \<Rightarrow> Ok \<lparr>tr_AuthType = ''public'', tr_Token = ''public'', tr_Config = None\<rparr>)
      else case cfg of
        None \<Rightarrow> Err ConfigRequired
      | Some c \<Rightarrow>
          if authType = ''credentials'' then
            (case find_client clientId (fc_Clients c) of
               None \<Rightarrow> Err (ClientNotFound clientId)
             | Some k \<Rightarrow> Ok \<lparr>tr_AuthType = ''credentials'', tr_Token = cc_ClientSecret k,
                 tr_Config = Some (client_config serverVersion k)\<rparr>)
          else if fc_Token c = '''' then Err TokenRequired
          else Ok \<lparr>tr_AuthType = ''token'', tr_Token = fc_Token c,
            tr_Config = Some \<lparr>cf_Version = serverVersion, cf_Notification = None, cf_NegotiatedCapabilities = None,
              cf_Tunnels = collectHTTPAuthTunnels (fc_Clients c)\<rparr>\<rparr>)"

section \<open>Runtime options\<close>

definition parse_timing :: "string \<Rightarrow> int" where
  "parse_timing s =
     (if TrimSpace s = '''' then 0 else case ParseDuration (TrimSpace s) of None \<Rightarrow> 0 | Some d \<Rightarrow> d)"

definition ResolvePublicHTTPNoAuthTiming :: "FileConfig option \<Rightarrow> int \<times> int" where
  "ResolvePublicHTTPNoAuthTiming cfg =
     (case cfg of None \<Rightarrow> (0, 0) | Some c \<Rightarrow>
      (case fc_PublicHTTPNoAuth c of None \<Rightarrow> (0, 0)
       | Some p \<Rightarrow> (parse_timing (pn_Timeout p), parse_timing (pn_WarnLead p))))"

text \<open>
  \<open>BuildBandwidthLimits\<close> puts the clients' own limits into \<open>out.ByClientId\<close>. When the document has a
  map \<open>bandwidthLimits.clients\<close>, that very map is used, so the document changes too: the result
  is the document after the call, with the limits.
\<close>

definition client_limits :: "ClientConfig list \<Rightarrow> (string \<times> BandwidthLimit option) list \<Rightarrow> (string \<times> BandwidthLimit option) list" where
  "client_limits clients m =
     foldl (\<lambda>m c. case cc_BandwidthLimit c of None \<Rightarrow> m | Some l \<Rightarrow> AList.update (cc_ClientID c) (Some l) m) m clients"

definition BuildBandwidthLimits :: "FileConfig option \<Rightarrow> FileConfig option \<times> ClientBandwidthLimits option" where
  "BuildBandwidthLimits cfg =
     (case cfg of None \<Rightarrow> (None, None)
      | Some c \<Rightarrow>
          let shared = (case fc_BandwidthLimits c of None \<Rightarrow> None | Some b \<Rightarrow> bl_Clients b);
              global = (case fc_BandwidthLimits c of None \<Rightarrow> None | Some b \<Rightarrow> bl_Global b);
              m = client_limits (fc_Clients c) (case shared of None \<Rightarrow> [] | Some m \<Rightarrow> m);
              c' = (case (shared, fc_BandwidthLimits c) of
                  (Some _, Some b) \<Rightarrow> c\<lparr>fc_BandwidthLimits := Some (b\<lparr>bl_Clients := Some m\<rparr>)\<rparr> | _ \<Rightarrow> c)
          in (Some c', if global = None \<and> m = [] then None else Some \<lparr>ByClientId = m, Global = global\<rparr>))"

section \<open>Loading and saving\<close>

type_synonym files = "string \<Rightarrow> byte list option"

text \<open>
  What the system calls of a save do: \<open>os.WriteFile\<close> truncates before it writes, so a failed
  write leaves either the old file (it could not be opened) or a prefix of the data.
\<close>

datatype write_outcome = WroteAll | OpenFailed | WroteOnly nat

record OsCalls =
  os_MkdirAll :: bool
  os_WriteTmp :: write_outcome
  os_Rename :: bool
  os_WriteDest :: write_outcome
  os_Remove :: bool

record Yaml =
  yaml_Marshal :: "FileConfig \<Rightarrow> byte list option"
  yaml_Unmarshal :: "byte list \<Rightarrow> FileConfig option"

definition write_file :: "write_outcome \<Rightarrow> string \<Rightarrow> byte list \<Rightarrow> files \<Rightarrow> files \<times> bool" where
  "write_file w path data fs =
     (case w of
        WroteAll \<Rightarrow> (fs(path \<mapsto> data), True)
      | OpenFailed \<Rightarrow> (fs, False)
      | WroteOnly n \<Rightarrow> (fs(path \<mapsto> take n data), False))"

definition remove_file :: "bool \<Rightarrow> string \<Rightarrow> files \<Rightarrow> files" where
  "remove_file ok path fs = (if ok then fs(path := None) else fs)"

definition writeFileAtomic :: "OsCalls \<Rightarrow> string \<Rightarrow> byte list \<Rightarrow> files \<Rightarrow> files \<times> (config_error, unit) outcome" where
  "writeFileAtomic os path data fs =
     (if \<not> os_MkdirAll os then (fs, Err MkdirFailed)
      else
        let tmp = path @ ''.tmp''; (fs, wrote) = write_file (os_WriteTmp os) tmp data fs in
        if \<not> wrote then (fs, Err WriteTempFailed)
        else if os_Rename os then (fs(path := fs tmp, tmp := None), Ok ())
        else
          let (fs, wrote) = write_file (os_WriteDest os) path data fs in
          if \<not> wrote then (remove_file (os_Remove os) tmp fs, Err RenameFailed)
          else (remove_file (os_Remove os) tmp fs, Ok ()))"

datatype save_error = SaveError config_error | SaveInvalid "ValidationError list"

definition save_result :: "files \<times> (config_error, unit) outcome \<Rightarrow> files \<times> (save_error, unit) outcome" where
  "save_result r = (fst r, case snd r of Ok u \<Rightarrow> Ok u | Err e \<Rightarrow> Err (SaveError e) | Panic \<Rightarrow> Panic)"

definition SaveAtomic ::
    "Yaml \<Rightarrow> (string \<Rightarrow> int option) \<Rightarrow> string \<Rightarrow> OsCalls \<Rightarrow> string \<Rightarrow> FileConfig option \<Rightarrow> files
       \<Rightarrow> files \<times> (save_error, unit) outcome" where
  "SaveAtomic y services wd os path cfg fs =
     (if path = '''' then (fs, Err (SaveError PathRequired))
      else case cfg of None \<Rightarrow> (fs, Err (SaveError NilConfig))
      | Some c \<Rightarrow>
          (case Validate services wd cfg of
             Some errs \<Rightarrow> (fs, Err (SaveInvalid errs))
           | None \<Rightarrow>
               (case yaml_Marshal y c of
                  None \<Rightarrow> (fs, Err (SaveError MarshalFailed))
                | Some data \<Rightarrow> save_result (writeFileAtomic os path data fs))))"

definition SaveRawAtomic ::
    "Yaml \<Rightarrow> (string \<Rightarrow> int option) \<Rightarrow> string \<Rightarrow> OsCalls \<Rightarrow> string \<Rightarrow> byte list \<Rightarrow> files
       \<Rightarrow> files \<times> (save_error, unit) outcome" where
  "SaveRawAtomic y services wd os path raw fs =
     (if path = '''' then (fs, Err (SaveError PathRequired))
      else case yaml_Unmarshal y raw of None \<Rightarrow> (fs, Err (SaveError ParseFailed))
      | Some c \<Rightarrow>
          (case Validate services wd (Some c) of
             Some errs \<Rightarrow> (fs, Err (SaveInvalid errs))
           | None \<Rightarrow> save_result (writeFileAtomic os path raw fs)))"

definition Load :: "Yaml \<Rightarrow> string \<Rightarrow> files \<Rightarrow> (config_error, FileConfig) outcome" where
  "Load y path fs =
     (if path = '''' then Err PathRequired
      else case fs path of None \<Rightarrow> Err ReadFailed
      | Some data \<Rightarrow> (case yaml_Unmarshal y data of None \<Rightarrow> Err ParseFailed | Some c \<Rightarrow> Ok c))"

text \<open>
  \<open>Manager.Reload\<close>: the state is what \<open>ref\<close> holds; \<open>apply\<close>, when there is one, may fail after
  the reference has been replaced.
\<close>

definition Reload ::
    "Yaml \<Rightarrow> (string \<Rightarrow> int option) \<Rightarrow> string \<Rightarrow> string \<Rightarrow> (FileConfig \<Rightarrow> string option) option \<Rightarrow> files
       \<Rightarrow> FileConfig option \<Rightarrow> FileConfig option \<times> (save_error, unit) outcome" where
  "Reload y services wd path apply fs ref =
     (if path = '''' then (ref, Err (SaveError PathNotSet))
      else case Load y path fs of
        Err e \<Rightarrow> (ref, Err (SaveError e))
      | Panic \<Rightarrow> (ref, Panic)
      | Ok cfg \<Rightarrow>
          (case Validate services wd (Some cfg) of
             Some errs \<Rightarrow> (ref, Err (SaveInvalid errs))
           | None \<Rightarrow>
               (case apply of None \<Rightarrow> (Some cfg, Ok ())
                | Some f \<Rightarrow>
                    (case f cfg of None \<Rightarrow> (Some cfg, Ok ()) | Some e \<Rightarrow> (Some cfg, Err (SaveError (ApplyFailed e)))))))"

end
