(* ===== verification/ConfigLaws.thy ===== *)
theory ConfigLaws
  imports Config
begin

text \<open>
  What the configuration component promises: which documents are accepted, that an accepted
  document identifies its clients, and that saving and reloading agree.
\<close>

section \<open>Accepted documents\<close>

definition valid_tunnel :: "TunnelSpec \<Rightarrow> bool" where
  "valid_tunnel t \<longleftrightarrow> ts_Type t \<in> {''http'', ''tcp''} \<and> TrimSpace (ts_Upstream t) \<noteq> ''''"

definition valid_client :: "ClientConfig \<Rightarrow> bool" where
  "valid_client c \<longleftrightarrow> TrimSpace (cc_ClientID c) \<noteq> '''' \<and> TrimSpace (cc_ClientSecret c) \<noteq> ''''
     \<and> list_all valid_tunnel (cc_Tunnels c)"

definition valid_duration :: "string \<Rightarrow> bool" where
  "valid_duration s \<longleftrightarrow> TrimSpace s = '''' \<or> ParseDuration (TrimSpace s) \<noteq> None"

definition valid_config :: "(string \<Rightarrow> int option) \<Rightarrow> string \<Rightarrow> FileConfig \<Rightarrow> bool" where
  "valid_config services wd c \<longleftrightarrow>
     TrimSpace (fc_Domain c) \<noteq> '''' \<and> 0 \<le> fc_Port c \<and> fc_Port c \<le> 65535 \<and> 0 \<le> fc_TCPPort c \<and> fc_TCPPort c \<le> 65535
     \<and> fc_Clients c \<noteq> [] \<and> list_all valid_client (fc_Clients c) \<and> distinct (map cc_ClientID (fc_Clients c))
     \<and> (case fc_PublicHTTPNoAuth c of None \<Rightarrow> True
        | Some p \<Rightarrow> valid_duration (pn_Timeout p) \<and> valid_duration (pn_WarnLead p))
     \<and> (case fc_Admin c of None \<Rightarrow> True
        | Some a \<Rightarrow> if ad_Enabled a then is_Ok (ResolveAdmin services wd (Some c) '''') else True)"

lemma validate_tunnels_nil: "validate_tunnels base j ts = [] \<longleftrightarrow> list_all valid_tunnel ts"
  by (induction ts arbitrary: j) (auto simp: validate_tunnel_def valid_tunnel_def Let_def)

lemma validate_clients_nil:
  "validate_clients seen i cs = [] \<longleftrightarrow>
     list_all valid_client cs \<and> distinct (map cc_ClientID cs) \<and> (\<forall>c \<in> set cs. seen (cc_ClientID c) = None)"
proof (induction cs arbitrary: seen i)
  case (Cons c cs)
  show ?case
  proof (cases "TrimSpace (cc_ClientID c) = ''''")
    case False
    define later where "later = seen(cc_ClientID c \<mapsto> i)"
    have fresh: "(\<forall>d \<in> set cs. later (cc_ClientID d) = None) \<longleftrightarrow>
        cc_ClientID c \<notin> cc_ClientID ` set cs \<and> (\<forall>d \<in> set cs. seen (cc_ClientID d) = None)"
      by (auto simp: later_def image_iff)
    have "validate_clients seen i (c # cs) = [] \<longleftrightarrow> seen (cc_ClientID c) = None
        \<and> TrimSpace (cc_ClientSecret c) \<noteq> '''' \<and> list_all valid_tunnel (cc_Tunnels c)
        \<and> validate_clients later (i + 1) cs = []"
      using False by (simp add: Let_def validate_tunnels_nil later_def split: option.split)
    also have "\<dots> \<longleftrightarrow> list_all valid_client (c # cs) \<and> distinct (map cc_ClientID (c # cs))
        \<and> (\<forall>d \<in> set (c # cs). seen (cc_ClientID d) = None)"
      using False unfolding Cons [of later "i + 1"] fresh valid_client_def by auto
    finally show ?thesis .
  qed (simp add: valid_client_def Let_def)
qed simp

lemma parseListen_no_panic: "parseListen services l \<noteq> Panic"
  by (auto simp: parseListen_def Let_def split: option.splits)

lemma ResolveAdmin_no_panic: "ResolveAdmin services wd cfg path \<noteq> Panic"
  using parseListen_no_panic
  by (auto simp: ResolveAdmin_def outcome_simps snapshot_interval_def Let_def split: option.splits if_splits prod.splits)

lemma is_Ok_iff: "is_Ok r \<longleftrightarrow> (\<exists>x. r = Ok x)"
  by (cases r) auto

lemma validation_exact:
  "(ValidateWithDetails services wd cfg = [] \<longleftrightarrow> (\<exists>c. cfg = Some c \<and> valid_config services wd c))
    \<and> (Validate services wd cfg = None \<longleftrightarrow> (\<exists>c. cfg = Some c \<and> valid_config services wd c))"
proof -
  have "ValidateWithDetails services wd (Some c) = [] \<longleftrightarrow> valid_config services wd c" for c
  proof -
    have admin: "(case ResolveAdmin services wd (Some c) '''' of Err e \<Rightarrow> [verr ''admin'' (InvalidAdmin e)] | _ \<Rightarrow> []) = []
        \<longleftrightarrow> is_Ok (ResolveAdmin services wd (Some c) '''')"
      using ResolveAdmin_no_panic [of services wd "Some c" "''''"] by (cases "ResolveAdmin services wd (Some c) ''''") auto
    show ?thesis
      by (auto simp: ValidateWithDetails_def valid_config_def validate_clients_nil validate_port_def validate_public_def
          validate_duration_def valid_duration_def admin split: option.splits if_splits)
  qed
  then show ?thesis
    by (cases cfg) (auto simp: Validate_def Let_def ValidateWithDetails_def [of _ _ None])
qed

text \<open>C30: Validation accepts exactly the documents that meet the specification: a domain, ports in range,
  at least one client, every client with an id, a secret and well-formed tunnels, no two clients with the
  same id, durations that parse, and admin settings that resolve. No message is reported for such a document, and at least one
  for any other; \<open>Validate\<close> is nil in the same cases.\<close>

theorem validation_is_exact:
  "(ValidateWithDetails services wd cfg = [] \<longleftrightarrow> (\<exists>c. cfg = Some c \<and> valid_config services wd c))
    \<and> (Validate services wd cfg = None \<longleftrightarrow> (\<exists>c. cfg = Some c \<and> valid_config services wd c))"
  by (rule validation_exact)

section \<open>Clients and their secrets\<close>

lemma find_client_in: "find_client i cs = Some c \<Longrightarrow> c \<in> set cs \<and> cc_ClientID c = i"
  by (induction cs) (auto split: if_splits)

lemma find_client_none: "find_client i cs = None \<longleftrightarrow> (\<forall>c \<in> set cs. cc_ClientID c \<noteq> i)"
  by (induction cs) auto

lemma find_client_distinct:
  "distinct (map cc_ClientID cs) \<Longrightarrow> c \<in> set cs \<Longrightarrow> find_client (cc_ClientID c) cs = Some c"
  by (induction cs) auto

lemma TrimSpace_nil [simp]: "TrimSpace [] = []"
  by (simp add: TrimSpace_def trim_left_def)

lemma valid_configD:
  assumes "Validate services wd (Some cfg) = None"
  shows "list_all valid_client (fc_Clients cfg)" "distinct (map cc_ClientID (fc_Clients cfg))"
  using validation_exact [of services wd "Some cfg"] assms by (auto simp: valid_config_def)

text \<open>With an accepted configuration every client has its own secret: asked for credentials, the token
  function answers a configured client with the secret of that very client, which is not empty, and its own
  tunnels; an id that no client has is refused; the server-wide token is only given when one is configured;
  and the public answer depends on nothing in the configuration and is only given for HTTP.\<close>

theorem clients_get_their_own_secret:
  assumes "Validate services wd (Some cfg) = None"
  shows "(\<forall>c \<in> set (fc_Clients cfg). \<exists>k. cc_ClientSecret c \<noteq> '''' \<and> cf_Tunnels k = cc_Tunnels c
      \<and> CreateGetToken (Some cfg) v ''credentials'' (cc_ClientID c) op
          = Ok \<lparr>tr_AuthType = ''credentials'', tr_Token = cc_ClientSecret c, tr_Config = Some k\<rparr>)
    \<and> (\<forall>i. i \<notin> cc_ClientID ` set (fc_Clients cfg) \<longrightarrow>
        CreateGetToken (Some cfg) v ''credentials'' i op = Err (ClientNotFound i))
    \<and> (\<forall>t i r. t \<noteq> ''credentials'' \<and> t \<noteq> ''public'' \<and> CreateGetToken (Some cfg) v t i op = Ok r \<longrightarrow>
        tr_Token r = fc_Token cfg \<and> fc_Token cfg \<noteq> '''')
    \<and> (\<forall>cfg' v' i j r. CreateGetToken (Some cfg) v ''public'' i op = Ok r \<longrightarrow>
        CreateGetToken cfg' v' ''public'' j op = Ok r \<and> (\<forall>g. op = Some g \<longrightarrow> go_Type g = ''http''))"
proof -
  have "\<exists>k. cc_ClientSecret c \<noteq> '''' \<and> cf_Tunnels k = cc_Tunnels c
      \<and> CreateGetToken (Some cfg) v ''credentials'' (cc_ClientID c) op
          = Ok \<lparr>tr_AuthType = ''credentials'', tr_Token = cc_ClientSecret c, tr_Config = Some k\<rparr>"
    if c: "c \<in> set (fc_Clients cfg)" for c
  proof (intro exI conjI)
    from valid_configD(1) [OF assms] c show "cc_ClientSecret c \<noteq> ''''"
      by (auto simp: list_all_iff valid_client_def)
    show "cf_Tunnels (client_config v c) = cc_Tunnels c"
      by (simp add: client_config_def Let_def split: option.split)
    show "CreateGetToken (Some cfg) v ''credentials'' (cc_ClientID c) op
        = Ok \<lparr>tr_AuthType = ''credentials'', tr_Token = cc_ClientSecret c, tr_Config = Some (client_config v c)\<rparr>"
      using find_client_distinct [OF valid_configD(2) [OF assms] c] by (simp add: CreateGetToken_def)
  qed
  moreover have "CreateGetToken (Some cfg) v ''credentials'' i op = Err (ClientNotFound i)"
    if "i \<notin> cc_ClientID ` set (fc_Clients cfg)" for i
    using that find_client_none [of i "fc_Clients cfg"] by (auto simp: CreateGetToken_def)
  ultimately show ?thesis
    by (auto simp: CreateGetToken_def split: if_splits option.splits)
qed

section \<open>Saving and reloading\<close>

lemma tmp_differs: "path @ ''.tmp'' \<noteq> path" "path \<noteq> path @ ''.tmp''"
  by simp_all

lemma writeFileAtomic_effect:
  assumes "writeFileAtomic os path data fs = (fs', r)"
  shows "(r = Ok () \<longrightarrow> fs' path = Some data)
    \<and> (r \<noteq> Ok () \<longrightarrow> fs' path = fs path \<or> (\<not> os_Rename os \<and> (\<exists>n. os_WriteDest os = WroteOnly n)))
    \<and> (\<forall>p. p \<noteq> path \<and> p \<noteq> path @ ''.tmp'' \<longrightarrow> fs' p = fs p) \<and> r \<noteq> Panic"
  using assms tmp_differs [of path]
  by (auto simp: writeFileAtomic_def write_file_def remove_file_def Let_def split: write_outcome.splits if_splits prod.splits)

text \<open>What is saved is what is loaded: after a successful save, a reload replaces the running configuration
  by the saved document, which is valid, and no file but the destination and its temporary file has changed. A failed save leaves the
  destination as it was, unless the rename failed and the in-place write that follows it stopped half-way.
  A reload that fails keeps the running configuration, except that a failing \<open>apply\<close> comes after
  the replacement. (The YAML package reads back what it wrote.)\<close>

theorem saved_config_is_reloaded:
  assumes "\<And>c d. yaml_Marshal y c = Some d \<Longrightarrow> yaml_Unmarshal y d = Some c"
    and "SaveAtomic y services wd os path (Some cfg) fs = (fs', r)"
  shows "(r = Ok () \<longrightarrow> valid_config services wd cfg
        \<and> Reload y services wd path None fs' running = (Some cfg, Ok ()))
    \<and> (r \<noteq> Ok () \<longrightarrow> fs' path = fs path \<or> (\<not> os_Rename os \<and> (\<exists>n. os_WriteDest os = WroteOnly n)))
    \<and> (\<forall>p. p \<noteq> path \<and> p \<noteq> path @ ''.tmp'' \<longrightarrow> fs' p = fs p)
    \<and> (\<forall>app e. snd (Reload y services wd path app fs running) = Err e \<longrightarrow>
        (if \<exists>t. e = SaveError (ApplyFailed t)
         then (\<exists>c. fst (Reload y services wd path app fs running) = Some c \<and> valid_config services wd c)
         else fst (Reload y services wd path app fs running) = running))"
proof -
  have valid: "Validate services wd (Some c) = None \<longleftrightarrow> valid_config services wd c" for c
    using validation_exact [of services wd "Some c"] by auto
  have reload: "if \<exists>t. e = SaveError (ApplyFailed t)
       then (\<exists>c. fst (Reload y services wd path app fs running) = Some c \<and> valid_config services wd c)
       else fst (Reload y services wd path app fs running) = running"
    if "snd (Reload y services wd path app fs running) = Err e" for app e
    using that by (auto simp: Reload_def Load_def valid [symmetric] split: if_splits outcome.splits option.splits)
  show ?thesis
  proof (cases "path = '''' \<or> Validate services wd (Some cfg) \<noteq> None \<or> yaml_Marshal y cfg = None")
    case True
    with assms(2) have "fs' = fs" "r \<noteq> Ok ()" by (auto simp: SaveAtomic_def split: if_splits option.splits)
    with reload show ?thesis by blast
  next
    case False
    then obtain d where d: "path \<noteq> ''''" "Validate services wd (Some cfg) = None" "yaml_Marshal y cfg = Some d" by auto
    obtain w where w: "writeFileAtomic os path d fs = (fs', w)"
      using assms(2) d by (cases "writeFileAtomic os path d fs") (auto simp: SaveAtomic_def save_result_def)
    then have same: "r = Ok () \<longleftrightarrow> w = Ok ()"
      using assms(2) d by (cases w) (auto simp: SaveAtomic_def save_result_def)
    note effect = writeFileAtomic_effect [OF w]
    have ok: "r = Ok () \<longrightarrow> valid_config services wd cfg \<and> Reload y services wd path None fs' running = (Some cfg, Ok ())"
      using assms(1) [OF d(3)] effect d valid [of cfg, symmetric] by (simp add: same Reload_def Load_def)
    show ?thesis
      using effect by (intro conjI ok allI impI reload) (simp_all only: same simp_thms)
  qed
qed

section \<open>Witnesses\<close>

definition sample_client :: ClientConfig where
  "sample_client = \<lparr>cc_ClientID = ''dev'', cc_ClientSecret = ''s3'', cc_Config = None, cc_BandwidthLimit = None,
     cc_Tunnels = []\<rparr>"

definition sample_config :: FileConfig where
  "sample_config = \<lparr>fc_Domain = ''example.org'', fc_Port = 443, fc_TCPPort = 8443, fc_Secure = None, fc_Token = '''',
     fc_Clients = [sample_client], fc_Notification = None, fc_BandwidthLimits = None,
     fc_PublicHTTPNoAuth = Some \<lparr>pn_Timeout = ''10m'', pn_WarnLead = ''''\<rparr>, fc_Admin = None\<rparr>"

lemma sample_config_valid: "Validate (\<lambda>s. None) ''/'' (Some sample_config) = None"
  by code_simp

lemma clients_get_their_own_secret_witness:
  "\<exists>k. CreateGetToken (Some sample_config) ''2.0.0'' ''credentials'' ''dev'' None
     = Ok \<lparr>tr_AuthType = ''credentials'', tr_Token = ''s3'', tr_Config = Some k\<rparr>"
proof -
  have "sample_client \<in> set (fc_Clients sample_config)" by (simp add: sample_config_def)
  with clients_get_their_own_secret [OF sample_config_valid, of "''2.0.0''" None] show ?thesis
    by (auto simp: sample_client_def)
qed

text \<open>A codec that knows one document.\<close>

definition one_document :: Yaml where
  "one_document = \<lparr>yaml_Marshal = (\<lambda>c. if c = sample_config then Some [7] else None),
     yaml_Unmarshal = (\<lambda>d. if d = [7] then Some sample_config else None)\<rparr>"

definition good_os :: OsCalls where
  "good_os = \<lparr>os_MkdirAll = True, os_WriteTmp = WroteAll, os_Rename = True, os_WriteDest = WroteAll, os_Remove = True\<rparr>"

lemma saved_config_is_reloaded_witness:
  "\<exists>fs'. SaveAtomic one_document (\<lambda>s. None) ''/'' good_os ''c'' (Some sample_config) Map.empty = (fs', Ok ())
     \<and> Reload one_document (\<lambda>s. None) ''/'' ''c'' None fs' None = (Some sample_config, Ok ())"
proof -
  have save: "SaveAtomic one_document (\<lambda>s. None) ''/'' good_os ''c'' (Some sample_config) Map.empty
      = ((\<lambda>p. None)(''c.tmp'' \<mapsto> [7], ''c'' \<mapsto> [7], ''c.tmp'' := None), Ok ())"
    using sample_config_valid
    by (simp add: SaveAtomic_def writeFileAtomic_def write_file_def good_os_def one_document_def save_result_def)
  have "\<And>c d. yaml_Marshal one_document c = Some d \<Longrightarrow> yaml_Unmarshal one_document d = Some c"
    by (auto simp: one_document_def split: if_splits)
  from conjunct1 [OF saved_config_is_reloaded [OF this save, of None]]
  have "Reload one_document (\<lambda>s. None) ''/'' ''c'' None ((\<lambda>p. None)(''c.tmp'' \<mapsto> [7], ''c'' \<mapsto> [7], ''c.tmp'' := None)) None
      = (Some sample_config, Ok ())" by blast
  with save show ?thesis by (intro exI conjI)
qed

end
