(* ===== verification/AuthDecode.thy ===== *)
theory AuthDecode
  imports ClientTypes Json
begin

text \<open>
  How \<open>encoding/json\<close> fills an \<open>Authentication\<close> (the struct tags of
  \<^verbatim>\<open>internal/client/types.go\<close>) from the payload of an \<open>authenticate\<close> message. Members are taken in
  the order of their names (\<open>Marshal\<close> sorts a map), names match up to letter case, unknown ones
  are skipped, null leaves a value as it is (and sets a pointer to nil), and a member of the wrong
  type makes the call fail. Numbers are integers; an integer outside 64 bits fails.
\<close>

definition str_member :: "(string \<Rightarrow> 'a \<Rightarrow> 'a) \<Rightarrow> json \<Rightarrow> 'a \<Rightarrow> 'a option" where
  "str_member upd j x = (case j of JNull \<Rightarrow> Some x | JStr s \<Rightarrow> Some (upd s x) | _ \<Rightarrow> None)"

definition int_member :: "(int \<Rightarrow> 'a \<Rightarrow> 'a) \<Rightarrow> json \<Rightarrow> 'a \<Rightarrow> 'a option" where
  "int_member upd j x =
     (case j of JNull \<Rightarrow> Some x | JNum n \<Rightarrow> if min_int \<le> n \<and> n \<le> max_int then Some (upd n x) else None | _ \<Rightarrow> None)"

definition bool_member :: "(bool \<Rightarrow> 'a \<Rightarrow> 'a) \<Rightarrow> json \<Rightarrow> 'a \<Rightarrow> 'a option" where
  "bool_member upd j x = (case j of JNull \<Rightarrow> Some x | JBool b \<Rightarrow> Some (upd b x) | _ \<Rightarrow> None)"

definition strings_of :: "json list \<Rightarrow> string list option" where
  "strings_of js = those (map (\<lambda>j. case j of JNull \<Rightarrow> Some '''' | JStr s \<Rightarrow> Some s | _ \<Rightarrow> None) js)"

definition strings_member :: "(string list \<Rightarrow> 'a \<Rightarrow> 'a) \<Rightarrow> json \<Rightarrow> 'a \<Rightarrow> 'a option" where
  "strings_member upd j x =
     (case j of JNull \<Rightarrow> Some (upd [] x) | JArr js \<Rightarrow> map_option (\<lambda>l. upd l x) (strings_of js) | _ \<Rightarrow> None)"

text \<open>An object into a struct, member by member; \<open>field\<close> gets the name in lower case.\<close>

definition decode_object :: "(string \<Rightarrow> json \<Rightarrow> 'a \<Rightarrow> 'a option) \<Rightarrow> json \<Rightarrow> 'a \<Rightarrow> 'a option" where
  "decode_object field j x =
     (case j of
        JNull \<Rightarrow> Some x
      | JObj m \<Rightarrow> foldl (\<lambda>acc (k, v). case acc of None \<Rightarrow> None | Some y \<Rightarrow> field (ToLower k) v y) (Some x) (sort_key fst m)
      | _ \<Rightarrow> None)"

text \<open>A pointer to a struct: null gives nil, an object goes into the struct it already points to.\<close>

definition ptr_member ::
    "(string \<Rightarrow> json \<Rightarrow> 'b \<Rightarrow> 'b option) \<Rightarrow> 'b \<Rightarrow> ('a \<Rightarrow> 'b option) \<Rightarrow> ('b option \<Rightarrow> 'a \<Rightarrow> 'a) \<Rightarrow> json \<Rightarrow> 'a \<Rightarrow> 'a option" where
  "ptr_member field zero get upd j x =
     (case j of
        JNull \<Rightarrow> Some (upd None x)
      | _ \<Rightarrow> map_option (\<lambda>b. upd (Some b) x) (decode_object field j (case get x of None \<Rightarrow> zero | Some b \<Rightarrow> b)))"

section \<open>Capabilities\<close>

definition compression_field :: "string \<Rightarrow> json \<Rightarrow> CompressionFeatures \<Rightarrow> CompressionFeatures option" where
  "compression_field k v x =
     (if k = ''algorithms'' then strings_member (\<lambda>l x. x\<lparr>Algorithms := l\<rparr>) v x
      else if k = ''preferred'' then str_member (\<lambda>s x. x\<lparr>Preferred := s\<rparr>) v x else Some x)"

definition chunk_field :: "string \<Rightarrow> json \<Rightarrow> ChunkSizeFeatures \<Rightarrow> ChunkSizeFeatures option" where
  "chunk_field k v x =
     (if k = ''min'' then int_member (\<lambda>n x. x\<lparr>cs_Min := n\<rparr>) v x
      else if k = ''max'' then int_member (\<lambda>n x. x\<lparr>cs_Max := n\<rparr>) v x
      else if k = ''default'' then int_member (\<lambda>n x. x\<lparr>cs_Default := n\<rparr>) v x else Some x)"

definition window_field :: "string \<Rightarrow> json \<Rightarrow> int \<Rightarrow> int option" where
  "window_field k v x = (if k = ''windowsize'' then int_member (\<lambda>n x. n) v x else Some x)"

definition features_field :: "string \<Rightarrow> json \<Rightarrow> CapabilityFeatures \<Rightarrow> CapabilityFeatures option" where
  "features_field k v x =
     (if k = ''compression'' then
        ptr_member compression_field \<lparr>Algorithms = [], Preferred = ''''\<rparr> f_Compression (\<lambda>p x. x\<lparr>f_Compression := p\<rparr>) v x
      else if k = ''chunksize'' then
        ptr_member chunk_field \<lparr>cs_Min = 0, cs_Max = 0, cs_Default = 0\<rparr> f_ChunkSize (\<lambda>p x. x\<lparr>f_ChunkSize := p\<rparr>) v x
      else if k = ''flowcontrol'' then ptr_member window_field 0 f_FlowControl (\<lambda>p x. x\<lparr>f_FlowControl := p\<rparr>) v x
      else Some x)"

definition capabilities_field :: "string \<Rightarrow> json \<Rightarrow> Capabilities \<Rightarrow> Capabilities option" where
  "capabilities_field k v x =
     (if k = ''flags'' then int_member (\<lambda>n x. x\<lparr>cap_Flags := n\<rparr>) v x
      else if k = ''version'' then str_member (\<lambda>s x. x\<lparr>cap_Version := s\<rparr>) v x
      else if k = ''features'' then
        ptr_member features_field \<lparr>f_Compression = None, f_ChunkSize = None, f_FlowControl = None\<rparr>
          cap_Features (\<lambda>p x. x\<lparr>cap_Features := p\<rparr>) v x
      else Some x)"

section \<open>The authentication message\<close>

definition basic_field :: "string \<Rightarrow> json \<Rightarrow> HTTPTunnelAuth \<Rightarrow> HTTPTunnelAuth option" where
  "basic_field k v x =
     (if k = ''type'' then str_member (\<lambda>s x. x\<lparr>ha_Type := s\<rparr>) v x
      else if k = ''username'' then str_member (\<lambda>s x. x\<lparr>ha_Username := s\<rparr>) v x
      else if k = ''password'' then str_member (\<lambda>s x. x\<lparr>ha_Password := s\<rparr>) v x
      else if k = ''token'' then str_member (\<lambda>s x. x\<lparr>ha_Token := s\<rparr>) v x else Some x)"

definition zero_auth :: Authentication where
  "zero_auth = \<lparr>at_Version = '''', at_Type = '''', at_Port = 0, at_SubDomain = '''', at_TunnelPort = 0,
     at_Timestamp = 0, at_AuthType = '''', at_ClientId = '''', at_Signature = '''', at_Capabilities = None,
     at_OpaqueChild = False, at_HTTPIngressBasic = None\<rparr>"

definition auth_field :: "string \<Rightarrow> json \<Rightarrow> Authentication \<Rightarrow> Authentication option" where
  "auth_field k v x =
     (if k = ''version'' then str_member (\<lambda>s x. x\<lparr>at_Version := s\<rparr>) v x
      else if k = ''type'' then str_member (\<lambda>s x. x\<lparr>at_Type := s\<rparr>) v x
      else if k = ''port'' then int_member (\<lambda>n x. x\<lparr>at_Port := n\<rparr>) v x
      else if k = ''subdomain'' then str_member (\<lambda>s x. x\<lparr>at_SubDomain := s\<rparr>) v x
      else if k = ''tunnelport'' then int_member (\<lambda>n x. x\<lparr>at_TunnelPort := n\<rparr>) v x
      else if k = ''timestamp'' then int_member (\<lambda>n x. x\<lparr>at_Timestamp := n\<rparr>) v x
      else if k = ''authtype'' then str_member (\<lambda>s x. x\<lparr>at_AuthType := s\<rparr>) v x
      else if k = ''clientid'' then str_member (\<lambda>s x. x\<lparr>at_ClientId := s\<rparr>) v x
      else if k = ''signature'' then str_member (\<lambda>s x. x\<lparr>at_Signature := s\<rparr>) v x
      else if k = ''capabilities'' then
        ptr_member capabilities_field \<lparr>cap_Flags = 0, cap_Version = '''', cap_Features = None\<rparr>
          at_Capabilities (\<lambda>p x. x\<lparr>at_Capabilities := p\<rparr>) v x
      else if k = ''opaquechild'' then bool_member (\<lambda>b x. x\<lparr>at_OpaqueChild := b\<rparr>) v x
      else if k = ''httpingressbasic'' then
        ptr_member basic_field \<lparr>ha_Type = '''', ha_Username = '''', ha_Password = '''', ha_Token = ''''\<rparr>
          at_HTTPIngressBasic (\<lambda>p x. x\<lparr>at_HTTPIngressBasic := p\<rparr>) v x
      else Some x)"

definition Unmarshal_Authentication :: "json \<Rightarrow> Authentication option" where
  "Unmarshal_Authentication payload = decode_object auth_field payload zero_auth"

end
