(* ===== verification/Monitor.thy ===== *)
theory Monitor
  imports AuthDecode Config Containers Stats TunnelSpecs Legacy AdapterReceive
begin

text \<open>
  The monitor channel of a client on the server, \<^verbatim>\<open>internal/server/channels/monitor/\<close>:
  authentication, responses, disconnection (\<^verbatim>\<open>auth.go\<close>, \<^verbatim>\<open>helpers.go\<close>, \<^verbatim>\<open>common.go\<close>) and the
  two message loops (\<^verbatim>\<open>new.go\<close>, \<^verbatim>\<open>legacy.go\<close>). A handler maps the server's shared state and the
  connection to new ones; messages, timers, notifications and calls into other components are
  appended to the connection's trace. Log lines are left out. Messages are atomic steps.
\<close>

section \<open>State\<close>

record Context =
  cx_DomainMappings :: domains
  cx_Callbacks :: callbacks
  cx_Container :: tunnels
  cx_TrafficStats :: TrafficStatsData

datatype session_adapter = LegacyA LegacyAdapter | BinaryA Adapter

record AuthenticateOk =
  ao_Version :: string
  ao_URL :: string
  ao_Config :: Config
  ao_ClientId :: string
  ao_ContainerId :: string

datatype auth_error =
    BadPayload | InvalidClient token_error | UnsupportedVersion string | SubDomainNotAllowed
  | InvalidToken | InvalidSignature | SubDomainUsed | UnknownTunnelType string

datatype warning = OldClient string string | SessionLifetime int | ClosesIn int | ReachedLimit int

datatype session_event =
    SentId string | SentPong | SentWarning warning | SentAuthFailure auth_error | SentAuthOk AuthenticateOk
  | AfterFunc int "session_event list" | CloseFrame | ClosedConn
  | NotifyOnline string Authentication | NotifyOffline string TunnelMapping
  | EmitTunnel string string
  | CallbackCalled nat string
  | StreamDispatch string string byte "byte list" bool
  | DataChannelReady string
  | DestroyedAdapter | ClosedListener nat

datatype loop_status = Serving | Finished | Crashed | Hanging

record WsConn =
  ws_Conn :: nat
  ws_WriteMu :: nat
  ws_RequestHost :: string
  ws_ContainerID :: string
  ws_ClientID :: string
  ws_Capabilities :: "Capabilities option"
  ws_UseNewProtocol :: bool
  ws_IsLegacyClient :: bool
  ws_Adapter :: "(nat \<times> session_adapter) option"
  ws_isAuthenticated :: bool
  ws_subDomain :: string
  ws_status :: loop_status
  ws_out :: "session_event list"

text \<open>
  The options of the channel. \<open>mo_MAC\<close> is HMAC-SHA512 on bytes, \<open>mo_TokenRef\<close> the reference under
  which the token function is stored in a tunnel, \<open>mo_StreamDispatch\<close> tells whether the context has a
  handler for semantic frames.
\<close>

record MonitorOptions =
  mo_Version :: string
  mo_Domain :: string
  mo_Port :: int
  mo_Secure :: bool
  mo_Token :: "string \<Rightarrow> string \<Rightarrow> GetTokenOptions option \<Rightarrow> (token_error, TokenResponse) outcome"
  mo_TokenRef :: nat
  mo_Notification :: bool
  mo_PublicTTL :: int
  mo_PublicWarnLead :: int
  mo_MAC :: "byte list \<Rightarrow> byte list \<Rightarrow> byte list"
  mo_StreamDispatch :: bool
  mo_Env :: Env

text \<open>What a step draws from outside: UUIDs, the clock (milliseconds), the next adapter reference.\<close>

record Fresh =
  fr_AnonUuid :: string
  fr_ContainerUuid :: string
  fr_DomainUuid :: string
  fr_Now :: int
  fr_AdapterRef :: nat

definition record_events :: "session_event list \<Rightarrow> WsConn \<Rightarrow> WsConn" where
  "record_events evs c = c\<lparr>ws_out := ws_out c @ evs\<rparr>"

section \<open>Helpers\<close>

definition int_text :: "int \<Rightarrow> string" where
  "int_text n = (if n < 0 then CHR ''-'' # decimal (nat (- n)) else decimal (nat n))"

definition hex_digit :: "nat \<Rightarrow> char" where
  "hex_digit n = char_of (if n < 10 then 48 + n else 87 + n)"

definition hex_encode :: "byte list \<Rightarrow> string" where
  "hex_encode bs = concat (map (\<lambda>b. [hex_digit (unat b div 16), hex_digit (unat b mod 16)]) bs)"

definition HMACSHA512 :: "(byte list \<Rightarrow> byte list \<Rightarrow> byte list) \<Rightarrow> string \<Rightarrow> string \<Rightarrow> string" where
  "HMACSHA512 mac message secret = hex_encode (mac (str_bytes secret) (str_bytes message))"

definition hostOnly :: "string \<Rightarrow> string" where
  "hostOnly hostport =
     (let h = TrimSpace hostport in
      if h = '''' then '''' else case SplitHostPort h of Some (host, _) \<Rightarrow> host | None \<Rightarrow> h)"

definition getServerUrlBySubDomain :: "string \<Rightarrow> MonitorOptions \<Rightarrow> string \<Rightarrow> string" where
  "getServerUrlBySubDomain sub options requestHost =
     (if sub = '''' then ''''
      else
        let domain = TrimSpace (mo_Domain options);
            domain = (if domain = '''' then TrimSpace requestHost else domain)
        in if domain = '''' then ''''
           else if mo_Secure options then ''https://'' @ sub @ ''.'' @ domain
           else ''http://'' @ sub @ ''.'' @ domain @ '':'' @ int_text (mo_Port options))"

definition ingressDeclaresBasic :: "Authentication \<Rightarrow> bool" where
  "ingressDeclaresBasic auth =
     (case at_HTTPIngressBasic auth of None \<Rightarrow> False
      | Some b \<Rightarrow> EqualFold (TrimSpace (ha_Type b)) ''basic'' \<and> TrimSpace (ha_Username b) \<noteq> '''')"

definition mergeHTTPIngressEdgeAuth :: "HTTPTunnelAuth list \<Rightarrow> Authentication \<Rightarrow> HTTPTunnelAuth list" where
  "mergeHTTPIngressEdgeAuth serverMatched auth =
     (if serverMatched \<noteq> [] then serverMatched
      else if \<not> ingressDeclaresBasic auth then []
      else case at_HTTPIngressBasic auth of None \<Rightarrow> []
        | Some b \<Rightarrow> [\<lparr>ha_Type = ''basic'', ha_Username = ha_Username b, ha_Password = ha_Password b, ha_Token = ''''\<rparr>])"

definition shouldApplyPublicMonitorSessionTTL :: "Authentication \<Rightarrow> bool" where
  "shouldApplyPublicMonitorSessionTTL auth =
     (let authType = ToLower (TrimSpace (at_AuthType auth)) in authType \<noteq> ''credentials'' \<and> authType \<noteq> ''token'')"

definition resolvePublicMonitorSessionTTL :: "int \<Rightarrow> int \<Rightarrow> int \<times> int" where
  "resolvePublicMonitorSessionTTL ttl warnLead =
     (let ttl = (if ttl \<le> 0 then 600 * second_ns else ttl);
          warnLead = (if warnLead \<le> 0 then 120 * second_ns else warnLead);
          warnLead = (if warnLead \<ge> ttl then ttl div 2 else warnLead);
          warnLead = (if warnLead \<le> 0 then second_ns else warnLead)
      in (ttl, warnLead))"

definition schedulePublicMonitorSessionTTL :: "int \<Rightarrow> int \<Rightarrow> session_event list" where
  "schedulePublicMonitorSessionTTL ttl0 warnLead0 =
     (case resolvePublicMonitorSessionTTL ttl0 warnLead0 of (ttl, warnLead) \<Rightarrow>
        [SentWarning (SessionLifetime ttl),
         AfterFunc (ttl - warnLead) [SentWarning (ClosesIn warnLead)],
         AfterFunc ttl [SentWarning (ReachedLimit ttl), CloseFrame, ClosedConn]])"

definition enabledHTTPAuthUsers :: "TunnelSpec \<Rightarrow> HTTPTunnelAuth list" where
  "enabledHTTPAuthUsers spec =
     (case ts_Auth spec of
        Some a \<Rightarrow> if \<not> au_Enable a \<or> au_Users a = [] then [] else au_Users a
      | None \<Rightarrow> ts_Auths spec)"

definition is_http_spec :: "TunnelSpec \<Rightarrow> bool" where
  "is_http_spec spec \<longleftrightarrow> EqualFold (TrimSpace (ts_Type spec)) ''http''"

text \<open>Fallback 2: the policy of the only HTTP tunnel that declares one.\<close>

definition only_policy :: "TunnelSpec list \<Rightarrow> HTTPTunnelAuth list" where
  "only_policy specs =
     (case filter (\<lambda>s. is_http_spec s \<and> enabledHTTPAuthUsers s \<noteq> []) specs of
        [s] \<Rightarrow> enabledHTTPAuthUsers s | _ \<Rightarrow> [])"

definition resolveMatchedHTTPAuths :: "Authentication \<Rightarrow> Config option \<Rightarrow> HTTPTunnelAuth list" where
  "resolveMatchedHTTPAuths auth conf =
     (case conf of None \<Rightarrow> [] | Some cfg \<Rightarrow>
      let specs = cf_Tunnels cfg; idx = MatchTunnelSpecIndex (Some auth) specs; sub = TrimSpace (at_SubDomain auth) in
      if specs = [] then []
      else if idx \<ge> 0 \<and> idx < int (length specs) then enabledHTTPAuthUsers (specs ! nat idx)
      else
        case (if EqualFold (TrimSpace (at_Type auth)) ''http'' \<and> sub \<noteq> ''''
              then find (\<lambda>s. is_http_spec s \<and> TrimSpace (ts_SubDomain s) = sub) specs else None) of
          Some s \<Rightarrow> enabledHTTPAuthUsers s
        | None \<Rightarrow> only_policy specs)"

text \<open>The reason for which a client older than 2.0.0 is refused; \<open>None\<close> when it is not.\<close>

definition requiresModernClientForAdvancedFeatures :: "string \<Rightarrow> Authentication \<Rightarrow> Config option \<Rightarrow> string option" where
  "requiresModernClientForAdvancedFeatures authVersion auth cfg =
     (if IsVersionGreaterOrEqual authVersion ''2.0.0'' then None
      else if (case cfg of None \<Rightarrow> False | Some c \<Rightarrow> cf_Tunnels c \<noteq> []) then Some ''server tunnels require client >= 2.0.0''
      else if EqualFold (TrimSpace (at_Type auth)) ''http'' then
        (if resolveMatchedHTTPAuths auth cfg \<noteq> [] then Some ''HTTP auth policy requires client >= 2.0.0''
         else if ingressDeclaresBasic auth then Some ''HTTP ingress auth from client requires client >= 2.0.0''
         else None)
      else None)"

section \<open>Authentication\<close>

text \<open>The checks of \<open>handleAuthenticate\<close> up to the signature, in their order.\<close>

definition check_authentication :: "MonitorOptions \<Rightarrow> Authentication \<Rightarrow> (auth_error, TokenResponse) outcome" where
  "check_authentication options auth =
     (let authType = (if at_AuthType auth = '''' then ''token'' else at_AuthType auth) in
      case mo_Token options authType (at_ClientId auth)
             (Some \<lparr>go_Type = at_Type auth, go_OpaqueChild = at_OpaqueChild auth\<rparr>) of
        Err e \<Rightarrow> Err (InvalidClient e)
      | Panic \<Rightarrow> Panic
      | Ok res \<Rightarrow>
          (case requiresModernClientForAdvancedFeatures (at_Version auth) auth (tr_Config res) of
             Some reason \<Rightarrow> Err (UnsupportedVersion reason)
           | None \<Rightarrow>
               if tr_AuthType res = ''public'' \<and> at_SubDomain auth \<noteq> '''' then Err SubDomainNotAllowed
               else if tr_Token res = '''' then Err InvalidToken
               else if HMACSHA512 (mo_MAC options) (int_text (at_Timestamp auth)) (tr_Token res) \<noteq> at_Signature auth
                 then Err InvalidSignature
               else Ok res))"

definition make_adapter :: "Capabilities option \<Rightarrow> string \<Rightarrow> session_adapter" where
  "make_adapter caps version =
     (case FactoryCreate caps of
        LegacyAdapter \<Rightarrow> LegacyA (SetLegacyPeerVersion version (NewLegacyProtocolAdapter False))
      | BinaryAdapter c \<Rightarrow> BinaryA (NewBinaryProtocolAdapter c False))"

text \<open>The connection once the capabilities are agreed.\<close>

definition with_protocol :: "Fresh \<Rightarrow> Authentication \<Rightarrow> Capabilities option \<Rightarrow> WsConn \<Rightarrow> WsConn" where
  "with_protocol fr auth caps c =
     c\<lparr>ws_Capabilities := caps, ws_UseNewProtocol := caps \<noteq> None,
       ws_IsLegacyClient := isLegacyClient (at_Capabilities auth),
       ws_Adapter := Some (fr_AdapterRef fr, make_adapter caps (at_Version auth))\<rparr>"

text \<open>\<open>Container.Create\<close> and the two \<open>Container.Set\<close>s; a failing \<open>Set\<close> is only logged.\<close>

definition set_or_keep :: "string \<Rightarrow> string \<Rightarrow> any_value \<Rightarrow> tunnels \<Rightarrow> tunnels" where
  "set_or_keep i key v ts = (case tunnel_Set i key v ts of Ok ts' \<Rightarrow> ts' | _ \<Rightarrow> ts)"

definition create_container :: "MonitorOptions \<Rightarrow> Fresh \<Rightarrow> Authentication \<Rightarrow> WsConn \<Rightarrow> Context \<Rightarrow> Context" where
  "create_container options fr auth c cx =
     (let i = fr_ContainerUuid fr;
          ts = tunnel_Create i (mo_TokenRef options) (ws_Conn c) auth (ws_WriteMu c) (cx_Container cx);
          ts = set_or_keep i ''adapter'' (OtherValue (fr_AdapterRef fr)) ts
      in cx\<lparr>cx_Container := set_or_keep i ''useNewProtocol'' (BoolValue (ws_UseNewProtocol c)) ts\<rparr>)"

text \<open>The tunnel of the session: its container and, for HTTP, its subdomain.\<close>

definition open_tunnel ::
    "MonitorOptions \<Rightarrow> Fresh \<Rightarrow> Authentication \<Rightarrow> TokenResponse \<Rightarrow> Context \<Rightarrow> WsConn
       \<Rightarrow> Context \<times> WsConn \<times> (auth_error, unit) outcome" where
  "open_tunnel options fr auth res cx c =
     (let matched = mergeHTTPIngressEdgeAuth (resolveMatchedHTTPAuths auth (tr_Config res)) auth in
      if at_Type auth = ''tcp'' then (create_container options fr auth c cx, c, Ok ())
      else if at_Type auth = ''http'' then
        let cx = create_container options fr auth c cx in
        if at_SubDomain auth \<noteq> '''' \<and> domain_Has (cx_DomainMappings cx) (at_SubDomain auth)
        then (cx, c, Err SubDomainUsed)
        else
          let (hosts, sub) = BindWSWithMetadata (fr_DomainUuid fr) (Some (ws_Conn c)) (at_SubDomain auth)
                (at_ClientId auth) (Some (fr_AdapterRef fr)) (ws_UseNewProtocol c) matched
                (fr_ContainerUuid fr) (cx_DomainMappings cx)
          in (cx\<lparr>cx_DomainMappings := hosts\<rparr>, c\<lparr>ws_subDomain := sub\<rparr>, Ok ())
      else if TrimSpace (at_Type auth) = '''' then (cx, c, Ok ())
      else (cx, c, Err (UnknownTunnelType (at_Type auth))))"

definition response_config ::
    "MonitorOptions \<Rightarrow> Authentication \<Rightarrow> TokenResponse \<Rightarrow> Capabilities option \<Rightarrow> Config" where
  "response_config options auth res caps =
     (let authType = (if at_AuthType auth = '''' then ''token'' else at_AuthType auth);
          base = \<lparr>cf_Version = mo_Version options, cf_Notification = None, cf_NegotiatedCapabilities = caps, cf_Tunnels = []\<rparr>
      in case tr_Config res of None \<Rightarrow> base
         | Some k \<Rightarrow>
             base\<lparr>cf_Notification := cf_Notification k,
               cf_Tunnels := (if authType = ''credentials'' \<and> cf_Tunnels k \<noteq> [] \<and> \<not> at_OpaqueChild auth
                 then cf_Tunnels k else [])\<rparr>)"

text \<open>
  What follows the tunnel: the connection's ids, the response, the session's lifetime, statistics,
  the response handler of the new protocol, and the notifications.
\<close>

definition on_response_handler :: handler where
  "on_response_handler sid data = None"

definition finish_authentication ::
    "MonitorOptions \<Rightarrow> Fresh \<Rightarrow> Authentication \<Rightarrow> TokenResponse \<Rightarrow> Capabilities option \<Rightarrow> Context \<Rightarrow> WsConn
       \<Rightarrow> Context \<times> WsConn" where
  "finish_authentication options fr auth res caps cx c =
     (let c = c\<lparr>ws_ContainerID := fr_ContainerUuid fr, ws_ClientID := at_ClientId auth\<rparr>;
          ok = \<lparr>ao_Version = mo_Version options,
            ao_URL = getServerUrlBySubDomain (ws_subDomain c) options (ws_RequestHost c),
            ao_Config = response_config options auth res caps,
            ao_ClientId = ws_ClientID c, ao_ContainerId = ws_ContainerID c\<rparr>;
          ttl = (if shouldApplyPublicMonitorSessionTTL auth
            then schedulePublicMonitorSessionTTL (mo_PublicTTL options) (mo_PublicWarnLead options) else []);
          cx = cx\<lparr>cx_TrafficStats := SetStartTime (fr_Now fr) (at_ClientId auth) (cx_TrafficStats cx)\<rparr>;
          adapter = (case ws_Adapter c of
              Some (r, BinaryA a) \<Rightarrow> if ws_UseNewProtocol c
                then Some (r, BinaryA (OnHTTPResponse on_response_handler a)) else Some (r, BinaryA a)
            | x \<Rightarrow> x);
          c = c\<lparr>ws_Adapter := adapter\<rparr>
      in (cx, record_events ([SentAuthOk ok] @ ttl
            @ (if mo_Notification options then [NotifyOnline (at_ClientId auth) auth] else [])
            @ [EmitTunnel (at_Type auth) (fr_ContainerUuid fr)]) c))"

definition client_id :: "Fresh \<Rightarrow> Authentication \<Rightarrow> string" where
  "client_id fr auth = (if at_ClientId auth = '''' then ''anonymous-'' @ take 8 (fr_AnonUuid fr) else at_ClientId auth)"

definition handleAuthenticate ::
    "MonitorOptions \<Rightarrow> Fresh \<Rightarrow> json \<Rightarrow> Context \<Rightarrow> WsConn \<Rightarrow> Context \<times> WsConn \<times> (auth_error, unit) outcome" where
  "handleAuthenticate options fr payload cx c =
     (case Unmarshal_Authentication payload of
        None \<Rightarrow> (cx, c, Err BadPayload)
      | Some auth \<Rightarrow>
          let c = record_events (if IsVersionGreaterOrEqual (at_Version auth) (mo_Version options) then []
                else [SentWarning (OldClient (at_Version auth) (mo_Version options))]) c
          in case check_authentication options auth of
               Err e \<Rightarrow> (cx, record_events [SentAuthFailure e] c, Err e)
             | Panic \<Rightarrow> (cx, c, Panic)
             | Ok res \<Rightarrow>
                 (case negotiateCapabilities (at_Capabilities auth) of
                    Panic \<Rightarrow> (cx, c, Panic)
                  | Err _ \<Rightarrow> (cx, c, Panic)
                  | Ok caps \<Rightarrow>
                      let c = with_protocol fr auth caps c;
                          auth = auth\<lparr>at_ClientId := client_id fr auth\<rparr>
                      in case open_tunnel options fr auth res cx c of
                           (cx, c, Err e) \<Rightarrow> (cx, record_events [SentAuthFailure e] c, Err e)
                         | (cx, c, Panic) \<Rightarrow> (cx, c, Panic)
                         | (cx, c, Ok _) \<Rightarrow>
                             (case finish_authentication options fr auth res caps cx c of (cx, c) \<Rightarrow> (cx, c, Ok ()))))"

section \<open>Responses\<close>

text \<open>An id is the connection's id, a colon, and the request's id, which may contain colons.\<close>

definition split_id :: "string \<Rightarrow> (string \<times> string) option" where
  "split_id i = (case Split i CHR '':'' of p # q # ps \<Rightarrow> Some (p, Join (q # ps) '':'') | _ \<Rightarrow> None)"

definition parse_id_data :: "json \<Rightarrow> (string \<times> string) option" where
  "parse_id_data payload =
     (case decode_object (\<lambda>k v x. if k = ''id'' then str_member (\<lambda>s (a, b). (s, b)) v x
          else if k = ''data'' then str_member (\<lambda>s (a, b). (a, s)) v x else Some x) payload ('''', '''') of
        Some (i, d) \<Rightarrow> if i \<noteq> '''' \<and> d \<noteq> '''' then Some (i, d) else None
      | None \<Rightarrow> None)"

definition parseHTTPResponsePayload :: "json \<Rightarrow> (string \<times> string) option" where
  "parseHTTPResponsePayload payload =
     (case payload of
        JObj m \<Rightarrow> if get_string m ''id'' \<noteq> '''' \<and> get_string m ''data'' \<noteq> ''''
          then Some (get_string m ''id'', get_string m ''data'') else parse_id_data payload
      | _ \<Rightarrow> parse_id_data payload)"

definition take_callback :: "string \<Rightarrow> string \<Rightarrow> string \<Rightarrow> Context \<Rightarrow> WsConn \<Rightarrow> Context \<times> WsConn" where
  "take_callback tcpId requestId data cx c =
     (case callback_Take tcpId requestId (cx_Callbacks cx) of
        (cbs, Some cb) \<Rightarrow> (cx\<lparr>cx_Callbacks := cbs\<rparr>, record_events [CallbackCalled cb data] c)
      | (cbs, None) \<Rightarrow> (cx\<lparr>cx_Callbacks := cbs\<rparr>, c))"

definition handle_binary_response ::
    "MonitorOptions \<Rightarrow> string \<Rightarrow> string \<Rightarrow> BinaryMessage \<Rightarrow> Context \<Rightarrow> WsConn \<Rightarrow> Context \<times> WsConn" where
  "handle_binary_response options tcpId requestId bm cx c =
     (let k = en_codec (mo_Env options) in
      if bm_Type bm = MessageTypeHTTPResponse then
        (case DecompressBinaryPayloadForCapabilities k (ws_Capabilities c) (bm_Data bm) of
           None \<Rightarrow> (cx, c)
         | Some payload \<Rightarrow> take_callback tcpId requestId (base64Encode payload) cx c)
      else
        (case (if bm_Type bm = MessageTypeHTTPResponseHead
               then DecompressBinaryPayloadForCapabilities k (ws_Capabilities c) (bm_Data bm) else Some (bm_Data bm)) of
           None \<Rightarrow> (cx, c)
         | Some payload \<Rightarrow>
             if \<not> mo_StreamDispatch options then (cx, c)
             else (cx, record_events
               [StreamDispatch tcpId requestId (bm_Type bm) payload (bm_Flags bm AND MessageFlagFIN \<noteq> 0)] c)))"

definition is_response_type :: "byte \<Rightarrow> bool" where
  "is_response_type t \<longleftrightarrow>
     t = MessageTypeHTTPResponse \<or> t = MessageTypeHTTPResponseHead \<or> t = MessageTypeHTTPResponseBody"

definition handle_legacy_response ::
    "MonitorOptions \<Rightarrow> string \<Rightarrow> string \<Rightarrow> string \<Rightarrow> Context \<Rightarrow> WsConn \<Rightarrow> Context \<times> WsConn" where
  "handle_legacy_response options tcpId requestId data cx c =
     (case CallbackWireString (en_codec (mo_Env options)) data of
        Ok payloadStr \<Rightarrow> take_callback tcpId requestId payloadStr cx c
      | _ \<Rightarrow> (cx, c))"

text \<open>The flag tells whether the handler returned; it panics when the frame parser does.\<close>

definition handleResponse :: "MonitorOptions \<Rightarrow> json \<Rightarrow> Context \<Rightarrow> WsConn \<Rightarrow> Context \<times> WsConn \<times> bool" where
  "handleResponse options payload cx c =
     (case parseHTTPResponsePayload payload of
        None \<Rightarrow> (cx, c, True)
      | Some (sid, data) \<Rightarrow>
          (case split_id sid of
             None \<Rightarrow> (cx, c, True)
           | Some (tcpId, requestId) \<Rightarrow>
               (case base64Decode data of
                  None \<Rightarrow> (cx, c, True)
                | Some rawOuter \<Rightarrow>
                    (case ParseBinaryMessage rawOuter of
                       Panic \<Rightarrow> (cx, c, False)
                     | Ok bm \<Rightarrow>
                         if is_response_type (bm_Type bm)
                         then (case handle_binary_response options tcpId requestId bm cx c of (cx, c) \<Rightarrow> (cx, c, True))
                         else (case handle_legacy_response options tcpId requestId data cx c of (cx, c) \<Rightarrow> (cx, c, True))
                     | Err _ \<Rightarrow>
                         (case handle_legacy_response options tcpId requestId data cx c of (cx, c) \<Rightarrow> (cx, c, True))))))"

section \<open>Disconnection\<close>

definition destroy_adapter :: "session_adapter \<Rightarrow> session_adapter" where
  "destroy_adapter a = (case a of BinaryA b \<Rightarrow> BinaryA (fst (adapter_Destroy b)) | LegacyA l \<Rightarrow> LegacyA l)"

definition handleDisconnect :: "MonitorOptions \<Rightarrow> int \<Rightarrow> string \<Rightarrow> string \<Rightarrow> Context \<Rightarrow> WsConn \<Rightarrow> Context \<times> WsConn" where
  "handleDisconnect options now sub clientId cx c =
     (let cx = cx\<lparr>cx_TrafficStats := SetEndTime now clientId (cx_TrafficStats cx)\<rparr>;
          cx = (if sub \<noteq> '''' then cx\<lparr>cx_DomainMappings := UnbindWS sub (cx_DomainMappings cx)\<rparr> else cx)
      in case tunnel_Get (cx_Container cx) (ws_ContainerID c) of
           None \<Rightarrow> (cx, c)
         | Some container \<Rightarrow>
             let (ts, listener) = tunnel_destroy (ws_ContainerID c) (cx_Container cx) in
             (cx\<lparr>cx_Container := ts\<rparr>,
              record_events
                ((if mo_Notification options then [NotifyOffline clientId container] else [])
                 @ (case ws_Adapter c of None \<Rightarrow> [] | Some _ \<Rightarrow> [DestroyedAdapter])
                 @ (case listener of None \<Rightarrow> [] | Some l \<Rightarrow> [ClosedListener l]))
                (c\<lparr>ws_Adapter := map_option (\<lambda>(r, a). (r, destroy_adapter a)) (ws_Adapter c)\<rparr>)))"

section \<open>The message loop\<close>

text \<open>
  A frame read from the socket (\<open>TextFrame None\<close> is text that is not a JSON array), a read
  error, or the authentication timer.
\<close>

datatype ws_event = BinaryFrame "byte list" | TextFrame "json list option" | ReadError | AuthTimeout

definition new_connection :: "nat \<Rightarrow> nat \<Rightarrow> string \<Rightarrow> string \<Rightarrow> WsConn" where
  "new_connection conn mu host uuid =
     \<lparr>ws_Conn = conn, ws_WriteMu = mu, ws_RequestHost = hostOnly host, ws_ContainerID = '''', ws_ClientID = '''',
      ws_Capabilities = None, ws_UseNewProtocol = False, ws_IsLegacyClient = False, ws_Adapter = None,
      ws_isAuthenticated = False, ws_subDomain = '''', ws_status = Serving, ws_out = [SentId uuid]\<rparr>"

text \<open>The loop ends: the deferred \<open>Close\<close> runs.\<close>

definition end_loop :: "WsConn \<Rightarrow> WsConn" where
  "end_loop c = record_events [ClosedConn] (c\<lparr>ws_status := Finished\<rparr>)"

text \<open>
  The new events of the adapter that concern the monitor: the handler registered for responses
  takes the callback of the id.
\<close>

fun run_response_handlers :: "out_event list \<Rightarrow> Context \<Rightarrow> WsConn \<Rightarrow> Context \<times> WsConn" where
  "run_response_handlers [] cx c = (cx, c)"
| "run_response_handlers (HandledResponse sid data # evs) cx c =
     (case split_id sid of
        None \<Rightarrow> run_response_handlers evs cx c
      | Some (tcpId, requestId) \<Rightarrow>
          (case take_callback tcpId requestId (base64Encode data) cx c of
             (cx, c) \<Rightarrow> run_response_handlers evs cx c))"
| "run_response_handlers (_ # evs) cx c = run_response_handlers evs cx c"

text \<open>Bytes for the adapter, if it is one that reads binary messages; an error is dropped.\<close>

definition adapter_bytes :: "MonitorOptions \<Rightarrow> byte list \<Rightarrow> Context \<Rightarrow> WsConn \<Rightarrow> Context \<times> WsConn" where
  "adapter_bytes options bytes cx c =
     (case ws_Adapter c of
        Some (r, BinaryA a) \<Rightarrow>
          (case HandleBinaryMessage (mo_Env options) bytes a of
             (b, res) \<Rightarrow>
               (case run_response_handlers (drop (length (ad_out a)) (ad_out b)) cx (c\<lparr>ws_Adapter := Some (r, BinaryA b)\<rparr>) of
                  (cx, c) \<Rightarrow>
                    (cx, c\<lparr>ws_status := (case res of Return \<Rightarrow> ws_status c | Raise _ \<Rightarrow> ws_status c
                       | Crash \<Rightarrow> Crashed | Blocked \<Rightarrow> Hanging | Diverges \<Rightarrow> Hanging)\<rparr>)))
      | _ \<Rightarrow> (cx, c))"

definition legacy_event :: "MonitorOptions \<Rightarrow> string \<Rightarrow> json \<Rightarrow> WsConn \<Rightarrow> WsConn" where
  "legacy_event options event payload c =
     (case ws_Adapter c of
        Some (r, LegacyA a) \<Rightarrow> c\<lparr>ws_Adapter := Some (r, LegacyA (HandleEvent (en_codec (mo_Env options)) event payload a))\<rparr>
      | _ \<Rightarrow> c)"

definition run_authenticate :: "MonitorOptions \<Rightarrow> Fresh \<Rightarrow> json \<Rightarrow> Context \<Rightarrow> WsConn \<Rightarrow> Context \<times> WsConn" where
  "run_authenticate options fr payload cx c =
     (case handleAuthenticate options fr payload cx c of
        (cx, c, Ok _) \<Rightarrow> (cx, c\<lparr>ws_isAuthenticated := True\<rparr>)
      | (cx, c, Err _) \<Rightarrow> (cx, end_loop c)
      | (cx, c, Panic) \<Rightarrow> (cx, c\<lparr>ws_status := Crashed\<rparr>))"

definition run_response :: "MonitorOptions \<Rightarrow> json \<Rightarrow> Context \<Rightarrow> WsConn \<Rightarrow> Context \<times> WsConn" where
  "run_response options payload cx c =
     (if ws_isAuthenticated c then
        (case handleResponse options payload cx c of
           (cx, c, returned) \<Rightarrow> (cx, if returned then c else c\<lparr>ws_status := Crashed\<rparr>))
      else (cx, c))"

definition message_payload :: "json list \<Rightarrow> json" where
  "message_payload msg = (if length msg > 1 then msg ! 1 else JNull)"

definition run_request :: "MonitorOptions \<Rightarrow> json \<Rightarrow> Context \<Rightarrow> WsConn \<Rightarrow> Context \<times> WsConn" where
  "run_request options payload cx c =
     (case payload of
        JObj m \<Rightarrow>
          if ws_isAuthenticated c \<and> get_string m ''data'' \<noteq> '''' then
            (case base64Decode (get_string m ''data'') of
               None \<Rightarrow> (cx, c) | Some messageBuffer \<Rightarrow> adapter_bytes options messageBuffer cx c)
          else (cx, c)
      | _ \<Rightarrow> (cx, c))"

text \<open>A text frame on \<open>/_/monitor\<close>.\<close>

definition monitor_text :: "MonitorOptions \<Rightarrow> Fresh \<Rightarrow> string \<Rightarrow> json \<Rightarrow> Context \<Rightarrow> WsConn \<Rightarrow> Context \<times> WsConn" where
  "monitor_text options fr event payload cx c =
     (if event = ''ping'' then (cx, record_events [SentPong] c)
      else if event = ''authenticate'' then run_authenticate options fr payload cx c
      else if event = ''response'' then run_response options payload cx c
      else if event = ''request'' then run_request options payload cx c
      else if event = ''data:channel:ready'' then
        (case payload of
           JObj m \<Rightarrow> if get_string m ''streamId'' \<noteq> ''''
             then (cx, record_events [DataChannelReady (get_string m ''streamId'')] c) else (cx, c)
         | _ \<Rightarrow> (cx, c))
      else (cx, c))"

text \<open>A text frame on \<open>/_client\<close>.\<close>

definition legacy_text :: "MonitorOptions \<Rightarrow> Fresh \<Rightarrow> string \<Rightarrow> json \<Rightarrow> Context \<Rightarrow> WsConn \<Rightarrow> Context \<times> WsConn" where
  "legacy_text options fr event payload cx c =
     (if event = ''ping'' then (cx, record_events [SentPong] c)
      else if event = ''authenticate'' then run_authenticate options fr payload cx c
      else if event = ''response'' then run_response options payload cx c
      else if event = ''request'' \<or> event = ''tcp:data'' then
        (cx, if ws_isAuthenticated c then legacy_event options event payload c else c)
      else (cx, c))"

definition on_text ::
    "(string \<Rightarrow> json \<Rightarrow> Context \<Rightarrow> WsConn \<Rightarrow> Context \<times> WsConn) \<Rightarrow> json list option \<Rightarrow> Context \<Rightarrow> WsConn \<Rightarrow> Context \<times> WsConn" where
  "on_text handle msg cx c =
     (case msg of
        Some (JStr event # rest) \<Rightarrow> handle event (message_payload (JStr event # rest)) cx c
      | _ \<Rightarrow> (cx, c))"

text \<open>
  One turn of the loop. The timer closes the socket of a connection that is not authenticated,
  after which the next read fails; \<open>run_authenticate\<close> stops it first.
\<close>

definition on_read_error :: "MonitorOptions \<Rightarrow> Fresh \<Rightarrow> Context \<Rightarrow> WsConn \<Rightarrow> Context \<times> WsConn" where
  "on_read_error options fr cx c =
     (case (if ws_isAuthenticated c then handleDisconnect options (fr_Now fr) (ws_subDomain c) (ws_ClientID c) cx c
            else (cx, c)) of (cx, c) \<Rightarrow> (cx, end_loop c))"

definition HandleConnection :: "MonitorOptions \<Rightarrow> Fresh \<Rightarrow> ws_event \<Rightarrow> Context \<Rightarrow> WsConn \<Rightarrow> Context \<times> WsConn" where
  "HandleConnection options fr ev cx c =
     (if ws_status c \<noteq> Serving then (cx, c)
      else case ev of
        ReadError \<Rightarrow> on_read_error options fr cx c
      | AuthTimeout \<Rightarrow> (cx, if ws_isAuthenticated c then c else record_events [ClosedConn] c)
      | BinaryFrame bytes \<Rightarrow> if ws_isAuthenticated c then adapter_bytes options bytes cx c else (cx, c)
      | TextFrame msg \<Rightarrow> on_text (monitor_text options fr) msg cx c)"

definition HandleConnectionLegacy :: "MonitorOptions \<Rightarrow> Fresh \<Rightarrow> ws_event \<Rightarrow> Context \<Rightarrow> WsConn \<Rightarrow> Context \<times> WsConn" where
  "HandleConnectionLegacy options fr ev cx c =
     (if ws_status c \<noteq> Serving then (cx, c)
      else case ev of
        ReadError \<Rightarrow> on_read_error options fr cx c
      | AuthTimeout \<Rightarrow> (cx, if ws_isAuthenticated c then c else record_events [ClosedConn] c)
      | BinaryFrame bytes \<Rightarrow> (cx, c)
      | TextFrame msg \<Rightarrow> on_text (legacy_text options fr) msg cx c)"

end
