(* ===== verification/MonitorLaws.thy ===== *)
theory MonitorLaws
  imports Monitor ConfigLaws
begin

text \<open>
  What the monitor channel promises: who is let in, what a refused client changes, how responses
  find their requests, how long a public session lasts, and what can bring the server down.
\<close>

named_theorems session_simps \<open>projections of the monitor's state updates\<close>

lemma record_events_simps [simp]:
  "ws_Conn (record_events evs c) = ws_Conn c" "ws_ContainerID (record_events evs c) = ws_ContainerID c"
  "ws_ClientID (record_events evs c) = ws_ClientID c" "ws_Adapter (record_events evs c) = ws_Adapter c"
  "ws_Capabilities (record_events evs c) = ws_Capabilities c" "ws_UseNewProtocol (record_events evs c) = ws_UseNewProtocol c"
  "ws_isAuthenticated (record_events evs c) = ws_isAuthenticated c" "ws_subDomain (record_events evs c) = ws_subDomain c"
  "ws_status (record_events evs c) = ws_status c" "ws_out (record_events evs c) = ws_out c @ evs"
  "ws_WriteMu (record_events evs c) = ws_WriteMu c" "ws_RequestHost (record_events evs c) = ws_RequestHost c"
  by (simp_all add: record_events_def)

lemma with_protocol_simps [simp]:
  "ws_Conn (with_protocol fr auth caps c) = ws_Conn c" "ws_ContainerID (with_protocol fr auth caps c) = ws_ContainerID c"
  "ws_ClientID (with_protocol fr auth caps c) = ws_ClientID c" "ws_subDomain (with_protocol fr auth caps c) = ws_subDomain c"
  "ws_isAuthenticated (with_protocol fr auth caps c) = ws_isAuthenticated c"
  "ws_status (with_protocol fr auth caps c) = ws_status c" "ws_out (with_protocol fr auth caps c) = ws_out c"
  "ws_WriteMu (with_protocol fr auth caps c) = ws_WriteMu c"
  by (simp_all add: with_protocol_def)

section \<open>What opening a tunnel does\<close>

lemma set_or_keep_other: "j \<noteq> i \<Longrightarrow> set_or_keep i key v ts j = ts j"
  by (auto simp: set_or_keep_def tunnel_Set_def outcome_simps split: outcome.split option.splits)

lemma set_or_keep_same: "ts i = Some m \<Longrightarrow> \<exists>m'. set_or_keep i key v ts i = Some m' \<and> tm_WSSocket m' = tm_WSSocket m
    \<and> tm_SourceServer m' = (if key = ''sourceServer'' then tm_SourceServer m' else tm_SourceServer m)"
  by (auto simp: set_or_keep_def tunnel_Set_def set_field_def outcome_simps split: outcome.split option.splits any_value.splits)

lemma create_container_simps [simp]:
  "cx_DomainMappings (create_container op fr auth c cx) = cx_DomainMappings cx"
  "cx_Callbacks (create_container op fr auth c cx) = cx_Callbacks cx"
  "cx_TrafficStats (create_container op fr auth c cx) = cx_TrafficStats cx"
  by (simp_all add: create_container_def Let_def)

lemma create_container_other:
  "j \<noteq> fr_ContainerUuid fr \<Longrightarrow> cx_Container (create_container op fr auth c cx) j = cx_Container cx j"
  by (simp add: create_container_def Let_def set_or_keep_other tunnel_Create_def)

lemma create_container_own:
  "\<exists>m. cx_Container (create_container op fr auth c cx) (fr_ContainerUuid fr) = Some m
     \<and> tm_WSSocket m = ws_Conn c \<and> tm_SourceServer m = None"
  by (simp add: create_container_def Let_def set_or_keep_def tunnel_Set_def tunnel_Create_def set_field_def)

lemma open_tunnel_cases:
  assumes "open_tunnel op fr auth res cx c = (cx', c', r)"
  obtains (tcp) "at_Type auth = ''tcp''" "r = Ok ()" "cx' = create_container op fr auth c cx" "c' = c"
  | (http) hosts sub matched where "at_Type auth = ''http''" "r = Ok ()"
      "at_SubDomain auth = '''' \<or> \<not> domain_Has (cx_DomainMappings cx) (at_SubDomain auth)"
      "BindWSWithMetadata (fr_DomainUuid fr) (Some (ws_Conn c)) (at_SubDomain auth) (at_ClientId auth)
         (Some (fr_AdapterRef fr)) (ws_UseNewProtocol c) matched (fr_ContainerUuid fr) (cx_DomainMappings cx) = (hosts, sub)"
      "cx' = (create_container op fr auth c cx)\<lparr>cx_DomainMappings := hosts\<rparr>" "c' = c\<lparr>ws_subDomain := sub\<rparr>"
  | (used) "at_Type auth = ''http''" "r = Err SubDomainUsed" "at_SubDomain auth \<noteq> ''''"
      "domain_Has (cx_DomainMappings cx) (at_SubDomain auth)" "cx' = create_container op fr auth c cx" "c' = c"
  | (coordinator) "TrimSpace (at_Type auth) = ''''" "r = Ok ()" "cx' = cx" "c' = c"
  | (unknown) "r = Err (UnknownTunnelType (at_Type auth))" "cx' = cx" "c' = c"
      "at_Type auth \<noteq> ''tcp''" "at_Type auth \<noteq> ''http''" "TrimSpace (at_Type auth) \<noteq> ''''"
proof -
  let ?http = "at_Type auth = ''http''"
  let ?used = "at_SubDomain auth \<noteq> '''' \<and> domain_Has (cx_DomainMappings cx) (at_SubDomain auth)"
  consider "at_Type auth = ''tcp''" | "?http" "?used" | "?http" "\<not> ?used"
    | "at_Type auth \<noteq> ''tcp''" "\<not> ?http" "TrimSpace (at_Type auth) = ''''"
    | "at_Type auth \<noteq> ''tcp''" "\<not> ?http" "TrimSpace (at_Type auth) \<noteq> ''''" by blast
  then show ?thesis
  proof cases
    case 1
    show ?thesis by (rule tcp) (use 1 assms in \<open>auto simp: open_tunnel_def\<close>)
  next
    case 2
    show ?thesis by (rule used) (use 2 assms in \<open>auto simp: open_tunnel_def Let_def\<close>)
  next
    case 3
    define matched where "matched = mergeHTTPIngressEdgeAuth (resolveMatchedHTTPAuths auth (tr_Config res)) auth"
    obtain hosts sub where b: "BindWSWithMetadata (fr_DomainUuid fr) (Some (ws_Conn c)) (at_SubDomain auth)
        (at_ClientId auth) (Some (fr_AdapterRef fr)) (ws_UseNewProtocol c) matched (fr_ContainerUuid fr)
        (cx_DomainMappings cx) = (hosts, sub)" by force
    have "open_tunnel op fr auth res cx c
        = ((create_container op fr auth c cx)\<lparr>cx_DomainMappings := hosts\<rparr>, c\<lparr>ws_subDomain := sub\<rparr>, Ok ())"
      using 3 b by (auto simp: open_tunnel_def Let_def matched_def [symmetric])
    with assms 3 b show ?thesis by (intro http [of matched hosts sub]) auto
  next
    case 4
    show ?thesis by (rule coordinator) (use 4 assms in \<open>auto simp: open_tunnel_def\<close>)
  next
    case 5
    show ?thesis by (rule unknown) (use 5 assms in \<open>auto simp: open_tunnel_def\<close>)
  qed
qed

lemma negotiateCapabilities_not_Err: "negotiateCapabilities caps \<noteq> Err e"
proof (cases caps)
  case (Some c)
  then show ?thesis by (simp only: negotiate_cases) simp
qed (simp add: negotiateCapabilities_def)

definition only_warnings :: "session_event list \<Rightarrow> bool" where
  "only_warnings evs \<longleftrightarrow> list_all (\<lambda>e. case e of SentWarning _ \<Rightarrow> True | _ \<Rightarrow> False) evs"

text \<open>The authentication as a whole, as one of its outcomes.\<close>

lemma handleAuthenticate_cases:
  assumes "handleAuthenticate op fr payload cx c = (cx', c', r)"
  obtains (bad) "Unmarshal_Authentication payload = None" "r = Err BadPayload" "cx' = cx" "c' = c"
  | (refused) auth e evs where "Unmarshal_Authentication payload = Some auth" "check_authentication op auth = Err e"
      "r = Err e" "cx' = cx" "c' = record_events (evs @ [SentAuthFailure e]) c" "only_warnings evs"
  | (panic) auth evs where "Unmarshal_Authentication payload = Some auth" "r = Panic" "cx' = cx" "c' = record_events evs c"
      "check_authentication op auth = Panic
        \<or> (\<exists>res. check_authentication op auth = Ok res \<and> negotiateCapabilities (at_Capabilities auth) = Panic)" "only_warnings evs"
  | (opened) auth res caps evs c1 cx2 c2 where "Unmarshal_Authentication payload = Some auth"
      "check_authentication op auth = Ok res" "negotiateCapabilities (at_Capabilities auth) = Ok caps"
      "c1 = with_protocol fr auth caps (record_events evs c)"
      "open_tunnel op fr (auth\<lparr>at_ClientId := client_id fr auth\<rparr>) res cx c1 = (cx2, c2, Ok ())" "r = Ok ()"
      "finish_authentication op fr (auth\<lparr>at_ClientId := client_id fr auth\<rparr>) res caps cx2 c2 = (cx', c')" "only_warnings evs"
  | (failed) auth res caps evs c1 c2 e where "Unmarshal_Authentication payload = Some auth"
      "check_authentication op auth = Ok res" "negotiateCapabilities (at_Capabilities auth) = Ok caps"
      "c1 = with_protocol fr auth caps (record_events evs c)"
      "open_tunnel op fr (auth\<lparr>at_ClientId := client_id fr auth\<rparr>) res cx c1 = (cx', c2, Err e)" "r = Err e"
      "c' = record_events [SentAuthFailure e] c2" "only_warnings evs"
proof (cases "Unmarshal_Authentication payload")
  case None
  with assms bad show ?thesis by (simp add: handleAuthenticate_def)
next
  case (Some auth)
  define evs where "evs = (if IsVersionGreaterOrEqual (at_Version auth) (mo_Version op) then []
                else [SentWarning (OldClient (at_Version auth) (mo_Version op))])"
  have warn: "only_warnings evs" by (simp add: evs_def only_warnings_def)
  note def = assms [unfolded handleAuthenticate_def Some option.case Let_def evs_def [symmetric]]
  show ?thesis
  proof (cases "check_authentication op auth")
    case (Err e)
    with def Some warn refused [of auth e evs] show ?thesis by (simp add: record_events_def)
  next
    case Panic
    with def Some warn panic [of auth evs] show ?thesis by simp
  next
    case (Ok res)
    show ?thesis
    proof (cases "negotiateCapabilities (at_Capabilities auth)")
      case Panic
      with Ok def Some warn panic [of auth evs] show ?thesis by simp
    next
      case (Err u)
      then show ?thesis
        by (simp add: negotiateCapabilities_not_Err)
    next
      case caps: (Ok caps)
      define c1 where "c1 = with_protocol fr auth caps (record_events evs c)"
      obtain cx2 c2 w where w: "open_tunnel op fr (auth\<lparr>at_ClientId := client_id fr auth\<rparr>) res cx c1 = (cx2, c2, w)"
        by (metis prod_cases3)
      show ?thesis
      proof (cases w)
        case wOk: (Ok u)
        obtain cx3 c3 where fin: "finish_authentication op fr (auth\<lparr>at_ClientId := client_id fr auth\<rparr>) res caps cx2 c2 = (cx3, c3)"
          by force
        show ?thesis
        proof (rule opened)
          show "open_tunnel op fr (auth\<lparr>at_ClientId := client_id fr auth\<rparr>) res cx c1 = (cx2, c2, Ok ())"
            using w wOk by simp
        qed (use warn Some Ok caps c1_def def w wOk fin in simp_all)
      next
        case wErr: (Err e)
        show ?thesis
          by (rule failed [of auth res caps c1 evs c2 e]) (use warn Some Ok caps c1_def def w wErr in simp_all)
      next
        case wPanic: Panic
        with w show ?thesis by (auto elim: open_tunnel_cases)
      qed
    qed
  qed
qed

section \<open>Steps that leave the registries alone\<close>

text \<open>Everything but authentication and disconnection only touches callbacks, the adapter and the trace.\<close>

definition quiet_step :: "Context \<Rightarrow> WsConn \<Rightarrow> Context \<Rightarrow> WsConn \<Rightarrow> bool" where
  "quiet_step cx c cx' c' \<longleftrightarrow>
     cx_DomainMappings cx' = cx_DomainMappings cx \<and> cx_Container cx' = cx_Container cx
     \<and> cx_TrafficStats cx' = cx_TrafficStats cx \<and> ws_Conn c' = ws_Conn c \<and> ws_ContainerID c' = ws_ContainerID c
     \<and> ws_ClientID c' = ws_ClientID c \<and> ws_isAuthenticated c' = ws_isAuthenticated c \<and> ws_subDomain c' = ws_subDomain c"

lemma quiet_refl [simp]: "quiet_step cx c cx c"
  by (simp add: quiet_step_def)

lemma quiet_record [simp]: "quiet_step cx c cx (record_events evs c)"
  by (simp add: quiet_step_def)

lemma quiet_trans: "quiet_step cx c cx1 c1 \<Longrightarrow> quiet_step cx1 c1 cx2 c2 \<Longrightarrow> quiet_step cx c cx2 c2"
  by (simp add: quiet_step_def)

lemma quiet_status: "quiet_step cx c cx' c' \<Longrightarrow> quiet_step cx c cx' (c'\<lparr>ws_status := s\<rparr>)"
  by (simp add: quiet_step_def)

lemma quiet_adapter: "quiet_step cx (c\<lparr>ws_Adapter := a\<rparr>) cx' c' \<Longrightarrow> quiet_step cx c cx' c'"
  by (simp add: quiet_step_def)

lemma quiet_take_callback: "take_callback t r d cx c = (cx', c') \<Longrightarrow> quiet_step cx c cx' c'"
  by (auto simp: take_callback_def quiet_step_def split: prod.splits option.splits)

lemma quiet_response_handlers: "run_response_handlers evs cx c = (cx', c') \<Longrightarrow> quiet_step cx c cx' c'"
  by (induction evs cx c arbitrary: cx' c' rule: run_response_handlers.induct)
    (auto split: option.splits prod.splits dest: quiet_take_callback intro: quiet_trans)

lemma quiet_adapter_bytes: "adapter_bytes op bytes cx c = (cx', c') \<Longrightarrow> quiet_step cx c cx' c'"
  by (auto simp: adapter_bytes_def split: option.splits prod.splits session_adapter.splits
      dest!: quiet_response_handlers intro!: quiet_status intro: quiet_adapter)

lemma quiet_handleResponse: "handleResponse op payload cx c = (cx', c', b) \<Longrightarrow> quiet_step cx c cx' c'"
  by (auto simp: handleResponse_def handle_binary_response_def handle_legacy_response_def Let_def
      split: option.splits prod.splits outcome.splits if_splits dest: quiet_take_callback)

lemma quiet_run_response: "run_response op payload cx c = (cx', c') \<Longrightarrow> quiet_step cx c cx' c'"
  by (auto simp: run_response_def split: if_splits prod.splits dest!: quiet_handleResponse intro: quiet_status)

lemma quiet_run_request: "run_request op payload cx c = (cx', c') \<Longrightarrow> quiet_step cx c cx' c'"
  by (auto simp: run_request_def split: json.splits if_splits option.splits dest: quiet_adapter_bytes)

lemma quiet_legacy_event: "quiet_step cx c cx (legacy_event op event payload c)"
  by (auto simp: legacy_event_def quiet_step_def split: option.splits prod.splits session_adapter.splits)

lemmas quiet_steps = quiet_run_response quiet_run_request quiet_adapter_bytes

text \<open>The two loops as one, and a turn as one of three kinds.\<close>

definition serve_event :: "bool \<Rightarrow> MonitorOptions \<Rightarrow> Fresh \<Rightarrow> ws_event \<Rightarrow> Context \<Rightarrow> WsConn \<Rightarrow> Context \<times> WsConn" where
  "serve_event legacy = (if legacy then HandleConnectionLegacy else HandleConnection)"

definition asks_authentication :: "ws_event \<Rightarrow> bool" where
  "asks_authentication ev = (case ev of TextFrame (Some (JStr e # _)) \<Rightarrow> e = ''authenticate'' | _ \<Rightarrow> False)"

definition event_payload :: "ws_event \<Rightarrow> json" where
  "event_payload ev = (case ev of TextFrame (Some msg) \<Rightarrow> message_payload msg | _ \<Rightarrow> JNull)"

lemma quiet_data_ready:
  "(case payload of
      JObj m \<Rightarrow> if get_string m ''streamId'' \<noteq> ''''
        then (cx, record_events [DataChannelReady (get_string m ''streamId'')] c) else (cx, c)
    | _ \<Rightarrow> (cx, c)) = (cx', c') \<Longrightarrow> quiet_step cx c cx' c'"
  by (cases payload) (auto split: if_splits)

lemma quiet_monitor_text:
  assumes "event \<noteq> ''authenticate''" "monitor_text op fr event payload cx c = (cx', c')"
  shows "quiet_step cx c cx' c'"
proof -
  note turn = assms(2) [unfolded monitor_text_def if_not_P [OF assms(1)]]
  consider "event = ''ping''" | "event \<noteq> ''ping''" "event = ''response''"
    | "event \<noteq> ''ping''" "event \<noteq> ''response''" "event = ''request''"
    | "event \<noteq> ''ping''" "event \<noteq> ''response''" "event \<noteq> ''request''" by blast
  then show ?thesis
  proof cases
    case 1
    show ?thesis using turn [unfolded if_P [OF 1]] by auto
  next
    case 2
    show ?thesis by (rule quiet_run_response [OF turn [unfolded if_not_P [OF 2(1)] if_P [OF 2(2)]]])
  next
    case 3
    show ?thesis by (rule quiet_run_request [OF turn [unfolded if_not_P [OF 3(1)] if_not_P [OF 3(2)] if_P [OF 3(3)]]])
  next
    case 4
    note rest = turn [unfolded if_not_P [OF 4(1)] if_not_P [OF 4(2)] if_not_P [OF 4(3)]]
    show ?thesis
    proof (cases "event = ''data:channel:ready''")
      case True
      show ?thesis by (rule quiet_data_ready [OF rest [unfolded if_P [OF True]]])
    qed (use rest in auto)
  qed
qed

lemma quiet_legacy_text:
  assumes "event \<noteq> ''authenticate''" "legacy_text op fr event payload cx c = (cx', c')"
  shows "quiet_step cx c cx' c'"
proof -
  note turn = assms(2) [unfolded legacy_text_def if_not_P [OF assms(1)]]
  consider "event = ''ping''" | "event \<noteq> ''ping''" "event = ''response''"
    | "event \<noteq> ''ping''" "event \<noteq> ''response''" by blast
  then show ?thesis
  proof cases
    case 1
    show ?thesis using turn [unfolded if_P [OF 1]] by auto
  next
    case 2
    show ?thesis by (rule quiet_run_response [OF turn [unfolded if_not_P [OF 2(1)] if_P [OF 2(2)]]])
  next
    case 3
    show ?thesis using turn [unfolded if_not_P [OF 3(1)] if_not_P [OF 3(2)]] quiet_legacy_event
      by (cases "event = ''request'' \<or> event = ''tcp:data''"; cases "ws_isAuthenticated c") auto
  qed
qed

lemmas quiet_text = quiet_monitor_text quiet_legacy_text

lemma serve_event_cases:
  assumes "serve_event legacy op fr ev cx c = (cx', c')"
  obtains (idle) "ws_status c \<noteq> Serving" "cx' = cx" "c' = c"
  | (quiet) "ws_status c = Serving" "quiet_step cx c cx' c'" "\<not> asks_authentication ev" "ev \<noteq> ReadError"
  | (auth) "ws_status c = Serving" "asks_authentication ev" "run_authenticate op fr (event_payload ev) cx c = (cx', c')"
  | (gone) "ws_status c = Serving" "ev = ReadError" "on_read_error op fr cx c = (cx', c')"
proof (cases "ws_status c = Serving")
  case False
  with assms idle show ?thesis
    by (auto simp: serve_event_def HandleConnection_def HandleConnectionLegacy_def split: if_splits)
next
  case True
  show ?thesis
  proof (cases ev)
    case ReadError
    with assms True gone show ?thesis
      by (auto simp: serve_event_def HandleConnection_def HandleConnectionLegacy_def split: if_splits)
  next
    case AuthTimeout
    with assms True have "quiet_step cx c cx' c'"
      by (auto simp: serve_event_def HandleConnection_def HandleConnectionLegacy_def split: if_splits)
    with True AuthTimeout quiet show ?thesis by (simp add: asks_authentication_def)
  next
    case (BinaryFrame bytes)
    with assms True have "quiet_step cx c cx' c'"
      by (auto simp: serve_event_def HandleConnection_def HandleConnectionLegacy_def split: if_splits dest: quiet_steps)
    with True BinaryFrame quiet show ?thesis by (simp add: asks_authentication_def)
  next
    case (TextFrame msg)
    show ?thesis
    proof (cases "asks_authentication ev")
      case ask: True
      then obtain rest where msg: "msg = Some (JStr ''authenticate'' # rest)"
        using TextFrame by (auto simp: asks_authentication_def split: option.splits list.splits json.splits)
      with assms True TextFrame have "run_authenticate op fr (event_payload ev) cx c = (cx', c')"
        by (simp add: serve_event_def HandleConnection_def HandleConnectionLegacy_def on_text_def monitor_text_def
            legacy_text_def event_payload_def split: if_splits)
      with True ask auth show ?thesis by blast
    next
      case other: False
      have "quiet_step cx c cx' c'"
      proof (cases "\<exists>e rest. msg = Some (JStr e # rest)")
        case True
        then obtain e rest where e: "msg = Some (JStr e # rest)" by blast
        with other TextFrame have "e \<noteq> ''authenticate''" by (simp add: asks_authentication_def)
        from quiet_text [OF this] assms \<open>ws_status c = Serving\<close> TextFrame e show ?thesis
          by (auto simp: serve_event_def HandleConnection_def HandleConnectionLegacy_def on_text_def split: if_splits)
      next
        case False
        with assms \<open>ws_status c = Serving\<close> TextFrame show ?thesis
          by (auto simp: serve_event_def HandleConnection_def HandleConnectionLegacy_def on_text_def
              split: if_splits option.splits list.splits json.splits)
      qed
      with True other TextFrame quiet show ?thesis by simp
    qed
  qed
qed

end
