(* ===== verification/SessionLaws.thy ===== *)
theory SessionLaws
  imports MonitorLaws TunnelLaws
begin

text \<open>
  Sessions on the monitor channel: a session is authenticated only by a signature made with a
  configured secret; a refused one changes nothing but a leaked container; sessions that run side by side
  keep their own subdomains and tunnels; and a session that ends leaves nothing behind.
\<close>

section \<open>The effect of an authentication on the registries\<close>

lemma finish_effect:
  assumes "finish_authentication op fr auth res caps cx c = (cx', c')"
  shows "cx_DomainMappings cx' = cx_DomainMappings cx" "cx_Container cx' = cx_Container cx"
    "cx_Callbacks cx' = cx_Callbacks cx"
    "cx_TrafficStats cx' = SetStartTime (fr_Now fr) (at_ClientId auth) (cx_TrafficStats cx)"
    "ws_Conn c' = ws_Conn c" "ws_subDomain c' = ws_subDomain c" "ws_status c' = ws_status c"
    "ws_isAuthenticated c' = ws_isAuthenticated c" "ws_ContainerID c' = fr_ContainerUuid fr" "ws_ClientID c' = at_ClientId auth"
  using assms by (auto simp: finish_authentication_def Let_def)

text \<open>The keys of the tunnels: which container belongs to which socket.\<close>

definition owners :: "Context \<Rightarrow> string \<Rightarrow> nat option" where
  "owners cx i = map_option tm_WSSocket (cx_Container cx i)"

text \<open>
  \<open>binding\<close> is what a success adds: a subdomain that nobody had, for the socket of the session,
  or nothing.
\<close>

definition binding :: "Fresh \<Rightarrow> Context \<Rightarrow> WsConn \<Rightarrow> Context \<Rightarrow> WsConn \<Rightarrow> bool" where
  "binding fr cx c cx' c' \<longleftrightarrow>
     (cx_DomainMappings cx' = cx_DomainMappings cx \<and> ws_subDomain c' = ws_subDomain c)
     \<or> (\<exists>m. cx_DomainMappings cx' = (cx_DomainMappings cx)(ws_subDomain c' \<mapsto> m) \<and> dm_WSSocket m = Some (ws_Conn c)
          \<and> ToLower (ws_subDomain c') = ws_subDomain c' \<and> (fr_DomainUuid fr \<noteq> '''' \<longrightarrow> ws_subDomain c' \<noteq> '''')
          \<and> (cx_DomainMappings cx (ws_subDomain c') = None \<or> ws_subDomain c' = ToLower (take 8 (fr_DomainUuid fr))))"

lemma lower_char_idem [simp]: "lower_char (lower_char ch) = lower_char ch"
proof -
  have "(of_char (char_of (n + 32) :: char) :: nat) = n + 32" if "65 \<le> n" "n \<le> 90" for n
    using that by (simp add: of_char_of take_bit_eq_mod)
  then show ?thesis by (auto simp: lower_char_def Let_def)
qed

lemma ToLower_idem [simp]: "ToLower (ToLower s) = ToLower s"
  by (simp add: ToLower_def comp_def)

lemma open_effect:
  assumes "open_tunnel op fr auth res cx c = (cx', c', Ok ())"
  shows "binding fr cx c cx' c'" "ws_Conn c' = ws_Conn c" "cx_Callbacks cx' = cx_Callbacks cx"
    "\<And>j. j \<noteq> fr_ContainerUuid fr \<Longrightarrow> cx_Container cx' j = cx_Container cx j"
    "cx_Container cx' (fr_ContainerUuid fr) = cx_Container cx (fr_ContainerUuid fr)
       \<or> owners cx' (fr_ContainerUuid fr) = Some (ws_Conn c)"
    "ws_status c' = ws_status c"
proof -
  from create_container_own [of op fr auth c cx] have own: "owners (create_container op fr auth c cx) (fr_ContainerUuid fr) = Some (ws_Conn c)"
    by (auto simp: owners_def)
  from assms have "binding fr cx c cx' c' \<and> ws_Conn c' = ws_Conn c \<and> cx_Callbacks cx' = cx_Callbacks cx
    \<and> (\<forall>j. j \<noteq> fr_ContainerUuid fr \<longrightarrow> cx_Container cx' j = cx_Container cx j)
    \<and> (cx_Container cx' (fr_ContainerUuid fr) = cx_Container cx (fr_ContainerUuid fr)
       \<or> owners cx' (fr_ContainerUuid fr) = Some (ws_Conn c)) \<and> ws_status c' = ws_status c"
  proof (cases rule: open_tunnel_cases)
    case tcp
    with own show ?thesis by (simp add: binding_def create_container_other)
  next
    case (http hosts sub matched)
    have "binding fr cx c cx' c'"
      using http(3,4) unfolding http(5,6)
      by (auto simp: binding_def BindWSWithMetadata_def domain_Has_def Let_def ToLower_def split: if_splits)
    with http(5,6) own show ?thesis by (simp add: create_container_other owners_def)
  qed (auto simp: binding_def)
  then show "binding fr cx c cx' c'" "ws_Conn c' = ws_Conn c" "cx_Callbacks cx' = cx_Callbacks cx"
    "\<And>j. j \<noteq> fr_ContainerUuid fr \<Longrightarrow> cx_Container cx' j = cx_Container cx j"
    "cx_Container cx' (fr_ContainerUuid fr) = cx_Container cx (fr_ContainerUuid fr)
       \<or> owners cx' (fr_ContainerUuid fr) = Some (ws_Conn c)"
    "ws_status c' = ws_status c"
    by auto
qed

text \<open>What an \<open>authenticate\<close> message does, accepted or not.\<close>

lemma run_authenticate_effect:
  assumes "run_authenticate op fr payload cx c = (cx', c')" "ws_status c = Serving"
  shows "(ws_status c' = Serving \<longrightarrow> ws_isAuthenticated c' \<and> ws_ContainerID c' = fr_ContainerUuid fr \<and> binding fr cx c cx' c')
    \<and> (ws_status c' \<noteq> Serving \<longrightarrow> ws_isAuthenticated c' = ws_isAuthenticated c \<and> cx_DomainMappings cx' = cx_DomainMappings cx)
    \<and> ws_Conn c' = ws_Conn c \<and> (\<forall>j. j \<noteq> fr_ContainerUuid fr \<longrightarrow> cx_Container cx' j = cx_Container cx j)
    \<and> (cx_Container cx' (fr_ContainerUuid fr) = cx_Container cx (fr_ContainerUuid fr)
       \<or> owners cx' (fr_ContainerUuid fr) = Some (ws_Conn c))"
proof -
  obtain cx1 c1 r where h: "handleAuthenticate op fr payload cx c = (cx1, c1, r)" by (metis prod_cases3)
  show ?thesis
    using h
  proof (cases rule: handleAuthenticate_cases)
    case (opened auth res caps evs c1' cx2 c2)
    note op = open_effect [OF opened(5)] and fin = finish_effect [OF opened(7)]
    have eff: "cx' = cx1" "c' = c1\<lparr>ws_isAuthenticated := True\<rparr>"
      using assms(1) h opened(6) by (auto simp: run_authenticate_def)
    have "binding fr cx c cx' c'"
      using op(1) fin(1,6) eff opened(4) by (simp add: binding_def)
    with op fin eff opened(4) assms(2) show ?thesis by (simp add: owners_def)
  next
    case (failed auth res caps evs c1' c2 e)
    have eff: "cx' = cx1" "c' = end_loop c1" using assms(1) h failed(6) by (auto simp: run_authenticate_def)
    have "cx_DomainMappings cx1 = cx_DomainMappings cx \<and> ws_Conn c2 = ws_Conn c1'
      \<and> ws_isAuthenticated c2 = ws_isAuthenticated c1' \<and> (\<forall>j. j \<noteq> fr_ContainerUuid fr \<longrightarrow> cx_Container cx1 j = cx_Container cx j)
      \<and> (cx_Container cx1 (fr_ContainerUuid fr) = cx_Container cx (fr_ContainerUuid fr)
         \<or> owners cx1 (fr_ContainerUuid fr) = Some (ws_Conn c1'))"
      using failed(5) create_container_own [of op fr "auth\<lparr>at_ClientId := client_id fr auth\<rparr>" c1' cx]
      by (cases rule: open_tunnel_cases) (auto simp: create_container_other owners_def)
    with eff failed(4,7) show ?thesis by (simp add: end_loop_def)
  next
    case bad
    then show ?thesis using assms(1) h by (auto simp: run_authenticate_def end_loop_def)
  next
    case (refused auth e evs)
    then show ?thesis using assms(1) h by (auto simp: run_authenticate_def end_loop_def)
  next
    case (panic auth evs)
    then show ?thesis using assms(1) h by (auto simp: run_authenticate_def)
  qed
qed

section \<open>Who is let in\<close>

text \<open>The secret the configuration holds for what an authentication claims to be.\<close>

definition configured_secret :: "FileConfig option \<Rightarrow> Authentication \<Rightarrow> string \<Rightarrow> bool" where
  "configured_secret cfg auth secret \<longleftrightarrow>
     (if at_AuthType auth = ''public'' then secret = ''public'' \<and> at_Type auth = ''http'' \<and> at_SubDomain auth = ''''
      else \<exists>c. cfg = Some c \<and>
        (if at_AuthType auth = ''credentials''
         then \<exists>k \<in> set (fc_Clients c). cc_ClientID k = at_ClientId auth \<and> cc_ClientSecret k = secret
         else fc_Token c = secret))"

definition signed_with :: "(byte list \<Rightarrow> byte list \<Rightarrow> byte list) \<Rightarrow> string \<Rightarrow> Authentication \<Rightarrow> bool" where
  "signed_with mac secret auth \<longleftrightarrow> HMACSHA512 mac (int_text (at_Timestamp auth)) secret = at_Signature auth"

lemma check_authentication_Ok:
  assumes "check_authentication op auth = Ok res" "mo_Token op = CreateGetToken cfg v"
  shows "tr_Token res \<noteq> ''''" "signed_with (mo_MAC op) (tr_Token res) auth" "configured_secret cfg auth (tr_Token res)"
proof -
  let ?t = "if at_AuthType auth = '''' then ''token'' else at_AuthType auth"
  have token: "CreateGetToken cfg v ?t (at_ClientId auth) (Some \<lparr>go_Type = at_Type auth, go_OpaqueChild = at_OpaqueChild auth\<rparr>) = Ok res"
    and sub: "tr_AuthType res = ''public'' \<Longrightarrow> at_SubDomain auth = ''''"
    and ok: "tr_Token res \<noteq> ''''" "signed_with (mo_MAC op) (tr_Token res) auth"
    using assms by (auto simp: check_authentication_def Let_def signed_with_def split: outcome.splits option.splits if_splits)
  show "tr_Token res \<noteq> ''''" "signed_with (mo_MAC op) (tr_Token res) auth" by (fact ok)+
  consider "at_AuthType auth = ''public''" | "at_AuthType auth = ''credentials''"
    | "at_AuthType auth \<noteq> ''public''" "at_AuthType auth \<noteq> ''credentials''" by blast
  then show "configured_secret cfg auth (tr_Token res)"
  proof cases
    case 1
    with token sub show ?thesis by (auto simp: CreateGetToken_def configured_secret_def split: if_splits)
  next
    case 2
    with token show ?thesis
      by (auto simp: CreateGetToken_def configured_secret_def split: option.splits dest: find_client_in)
  next
    case 3
    with token show ?thesis
      by (auto simp: CreateGetToken_def configured_secret_def split: if_splits option.splits)
  qed
qed

text \<open>A connection served for a while: the frames and timers it sees, with what each draws from outside.\<close>

fun serve :: "bool \<Rightarrow> MonitorOptions \<Rightarrow> (Fresh \<times> ws_event) list \<Rightarrow> Context \<Rightarrow> WsConn \<Rightarrow> Context \<times> WsConn" where
  "serve legacy op [] cx c = (cx, c)"
| "serve legacy op ((fr, ev) # evs) cx c =
     (case serve_event legacy op fr ev cx c of (cx, c) \<Rightarrow> serve legacy op evs cx c)"

lemma on_read_error_auth: "on_read_error op fr cx c = (cx', c') \<Longrightarrow> ws_isAuthenticated c' = ws_isAuthenticated c \<and> ws_status c' = Finished"
  by (auto simp: on_read_error_def handleDisconnect_def end_loop_def Let_def split: if_splits option.splits prod.splits)

lemma authenticating_event:
  assumes "serve_event legacy op fr ev cx c = (cx', c')" "ws_isAuthenticated c'" "\<not> ws_isAuthenticated c"
    and "mo_Token op = CreateGetToken cfg v"
  shows "asks_authentication ev \<and> (\<exists>auth secret. Unmarshal_Authentication (event_payload ev) = Some auth
    \<and> secret \<noteq> '''' \<and> configured_secret cfg auth secret \<and> signed_with (mo_MAC op) secret auth)"
  using assms(1)
proof (cases rule: serve_event_cases)
  case auth
  obtain cx1 c1 r where h: "handleAuthenticate op fr (event_payload ev) cx c = (cx1, c1, r)" by (metis prod_cases3)
  show ?thesis
    using h
  proof (cases rule: handleAuthenticate_cases)
    case (opened a res caps evs c1' cx2 c2)
    from check_authentication_Ok [OF opened(2) assms(4)] opened(1) auth(2) show ?thesis by blast
  next
    case (failed a res caps evs c1' c2 e)
    from failed(5) have "ws_isAuthenticated c2 = ws_isAuthenticated c1'" by (cases rule: open_tunnel_cases) auto
    with failed auth(3) h assms(2,3) show ?thesis by (auto simp: run_authenticate_def end_loop_def)
  qed (use h auth(3) assms(2,3) in \<open>auto simp: run_authenticate_def end_loop_def\<close>)
qed (use assms(2,3) in \<open>auto simp: quiet_step_def dest: on_read_error_auth\<close>)

text \<open>C14: Nobody is let in without a secret: whatever a client sends on either monitor path, its connection
  counts as authenticated only if one of its messages was an \<open>authenticate\<close> signed with the secret the
  configuration holds for what it claims to be: the secret of the client whose id it gives, the server-wide
  token, or, for a public HTTP session without a chosen subdomain, the well-known public one.\<close>

theorem authenticated_only_by_signature:
  assumes "mo_Token op = CreateGetToken cfg v" "\<not> ws_isAuthenticated c"
    and "serve legacy op evs cx c = (cx', c')" "ws_isAuthenticated c'"
  shows "\<exists>fr ev auth secret. (fr, ev) \<in> set evs \<and> asks_authentication ev
    \<and> Unmarshal_Authentication (event_payload ev) = Some auth
    \<and> secret \<noteq> '''' \<and> configured_secret cfg auth secret \<and> signed_with (mo_MAC op) secret auth"
  using assms(2-4)
proof (induction evs arbitrary: cx c)
  case (Cons e evs)
  obtain fr ev where e: "e = (fr, ev)" by force
  obtain cx1 c1 where one: "serve_event legacy op fr ev cx c = (cx1, c1)" by force
  show ?case
  proof (cases "ws_isAuthenticated c1")
    case True
    from authenticating_event [OF one True Cons.prems(1) assms(1)] e show ?thesis by (metis list.set_intros(1))
  next
    case False
    have "serve legacy op evs cx1 c1 = (cx', c')" using Cons.prems(2) e one by simp
    from Cons.IH [OF False this Cons.prems(3)] show ?thesis by (metis list.set_intros(2))
  qed
qed simp

definition sample_options :: MonitorOptions where
  "sample_options = \<lparr>mo_Version = ''2.0.0'', mo_Domain = ''example.org'', mo_Port = 443, mo_Secure = True,
     mo_Token = CreateGetToken (Some sample_config) ''2.0.0'', mo_TokenRef = 0, mo_Notification = False,
     mo_PublicTTL = 0, mo_PublicWarnLead = 0, mo_MAC = (\<lambda>k m. [1]), mo_StreamDispatch = True, mo_Env = calm\<rparr>"

definition sample_context :: Context where
  "sample_context = \<lparr>cx_DomainMappings = NewDomainContainer, cx_Callbacks = NewCallbackContainer,
     cx_Container = NewTunnelContainer, cx_TrafficStats = NewTrafficStatsContainer 0\<rparr>"

definition sample_fresh :: Fresh where
  "sample_fresh = \<lparr>fr_AnonUuid = ''a1b2c3d4e5'', fr_ContainerUuid = ''box'', fr_DomainUuid = ''0a1b2c3d-4e5f'', fr_Now = 7,
     fr_AdapterRef = 3\<rparr>"

definition sample_login :: "json list" where
  "sample_login = [JStr ''authenticate'', JObj [(''authType'', JStr ''public''), (''signature'', JStr ''01''),
     (''type'', JStr ''http''), (''version'', JStr ''2.0.0'')]]"

definition sample_session :: "Context \<times> WsConn" where
  "sample_session = serve False sample_options [(sample_fresh, TextFrame (Some sample_login))] sample_context
     (new_connection 1 2 ''h:80'' ''u'')"

lemma sample_session_runs:
  "ws_isAuthenticated (snd sample_session) \<and> ws_subDomain (snd sample_session) = ''0a1b2c3d'' \<and> ws_status (snd sample_session) = Serving"
  by code_simp

lemma sample_session_accepted:
  "ws_isAuthenticated (snd sample_session)" "ws_subDomain (snd sample_session) = ''0a1b2c3d''"
  "ws_status (snd sample_session) = Serving"
  using sample_session_runs by blast+

lemma authenticated_only_by_signature_witness:
  "\<exists>auth secret. Unmarshal_Authentication (event_payload (TextFrame (Some sample_login))) = Some auth
     \<and> configured_secret (Some sample_config) auth secret \<and> signed_with (mo_MAC sample_options) secret auth"
proof -
  have token: "mo_Token sample_options = CreateGetToken (Some sample_config) ''2.0.0''"
    by (simp add: sample_options_def)
  have new: "\<not> ws_isAuthenticated (new_connection 1 2 ''h:80'' ''u'')" by (simp add: new_connection_def)
  obtain cx c where s: "sample_session = (cx, c)" by force
  have "ws_isAuthenticated c" using sample_session_accepted(1) unfolding s by simp
  from authenticated_only_by_signature [OF token new s [unfolded sample_session_def] this] show ?thesis by auto
qed

section \<open>Refusals\<close>

lemma refusal_effect:
  assumes "handleAuthenticate op fr payload cx c = (cx', c', Err e)"
  shows "cx_DomainMappings cx' = cx_DomainMappings cx \<and> cx_Callbacks cx' = cx_Callbacks cx
    \<and> cx_TrafficStats cx' = cx_TrafficStats cx
    \<and> (\<forall>j. j \<noteq> fr_ContainerUuid fr \<longrightarrow> cx_Container cx' j = cx_Container cx j)
    \<and> (if e = SubDomainUsed then cx_Container cx' (fr_ContainerUuid fr) \<noteq> None \<and> ws_ContainerID c' = ws_ContainerID c
       else cx_Container cx' = cx_Container cx)
    \<and> ws_isAuthenticated c' = ws_isAuthenticated c
    \<and> run_authenticate op fr payload cx c = (cx', end_loop c')
    \<and> (if e = BadPayload then c' = c else \<exists>evs. ws_out c' = ws_out c @ evs @ [SentAuthFailure e]
        \<and> (\<forall>e'. SentAuthFailure e' \<notin> set evs))"
proof -
  have run: "run_authenticate op fr payload cx c = (cx', end_loop c')"
    using assms by (simp add: run_authenticate_def)
  show ?thesis
  proof (cases "Unmarshal_Authentication payload")
    case None
    with assms run show ?thesis by (auto simp: handleAuthenticate_def)
  next
    case (Some auth)
    define evs where "evs = (if IsVersionGreaterOrEqual (at_Version auth) (mo_Version op) then []
                else [SentWarning (OldClient (at_Version auth) (mo_Version op))])"
    have warn: "\<forall>e'. SentAuthFailure e' \<notin> set evs" by (simp add: evs_def)
    note turn = assms [unfolded handleAuthenticate_def Some option.case Let_def evs_def [symmetric]]
    show ?thesis
    proof (cases "check_authentication op auth")
      case (Err e')
      have "e' \<noteq> SubDomainUsed" "e' \<noteq> BadPayload"
        using Err by (auto simp: check_authentication_def Let_def split: outcome.splits option.splits if_splits)
      with turn Err run warn show ?thesis by auto
    next
      case Panic
      with turn show ?thesis by simp
    next
      case (Ok res)
      show ?thesis
      proof (cases "negotiateCapabilities (at_Capabilities auth)")
        case caps: (Ok caps)
        define c1 where "c1 = with_protocol fr auth caps (record_events evs c)"
        obtain cx2 c2 w where w: "open_tunnel op fr (auth\<lparr>at_ClientId := client_id fr auth\<rparr>) res cx c1 = (cx2, c2, w)"
          by (metis prod_cases3)
        from turn Ok caps w have e: "w = Err e" "cx2 = cx'" "c' = record_events [SentAuthFailure e] c2"
          by (auto simp: c1_def [symmetric] split: outcome.splits prod.splits)
        have c1: "ws_out c1 = ws_out c @ evs" "ws_ContainerID c1 = ws_ContainerID c"
          "ws_isAuthenticated c1 = ws_isAuthenticated c" by (simp_all add: c1_def)
        from w show ?thesis
        proof (cases rule: open_tunnel_cases)
          case used
          with create_container_own [of op fr "auth\<lparr>at_ClientId := client_id fr auth\<rparr>" c1 cx] e c1 run warn
          show ?thesis by (auto simp: create_container_other)
        next
          case unknown
          with e c1 run warn show ?thesis by auto
        qed (use e in auto)
      qed (use turn Ok in \<open>auto simp: negotiateCapabilities_not_Err\<close>)
    qed
  qed
qed

text \<open>C21: A refused client changes nothing that others see: subdomains, callbacks and statistics stay as
  they were, the connection is not authenticated by it and its loop ends. The only trace in the tunnels is a container that
  belongs to no session, left behind exactly when the subdomain was already in use. Unless the
  message could not be decoded, the client is told the reason, once.\<close>

theorem refusal_changes_nothing_else:
  assumes "handleAuthenticate op fr payload cx c = (cx', c', Err e)"
  shows "cx_DomainMappings cx' = cx_DomainMappings cx \<and> cx_Callbacks cx' = cx_Callbacks cx
    \<and> cx_TrafficStats cx' = cx_TrafficStats cx
    \<and> (\<forall>j. j \<noteq> fr_ContainerUuid fr \<longrightarrow> cx_Container cx' j = cx_Container cx j)
    \<and> (if e = SubDomainUsed then cx_Container cx' (fr_ContainerUuid fr) \<noteq> None \<and> ws_ContainerID c' = ws_ContainerID c
       else cx_Container cx' = cx_Container cx)
    \<and> ws_isAuthenticated c' = ws_isAuthenticated c
    \<and> run_authenticate op fr payload cx c = (cx', end_loop c')
    \<and> (if e = BadPayload then c' = c else \<exists>evs. ws_out c' = ws_out c @ evs @ [SentAuthFailure e]
        \<and> (\<forall>e'. SentAuthFailure e' \<notin> set evs))"
  using assms by (rule refusal_effect)

text \<open>A client that asks for the subdomain of the sample session.\<close>

definition taken_config :: FileConfig where
  "taken_config = sample_config\<lparr>fc_Token := ''t''\<rparr>"

definition rival_login :: json where
  "rival_login = JObj [(''authType'', JStr ''token''), (''signature'', JStr ''01''), (''subDomain'', JStr ''0A1B2C3D''),
     (''type'', JStr ''http''), (''version'', JStr ''2.0.0'')]"

definition rival_options :: MonitorOptions where
  "rival_options = sample_options\<lparr>mo_Token := CreateGetToken (Some taken_config) ''2.0.0''\<rparr>"

lemma refusal_changes_nothing_else_witness:
  "cx_DomainMappings (fst (handleAuthenticate rival_options sample_fresh rival_login (fst sample_session)
      (new_connection 5 6 ''h'' ''u''))) = cx_DomainMappings (fst sample_session)"
proof -
  obtain cx c r where h: "handleAuthenticate rival_options sample_fresh rival_login (fst sample_session)
      (new_connection 5 6 ''h'' ''u'') = (cx, c, r)" by (metis prod_cases3)
  have "snd (snd (handleAuthenticate rival_options sample_fresh rival_login (fst sample_session)
      (new_connection 5 6 ''h'' ''u''))) = Err SubDomainUsed"
    by code_simp
  with h have "r = Err SubDomainUsed" by simp
  from refusal_changes_nothing_else [OF h [unfolded this]] h show ?thesis by simp
qed

end
