(* ===== verification/WorldLaws.thy ===== *)
theory WorldLaws
  imports SessionLaws
begin

text \<open>
  Many monitor connections on one server: connections open, take turns in any order, and other
  components change the shared state between their turns. One turn (one message) is one step; UUIDs are fresh.
\<close>

section \<open>The server as a step relation\<close>

record World =
  wo_ctx :: Context
  wo_conns :: "nat \<Rightarrow> WsConn option"

text \<open>A UUID is new: no tunnel, no connection and no subdomain has it.\<close>

definition fresh_for :: "Fresh \<Rightarrow> World \<Rightarrow> bool" where
  "fresh_for fr w \<longleftrightarrow>
     fr_ContainerUuid fr \<noteq> '''' \<and> cx_Container (wo_ctx w) (fr_ContainerUuid fr) = None
     \<and> (\<forall>i c. wo_conns w i = Some c \<longrightarrow> ws_ContainerID c \<noteq> fr_ContainerUuid fr)
     \<and> cx_DomainMappings (wo_ctx w) (ToLower (take 8 (fr_DomainUuid fr))) = None"

text \<open>What other components may do: they neither bind subdomains nor create or remove tunnels.\<close>

definition elsewhere :: "Context \<Rightarrow> Context \<Rightarrow> bool" where
  "elsewhere cx cx' \<longleftrightarrow> cx_DomainMappings cx' = cx_DomainMappings cx \<and> owners cx' = owners cx"

inductive world_step :: "MonitorOptions \<Rightarrow> World \<Rightarrow> World \<Rightarrow> bool" for op where
  opens: "wo_conns w i = None \<Longrightarrow>
    world_step op w (w\<lparr>wo_conns := (wo_conns w)(i \<mapsto> new_connection i mu host uuid)\<rparr>)"
| serves: "wo_conns w i = Some c \<Longrightarrow> fresh_for fr w \<Longrightarrow> serve_event legacy op fr ev (wo_ctx w) c = (cx', c') \<Longrightarrow>
    world_step op w \<lparr>wo_ctx = cx', wo_conns = (wo_conns w)(i \<mapsto> c')\<rparr>"
| others: "elsewhere (wo_ctx w) cx' \<Longrightarrow> world_step op w (w\<lparr>wo_ctx := cx'\<rparr>)"

inductive reachable :: "MonitorOptions \<Rightarrow> World \<Rightarrow> bool" for op where
  start: "cx_DomainMappings cx = NewDomainContainer \<Longrightarrow> cx_Container cx = NewTunnelContainer \<Longrightarrow>
    reachable op \<lparr>wo_ctx = cx, wo_conns = Map.empty\<rparr>"
| more: "reachable op w \<Longrightarrow> world_step op w w' \<Longrightarrow> reachable op w'"

definition live :: "World \<Rightarrow> nat \<Rightarrow> WsConn \<Rightarrow> bool" where
  "live w i c \<longleftrightarrow> wo_conns w i = Some c \<and> ws_status c = Serving \<and> ws_isAuthenticated c"

text \<open>One connection and the registries: its subdomain leads to it, its tunnel (if it has one) is its own.\<close>

definition conn_ok :: "Context \<Rightarrow> nat \<Rightarrow> WsConn \<Rightarrow> bool" where
  "conn_ok cx i c \<longleftrightarrow> ws_Conn c = i
     \<and> (owners cx (ws_ContainerID c) = None \<or> owners cx (ws_ContainerID c) = Some i)
     \<and> (if ws_isAuthenticated c then ws_ContainerID c \<noteq> '''' else ws_subDomain c = '''')
     \<and> (if ws_status c = Serving \<and> ws_isAuthenticated c \<and> ws_subDomain c \<noteq> ''''
        then ToLower (ws_subDomain c) = ws_subDomain c
          \<and> (\<exists>m. cx_DomainMappings cx (ws_subDomain c) = Some m \<and> dm_WSSocket m = Some i)
        else True)"

definition world_ok :: "World \<Rightarrow> bool" where
  "world_ok w \<longleftrightarrow> (\<forall>i c. wo_conns w i = Some c \<longrightarrow> conn_ok (wo_ctx w) i c) \<and> owners (wo_ctx w) '''' = None"

section \<open>The invariant\<close>

text \<open>What a turn of connection \<open>i\<close> may do to the registries, from the point of view of the others.\<close>

definition others_safe :: "Fresh \<Rightarrow> nat \<Rightarrow> Context \<Rightarrow> Context \<Rightarrow> bool" where
  "others_safe fr i cx cx' \<longleftrightarrow>
     (\<forall>d m. cx_DomainMappings cx d = Some m \<and> dm_WSSocket m \<noteq> Some i \<longrightarrow> cx_DomainMappings cx' d = Some m)
     \<and> (\<forall>j. j \<noteq> fr_ContainerUuid fr \<longrightarrow> owners cx' j = owners cx j \<or> (owners cx j = Some i \<and> owners cx' j = None))"

lemma conn_ok_other:
  assumes "conn_ok cx j c" "j \<noteq> i" "others_safe fr i cx cx'" "ws_ContainerID c \<noteq> fr_ContainerUuid fr"
  shows "conn_ok cx' j c"
proof -
  have "owners cx' (ws_ContainerID c) = owners cx (ws_ContainerID c)
      \<or> (owners cx (ws_ContainerID c) = Some i \<and> owners cx' (ws_ContainerID c) = None)"
    using assms(3,4) by (simp add: others_safe_def)
  moreover have "cx_DomainMappings cx' d = Some m" if "cx_DomainMappings cx d = Some m" "dm_WSSocket m = Some j" for d m
    using that assms(2,3) by (auto simp: others_safe_def)
  ultimately show ?thesis using assms(1,2) by (auto simp: conn_ok_def)
qed

lemma binding_others_safe:
  assumes "binding fr cx c cx' c'" "cx_DomainMappings cx (ToLower (take 8 (fr_DomainUuid fr))) = None"
  shows "cx_DomainMappings cx d = Some m \<Longrightarrow> cx_DomainMappings cx' d = Some m"
proof -
  assume d: "cx_DomainMappings cx d = Some m"
  have "cx_DomainMappings cx' = cx_DomainMappings cx
      \<or> (\<exists>m' e. cx_DomainMappings cx' = (cx_DomainMappings cx)(e \<mapsto> m') \<and> cx_DomainMappings cx e = None)"
    using assms unfolding binding_def by metis
  with d show ?thesis by auto
qed

lemma turn_quiet:
  assumes "quiet_step cx c cx' c'" "conn_ok cx i c" "ws_status c = Serving"
  shows "conn_ok cx' i c'" "others_safe fr i cx cx'" "owners cx' '''' = owners cx ''''"
  using assms by (auto simp: quiet_step_def conn_ok_def others_safe_def owners_def)

lemma turn_auth:
  assumes "run_authenticate op fr payload cx c = (cx', c')" "conn_ok cx i c" "ws_status c = Serving"
    and "fr_ContainerUuid fr \<noteq> ''''" "cx_Container cx (fr_ContainerUuid fr) = None"
    and "cx_DomainMappings cx (ToLower (take 8 (fr_DomainUuid fr))) = None" "ws_ContainerID c \<noteq> fr_ContainerUuid fr"
    and same: "ws_status c' \<noteq> Serving \<Longrightarrow> ws_ContainerID c' = ws_ContainerID c \<and> ws_subDomain c' = ws_subDomain c"
  shows "conn_ok cx' i c'" "others_safe fr i cx cx'" "owners cx' '''' = owners cx ''''"
proof -
  note effect = run_authenticate_effect [OF assms(1,3)]
  have conn: "ws_Conn c' = i" using effect assms(2) by (simp add: conn_ok_def)
  have old: "owners cx' j = owners cx j" if "j \<noteq> fr_ContainerUuid fr" for j
    using effect that by (simp add: owners_def)
  have own: "owners cx' (fr_ContainerUuid fr) = None \<or> owners cx' (fr_ContainerUuid fr) = Some i"
    using effect assms(2,5) by (auto simp: owners_def conn_ok_def)
  show "owners cx' '''' = owners cx ''''" using old assms(4) by simp
  show "others_safe fr i cx cx'"
  proof (cases "ws_status c' = Serving")
    case True
    with effect binding_others_safe [of fr cx c cx' c'] assms(6) old show ?thesis by (auto simp: others_safe_def)
  next
    case False
    with effect old show ?thesis by (auto simp: others_safe_def)
  qed
  show "conn_ok cx' i c'"
  proof (cases "ws_status c' = Serving")
    case True
    with effect have auth: "ws_isAuthenticated c'" "ws_ContainerID c' = fr_ContainerUuid fr" "binding fr cx c cx' c'" by auto
    have "ToLower (ws_subDomain c') = ws_subDomain c'
          \<and> (\<exists>m. cx_DomainMappings cx' (ws_subDomain c') = Some m \<and> dm_WSSocket m = Some i)" if "ws_subDomain c' \<noteq> ''''"
      using auth(3) assms(2,3) that by (auto simp: binding_def conn_ok_def split: if_splits)
    with True auth conn own assms(4) show ?thesis by (simp add: conn_ok_def)
  next
    case False
    with effect same [OF False] old [OF assms(7)] assms(2) show ?thesis by (auto simp: conn_ok_def)
  qed
qed

lemma turn_gone:
  assumes "on_read_error op fr cx c = (cx', c')" "conn_ok cx i c" "ws_status c = Serving" "owners cx '''' = None"
  shows "conn_ok cx' i c'" "others_safe fr i cx cx'" "owners cx' '''' = None"
proof -
  let ?own = "\<lambda>d. d = ws_subDomain c \<and> d \<noteq> ''''"
  have eff: "ws_Conn c' = ws_Conn c \<and> ws_ContainerID c' = ws_ContainerID c \<and> ws_isAuthenticated c' = ws_isAuthenticated c
    \<and> ws_subDomain c' = ws_subDomain c \<and> ws_status c' = Finished
    \<and> (\<forall>j. owners cx' j = (if ws_isAuthenticated c \<and> j = ws_ContainerID c then None else owners cx j))
    \<and> (\<forall>d. cx_DomainMappings cx' d = (if ws_isAuthenticated c \<and> ws_subDomain c \<noteq> '''' \<and> d = ToLower (ws_subDomain c)
        then None else cx_DomainMappings cx d))"
    using assms(1) by (auto simp: on_read_error_def handleDisconnect_def end_loop_def Let_def owners_def tunnel_Get_def
        tunnel_destroy_def UnbindWS_def split: if_splits option.splits prod.splits)
  from eff assms(2-4) show "conn_ok cx' i c'" "owners cx' '''' = None" by (auto simp: conn_ok_def)
  have "dm_WSSocket m = Some i" if "ws_isAuthenticated c" "ws_subDomain c \<noteq> ''''"
    "cx_DomainMappings cx (ToLower (ws_subDomain c)) = Some m" for m
    using that assms(2,3) by (auto simp: conn_ok_def)
  with eff assms(2) show "others_safe fr i cx cx'" by (auto simp: others_safe_def conn_ok_def)
qed

lemma failed_run_keeps_ids:
  assumes "run_authenticate op fr payload cx c = (cx', c')" "ws_status c = Serving" "ws_status c' \<noteq> Serving"
  shows "ws_ContainerID c' = ws_ContainerID c \<and> ws_subDomain c' = ws_subDomain c"
proof -
  obtain cx1 c1 r where h: "handleAuthenticate op fr payload cx c = (cx1, c1, r)" by (metis prod_cases3)
  show ?thesis
    using h
  proof (cases rule: handleAuthenticate_cases)
    case (opened auth res caps evs c1' cx2 c2)
    with h assms open_effect(6) [OF opened(5)] finish_effect(7) [OF opened(7)] show ?thesis
      by (auto simp: run_authenticate_def)
  next
    case (failed auth res caps evs c1' c2 e)
    from failed(5) have "ws_ContainerID c2 = ws_ContainerID c1' \<and> ws_subDomain c2 = ws_subDomain c1'"
      by (cases rule: open_tunnel_cases) auto
    with failed h assms(1) show ?thesis by (auto simp: run_authenticate_def end_loop_def)
  qed (use h assms(1) in \<open>auto simp: run_authenticate_def end_loop_def\<close>)
qed

lemma turn_ok:
  assumes "serve_event legacy op fr ev (wo_ctx w) c = (cx', c')" "fresh_for fr w" "world_ok w" "wo_conns w i = Some c"
  shows "conn_ok cx' i c' \<and> others_safe fr i (wo_ctx w) cx' \<and> owners cx' '''' = None"
proof -
  have ok: "conn_ok (wo_ctx w) i c" "owners (wo_ctx w) '''' = None" using assms(3,4) by (auto simp: world_ok_def)
  show ?thesis
    using assms(1)
  proof (cases rule: serve_event_cases)
    case idle
    with ok show ?thesis by (simp add: others_safe_def)
  next
    case quiet
    with turn_quiet [OF quiet(2) ok(1) quiet(1)] ok(2) show ?thesis by simp
  next
    case auth
    with turn_auth [OF auth(3) ok(1) auth(1)] failed_run_keeps_ids [OF auth(3,1)] assms(2,4) ok(2) show ?thesis
      by (auto simp: fresh_for_def)
  next
    case gone
    from turn_gone [OF gone(3) ok(1) gone(1) ok(2)] show ?thesis by simp
  qed
qed

lemma step_keeps_world_ok:
  assumes "world_step op w w'" "world_ok w"
  shows "world_ok w'"
  using assms(1)
proof (cases rule: world_step.cases)
  case (opens i mu host uuid)
  with assms(2) show ?thesis
    by (auto simp: world_ok_def conn_ok_def new_connection_def)
next
  case (serves i c fr legacy ev cx' c')
  note turn = turn_ok [OF serves(4,3) assms(2) serves(2)]
  have "conn_ok cx' j d" if "wo_conns w j = Some d" "j \<noteq> i" for j d
  proof (rule conn_ok_other)
    show "conn_ok (wo_ctx w) j d" using assms(2) that by (simp add: world_ok_def)
    show "others_safe fr i (wo_ctx w) cx'" using turn by simp
    show "ws_ContainerID d \<noteq> fr_ContainerUuid fr" using serves(3) that by (auto simp: fresh_for_def)
  qed (use that in simp)
  with turn serves(1) show ?thesis by (simp add: world_ok_def)
next
  case (others cx')
  with assms(2) show ?thesis by (auto simp: world_ok_def conn_ok_def elsewhere_def)
qed

lemma reachable_ok: "reachable op w \<Longrightarrow> world_ok w"
proof (induction rule: reachable.induct)
  case (start cx)
  then show ?case by (simp add: world_ok_def owners_def NewTunnelContainer_def)
qed (rule step_keeps_world_ok)


definition sample_world :: World where
  "sample_world = \<lparr>wo_ctx = fst sample_session, wo_conns = [1 \<mapsto> snd sample_session]\<rparr>"

lemma sample_world_reachable: "reachable sample_options sample_world"
proof -
  let ?c = "new_connection 1 2 ''h:80'' ''u''"
  let ?w0 = "\<lparr>wo_ctx = sample_context, wo_conns = Map.empty\<rparr>"
  let ?w1 = "\<lparr>wo_ctx = sample_context, wo_conns = [1 \<mapsto> ?c]\<rparr>"
  have r0: "reachable sample_options ?w0"
    by (rule reachable.start) (simp_all add: sample_context_def)
  have r1: "reachable sample_options ?w1"
    using reachable.more [OF r0 world_step.opens [of ?w0 1 sample_options 2 "''h:80''" "''u''"]] by simp
  have step: "serve_event False sample_options sample_fresh (TextFrame (Some sample_login)) (wo_ctx ?w1) ?c = (fst sample_session, snd sample_session)"
    by (simp add: sample_session_def split: prod.split)
  have "fresh_for sample_fresh ?w1"
    by (simp add: fresh_for_def sample_fresh_def sample_context_def NewTunnelContainer_def NewDomainContainer_def new_connection_def)
  from reachable.more [OF r1 world_step.serves [OF _ this step, of 1]] show ?thesis by (simp add: sample_world_def)
qed


section \<open>A session from login to disconnection\<close>

lemma serve_quietly:
  assumes "list_all (\<lambda>(fr, ev). \<not> asks_authentication ev \<and> ev \<noteq> ReadError) evs" "serve legacy op evs cx c = (cx', c')"
  shows "quiet_step cx c cx' c'"
  using assms
proof (induction evs arbitrary: cx c)
  case (Cons e evs)
  obtain fr ev where e: "e = (fr, ev)" by force
  obtain cx1 c1 where one: "serve_event legacy op fr ev cx c = (cx1, c1)" by force
  have "quiet_step cx c cx1 c1"
    using one by (cases rule: serve_event_cases) (use Cons.prems(1) e in auto)
  moreover have "quiet_step cx1 c1 cx' c'" using Cons e one by simp
  ultimately show ?case by (rule quiet_trans)
qed simp


definition sample_ping :: "(Fresh \<times> ws_event) list" where
  "sample_ping = [(sample_fresh, TextFrame (Some [JStr ''ping'']))]"

definition pinged :: "Context \<times> WsConn" where
  "pinged = serve False sample_options sample_ping (fst sample_session) (snd sample_session)"

definition disconnected :: "Context \<times> WsConn" where
  "disconnected = serve_event False sample_options (sample_fresh\<lparr>fr_Now := 9\<rparr>) ReadError (fst pinged) (snd pinged)"


section \<open>Logging in twice\<close>

lemma serve_finished: "ws_status c \<noteq> Serving \<Longrightarrow> serve legacy op evs cx c = (cx, c)"
  by (induction evs) (auto simp: serve_event_def HandleConnection_def HandleConnectionLegacy_def)

text \<open>A second login that fails costs the name: when a session that holds a subdomain sends another
  \<open>authenticate\<close> that is refused, its loop ends without the work of a disconnection, so that
  nothing the connection sees afterwards, its own end included, releases the subdomain, and every later
  login for that name is refused as already in use.\<close>

theorem failed_relogin_keeps_the_name_taken:
  assumes "handleAuthenticate op fr payload cx c = (cx1, c1, Err e)" "domain_Has (cx_DomainMappings cx) name"
    and "run_authenticate op fr payload cx c = (cx2, c2)"
  shows "serve legacy op evs cx2 c2 = (cx2, c2) \<and> domain_Has (cx_DomainMappings cx2) name
    \<and> (\<forall>fr' auth res c'. at_Type auth = ''http'' \<and> at_SubDomain auth = name \<and> name \<noteq> '''' \<longrightarrow>
        snd (snd (open_tunnel op fr' auth res cx2 c')) = Err SubDomainUsed)"
proof -
  have two: "cx2 = cx1" "c2 = end_loop c1"
    using refusal_effect [OF assms(1)] assms(3) by auto
  then have "ws_status c2 \<noteq> Serving" by (simp add: end_loop_def)
  moreover have "domain_Has (cx_DomainMappings cx2) name"
    using refusal_effect [OF assms(1)] assms(2) two by (simp add: domain_Has_def)
  ultimately show ?thesis
    by (auto simp: serve_finished open_tunnel_def Let_def)
qed

end
