(* ===== verification/ResponseLaws.thy ===== *)
theory ResponseLaws
  imports SessionLaws
begin

text \<open>
  Responses on the monitor channel, the lifetime of a public session, and the messages that
  make a handler panic.
\<close>

section \<open>From the client's adapter to the waiting request\<close>

lemma split_id_joined: "CHR '':'' \<notin> set t \<Longrightarrow> split_id (t @ '':'' @ r) = Some (t, r)"
  using Join_Split [of r "CHR '':''"] by (cases "Split r CHR '':''") (auto simp: split_id_def Split_append_sep)

lemma callback_Take_Some:
  "callback_Get cbs t r = Some cb \<Longrightarrow> callback_Take t r cbs = (fst (callback_Take t r cbs), Some cb)"
  by (metis callback_Take_result prod.collapse)

lemma sent_response:
  assumes "writes_ok env" "length sid \<le> 255" "length z < 2 ^ 32"
    and "maybe_compress env a MessageTypeHTTPResponse data = Some z"
  shows "sendDirect env MessageTypeHTTPResponse sid data a =
    (emit (monitor_frame ''response'' sid (frame_layout
        \<lparr>bm_Type = MessageTypeHTTPResponse, bm_StreamID = sid, bm_Sequence = fst (getNextSequence a sid),
         bm_Flags = 0, bm_Data = z\<rparr>)) (snd (getNextSequence a sid)), Return)"
  using assms
  by (simp add: sendDirect_def send_one_def case_prod_unfold Let_def event_for_def build_and_write_ok wf_frame_def frame_consts)

lemma response_decompressed:
  assumes "negotiateCapabilities (Some client) = Ok (Some agreed)" "negotiated_adapter agreed a"
    and "codec_ok (en_codec env)" "maybe_compress env a MessageTypeHTTPResponse data = Some z"
  shows "DecompressBinaryPayloadForCapabilities (en_codec env) (Some agreed) z = Some data"
proof -
  have alg: "ad_compressionAlgorithm a = receiver_algorithm agreed"
    "receiver_algorithm agreed = ''brotli'' \<or> receiver_algorithm agreed = ''gzip''"
    using algorithms_agree [OF assms(1)] assms(2) by (auto simp: negotiated_adapter_def)
  have use: "shouldUseCompression a MessageTypeHTTPResponse = has_flag agreed CapabilityFlagCompression"
    using assms(2) by (simp add: shouldUseCompression_def has_cap_def negotiated_adapter_def frame_consts)
  show ?thesis
  proof (cases "has_flag agreed CapabilityFlagCompression")
    case True
    with assms(4) use have "compressData env a data = Some z" by (simp add: maybe_compress_def)
    from decompress_compressed [OF assms(3) alg(2,1) this] True show ?thesis
      by (simp add: DecompressBinaryPayloadForCapabilities_def)
  next
    case False
    with assms(4) use show ?thesis by (simp add: DecompressBinaryPayloadForCapabilities_def maybe_compress_def)
  qed
qed

text \<open>C17: A response reaches the request that waits for it, and only that one: what a client's adapter with
  the negotiated capabilities writes for a response is one text message, on which the server's loop calls the
  callback registered under the two halves of the id, once, with the base64 of the response's bytes; that
  callback is then gone and every other one is still there.\<close>

theorem response_reaches_its_request:
  assumes "negotiateCapabilities (Some client) = Ok (Some agreed)" "negotiated_adapter agreed a"
    and "codec_ok (en_codec env)" "writes_ok env" "en_codec (mo_Env op) = en_codec env"
    and "maybe_compress env a MessageTypeHTTPResponse data = Some z" "length z < 2 ^ 32"
    and "CHR '':'' \<notin> set t" "sid = t @ '':'' @ r" "length sid \<le> 255"
    and "ws_status c = Serving" "ws_isAuthenticated c" "ws_Capabilities c = Some agreed"
    and "callback_Get (cx_Callbacks cx) t r = Some cb"
  shows "\<exists>b msg cx'. sendDirect env MessageTypeHTTPResponse sid data a = (b, Return)
    \<and> ad_out b = ad_out a @ [MonitorText (JArr msg)]
    \<and> HandleConnection op fr (TextFrame (Some msg)) cx c = (cx', record_events [CallbackCalled cb (base64Encode data)] c)
    \<and> (\<forall>t' r'. callback_Get (cx_Callbacks cx') t' r' = (if t' = t \<and> r' = r then None else callback_Get (cx_Callbacks cx) t' r'))"
proof -
  let ?m = "\<lparr>bm_Type = MessageTypeHTTPResponse, bm_StreamID = sid, bm_Sequence = fst (getNextSequence a sid),
    bm_Flags = 0, bm_Data = z\<rparr>"
  let ?wire = "base64Encode (frame_layout ?m)"
  obtain cbs where cbs: "callback_Take t r (cx_Callbacks cx) = (cbs, Some cb)"
    using callback_Take_Some [OF assms(14)] by blast
  let ?cx = "cx\<lparr>cx_Callbacks := cbs\<rparr>"
  have wf: "wf_frame ?m" using assms(7,10) by (simp add: wf_frame_def)
  have parse: "ParseBinaryMessage (frame_layout ?m) = Ok ?m"
    using client_to_server.parse_layout [OF wf, of "[]"] by simp
  have "frame_layout ?m \<noteq> []" by (simp add: frame_layout_def)
  then have wire: "?wire \<noteq> ''''" by (rule base64_wire_nonempty)
  have sid: "sid \<noteq> ''''" unfolding assms(9) by simp
  have split: "split_id sid = Some (t, r)" unfolding assms(9) by (rule split_id_joined [OF assms(8)])
  note nonempty = sid wire
  have take: "take_callback t r (base64Encode data) cx c = (?cx, record_events [CallbackCalled cb (base64Encode data)] c)"
    by (simp add: take_callback_def cbs)
  have payload: "parseHTTPResponsePayload (id_data sid ?wire) = Some (sid, ?wire)"
    using nonempty by (simp add: parseHTTPResponsePayload_def id_data_def)
  have types: "is_response_type MessageTypeHTTPResponse" by (simp add: is_response_type_def)
  have "handleResponse op (id_data sid ?wire) cx c = (?cx, record_events [CallbackCalled cb (base64Encode data)] c, True)"
    using response_decompressed [OF assms(1-3,6)] take split assms(5,13)
    by (simp add: handleResponse_def payload parse types handle_binary_response_def)
  then have "HandleConnection op fr (TextFrame (Some [JStr ''response'', id_data sid ?wire])) cx c
      = (?cx, record_events [CallbackCalled cb (base64Encode data)] c)"
    using assms(11,12) by (simp add: HandleConnection_def on_text_def monitor_text_def run_response_def message_payload_def)
  moreover have "ad_out (emit (monitor_frame ''response'' sid (frame_layout ?m)) (snd (getNextSequence a sid)))
      = ad_out a @ [MonitorText (JArr [JStr ''response'', id_data sid ?wire])]"
    by (simp add: monitor_frame_def monitor_message_def getNextSequence_def Let_def)
  ultimately show ?thesis
    using sent_response [OF assms(4,10,7,6)] callback_Get_Take [of t r "cx_Callbacks cx"] cbs by auto
qed

definition official_client_adapter :: Adapter where
  "official_client_adapter = NewBinaryProtocolAdapter official_agreement True"

definition served_conn :: WsConn where
  "served_conn = (new_connection 1 2 ''h'' ''u'')\<lparr>ws_isAuthenticated := True, ws_Capabilities := Some official_agreement\<rparr>"

definition waiting_context :: Context where
  "waiting_context = sample_context\<lparr>cx_Callbacks := callback_Set ''a'' ''b'' 4 NewCallbackContainer\<rparr>"

lemma response_reaches_its_request_witness:
  "\<exists>b msg cx'. sendDirect calm MessageTypeHTTPResponse ''a:b'' [7, 8] official_client_adapter = (b, Return)
    \<and> ad_out b = ad_out official_client_adapter @ [MonitorText (JArr msg)]
    \<and> HandleConnection sample_options sample_fresh (TextFrame (Some msg)) waiting_context served_conn
        = (cx', record_events [CallbackCalled 4 (base64Encode [7, 8])] served_conn)
    \<and> callback_Get (cx_Callbacks cx') ''a'' ''b'' = None"
proof -
  have nego: "negotiateCapabilities (Some official_client) = Ok (Some official_agreement)"
    using official_negotiation [of "''2.0.0''"] by (simp add: official_client_eq)
  have adapter: "negotiated_adapter official_agreement official_client_adapter"
    by (simp add: negotiated_adapter_def official_client_adapter_def NewBinaryProtocolAdapter_def)
  have comp: "maybe_compress calm official_client_adapter MessageTypeHTTPResponse [7, 8] = Some [1, 7, 8]"
    by code_simp
  have waiting: "callback_Get (cx_Callbacks waiting_context) ''a'' ''b'' = Some 4"
    by (simp add: waiting_context_def callback_Get_Set)
  have sid: "''a:b'' = ''a'' @ '':'' @ ''b''" by simp
  have served: "ws_status served_conn = Serving" "ws_isAuthenticated served_conn" "ws_Capabilities served_conn = Some official_agreement"
    by (simp_all add: served_conn_def new_connection_def)
  have env: "en_codec (mo_Env sample_options) = en_codec calm" by (simp add: sample_options_def)
  show ?thesis
    using response_reaches_its_request [OF nego adapter calm_facts(1,2) env comp _ _ sid _ served waiting, of sample_fresh]
    by fastforce
qed

section \<open>The lifetime of a public session\<close>

lemma session_ttl:
  assumes "resolvePublicMonitorSessionTTL t0 w0 = (ttl, warn)"
  shows "ttl = (if t0 \<le> 0 then 600 * second_ns else t0) \<and> 0 < ttl \<and> 0 < warn \<and> (if ttl = 1 then warn = second_ns else warn < ttl)"
  using assms by (auto simp: resolvePublicMonitorSessionTTL_def second_ns_def Let_def split: if_splits)

text \<open>What a login adds to the trace.\<close>

lemma accepted_trace:
  assumes "handleAuthenticate op fr payload cx c = (cx', c', Ok ())"
  shows "\<exists>auth evs ok. Unmarshal_Authentication payload = Some auth \<and> only_warnings evs
    \<and> ws_out c' = ws_out c @ evs @ [SentAuthOk ok]
      @ (if shouldApplyPublicMonitorSessionTTL auth
         then schedulePublicMonitorSessionTTL (mo_PublicTTL op) (mo_PublicWarnLead op) else [])
      @ (if mo_Notification op then [NotifyOnline (client_id fr auth) (auth\<lparr>at_ClientId := client_id fr auth\<rparr>)] else [])
      @ [EmitTunnel (at_Type auth) (fr_ContainerUuid fr)]
    \<and> ao_ClientId ok = client_id fr auth \<and> ao_ContainerId ok = fr_ContainerUuid fr"
  using assms
proof (cases rule: handleAuthenticate_cases)
  case (opened auth res caps evs c1 cx2 c2)
  have "ws_out c2 = ws_out c1" using opened(5) by (cases rule: open_tunnel_cases) auto
  with opened have out: "ws_out c2 = ws_out c @ evs" by simp
  have public: "shouldApplyPublicMonitorSessionTTL (auth\<lparr>at_ClientId := client_id fr auth\<rparr>) = shouldApplyPublicMonitorSessionTTL auth"
    by (simp add: shouldApplyPublicMonitorSessionTTL_def)
  show ?thesis
    using opened(1,7,8) out public by (auto simp: finish_authentication_def Let_def)
qed auto

text \<open>C22: A public session does not outlive its limit: a login that claims neither a token nor credentials
  schedules its own end after the configured time (ten minutes when none is configured): then the client is
  told, the close frame is sent and the socket closed. A warning comes before that, strictly
  between login and end unless the limit is a single nanosecond. A login with a token or credentials schedules nothing.\<close>

theorem public_sessions_expire:
  assumes "handleAuthenticate op fr payload cx c = (cx', c', Ok ())"
  shows "\<exists>auth evs ttl warn. Unmarshal_Authentication payload = Some auth \<and> ws_out c' = ws_out c @ evs
    \<and> ttl = (if mo_PublicTTL op \<le> 0 then 600 * second_ns else mo_PublicTTL op)
    \<and> (if ToLower (TrimSpace (at_AuthType auth)) \<in> {''token'', ''credentials''} then (\<forall>d es. AfterFunc d es \<notin> set evs)
       else 0 < ttl \<and> 0 < warn \<and> (if ttl = 1 then True else warn < ttl)
         \<and> {(d, es). AfterFunc d es \<in> set evs}
             = {(ttl - warn, [SentWarning (ClosesIn warn)]), (ttl, [SentWarning (ReachedLimit ttl), CloseFrame, ClosedConn])})"
proof -
  obtain ttl warn where t: "resolvePublicMonitorSessionTTL (mo_PublicTTL op) (mo_PublicWarnLead op) = (ttl, warn)" by force
  from accepted_trace [OF assms] obtain auth evs ok where a: "Unmarshal_Authentication payload = Some auth" "only_warnings evs"
    "ws_out c' = ws_out c @ evs @ [SentAuthOk ok]
      @ (if shouldApplyPublicMonitorSessionTTL auth
         then schedulePublicMonitorSessionTTL (mo_PublicTTL op) (mo_PublicWarnLead op) else [])
      @ (if mo_Notification op then [NotifyOnline (client_id fr auth) (auth\<lparr>at_ClientId := client_id fr auth\<rparr>)] else [])
      @ [EmitTunnel (at_Type auth) (fr_ContainerUuid fr)]" by blast
  have none: "AfterFunc d es \<notin> set evs" for d es
    using a(2) by (auto simp: only_warnings_def list_all_iff)
  show ?thesis
    by (rule exI [of _ auth], rule exI, rule exI [of _ ttl], rule exI [of _ warn], intro conjI, rule a(1), rule a(3))
      (use session_ttl [OF t] none in \<open>auto simp: shouldApplyPublicMonitorSessionTTL_def schedulePublicMonitorSessionTTL_def t Let_def\<close>)
qed

lemma public_sessions_expire_witness:
  "\<exists>evs. ws_out (snd sample_session) = [SentId ''u''] @ evs
    \<and> AfterFunc (600 * second_ns) [SentWarning (ReachedLimit (600 * second_ns)), CloseFrame, ClosedConn] \<in> set evs"
proof -
  let ?c = "new_connection 1 2 ''h:80'' ''u''"
  obtain cx c where h: "handleAuthenticate sample_options sample_fresh (message_payload sample_login) sample_context ?c = (cx, c, Ok ())"
  proof -
    have "snd (snd (handleAuthenticate sample_options sample_fresh (message_payload sample_login) sample_context ?c)) = Ok ()"
      by code_simp
    with that show ?thesis by (metis prod.collapse)
  qed
  have s: "sample_session = (cx, c\<lparr>ws_isAuthenticated := True\<rparr>)"
    using h by (simp add: sample_session_def serve_event_def HandleConnection_def new_connection_def on_text_def sample_login_def
        monitor_text_def message_payload_def run_authenticate_def)
  obtain auth where auth: "Unmarshal_Authentication (message_payload sample_login) = Some auth"
    "ToLower (TrimSpace (at_AuthType auth)) = ''public''"
  proof -
    have "map_option (\<lambda>a. ToLower (TrimSpace (at_AuthType a))) (Unmarshal_Authentication (message_payload sample_login)) = Some ''public''"
      by code_simp
    with that show ?thesis by auto
  qed
  from public_sessions_expire [OF h] auth show ?thesis
    unfolding s by (fastforce simp: sample_options_def new_connection_def)
qed

section \<open>Messages that bring the server down\<close>

lemma negotiation_Panic:
  "negotiateCapabilities caps = Panic \<longleftrightarrow>
     (\<exists>k. caps = Some k \<and> has_flag k CapabilityFlagStreaming \<and> cap_Features k = None)"
proof (cases caps)
  case None
  then show ?thesis by (simp add: negotiateCapabilities_def)
next
  case (Some k)
  have "cap_Flags k AND 4 = 0" if "cap_Flags k AND 1023 = 0"
    using and_server_flag [of 4 "cap_Flags k"] that by simp
  then show ?thesis unfolding Some negotiate_cases by (auto simp: has_flag_def capability_consts)
qed

lemma CreateGetToken_no_Panic: "CreateGetToken cfg v t i op \<noteq> Panic"
  by (auto simp: CreateGetToken_def split: option.splits)

lemma check_no_Panic: "mo_Token op = CreateGetToken cfg v \<Longrightarrow> check_authentication op auth \<noteq> Panic"
  by (auto simp: check_authentication_def Let_def CreateGetToken_no_Panic split: outcome.splits option.splits)

text \<open>The exact conditions under which the two handlers panic, which ends the whole server process since
  their goroutine does not recover. Authentication: the signature is right and the client announces streaming without
  features. A response: its data decodes to at least eleven bytes that end less than nine bytes after
  the stream id whose length the second byte gives.\<close>

theorem handlers_panic_iff:
  assumes "mo_Token op = CreateGetToken cfg v"
  shows "(snd (snd (handleAuthenticate op fr payload cx c)) = Panic \<longleftrightarrow>
      (\<exists>auth res k. Unmarshal_Authentication payload = Some auth \<and> check_authentication op auth = Ok res
        \<and> at_Capabilities auth = Some k \<and> has_flag k CapabilityFlagStreaming \<and> cap_Features k = None))
    \<and> (\<not> snd (snd (handleResponse op payload cx c)) \<longleftrightarrow>
      (\<exists>sid data raw. parseHTTPResponsePayload payload = Some (sid, data) \<and> split_id sid \<noteq> None
        \<and> base64Decode data = Some raw \<and> 11 \<le> length raw \<and> 2 + unat (raw ! 1) \<le> length raw
        \<and> length raw < 11 + unat (raw ! 1)))"
proof
  obtain cx' c' r where h: "handleAuthenticate op fr payload cx c = (cx', c', r)" by (metis prod_cases3)
  have "r = Panic \<longleftrightarrow> (\<exists>auth res k. Unmarshal_Authentication payload = Some auth \<and> check_authentication op auth = Ok res
        \<and> negotiateCapabilities (at_Capabilities auth) = Panic)"
    using h by (cases rule: handleAuthenticate_cases) (auto simp: check_no_Panic [OF assms])
  then show "snd (snd (handleAuthenticate op fr payload cx c)) = Panic \<longleftrightarrow>
      (\<exists>auth res k. Unmarshal_Authentication payload = Some auth \<and> check_authentication op auth = Ok res
        \<and> at_Capabilities auth = Some k \<and> has_flag k CapabilityFlagStreaming \<and> cap_Features k = None)"
    unfolding h negotiation_Panic by auto
  show "\<not> snd (snd (handleResponse op payload cx c)) \<longleftrightarrow>
      (\<exists>sid data raw. parseHTTPResponsePayload payload = Some (sid, data) \<and> split_id sid \<noteq> None
        \<and> base64Decode data = Some raw \<and> 11 \<le> length raw \<and> 2 + unat (raw ! 1) \<le> length raw
        \<and> length raw < 11 + unat (raw ! 1))"
    unfolding ParseBinaryMessage_Panic_iff [symmetric]
    by (auto simp: handleResponse_def split: option.splits prod.splits outcome.splits if_splits)
qed

text \<open>Twelve bytes whose stream id takes the rest.\<close>

definition short_frame :: "byte list" where
  "short_frame = 2 # 10 # replicate 10 97"

lemma handlers_panic_iff_witness:
  "\<not> snd (snd (handleResponse sample_options (id_data ''a:b'' (base64Encode short_frame)) sample_context served_conn))"
proof -
  have token: "mo_Token sample_options = CreateGetToken (Some sample_config) ''2.0.0''" by (simp add: sample_options_def)
  have "parseHTTPResponsePayload (id_data ''a:b'' (base64Encode short_frame)) = Some (''a:b'', base64Encode short_frame)"
    "split_id ''a:b'' \<noteq> None" by code_simp+
  moreover have "base64Decode (base64Encode short_frame) = Some short_frame" by simp
  moreover have "11 \<le> length short_frame" "2 + unat (short_frame ! 1) \<le> length short_frame"
    "length short_frame < 11 + unat (short_frame ! 1)" by (simp_all add: short_frame_def)
  ultimately show ?thesis
    using conjunct2 [OF handlers_panic_iff [OF token, of sample_fresh "id_data ''a:b'' (base64Encode short_frame)"
        sample_context served_conn]]
    by blast
qed

text \<open>Anyone can bring the server down: for every configuration, domain and signing function there is a
  message that makes the server panic when a fresh, unauthenticated connection sends it as its first text, on either
  monitor path, because a public login needs no secret and its capabilities are negotiated right after the signature.\<close>

theorem public_login_can_crash_the_server:
  assumes "mo_Token op = CreateGetToken cfg v"
  shows "\<exists>msg. \<forall>legacy fr cx i mu host uuid.
    ws_status (snd (serve_event legacy op fr (TextFrame (Some msg)) cx (new_connection i mu host uuid))) = Crashed"
proof -
  define sig where "sig = HMACSHA512 (mo_MAC op) (int_text 0) ''public''"
  define members where "members = [(''authType'', JStr ''public''), (''capabilities'', JObj [(''flags'', JNum 4)]),
    (''signature'', JStr sig), (''type'', JStr ''http''), (''version'', JStr ''2.0.0'')]"
  let ?payload = "JObj members"
  let ?msg = "[JStr ''authenticate'', ?payload]"
  define auth where "auth = zero_auth\<lparr>at_AuthType := ''public'',
    at_Capabilities := Some \<lparr>cap_Flags = 4, cap_Version = '''', cap_Features = None\<rparr>, at_Signature := sig,
    at_Type := ''http'', at_Version := ''2.0.0''\<rparr>"
  have "sorted (map fst members)" unfolding members_def by code_simp
  then have sorted: "sort_key fst members = members" by (rule sort_key_id_if_sorted)
  have names: "ToLower ''authType'' = ''authtype''" "ToLower ''capabilities'' = ''capabilities''"
    "ToLower ''signature'' = ''signature''" "ToLower ''type'' = ''type''" "ToLower ''version'' = ''version''"
    "ToLower ''flags'' = ''flags''" by code_simp+
  have auth: "Unmarshal_Authentication ?payload = Some auth"
    by (simp add: Unmarshal_Authentication_def decode_object_def sorted)
      (simp add: members_def names auth_field_def str_member_def ptr_member_def decode_object_def capabilities_field_def
        int_member_def zero_auth_def auth_def min_int_def max_int_def)
  have version: "IsVersionGreaterOrEqual ''2.0.0'' ''2.0.0''" by code_simp
  have "check_authentication op auth = Ok \<lparr>tr_AuthType = ''public'', tr_Token = ''public'', tr_Config = None\<rparr>"
    by (simp add: check_authentication_def assms CreateGetToken_def auth_def zero_auth_def
        requiresModernClientForAdvancedFeatures_def version sig_def Let_def)
  moreover have "has_flag (\<lparr>cap_Flags = 4, cap_Version = '''', cap_Features = None\<rparr>) CapabilityFlagStreaming" by code_simp
  then have "negotiateCapabilities (at_Capabilities auth) = Panic"
    by (simp add: negotiation_Panic auth_def zero_auth_def)
  ultimately have "ws_status (snd (run_authenticate op fr ?payload cx c)) = Crashed" for fr cx c
    by (simp add: run_authenticate_def handleAuthenticate_def auth)
  then have "ws_status (snd (serve_event legacy op fr (TextFrame (Some ?msg)) cx (new_connection i mu host uuid))) = Crashed"
    for legacy fr cx i mu host uuid
    by (simp add: serve_event_def HandleConnection_def HandleConnectionLegacy_def on_text_def monitor_text_def legacy_text_def
        message_payload_def new_connection_def)
  then show ?thesis by blast
qed

lemma public_login_can_crash_the_server_witness:
  "\<exists>msg. ws_status (snd (serve_event False sample_options sample_fresh (TextFrame (Some msg)) sample_context
     (new_connection 1 2 ''h'' ''u''))) = Crashed"
proof -
  have "mo_Token sample_options = CreateGetToken (Some sample_config) ''2.0.0''" by (simp add: sample_options_def)
  from public_login_can_crash_the_server [OF this] show ?thesis by blast
qed

end
