(* ===== verification/ServerState.thy ===== *)
theory ServerState
  imports Monitor
begin

text \<open>
  What the tunnels and the data channels of a server share (\<^verbatim>\<open>internal/server/tunnel/\<close>,
  \<^verbatim>\<open>internal/server/channels/data/\<close>): the context of the monitor, the limiter, the protocol adapters that mappings and
  containers refer to, the table of streams that wait for a data channel, the relays between a
  user's connection and a stream, and the open listeners. Connections are references; what is written to
  them, and when they are closed, is the trace \<open>sv_out\<close>.
\<close>

section \<open>State and trace\<close>

datatype server_event =
    ConnWrote nat "byte list"
  | ConnClosed nat
  | MonitorSent nat json
  | DataSent nat json
  | ListenerClosed nat
  | HandlerDone nat
  | Piped nat nat

text \<open>
  A relay of \<open>setupTCPStreamOverWebSocket\<close>: its captured variables. \<open>rl_dataSub\<close> and \<open>rl_closeSub\<close> are the
  unsubscribe functions (the handler ids they remove), nil until they are assigned;
  \<open>rl_closed\<close> is \<open>sourceConnClosed\<close>, set by the body of \<open>closeOnce\<close>.
\<close>

record Relay =
  rl_streamID :: string
  rl_clientID :: string
  rl_conn :: nat
  rl_adapter :: nat
  rl_dataSub :: "nat option"
  rl_closeSub :: "nat option"
  rl_closed :: bool
  rl_onComplete :: "nat option"

record Server =
  sv_ctx :: Context
  sv_limiter :: bandwidthLimiter
  sv_adapters :: "nat \<Rightarrow> session_adapter option"
  sv_ready :: "string \<Rightarrow> bool option"   \<comment> \<open>\<open>dataChannelReadyChan\<close>: one-place channels, full or not\<close>
  sv_relays :: "Relay list"
  sv_listeners :: "(nat \<times> int) list"
  sv_out :: "server_event list"

text \<open>
  The surroundings of one call. \<open>se_conn_write\<close> is \<open>None\<close> for a complete write and \<open>Some k\<close> for an error
  after \<open>k\<close> bytes; \<open>se_token\<close> gives the token functions containers refer to, \<open>se_mac\<close> is
  HMAC-SHA256 on bytes, \<open>se_listen\<close> the system's answer to a request to listen on a port.
\<close>

record SrvEnv =
  se_env :: Env
  se_clock :: "nat \<Rightarrow> int"
  se_retry_clock :: "nat \<Rightarrow> int"
  se_now :: int
  se_date :: string
  se_conn_write :: "nat \<Rightarrow> byte list \<Rightarrow> server_event list \<Rightarrow> nat option"
  se_ws_write :: "nat \<Rightarrow> json \<Rightarrow> server_event list \<Rightarrow> bool"
  se_free_port :: "int option"
  se_listen :: "int \<Rightarrow> nat option"
  se_listen_error :: string
  se_token :: "nat \<Rightarrow> string \<Rightarrow> string \<Rightarrow> GetTokenOptions option \<Rightarrow> (token_error, TokenResponse) outcome"
  se_mac :: "byte list \<Rightarrow> byte list \<Rightarrow> byte list"

definition sv_emit :: "server_event list \<Rightarrow> Server \<Rightarrow> Server" where
  "sv_emit evs s = s\<lparr>sv_out := sv_out s @ evs\<rparr>"

definition on_ctx :: "(Context \<Rightarrow> Context) \<Rightarrow> Server \<Rightarrow> Server" where
  "on_ctx f s = s\<lparr>sv_ctx := f (sv_ctx s)\<rparr>"

definition on_stats :: "(TrafficStatsData \<Rightarrow> TrafficStatsData) \<Rightarrow> Server \<Rightarrow> Server" where
  "on_stats f = on_ctx (\<lambda>cx. cx\<lparr>cx_TrafficStats := f (cx_TrafficStats cx)\<rparr>)"

definition on_container :: "(tunnels \<Rightarrow> tunnels) \<Rightarrow> Server \<Rightarrow> Server" where
  "on_container f = on_ctx (\<lambda>cx. cx\<lparr>cx_Container := f (cx_Container cx)\<rparr>)"

definition get_container :: "Server \<Rightarrow> string \<Rightarrow> TunnelMapping option" where
  "get_container s i = tunnel_Get (cx_Container (sv_ctx s)) i"

section \<open>Connections\<close>

text \<open>A write to a closed connection fails.\<close>

definition write_conn :: "SrvEnv \<Rightarrow> nat \<Rightarrow> byte list \<Rightarrow> Server \<Rightarrow> Server \<times> bool" where
  "write_conn env conn bytes s =
     (if ConnClosed conn \<in> set (sv_out s) then (s, False)
      else case se_conn_write env conn bytes (sv_out s) of
        None \<Rightarrow> (sv_emit [ConnWrote conn bytes] s, True)
      | Some k \<Rightarrow> (sv_emit [ConnWrote conn (take k bytes)] s, False))"

definition close_conn :: "nat \<Rightarrow> Server \<Rightarrow> Server" where
  "close_conn conn s = sv_emit [ConnClosed conn] s"

definition ws_write :: "SrvEnv \<Rightarrow> nat \<Rightarrow> json \<Rightarrow> Server \<Rightarrow> Server \<times> bool" where
  "ws_write env ws msg s =
     (if se_ws_write env ws msg (sv_out s) then (sv_emit [MonitorSent ws msg] s, True) else (s, False))"

section \<open>Adapters\<close>

text \<open>The outcome of a send for its caller: no error, an error, or no return at all.\<close>

datatype send_result = Sent | NotSent | Stuck result

definition of_result :: "result \<Rightarrow> send_result" where
  "of_result r = (case r of Return \<Rightarrow> Sent | Raise e \<Rightarrow> NotSent | _ \<Rightarrow> Stuck r)"

definition of_legacy :: "legacy_result \<Rightarrow> send_result" where
  "of_legacy r = (case r of Ok _ \<Rightarrow> Sent | Err e \<Rightarrow> NotSent | Panic \<Rightarrow> Stuck Crash)"

definition bin_send :: "Adapter \<times> result \<Rightarrow> session_adapter \<times> send_result" where
  "bin_send p = (BinaryA (fst p), of_result (snd p))"

definition leg_send :: "LegacyAdapter \<times> legacy_result \<Rightarrow> session_adapter \<times> send_result" where
  "leg_send p = (LegacyA (fst p), of_legacy (snd p))"

text \<open>The interface \<open>ProtocolAdapter\<close> on the two implementations.\<close>

fun pa_SendHTTPRequest :: "Env \<Rightarrow> string \<Rightarrow> byte list \<Rightarrow> session_adapter \<Rightarrow> session_adapter \<times> send_result" where
  "pa_SendHTTPRequest env sid data (BinaryA a) = bin_send (SendHTTPRequest env sid data a)"
| "pa_SendHTTPRequest env sid data (LegacyA a) = leg_send (legacy_SendHTTPRequest env sid data a)"

fun pa_SendHTTPRequestHead ::
    "Env \<Rightarrow> string \<Rightarrow> byte list \<Rightarrow> bool \<Rightarrow> session_adapter \<Rightarrow> session_adapter \<times> send_result" where
  "pa_SendHTTPRequestHead env sid head fin (BinaryA a) = bin_send (SendHTTPRequestHead env sid head fin a)"
| "pa_SendHTTPRequestHead env sid head fin (LegacyA a) = leg_send (legacy_SendHTTPRequestHead sid head fin a)"

fun pa_SendHTTPRequestBody ::
    "Env \<Rightarrow> string \<Rightarrow> byte list \<Rightarrow> bool \<Rightarrow> session_adapter \<Rightarrow> session_adapter \<times> send_result" where
  "pa_SendHTTPRequestBody env sid chunk fin (BinaryA a) = bin_send (SendHTTPRequestBody env sid chunk fin a)"
| "pa_SendHTTPRequestBody env sid chunk fin (LegacyA a) = leg_send (legacy_SendHTTPRequestBody sid chunk fin a)"

fun pa_SendTCPData :: "Env \<Rightarrow> string \<Rightarrow> byte list \<Rightarrow> session_adapter \<Rightarrow> session_adapter \<times> send_result" where
  "pa_SendTCPData env sid data (BinaryA a) = bin_send (SendTCPData env sid data a)"
| "pa_SendTCPData env sid data (LegacyA a) = leg_send (legacy_SendTCPData sid data a)"

fun pa_NegotiatedFlags :: "session_adapter \<Rightarrow> int" where
  "pa_NegotiatedFlags (BinaryA a) = NegotiatedFlags a"
| "pa_NegotiatedFlags (LegacyA a) = legacy_NegotiatedFlags a"

fun pa_OnTCPData :: "handler \<Rightarrow> session_adapter \<Rightarrow> nat \<times> session_adapter" where
  "pa_OnTCPData h (BinaryA a) = map_prod id BinaryA (OnTCPData h a)"
| "pa_OnTCPData h (LegacyA a) = map_prod id LegacyA (legacy_OnTCPData h a)"

fun pa_unsubscribe_data :: "nat \<Rightarrow> session_adapter \<Rightarrow> session_adapter" where
  "pa_unsubscribe_data i (BinaryA a) = BinaryA (unsubscribe_data i a)"
| "pa_unsubscribe_data i (LegacyA a) = LegacyA (legacy_unsubscribe i a)"

text \<open>The legacy adapter returns a no-op.\<close>

fun pa_OnTCPClose :: "close_handler \<Rightarrow> session_adapter \<Rightarrow> nat \<times> session_adapter" where
  "pa_OnTCPClose h (BinaryA a) = map_prod id BinaryA (OnTCPClose h a)"
| "pa_OnTCPClose h (LegacyA a) = (0, LegacyA a)"

fun pa_unsubscribe_close :: "nat \<Rightarrow> session_adapter \<Rightarrow> session_adapter" where
  "pa_unsubscribe_close i (BinaryA a) = BinaryA (unsubscribe_close i a)"
| "pa_unsubscribe_close i (LegacyA a) = LegacyA a"

definition set_adapter :: "nat \<Rightarrow> session_adapter \<Rightarrow> Server \<Rightarrow> Server" where
  "set_adapter r a s = s\<lparr>sv_adapters := (sv_adapters s)(r \<mapsto> a)\<rparr>"

definition on_adapter :: "nat \<Rightarrow> (session_adapter \<Rightarrow> session_adapter) \<Rightarrow> Server \<Rightarrow> Server" where
  "on_adapter r f s = (case sv_adapters s r of None \<Rightarrow> s | Some a \<Rightarrow> set_adapter r (f a) s)"

text \<open>A send through a reference; the references in use always denote an adapter.\<close>

definition send_via ::
    "nat \<Rightarrow> (session_adapter \<Rightarrow> session_adapter \<times> send_result) \<Rightarrow> Server \<Rightarrow> Server \<times> send_result" where
  "send_via r send s =
     (case sv_adapters s r of
        None \<Rightarrow> (s, Stuck Crash)
      | Some a \<Rightarrow> (case send a of (a, res) \<Rightarrow> (set_adapter r a s, res)))"

text \<open>\<open>x.(protocol.ProtocolAdapter)\<close> on the field \<open>Adapter\<close> of a mapping or a container.\<close>

definition as_adapter :: "Server \<Rightarrow> nat option \<Rightarrow> nat option" where
  "as_adapter s r = (case r of Some i \<Rightarrow> if sv_adapters s i \<noteq> None then Some i else None | None \<Rightarrow> None)"

definition container_adapter :: "Server \<Rightarrow> TunnelMapping \<Rightarrow> nat option" where
  "container_adapter s m = as_adapter s (case tm_Adapter m of OtherValue r \<Rightarrow> Some r | _ \<Rightarrow> None)"

section \<open>Limits and statistics\<close>

definition check_up :: "(nat \<Rightarrow> int) \<Rightarrow> string \<Rightarrow> int \<Rightarrow> Server \<Rightarrow> Server \<times> bool" where
  "check_up clk client n s =
     (case CheckUpload clk client n (sv_limiter s) of (l, ok) \<Rightarrow> (s\<lparr>sv_limiter := l\<rparr>, ok))"

definition check_down :: "(nat \<Rightarrow> int) \<Rightarrow> string \<Rightarrow> int \<Rightarrow> Server \<Rightarrow> Server \<times> bool" where
  "check_down clk client n s =
     (case CheckDownload clk client n (sv_limiter s) of (l, ok) \<Rightarrow> (s\<lparr>sv_limiter := l\<rparr>, ok))"

section \<open>Facts\<close>

named_theorems server_simps \<open>what the small operations on the server state change\<close>

lemma sv_emit_simps [server_simps]:
  "sv_out (sv_emit evs s) = sv_out s @ evs" "sv_ctx (sv_emit evs s) = sv_ctx s"
  "sv_adapters (sv_emit evs s) = sv_adapters s" "sv_relays (sv_emit evs s) = sv_relays s"
  "sv_ready (sv_emit evs s) = sv_ready s" "sv_listeners (sv_emit evs s) = sv_listeners s"
  "sv_limiter (sv_emit evs s) = sv_limiter s"
  by (simp_all add: sv_emit_def)

lemma on_ctx_simps [server_simps]:
  "sv_out (on_ctx f s) = sv_out s" "sv_ctx (on_ctx f s) = f (sv_ctx s)"
  "sv_adapters (on_ctx f s) = sv_adapters s" "sv_relays (on_ctx f s) = sv_relays s"
  "sv_ready (on_ctx f s) = sv_ready s" "sv_listeners (on_ctx f s) = sv_listeners s"
  "sv_limiter (on_ctx f s) = sv_limiter s"
  by (simp_all add: on_ctx_def)

lemma on_stats_simps [server_simps]:
  "sv_out (on_stats g s) = sv_out s" "sv_adapters (on_stats g s) = sv_adapters s"
  "sv_relays (on_stats g s) = sv_relays s" "sv_ready (on_stats g s) = sv_ready s"
  "sv_listeners (on_stats g s) = sv_listeners s" "sv_limiter (on_stats g s) = sv_limiter s"
  "cx_TrafficStats (sv_ctx (on_stats g s)) = g (cx_TrafficStats (sv_ctx s))"
  "cx_Container (sv_ctx (on_stats g s)) = cx_Container (sv_ctx s)"
  "cx_Callbacks (sv_ctx (on_stats g s)) = cx_Callbacks (sv_ctx s)"
  "cx_DomainMappings (sv_ctx (on_stats g s)) = cx_DomainMappings (sv_ctx s)"
  by (simp_all add: on_stats_def on_ctx_simps)

lemma on_container_simps [server_simps]:
  "sv_out (on_container g s) = sv_out s" "sv_adapters (on_container g s) = sv_adapters s"
  "sv_relays (on_container g s) = sv_relays s" "sv_ready (on_container g s) = sv_ready s"
  "sv_listeners (on_container g s) = sv_listeners s" "sv_limiter (on_container g s) = sv_limiter s"
  "cx_Container (sv_ctx (on_container g s)) = g (cx_Container (sv_ctx s))"
  "cx_TrafficStats (sv_ctx (on_container g s)) = cx_TrafficStats (sv_ctx s)"
  "cx_Callbacks (sv_ctx (on_container g s)) = cx_Callbacks (sv_ctx s)"
  "cx_DomainMappings (sv_ctx (on_container g s)) = cx_DomainMappings (sv_ctx s)"
  by (simp_all add: on_container_def on_ctx_simps)

lemma set_adapter_simps [server_simps]:
  "sv_out (set_adapter r a s) = sv_out s" "sv_ctx (set_adapter r a s) = sv_ctx s"
  "sv_adapters (set_adapter r a s) = (sv_adapters s)(r \<mapsto> a)" "sv_relays (set_adapter r a s) = sv_relays s"
  "sv_ready (set_adapter r a s) = sv_ready s" "sv_listeners (set_adapter r a s) = sv_listeners s"
  "sv_limiter (set_adapter r a s) = sv_limiter s"
  by (simp_all add: set_adapter_def)

lemma on_adapter_simps [server_simps]:
  "sv_out (on_adapter r f s) = sv_out s" "sv_ctx (on_adapter r f s) = sv_ctx s"
  "sv_relays (on_adapter r f s) = sv_relays s" "sv_ready (on_adapter r f s) = sv_ready s"
  "sv_listeners (on_adapter r f s) = sv_listeners s" "sv_limiter (on_adapter r f s) = sv_limiter s"
  "sv_adapters (on_adapter r f s) i = (if i = r then map_option f (sv_adapters s r) else sv_adapters s i)"
  by (auto simp: on_adapter_def set_adapter_simps split: option.split)

lemma check_same [server_simps]:
  "sv_out (fst (check_up clk c n s)) = sv_out s" "sv_ctx (fst (check_up clk c n s)) = sv_ctx s"
  "sv_adapters (fst (check_up clk c n s)) = sv_adapters s" "sv_relays (fst (check_up clk c n s)) = sv_relays s"
  "sv_ready (fst (check_up clk c n s)) = sv_ready s" "sv_listeners (fst (check_up clk c n s)) = sv_listeners s"
  "sv_out (fst (check_down clk c n s)) = sv_out s" "sv_ctx (fst (check_down clk c n s)) = sv_ctx s"
  "sv_adapters (fst (check_down clk c n s)) = sv_adapters s" "sv_relays (fst (check_down clk c n s)) = sv_relays s"
  "sv_ready (fst (check_down clk c n s)) = sv_ready s" "sv_listeners (fst (check_down clk c n s)) = sv_listeners s"
  by (simp_all add: check_up_def check_down_def split: prod.splits)

lemma close_conn_simps [server_simps]:
  "sv_out (close_conn c s) = sv_out s @ [ConnClosed c]" "sv_ctx (close_conn c s) = sv_ctx s"
  "sv_adapters (close_conn c s) = sv_adapters s" "sv_relays (close_conn c s) = sv_relays s"
  "sv_ready (close_conn c s) = sv_ready s" "sv_listeners (close_conn c s) = sv_listeners s"
  "sv_limiter (close_conn c s) = sv_limiter s"
  by (simp_all add: close_conn_def sv_emit_simps)

lemma write_conn_same [server_simps]:
  "sv_ctx (fst (write_conn env c bs s)) = sv_ctx s" "sv_adapters (fst (write_conn env c bs s)) = sv_adapters s"
  "sv_relays (fst (write_conn env c bs s)) = sv_relays s" "sv_ready (fst (write_conn env c bs s)) = sv_ready s"
  "sv_listeners (fst (write_conn env c bs s)) = sv_listeners s" "sv_limiter (fst (write_conn env c bs s)) = sv_limiter s"
  by (auto simp: write_conn_def sv_emit_simps split: option.split)

end
