(* ===== verification/TcpTunnel.thy ===== *)
theory TcpTunnel
  imports ServerState
begin

text \<open>
  \<^verbatim>\<open>internal/server/tunnel/tcp.go\<close>: the public listener of a TCP tunnel, the hand-over of a user's
  connection to the client, the wait for a stream's data channel, and the relay between a user's
  connection and a stream. The goroutines of a relay take turns: each definition below is what one of
  them does between two blocking operations.
\<close>

section \<open>Listening\<close>

datatype tcp_error =
    UnknownContainer string | NoFreePort | SetFailed string | ListenFailed int | ReadyNotSent

definition getAvailablePort :: "SrvEnv \<Rightarrow> int option" where
  "getAvailablePort env = se_free_port env"

text \<open>\<open>net.Listen\<close>: a port with an open listener cannot be bound again.\<close>

definition listen :: "SrvEnv \<Rightarrow> int \<Rightarrow> Server \<Rightarrow> Server \<times> nat option" where
  "listen env port s =
     (if port \<in> snd ` set (sv_listeners s) then (s, None)
      else case se_listen env port of
        None \<Rightarrow> (s, None)
      | Some l \<Rightarrow> (s\<lparr>sv_listeners := sv_listeners s @ [(l, port)]\<rparr>, Some l))"

definition close_listener :: "nat \<Rightarrow> Server \<Rightarrow> Server" where
  "close_listener l s =
     sv_emit [ListenerClosed l] (s\<lparr>sv_listeners := filter (\<lambda>p. fst p \<noteq> l) (sv_listeners s)\<rparr>)"

definition sendTCPListenFatalError :: "SrvEnv \<Rightarrow> TunnelMapping \<Rightarrow> Server \<Rightarrow> Server" where
  "sendTCPListenFatalError env container s =
     fst (ws_write env (tm_WSSocket container)
       (monitor_message ''error'' (JObj [(''message'', JStr (se_listen_error env)), (''fatal'', JBool True),
          (''code'', JStr ''tcp_listen_failed'')])) s)"

text \<open>\<open>Container.Set\<close> on the server's state; the flag tells whether it succeeded.\<close>

definition set_in_container :: "string \<Rightarrow> string \<Rightarrow> any_value \<Rightarrow> Server \<Rightarrow> Server \<times> bool" where
  "set_in_container i key v s =
     (case tunnel_Set i key v (cx_Container (sv_ctx s)) of
        Ok ts \<Rightarrow> (on_container (\<lambda>_. ts) s, True)
      | _ \<Rightarrow> (s, False))"

definition source_port :: "SrvEnv \<Rightarrow> TunnelMapping \<Rightarrow> int option" where
  "source_port env container =
     (case tm_TunnelPort container of
        Some p \<Rightarrow> if p \<noteq> 0 then Some p
          else (case tm_SourcePort container of
             Some q \<Rightarrow> if q \<noteq> 0 then Some q else getAvailablePort env
           | None \<Rightarrow> getAvailablePort env)
      | None \<Rightarrow> (case tm_SourcePort container of
             Some q \<Rightarrow> if q \<noteq> 0 then Some q else getAvailablePort env
           | None \<Rightarrow> getAvailablePort env))"

definition tcp_ready_message :: "string \<Rightarrow> int \<Rightarrow> json" where
  "tcp_ready_message domain port = monitor_message ''tcp:ready'' (JObj [(''host'', JStr domain), (''port'', JNum port)])"

text \<open>The result of success is the listener of the accept loop it starts, if it starts one.\<close>

definition CreateServer ::
    "SrvEnv \<Rightarrow> string \<Rightarrow> string \<Rightarrow> Server \<Rightarrow> Server \<times> (tcp_error, nat option) outcome" where
  "CreateServer env containerID domain s =
     (case get_container s containerID of
        None \<Rightarrow> (s, Err (UnknownContainer containerID))
      | Some container \<Rightarrow>
          if tm_SourceServer container \<noteq> None then (s, Ok None)
          else case source_port env container of
            None \<Rightarrow> (s, Err NoFreePort)
          | Some port \<Rightarrow>
              (case set_in_container containerID ''sourcePort'' (IntValue port) s of
                 (s, False) \<Rightarrow> (s, Err (SetFailed ''sourcePort''))
               | (s, True) \<Rightarrow>
                   (case listen env port s of
                      (s, None) \<Rightarrow> (sendTCPListenFatalError env container s, Err (ListenFailed port))
                    | (s, Some l) \<Rightarrow>
                        (case ws_write env (tm_WSSocket container) (tcp_ready_message domain port) s of
                           (s, False) \<Rightarrow> (close_listener l s, Err ReadyNotSent)
                         | (s, True) \<Rightarrow>
                             (case set_in_container containerID ''sourceServer'' (ListenerValue l) s of
                                (s, False) \<Rightarrow> (close_listener l s, Err (SetFailed ''sourceServer''))
                              | (s, True) \<Rightarrow> (s, Ok (Some l)))))))"

section \<open>The data channel of a stream\<close>

definition data_channel_open :: "string \<Rightarrow> string \<Rightarrow> json" where
  "data_channel_open streamID requestID =
     monitor_message ''data:channel:open'' (JObj [(''streamId'', JStr streamID), (''requestId'', JStr requestID)])"

definition NotifyDataChannelReady :: "string \<Rightarrow> Server \<Rightarrow> Server" where
  "NotifyDataChannelReady streamID s =
     (case sv_ready s streamID of
        None \<Rightarrow> s
      | Some _ \<Rightarrow> s\<lparr>sv_ready := (sv_ready s)(streamID \<mapsto> True)\<rparr>)"

definition forget_ready :: "string \<Rightarrow> Server \<Rightarrow> Server" where
  "forget_ready streamID s = s\<lparr>sv_ready := (sv_ready s)(streamID := None)\<rparr>"

text \<open>
  The wait. A script says what happens while the goroutine waits: other goroutines change the
  state, and the \<open>select\<close> takes its ready channel or its ticker; at the end of the script the ten seconds
  are over. \<open>container\<close> is the object the caller holds: it stays as it was once it has left the registry.
\<close>

datatype wait_event = Meanwhile "Server \<Rightarrow> Server" | ReadySignal | Tick

fun wait_ready :: "string \<Rightarrow> string \<Rightarrow> TunnelMapping \<Rightarrow> wait_event list \<Rightarrow> Server \<Rightarrow> Server \<times> bool" where
  "wait_ready containerID streamID container [] s = (forget_ready streamID s, False)"
| "wait_ready containerID streamID container (Meanwhile f # evs) s =
     (let s = f s in
      wait_ready containerID streamID (case get_container s containerID of Some m \<Rightarrow> m | None \<Rightarrow> container) evs s)"
| "wait_ready containerID streamID container (ReadySignal # evs) s =
     (if sv_ready s streamID = Some True then (forget_ready streamID s, True)
      else wait_ready containerID streamID container evs s)"
| "wait_ready containerID streamID container (Tick # evs) s =
     (if tm_DataSockets container streamID \<noteq> None then (forget_ready streamID s, True)
      else wait_ready containerID streamID container evs s)"

definition ensureDataChannelForStream ::
    "SrvEnv \<Rightarrow> wait_event list \<Rightarrow> string \<Rightarrow> string \<Rightarrow> string \<Rightarrow> TunnelMapping \<Rightarrow> Server \<Rightarrow> Server \<times> bool" where
  "ensureDataChannelForStream env script containerID streamID requestID container s =
     (if tm_DataSockets container streamID \<noteq> None then (s, True)
      else
        case ws_write env (tm_WSSocket container) (data_channel_open streamID requestID)
               (s\<lparr>sv_ready := (sv_ready s)(streamID \<mapsto> False)\<rparr>) of
          (s, False) \<Rightarrow> (forget_ready streamID s, False)
        | (s, True) \<Rightarrow> wait_ready containerID streamID container script s)"

definition tcpRelaySetupDelay :: "int \<Rightarrow> int" where
  "tcpRelaySetupDelay negotiatedFlags =
     (if negotiatedFlags AND CapabilityFlagTCPOverWS \<noteq> 0
        \<and> negotiatedFlags AND CapabilityFlagTCPEarlyStreamRegister = 0
      then 75 * 1000000 else 0)"

section \<open>The relay\<close>

definition set_relay :: "nat \<Rightarrow> (Relay \<Rightarrow> Relay) \<Rightarrow> Server \<Rightarrow> Server" where
  "set_relay i f s = (if i < length (sv_relays s) then s\<lparr>sv_relays := (sv_relays s)[i := f (sv_relays s ! i)]\<rparr> else s)"

text \<open>\<open>closeUserConn\<close> of relay \<open>i\<close>; only its first call does anything.\<close>

definition unsubscribe_relay :: "Relay \<Rightarrow> Server \<Rightarrow> Server" where
  "unsubscribe_relay r s =
     (let s = (case rl_dataSub r of None \<Rightarrow> s | Some h \<Rightarrow> on_adapter (rl_adapter r) (pa_unsubscribe_data h) s)
      in case rl_closeSub r of None \<Rightarrow> s | Some h \<Rightarrow> on_adapter (rl_adapter r) (pa_unsubscribe_close h) s)"

definition closeUserConn :: "nat \<Rightarrow> Server \<Rightarrow> Server" where
  "closeUserConn i s =
     (let r = sv_relays s ! i in
      if i \<ge> length (sv_relays s) \<or> rl_closed r then s
      else
        let s = unsubscribe_relay r (set_relay i (\<lambda>r. r\<lparr>rl_closed := True\<rparr>) s);
            s = close_conn (rl_conn r) s
        in case rl_onComplete r of None \<Rightarrow> s | Some p \<Rightarrow> sv_emit [HandlerDone p] s)"

text \<open>
  The handlers: what they do to the state is \<open>relay_data\<close> and \<open>relay_close\<close>; the error they return to the adapter is
  dropped by every caller.
\<close>

definition relay_handler :: handler where "relay_handler sid data = None"
definition relay_close_handler :: close_handler where "relay_close_handler sid = None"

text \<open>
  The three steps of \<open>setupTCPStreamOverWebSocket\<close> in between which the upload goroutine, started in
  the first, may already run. The first one's relay is the last of the list.
\<close>

definition relay_start ::
    "SrvEnv \<Rightarrow> string \<Rightarrow> string \<Rightarrow> nat \<Rightarrow> nat \<Rightarrow> nat option \<Rightarrow> Server \<Rightarrow> Server" where
  "relay_start env containerID streamID sourceConn adapter onRelayComplete s =
     (let clientID = (case get_container s containerID of None \<Rightarrow> '''' | Some m \<Rightarrow> tm_ClientId m);
          s = on_stats (AddConnection (se_now env) clientID) s
      in s\<lparr>sv_relays := sv_relays s @ [\<lparr>rl_streamID = streamID, rl_clientID = clientID, rl_conn = sourceConn,
             rl_adapter = adapter, rl_dataSub = None, rl_closeSub = None, rl_closed = False,
             rl_onComplete = onRelayComplete\<rparr>]\<rparr>)"

definition relay_register_data :: "nat \<Rightarrow> Server \<Rightarrow> Server" where
  "relay_register_data i s =
     (let r = rl_adapter (sv_relays s ! i) in
      case sv_adapters s r of
        None \<Rightarrow> s
      | Some a \<Rightarrow> (case pa_OnTCPData relay_handler a of
          (h, a) \<Rightarrow> set_relay i (\<lambda>x. x\<lparr>rl_dataSub := Some h\<rparr>) (set_adapter r a s)))"

definition relay_register_close :: "nat \<Rightarrow> Server \<Rightarrow> Server" where
  "relay_register_close i s =
     (let r = rl_adapter (sv_relays s ! i) in
      case sv_adapters s r of
        None \<Rightarrow> s
      | Some a \<Rightarrow> (case pa_OnTCPClose relay_close_handler a of
          (h, a) \<Rightarrow> set_relay i (\<lambda>x. x\<lparr>rl_closeSub := Some h\<rparr>) (set_adapter r a s)))"

definition setupTCPStreamOverWebSocket ::
    "SrvEnv \<Rightarrow> string \<Rightarrow> string \<Rightarrow> nat \<Rightarrow> nat \<Rightarrow> nat option \<Rightarrow> Server \<Rightarrow> Server" where
  "setupTCPStreamOverWebSocket env containerID streamID sourceConn adapter onRelayComplete s =
     (let i = length (sv_relays s) in
      relay_register_close i (relay_register_data i
        (relay_start env containerID streamID sourceConn adapter onRelayComplete s)))"

text \<open>
  One turn of the upload loop: a read of at most 32 KiB, or its error. A refused chunk is tried again
  after 100 ms and then dropped.
\<close>

definition check_twice ::
    "SrvEnv \<Rightarrow> ((nat \<Rightarrow> int) \<Rightarrow> string \<Rightarrow> int \<Rightarrow> Server \<Rightarrow> Server \<times> bool) \<Rightarrow> string \<Rightarrow> int \<Rightarrow> Server \<Rightarrow> Server \<times> bool" where
  "check_twice env check client n s =
     (case check (se_clock env) client n s of
        (s, True) \<Rightarrow> (s, True)
      | (s, False) \<Rightarrow> check (se_retry_clock env) client n s)"

definition relay_upload :: "SrvEnv \<Rightarrow> nat \<Rightarrow> byte list option \<Rightarrow> Server \<Rightarrow> Server" where
  "relay_upload env i read s =
     (let r = sv_relays s ! i in
      case read of
        None \<Rightarrow> closeUserConn i s
      | Some data \<Rightarrow>
          if data = [] then s
          else case check_twice env check_up (rl_clientID r) (int (length data)) s of
            (s, False) \<Rightarrow> s
          | (s, True) \<Rightarrow>
              let s = on_stats (AddUploadBytes (se_now env) (rl_clientID r) (of_nat (length data))) s in
              (case send_via (rl_adapter r) (pa_SendTCPData (se_env env) (rl_streamID r) data) s of
                 (s, NotSent) \<Rightarrow> closeUserConn i s
               | (s, _) \<Rightarrow> s))"

text \<open>The handlers of relay \<open>i\<close>.\<close>

definition relay_data :: "SrvEnv \<Rightarrow> nat \<Rightarrow> string \<Rightarrow> byte list \<Rightarrow> Server \<Rightarrow> Server" where
  "relay_data env i streamId data s =
     (let r = sv_relays s ! i in
      if streamId \<noteq> rl_streamID r \<or> rl_closed r then s
      else case check_twice env check_down (rl_clientID r) (int (length data)) s of
        (s, False) \<Rightarrow> s
      | (s, True) \<Rightarrow>
          let s = on_stats (AddDownloadBytes (se_now env) (rl_clientID r) (of_nat (length data))) s in
          (case write_conn env (rl_conn r) data s of
             (s, False) \<Rightarrow> closeUserConn i s
           | (s, True) \<Rightarrow> s))"

definition relay_close :: "nat \<Rightarrow> string \<Rightarrow> Server \<Rightarrow> Server" where
  "relay_close i streamId s = (if streamId \<noteq> rl_streamID (sv_relays s ! i) then s else closeUserConn i s)"

text \<open>The adapter \<open>ref\<close> has called handler \<open>h\<close>: the relay that registered it runs.\<close>

definition relay_of :: "(Relay \<Rightarrow> nat option) \<Rightarrow> nat \<Rightarrow> nat \<Rightarrow> Relay list \<Rightarrow> nat option" where
  "relay_of sub ref h rs =
     List.find (\<lambda>i. rl_adapter (rs ! i) = ref \<and> sub (rs ! i) = Some h) [0..<length rs]"

fun run_tcp_handlers :: "SrvEnv \<Rightarrow> nat \<Rightarrow> out_event list \<Rightarrow> Server \<Rightarrow> Server" where
  "run_tcp_handlers env ref [] s = s"
| "run_tcp_handlers env ref (HandledTCPData h sid data # evs) s =
     run_tcp_handlers env ref evs
       (case relay_of rl_dataSub ref h (sv_relays s) of None \<Rightarrow> s | Some i \<Rightarrow> relay_data env i sid data s)"
| "run_tcp_handlers env ref (HandledTCPClose h sid # evs) s =
     run_tcp_handlers env ref evs
       (case relay_of rl_closeSub ref h (sv_relays s) of None \<Rightarrow> s | Some i \<Rightarrow> relay_close i sid s)"
| "run_tcp_handlers env ref (_ # evs) s = run_tcp_handlers env ref evs s"

section \<open>Users' connections\<close>

definition tcp_connect :: "string \<Rightarrow> string \<Rightarrow> string \<Rightarrow> json" where
  "tcp_connect containerID requestID ip =
     monitor_message ''tcp:connect'' (JObj [(''id'', JStr containerID), (''requestId'', JStr requestID), (''ip'', JStr ip)])"

text \<open>
  \<open>handleSourceConnection\<close>; \<open>requestID\<close> is a new UUID, \<open>container\<close> the object the accept loop holds, and \<open>script\<close>
  what happens during the wait for the data channel.
\<close>

definition handleSourceConnection ::
    "SrvEnv \<Rightarrow> wait_event list \<Rightarrow> string \<Rightarrow> string \<Rightarrow> nat \<Rightarrow> string \<Rightarrow> TunnelMapping \<Rightarrow> Server \<Rightarrow> Server" where
  "handleSourceConnection env script requestID ip conn containerID container s =
     (let s = on_container (RegisterRequest containerID requestID (Some conn)) s;
          adapter = (if tm_UseNewProtocol container then container_adapter s container else None);
          streamID = containerID @ '':'' @ requestID
      in case (case adapter of None \<Rightarrow> (s, True)
               | Some r \<Rightarrow> ensureDataChannelForStream env script containerID streamID requestID container s) of
           (s, False) \<Rightarrow> close_conn conn s
         | (s, True) \<Rightarrow>
             (case ws_write env (tm_WSSocket container) (tcp_connect containerID requestID ip) s of
                (s, False) \<Rightarrow> close_conn conn s
              | (s, True) \<Rightarrow>
                  (case adapter of
                     None \<Rightarrow> s
                   | Some r \<Rightarrow> setupTCPStreamOverWebSocket env containerID streamID conn r None s)))"

text \<open>
  One turn of the accept loop: it goes on, or it ends, perhaps with the listener of a successor. Its own listener is
  closed when the loop has returned, after the attempt to create the successor.
\<close>

datatype accept_event = Accepted nat string string "wait_event list" | Temporary | AcceptError

datatype accept_turn = GoesOn | Ended "nat option"

definition runTCPAcceptLoop ::
    "SrvEnv \<Rightarrow> accept_event \<Rightarrow> nat \<Rightarrow> string \<Rightarrow> string \<Rightarrow> TunnelMapping \<Rightarrow> Server \<Rightarrow> Server \<times> accept_turn" where
  "runTCPAcceptLoop env ev l domain containerID container s =
     (case ev of
        Temporary \<Rightarrow> (s, GoesOn)
      | Accepted conn requestID ip script \<Rightarrow>
          (handleSourceConnection env script requestID ip conn containerID container s, GoesOn)
      | AcceptError \<Rightarrow>
          (case CreateServer env containerID domain (fst (set_in_container containerID ''sourceServer'' NilValue s)) of
             (s, r) \<Rightarrow> (close_listener l s, Ended (case r of Ok l' \<Rightarrow> l' | _ \<Rightarrow> None))))"

end
