(* ===== verification/DataChannel.thy ===== *)
theory DataChannel
  imports TcpTunnel
begin

text \<open>
  \<^verbatim>\<open>internal/server/channels/data/\<close>: the per-stream WebSocket data channels of the new protocol
  (\<^verbatim>\<open>new.go\<close>) and the raw TCP connections by which a legacy client answers a waiting user
  (\<^verbatim>\<open>legacy.go\<close>).
\<close>

section \<open>Data channels\<close>

datatype attach_result = Rejected nat | UpgradeFailed | GoneAfterUpgrade | Attached

text \<open>The binary adapter implements the optional interface, the legacy one does not.\<close>

fun pa_SetDataChannelForStream :: "string \<Rightarrow> nat \<Rightarrow> session_adapter \<Rightarrow> session_adapter" where
  "pa_SetDataChannelForStream sid conn (BinaryA a) = BinaryA (SetDataChannelForStream sid conn a)"
| "pa_SetDataChannelForStream sid conn (LegacyA a) = LegacyA a"

fun pa_RemoveDataChannelForStream :: "string \<Rightarrow> session_adapter \<Rightarrow> session_adapter" where
  "pa_RemoveDataChannelForStream sid (BinaryA a) = BinaryA (RemoveDataChannelForStream sid a)"
| "pa_RemoveDataChannelForStream sid (LegacyA a) = LegacyA a"

definition on_container_adapter ::
    "TunnelMapping \<Rightarrow> (session_adapter \<Rightarrow> session_adapter) \<Rightarrow> Server \<Rightarrow> Server" where
  "on_container_adapter container f s =
     (if tm_UseNewProtocol container then
        (case container_adapter s container of None \<Rightarrow> s | Some r \<Rightarrow> on_adapter r f s)
      else s)"

definition put_data_socket :: "string \<Rightarrow> string \<Rightarrow> nat option \<Rightarrow> Server \<Rightarrow> Server" where
  "put_data_socket containerId streamId conn s =
     on_container (\<lambda>ts. case ts containerId of None \<Rightarrow> ts
       | Some m \<Rightarrow> ts(containerId \<mapsto> m\<lparr>tm_DataSockets := (tm_DataSockets m)(streamId := conn)\<rparr>)) s"

text \<open>
  \<open>HandleConnection\<close> up to the message loop. \<open>upgraded\<close> is the WebSocket handshake's success,
  \<open>meanwhile\<close> what the rest of the server does during it, \<open>conn\<close> the new connection.
\<close>

definition data_HandleConnection ::
    "string \<Rightarrow> string \<Rightarrow> string \<Rightarrow> bool \<Rightarrow> (Server \<Rightarrow> Server) \<Rightarrow> nat \<Rightarrow> Server \<Rightarrow> Server \<times> attach_result" where
  "data_HandleConnection clientId containerId streamId upgraded meanwhile conn s =
     (if clientId = '''' \<or> containerId = '''' \<or> streamId = '''' then (s, Rejected 400)
      else case get_container s containerId of
        None \<Rightarrow> (s, Rejected 404)
      | Some container \<Rightarrow>
          if tm_ClientId container \<noteq> clientId then (s, Rejected 403)
          else if \<not> upgraded then (s, UpgradeFailed)
          else
            let s = meanwhile s in
            (case get_container s containerId of
               None \<Rightarrow> (close_conn conn s, GoneAfterUpgrade)
             | Some container \<Rightarrow>
                 if tm_ClientId container \<noteq> clientId then (close_conn conn s, GoneAfterUpgrade)
                 else
                   (on_container_adapter container (pa_SetDataChannelForStream streamId conn)
                      (put_data_socket containerId streamId (Some conn) s), Attached)))"

text \<open>What the deferred function of \<open>handleConnection\<close> does when the channel's loop ends.\<close>

definition data_disconnect :: "string \<Rightarrow> string \<Rightarrow> nat \<Rightarrow> Server \<Rightarrow> Server" where
  "data_disconnect containerId streamId conn s =
     close_conn conn
       (case get_container s containerId of
          None \<Rightarrow> s
        | Some c \<Rightarrow>
            on_container_adapter c (pa_RemoveDataChannelForStream streamId)
              (put_data_socket containerId streamId None s))"

definition sendDataChannelPongJSON :: "SrvEnv \<Rightarrow> nat \<Rightarrow> Server \<Rightarrow> Server" where
  "sendDataChannelPongJSON env conn s =
     (let msg = JArr [JStr ''pong'', JNull] in
      if se_ws_write env conn msg (sv_out s) then sv_emit [DataSent conn msg] s else s)"

text \<open>
  A frame on the channel. A binary frame goes to the adapter of the container the channel was opened
  for, and the adapter's new events to the relays. \<open>TextFrame None\<close> is text that is not a JSON array.
\<close>

definition data_bytes :: "SrvEnv \<Rightarrow> TunnelMapping \<Rightarrow> byte list \<Rightarrow> Server \<Rightarrow> Server \<times> send_result" where
  "data_bytes env container message s =
     (case container_adapter s container of
        None \<Rightarrow> (s, Sent)
      | Some r \<Rightarrow>
          (case sv_adapters s r of
             Some (BinaryA a) \<Rightarrow>
               (case HandleBinaryMessage (se_env env) message a of
                  (b, res) \<Rightarrow>
                    (run_tcp_handlers env r (drop (length (ad_out a)) (ad_out b)) (set_adapter r (BinaryA b) s),
                     of_result res))
           | _ \<Rightarrow> (s, Sent)))"

definition data_handleConnection ::
    "SrvEnv \<Rightarrow> ws_event \<Rightarrow> nat \<Rightarrow> string \<Rightarrow> string \<Rightarrow> TunnelMapping \<Rightarrow> Server \<Rightarrow> Server \<times> loop_status" where
  "data_handleConnection env ev conn containerId streamId container s =
     (case ev of
        ReadError \<Rightarrow> (data_disconnect containerId streamId conn s, Finished)
      | BinaryFrame message \<Rightarrow>
          (case data_bytes env container message s of
             (s, Stuck Crash) \<Rightarrow> (s, Crashed)
           | (s, Stuck _) \<Rightarrow> (s, Hanging)
           | (s, _) \<Rightarrow> (s, Serving))
      | TextFrame (Some (JStr ev # rest)) \<Rightarrow>
          (if ev = ''ping'' then sendDataChannelPongJSON env conn s else s, Serving)
      | _ \<Rightarrow> (s, Serving))"

section \<open>Legacy data connections\<close>

definition TUNNEL_TCP_FLAG :: string where
  "TUNNEL_TCP_FLAG = ''3e55f8e5-021b-441c-8e3b-64e87ea5f263''"

definition TUNNEL_TCP_OK_FLAG :: string where
  "TUNNEL_TCP_OK_FLAG = TUNNEL_TCP_FLAG @ ''200'' @ [CHR 0x0A]"

definition UID_LENGTH :: nat where "UID_LENGTH = 36"
definition REQUEST_ID_LENGTH :: nat where "REQUEST_ID_LENGTH = 36"
definition SIGNATURE_LENGTH :: nat where "SIGNATURE_LENGTH = 64"

definition hmacSHA256 :: "(byte list \<Rightarrow> byte list \<Rightarrow> byte list) \<Rightarrow> string \<Rightarrow> string \<Rightarrow> string" where
  "hmacSHA256 mac message secret = hex_encode (mac (str_bytes secret) (str_bytes message))"

datatype tcp_auth_error = TooShort | InvalidFlag | NoContainer | NoToken | EmptyToken | WrongSignature | OkNotWritten

definition onAuthenticate :: "string \<Rightarrow> string \<Rightarrow> nat \<Rightarrow> Server \<Rightarrow> Server" where
  "onAuthenticate containerID requestID targetSocket s =
     (case get_container s containerID of
        None \<Rightarrow> close_conn targetSocket s
      | Some _ \<Rightarrow>
          (case ConnectRequest containerID requestID targetSocket (cx_Container (sv_ctx s)) of
             Ok (ts, source, target) \<Rightarrow> sv_emit [Piped source target] (on_container (\<lambda>_. ts) s)
           | _ \<Rightarrow> close_conn targetSocket s))"

text \<open>A refusal writes the flag with a status and closes.\<close>

definition refuse :: "SrvEnv \<Rightarrow> nat \<Rightarrow> string \<Rightarrow> Server \<Rightarrow> Server" where
  "refuse env conn status s =
     close_conn conn (fst (write_conn env conn (str_bytes (TUNNEL_TCP_FLAG @ status)) s))"

definition processAuthentication ::
    "SrvEnv \<Rightarrow> nat \<Rightarrow> byte list \<Rightarrow> Server \<Rightarrow> Server \<times> (tcp_auth_error, unit) outcome" where
  "processAuthentication env conn data s =
     (let text = bytes_str data; f = length TUNNEL_TCP_FLAG;
          containerID = take UID_LENGTH (drop f text);
          requestID = take REQUEST_ID_LENGTH (drop (f + UID_LENGTH) text);
          signature = take SIGNATURE_LENGTH (drop (f + UID_LENGTH + REQUEST_ID_LENGTH) text)
      in
      if length data < f + UID_LENGTH + REQUEST_ID_LENGTH + SIGNATURE_LENGTH then (s, Err TooShort)
      else if take f text \<noteq> TUNNEL_TCP_FLAG then (refuse env conn ''401 unauthorized'' s, Err InvalidFlag)
      else case get_container s containerID of
        None \<Rightarrow> (refuse env conn ''404 invalid client'' s, Err NoContainer)
      | Some container \<Rightarrow>
          (case se_token env (tm_Token container) (tm_AuthType container) (tm_ClientId container)
                  (Some \<lparr>go_Type = ''tcp'', go_OpaqueChild = False\<rparr>) of
             Ok res \<Rightarrow>
               if tr_Token res = '''' then (refuse env conn ''403 invalid client'' s, Err EmptyToken)
               else if signature \<noteq> hmacSHA256 (se_mac env) containerID (tr_Token res)
                 then (refuse env conn ''402 invalid signature'' s, Err WrongSignature)
               else
                 (case write_conn env conn (str_bytes TUNNEL_TCP_OK_FLAG) s of
                    (s, False) \<Rightarrow> (s, Err OkNotWritten)
                  | (s, True) \<Rightarrow> (onAuthenticate containerID requestID conn s, Ok ()))
           | _ \<Rightarrow> (refuse env conn ''404 invalid client'' s, Err NoToken)))"

text \<open>
  One read of \<open>TCPMonitor.handleConnection\<close>, of at most 4096 bytes: the loop ends with a read
  error and after any outcome of the authentication.
\<close>

definition tcp_monitor_read :: "SrvEnv \<Rightarrow> nat \<Rightarrow> byte list option \<Rightarrow> Server \<Rightarrow> Server" where
  "tcp_monitor_read env conn read s =
     (case read of None \<Rightarrow> s | Some data \<Rightarrow> fst (processAuthentication env conn data s))"

text \<open>
  \<open>logAuthFailure\<close>: at most one line per address and minute. The flag tells whether a line
  is written; the address is the part before the last colon.
\<close>

definition logAuthFailure :: "int \<Rightarrow> string \<Rightarrow> (string \<Rightarrow> int option) \<Rightarrow> (string \<Rightarrow> int option) \<times> bool" where
  "logAuthFailure now remoteAddr lastLog =
     (let ip = (case last_index CHR '':'' remoteAddr of None \<Rightarrow> remoteAddr | Some i \<Rightarrow> take i remoteAddr) in
      case lastLog ip of
        Some t \<Rightarrow> if now - t \<ge> 60 * second_ns then (lastLog(ip \<mapsto> now), True) else (lastLog, False)
      | None \<Rightarrow> (lastLog(ip \<mapsto> now), True))"

end
