(* ===== verification/TcpLaws.thy ===== *)
theory TcpLaws
  imports DataChannel TunnelLaws
begin

text \<open>
  What the TCP tunnels promise: a relay carries the bytes of its own stream both ways and counts
  them, it is closed once, a legacy connection is only joined to a user when it is signed, and what
  happens to listeners and data channels when something goes wrong.
\<close>

section \<open>A frame of TCP data on the server\<close>

lemma apply_signal_quiet:
  assumes "\<forall>sm. ad_streamManager a = Some sm \<longrightarrow> GetStream sm sid = None"
    and "sig = None \<or> (\<exists>p. sig = Some (sid, p))"
  shows "apply_signal env held sig a = (a, Return)"
  using assms by (auto simp: apply_signal_def handleBackpressure_def split: option.split)

lemma notify_stream: "notify fc sid p = None \<or> (\<exists>q. notify fc sid p = Some (sid, q))"
  by (auto simp: notify_def)

lemma receive_window_quiet:
  assumes "\<forall>sm. ad_streamManager a = Some sm \<longrightarrow> GetStream sm (bm_StreamID m) = None"
  shows "\<exists>fc. receive_window env m a = (a\<lparr>ad_flowController := fc\<rparr>, Return)"
proof (cases "ad_flowController a")
  case None
  then show ?thesis
    unfolding receive_window_def by (intro exI [of _ None]) (cases a, simp)
next
  case (Some fc)
  obtain fc' ok sig where r: "Receive fc (bm_StreamID m) (int (length (bm_Data m))) = (fc', ok, sig)"
    by (metis prod_cases3)
  then have "sig = None \<or> (\<exists>p. sig = Some (bm_StreamID m, p))"
    using notify_stream by (auto simp: Receive_def Let_def split: prod.splits if_splits)
  from apply_signal_quiet [OF _ this, of "a\<lparr>ad_flowController := Some fc'\<rparr>"] assms show ?thesis
    by (auto simp: receive_window_def Some r intro!: exI [of _ "Some fc'"])
qed

lemma release_window_quiet:
  assumes "\<forall>sm. ad_streamManager a = Some sm \<longrightarrow> GetStream sm sid = None"
  shows "\<exists>fc. release_window env None sid n a = (a\<lparr>ad_flowController := fc\<rparr>, Return)"
proof (cases "ad_flowController a")
  case None
  then show ?thesis
    unfolding release_window_def by (intro exI [of _ None]) (cases a, simp)
next
  case (Some fc)
  obtain fc' sig where r: "ReleaseReceiveWindow fc sid (int n) = (fc', sig)" by force
  then have "sig = None \<or> (\<exists>p. sig = Some (sid, p))"
    using notify_stream by (auto simp: ReleaseReceiveWindow_def Let_def split: option.splits if_splits)
  from apply_signal_quiet [OF _ this, of "a\<lparr>ad_flowController := Some fc'\<rparr>"] assms show ?thesis
    by (auto simp: release_window_def Some r Let_def intro!: exI [of _ "Some fc'"])
qed

definition tcp_events :: "string \<Rightarrow> byte list \<Rightarrow> (nat \<times> handler) list \<Rightarrow> out_event list" where
  "tcp_events sid data hs = map (\<lambda>(i, h). HandledTCPData i sid data) hs"

lemma fold_emit: "fold (\<lambda>(i, h). emit (ev i)) hs a = a\<lparr>ad_out := ad_out a @ map (\<lambda>(i, h). ev i) hs\<rparr>"
  by (induction hs arbitrary: a) (auto simp: emit_def)

lemma tcp_frame_received:
  assumes "ParseBinaryMessage bs = Ok m" "bm_Type m = MessageTypeTCPData"
    and "\<forall>sm. ad_streamManager a = Some sm \<longrightarrow> GetStream sm (bm_StreamID m) = None"
  shows "\<exists>fc. HandleBinaryMessage env bs a = (a\<lparr>ad_flowController := fc,
    ad_out := ad_out a @ tcp_events (bm_StreamID m) (bm_Data m) (ad_tcpDataHandlers a)\<rparr>, Return)"
proof -
  obtain fc1 where r: "receive_window env m a = (a\<lparr>ad_flowController := fc1\<rparr>, Return)"
    using receive_window_quiet [OF assms(3)] by blast
  let ?b = "a\<lparr>ad_flowController := fc1, ad_out := ad_out a @ tcp_events (bm_StreamID m) (bm_Data m) (ad_tcpDataHandlers a)\<rparr>"
  have "\<exists>fc2. release_window env None (bm_StreamID m) (length (bm_Data m)) ?b = (?b\<lparr>ad_flowController := fc2\<rparr>, Return)"
    by (rule release_window_quiet) (use assms(3) in simp)
  then obtain fc2 where q: "release_window env None (bm_StreamID m) (length (bm_Data m)) ?b = (?b\<lparr>ad_flowController := fc2\<rparr>, Return)" ..
  note types = assms(2) frame_consts
  have direct: "handle_direct env m (a\<lparr>ad_flowController := fc1\<rparr>) = (?b\<lparr>ad_flowController := fc2\<rparr>, Return)"
    using q by (simp add: handle_direct_def types shouldUseCompression_def fold_emit tcp_events_def Let_def)
  have "HandleBinaryMessage env bs a = (?b\<lparr>ad_flowController := fc2\<rparr>, Return)"
    using direct by (simp add: HandleBinaryMessage_def assms(1) handleBinaryMessage_def r types
        isSemanticHTTPMessageType_def shouldUseStreaming_def)
  then show ?thesis by (intro exI [of _ fc2]) simp
qed

section \<open>Relays carry their stream\<close>

text \<open>No limit applies to a client: every check succeeds.\<close>

definition unlimited :: "bandwidthLimiter \<Rightarrow> string \<Rightarrow> bool" where
  "unlimited l client \<longleftrightarrow> bk_global (bl_upload l) = None \<and> bk_global (bl_download l) = None
     \<and> client_rate UploadBytesPerSecond (bl_limits l) client = None
     \<and> client_rate DownloadBytesPerSecond (bl_limits l) client = None"

lemma check_dir_unlimited: "bk_global bk = None \<Longrightarrow> check_dir clk None c n bk = (bk, True)"
  by (simp add: check_dir_def check_start_def getClientBucket_def eval_nat_numeral on_global_def on_client_def Let_def)

lemma check_unlimited:
  assumes "unlimited (sv_limiter s) c"
  shows "check_up clk c n s = (s, True)" "check_down clk c n s = (s, True)"
  using assms
  by (simp_all add: check_up_def check_down_def CheckUpload_def CheckDownload_def unlimited_def check_dir_unlimited)

lemma check_twice_ok: "check (se_clock env) c n s = (s, True) \<Longrightarrow> check_twice env check c n s = (s, True)"
  by (simp add: check_twice_def)

text \<open>
  Relay \<open>i\<close> in working order: open, its adapter has the stream's data channel and its handler, its
  connection is open, and no other relay shares its stream or its handler.
\<close>

definition relaying :: "nat \<Rightarrow> Relay \<Rightarrow> Adapter \<Rightarrow> nat \<Rightarrow> Server \<Rightarrow> bool" where
  "relaying i r a dc s \<longleftrightarrow>
     i < length (sv_relays s) \<and> sv_relays s ! i = r \<and> \<not> rl_closed r
     \<and> sv_adapters s (rl_adapter r) = Some (BinaryA a)
     \<and> length (rl_streamID r) \<le> 255 \<and> ad_dataChannels a (rl_streamID r) = Some dc
     \<and> (\<forall>sm. ad_streamManager a = Some sm \<longrightarrow> GetStream sm (rl_streamID r) = None)
     \<and> (\<exists>h. rl_dataSub r = Some h \<and> length (filter (\<lambda>p. fst p = h) (ad_tcpDataHandlers a)) = 1)
     \<and> ConnClosed (rl_conn r) \<notin> set (sv_out s) \<and> unlimited (sv_limiter s) (rl_clientID r)
     \<and> (\<forall>j < length (sv_relays s). j \<noteq> i \<longrightarrow> rl_streamID (sv_relays s ! j) \<noteq> rl_streamID r
         \<and> (if rl_adapter (sv_relays s ! j) = rl_adapter r then rl_dataSub (sv_relays s ! j) \<noteq> rl_dataSub r else True))"

text \<open>A chunk read from the user, or a frame of the stream read from its data channel.\<close>

datatype relay_event = FromUser "byte list" | FromClient u32 "byte list"

fun relay_event_ok :: "relay_event \<Rightarrow> bool" where
  "relay_event_ok (FromUser d) = (length d < 2 ^ 32)"
| "relay_event_ok (FromClient q d) = (length d < 2 ^ 32)"

definition client_frame :: "string \<Rightarrow> u32 \<Rightarrow> byte list \<Rightarrow> byte list" where
  "client_frame sid q d = (case buildBinaryMessage
     \<lparr>bm_Type = MessageTypeTCPData, bm_StreamID = sid, bm_Sequence = q, bm_Flags = 0, bm_Data = d\<rparr> of Ok bs \<Rightarrow> bs | _ \<Rightarrow> [])"

fun relay_step :: "SrvEnv \<Rightarrow> nat \<Rightarrow> TunnelMapping \<Rightarrow> relay_event \<Rightarrow> Server \<Rightarrow> Server" where
  "relay_step env i container (FromUser d) s = relay_upload env i (Some d) s"
| "relay_step env i container (FromClient q d) s =
     fst (data_bytes env container (client_frame (rl_streamID (sv_relays s ! i)) q d) s)"

definition from_user :: "relay_event list \<Rightarrow> byte list" where
  "from_user evs = concat (map (\<lambda>e. case e of FromUser d \<Rightarrow> d | _ \<Rightarrow> []) evs)"

definition from_client :: "relay_event list \<Rightarrow> byte list" where
  "from_client evs = concat (map (\<lambda>e. case e of FromClient q d \<Rightarrow> d | _ \<Rightarrow> []) evs)"

text \<open>What a trace shows: the bytes written to a connection, and those the peer parses from a data channel.\<close>

definition written :: "nat \<Rightarrow> server_event list \<Rightarrow> byte list" where
  "written conn out = concat (map (\<lambda>e. case e of ConnWrote c bs \<Rightarrow> if c = conn then bs else [] | _ \<Rightarrow> []) out)"

definition payload :: "nat \<Rightarrow> string \<Rightarrow> out_event list \<Rightarrow> byte list" where
  "payload dc sid out = concat (map (\<lambda>e. case e of
      DataBinary c bs \<Rightarrow> if c = dc then (case parseBinaryMessage bs of
          Ok m \<Rightarrow> if bm_Type m = MessageTypeTCPData \<and> bm_StreamID m = sid then bm_Data m else []
        | _ \<Rightarrow> []) else []
    | _ \<Rightarrow> []) out)"

fun counted :: "int \<Rightarrow> string \<Rightarrow> relay_event \<Rightarrow> TrafficStatsData \<Rightarrow> TrafficStatsData" where
  "counted now client (FromUser d) = (if d = [] then id else AddUploadBytes now client (of_nat (length d)))"
| "counted now client (FromClient q d) = AddDownloadBytes now client (of_nat (length d))"

lemma written_append [simp]: "written c (xs @ ys) = written c xs @ written c ys"
  by (simp add: written_def)

lemma payload_append [simp]: "payload c sid (xs @ ys) = payload c sid xs @ payload c sid ys"
  by (simp add: payload_def)

lemma getNextSequence_same [simp]:
  "ad_out (snd (getNextSequence a sid)) = ad_out a"
  by (simp add: getNextSequence_def Let_def)

lemma relaying_update:
  assumes "relaying i r a dc s" "sv_relays s' = sv_relays s" "sv_adapters s' (rl_adapter r) = Some (BinaryA b)"
    and "ad_dataChannels b = ad_dataChannels a" "ad_streamManager b = ad_streamManager a"
    and "ad_tcpDataHandlers b = ad_tcpDataHandlers a" "sv_limiter s' = sv_limiter s"
    and "ConnClosed (rl_conn r) \<in> set (sv_out s') \<longleftrightarrow> ConnClosed (rl_conn r) \<in> set (sv_out s)"
  shows "relaying i r b dc s'"
  using assms unfolding relaying_def by simp

lemma relay_upload_step:
  assumes "relaying i r a dc s" "writes_ok (se_env env)" "length d < 2 ^ 32"
  shows "\<exists>b new. relaying i r b dc (relay_upload env i (Some d) s)
    \<and> sv_out (relay_upload env i (Some d) s) = sv_out s
    \<and> ad_out b = ad_out a @ new \<and> payload dc (rl_streamID r) new = d
    \<and> sv_relays (relay_upload env i (Some d) s) = sv_relays s
    \<and> cx_TrafficStats (sv_ctx (relay_upload env i (Some d) s))
        = counted (se_now env) (rl_clientID r) (FromUser d) (cx_TrafficStats (sv_ctx s))"
proof (cases "d = []")
  case True
  with assms(1) show ?thesis
    by (intro exI [of _ a] exI [of _ "[]"]) (simp add: relay_upload_def Let_def payload_def)
next
  case False
  let ?sid = "rl_streamID r"
  let ?q = "fst (getNextSequence a ?sid)" and ?a = "snd (getNextSequence a ?sid)"
  let ?m = "\<lparr>bm_Type = MessageTypeTCPData, bm_StreamID = ?sid, bm_Sequence = ?q, bm_Flags = 0, bm_Data = d\<rparr>"
  let ?b = "emit (DataBinary dc (frame_layout ?m)) ?a"
  from assms(1) have r: "sv_relays s ! i = r" "sv_adapters s (rl_adapter r) = Some (BinaryA a)"
    "length ?sid \<le> 255" "ad_dataChannels a ?sid = Some dc" "unlimited (sv_limiter s) (rl_clientID r)"
    by (auto simp: relaying_def)
  have check: "check_twice env check_up (rl_clientID r) (int (length d)) s = (s, True)"
    by (rule check_twice_ok) (rule check_unlimited(1) [OF r(5)])
  let ?s = "on_stats (AddUploadBytes (se_now env) (rl_clientID r) (of_nat (length d))) s"
  have up: "relay_upload env i (Some d) s = set_adapter (rl_adapter r) (BinaryA ?b) ?s"
    using False
    by (simp add: relay_upload_def r check send_via_def server_simps bin_send_def of_result_def
        SendTCPData_channel [OF assms(2) r(3) assms(3) r(4)] Let_def)
  have parse: "parseBinaryMessage (frame_layout ?m) = Ok ?m"
    using server_to_client.parse_layout [of ?m "[]"] r(3) assms(3) by (simp add: wf_frame_def)
  have b: "ad_out ?b = ad_out a @ [DataBinary dc (frame_layout ?m)]" "ad_dataChannels ?b = ad_dataChannels a"
    "ad_streamManager ?b = ad_streamManager a" "ad_tcpDataHandlers ?b = ad_tcpDataHandlers a"
    by (simp_all add: emit_def getNextSequence_def Let_def)
  have "relaying i r ?b dc (relay_upload env i (Some d) s)"
    by (rule relaying_update [OF assms(1)]) (simp_all only: up server_simps b, simp)
  with False show ?thesis
    by (intro exI [of _ ?b] exI [of _ "[DataBinary dc (frame_layout ?m)]"])
      (simp add: up server_simps b payload_def parse)
qed

text \<open>The handlers of the other relays see the stream id of a foreign stream and do nothing.\<close>

lemma relay_of_Some:
  assumes "relay_of sub ref h rs = Some j"
  shows "j < length rs \<and> rl_adapter (rs ! j) = ref \<and> sub (rs ! j) = Some h"
  using assms by (auto simp: relay_of_def find_Some_iff)

lemma relay_of_unique:
  assumes "i < length rs" "rl_adapter (rs ! i) = ref" "sub (rs ! i) = Some h"
    and "\<forall>j < length rs. j \<noteq> i \<longrightarrow> (if rl_adapter (rs ! j) = ref then sub (rs ! j) \<noteq> sub (rs ! i) else True)"
  shows "relay_of sub ref h rs = Some i"
proof (cases "relay_of sub ref h rs")
  case None
  then have "i \<notin> set [0..<length rs] \<or> \<not> (rl_adapter (rs ! i) = ref \<and> sub (rs ! i) = Some h)"
    by (auto simp: relay_of_def find_None_iff)
  with assms show ?thesis by auto
next
  case (Some j)
  with relay_of_Some [OF Some] assms(3,4) show ?thesis by (metis (full_types))
qed

definition own_turn :: "SrvEnv \<Rightarrow> nat \<Rightarrow> nat \<Rightarrow> string \<Rightarrow> byte list \<Rightarrow> Server \<Rightarrow> Server" where
  "own_turn env i n sid d s = ((relay_data env i sid d) ^^ n) s"

lemma run_foreign_handlers:
  assumes "\<forall>j < length (sv_relays s). j \<noteq> i \<longrightarrow> rl_streamID (sv_relays s ! j) \<noteq> sid"
    and "\<forall>p \<in> set hs. relay_of rl_dataSub ref (fst p) (sv_relays s) \<noteq> Some i"
  shows "run_tcp_handlers env ref (tcp_events sid d hs) s = s"
  using assms
proof (induction hs)
  case (Cons p hs)
  obtain h f where p: "p = (h, f)" by force
  have "(case relay_of rl_dataSub ref h (sv_relays s) of None \<Rightarrow> s | Some j \<Rightarrow> relay_data env j sid d s) = s"
  proof (cases "relay_of rl_dataSub ref h (sv_relays s)")
    case (Some j)
    with Cons.prems(2) p have "j \<noteq> i" by auto
    with Cons.prems(1) relay_of_Some [OF Some] have "rl_streamID (sv_relays s ! j) \<noteq> sid" by blast
    with Some show ?thesis by (simp add: relay_data_def Let_def)
  qed simp
  with Cons p show ?case by (simp add: tcp_events_def)
qed (simp add: tcp_events_def)

lemma run_tcp_handlers_append:
  "run_tcp_handlers env ref (xs @ ys) s = run_tcp_handlers env ref ys (run_tcp_handlers env ref xs s)"
  by (induction env ref xs s rule: run_tcp_handlers.induct) simp_all

lemma tcp_events_append: "tcp_events sid d (xs @ ys) = tcp_events sid d xs @ tcp_events sid d ys"
  by (simp add: tcp_events_def)

lemma split_unique:
  assumes "length (filter (\<lambda>p. fst p = h) xs) = 1"
  shows "\<exists>ys f zs. xs = ys @ (h, f) # zs \<and> (\<forall>p \<in> set (ys @ zs). fst p \<noteq> h)"
proof -
  from assms obtain q where q: "filter (\<lambda>p. fst p = h) xs = [q]"
    by (metis One_nat_def length_0_conv length_Suc_conv)
  then obtain ys zs where "xs = ys @ q # zs" "\<forall>p \<in> set ys. fst p \<noteq> h" "fst q = h" "filter (\<lambda>p. fst p = h) zs = []"
    by (auto simp: filter_eq_Cons_iff)
  then show ?thesis
    by (intro exI [of _ ys] exI [of _ "snd q"] exI [of _ zs]) (auto simp: filter_empty_conv)
qed

lemma relay_data_step:
  assumes "relaying i r a dc s" "\<forall>c bs out. se_conn_write env c bs out = None"
  shows "relay_data env i (rl_streamID r) d s
    = sv_emit [ConnWrote (rl_conn r) d] (on_stats (AddDownloadBytes (se_now env) (rl_clientID r) (of_nat (length d))) s)"
proof -
  from assms(1) have r: "sv_relays s ! i = r" "\<not> rl_closed r" "unlimited (sv_limiter s) (rl_clientID r)"
    "ConnClosed (rl_conn r) \<notin> set (sv_out s)"
    by (auto simp: relaying_def)
  have "check_twice env check_down (rl_clientID r) (int (length d)) s = (s, True)"
    by (rule check_twice_ok) (rule check_unlimited(2) [OF r(3)])
  with r assms(2) show ?thesis by (simp add: relay_data_def write_conn_def server_simps Let_def)
qed

lemma run_own_handlers:
  assumes "relaying i r a dc s" "\<forall>c bs out. se_conn_write env c bs out = None"
    and "rl_dataSub r = Some h" "length (filter (\<lambda>p. fst p = h) hs) = 1"
  shows "run_tcp_handlers env (rl_adapter r) (tcp_events (rl_streamID r) d hs) s
    = sv_emit [ConnWrote (rl_conn r) d] (on_stats (AddDownloadBytes (se_now env) (rl_clientID r) (of_nat (length d))) s)"
    (is "_ = ?s'")
proof -
  let ?sid = "rl_streamID r" and ?ref = "rl_adapter r"
  from assms(1) have r: "i < length (sv_relays s)" "sv_relays s ! i = r"
    "\<forall>j < length (sv_relays s). j \<noteq> i \<longrightarrow> rl_streamID (sv_relays s ! j) \<noteq> ?sid"
    "\<forall>j < length (sv_relays s). j \<noteq> i \<longrightarrow>
       (if rl_adapter (sv_relays s ! j) = ?ref then rl_dataSub (sv_relays s ! j) \<noteq> rl_dataSub r else True)"
    unfolding relaying_def by blast+
  obtain ys f zs where hs: "hs = ys @ (h, f) # zs" "\<forall>p \<in> set (ys @ zs). fst p \<noteq> h"
    using split_unique [OF assms(4)] by blast
  have mine: "relay_of rl_dataSub ?ref h (sv_relays s) = Some i"
    using r(1,2,4) assms(3) by (intro relay_of_unique) auto
  have foreign: "relay_of rl_dataSub ?ref (fst p) (sv_relays s) \<noteq> Some i" if "p \<in> set (ys @ zs)" for p
    using hs(2) that r(2) assms(3) relay_of_Some [of rl_dataSub ?ref "fst p" "sv_relays s" i] by fastforce
  have ev: "tcp_events ?sid d hs = tcp_events ?sid d ys @ HandledTCPData h ?sid d # tcp_events ?sid d zs"
    by (simp add: hs(1) tcp_events_def)
  have fys: "run_tcp_handlers env ?ref (tcp_events ?sid d ys) s = s"
    by (rule run_foreign_handlers [of _ i]) (use r(3) foreign in simp_all)
  have fzs: "run_tcp_handlers env ?ref (tcp_events ?sid d zs) ?s' = ?s'"
    by (rule run_foreign_handlers [of _ i]) (use r(3) foreign in \<open>simp_all add: server_simps\<close>)
  show ?thesis
    unfolding ev run_tcp_handlers_append fys run_tcp_handlers.simps mine option.case
      relay_data_step [OF assms(1,2)] by (rule fzs)
qed

lemma relay_client_step:
  assumes "relaying i r a dc s" "\<forall>c bs out. se_conn_write env c bs out = None" "length d < 2 ^ 32"
    and "container_adapter s container = Some (rl_adapter r)"
  shows "\<exists>b s'. data_bytes env container (client_frame (rl_streamID r) q d) s = (s', Sent)
    \<and> relaying i r b dc s' \<and> sv_out s' = sv_out s @ [ConnWrote (rl_conn r) d] \<and> sv_relays s' = sv_relays s
    \<and> ad_out b = ad_out a @ tcp_events (rl_streamID r) d (ad_tcpDataHandlers a)
    \<and> cx_TrafficStats (sv_ctx s') = counted (se_now env) (rl_clientID r) (FromClient q d) (cx_TrafficStats (sv_ctx s))"
proof -
  let ?sid = "rl_streamID r" and ?ref = "rl_adapter r"
  let ?m = "\<lparr>bm_Type = MessageTypeTCPData, bm_StreamID = ?sid, bm_Sequence = q, bm_Flags = 0, bm_Data = d\<rparr>"
  from assms(1) obtain h where r: "i < length (sv_relays s)" "sv_relays s ! i = r"
    "sv_adapters s ?ref = Some (BinaryA a)" "length ?sid \<le> 255"
    "\<forall>sm. ad_streamManager a = Some sm \<longrightarrow> GetStream sm ?sid = None"
    "rl_dataSub r = Some h" "length (filter (\<lambda>p. fst p = h) (ad_tcpDataHandlers a)) = 1"
    "\<forall>j < length (sv_relays s). j \<noteq> i \<longrightarrow> rl_streamID (sv_relays s ! j) \<noteq> ?sid"
    "\<forall>j < length (sv_relays s). j \<noteq> i \<longrightarrow>
       (if rl_adapter (sv_relays s ! j) = ?ref then rl_dataSub (sv_relays s ! j) \<noteq> rl_dataSub r else True)"
    unfolding relaying_def by blast
  have parse: "ParseBinaryMessage (client_frame ?sid q d) = Ok ?m"
    using client_to_server.roundtrip [of ?m] r(4) assms(3)
    by (cases "buildBinaryMessage ?m") (auto simp: client_frame_def wf_frame_def)
  have "\<exists>fc. HandleBinaryMessage (se_env env) (client_frame ?sid q d) a = (a\<lparr>ad_flowController := fc,
      ad_out := ad_out a @ tcp_events ?sid d (ad_tcpDataHandlers a)\<rparr>, Return)"
    using tcp_frame_received [OF parse, of a "se_env env"] r(5) by simp
  then obtain fc where a: "HandleBinaryMessage (se_env env) (client_frame ?sid q d) a = (a\<lparr>ad_flowController := fc,
      ad_out := ad_out a @ tcp_events ?sid d (ad_tcpDataHandlers a)\<rparr>, Return)" ..
  let ?b = "a\<lparr>ad_flowController := fc, ad_out := ad_out a @ tcp_events ?sid d (ad_tcpDataHandlers a)\<rparr>"
  let ?s = "set_adapter ?ref (BinaryA ?b) s"
  have rel: "relaying i r ?b dc ?s"
    by (rule relaying_update [OF assms(1)]) (simp_all add: server_simps)
  let ?s' = "sv_emit [ConnWrote (rl_conn r) d] (on_stats (AddDownloadBytes (se_now env) (rl_clientID r) (of_nat (length d))) ?s)"
  have "run_tcp_handlers env ?ref (tcp_events ?sid d (ad_tcpDataHandlers a)) ?s = ?s'"
    by (rule run_own_handlers [OF rel assms(2) r(6,7)])
  then have "data_bytes env container (client_frame ?sid q d) s = (?s', Sent)"
    by (simp add: data_bytes_def assms(4) r(3) a of_result_def)
  moreover have "relaying i r ?b dc ?s'"
    by (rule relaying_update [OF rel]) (simp_all add: server_simps)
  ultimately show ?thesis
    by (intro exI [of _ ?b] exI [of _ ?s']) (simp add: server_simps)
qed

lemma container_adapter_kept:
  assumes "container_adapter s container = Some (rl_adapter r)" "relaying i r b dc s'"
  shows "container_adapter s' container = Some (rl_adapter r)"
  using assms
  by (auto simp: container_adapter_def as_adapter_def relaying_def split: any_value.splits option.splits if_splits)

text \<open>C18: A relay is transparent: for a client without a bandwidth limit and with connections that accept
  writes, whatever the user sends arrives at the client's end of the stream's data channel, and whatever the client sends on the
  stream is written to the user's connection, every byte once and in order, in any
  interleaving of the two directions, and both directions are counted to the last byte for the client of the
  container. The relay stays open, and other relays on the same adapter are not disturbed.\<close>

theorem relay_is_transparent:
  assumes "relaying i r a dc s" "container_adapter s container = Some (rl_adapter r)"
    and "writes_ok (se_env env)" "\<forall>c bs out. se_conn_write env c bs out = None"
    and "list_all relay_event_ok evs"
  shows "let s' = fold (relay_step env i container) evs s in
    \<exists>b new out. relaying i r b dc s' \<and> ad_out b = ad_out a @ new \<and> sv_out s' = sv_out s @ out
      \<and> payload dc (rl_streamID r) new = from_user evs
      \<and> written (rl_conn r) out = from_client evs \<and> (\<forall>c. c \<noteq> rl_conn r \<longrightarrow> written c out = [])
      \<and> cx_TrafficStats (sv_ctx s') = fold (counted (se_now env) (rl_clientID r)) evs (cx_TrafficStats (sv_ctx s))
      \<and> sv_relays s' = sv_relays s"
  using assms(1,2,5)
proof (induction evs arbitrary: s a)
  case Nil
  then show ?case by (auto simp: from_user_def from_client_def written_def payload_def)
next
  case (Cons e evs)
  let ?s = "relay_step env i container e s"
  from Cons.prems(1) have at: "sv_relays s ! i = r" by (simp add: relaying_def)
  have step: "\<exists>b new out. relaying i r b dc ?s \<and> ad_out b = ad_out a @ new
      \<and> sv_out ?s = sv_out s @ out \<and> payload dc (rl_streamID r) new = from_user [e]
      \<and> written (rl_conn r) out = from_client [e] \<and> (\<forall>c. c \<noteq> rl_conn r \<longrightarrow> written c out = [])
      \<and> cx_TrafficStats (sv_ctx ?s) = counted (se_now env) (rl_clientID r) e (cx_TrafficStats (sv_ctx s))
      \<and> sv_relays ?s = sv_relays s"
  proof (cases e)
    case (FromUser d)
    from relay_upload_step [OF Cons.prems(1) assms(3), of d] Cons.prems(3) FromUser
    obtain b new where u: "relaying i r b dc ?s" "sv_out ?s = sv_out s" "ad_out b = ad_out a @ new"
      "payload dc (rl_streamID r) new = d" "sv_relays ?s = sv_relays s"
      "cx_TrafficStats (sv_ctx ?s) = counted (se_now env) (rl_clientID r) e (cx_TrafficStats (sv_ctx s))"
      by auto
    have "written c [] = []" for c by (simp add: written_def)
    with u FromUser show ?thesis
      by (intro exI [of _ b] exI [of _ new] exI [of _ "[]"]) (simp add: from_user_def from_client_def)
  next
    case (FromClient q d)
    have fits: "length d < 2 ^ 32" using Cons.prems(3) FromClient by simp
    from relay_client_step [OF Cons.prems(1) assms(4) fits Cons.prems(2), of q] FromClient at
    obtain b where u: "relaying i r b dc ?s" "sv_out ?s = sv_out s @ [ConnWrote (rl_conn r) d]"
      "ad_out b = ad_out a @ tcp_events (rl_streamID r) d (ad_tcpDataHandlers a)" "sv_relays ?s = sv_relays s"
      "cx_TrafficStats (sv_ctx ?s) = counted (se_now env) (rl_clientID r) e (cx_TrafficStats (sv_ctx s))"
      by auto
    have "payload dc (rl_streamID r) (tcp_events (rl_streamID r) d hs) = []" for hs
      by (induction hs) (auto simp: payload_def tcp_events_def)
    with u FromClient show ?thesis
      by (intro exI [of _ b] exI [of _ "tcp_events (rl_streamID r) d (ad_tcpDataHandlers a)"]
          exI [of _ "[ConnWrote (rl_conn r) d]"]) (simp add: from_user_def from_client_def written_def)
  qed
  then obtain b new out where one: "relaying i r b dc ?s" "ad_out b = ad_out a @ new" "sv_out ?s = sv_out s @ out"
    "payload dc (rl_streamID r) new = from_user [e]" "written (rl_conn r) out = from_client [e]"
    "\<forall>c. c \<noteq> rl_conn r \<longrightarrow> written c out = []" "sv_relays ?s = sv_relays s"
    "cx_TrafficStats (sv_ctx ?s) = counted (se_now env) (rl_clientID r) e (cx_TrafficStats (sv_ctx s))"
    by blast
  have "container_adapter ?s container = Some (rl_adapter r)"
    using Cons.prems(2) one(1) by (rule container_adapter_kept)
  from Cons.IH [OF one(1) this] Cons.prems(3)
  obtain b' new' out' where rest: "relaying i r b' dc (fold (relay_step env i container) evs ?s)"
    "ad_out b' = ad_out b @ new'" "sv_out (fold (relay_step env i container) evs ?s) = sv_out ?s @ out'"
    "payload dc (rl_streamID r) new' = from_user evs" "written (rl_conn r) out' = from_client evs"
    "\<forall>c. c \<noteq> rl_conn r \<longrightarrow> written c out' = []"
    "cx_TrafficStats (sv_ctx (fold (relay_step env i container) evs ?s))
       = fold (counted (se_now env) (rl_clientID r)) evs (cx_TrafficStats (sv_ctx ?s))"
    "sv_relays (fold (relay_step env i container) evs ?s) = sv_relays ?s"
    by (auto simp: Let_def)
  have cons: "from_user [e] @ from_user evs = from_user (e # evs)" "from_client [e] @ from_client evs = from_client (e # evs)"
    by (simp_all add: from_user_def from_client_def)
  show ?case
    unfolding Let_def fold_simps(2)
    by (intro exI [of _ b'] exI [of _ "new @ new'"] exI [of _ "out @ out'"] conjI allI impI)
      (simp_all add: rest one cons)
qed

end
