(* ===== verification/TcpFailures.thy ===== *)
theory TcpFailures
  imports TcpLaws
begin

text \<open>
  The TCP tunnel when something ends: relays are closed once, a legacy connection is joined only when it is
  signed, a listener that fails is not replaced, and a second data channel for a stream
  is lost with the first.
\<close>

section \<open>A relay is closed once\<close>

datatype relay_op = RUpload SrvEnv nat "byte list option" | RData SrvEnv nat string "byte list" | RClose nat string

fun relay_op_step :: "Server \<Rightarrow> relay_op \<Rightarrow> Server" where
  "relay_op_step s (RUpload env i read) = relay_upload env i read s"
| "relay_op_step s (RData env i sid data) = relay_data env i sid data s"
| "relay_op_step s (RClose i sid) = relay_close i sid s"

fun relay_op_index :: "relay_op \<Rightarrow> nat" where
  "relay_op_index (RUpload env i read) = i"
| "relay_op_index (RData env i sid data) = i"
| "relay_op_index (RClose i sid) = i"

definition occurrences :: "server_event \<Rightarrow> server_event list \<Rightarrow> nat" where
  "occurrences e out = length (filter ((=) e) out)"

lemma occurrences_simps [simp]: "occurrences e [] = 0" "occurrences e (x # xs) = (if e = x then 1 else 0) + occurrences e xs"
  "occurrences e (xs @ ys) = occurrences e xs + occurrences e ys"
  by (simp_all add: occurrences_def)

text \<open>What is known of a relay at any time.\<close>

definition relay_book :: "Server \<Rightarrow> Relay \<Rightarrow> bool" where
  "relay_book s r \<longleftrightarrow>
     occurrences (ConnClosed (rl_conn r)) (sv_out s) = (if rl_closed r then 1 else 0)
     \<and> (case rl_onComplete r of None \<Rightarrow> True | Some p \<Rightarrow> occurrences (HandlerDone p) (sv_out s) = (if rl_closed r then 1 else 0))"

definition relay_ids :: "Relay \<Rightarrow> nat \<times> nat option" where
  "relay_ids r = (rl_conn r, rl_onComplete r)"

definition apart :: "Relay list \<Rightarrow> bool" where
  "apart rs \<longleftrightarrow> (\<forall>i < length rs. \<forall>j < length rs. i \<noteq> j \<longrightarrow> rl_conn (rs ! i) \<noteq> rl_conn (rs ! j)
     \<and> (rl_onComplete (rs ! i) = None \<or> rl_onComplete (rs ! i) \<noteq> rl_onComplete (rs ! j)))"

definition relays_inv :: "Server \<Rightarrow> bool" where
  "relays_inv s \<longleftrightarrow> apart (sv_relays s) \<and> (\<forall>r \<in> set (sv_relays s). relay_book s r)"

text \<open>A change that leaves the relays and what concerns their connections alone.\<close>

lemma relays_inv_same:
  assumes "relays_inv s" "sv_relays s' = sv_relays s"
    and "\<And>c. occurrences (ConnClosed c) (sv_out s') = occurrences (ConnClosed c) (sv_out s)"
    and "\<And>p. occurrences (HandlerDone p) (sv_out s') = occurrences (HandlerDone p) (sv_out s)"
  shows "relays_inv s'"
  using assms unfolding relays_inv_def relay_book_def by (auto split: option.splits)

lemma apart_ids: "map relay_ids rs = map relay_ids rs' \<Longrightarrow> apart rs \<longleftrightarrow> apart rs'"
proof -
  assume h: "map relay_ids rs = map relay_ids rs'"
  then have len: "length rs = length rs'" by (metis length_map)
  have "relay_ids (rs ! i) = relay_ids (rs' ! i)" if "i < length rs" for i
    using h that len by (metis nth_map)
  then show ?thesis unfolding apart_def relay_ids_def using len by auto
qed

lemma unsubscribe_relay_same [server_simps]:
  "sv_out (unsubscribe_relay r s) = sv_out s" "sv_relays (unsubscribe_relay r s) = sv_relays s"
  by (auto simp: unsubscribe_relay_def Let_def server_simps split: option.split)

lemma closeUserConn_inv:
  assumes "relays_inv s"
  shows "relays_inv (closeUserConn i s)"
proof (cases "i < length (sv_relays s) \<and> \<not> rl_closed (sv_relays s ! i)")
  case False
  then show ?thesis using assms by (auto simp: closeUserConn_def Let_def)
next
  case True
  let ?r = "sv_relays s ! i"
  let ?done = "case rl_onComplete ?r of None \<Rightarrow> [] | Some p \<Rightarrow> [HandlerDone p]"
  have out: "sv_out (closeUserConn i s) = sv_out s @ ConnClosed (rl_conn ?r) # ?done"
    using True by (auto simp: closeUserConn_def Let_def server_simps set_relay_def split: option.split)
  have rel: "sv_relays (closeUserConn i s) = (sv_relays s)[i := ?r\<lparr>rl_closed := True\<rparr>]"
    using True by (auto simp: closeUserConn_def Let_def server_simps set_relay_def split: option.split)
  have ap: "apart (sv_relays s)" and bk: "\<And>j. j < length (sv_relays s) \<Longrightarrow> relay_book s (sv_relays s ! j)"
    using assms by (auto simp: relays_inv_def)
  have "apart (sv_relays (closeUserConn i s)) \<longleftrightarrow> apart (sv_relays s)"
    by (rule apart_ids) (use True in \<open>auto simp: rel map_update relay_ids_def list_eq_iff_nth_eq nth_list_update\<close>)
  moreover have "relay_book (closeUserConn i s) (sv_relays (closeUserConn i s) ! j)" if j: "j < length (sv_relays s)" for j
  proof (cases "j = i")
    case True
    then show ?thesis
      using bk [OF j] j \<open>i < length (sv_relays s) \<and> \<not> rl_closed ?r\<close>
      by (auto simp: relay_book_def out rel split: option.splits)
  next
    case False
    then have "rl_conn (sv_relays s ! j) \<noteq> rl_conn ?r"
      "rl_onComplete (sv_relays s ! j) = None \<or> rl_onComplete (sv_relays s ! j) \<noteq> rl_onComplete ?r"
      using ap j True unfolding apart_def by auto
    then show ?thesis
      using bk [OF j] False by (auto simp: relay_book_def out rel split: option.splits)
  qed
  ultimately show ?thesis
    using ap unfolding relays_inv_def by (metis all_set_conv_all_nth length_list_update rel)
qed

lemma check_twice_same [server_simps]:
  "sv_out (fst (check_twice env check_up c n s)) = sv_out s" "sv_relays (fst (check_twice env check_up c n s)) = sv_relays s"
  "sv_out (fst (check_twice env check_down c n s)) = sv_out s" "sv_relays (fst (check_twice env check_down c n s)) = sv_relays s"
proof -
  have "sv_out (fst (check_twice env f c n s)) = sv_out s \<and> sv_relays (fst (check_twice env f c n s)) = sv_relays s"
    if "f \<in> {check_up, check_down}" for f
  proof -
    have one: "sv_out (fst (f k c n s)) = sv_out s" "sv_relays (fst (f k c n s)) = sv_relays s" for k s
      using that by (auto simp: server_simps)
    obtain s1 b where b: "f (se_clock env) c n s = (s1, b)" by force
    with one [of "se_clock env" s] have "sv_out s1 = sv_out s" "sv_relays s1 = sv_relays s" by simp_all
    with one [of "se_retry_clock env" s1] b show ?thesis by (cases b) (simp_all add: check_twice_def)
  qed
  then show "sv_out (fst (check_twice env check_up c n s)) = sv_out s" "sv_relays (fst (check_twice env check_up c n s)) = sv_relays s"
    "sv_out (fst (check_twice env check_down c n s)) = sv_out s" "sv_relays (fst (check_twice env check_down c n s)) = sv_relays s"
    by auto
qed

lemma send_via_same [server_simps]:
  "sv_out (fst (send_via r f s)) = sv_out s" "sv_relays (fst (send_via r f s)) = sv_relays s"
  by (auto simp: send_via_def server_simps split: option.split prod.split)

lemma relay_upload_inv:
  assumes "relays_inv s"
  shows "relays_inv (relay_upload env i read s)"
proof (cases read)
  case (Some d)
  let ?r = "sv_relays s ! i"
  obtain s1 b where c: "check_twice env check_up (rl_clientID ?r) (int (length d)) s = (s1, b)" by force
  have one: "sv_out s1 = sv_out s" "sv_relays s1 = sv_relays s" using check_twice_same(1,2) [of env "rl_clientID ?r" "int (length d)" s] c by simp_all
  let ?s1 = "on_stats (AddUploadBytes (se_now env) (rl_clientID ?r) (of_nat (length d))) s1"
  obtain s2 res where q: "send_via (rl_adapter ?r) (pa_SendTCPData (se_env env) (rl_streamID ?r) d) ?s1 = (s2, res)" by force
  have two: "sv_out s2 = sv_out s" "sv_relays s2 = sv_relays s"
    using send_via_same [of "rl_adapter ?r" "pa_SendTCPData (se_env env) (rl_streamID ?r) d" ?s1] q one by (simp_all add: server_simps)
  have inv: "relays_inv s1" "relays_inv s2" by (rule relays_inv_same [OF assms]; simp add: one two)+
  then show ?thesis
    using assms closeUserConn_inv [OF inv(2)] c q Some
    by (cases b; cases res) (simp_all add: relay_upload_def Let_def)
qed (use assms closeUserConn_inv in \<open>simp add: relay_upload_def Let_def\<close>)

lemma write_conn_occurrences:
  "occurrences (ConnClosed c) (sv_out (fst (write_conn env k bs s))) = occurrences (ConnClosed c) (sv_out s)"
  "occurrences (HandlerDone p) (sv_out (fst (write_conn env k bs s))) = occurrences (HandlerDone p) (sv_out s)"
  by (auto simp: write_conn_def server_simps split: option.split)

lemma relay_data_inv:
  assumes "relays_inv s"
  shows "relays_inv (relay_data env i sid d s)"
proof -
  let ?r = "sv_relays s ! i"
  obtain s1 b where c: "check_twice env check_down (rl_clientID ?r) (int (length d)) s = (s1, b)" by force
  have one: "sv_out s1 = sv_out s" "sv_relays s1 = sv_relays s" using check_twice_same(3,4) [of env "rl_clientID ?r" "int (length d)" s] c by simp_all
  let ?s1 = "on_stats (AddDownloadBytes (se_now env) (rl_clientID ?r) (of_nat (length d))) s1"
  obtain s2 ok where q: "write_conn env (rl_conn ?r) d ?s1 = (s2, ok)" by force
  have two: "sv_relays s2 = sv_relays s" "\<And>k. occurrences (ConnClosed k) (sv_out s2) = occurrences (ConnClosed k) (sv_out s)"
    "\<And>p. occurrences (HandlerDone p) (sv_out s2) = occurrences (HandlerDone p) (sv_out s)"
    using write_conn_same(3) [of env "rl_conn ?r" d ?s1] write_conn_occurrences [of _ env "rl_conn ?r" d ?s1] q one
    by (simp_all add: server_simps)
  have inv: "relays_inv s1" "relays_inv s2" by (rule relays_inv_same [OF assms]; simp add: one two)+
  then show ?thesis
    using assms closeUserConn_inv [OF inv(2)] c q
    by (cases b; cases ok) (simp_all add: relay_data_def Let_def)
qed

lemma relay_op_inv: "relays_inv s \<Longrightarrow> relays_inv (relay_op_step s e)"
  by (cases e) (simp_all add: relay_upload_inv relay_data_inv relay_close_def closeUserConn_inv)

interpretation relays: op_machine relay_op_step relays_inv "\<lambda>_. True"
  by unfold_locales (rule relay_op_inv)

text \<open>What one operation does to the connection of a relay that is already closed: nothing.\<close>

definition quiet_for :: "nat \<Rightarrow> Server \<Rightarrow> Server \<Rightarrow> bool" where
  "quiet_for i s s' \<longleftrightarrow> (\<exists>new. sv_out s' = sv_out s @ new \<and> written (rl_conn (sv_relays s ! i)) new = [])
     \<and> map relay_ids (sv_relays s') = map relay_ids (sv_relays s)
     \<and> rl_closed (sv_relays s' ! i)"

lemma quiet_for_same: "sv_out s' = sv_out s \<Longrightarrow> sv_relays s' = sv_relays s \<Longrightarrow> rl_closed (sv_relays s ! i) \<Longrightarrow> quiet_for i s s'"
  by (simp add: quiet_for_def written_def)

lemma closeUserConn_quiet:
  assumes "i < length (sv_relays s)" "rl_closed (sv_relays s ! i)"
  shows "quiet_for i s (closeUserConn j s)"
proof (cases "j < length (sv_relays s) \<and> \<not> rl_closed (sv_relays s ! j)")
  case False
  then have "closeUserConn j s = s" by (auto simp: closeUserConn_def Let_def)
  with assms quiet_for_same [of s s i] show ?thesis by simp
next
  case True
  have out: "sv_out (closeUserConn j s) = sv_out s @ ConnClosed (rl_conn (sv_relays s ! j))
      # (case rl_onComplete (sv_relays s ! j) of None \<Rightarrow> [] | Some p \<Rightarrow> [HandlerDone p])"
    using True by (auto simp: closeUserConn_def Let_def server_simps set_relay_def split: option.split)
  have rel: "sv_relays (closeUserConn j s) = (sv_relays s)[j := (sv_relays s ! j)\<lparr>rl_closed := True\<rparr>]"
    using True by (auto simp: closeUserConn_def Let_def server_simps set_relay_def split: option.split)
  have ids: "map relay_ids (sv_relays (closeUserConn j s)) = map relay_ids (sv_relays s)"
    using True by (intro nth_equalityI) (auto simp: rel relay_ids_def nth_list_update)
  have ij: "i \<noteq> j" using True assms(2) by blast
  show ?thesis
    unfolding quiet_for_def using assms ij ids
    by (auto simp: out rel written_def split: option.split)
qed

lemma relay_upload_quiet:
  assumes "i < length (sv_relays s)" "rl_closed (sv_relays s ! i)"
  shows "quiet_for i s (relay_upload env j read s)"
proof (cases read)
  case (Some d)
  let ?r = "sv_relays s ! j"
  obtain s1 b where c: "check_twice env check_up (rl_clientID ?r) (int (length d)) s = (s1, b)" by force
  have one: "sv_out s1 = sv_out s" "sv_relays s1 = sv_relays s" using check_twice_same(1,2) [of env "rl_clientID ?r" "int (length d)" s] c by simp_all
  let ?s1 = "on_stats (AddUploadBytes (se_now env) (rl_clientID ?r) (of_nat (length d))) s1"
  obtain s2 res where q: "send_via (rl_adapter ?r) (pa_SendTCPData (se_env env) (rl_streamID ?r) d) ?s1 = (s2, res)" by force
  have two: "sv_out s2 = sv_out s" "sv_relays s2 = sv_relays s"
    using send_via_same [of "rl_adapter ?r" "pa_SendTCPData (se_env env) (rl_streamID ?r) d" ?s1] q one by (simp_all add: server_simps)
  have quiet: "quiet_for i s s" "quiet_for i s s1" "quiet_for i s s2" by (rule quiet_for_same; simp add: one two assms)+
  have "quiet_for i s (closeUserConn j s2)"
    using closeUserConn_quiet [of i s2 j] assms by (simp add: quiet_for_def two)
  with quiet c q Some show ?thesis
    by (cases b; cases res) (simp_all add: relay_upload_def Let_def)
qed (use assms closeUserConn_quiet in \<open>simp add: relay_upload_def Let_def\<close>)

lemma relay_data_quiet:
  assumes "i < length (sv_relays s)" "rl_closed (sv_relays s ! i)" "apart (sv_relays s)" "j < length (sv_relays s)"
  shows "quiet_for i s (relay_data env j sid d s)"
proof (cases "rl_closed (sv_relays s ! j)")
  case True
  with assms quiet_for_same [of s s i] show ?thesis by (simp add: relay_data_def Let_def)
next
  case False
  let ?r = "sv_relays s ! j"
  have other: "rl_conn ?r \<noteq> rl_conn (sv_relays s ! i)" using assms False unfolding apart_def by blast
  obtain s1 b where c: "check_twice env check_down (rl_clientID ?r) (int (length d)) s = (s1, b)" by force
  have one: "sv_out s1 = sv_out s" "sv_relays s1 = sv_relays s" using check_twice_same(3,4) [of env "rl_clientID ?r" "int (length d)" s] c by simp_all
  let ?s1 = "on_stats (AddDownloadBytes (se_now env) (rl_clientID ?r) (of_nat (length d))) s1"
  obtain s2 ok where q: "write_conn env (rl_conn ?r) d ?s1 = (s2, ok)" by force
  have rel: "sv_relays s2 = sv_relays s" using write_conn_same(3) [of env "rl_conn ?r" d ?s1] q one by (simp add: server_simps)
  have out: "\<exists>new. sv_out s2 = sv_out s @ new \<and> written (rl_conn (sv_relays s ! i)) new = []"
    using q other one by (auto simp: write_conn_def server_simps written_def split: if_splits option.splits)
  have quiet: "quiet_for i s s" "quiet_for i s s1" by (rule quiet_for_same; simp add: one assms)+
  have two: "quiet_for i s s2" using out assms(2) by (simp add: quiet_for_def rel)
  have "quiet_for i s2 (closeUserConn j s2)" using closeUserConn_quiet [of i s2 j] assms by (simp add: rel)
  with out have "quiet_for i s (closeUserConn j s2)" by (auto simp: quiet_for_def rel)
  with quiet two c q show ?thesis
    by (cases b; cases ok) (simp_all add: relay_data_def Let_def)
qed

lemma relay_op_quiet:
  assumes "i < length (sv_relays s)" "rl_closed (sv_relays s ! i)" "apart (sv_relays s)" "relay_op_index e < length (sv_relays s)"
  shows "quiet_for i s (relay_op_step s e)"
proof (cases e)
  case (RClose j sid)
  with assms closeUserConn_quiet [OF assms(1,2)] quiet_for_same [of s s i] show ?thesis by (simp add: relay_close_def)
qed (use assms relay_upload_quiet relay_data_quiet in auto)

lemma relay_run_quiet:
  assumes "i < length (sv_relays s)" "rl_closed (sv_relays s ! i)" "apart (sv_relays s)"
    and "list_all (\<lambda>e. relay_op_index e < length (sv_relays s)) ops"
  shows "quiet_for i s (foldl relay_op_step s ops)"
  using assms
proof (induction ops arbitrary: s)
  case Nil
  then show ?case using quiet_for_same by simp
next
  case (Cons e ops)
  let ?s = "relay_op_step s e"
  have one: "quiet_for i s ?s" using relay_op_quiet Cons.prems by simp
  then have ids: "map relay_ids (sv_relays ?s) = map relay_ids (sv_relays s)" by (simp add: quiet_for_def)
  then have len: "length (sv_relays ?s) = length (sv_relays s)" by (metis length_map)
  have conn: "rl_conn (sv_relays ?s ! i) = rl_conn (sv_relays s ! i)"
    using arg_cong [OF ids, of "\<lambda>xs. xs ! i"] Cons.prems(1) len by (simp add: relay_ids_def)
  have two: "quiet_for i ?s (foldl relay_op_step ?s ops)"
  proof (rule Cons.IH)
    show "i < length (sv_relays ?s)" using Cons.prems(1) len by simp
    show "rl_closed (sv_relays ?s ! i)" using one by (simp add: quiet_for_def)
    show "apart (sv_relays ?s)" using Cons.prems(3) apart_ids [OF ids] by simp
    show "list_all (\<lambda>e. relay_op_index e < length (sv_relays ?s)) ops" using Cons.prems(4) len by simp
  qed
  obtain n1 n2 where "sv_out ?s = sv_out s @ n1" "written (rl_conn (sv_relays s ! i)) n1 = []"
    "sv_out (foldl relay_op_step ?s ops) = sv_out ?s @ n2" "written (rl_conn (sv_relays s ! i)) n2 = []"
    using one two conn unfolding quiet_for_def by metis
  then show ?case
    using two ids unfolding quiet_for_def foldl_Cons by (intro conjI exI [of _ "n1 @ n2"]) simp_all
qed

text \<open>C20: However its two directions end, and in whatever order - the user hangs up, a write or a send
  fails, the client closes the stream - a relay closes the user's connection exactly once and
  reports its end exactly once, and this is also the case when the ends of several relays are interleaved;
  from then on nothing is written to that connection.\<close>

theorem relay_is_closed_once:
  assumes "apart (sv_relays s)" "\<forall>r \<in> set (sv_relays s). relay_book s r"
  shows "let s' = foldl relay_op_step s ops in
    (\<forall>r \<in> set (sv_relays s').
       occurrences (ConnClosed (rl_conn r)) (sv_out s') = (if rl_closed r then 1 else 0)
       \<and> (\<forall>p. rl_onComplete r = Some p \<longrightarrow> occurrences (HandlerDone p) (sv_out s') = (if rl_closed r then 1 else 0)))
    \<and> (\<forall>i < length (sv_relays s'). rl_closed (sv_relays s' ! i) \<longrightarrow>
        (\<forall>ops'. list_all (\<lambda>e. relay_op_index e < length (sv_relays s')) ops' \<longrightarrow>
          (\<exists>new. sv_out (foldl relay_op_step s' ops') = sv_out s' @ new \<and> written (rl_conn (sv_relays s' ! i)) new = [])))"
proof -
  let ?s = "foldl relay_op_step s ops"
  have "relays_inv ?s"
    using relays.run_inv [of s ops] assms by (simp add: relays_inv_def list_all_iff)
  then have "apart (sv_relays ?s)" "\<forall>r \<in> set (sv_relays ?s). relay_book ?s r" by (simp_all add: relays_inv_def)
  then show ?thesis
    using relay_run_quiet [of _ ?s] by (auto simp: Let_def relay_book_def quiet_for_def)
qed

section \<open>Listeners\<close>

lemma set_source_port:
  assumes "get_container s cid = Some m"
  shows "set_in_container cid ''sourcePort'' (IntValue p) s
    = (on_container (\<lambda>_. (cx_Container (sv_ctx s))(cid \<mapsto> m\<lparr>tm_SourcePort := Some p\<rparr>)) s, True)"
  using assms by (simp add: set_in_container_def tunnel_Set_def set_field_def get_container_def tunnel_Get_def)

lemma set_source_server:
  assumes "get_container s cid = Some m"
  shows "set_in_container cid ''sourceServer'' (ListenerValue l) s
      = (on_container (\<lambda>_. (cx_Container (sv_ctx s))(cid \<mapsto> m\<lparr>tm_SourceServer := Some l\<rparr>)) s, True)"
    "set_in_container cid ''sourceServer'' NilValue s
      = (on_container (\<lambda>_. (cx_Container (sv_ctx s))(cid \<mapsto> m\<lparr>tm_SourceServer := None\<rparr>)) s, True)"
  using assms by (simp_all add: set_in_container_def tunnel_Set_def set_field_def get_container_def tunnel_Get_def)

lemma ws_write_cases:
  obtains "se_ws_write env ws msg (sv_out s)" "ws_write env ws msg s = (sv_emit [MonitorSent ws msg] s, True)"
  | "\<not> se_ws_write env ws msg (sv_out s)" "ws_write env ws msg s = (s, False)"
  by (cases "se_ws_write env ws msg (sv_out s)") (auto simp: ws_write_def)

lemma get_container_simps [server_simps]:
  "get_container (sv_emit evs s) i = get_container s i"
  "get_container (on_container g s) i = g (cx_Container (sv_ctx s)) i"
  "get_container (s\<lparr>sv_listeners := ls\<rparr>) i = get_container s i"
  by (simp_all add: get_container_def tunnel_Get_def server_simps)

definition fatal_listen_error :: "SrvEnv \<Rightarrow> json" where
  "fatal_listen_error env = monitor_message ''error'' (JObj [(''message'', JStr (se_listen_error env)),
     (''fatal'', JBool True), (''code'', JStr ''tcp_listen_failed'')])"

text \<open>What \<open>CreateServer\<close> does for a container without a listener, once the port is chosen.\<close>

lemma CreateServer_port:
  assumes "get_container s cid = Some m" "tm_SourceServer m = None" "source_port env m = Some p"
    and "CreateServer env cid host s = (s', r)"
  shows "(if p \<in> snd ` set (sv_listeners s) \<or> se_listen env p = None
     then r = Err (ListenFailed p) \<and> sv_listeners s' = sv_listeners s
       \<and> get_container s' cid = Some (m\<lparr>tm_SourcePort := Some p\<rparr>)
       \<and> sv_out s' = sv_out s @ (if se_ws_write env (tm_WSSocket m) (fatal_listen_error env) (sv_out s)
            then [MonitorSent (tm_WSSocket m) (fatal_listen_error env)] else [])
     else \<exists>l. se_listen env p = Some l \<and>
       (if se_ws_write env (tm_WSSocket m) (tcp_ready_message host p) (sv_out s)
        then r = Ok (Some l) \<and> sv_listeners s' = sv_listeners s @ [(l, p)]
          \<and> get_container s' cid = Some (m\<lparr>tm_SourcePort := Some p, tm_SourceServer := Some l\<rparr>)
          \<and> sv_out s' = sv_out s @ [MonitorSent (tm_WSSocket m) (tcp_ready_message host p)]
        else r = Err ReadyNotSent \<and> l \<notin> fst ` set (sv_listeners s')
          \<and> get_container s' cid = Some (m\<lparr>tm_SourcePort := Some p\<rparr>) \<and> sv_out s' = sv_out s @ [ListenerClosed l]))"
proof -
  let ?ts = "(cx_Container (sv_ctx s))(cid \<mapsto> m\<lparr>tm_SourcePort := Some p\<rparr>)"
  let ?s = "on_container (\<lambda>_. ?ts) s"
  note start = assms(4) [unfolded CreateServer_def assms(1) option.case assms(2,3) simp_thms if_False
      set_source_port [OF assms(1)] prod.case bool.case]
  have m: "get_container ?s cid = Some (m\<lparr>tm_SourcePort := Some p\<rparr>)" by (simp add: server_simps)
  show ?thesis
  proof (cases "p \<in> snd ` set (sv_listeners s) \<or> se_listen env p = None")
    case True
    then have "listen env p ?s = (?s, None)" by (auto simp: listen_def server_simps)
    with start have "s' = sendTCPListenFatalError env m ?s" "r = Err (ListenFailed p)" by simp_all
    with True m show ?thesis
      by (auto simp: sendTCPListenFatalError_def fatal_listen_error_def ws_write_def server_simps)
  next
    case False
    then obtain l where l: "se_listen env p = Some l" by auto
    let ?s1 = "?s\<lparr>sv_listeners := sv_listeners s @ [(l, p)]\<rparr>"
    have step: "listen env p ?s = (?s1, Some l)" using False l by (simp add: listen_def server_simps)
    have out: "sv_out ?s1 = sv_out s" by (simp add: server_simps)
    from m have m1: "get_container ?s1 cid = Some (m\<lparr>tm_SourcePort := Some p\<rparr>)" by (simp only: server_simps)
    show ?thesis
    proof (cases "se_ws_write env (tm_WSSocket m) (tcp_ready_message host p) (sv_out s)")
      case True
      let ?s2 = "sv_emit [MonitorSent (tm_WSSocket m) (tcp_ready_message host p)] ?s1"
      have w: "ws_write env (tm_WSSocket m) (tcp_ready_message host p) ?s1 = (?s2, True)" using True out by (simp add: ws_write_def)
      have m2: "get_container ?s2 cid = Some (m\<lparr>tm_SourcePort := Some p\<rparr>)" using m1 by (simp only: server_simps)
      from start [unfolded step prod.case option.case w bool.case set_source_server(1) [OF m2]]
      have "s' = on_container (\<lambda>_. (cx_Container (sv_ctx ?s2))(cid \<mapsto> (m\<lparr>tm_SourcePort := Some p\<rparr>)\<lparr>tm_SourceServer := Some l\<rparr>)) ?s2"
        "r = Ok (Some l)" by simp_all
      with False True l out show ?thesis by (auto simp: server_simps)
    next
      case not: False
      have w: "ws_write env (tm_WSSocket m) (tcp_ready_message host p) ?s1 = (?s1, False)" using not out by (simp add: ws_write_def)
      from start [unfolded step prod.case option.case w bool.case]
      have "s' = close_listener l ?s1" "r = Err ReadyNotSent" by simp_all
      with False not l out m1 show ?thesis by (auto simp: close_listener_def server_simps)
    qed
  qed
qed

text \<open>A TCP tunnel does not survive a failing listener. Opening one is exact: the port is the requested one,
  the previous one, or a free one, the client is told \<open>tcp:ready\<close> after the port is bound and told a fatal error when it cannot be.
  But when \<open>Accept\<close> then fails for any reason but a passing one, the replacement is attempted while the old listener still
  holds the port, so it always fails, the client is told the fatal error, and the old listener is closed after that: nothing
  listens for the tunnel any more.\<close>

theorem failed_accept_ends_the_tunnel:
  assumes "get_container s cid = Some m" "tm_SourceServer m = None" "source_port env m = Some p" "p \<noteq> 0"
    and "CreateServer env cid host s = (s1, Ok (Some l))"
    and "se_ws_write env2 (tm_WSSocket m) (fatal_listen_error env2) (sv_out s1)"
  shows "sv_out s1 = sv_out s @ [MonitorSent (tm_WSSocket m) (tcp_ready_message host p)]
    \<and> (l, p) \<in> set (sv_listeners s1)
    \<and> (\<exists>s2. runTCPAcceptLoop env2 AcceptError l host cid m' s1 = (s2, Ended None)
        \<and> sv_out s2 = sv_out s1 @ [MonitorSent (tm_WSSocket m) (fatal_listen_error env2), ListenerClosed l]
        \<and> l \<notin> fst ` set (sv_listeners s2)
        \<and> (\<exists>m2. get_container s2 cid = Some m2 \<and> tm_SourceServer m2 = None))"
proof -
  have made: "sv_out s1 = sv_out s @ [MonitorSent (tm_WSSocket m) (tcp_ready_message host p)]"
    "(l, p) \<in> set (sv_listeners s1)"
    "get_container s1 cid = Some (m\<lparr>tm_SourcePort := Some p, tm_SourceServer := Some l\<rparr>)"
    using CreateServer_port [OF assms(1-3,5)] by (auto split: if_splits)
  let ?m = "m\<lparr>tm_SourcePort := Some p, tm_SourceServer := None\<rparr>"
  let ?s = "fst (set_in_container cid ''sourceServer'' NilValue s1)"
  have s: "get_container ?s cid = Some ?m" "sv_out ?s = sv_out s1" "sv_listeners ?s = sv_listeners s1"
    by (simp_all add: set_source_server(2) [OF made(3)] server_simps)
  have port: "source_port env2 ?m = Some p"
    using assms(3,4) by (auto simp: source_port_def split: option.splits if_splits)
  obtain s3 r where c: "CreateServer env2 cid host ?s = (s3, r)" by force
  have free: "tm_SourceServer ?m = None" by simp
  have held: "p \<in> snd ` set (sv_listeners s1) \<or> se_listen env2 p = None" using made(2) by force
  have again: "r = Err (ListenFailed p)" "sv_listeners s3 = sv_listeners s1"
    "get_container s3 cid = Some (?m\<lparr>tm_SourcePort := Some p\<rparr>)"
    "sv_out s3 = sv_out s1 @ [MonitorSent (tm_WSSocket m) (fatal_listen_error env2)]"
    using CreateServer_port [OF s(1) free port c, unfolded s(2,3) if_P [OF held]] assms(6) by simp_all
  then show ?thesis
    using made by (auto simp: runTCPAcceptLoop_def c close_listener_def server_simps)
qed

section \<open>Data channels\<close>

text \<open>A channel is attached for a stream of a container.\<close>

definition attach :: "string \<Rightarrow> string \<Rightarrow> string \<Rightarrow> nat \<Rightarrow> Server \<Rightarrow> Server" where
  "attach client cid sid conn s = fst (data_HandleConnection client cid sid True id conn s)"

lemma put_data_socket_container:
  assumes "get_container s cid = Some m"
  shows "get_container (put_data_socket cid sid c s) cid = Some (m\<lparr>tm_DataSockets := (tm_DataSockets m)(sid := c)\<rparr>)"
  using assms by (simp add: put_data_socket_def get_container_def tunnel_Get_def server_simps)

lemma put_data_socket_simps [server_simps]:
  "sv_out (put_data_socket cid sid c s) = sv_out s" "sv_adapters (put_data_socket cid sid c s) = sv_adapters s"
  "sv_relays (put_data_socket cid sid c s) = sv_relays s" "sv_ready (put_data_socket cid sid c s) = sv_ready s"
  "sv_limiter (put_data_socket cid sid c s) = sv_limiter s"
  by (simp_all add: put_data_socket_def server_simps)

text \<open>A container of the new protocol whose adapter \<open>r\<close> is \<open>a\<close>.\<close>

definition serves :: "string \<Rightarrow> TunnelMapping \<Rightarrow> nat \<Rightarrow> Adapter \<Rightarrow> Server \<Rightarrow> bool" where
  "serves cid m r a s \<longleftrightarrow> get_container s cid = Some m \<and> tm_UseNewProtocol m \<and> tm_Adapter m = OtherValue r
     \<and> sv_adapters s r = Some (BinaryA a)"

lemma on_container_adapter_serves:
  assumes "serves cid m r a s"
  shows "on_container_adapter m f s = set_adapter r (f (BinaryA a)) s"
  using assms by (simp add: serves_def on_container_adapter_def container_adapter_def as_adapter_def on_adapter_def)

lemma serves_put:
  assumes "serves cid m r a s"
  shows "serves cid (m\<lparr>tm_DataSockets := (tm_DataSockets m)(sid := c)\<rparr>) r b (set_adapter r (BinaryA b) (put_data_socket cid sid c s))"
  using assms put_data_socket_container [of s cid m sid c]
  by (simp add: serves_def get_container_def server_simps)

lemma attach_effect:
  assumes "serves cid m r a s" "tm_ClientId m = client" "client \<noteq> ''''" "cid \<noteq> ''''" "sid \<noteq> ''''"
  shows "attach client cid sid conn s
    = set_adapter r (BinaryA (SetDataChannelForStream sid conn a)) (put_data_socket cid sid (Some conn) s)"
proof -
  have one: "on_container_adapter m f (put_data_socket cid sid (Some conn) s)
      = set_adapter r (f (BinaryA a)) (put_data_socket cid sid (Some conn) s)" for f
    using assms(1) by (simp add: on_container_adapter_def container_adapter_def as_adapter_def on_adapter_def serves_def server_simps)
  have "get_container s cid = Some m" using assms(1) by (simp add: serves_def)
  with assms(2-) show ?thesis
    by (simp add: attach_def data_HandleConnection_def one)
qed

lemma detach_effect:
  assumes "serves cid m r a s"
  shows "data_disconnect cid sid conn s
    = close_conn conn (set_adapter r (BinaryA (RemoveDataChannelForStream sid a)) (put_data_socket cid sid None s))"
  using assms
  by (simp add: data_disconnect_def serves_def on_container_adapter_def container_adapter_def as_adapter_def
      on_adapter_def server_simps)

text \<open>A stream's second data channel does not survive the first. The registry accepts a second channel for
  a stream and sends to it from then on; but when the first channel ends, its clean-up removes
  whatever is registered for the stream, so that the second channel, although still open, is no longer
  used: the next TCP data for the stream fails, as if no channel had ever been opened.\<close>

theorem second_data_channel_is_lost:
  assumes "serves cid m r a s" "tm_ClientId m = client" "client \<noteq> ''''" "cid \<noteq> ''''" "sid \<noteq> ''''"
    and "has_cap a CapabilityFlagTCPOverWS" "ad_dataConn a = None"
    and "writes_ok env" "length sid \<le> 255" "length data < 2 ^ 32"
  shows "let s2 = attach client cid sid c2 (attach client cid sid c1 s); s3 = data_disconnect cid sid c1 s2 in
    (\<exists>a2 a3 frame. sv_adapters s2 r = Some (BinaryA a2) \<and> SendTCPData env sid data a2 = (a3, Return)
        \<and> ad_out a3 = ad_out a2 @ [DataBinary c2 frame])
    \<and> (\<exists>b. sv_adapters s3 r = Some (BinaryA b) \<and> SendTCPData env sid data b = (b, Raise (DataChannelNotReady sid)))
    \<and> sv_out s3 = sv_out s @ [ConnClosed c1]
    \<and> (\<exists>m3. get_container s3 cid = Some m3 \<and> tm_DataSockets m3 sid = None)"
proof -
  let ?a1 = "SetDataChannelForStream sid c1 a"
  let ?m1 = "m\<lparr>tm_DataSockets := (tm_DataSockets m)(sid := Some c1)\<rparr>"
  let ?s1 = "set_adapter r (BinaryA ?a1) (put_data_socket cid sid (Some c1) s)"
  have s1: "attach client cid sid c1 s = ?s1" using attach_effect [OF assms(1-5)] .
  have v1: "serves cid ?m1 r ?a1 ?s1" using serves_put [OF assms(1)] .
  let ?a2 = "SetDataChannelForStream sid c2 ?a1"
  let ?m2 = "?m1\<lparr>tm_DataSockets := (tm_DataSockets ?m1)(sid := Some c2)\<rparr>"
  let ?s2 = "set_adapter r (BinaryA ?a2) (put_data_socket cid sid (Some c2) ?s1)"
  have s2: "attach client cid sid c2 ?s1 = ?s2" using attach_effect [OF v1 _ assms(3-5)] assms(2) by simp
  have v2: "serves cid ?m2 r ?a2 ?s2" using serves_put [OF v1] .
  let ?b = "RemoveDataChannelForStream sid ?a2"
  let ?s3 = "close_conn c1 (set_adapter r (BinaryA ?b) (put_data_socket cid sid None ?s2))"
  have s3: "data_disconnect cid sid c1 ?s2 = ?s3" using detach_effect [OF v2] .
  have dc: "ad_dataChannels ?a2 sid = Some c2" by (simp add: SetDataChannelForStream_def)
  have b: "ad_dataChannels ?b sid = None" "ad_dataConn ?b = None" "has_cap ?b CapabilityFlagTCPOverWS"
    using assms(6,7) by (simp_all add: RemoveDataChannelForStream_def SetDataChannelForStream_def has_cap_def)
  have "SendTCPData env sid data ?b = (?b, Raise (DataChannelNotReady sid))"
    using b by (simp add: SendTCPData_def Let_def)
  moreover have "get_container ?s3 cid = Some (?m2\<lparr>tm_DataSockets := (tm_DataSockets ?m2)(sid := None)\<rparr>)"
    using serves_put [OF v2] by (simp add: serves_def get_container_def server_simps)
  ultimately show ?thesis
    unfolding Let_def s1 s2 s3
    using SendTCPData_channel [OF assms(8-10) dc] by (auto simp: server_simps)
qed

section \<open>Legacy connections\<close>

lemma processAuthentication_Ok:
  assumes "bytes_str data = TUNNEL_TCP_FLAG @ cid @ rid @ sig @ rest"
    and "length cid = UID_LENGTH" "length rid = REQUEST_ID_LENGTH" "length sig = SIGNATURE_LENGTH"
  shows "processAuthentication env conn data s =
     (case get_container s cid of
        None \<Rightarrow> (refuse env conn ''404 invalid client'' s, Err NoContainer)
      | Some container \<Rightarrow>
          (case se_token env (tm_Token container) (tm_AuthType container) (tm_ClientId container)
                  (Some \<lparr>go_Type = ''tcp'', go_OpaqueChild = False\<rparr>) of
             Ok res \<Rightarrow>
               if tr_Token res = '''' then (refuse env conn ''403 invalid client'' s, Err EmptyToken)
               else if sig \<noteq> hmacSHA256 (se_mac env) cid (tr_Token res)
                 then (refuse env conn ''402 invalid signature'' s, Err WrongSignature)
               else
                 (case write_conn env conn (str_bytes TUNNEL_TCP_OK_FLAG) s of
                    (s, False) \<Rightarrow> (s, Err OkNotWritten)
                  | (s, True) \<Rightarrow> (onAuthenticate cid rid conn s, Ok ()))
           | _ \<Rightarrow> (refuse env conn ''404 invalid client'' s, Err NoToken)))"
proof -
  let ?f = "length TUNNEL_TCP_FLAG"
  have "length data = ?f + UID_LENGTH + REQUEST_ID_LENGTH + SIGNATURE_LENGTH + length rest"
    using arg_cong [OF assms(1), of length] assms(2-4) by simp
  then have long: "\<not> length data < ?f + UID_LENGTH + REQUEST_ID_LENGTH + SIGNATURE_LENGTH" by simp
  have parts: "take ?f (bytes_str data) = TUNNEL_TCP_FLAG" "take UID_LENGTH (drop ?f (bytes_str data)) = cid"
    "take REQUEST_ID_LENGTH (drop (?f + UID_LENGTH) (bytes_str data)) = rid"
    "take SIGNATURE_LENGTH (drop (?f + UID_LENGTH + REQUEST_ID_LENGTH) (bytes_str data)) = sig"
    using assms by simp_all
  show ?thesis
    unfolding processAuthentication_def Let_def parts if_not_P [OF long] by simp
qed

lemma cut_in_four: "t = take a t @ take b (drop a t) @ take c (drop (a + b) t) @ drop (a + b + c) t"
  by (metis append_take_drop_id drop_drop add.commute)

lemma message_shape:
  assumes "\<not> length data < length TUNNEL_TCP_FLAG + UID_LENGTH + REQUEST_ID_LENGTH + SIGNATURE_LENGTH"
    and "take (length TUNNEL_TCP_FLAG) (bytes_str data) = TUNNEL_TCP_FLAG"
  obtains cid rid sig rest where "bytes_str data = TUNNEL_TCP_FLAG @ cid @ rid @ sig @ rest"
    "length cid = UID_LENGTH" "length rid = REQUEST_ID_LENGTH" "length sig = SIGNATURE_LENGTH"
proof
  let ?t = "drop (length TUNNEL_TCP_FLAG) (bytes_str data)"
  show "bytes_str data = TUNNEL_TCP_FLAG @ take UID_LENGTH ?t @ take REQUEST_ID_LENGTH (drop UID_LENGTH ?t)
      @ take SIGNATURE_LENGTH (drop (UID_LENGTH + REQUEST_ID_LENGTH) ?t) @ drop (UID_LENGTH + REQUEST_ID_LENGTH + SIGNATURE_LENGTH) ?t"
    using cut_in_four [of ?t UID_LENGTH REQUEST_ID_LENGTH SIGNATURE_LENGTH] assms(2)
      append_take_drop_id [of "length TUNNEL_TCP_FLAG" "bytes_str data"] by (simp only:)
qed (use assms(1) in simp_all)

lemma refuse_effect:
  "\<exists>new. sv_out (refuse env conn status s) = sv_out s @ new @ [ConnClosed conn] \<and> (\<forall>a b. Piped a b \<notin> set new)
    \<and> sv_ctx (refuse env conn status s) = sv_ctx s"
  by (auto simp: refuse_def write_conn_def server_simps split: option.split)

text \<open>C19: A waiting user is joined only to a client that can sign: whatever bytes arrive on the legacy port, they
  join a user's connection to theirs only if they carry the flag, the id of an existing container, its HMAC under
  the secret that the token function gives for that container, and the id of a request
  that waits in it; that request is then gone, so it is joined once. Any other outcome joins
  nobody and leaves the containers as they were, and, except for a message that is too short or an answer that cannot be
  written, the connection is closed.\<close>

theorem legacy_join_needs_signature:
  assumes "processAuthentication env conn data s = (s', r)"
  shows "\<exists>new. sv_out s' = sv_out s @ new
    \<and> (\<forall>source target. Piped source target \<in> set new \<longrightarrow> target = conn
        \<and> (\<exists>cid rid m res rest. bytes_str data = TUNNEL_TCP_FLAG @ cid @ rid @ hmacSHA256 (se_mac env) cid (tr_Token res) @ rest
            \<and> length cid = UID_LENGTH \<and> length rid = REQUEST_ID_LENGTH
            \<and> get_container s cid = Some m \<and> tm_Requests m rid = Some (Some source)
            \<and> se_token env (tm_Token m) (tm_AuthType m) (tm_ClientId m) (Some \<lparr>go_Type = ''tcp'', go_OpaqueChild = False\<rparr>) = Ok res
            \<and> tr_Token res \<noteq> ''''
            \<and> (\<exists>m'. get_container s' cid = Some m' \<and> tm_Requests m' rid = None)))
    \<and> (if \<exists>source target. Piped source target \<in> set new then True
       else cx_Container (sv_ctx s') = cx_Container (sv_ctx s)
         \<and> (if r = Err TooShort \<or> r = Err OkNotWritten then ConnClosed conn \<notin> set new else ConnClosed conn \<in> set new))"
    (is "\<exists>new. ?P new")
proof -
  let ?f = "length TUNNEL_TCP_FLAG"
  have closed: "\<exists>new. ?P new" if h: "s' = refuse env conn status s" "r \<noteq> Err TooShort" "r \<noteq> Err OkNotWritten" for status
  proof -
    obtain new where n: "sv_out s' = sv_out s @ new @ [ConnClosed conn]" "\<forall>a b. Piped a b \<notin> set new" "sv_ctx s' = sv_ctx s"
      using refuse_effect [of env conn status s] h(1) by blast
    then show ?thesis using h(2,3) by (intro exI [of _ "new @ [ConnClosed conn]"]) simp
  qed
  show ?thesis
  proof (cases "length data < ?f + UID_LENGTH + REQUEST_ID_LENGTH + SIGNATURE_LENGTH
      \<or> take ?f (bytes_str data) \<noteq> TUNNEL_TCP_FLAG")
    case True
    then consider "s' = s" "r = Err TooShort" | "s' = refuse env conn ''401 unauthorized'' s" "r = Err InvalidFlag"
      using assms by (auto simp: processAuthentication_def Let_def split: if_splits)
    then show ?thesis
    proof cases
      case 1
      then show ?thesis by (intro exI [of _ "[]"]) simp
    qed (use closed in simp)
  next
    case False
    then obtain cid rid sig rest where msg: "bytes_str data = TUNNEL_TCP_FLAG @ cid @ rid @ sig @ rest"
      "length cid = UID_LENGTH" "length rid = REQUEST_ID_LENGTH" "length sig = SIGNATURE_LENGTH"
      by (auto elim: message_shape)
    note turn = assms [unfolded processAuthentication_Ok [OF msg]]
    consider (refused) status where "s' = refuse env conn status s" "r \<noteq> Err TooShort" "r \<noteq> Err OkNotWritten"
      | (signed) m res where "get_container s cid = Some m" "tr_Token res \<noteq> ''''"
        "se_token env (tm_Token m) (tm_AuthType m) (tm_ClientId m) (Some \<lparr>go_Type = ''tcp'', go_OpaqueChild = False\<rparr>) = Ok res"
        "sig = hmacSHA256 (se_mac env) cid (tr_Token res)"
        "(case write_conn env conn (str_bytes TUNNEL_TCP_OK_FLAG) s of
            (s, False) \<Rightarrow> (s, Err OkNotWritten) | (s, True) \<Rightarrow> (onAuthenticate cid rid conn s, Ok ())) = (s', r)"
      using turn by (auto split: option.splits outcome.splits if_splits)
    then show ?thesis
    proof cases
      case refused
      then show ?thesis by (rule closed)
    next
      case signed
      obtain s1 ok where w: "write_conn env conn (str_bytes TUNNEL_TCP_OK_FLAG) s = (s1, ok)" by force
      obtain n where n: "sv_out s1 = sv_out s @ n" "\<forall>a b. Piped a b \<notin> set n" "ConnClosed conn \<notin> set n" "sv_ctx s1 = sv_ctx s"
        using w by (auto simp: write_conn_def server_simps split: if_splits option.splits)
      show ?thesis
      proof (cases ok)
        case False
        with signed(5) w n show ?thesis by (intro exI [of _ n]) simp
      next
        case True
        with signed(5) w have s': "s' = onAuthenticate cid rid conn s1" "r = Ok ()" by simp_all
        have m1: "get_container s1 cid = Some m" using signed(1) n(4) by (simp add: get_container_def)
        show ?thesis
        proof (cases "\<exists>source. tm_Requests m rid = Some (Some source)")
          case True
          then obtain source where src: "tm_Requests m rid = Some (Some source)" by blast
          have c: "ConnectRequest cid rid conn (cx_Container (sv_ctx s1))
              = Ok ((cx_Container (sv_ctx s1))(cid \<mapsto> m\<lparr>tm_Requests := (tm_Requests m)(rid := None)\<rparr>), source, conn)"
            using m1 src by (simp add: ConnectRequest_def get_container_def tunnel_Get_def)
          have out: "sv_out s' = sv_out s @ n @ [Piped source conn]"
            "get_container s' cid = Some (m\<lparr>tm_Requests := (tm_Requests m)(rid := None)\<rparr>)"
            by (simp_all add: s' onAuthenticate_def m1 c server_simps n(1))
          have gone: "\<exists>m'. get_container s' cid = Some m' \<and> tm_Requests m' rid = None" using out(2) by simp
          have who: "a = source \<and> b = conn" if "Piped a b \<in> set (n @ [Piped source conn])" for a b
            using that n(2) by auto
          have some: "\<exists>a b. Piped a b \<in> set (n @ [Piped source conn])" by auto
          show ?thesis
          proof (rule exI [of _ "n @ [Piped source conn]"], intro conjI allI impI)
            show "sv_out s' = sv_out s @ n @ [Piped source conn]" by (rule out)
          next
            fix a b
            assume "Piped a b \<in> set (n @ [Piped source conn])"
            then have ab: "a = source" "b = conn" using who by blast+
            show "b = conn" by (rule ab)
            show "\<exists>cid rid m res rest. bytes_str data = TUNNEL_TCP_FLAG @ cid @ rid @ hmacSHA256 (se_mac env) cid (tr_Token res) @ rest
              \<and> length cid = UID_LENGTH \<and> length rid = REQUEST_ID_LENGTH
              \<and> get_container s cid = Some m \<and> tm_Requests m rid = Some (Some a)
              \<and> se_token env (tm_Token m) (tm_AuthType m) (tm_ClientId m) (Some \<lparr>go_Type = ''tcp'', go_OpaqueChild = False\<rparr>) = Ok res
              \<and> tr_Token res \<noteq> ''''
              \<and> (\<exists>m'. get_container s' cid = Some m' \<and> tm_Requests m' rid = None)"
              unfolding ab using msg(1-3) signed(1-4) src gone
              by - (rule exI [of _ cid], rule exI [of _ rid], rule exI [of _ m], rule exI [of _ res], rule exI [of _ rest],
                  intro conjI, simp_all)
          qed (simp only: if_P [OF some])
        next
          case False
          have c: "ConnectRequest cid rid conn (cx_Container (sv_ctx s1)) = Err SourceSocketNotFound"
            using m1 False by (auto simp: ConnectRequest_def get_container_def tunnel_Get_def split: option.split)
          have "s' = close_conn conn s1" by (simp add: s' onAuthenticate_def m1 c)
          then show ?thesis
            using n s'(2) by (intro exI [of _ "n @ [ConnClosed conn]"]) (simp add: server_simps)
        qed
      qed
    qed
  qed
qed

section \<open>A new relay\<close>

definition new_relay :: "Server \<Rightarrow> string \<Rightarrow> string \<Rightarrow> nat \<Rightarrow> nat \<Rightarrow> Adapter \<Rightarrow> nat option \<Rightarrow> Relay" where
  "new_relay s cid sid conn r a fin =
     \<lparr>rl_streamID = sid, rl_clientID = (case get_container s cid of None \<Rightarrow> [] | Some m \<Rightarrow> tm_ClientId m), rl_conn = conn,
      rl_adapter = r, rl_dataSub = Some (ad_handlerIDCounter a), rl_closeSub = Some (ad_tcpCloseHandlerIDCounter a),
      rl_closed = False, rl_onComplete = fin\<rparr>"

definition with_handlers :: "Adapter \<Rightarrow> Adapter" where
  "with_handlers a = snd (OnTCPClose relay_close_handler (snd (OnTCPData relay_handler a)))"

lemma with_handlers_simps [simp]:
  "ad_dataChannels (with_handlers a) = ad_dataChannels a" "ad_streamManager (with_handlers a) = ad_streamManager a"
  "ad_tcpDataHandlers (with_handlers a) = ad_tcpDataHandlers a @ [(ad_handlerIDCounter a, relay_handler)]"
  "ad_out (with_handlers a) = ad_out a"
  by (simp_all add: with_handlers_def OnTCPData_def OnTCPClose_def Let_def)

lemma setup_effect:
  assumes "sv_adapters s r = Some (BinaryA a)"
  shows "sv_relays (setupTCPStreamOverWebSocket env cid sid conn r fin s) = sv_relays s @ [new_relay s cid sid conn r a fin]"
    "sv_adapters (setupTCPStreamOverWebSocket env cid sid conn r fin s) = (sv_adapters s)(r \<mapsto> BinaryA (with_handlers a))"
    "sv_out (setupTCPStreamOverWebSocket env cid sid conn r fin s) = sv_out s"
    "sv_limiter (setupTCPStreamOverWebSocket env cid sid conn r fin s) = sv_limiter s"
proof -
  define n where "n = length (sv_relays s)"
  define s1 where "s1 = relay_start env cid sid conn r fin s"
  have one: "sv_adapters s1 = sv_adapters s" "sv_out s1 = sv_out s" "sv_limiter s1 = sv_limiter s"
    "sv_relays s1 = sv_relays s @ [(new_relay s cid sid conn r a fin)\<lparr>rl_dataSub := None, rl_closeSub := None\<rparr>]"
    by (simp_all add: s1_def relay_start_def Let_def server_simps new_relay_def)
  obtain h a1 where a1: "OnTCPData relay_handler a = (h, a1)" by force
  then have h: "h = ad_handlerIDCounter a" "ad_tcpCloseHandlerIDCounter a1 = ad_tcpCloseHandlerIDCounter a"
    by (auto simp: OnTCPData_def Let_def)
  define s2 where "s2 = relay_register_data n s1"
  have "rl_adapter (sv_relays s1 ! n) = r" by (simp add: one n_def nth_append new_relay_def)
  then have two: "sv_adapters s2 = (sv_adapters s)(r \<mapsto> BinaryA a1)" "sv_out s2 = sv_out s" "sv_limiter s2 = sv_limiter s"
    "sv_relays s2 = sv_relays s @ [(new_relay s cid sid conn r a fin)\<lparr>rl_closeSub := None\<rparr>]"
    using assms a1 h
    by (simp_all add: s2_def relay_register_data_def Let_def one server_simps set_relay_def n_def nth_append
        list_update_append new_relay_def)
  obtain k a2 where a2: "OnTCPClose relay_close_handler a1 = (k, a2)" by force
  then have k: "k = ad_tcpCloseHandlerIDCounter a" "a2 = with_handlers a"
    using h a1 by (auto simp: OnTCPClose_def with_handlers_def Let_def)
  have "rl_adapter (sv_relays s2 ! n) = r" by (simp add: two n_def nth_append new_relay_def)
  then have three: "sv_adapters (relay_register_close n s2) = (sv_adapters s)(r \<mapsto> BinaryA a2)"
    "sv_out (relay_register_close n s2) = sv_out s" "sv_limiter (relay_register_close n s2) = sv_limiter s"
    "sv_relays (relay_register_close n s2) = sv_relays s @ [new_relay s cid sid conn r a fin]"
    using a2 k(1)
    by (simp_all add: relay_register_close_def Let_def two server_simps set_relay_def n_def nth_append
        list_update_append new_relay_def)
  have all: "setupTCPStreamOverWebSocket env cid sid conn r fin s = relay_register_close n s2"
    by (simp add: setupTCPStreamOverWebSocket_def s2_def s1_def n_def Let_def)
  show "sv_relays (setupTCPStreamOverWebSocket env cid sid conn r fin s) = sv_relays s @ [new_relay s cid sid conn r a fin]"
    "sv_adapters (setupTCPStreamOverWebSocket env cid sid conn r fin s) = (sv_adapters s)(r \<mapsto> BinaryA (with_handlers a))"
    "sv_out (setupTCPStreamOverWebSocket env cid sid conn r fin s) = sv_out s"
    "sv_limiter (setupTCPStreamOverWebSocket env cid sid conn r fin s) = sv_limiter s"
    unfolding all three k(2) by (rule refl)+
qed

text \<open>
  Handler ids are given out in order: those registered, and those that relays of the adapter remember,
  are below the next one.
\<close>

definition ids_below :: "nat \<Rightarrow> Adapter \<Rightarrow> Server \<Rightarrow> bool" where
  "ids_below r a s \<longleftrightarrow> (\<forall>p \<in> set (ad_tcpDataHandlers a). fst p < ad_handlerIDCounter a)
     \<and> (\<forall>x \<in> set (sv_relays s). rl_adapter x = r \<longrightarrow> (\<forall>h. rl_dataSub x = Some h \<longrightarrow> h < ad_handlerIDCounter a))"

lemma setup_relaying:
  assumes "sv_adapters s r = Some (BinaryA a)" "ids_below r a s" "get_container s cid = Some m"
    and "ad_dataChannels a sid = Some dc" "\<forall>sm. ad_streamManager a = Some sm \<longrightarrow> GetStream sm sid = None"
    and "length sid \<le> 255" "\<forall>x \<in> set (sv_relays s). rl_streamID x \<noteq> sid"
    and "ConnClosed conn \<notin> set (sv_out s)" "unlimited (sv_limiter s) (tm_ClientId m)"
  shows "relaying (length (sv_relays s)) (new_relay s cid sid conn r a fin) (with_handlers a) dc
    (setupTCPStreamOverWebSocket env cid sid conn r fin s)"
proof -
  let ?x = "new_relay s cid sid conn r a fin"
  have x: "rl_streamID ?x = sid" "rl_adapter ?x = r" "rl_conn ?x = conn" "rl_clientID ?x = tm_ClientId m" "\<not> rl_closed ?x"
    "rl_dataSub ?x = Some (ad_handlerIDCounter a)"
    by (simp_all add: new_relay_def assms(3))
  have none: "filter (\<lambda>p. fst p = ad_handlerIDCounter a) (ad_tcpDataHandlers a) = []"
    using assms(2) by (auto simp: filter_empty_conv ids_below_def)
  have others: "rl_streamID (sv_relays s ! j) \<noteq> sid
      \<and> (if rl_adapter (sv_relays s ! j) = r then rl_dataSub (sv_relays s ! j) \<noteq> Some (ad_handlerIDCounter a) else True)"
    if "j < length (sv_relays s)" for j
    using assms(2,7) nth_mem [OF that] by (auto simp: ids_below_def)
  show ?thesis
    unfolding relaying_def setup_effect [OF assms(1)]
    using assms(4-6,8,9) none others by (auto simp: x nth_append less_Suc_eq)
qed

lemma user_leaves_effect:
  assumes "relaying i r a dc s"
  shows "sv_out (relay_upload env i None s) = sv_out s @ ConnClosed (rl_conn r)
      # (case rl_onComplete r of None \<Rightarrow> [] | Some p \<Rightarrow> [HandlerDone p])"
    "sv_adapters (relay_upload env i None s) (rl_adapter r)
      = Some (BinaryA (case rl_closeSub r of None \<Rightarrow> unsubscribe_data (the (rl_dataSub r)) a
           | Some k \<Rightarrow> unsubscribe_close k (unsubscribe_data (the (rl_dataSub r)) a)))"
    "sv_ctx (relay_upload env i None s) = sv_ctx s"
  using assms
  by (auto simp: relaying_def relay_upload_def closeUserConn_def Let_def server_simps set_relay_def unsubscribe_relay_def
      split: option.split)

text \<open>A user who hangs up is not reported to the client. When the user's connection ends, the relay stops and
  forgets its handlers, but it sends nothing: neither the monitor channel nor the stream's data channel carries a message about it,
  and the data channel stays registered for the stream, in the adapter and in the container. The client's
  connection to its upstream, which only such a message or the end of the data channel would close, stays open.\<close>

theorem hang_up_is_not_reported:
  assumes "relaying i r a dc s"
  shows "let s' = relay_upload env i None s in
    sv_out s' = sv_out s @ ConnClosed (rl_conn r) # (case rl_onComplete r of None \<Rightarrow> [] | Some p \<Rightarrow> [HandlerDone p])
    \<and> sv_ctx s' = sv_ctx s
    \<and> (\<exists>b. sv_adapters s' (rl_adapter r) = Some (BinaryA b) \<and> ad_out b = ad_out a
        \<and> ad_dataChannels b (rl_streamID r) = Some dc \<and> (\<forall>h. (the (rl_dataSub r), h) \<notin> set (ad_tcpDataHandlers b)))"
  using user_leaves_effect [OF assms] assms
  by (auto simp: Let_def relaying_def unsubscribe_data_def unsubscribe_close_def split: option.split)

section \<open>Witnesses\<close>

definition sample_srv_env :: SrvEnv where
  "sample_srv_env = \<lparr>se_env = calm, se_clock = (\<lambda>_. 0), se_retry_clock = (\<lambda>_. 0), se_now = 7, se_date = ''now'',
     se_conn_write = (\<lambda>c bs out. None), se_ws_write = (\<lambda>ws msg out. True), se_free_port = Some 4000,
     se_listen = (\<lambda>p. Some 50), se_listen_error = ''in use'',
     se_token = (\<lambda>r t c op. Ok \<lparr>tr_AuthType = ''token'', tr_Token = ''t'', tr_Config = None\<rparr>),
     se_mac = (\<lambda>k m. replicate 32 1)\<rparr>"

definition sample_tcp_auth :: Authentication where
  "sample_tcp_auth = zero_auth\<lparr>at_Type := ''tcp'', at_ClientId := ''dev''\<rparr>"

definition sample_mapping :: TunnelMapping where
  "sample_mapping = (the (tunnel_Create ''box'' 0 1 sample_tcp_auth 2 Map.empty ''box''))\<lparr>tm_Adapter := OtherValue 3,
     tm_UseNewProtocol := True\<rparr>"

definition sample_server :: Server where
  "sample_server =
     \<lparr>sv_ctx = \<lparr>cx_DomainMappings = NewDomainContainer, cx_Callbacks = NewCallbackContainer,
        cx_Container = [''box'' \<mapsto> sample_mapping], cx_TrafficStats = NewTrafficStatsContainer 0\<rparr>,
      sv_limiter = NewBandwidthLimiter 0 None, sv_adapters = [3 \<mapsto> BinaryA official_adapter], sv_ready = Map.empty,
      sv_relays = [], sv_listeners = [], sv_out = []\<rparr>"

lemma sample_serves: "serves ''box'' sample_mapping 3 official_adapter sample_server"
  by (simp add: serves_def get_container_def tunnel_Get_def sample_server_def sample_mapping_def)

lemma sample_mapping_facts: "tm_ClientId sample_mapping = ''dev''" "tm_DataSockets sample_mapping = Map.empty"
  "tm_SourceServer sample_mapping = None" "tm_TunnelPort sample_mapping = Some 0" "tm_SourcePort sample_mapping = None"
  "tm_WSSocket sample_mapping = 1"
  by (simp_all add: sample_mapping_def tunnel_Create_def sample_tcp_auth_def zero_auth_def)

lemma official_adapter_facts: "ad_dataConn official_adapter = None" "has_cap official_adapter CapabilityFlagTCPOverWS"
  "ad_tcpDataHandlers official_adapter = []" "ad_handlerIDCounter official_adapter = 0"
  "ad_tcpCloseHandlers official_adapter = []"
  by (simp_all add: official_adapter_def NewBinaryProtocolAdapter_def) (code_simp)

lemma second_data_channel_is_lost_witness:
  "\<exists>b. sv_adapters (data_disconnect ''box'' ''s'' 8 (attach ''dev'' ''box'' ''s'' 9 (attach ''dev'' ''box'' ''s'' 8 sample_server))) 3
       = Some (BinaryA b) \<and> SendTCPData calm ''s'' [1] b = (b, Raise (DataChannelNotReady ''s''))"
  using second_data_channel_is_lost [OF sample_serves sample_mapping_facts(1) _ _ _ official_adapter_facts(2,1) calm_facts(2),
      of "''s''" "[1]" 9 8]
  by (simp add: Let_def)

definition relay_server :: Server where
  "relay_server = setupTCPStreamOverWebSocket sample_srv_env ''box'' ''s'' 9 3 None (attach ''dev'' ''box'' ''s'' 8 sample_server)"

definition attached_adapter :: Adapter where
  "attached_adapter = SetDataChannelForStream ''s'' 8 official_adapter"

lemma attached_facts: "sv_adapters (attach ''dev'' ''box'' ''s'' 8 sample_server) 3 = Some (BinaryA attached_adapter)"
  "get_container (attach ''dev'' ''box'' ''s'' 8 sample_server) ''box''
    = Some (sample_mapping\<lparr>tm_DataSockets := [''s'' \<mapsto> 8]\<rparr>)"
  "sv_relays (attach ''dev'' ''box'' ''s'' 8 sample_server) = []" "sv_out (attach ''dev'' ''box'' ''s'' 8 sample_server) = []"
  "sv_limiter (attach ''dev'' ''box'' ''s'' 8 sample_server) = NewBandwidthLimiter 0 None"
  using serves_put [OF sample_serves, of "''s''" "Some 8" attached_adapter]
  by (simp_all add: attach_effect [OF sample_serves sample_mapping_facts(1)] serves_def attached_adapter_def server_simps
      sample_mapping_facts) (simp_all add: sample_server_def)

lemma official_streams: "ad_streamManager attached_adapter = Some sm \<Longrightarrow> GetStream sm sid = None"
  by (auto simp: attached_adapter_def SetDataChannelForStream_def official_adapter_def NewBinaryProtocolAdapter_def
      NewStreamManager_def GetStream_def split: if_splits)

lemma sample_relaying:
  "relaying 0 (new_relay (attach ''dev'' ''box'' ''s'' 8 sample_server) ''box'' ''s'' 9 3 attached_adapter None)
     (with_handlers attached_adapter) 8 relay_server"
proof -
  have "relaying (length (sv_relays (attach ''dev'' ''box'' ''s'' 8 sample_server)))
      (new_relay (attach ''dev'' ''box'' ''s'' 8 sample_server) ''box'' ''s'' 9 3 attached_adapter None)
      (with_handlers attached_adapter) 8 relay_server"
    unfolding relay_server_def
  proof (rule setup_relaying [OF attached_facts(1) _ attached_facts(2)])
    show "ids_below 3 attached_adapter (attach ''dev'' ''box'' ''s'' 8 sample_server)"
      by (simp add: ids_below_def attached_facts attached_adapter_def SetDataChannelForStream_def official_adapter_facts)
    show "unlimited (sv_limiter (attach ''dev'' ''box'' ''s'' 8 sample_server)) (tm_ClientId (sample_mapping\<lparr>tm_DataSockets := [''s'' \<mapsto> 8]\<rparr>))"
      by (simp add: attached_facts unlimited_def NewBandwidthLimiter_def global_bucket_def no_limits_def client_rate_def)
    show "\<forall>sm. ad_streamManager attached_adapter = Some sm \<longrightarrow> GetStream sm ''s'' = None" using official_streams by blast
  qed (simp_all add: attached_facts attached_adapter_def SetDataChannelForStream_def)
  then show ?thesis by (simp add: attached_facts)
qed

lemma hang_up_is_not_reported_witness:
  "\<exists>b. sv_adapters (relay_upload sample_srv_env 0 None relay_server) 3 = Some (BinaryA b) \<and> ad_dataChannels b ''s'' = Some 8"
  using hang_up_is_not_reported [OF sample_relaying, of sample_srv_env] by (auto simp: Let_def new_relay_def)

definition sample_relay_events :: "relay_event list" where
  "sample_relay_events = [FromUser [1, 2], FromClient 1 [3], FromUser [4]]"

lemma relay_is_transparent_witness:
  "\<exists>b. payload 8 ''s'' (ad_out b) = [1, 2, 4]
     \<and> sv_adapters (fold (relay_step sample_srv_env 0 sample_mapping) sample_relay_events relay_server) 3 = Some (BinaryA b)
     \<and> written 9 (sv_out (fold (relay_step sample_srv_env 0 sample_mapping) sample_relay_events relay_server)) = [3]"
proof -
  let ?x = "new_relay (attach ''dev'' ''box'' ''s'' 8 sample_server) ''box'' ''s'' 9 3 attached_adapter None"
  have x: "rl_adapter ?x = 3" "rl_streamID ?x = ''s''" "rl_conn ?x = 9" by (simp_all add: new_relay_def)
  have c: "container_adapter relay_server sample_mapping = Some (rl_adapter ?x)"
    using sample_relaying by (simp add: relaying_def container_adapter_def as_adapter_def x sample_mapping_def)
  have w: "\<forall>c bs out. se_conn_write sample_srv_env c bs out = None" "writes_ok (se_env sample_srv_env)"
    using calm_facts(2) by (simp_all add: sample_srv_env_def)
  have ok: "list_all relay_event_ok sample_relay_events" by (simp add: sample_relay_events_def)
  have empty: "ad_out (with_handlers attached_adapter) = []" "sv_out relay_server = []"
    by (simp_all add: attached_adapter_def SetDataChannelForStream_def official_adapter_def NewBinaryProtocolAdapter_def
        relay_server_def setup_effect [OF attached_facts(1)] attached_facts)
  have data: "from_user sample_relay_events = [1, 2, 4]" "from_client sample_relay_events = [3]"
    by (simp_all add: sample_relay_events_def from_user_def from_client_def)
  from relay_is_transparent [OF sample_relaying c w(2,1) ok]
  obtain b new out where run:
    "relaying 0 ?x b 8 (fold (relay_step sample_srv_env 0 sample_mapping) sample_relay_events relay_server)"
    "ad_out b = new" "sv_out (fold (relay_step sample_srv_env 0 sample_mapping) sample_relay_events relay_server) = out"
    "payload 8 ''s'' new = [1, 2, 4]" "written 9 out = [3]"
    unfolding Let_def x data empty append_Nil by blast
  then show ?thesis using x(1) by (auto simp: relaying_def)
qed

lemma relay_is_closed_once_witness:
  "\<exists>r. set (sv_relays (foldl relay_op_step relay_server [RUpload sample_srv_env 0 None, RClose 0 ''s''])) = {r} \<and> rl_closed r
     \<and> occurrences (ConnClosed (rl_conn r)) (sv_out (foldl relay_op_step relay_server [RUpload sample_srv_env 0 None, RClose 0 ''s''])) = 1"
proof -
  have one: "sv_relays relay_server = [new_relay (attach ''dev'' ''box'' ''s'' 8 sample_server) ''box'' ''s'' 9 3 attached_adapter None]"
    "sv_out relay_server = []"
    by (simp_all add: relay_server_def setup_effect [OF attached_facts(1)] attached_facts)
  then have "apart (sv_relays relay_server)" "\<forall>r \<in> set (sv_relays relay_server). relay_book relay_server r"
    by (simp_all add: apart_def relay_book_def new_relay_def)
  note books = this
  let ?s = "foldl relay_op_step relay_server [RUpload sample_srv_env 0 None, RClose 0 ''s'']"
  obtain r where r: "sv_relays ?s = [r]" "rl_closed r"
    using one by (simp add: relay_upload_def relay_close_def closeUserConn_def set_relay_def server_simps Let_def new_relay_def)
  with relay_is_closed_once [OF books, of "[RUpload sample_srv_env 0 None, RClose 0 ''s'']"]
  have "occurrences (ConnClosed (rl_conn r)) (sv_out ?s) = 1" unfolding Let_def by fastforce
  with r show ?thesis by auto
qed

lemma sample_open:
  "\<exists>s1. CreateServer sample_srv_env ''box'' ''h'' sample_server = (s1, Ok (Some 50))"
proof -
  have m: "get_container sample_server ''box'' = Some sample_mapping" using sample_serves by (simp add: serves_def)
  have p: "source_port sample_srv_env sample_mapping = Some 4000"
    by (simp add: source_port_def sample_mapping_facts getAvailablePort_def sample_srv_env_def)
  obtain s1 r where c: "CreateServer sample_srv_env ''box'' ''h'' sample_server = (s1, r)" by force
  from CreateServer_port [OF m sample_mapping_facts(3) p c] have "r = Ok (Some 50)"
    by (simp add: sample_server_def sample_srv_env_def)
  with c show ?thesis by simp
qed

lemma failed_accept_ends_the_tunnel_witness:
  "\<exists>s1 s2. CreateServer sample_srv_env ''box'' ''h'' sample_server = (s1, Ok (Some 50))
     \<and> runTCPAcceptLoop sample_srv_env AcceptError 50 ''h'' ''box'' sample_mapping s1 = (s2, Ended None)"
proof -
  obtain s1 where s1: "CreateServer sample_srv_env ''box'' ''h'' sample_server = (s1, Ok (Some 50))" using sample_open by blast
  have m: "get_container sample_server ''box'' = Some sample_mapping" using sample_serves by (simp add: serves_def)
  have p: "source_port sample_srv_env sample_mapping = Some 4000"
    by (simp add: source_port_def sample_mapping_facts getAvailablePort_def sample_srv_env_def)
  have w: "se_ws_write sample_srv_env (tm_WSSocket sample_mapping) (fatal_listen_error sample_srv_env) (sv_out s1)"
    by (simp add: sample_srv_env_def)
  from failed_accept_ends_the_tunnel [OF m sample_mapping_facts(3) p _ s1 w, of sample_mapping] s1 show ?thesis by auto
qed

definition legacy_message :: string where
  "legacy_message = TUNNEL_TCP_FLAG @ replicate 36 CHR ''c'' @ replicate 36 CHR ''r'' @ concat (replicate 32 ''01'')"

definition waiting_server :: Server where
  "waiting_server = on_container (\<lambda>_. RegisterRequest (replicate 36 CHR ''c'') (replicate 36 CHR ''r'') (Some 4)
     [replicate 36 CHR ''c'' \<mapsto> sample_mapping]) sample_server"

lemma legacy_join_needs_signature_witness:
  "\<exists>cid rid m. get_container waiting_server cid = Some m \<and> tm_Requests m rid = Some (Some 4)"
proof -
  obtain s' r where h: "processAuthentication sample_srv_env 5 (str_bytes legacy_message) waiting_server = (s', r)" by force
  have "sv_out (fst (processAuthentication sample_srv_env 5 (str_bytes legacy_message) waiting_server))
      = [ConnWrote 5 (str_bytes TUNNEL_TCP_OK_FLAG), Piped 4 5] \<and> sv_out waiting_server = []"
    by code_simp
  with legacy_join_needs_signature [OF h] h show ?thesis by auto
qed

end
