(* ===== verification/HttpMessage.thy ===== *)
theory HttpMessage
  imports ServerState
begin

text \<open>
  The HTTP side of \<^verbatim>\<open>internal/server/tunnel/http.go\<close>: requests as \<open>net/http\<close> hands them over, the
  text that is forwarded to the client, the answers the tunnel writes itself, the extraction of the subdomain
  from the host, the authorization header, and the conditions for streaming and for WebSocket upgrades.
\<close>

section \<open>Strings\<close>

definition crlf :: string where "crlf = [CHR 0x0D, CHR 0x0A]"

fun Contains :: "string \<Rightarrow> string \<Rightarrow> bool" where
  "Contains s sub = (HasPrefix s sub \<or> (case s of [] \<Rightarrow> False | c # cs \<Rightarrow> Contains cs sub))"

declare Contains.simps [simp del]

text \<open>\<open>strings.SplitN(s, sep, 2)\<close> for a separator of one character, when it occurs.\<close>

definition split_at_first :: "char \<Rightarrow> string \<Rightarrow> (string \<times> string) option" where
  "split_at_first c s = (if c \<in> set s then Some (takeWhile (\<lambda>x. x \<noteq> c) s, tl (dropWhile (\<lambda>x. x \<noteq> c) s)) else None)"

section \<open>Requests\<close>

text \<open>
  The fields of \<open>http.Request\<close> that are used. The header is the parsed map in some order, with canonical keys;
  \<open>Host\<close> and \<open>Transfer-Encoding\<close> are not in it (\<open>net/http\<close> moves them out). \<open>rq_Body\<close> is what reading
  the body gives: its bytes and whether an error follows them, or nil.
\<close>

record Request =
  rq_Method :: string
  rq_RequestURI :: string
  rq_Path :: string
  rq_Proto :: string
  rq_Host :: string
  rq_Header :: "(string \<times> string list) list"
  rq_ContentLength :: int
  rq_Close :: bool
  rq_Body :: "(byte list \<times> bool) option"

definition header_Values :: "Request \<Rightarrow> string \<Rightarrow> string list" where
  "header_Values r key = (case map_of (rq_Header r) key of None \<Rightarrow> [] | Some vs \<Rightarrow> vs)"

definition header_Get :: "Request \<Rightarrow> string \<Rightarrow> string" where
  "header_Get r key = (case header_Values r key of [] \<Rightarrow> '''' | v # vs \<Rightarrow> v)"

text \<open>\<open>Header.Write\<close>: sorted by key, line breaks in values replaced by blanks, values trimmed.\<close>

definition header_value :: "string \<Rightarrow> string" where
  "header_value v =
     (let blank = (\<lambda>c. c \<in> {CHR '' '', CHR 0x09, CHR 0x0A, CHR 0x0D});
          v = map (\<lambda>c. if c = CHR 0x0A \<or> c = CHR 0x0D then CHR '' '' else c) v
      in rev (dropWhile blank (rev (dropWhile blank v))))"

definition token_char :: "char \<Rightarrow> bool" where
  "token_char c \<longleftrightarrow> is_digit c \<or> c \<in> set ''!#$%&*+-.^_`|~'' \<or> c = CHR 0x27
     \<or> (let n = of_char c :: nat in (65 \<le> n \<and> n \<le> 90) \<or> (97 \<le> n \<and> n \<le> 122))"

definition header_lines :: "(string \<times> string list) list \<Rightarrow> string" where
  "header_lines h = concat (map (\<lambda>(k, vs). concat (map (\<lambda>v. k @ '': '' @ header_value v @ crlf) vs))
     (filter (\<lambda>(k, vs). k \<noteq> '''' \<and> list_all token_char k) (sort_key fst h)))"

text \<open>\<open>maxHTTPTunnelRequestBodyBytes\<close> and the read of a whole body under it.\<close>

definition maxHTTPTunnelRequestBodyBytes :: int where
  "maxHTTPTunnelRequestBodyBytes = 32 * 2 ^ 20"

datatype body_error = BodyTooLarge | BodyReadError

definition readTunnelRequestBody :: "(byte list \<times> bool) option \<Rightarrow> int \<Rightarrow> (body_error, byte list) outcome" where
  "readTunnelRequestBody body limit =
     (case body of
        None \<Rightarrow> Ok []
      | Some (bytes, failed) \<Rightarrow>
          if int (length bytes) > limit then Err BodyTooLarge
          else if failed then Err BodyReadError
          else Ok bytes)"

definition appendForwardedHTTPHeadersOnly :: "Request \<Rightarrow> string" where
  "appendForwardedHTTPHeadersOnly r =
     rq_Method r @ '' '' @ rq_RequestURI r @ '' '' @ rq_Proto r @ crlf
     @ (if rq_Host r \<noteq> '''' then ''Host: '' @ rq_Host r @ crlf else '''')
     @ header_lines (rq_Header r) @ crlf"

definition appendForwardedHTTPRequest :: "Request \<Rightarrow> byte list \<Rightarrow> byte list" where
  "appendForwardedHTTPRequest r body = str_bytes (appendForwardedHTTPHeadersOnly r) @ body"

section \<open>Upgrades and streaming\<close>

definition isWebSocketUpgradeRequest :: "Request \<Rightarrow> bool" where
  "isWebSocketUpgradeRequest r \<longleftrightarrow>
     EqualFold (TrimSpace (header_Get r ''Upgrade'')) ''websocket''
     \<and> list_ex (\<lambda>v. Contains (ToLower v) ''upgrade'') (header_Values r ''Connection'')"

definition is101SwitchingProtocols :: "byte list \<Rightarrow> bool" where
  "is101SwitchingProtocols raw =
     (let s = ToLower (TrimSpace (takeWhile (\<lambda>c. c \<noteq> CHR 0x0A) (bytes_str raw)))
      in HasPrefix s ''http/1.1 101'' \<or> HasPrefix s ''http/1.0 101'')"

definition canSemanticStreamRequestBody :: "Request \<Rightarrow> bool" where
  "canSemanticStreamRequestBody r \<longleftrightarrow>
     \<not> Contains (ToLower (header_Get r ''Transfer-Encoding'')) ''chunked'' \<and> rq_ContentLength r \<ge> 0"

text \<open>The adapter of a mapping, if it has one of the new protocol.\<close>

definition modern_adapter :: "Server \<Rightarrow> DomainMapping option \<Rightarrow> session_adapter option" where
  "modern_adapter s dm =
     (case dm of
        Some m \<Rightarrow> if dm_UseNewProtocol m then (case dm_Adapter m of Some r \<Rightarrow> sv_adapters s r | None \<Rightarrow> None) else None
      | None \<Rightarrow> None)"

definition canRelayWebSocket :: "Server \<Rightarrow> DomainMapping option \<Rightarrow> bool" where
  "canRelayWebSocket s dm =
     (case (modern_adapter s dm, dm) of
        (Some a, Some m) \<Rightarrow> TrimSpace (dm_ContainerID m) \<noteq> '''' \<and> pa_NegotiatedFlags a AND CapabilityFlagTCPOverWS \<noteq> 0
      | _ \<Rightarrow> False)"

definition bodyStreamNegotiated :: "Server \<Rightarrow> DomainMapping option \<Rightarrow> bool" where
  "bodyStreamNegotiated s dm =
     (case modern_adapter s dm of
        Some a \<Rightarrow> pa_NegotiatedFlags a AND CapabilityFlagHTTPBodyStream \<noteq> 0
      | None \<Rightarrow> False)"

section \<open>Authorization\<close>

definition hasConfiguredHTTPAuths :: "DomainMapping option \<Rightarrow> bool" where
  "hasConfiguredHTTPAuths dm = (case dm of Some m \<Rightarrow> dm_HTTPAuths m \<noteq> [] | None \<Rightarrow> False)"

definition matchesAuthorizationHeader :: "string \<Rightarrow> HTTPTunnelAuth \<Rightarrow> bool" where
  "matchesAuthorizationHeader authHeader auth =
     (case split_at_first CHR '' '' (TrimSpace authHeader) of
        None \<Rightarrow> False
      | Some (p, q) \<Rightarrow>
          let scheme = ToLower (TrimSpace p); val = TrimSpace q; kind = ToLower (TrimSpace (ha_Type auth)) in
          if kind = ''basic'' then
            ha_Username auth \<noteq> '''' \<and> scheme = ''basic''
            \<and> val = base64Encode (str_bytes (ha_Username auth @ '':'' @ ha_Password auth))
          else if kind = ''bearer'' then
            scheme = ''bearer'' \<and> TrimSpace (ha_Token auth) \<noteq> '''' \<and> val = TrimSpace (ha_Token auth)
          else False)"

definition isHTTPRequestAuthorized :: "Request \<Rightarrow> HTTPTunnelAuth list \<Rightarrow> bool" where
  "isHTTPRequestAuthorized r auths \<longleftrightarrow>
     auths = [] \<or> (TrimSpace (header_Get r ''Authorization'') \<noteq> ''''
       \<and> list_ex (matchesAuthorizationHeader (header_Get r ''Authorization'')) auths)"

section \<open>The host\<close>

text \<open>
  The leftmost match of the regular expression \<open>([^.]+)\.domain\<close>, with the domain quoted: the first
  non-empty label that is followed by a dot and the domain, wherever the domain ends.
\<close>

function find_subdomain :: "string \<Rightarrow> string \<Rightarrow> string option" where
  "find_subdomain domain host =
     (let label = takeWhile (\<lambda>c. c \<noteq> CHR ''.'') host; rest = dropWhile (\<lambda>c. c \<noteq> CHR ''.'') host in
      if label \<noteq> '''' \<and> HasPrefix rest (''.'' @ domain) then Some label
      else if rest = '''' then None else find_subdomain domain (tl rest))"
  by pat_completeness auto
termination
proof (relation "measure (\<lambda>(domain, host). length host)", goal_cases)
  case (2 domain host label rest)
  then have "rest \<noteq> ''''" "length rest \<le> length host" by (simp_all add: length_dropWhile_le)
  then show ?case by (cases rest) auto
qed simp

declare find_subdomain.simps [simp del]

definition host_of :: "Request \<Rightarrow> string" where
  "host_of r = (case SplitHostPort (rq_Host r) of Some (h, p) \<Rightarrow> h | None \<Rightarrow> rq_Host r)"

definition subDomainFromRequest :: "string \<Rightarrow> Request \<Rightarrow> string" where
  "subDomainFromRequest domain r = (case find_subdomain domain (host_of r) of Some sub \<Rightarrow> sub | None \<Rightarrow> '''')"

section \<open>Answers of the tunnel\<close>

definition http_text :: "string list \<Rightarrow> byte list" where
  "http_text lines = str_bytes (Join lines crlf)"

definition not_found_response :: "string \<Rightarrow> byte list" where
  "not_found_response date = http_text
     [''HTTP/1.1 404 Not Found'', ''Content-Type: text/plain; charset=utf-8'', ''Content-Length: 9'',
      ''Date: '' @ date, ''Connection: close'', '''', ''Not Found'']"

definition destroyConnection :: "SrvEnv \<Rightarrow> nat \<Rightarrow> Server \<Rightarrow> Server" where
  "destroyConnection env conn s = close_conn conn (fst (write_conn env conn (not_found_response (se_date env)) s))"

definition writeRequestEntityTooLarge :: "SrvEnv \<Rightarrow> nat \<Rightarrow> Server \<Rightarrow> Server" where
  "writeRequestEntityTooLarge env conn s =
     close_conn conn (fst (write_conn env conn (http_text
       [''HTTP/1.1 413 Request Entity Too Large'', ''Content-Type: text/plain; charset=utf-8'',
        ''Content-Length: '' @ int_text (int (length ''Request Entity Too Large'')), ''Date: '' @ se_date env,
        ''Connection: close'', '''', ''Request Entity Too Large'']) s))"

definition unauthorized_response :: "string \<Rightarrow> HTTPTunnelAuth list \<Rightarrow> byte list" where
  "unauthorized_response date auths =
     (let kinds = map (\<lambda>a. ToLower (TrimSpace (ha_Type a))) auths in
      http_text ([''HTTP/1.1 401 Unauthorized'', ''Content-Type: text/plain; charset=utf-8'',
          ''Content-Length: '' @ int_text (int (length ''Unauthorized'')), ''Date: '' @ date, ''Connection: keep-alive'']
        @ (if ''basic'' \<in> set kinds
           then [''WWW-Authenticate: Basic realm='' @ [CHR 0x22] @ ''inlets'' @ [CHR 0x22]] else [])
        @ (if ''bearer'' \<in> set kinds then [''WWW-Authenticate: Bearer''] else [])
        @ ['''', ''Unauthorized'']))"

definition writeUnauthorized :: "SrvEnv \<Rightarrow> nat \<Rightarrow> HTTPTunnelAuth list \<Rightarrow> Server \<Rightarrow> Server" where
  "writeUnauthorized env conn auths s = fst (write_conn env conn (unauthorized_response (se_date env) auths) s)"

definition buildGatewayTimeoutResponse :: "string \<Rightarrow> string" where
  "buildGatewayTimeoutResponse date = Join
     [''HTTP/1.1 504 Gateway Timeout'', ''Content-Type: text/plain; charset=utf-8'', ''Content-Length: 15'',
      ''Date: '' @ date, ''Connection: close'', '''', ''Gateway Timeout''] crlf"

definition bad_gateway :: "string \<Rightarrow> string \<Rightarrow> byte list" where
  "bad_gateway len msg = http_text
     [''HTTP/1.1 502 Bad Gateway'', ''Content-Type: text/plain; charset=utf-8'', ''Content-Length: '' @ len,
      ''Connection: close'', '''', msg]"

end
