(* ===== verification/HttpTunnel.thy ===== *)
theory HttpTunnel
  imports HttpMessage DataChannel "HOL-Library.AList"
begin

text \<open>
  \<^verbatim>\<open>internal/server/tunnel/http.go\<close>, the type \<open>HTTPTunnel\<close>: requests of browsers are sent to the client
  that owns the subdomain, answers come back through callbacks or, frame by frame, through stream
  sessions. A request's callback is a closure; the closures made so far are the list \<open>ht_pending\<close>, their
  captured variables, and a callback is its position there. A request's timer has the same number.
\<close>

section \<open>State\<close>

record StreamSession =
  ss_conn :: nat
  ss_clientID :: string
  ss_subDomain :: string
  ss_timer :: "nat option"

record socketConfig =
  sc_tcpID :: string
  sc_domain :: string
  sc_subDomain :: string
  sc_isWS :: bool
  sc_clientID :: string

record Pending =
  pd_conn :: nat
  pd_clientID :: string
  pd_tcpID :: string
  pd_requestID :: string
  pd_streamed :: bool       \<comment> \<open>made by \<open>processRequestStream\<close>\<close>
  pd_wsUpgrade :: bool
  pd_containerID :: string
  pd_finish :: "nat option"  \<comment> \<open>\<open>blockUntilDone\<close>\<close>

record HTTPTunnel =
  ht_domain :: string
  ht_wsPath :: string
  ht_requestCount :: int
  ht_streamResp :: "(string \<times> StreamSession) list"
  ht_pending :: "Pending list"
  ht_timers :: "nat \<Rightarrow> bool"
  ht_server :: Server

definition CreateHTTPTunnel :: "Server \<Rightarrow> string \<Rightarrow> string \<Rightarrow> HTTPTunnel" where
  "CreateHTTPTunnel s wsPath domain =
     \<lparr>ht_domain = TrimSpace domain, ht_wsPath = wsPath, ht_requestCount = 0, ht_streamResp = [],
      ht_pending = [], ht_timers = (\<lambda>_. False), ht_server = s\<rparr>"

text \<open>How a request ends for its goroutine: it returns, returns an error, or the send never comes back.\<close>

datatype http_error =
    NoSubdomain | NoMapping | NoWebSocket | UploadLimit | SendError | NeedsNewProtocol | UnexpectedEOF | BodyError

datatype proc_result = Returned | Failed http_error | NoReturn result

definition on_server :: "(Server \<Rightarrow> Server) \<Rightarrow> HTTPTunnel \<Rightarrow> HTTPTunnel" where
  "on_server f t = t\<lparr>ht_server := f (ht_server t)\<rparr>"

definition stop_timer :: "nat \<Rightarrow> HTTPTunnel \<Rightarrow> HTTPTunnel" where
  "stop_timer n t = t\<lparr>ht_timers := (ht_timers t)(n := False)\<rparr>"

definition mapping_of :: "HTTPTunnel \<Rightarrow> string \<Rightarrow> DomainMapping option" where
  "mapping_of t sub = domain_Get (cx_DomainMappings (sv_ctx (ht_server t))) sub"

definition on_callbacks :: "(callbacks \<Rightarrow> callbacks) \<Rightarrow> Server \<Rightarrow> Server" where
  "on_callbacks f = on_ctx (\<lambda>cx. cx\<lparr>cx_Callbacks := f (cx_Callbacks cx)\<rparr>)"

definition take_pending :: "string \<Rightarrow> string \<Rightarrow> HTTPTunnel \<Rightarrow> HTTPTunnel \<times> nat option" where
  "take_pending tcpID requestID t =
     (case callback_Take tcpID requestID (cx_Callbacks (sv_ctx (ht_server t))) of
        (cbs, cb) \<Rightarrow> (on_server (on_callbacks (\<lambda>_. cbs)) t, cb))"

definition stream_key :: "string \<Rightarrow> string \<Rightarrow> string" where
  "stream_key tcpID requestID = tcpID @ '':'' @ requestID"

definition delete_session :: "string \<Rightarrow> HTTPTunnel \<Rightarrow> HTTPTunnel" where
  "delete_session key t = t\<lparr>ht_streamResp := AList.delete key (ht_streamResp t)\<rparr>"

definition put_session :: "string \<Rightarrow> StreamSession \<Rightarrow> HTTPTunnel \<Rightarrow> HTTPTunnel" where
  "put_session key sess t = t\<lparr>ht_streamResp := AList.update key sess (ht_streamResp t)\<rparr>"

text \<open>\<open>finish\<close>: the goroutine that waits for the request goes on at the first call.\<close>

definition call_finish :: "nat option \<Rightarrow> HTTPTunnel \<Rightarrow> HTTPTunnel" where
  "call_finish fin t = (case fin of None \<Rightarrow> t | Some p \<Rightarrow> on_server (sv_emit [HandlerDone p]) t)"

section \<open>Sockets and subdomains\<close>

definition initSocketConfig :: "HTTPTunnel \<Rightarrow> Request \<Rightarrow> socketConfig \<Rightarrow> socketConfig" where
  "initSocketConfig t r sc =
     (if sc_domain sc \<noteq> '''' then sc
      else
        let sc = sc\<lparr>sc_domain := host_of r\<rparr> in
        if rq_Path r = ht_wsPath t then sc\<lparr>sc_isWS := True\<rparr>
        else if sc_domain sc \<noteq> '''' then
          (case find_subdomain (ht_domain t) (sc_domain sc) of Some sub \<Rightarrow> sc\<lparr>sc_subDomain := sub\<rparr> | None \<Rightarrow> sc)
        else sc)"

definition shouldStreamHTTPRequest :: "HTTPTunnel \<Rightarrow> socketConfig \<Rightarrow> Request \<Rightarrow> bool" where
  "shouldStreamHTTPRequest t sc r \<longleftrightarrow>
     \<not> isWebSocketUpgradeRequest r \<and> sc_subDomain sc \<noteq> ''''
     \<and> \<not> hasConfiguredHTTPAuths (mapping_of t (sc_subDomain sc))
     \<and> bodyStreamNegotiated (ht_server t) (mapping_of t (sc_subDomain sc)) \<and> canSemanticStreamRequestBody r"

section \<open>Answers\<close>

definition finishStreamResponseSession :: "string \<Rightarrow> string \<Rightarrow> HTTPTunnel \<Rightarrow> HTTPTunnel" where
  "finishStreamResponseSession tcpID requestID t =
     fst (take_pending tcpID requestID (delete_session (stream_key tcpID requestID) t))"

text \<open>A frame of a streamed answer; the flag tells whether it was consumed.\<close>

definition dispatchSemanticClientResponse ::
    "SrvEnv \<Rightarrow> string \<Rightarrow> string \<Rightarrow> byte \<Rightarrow> byte list \<Rightarrow> bool \<Rightarrow> HTTPTunnel \<Rightarrow> HTTPTunnel \<times> bool" where
  "dispatchSemanticClientResponse env tcpID requestID msgType payload fin t =
     (let key = stream_key tcpID requestID in
      case map_of (ht_streamResp t) key of
        None \<Rightarrow> (t, False)
      | Some sess \<Rightarrow>
          let t = (case ss_timer sess of None \<Rightarrow> t | Some n \<Rightarrow> stop_timer n t);
              t = put_session key (sess\<lparr>ss_timer := None\<rparr>) t;
              n = int (length payload);
              give_up = (\<lambda>s. finishStreamResponseSession tcpID requestID
                 (t\<lparr>ht_server := destroyConnection env (ss_conn sess) s\<rparr>))
          in case check_down (se_clock env) (ss_clientID sess) n (ht_server t) of
               (s, False) \<Rightarrow> (give_up s, True)
             | (s, True) \<Rightarrow>
                 (case write_conn env (ss_conn sess) payload (on_stats (AddDownloadBytes (se_now env) (ss_clientID sess) (of_int n)) s) of
                    (s, False) \<Rightarrow> (give_up s, True)
                  | (s, True) \<Rightarrow>
                      (if (msgType = MessageTypeHTTPResponseHead \<or> msgType = MessageTypeHTTPResponseBody) \<and> fin
                       then finishStreamResponseSession tcpID requestID (t\<lparr>ht_server := s\<rparr>) else t\<lparr>ht_server := s\<rparr>, True)))"

text \<open>
  The hand-over to a relay after \<open>101 Switching Protocols\<close>. \<open>script\<close> is what happens during the wait
  for the data channel.
\<close>

definition websocket_relay ::
    "SrvEnv \<Rightarrow> wait_event list \<Rightarrow> Pending \<Rightarrow> byte list \<Rightarrow> Server \<Rightarrow> Server" where
  "websocket_relay env script p responseBytes s =
     (let streamID = pd_containerID p @ '':'' @ pd_requestID p; conn = pd_conn p;
          finish = (\<lambda>s. case pd_finish p of None \<Rightarrow> s | Some f \<Rightarrow> sv_emit [HandlerDone f] s);
          refuse = (\<lambda>len msg s. finish (destroyConnection env conn (fst (write_conn env conn (bad_gateway len msg) s))))
      in case get_container s (pd_containerID p) of
           None \<Rightarrow> refuse ''21'' ''data plane unavailable'' s
         | Some container \<Rightarrow>
             (case container_adapter s container of
                None \<Rightarrow> refuse ''21'' ''data plane unavailable'' s
              | Some wadapter \<Rightarrow>
                  (case ensureDataChannelForStream env script (pd_containerID p) streamID (pd_requestID p) container s of
                     (s, False) \<Rightarrow> refuse ''28'' ''data channel not ready in time'' s
                   | (s, True) \<Rightarrow>
                       (case write_conn env conn responseBytes s of
                          (s, False) \<Rightarrow> finish (destroyConnection env conn s)
                        | (s, True) \<Rightarrow>
                            setupTCPStreamOverWebSocket env (pd_containerID p) streamID conn wadapter (pd_finish p) s))))"

text \<open>The closures \<open>wrappedCallback\<close> of the two functions, called with the answer of the client.\<close>

definition response_bytes :: "string \<Rightarrow> byte list" where
  "response_bytes responseData = (case base64Decode responseData of Some bs \<Rightarrow> bs | None \<Rightarrow> str_bytes responseData)"

definition wrappedCallback ::
    "SrvEnv \<Rightarrow> wait_event list \<Rightarrow> nat \<Rightarrow> string \<Rightarrow> HTTPTunnel \<Rightarrow> HTTPTunnel" where
  "wrappedCallback env script n responseData t =
     (let p = ht_pending t ! n; t = stop_timer n t; responseBytes = response_bytes responseData;
          len = int (length responseBytes);
          done = (\<lambda>t. if pd_wsUpgrade p then call_finish (pd_finish p) t else t)
      in case check_down (se_clock env) (pd_clientID p) len (ht_server t) of
           (s, False) \<Rightarrow> done (t\<lparr>ht_server := destroyConnection env (pd_conn p) s\<rparr>)
         | (s, True) \<Rightarrow>
             let s = on_stats (AddDownloadBytes (se_now env) (pd_clientID p) (of_int len)) s in
             if pd_wsUpgrade p \<and> is101SwitchingProtocols responseBytes
             then t\<lparr>ht_server := websocket_relay env script p responseBytes s\<rparr>
             else
               (case write_conn env (pd_conn p) responseBytes s of
                  (s, False) \<Rightarrow> done (t\<lparr>ht_server := destroyConnection env (pd_conn p) s\<rparr>)
                | (s, True) \<Rightarrow> done (t\<lparr>ht_server := s\<rparr>)))"

text \<open>The timer of request \<open>n\<close> fires, unless it has been stopped.\<close>

definition request_timeout :: "SrvEnv \<Rightarrow> nat \<Rightarrow> HTTPTunnel \<Rightarrow> HTTPTunnel" where
  "request_timeout env n t =
     (if \<not> ht_timers t n \<or> n \<ge> length (ht_pending t) then t
      else
        let p = ht_pending t ! n; t = stop_timer n t;
            t = (if pd_streamed p then delete_session (stream_key (pd_tcpID p) (pd_requestID p)) t else t)
        in case take_pending (pd_tcpID p) (pd_requestID p) t of
             (t, cb) \<Rightarrow>
               let t = (case cb of None \<Rightarrow> t | Some c \<Rightarrow> wrappedCallback env [] c (buildGatewayTimeoutResponse (se_date env)) t)
               in if pd_wsUpgrade p then call_finish (pd_finish p) t else t)"

section \<open>Requests\<close>

text \<open>The id of a request: a new UUID and the time in milliseconds.\<close>

definition request_id :: "SrvEnv \<Rightarrow> string \<Rightarrow> string" where
  "request_id env uuid = uuid @ ''@'' @ int_text (se_now env)"

text \<open>
  The part both functions share: a subdomain, a mapping, authorization, a connected client, the limit.
  The result is the mapping the request goes to, or how it has ended. \<open>skip_body\<close> is what is read of an unauthorized
  request's body, which has no effect here.
\<close>

definition admit ::
    "SrvEnv \<Rightarrow> nat \<Rightarrow> Request \<Rightarrow> int \<Rightarrow> socketConfig \<Rightarrow> HTTPTunnel
       \<Rightarrow> HTTPTunnel \<times> socketConfig \<times> (proc_result, DomainMapping) outcome" where
  "admit env conn r requestBytes sc t =
     (let drop_it = (\<lambda>e. (on_server (destroyConnection env conn) t, sc, Err (Failed e))) in
      if sc_subDomain sc = '''' then drop_it NoSubdomain
      else case mapping_of t (sc_subDomain sc) of
        None \<Rightarrow> drop_it NoMapping
      | Some dm \<Rightarrow>
          if \<not> isHTTPRequestAuthorized r (dm_HTTPAuths dm)
          then (on_server (writeUnauthorized env conn (dm_HTTPAuths dm)) t, sc, Err Returned)
          else
            let t = on_server (on_ctx (\<lambda>cx. cx\<lparr>cx_DomainMappings := BindTCP (sc_subDomain sc) (Some conn) (cx_DomainMappings cx)\<rparr>)) t
            in if dm_WSSocket dm = None then (on_server (destroyConnection env conn) t, sc, Err (Failed NoWebSocket))
               else
                 let sc = sc\<lparr>sc_clientID := dm_ClientID dm\<rparr> in
                 (case check_up (se_clock env) (dm_ClientID dm) requestBytes (ht_server t) of
                    (s, False) \<Rightarrow> (t\<lparr>ht_server := destroyConnection env conn s\<rparr>, sc, Err (Failed UploadLimit))
                  | (s, True) \<Rightarrow>
                      (t\<lparr>ht_server := on_stats (AddUploadBytes (se_now env) (dm_ClientID dm) (of_int requestBytes))
                           (on_stats (AddRequest (se_now env) (dm_ClientID dm)) s)\<rparr>, sc, Ok dm)))"

text \<open>The callback is stored, and its timer started.\<close>

definition register ::
    "nat \<Rightarrow> string \<Rightarrow> bool \<Rightarrow> bool \<Rightarrow> nat option \<Rightarrow> socketConfig \<Rightarrow> DomainMapping \<Rightarrow> HTTPTunnel \<Rightarrow> nat \<times> HTTPTunnel" where
  "register conn requestID streamed wsUpgrade fin sc dm t =
     (let n = length (ht_pending t);
          p = \<lparr>pd_conn = conn, pd_clientID = dm_ClientID dm, pd_tcpID = sc_tcpID sc, pd_requestID = requestID,
            pd_streamed = streamed, pd_wsUpgrade = wsUpgrade, pd_containerID = dm_ContainerID dm, pd_finish = fin\<rparr>
      in (n, on_server (on_callbacks (callback_Set (sc_tcpID sc) requestID n))
               (t\<lparr>ht_pending := ht_pending t @ [p], ht_timers := (ht_timers t)(n := True)\<rparr>)))"

definition mapping_adapter :: "Server \<Rightarrow> DomainMapping \<Rightarrow> nat option" where
  "mapping_adapter s dm = as_adapter s (dm_Adapter dm)"

text \<open>\<open>sendErr\<close> of the two functions.\<close>

definition send_failed :: "SrvEnv \<Rightarrow> nat \<Rightarrow> HTTPTunnel \<Rightarrow> HTTPTunnel" where
  "send_failed env n t =
     (let p = ht_pending t ! n; t = stop_timer n t;
          t = (if pd_streamed p then delete_session (stream_key (pd_tcpID p) (pd_requestID p)) t else t);
          t = fst (take_pending (pd_tcpID p) (pd_requestID p) t);
          t = on_server (destroyConnection env (pd_conn p)) t
      in call_finish (pd_finish p) t)"

definition send_via_tunnel ::
    "nat \<Rightarrow> (session_adapter \<Rightarrow> session_adapter \<times> send_result) \<Rightarrow> HTTPTunnel \<Rightarrow> HTTPTunnel \<times> send_result" where
  "send_via_tunnel r send t = (case send_via r send (ht_server t) of (s, res) \<Rightarrow> (t\<lparr>ht_server := s\<rparr>, res))"

text \<open>The request goes out through the mapping's adapter or, without one, as a legacy message.\<close>

definition send_request ::
    "SrvEnv \<Rightarrow> DomainMapping \<Rightarrow> string \<Rightarrow> byte list \<Rightarrow> HTTPTunnel \<Rightarrow> HTTPTunnel \<times> send_result" where
  "send_request env dm sid data t =
     (case mapping_adapter (ht_server t) dm of
        Some a \<Rightarrow> send_via_tunnel a (pa_SendHTTPRequest (se_env env) sid data) t
      | None \<Rightarrow>
          (case ws_write env (the (dm_WSSocket dm)) (monitor_message ''request'' (id_data sid (bytes_str data)))
                  (ht_server t) of
             (s, ok) \<Rightarrow> (t\<lparr>ht_server := s\<rparr>, if ok then Sent else NotSent)))"

definition processRequest ::
    "SrvEnv \<Rightarrow> nat \<Rightarrow> string \<Rightarrow> nat option \<Rightarrow> byte list \<Rightarrow> Request \<Rightarrow> socketConfig \<Rightarrow> HTTPTunnel
       \<Rightarrow> HTTPTunnel \<times> socketConfig \<times> proc_result" where
  "processRequest env conn uuid fin data r sc t =
     (let t = t\<lparr>ht_requestCount := ht_requestCount t + 1\<rparr> in
      if sc_isWS sc then (call_finish fin t, sc, Returned)
      else
        let sc = initSocketConfig t r sc in
        if sc_isWS sc then (call_finish fin t, sc, Returned)
        else
          case admit env conn r (int (length data)) sc t of
            (t, sc, Err e) \<Rightarrow> (call_finish fin t, sc, e)
          | (t, sc, Panic) \<Rightarrow> (t, sc, NoReturn Crash)
          | (t, sc, Ok dm) \<Rightarrow>
              let requestID = request_id env uuid; sid = sc_tcpID sc @ '':'' @ requestID;
                  wsUpgrade = (isWebSocketUpgradeRequest r \<and> canRelayWebSocket (ht_server t) (Some dm))
              in case register conn requestID False wsUpgrade fin sc dm t of
                   (n, t) \<Rightarrow>
                     (case send_request env dm sid data t of
                        (t, Sent) \<Rightarrow> (t, sc, Returned)
                      | (t, NotSent) \<Rightarrow> (send_failed env n t, sc, Failed SendError)
                      | (t, Stuck e) \<Rightarrow> (t, sc, NoReturn e)))"

text \<open>
  The body of a streamed request, read in pieces of at most 32 KiB. \<open>reads\<close> is what the reads would
  give, each with an error or not; a longer piece is taken in several reads, and the end of the list is the end of the input.
\<close>

datatype read_error = EOF | OtherError

function send_body ::
    "Env \<Rightarrow> nat \<Rightarrow> string \<Rightarrow> nat \<Rightarrow> (byte list \<times> read_error option) list \<Rightarrow> HTTPTunnel \<Rightarrow> HTTPTunnel \<times> proc_result" where
  "send_body env a sid remaining reads t =
     (if remaining = 0 then (t, Returned)
      else case reads of
        [] \<Rightarrow> (t, Failed UnexpectedEOF)
      | (bytes, e) # rest \<Rightarrow>
          let toRead = min (32 * 1024) remaining; piece = take toRead bytes;
              (e, rest) = (if length bytes > toRead then (None, (drop toRead bytes, e) # rest) else (e, rest));
              remaining = remaining - length piece
          in case (if piece = [] then (t, Sent)
                   else send_via_tunnel a (pa_SendHTTPRequestBody env sid piece (remaining = 0)) t) of
               (t, NotSent) \<Rightarrow> (t, Failed SendError)
             | (t, Stuck x) \<Rightarrow> (t, NoReturn x)
             | (t, Sent) \<Rightarrow>
                 (case e of
                    None \<Rightarrow> send_body env a sid remaining rest t
                  | Some EOF \<Rightarrow> if remaining > 0 then (t, Failed UnexpectedEOF) else (t, Returned)
                  | Some OtherError \<Rightarrow> (t, Failed BodyError)))"
  by pat_completeness auto
termination
  by (relation "measure (\<lambda>(env, a, sid, remaining, reads, t). remaining + length reads)")
    (auto split: if_splits)

declare send_body.simps [simp del]

definition send_streamed ::
    "SrvEnv \<Rightarrow> DomainMapping \<Rightarrow> string \<Rightarrow> string \<Rightarrow> int \<Rightarrow> (byte list \<times> read_error option) list \<Rightarrow> HTTPTunnel
       \<Rightarrow> HTTPTunnel \<times> proc_result" where
  "send_streamed env dm sid head contentLength reads t =
     (case (if dm_UseNewProtocol dm then mapping_adapter (ht_server t) dm else None) of
        None \<Rightarrow> (t, Failed NeedsNewProtocol)
      | Some a \<Rightarrow>
          (case send_via_tunnel a (pa_SendHTTPRequestHead (se_env env) sid (str_bytes head) (contentLength = 0)) t of
             (t, NotSent) \<Rightarrow> (t, Failed SendError)
           | (t, Stuck x) \<Rightarrow> (t, NoReturn x)
           | (t, Sent) \<Rightarrow> send_body (se_env env) a sid (nat contentLength) reads t))"

text \<open>
  \<open>processRequestStream\<close>; \<open>head\<close> is the text up to the blank line. A negative length counts as the head
  alone and has no body.
\<close>

definition processRequestStream ::
    "SrvEnv \<Rightarrow> nat \<Rightarrow> string \<Rightarrow> string \<Rightarrow> Request \<Rightarrow> int \<Rightarrow> (byte list \<times> read_error option) list \<Rightarrow> socketConfig \<Rightarrow> HTTPTunnel
       \<Rightarrow> HTTPTunnel \<times> socketConfig \<times> proc_result" where
  "processRequestStream env conn uuid head r contentLength reads sc t =
     (let t = t\<lparr>ht_requestCount := ht_requestCount t + 1\<rparr>;
          requestBytes = int (length head) + (if contentLength < 0 then 0 else contentLength) in
      if sc_isWS sc then (t, sc, Returned)
      else
        case admit env conn r requestBytes sc t of
          (t, sc, Err e) \<Rightarrow> (t, sc, e)
        | (t, sc, Panic) \<Rightarrow> (t, sc, NoReturn Crash)
        | (t, sc, Ok dm) \<Rightarrow>
            let requestID = request_id env uuid; sid = sc_tcpID sc @ '':'' @ requestID
            in case register conn requestID True False None sc dm t of
                 (n, t) \<Rightarrow>
                   let t = put_session (stream_key (sc_tcpID sc) requestID)
                     \<lparr>ss_conn = conn, ss_clientID = dm_ClientID dm, ss_subDomain = sc_subDomain sc, ss_timer = Some n\<rparr> t
                   in (case send_streamed env dm sid head contentLength reads t of
                        (t, Failed e) \<Rightarrow> (send_failed env n t, sc, Failed e)
                      | (t, res) \<Rightarrow> (t, sc, res)))"

end
