(* ===== verification/HttpServe.thy ===== *)
theory HttpServe
  imports HttpTunnel
begin

text \<open>
  \<^verbatim>\<open>internal/server/tunnel/http.go\<close>, the life of a browser's connection: the handler that \<open>Attach\<close>
  registers takes the connection over with its first request, \<open>handleConnection\<close> serves it and the requests
  that follow on the same connection, and cleans up. A connection is a process \<open>HttpConn\<close>
  with the phase it is in; other goroutines run between its steps.
\<close>

section \<open>The handler\<close>

text \<open>What is done with the first request: an HTTP answer, nothing, or the connection is served.\<close>

datatype first_request = HeadAndStream string int | Whole "byte list"

datatype handler_result = HttpError int string | HijackFailed | Hijacked first_request

definition upgrade_unavailable :: string where
  "upgrade_unavailable = ''WebSocket (HTTP upgrade) is not available for this HTTP tunnel. Requires a new-protocol client and TCP-over-WebSocket; otherwise use a TCP tunnel to the same port, or direct ws to upstream.''"

text \<open>\<open>hijacker\<close>: the writer can be taken over; \<open>hijack_ok\<close>: it was; \<open>body_error\<close>: the text of a failed read.\<close>

definition http_handler :: "bool \<Rightarrow> bool \<Rightarrow> string \<Rightarrow> Request \<Rightarrow> HTTPTunnel \<Rightarrow> handler_result" where
  "http_handler hijacker hijack_ok body_error r t =
     (if rq_Path r = ht_wsPath t then HttpError 404 ''404 page not found''
      else if \<not> hijacker then HttpError 505 ''HTTP/1.1 required''
      else
        let s = ht_server t; sub = subDomainFromRequest (ht_domain t) r; dm = mapping_of t sub;
            serve = (\<lambda>first. if hijack_ok then Hijacked first else HijackFailed)
        in if sub \<noteq> '''' \<and> isWebSocketUpgradeRequest r \<and> \<not> canRelayWebSocket s dm then HttpError 501 upgrade_unavailable
           else if dm \<noteq> None \<and> \<not> hasConfiguredHTTPAuths dm \<and> bodyStreamNegotiated s dm
             \<and> canSemanticStreamRequestBody r \<and> \<not> isWebSocketUpgradeRequest r
           then serve (HeadAndStream (appendForwardedHTTPHeadersOnly r) (rq_ContentLength r))
           else (case readTunnelRequestBody (rq_Body r) maxHTTPTunnelRequestBodyBytes of
               Ok body \<Rightarrow> serve (Whole (appendForwardedHTTPRequest r body))
             | Err BodyTooLarge \<Rightarrow> HttpError 413 ''Request Entity Too Large''
             | _ \<Rightarrow> HttpError 400 body_error))"

section \<open>A connection\<close>

text \<open>
  \<open>Reading\<close>: about to read the next request; \<open>Waiting\<close>: at \<open><-u\<close>, until \<open>HandlerDone\<close> of this connection;
  \<open>Hanging\<close>: a send has not come back; \<open>Gone\<close>: returned, after the deferred cleanup.
\<close>

datatype phase = Reading | Waiting | Hanging result | Gone

record HttpConn =
  hc_conn :: nat
  hc_config :: socketConfig
  hc_phase :: phase

definition cleanup :: "nat \<Rightarrow> string \<Rightarrow> HTTPTunnel \<Rightarrow> HTTPTunnel" where
  "cleanup conn tcpID t =
     (let mine = (\<lambda>(k, sess). HasPrefix k (tcpID @ '':''));
          t = on_server (on_callbacks (callback_Remove tcpID) \<circ> close_conn conn) t;
          timers = List.map_filter (ss_timer \<circ> snd) (filter mine (ht_streamResp t))
      in (fold stop_timer timers t)\<lparr>ht_streamResp := filter (Not \<circ> mine) (ht_streamResp t)\<rparr>)"

definition leave :: "socketConfig \<Rightarrow> HttpConn \<Rightarrow> HTTPTunnel \<Rightarrow> HTTPTunnel \<times> HttpConn" where
  "leave sc c t = (cleanup (hc_conn c) (sc_tcpID sc) t, c\<lparr>hc_config := sc, hc_phase := Gone\<rparr>)"

text \<open>After a request: the next one is read, unless the browser asked to close.\<close>

definition continue_conn :: "Request \<Rightarrow> HttpConn \<Rightarrow> HTTPTunnel \<times> socketConfig \<times> proc_result \<Rightarrow> HTTPTunnel \<times> HttpConn" where
  "continue_conn r c p =
     (case p of
        (t, sc, NoReturn x) \<Rightarrow> (t, c\<lparr>hc_config := sc, hc_phase := Hanging x\<rparr>)
      | (t, sc, _) \<Rightarrow> if rq_Close r then leave sc c t else (t, c\<lparr>hc_config := sc, hc_phase := Reading\<rparr>))"

definition wants_relay :: "HTTPTunnel \<Rightarrow> Request \<Rightarrow> bool" where
  "wants_relay t r \<longleftrightarrow>
     isWebSocketUpgradeRequest r \<and> canRelayWebSocket (ht_server t) (mapping_of t (subDomainFromRequest (ht_domain t) r))"

definition processOneBuffered ::
    "SrvEnv \<Rightarrow> string \<Rightarrow> byte list \<Rightarrow> Request \<Rightarrow> HttpConn \<Rightarrow> HTTPTunnel \<Rightarrow> HTTPTunnel \<times> HttpConn" where
  "processOneBuffered env uuid data r c t =
     (if wants_relay t r then
        (case processRequest env (hc_conn c) uuid (Some (hc_conn c)) data r (hc_config c) t of
           (t, sc, NoReturn x) \<Rightarrow> (t, c\<lparr>hc_config := sc, hc_phase := Hanging x\<rparr>)
         | (t, sc, _) \<Rightarrow> (t, c\<lparr>hc_config := sc, hc_phase := Waiting\<rparr>))
      else continue_conn r c (processRequest env (hc_conn c) uuid None data r (hc_config c) t))"

definition stream_request ::
    "SrvEnv \<Rightarrow> string \<Rightarrow> string \<Rightarrow> int \<Rightarrow> (byte list \<times> read_error option) list \<Rightarrow> Request \<Rightarrow> HttpConn \<Rightarrow> HTTPTunnel
       \<Rightarrow> HTTPTunnel \<times> HttpConn" where
  "stream_request env uuid head len reads r c t =
     continue_conn r c (processRequestStream env (hc_conn c) uuid head r len reads (hc_config c) t)"

text \<open>The start of \<open>handleConnection\<close>; \<open>tcpID\<close> and \<open>uuid\<close> are new UUIDs.\<close>

definition handle_first ::
    "SrvEnv \<Rightarrow> nat \<Rightarrow> string \<Rightarrow> string \<Rightarrow> (byte list \<times> read_error option) list \<Rightarrow> Request \<Rightarrow> first_request \<Rightarrow> HTTPTunnel
       \<Rightarrow> HTTPTunnel \<times> HttpConn" where
  "handle_first env conn tcpID uuid reads r first t =
     (let sc = initSocketConfig t r
            \<lparr>sc_tcpID = tcpID, sc_domain = '''', sc_subDomain = '''', sc_isWS = False, sc_clientID = ''''\<rparr>;
          c = \<lparr>hc_conn = conn, hc_config = sc, hc_phase = Reading\<rparr>
      in if sc_isWS sc then leave sc c t
         else case first of
           HeadAndStream head len \<Rightarrow> stream_request env uuid head len reads r c t
         | Whole data \<Rightarrow> processOneBuffered env uuid data r c t)"

definition processOne ::
    "SrvEnv \<Rightarrow> string \<Rightarrow> (byte list \<times> read_error option) list \<Rightarrow> Request \<Rightarrow> HttpConn \<Rightarrow> HTTPTunnel \<Rightarrow> HTTPTunnel \<times> HttpConn" where
  "processOne env uuid reads r c t =
     (if shouldStreamHTTPRequest t (hc_config c) r
      then stream_request env uuid (appendForwardedHTTPHeadersOnly r) (rq_ContentLength r) reads r c t
      else case readTunnelRequestBody (rq_Body r) maxHTTPTunnelRequestBodyBytes of
        Ok body \<Rightarrow> processOneBuffered env uuid (appendForwardedHTTPRequest r body) r c t
      | Err BodyTooLarge \<Rightarrow> leave (hc_config c) c (on_server (writeRequestEntityTooLarge env (hc_conn c)) t)
      | _ \<Rightarrow> leave (hc_config c) c t)"

text \<open>One turn of the loop: \<open>None\<close> is an error of \<open>http.ReadRequest\<close>.\<close>

definition handle_next ::
    "SrvEnv \<Rightarrow> string \<Rightarrow> (byte list \<times> read_error option) list \<Rightarrow> Request option \<Rightarrow> HttpConn \<Rightarrow> HTTPTunnel
       \<Rightarrow> HTTPTunnel \<times> HttpConn" where
  "handle_next env uuid reads req c t =
     (if hc_phase c \<noteq> Reading then (t, c)
      else case req of
        None \<Rightarrow> leave (hc_config c) c t
      | Some r \<Rightarrow>
          let sc = initSocketConfig t r (hc_config c); c = c\<lparr>hc_config := sc\<rparr> in
          if sc_isWS sc then leave sc c t else processOne env uuid reads r c t)"

text \<open>The goroutine at \<open><-u\<close> goes on.\<close>

definition handle_resume :: "HttpConn \<Rightarrow> HTTPTunnel \<Rightarrow> HTTPTunnel \<times> HttpConn" where
  "handle_resume c t =
     (if hc_phase c = Waiting \<and> HandlerDone (hc_conn c) \<in> set (sv_out (ht_server t)) then leave (hc_config c) c t else (t, c))"

end
