(* ===== verification/HttpLaws.thy ===== *)
theory HttpLaws
  imports HttpServe TcpLaws
begin

text \<open>
  Which parts of the tunnel's state the operations of the HTTP tunnel change, and the invariant of
  that state: every stored callback is the closure of the request it is stored for, every stream session
  belongs to a streamed request, its key names the request and its timer, if it has one, is
  that request's timer.
\<close>

section \<open>Frames\<close>

definition stored_callbacks :: "Server \<Rightarrow> callbacks" where
  "stored_callbacks s = cx_Callbacks (sv_ctx s)"

named_theorems http_simps \<open>what the operations of the HTTP tunnel keep\<close>

lemma stored_callbacks_simps [http_simps]:
  "stored_callbacks (sv_emit evs s) = stored_callbacks s"
  "stored_callbacks (on_stats g s) = stored_callbacks s"
  "stored_callbacks (set_adapter i a s) = stored_callbacks s"
  "stored_callbacks (on_adapter i h s) = stored_callbacks s"
  "stored_callbacks (close_conn c s) = stored_callbacks s"
  "stored_callbacks (fst (write_conn env c bs s)) = stored_callbacks s"
  "stored_callbacks (fst (check_up clk client n s)) = stored_callbacks s"
  "stored_callbacks (fst (check_down clk client n s)) = stored_callbacks s"
  "stored_callbacks (fst (ws_write env ws msg s)) = stored_callbacks s"
  "stored_callbacks (fst (send_via i send s)) = stored_callbacks s"
  "stored_callbacks (on_container k s) = stored_callbacks s"
  "stored_callbacks (on_callbacks h' s) = h' (stored_callbacks s)"
  "stored_callbacks (destroyConnection env c s) = stored_callbacks s"
  "stored_callbacks (writeUnauthorized env c auths s) = stored_callbacks s"
  "stored_callbacks (writeRequestEntityTooLarge env c s) = stored_callbacks s"
  by (simp_all add: stored_callbacks_def server_simps ws_write_def send_via_def on_callbacks_def on_container_def on_ctx_def
      destroyConnection_def writeUnauthorized_def writeRequestEntityTooLarge_def split: option.split prod.split)

lemma on_server_simps [http_simps]:
  "ht_pending (on_server f t) = ht_pending t" "ht_timers (on_server f t) = ht_timers t"
  "ht_streamResp (on_server f t) = ht_streamResp t" "ht_server (on_server f t) = f (ht_server t)"
  "ht_domain (on_server f t) = ht_domain t" "ht_wsPath (on_server f t) = ht_wsPath t"
  by (simp_all add: on_server_def)

lemma call_finish_simps [http_simps]:
  "ht_pending (call_finish fin t) = ht_pending t" "ht_timers (call_finish fin t) = ht_timers t"
  "ht_streamResp (call_finish fin t) = ht_streamResp t"
  "stored_callbacks (ht_server (call_finish fin t)) = stored_callbacks (ht_server t)"
  by (auto simp: call_finish_def http_simps split: option.split)

text \<open>Scripts of what happens elsewhere leave the callbacks alone.\<close>

definition calm_script :: "wait_event list \<Rightarrow> bool" where
  "calm_script script \<longleftrightarrow> list_all (\<lambda>e. case e of Meanwhile f \<Rightarrow> (\<forall>s. stored_callbacks (f s) = stored_callbacks s) | _ \<Rightarrow> True) script"

lemma wait_ready_callbacks:
  "calm_script script \<Longrightarrow> stored_callbacks (fst (wait_ready cid sid m script s)) = stored_callbacks s"
  by (induction cid sid m script s rule: wait_ready.induct)
    (auto simp: calm_script_def Let_def forget_ready_def stored_callbacks_def)

lemma ensure_callbacks:
  "calm_script script \<Longrightarrow> stored_callbacks (fst (ensureDataChannelForStream env script cid sid rid m s)) = stored_callbacks s"
proof -
  assume c: "calm_script script"
  have "stored_callbacks (fst (ws_write env ws msg (s\<lparr>sv_ready := r\<rparr>))) = stored_callbacks s" for ws msg r
    by (simp add: http_simps) (simp add: stored_callbacks_def)
  then show ?thesis using wait_ready_callbacks [OF c]
    by (auto simp: ensureDataChannelForStream_def forget_ready_def stored_callbacks_def split: prod.splits bool.splits)
      (metis fst_conv)+
qed

lemma setup_callbacks: "stored_callbacks (setupTCPStreamOverWebSocket env cid sid c a fin s) = stored_callbacks s"
  by (simp add: setupTCPStreamOverWebSocket_def relay_register_close_def relay_register_data_def relay_start_def
      stored_callbacks_def set_relay_def server_simps Let_def split: option.split prod.split)

lemma websocket_relay_callbacks:
  assumes "calm_script script"
  shows "stored_callbacks (websocket_relay env script p bs s) = stored_callbacks s"
proof -
  have w: "write_conn env c b s1 = (s2, ok) \<Longrightarrow> stored_callbacks s2 = stored_callbacks s1" for c b s1 s2 ok
    by (metis fst_conv stored_callbacks_simps(6))
  have e: "ensureDataChannelForStream env script cid sid rid m s1 = (s2, ok) \<Longrightarrow> stored_callbacks s2 = stored_callbacks s1"
    for cid sid rid m s1 s2 ok by (metis fst_conv ensure_callbacks [OF assms])
  show ?thesis
    by (auto simp: websocket_relay_def Let_def http_simps setup_callbacks split: option.splits prod.splits bool.splits
        dest!: w e)
qed

section \<open>The invariant\<close>

definition uuid_like :: "string \<Rightarrow> bool" where
  "uuid_like i \<longleftrightarrow> CHR '':'' \<notin> set i"

definition session_of :: "nat \<Rightarrow> Pending \<Rightarrow> string \<times> StreamSession \<Rightarrow> bool" where
  "session_of n p e \<longleftrightarrow> pd_streamed p \<and> fst e = stream_key (pd_tcpID p) (pd_requestID p)
     \<and> ss_conn (snd e) = pd_conn p \<and> ss_clientID (snd e) = pd_clientID p \<and> ss_timer (snd e) \<in> {None, Some n}"

definition awaited :: "HTTPTunnel \<Rightarrow> string \<Rightarrow> string \<Rightarrow> nat option" where
  "awaited t tcpID requestID = callback_Get (stored_callbacks (ht_server t)) tcpID requestID"

text \<open>
  A request that waits has its timer running, unless it is a streamed one whose answer has begun. \<open>K\<close>
  is the set of ids for which this is not claimed.
\<close>

definition timed :: "HTTPTunnel \<Rightarrow> nat \<Rightarrow> bool" where
  "timed t n \<longleftrightarrow> ht_timers t n \<or> (pd_streamed (ht_pending t ! n)
     \<and> (\<exists>sess. map_of (ht_streamResp t) (stream_key (pd_tcpID (ht_pending t ! n)) (pd_requestID (ht_pending t ! n))) = Some sess
          \<and> ss_timer sess = None))"

definition awaited_ok :: "(string \<times> string) set \<Rightarrow> HTTPTunnel \<Rightarrow> bool" where
  "awaited_ok K t \<longleftrightarrow> (\<forall>a x n. awaited t a x = Some n \<longrightarrow>
     n < length (ht_pending t) \<and> pd_tcpID (ht_pending t ! n) = a \<and> pd_requestID (ht_pending t ! n) = x
     \<and> ((a, x) \<notin> K \<longrightarrow> timed t n))"

definition sessions_ok :: "HTTPTunnel \<Rightarrow> bool" where
  "sessions_ok t \<longleftrightarrow>
     (\<forall>e \<in> set (ht_streamResp t). \<exists>n < length (ht_pending t). session_of n (ht_pending t ! n) e)
     \<and> distinct (map fst (ht_streamResp t))
     \<and> (\<forall>n. ht_timers t n \<longrightarrow> n < length (ht_pending t))
     \<and> (\<forall>p \<in> set (ht_pending t). uuid_like (pd_tcpID p))"

definition http_ok_but :: "(string \<times> string) set \<Rightarrow> HTTPTunnel \<Rightarrow> bool" where
  "http_ok_but K t \<longleftrightarrow> awaited_ok K t \<and> sessions_ok t"

abbreviation http_ok :: "HTTPTunnel \<Rightarrow> bool" where "http_ok \<equiv> http_ok_but {}"

lemma awaited_okD:
  assumes "awaited_ok K t" "awaited t a x = Some n"
  shows "n < length (ht_pending t)" "pd_tcpID (ht_pending t ! n) = a" "pd_requestID (ht_pending t ! n) = x"
    "(a, x) \<notin> K \<Longrightarrow> timed t n"
  using assms by (auto simp: awaited_ok_def)

lemma awaited_ok_from:
  assumes ok: "awaited_ok K t" and p: "ht_pending t' = ht_pending t"
    and aw: "\<And>a x n. awaited t' a x = Some n \<Longrightarrow> awaited t a x = Some n \<and> ((a, x) \<notin> K' \<longrightarrow> (a, x) \<notin> K)"
    and tm: "\<And>a x n. awaited t' a x = Some n \<Longrightarrow> (a, x) \<notin> K' \<Longrightarrow> timed t n \<Longrightarrow> timed t' n"
  shows "awaited_ok K' t'"
proof (unfold awaited_ok_def, intro allI impI)
  fix a x n assume h: "awaited t' a x = Some n"
  with aw have t: "awaited t a x = Some n" by blast
  show "n < length (ht_pending t') \<and> pd_tcpID (ht_pending t' ! n) = a \<and> pd_requestID (ht_pending t' ! n) = x
      \<and> ((a, x) \<notin> K' \<longrightarrow> timed t' n)"
    using awaited_okD [OF ok t] aw [OF h] tm [OF h] by (simp add: p)
qed

lemma ok_cong:
  assumes ok: "http_ok_but K t" and same: "ht_pending t' = ht_pending t" "ht_timers t' = ht_timers t"
    "ht_streamResp t' = ht_streamResp t" "stored_callbacks (ht_server t') = stored_callbacks (ht_server t)"
    and K: "K \<subseteq> K'"
  shows "http_ok_but K' t'"
proof -
  have "awaited_ok K t" using ok by (simp add: http_ok_but_def)
  then have "awaited_ok K' t'"
    by (rule awaited_ok_from) (use same K in \<open>auto simp: timed_def awaited_def\<close>)
  with assms show ?thesis by (auto simp: http_ok_but_def sessions_ok_def)
qed

lemma stream_key_inject:
  "uuid_like a \<Longrightarrow> uuid_like b \<Longrightarrow> stream_key a x = stream_key b y \<longleftrightarrow> a = b \<and> x = y"
  by (auto simp: uuid_like_def stream_key_def append_eq_append_conv2 append_eq_Cons_conv Cons_eq_append_conv)

lemma awaited_take: "awaited (fst (take_pending a x t)) b y = (if a = b \<and> x = y then None else awaited t b y)"
  by (auto simp: take_pending_def awaited_def http_simps callback_Get_Take split: prod.split)
    (metis callback_Get_Take fst_conv stored_callbacks_def)+

lemma take_pending_simps [http_simps]:
  "ht_pending (fst (take_pending a x t)) = ht_pending t" "ht_timers (fst (take_pending a x t)) = ht_timers t"
  "ht_streamResp (fst (take_pending a x t)) = ht_streamResp t"
  "snd (take_pending a x t) = awaited t a x"
  by (simp_all add: take_pending_def http_simps awaited_def stored_callbacks_def callback_Take_result [symmetric] split: prod.split)

lemma ok_take: "http_ok_but {(a, x)} t \<Longrightarrow> http_ok (fst (take_pending a x t))"
proof -
  assume ok: "http_ok_but {(a, x)} t"
  have tm: "timed (fst (take_pending a x t)) n = timed t n" for n by (simp add: timed_def http_simps)
  from ok have "awaited_ok {(a, x)} t" by (simp add: http_ok_but_def)
  then have "awaited_ok {} (fst (take_pending a x t))"
    by (rule awaited_ok_from) (auto simp: awaited_take http_simps tm split: if_splits)
  with ok show ?thesis by (simp add: http_ok_but_def sessions_ok_def http_simps)
qed

lemma ok_stop:
  assumes ok: "http_ok_but K t" and n: "n < length (ht_pending t)"
    and K: "K' = insert (pd_tcpID (ht_pending t ! n), pd_requestID (ht_pending t ! n)) K"
  shows "http_ok_but K' (stop_timer n t)"
proof -
  have a: "awaited_ok K t" using ok by (simp add: http_ok_but_def)
  have aw: "awaited (stop_timer n t) = awaited t" by (intro ext) (simp add: awaited_def stop_timer_def)
  have "timed (stop_timer n t) m" if "timed t m" "m \<noteq> n" for m using that by (simp add: timed_def stop_timer_def)
  moreover have "m \<noteq> n" if "awaited t b y = Some m" "(b, y) \<notin> K'" for b y m
    using that awaited_okD [OF a that(1)] K by auto
  ultimately have "awaited_ok K' (stop_timer n t)"
    by (intro awaited_ok_from [OF a]) (auto simp: aw K, simp add: stop_timer_def)
  moreover have "sessions_ok (stop_timer n t)" using ok by (simp add: http_ok_but_def sessions_ok_def stop_timer_def)
  ultimately show ?thesis by (simp add: http_ok_but_def)
qed

lemma ok_delete:
  assumes ok: "http_ok_but K t" and a: "uuid_like a" and K: "K' = insert (a, x) K"
  shows "http_ok_but K' (delete_session (stream_key a x) t)" (is "http_ok_but _ ?t")
proof -
  from ok have aw: "awaited_ok K t" and s: "sessions_ok t" by (simp_all add: http_ok_but_def)
  have same: "awaited ?t = awaited t" by (intro ext) (simp add: awaited_def delete_session_def)
  have t: "timed ?t n" if n: "awaited t b y = Some n" "(b, y) \<notin> K'" "timed t n" for b y n
  proof -
    note m = awaited_okD(1-3) [OF aw n(1)]
    then have "uuid_like b" using s by (auto simp: sessions_ok_def)
    then have "stream_key b y \<noteq> stream_key a x" using n(2) stream_key_inject [OF _ a] K by auto
    with n(3) m show ?thesis by (simp add: timed_def delete_session_def delete_conv')
  qed
  then have "awaited_ok K' ?t"
    by (intro awaited_ok_from [OF aw]) (auto simp: same K, simp add: delete_session_def)
  moreover have "sessions_ok ?t" using s
    by (auto simp: sessions_ok_def delete_session_def AList.delete_eq intro: distinct_map_filter)
  ultimately show ?thesis by (simp add: http_ok_but_def)
qed

lemma ok_parts: "http_ok_but K t \<Longrightarrow> awaited_ok K t" "http_ok_but K t \<Longrightarrow> sessions_ok t"
  by (simp_all add: http_ok_but_def)

lemma session_cases:
  assumes "http_ok_but K t" "(key, sess) \<in> set (ht_streamResp t)"
  obtains n where "n < length (ht_pending t)" "session_of n (ht_pending t ! n) (key, sess)"
  using assms unfolding http_ok_but_def sessions_ok_def by blast

lemma set_update: "set (AList.update k v al) \<subseteq> insert (k, v) (set al)"
  by (induction al) auto

lemma sessions_ok_put:
  assumes "sessions_ok t" "n < length (ht_pending t)" "session_of n (ht_pending t ! n) (key, sess)"
  shows "sessions_ok (put_session key sess t)"
  using assms set_update [of key sess "ht_streamResp t"]
  by (auto simp: sessions_ok_def put_session_def distinct_update)

text \<open>A request is stored, with its session if it is streamed.\<close>

lemma ok_register:
  assumes ok: "http_ok t" and a: "uuid_like (sc_tcpID sc)" and reg: "register conn x st ws fin sc dm t = (n, t')"
  shows "http_ok t'" "n = length (ht_pending t)" "awaited t' (sc_tcpID sc) x = Some n" "ht_timers t' n"
    "\<exists>p. ht_pending t' = ht_pending t @ [p] \<and> pd_conn p = conn \<and> pd_clientID p = dm_ClientID dm
       \<and> pd_tcpID p = sc_tcpID sc \<and> pd_requestID p = x \<and> pd_streamed p = st \<and> pd_wsUpgrade p = ws"
proof -
  let ?n = "length (ht_pending t)"
  have t': "n = ?n" "ht_streamResp t' = ht_streamResp t" "ht_timers t' = (ht_timers t)(?n := True)"
    "stored_callbacks (ht_server t') = callback_Set (sc_tcpID sc) x ?n (stored_callbacks (ht_server t))"
    and p: "\<exists>p. ht_pending t' = ht_pending t @ [p] \<and> pd_conn p = conn \<and> pd_clientID p = dm_ClientID dm
       \<and> pd_tcpID p = sc_tcpID sc \<and> pd_requestID p = x \<and> pd_streamed p = st \<and> pd_wsUpgrade p = ws"
    using reg by (auto simp: register_def Let_def http_simps)
  show "n = ?n" "ht_timers t' n" by (simp_all add: t')
  show "\<exists>p. ht_pending t' = ht_pending t @ [p] \<and> pd_conn p = conn \<and> pd_clientID p = dm_ClientID dm
       \<and> pd_tcpID p = sc_tcpID sc \<and> pd_requestID p = x \<and> pd_streamed p = st \<and> pd_wsUpgrade p = ws" by (rule p)
  then obtain p where p: "ht_pending t' = ht_pending t @ [p]" "pd_tcpID p = sc_tcpID sc" "pd_requestID p = x" by blast
  have aw: "awaited t' b y = (if b = sc_tcpID sc \<and> y = x then Some ?n else awaited t b y)" for b y
    by (simp add: awaited_def t' callback_Get_Set)
  show "awaited t' (sc_tcpID sc) x = Some n" by (simp add: aw t')
  have old: "ht_pending t' ! m = ht_pending t ! m" if "m < ?n" for m using that by (simp add: p nth_append)
  have "timed t' m" if "timed t m" "m < ?n" for m using that by (simp add: timed_def t' old)
  moreover have "timed t' ?n" by (simp add: timed_def t')
  moreover note m = awaited_okD [OF ok_parts(1) [OF ok]]
  ultimately have "k < length (ht_pending t') \<and> pd_tcpID (ht_pending t' ! k) = b \<and> pd_requestID (ht_pending t' ! k) = y \<and> timed t' k"
    if k: "awaited t' b y = Some k" for b y k
  proof (cases "b = sc_tcpID sc \<and> y = x")
    case True with k \<open>timed t' ?n\<close> show ?thesis by (auto simp: aw p)
  next
    case False
    then have "awaited t b y = Some k" using k by (simp add: aw split: if_splits)
    from m [OF this] \<open>\<And>m. timed t m \<Longrightarrow> m < ?n \<Longrightarrow> timed t' m\<close> show ?thesis by (auto simp: old p less_SucI nth_append)
  qed
  then have "awaited_ok {} t'" unfolding awaited_ok_def by blast
  moreover have "sessions_ok t'"
    using ok_parts(2) [OF ok] a by (fastforce simp: sessions_ok_def t' p old less_SucI nth_append)
  ultimately show "http_ok t'" by (simp add: http_ok_but_def)
qed

lemma ok_new_session:
  assumes ok: "http_ok t" and n: "awaited t a x = Some n" "ht_timers t n" and s: "session_of n (ht_pending t ! n) (stream_key a x, sess)"
  shows "http_ok (put_session (stream_key a x) sess t)" (is "http_ok ?t")
proof -
  note m = awaited_okD [OF ok_parts(1) [OF ok]]
  have aw: "awaited ?t = awaited t" by (intro ext) (simp add: awaited_def put_session_def)
  have "timed ?t k" if k: "awaited t b y = Some k" for b y k
  proof (cases "k = n")
    case True then show ?thesis using n by (simp add: timed_def put_session_def)
  next
    case False
    then have "(b, y) \<noteq> (a, x)" using k n(1) by auto
    moreover have "uuid_like a" "uuid_like b"
      using ok_parts(2) [OF ok] m(1,2) [OF n(1)] m(1,2) [OF k] by (auto simp: sessions_ok_def)
    ultimately have "stream_key b y \<noteq> stream_key a x" using stream_key_inject by auto
    with m [OF k] show ?thesis by (simp add: timed_def put_session_def update_conv')
  qed
  then have "awaited_ok {} ?t" by (intro awaited_ok_from [OF ok_parts(1) [OF ok]]) (auto simp: aw, simp add: put_session_def)
  with sessions_ok_put [OF ok_parts(2) [OF ok] m(1) [OF n(1)] s] show ?thesis by (simp add: http_ok_but_def)
qed

text \<open>The first frame of an answer stops the timer.\<close>

lemma ok_begin:
  assumes ok: "http_ok t" and e: "(key, sess) \<in> set (ht_streamResp t)"
  shows "http_ok (put_session key (sess\<lparr>ss_timer := None\<rparr>) (case ss_timer sess of None \<Rightarrow> t | Some n \<Rightarrow> stop_timer n t))"
    (is "http_ok ?t")
proof -
  note m = awaited_okD [OF ok_parts(1) [OF ok]]
  obtain n where n: "n < length (ht_pending t)" "session_of n (ht_pending t ! n) (key, sess)" by (rule session_cases [OF ok e])
  then have timer: "ss_timer sess \<in> {None, Some n}" and key: "pd_streamed (ht_pending t ! n)"
    "key = stream_key (pd_tcpID (ht_pending t ! n)) (pd_requestID (ht_pending t ! n))" by (auto simp: session_of_def)
  let ?s = "case ss_timer sess of None \<Rightarrow> t | Some n \<Rightarrow> stop_timer n t"
  have s: "ht_pending ?s = ht_pending t" "ht_streamResp ?s = ht_streamResp t" "ht_server ?s = ht_server t"
    "ht_timers ?s k \<Longrightarrow> ht_timers t k" "k \<noteq> n \<Longrightarrow> ht_timers ?s k = ht_timers t k" for k
    using timer by (auto simp: stop_timer_def split: option.splits if_splits)
  have sess_at: "map_of (ht_streamResp t) key = Some sess"
    using e ok_parts(2) [OF ok] by (simp add: sessions_ok_def)
  have aw: "awaited ?t = awaited t" by (intro ext) (simp add: awaited_def put_session_def s)
  have "timed ?t k" if k: "awaited t b y = Some k" for b y k
  proof (cases "k = n")
    case True then show ?thesis using key by (simp add: timed_def put_session_def s update_conv')
  next
    case False
    with m(4) [OF k] show ?thesis by (auto simp: timed_def put_session_def s update_conv')
  qed
  then have "awaited_ok {} ?t"
    by (intro awaited_ok_from [OF ok_parts(1) [OF ok]]) (auto simp: aw, simp add: put_session_def s)
  moreover have "sessions_ok ?s" using ok_parts(2) [OF ok] s by (auto simp: sessions_ok_def)
  then have "sessions_ok ?t" by (rule sessions_ok_put) (use n in \<open>auto simp: s session_of_def\<close>)
  ultimately show ?thesis by (simp add: http_ok_but_def)
qed

section \<open>Every operation keeps it\<close>

lemma ok_server: "http_ok_but K t \<Longrightarrow> stored_callbacks s = stored_callbacks (ht_server t) \<Longrightarrow> http_ok_but K (t\<lparr>ht_server := s\<rparr>)"
  by (erule ok_cong) auto

lemma ok_on_server: "http_ok_but K t \<Longrightarrow> stored_callbacks (f (ht_server t)) = stored_callbacks (ht_server t) \<Longrightarrow> http_ok_but K (on_server f t)"
  by (erule ok_cong) (simp_all add: http_simps)

lemma ok_finish: "http_ok_but K t \<Longrightarrow> http_ok_but K (call_finish fin t)"
  by (erule ok_cong) (simp_all add: http_simps)

lemma ok_destroy: "http_ok_but K t \<Longrightarrow> http_ok_but K (on_server (destroyConnection env c) t)"
  by (erule ok_on_server) (simp add: http_simps)

lemma ok_forget: "http_ok t \<Longrightarrow> uuid_like a \<Longrightarrow> http_ok (fst (take_pending a x (delete_session (stream_key a x) t)))"
  by (rule ok_take, rule ok_delete [where K = "{}"]) simp_all

lemma ok_finish_session: "http_ok t \<Longrightarrow> uuid_like a \<Longrightarrow> http_ok (finishStreamResponseSession a x t)"
  by (simp add: finishStreamResponseSession_def ok_forget)

lemma pending_uuid: "http_ok_but K t \<Longrightarrow> n < length (ht_pending t) \<Longrightarrow> uuid_like (pd_tcpID (ht_pending t ! n))"
  by (auto simp: http_ok_but_def sessions_ok_def)

text \<open>The end of request \<open>n\<close>: its timer, its session and its callback.\<close>

lemma ok_end:
  assumes ok: "http_ok t" and n: "n < length (ht_pending t)"
  defines "p \<equiv> ht_pending t ! n"
  defines "t1 \<equiv> stop_timer n t"
  shows "http_ok (fst (take_pending (pd_tcpID p) (pd_requestID p)
     (if pd_streamed p then delete_session (stream_key (pd_tcpID p) (pd_requestID p)) t1 else t1)))"
proof -
  have 1: "http_ok_but {(pd_tcpID p, pd_requestID p)} t1"
    unfolding t1_def by (rule ok_stop [OF ok n]) (simp add: p_def)
  have u: "uuid_like (pd_tcpID p)" using pending_uuid [OF ok n] by (simp add: p_def)
  show ?thesis using ok_take [OF 1] ok_take [OF ok_delete [OF 1 u, of _ "pd_requestID p"]] by simp
qed

lemma ok_send_failed:
  assumes ok: "http_ok t" and n: "n < length (ht_pending t)"
  shows "http_ok (send_failed env n t)"
  using ok_end [OF ok n] by (simp add: send_failed_def Let_def ok_finish ok_destroy)

lemma write_conn_callbacks: "write_conn env c bs s = (s', b) \<Longrightarrow> stored_callbacks s' = stored_callbacks s"
  using stored_callbacks_simps(6) [of env c bs s] by simp

lemma check_callbacks:
  "check_up clk c k s = (s', b) \<Longrightarrow> stored_callbacks s' = stored_callbacks s"
  "check_down clk c k s = (s', b) \<Longrightarrow> stored_callbacks s' = stored_callbacks s"
  using stored_callbacks_simps(7,8) [of clk c k s] by simp_all

lemma ok_callback:
  assumes ok: "http_ok t" and n: "n < length (ht_pending t)"
    and free: "awaited t (pd_tcpID (ht_pending t ! n)) (pd_requestID (ht_pending t ! n)) = None"
    and calm: "calm_script script"
  shows "http_ok (wrappedCallback env script n d t)"
proof -
  let ?p = "ht_pending t ! n"
  have "http_ok_but {(pd_tcpID ?p, pd_requestID ?p)} (stop_timer n t)" by (rule ok_stop [OF ok n]) simp
  then have "http_ok (fst (take_pending (pd_tcpID ?p) (pd_requestID ?p) (stop_timer n t)))" by (rule ok_take)
  moreover have "take_pending a x t1 = (t1, None)" if "awaited t1 a x = None" for a x t1
  proof -
    have "callback_Take a x c = (c, None)" if "callback_Get c a x = None" for c
      using that by (auto simp: callback_Take_def callback_Get_def split: option.splits)
    then show ?thesis using that
      by (simp add: take_pending_def awaited_def stored_callbacks_def on_server_def on_callbacks_def on_ctx_def)
  qed
  then have "take_pending (pd_tcpID ?p) (pd_requestID ?p) (stop_timer n t) = (stop_timer n t, None)"
    using free by (simp add: awaited_def stop_timer_def)
  ultimately have 1: "http_ok (stop_timer n t)" by simp
  have 2: "http_ok ((stop_timer n t)\<lparr>ht_server := s\<rparr>)" "http_ok (call_finish fin ((stop_timer n t)\<lparr>ht_server := s\<rparr>))"
    if "stored_callbacks s = stored_callbacks (ht_server t)" for s fin
    using that ok_server [OF 1] by (simp_all add: ok_finish stop_timer_def)
  have s: "ht_server (stop_timer n t) = ht_server t" by (simp add: stop_timer_def)
  show ?thesis unfolding wrappedCallback_def Let_def s
    by (auto split: prod.split bool.split
        simp: 2 http_simps websocket_relay_callbacks [OF calm] dest!: write_conn_callbacks check_callbacks)
qed

lemma ok_answer:
  assumes ok: "http_ok t" and calm: "calm_script script"
  shows "http_ok (case take_pending a x t of (t, Some n) \<Rightarrow> wrappedCallback env script n d t | (t, None) \<Rightarrow> t)"
proof -
  obtain t1 cb where tp: "take_pending a x t = (t1, cb)" by force
  have ok1: "http_ok t1" using ok_take [of a x t] ok tp by (simp add: ok_cong [OF ok])
  have cb: "cb = awaited t a x" "ht_pending t1 = ht_pending t" "awaited t1 a x = None"
    using take_pending_simps [of a x t] awaited_take [of a x t a x] tp by auto
  show ?thesis
  proof (cases cb)
    case None with tp ok1 show ?thesis by simp
  next
    case (Some n)
    from awaited_okD [OF ok_parts(1) [OF ok]] Some cb(1)
    have n: "n < length (ht_pending t1)" "pd_tcpID (ht_pending t1 ! n) = a" "pd_requestID (ht_pending t1 ! n) = x"
      by (simp_all add: cb(2))
    with ok_callback [OF ok1 n(1) _ calm] cb(3) tp Some show ?thesis by simp
  qed
qed

lemma ok_timeout:
  assumes ok: "http_ok t"
  shows "http_ok (request_timeout env n t)"
proof (cases "ht_timers t n")
  case True
  with ok have n: "n < length (ht_pending t)" by (simp add: http_ok_but_def sessions_ok_def)
  let ?p = "ht_pending t ! n"
  let ?t = "if pd_streamed ?p then delete_session (stream_key (pd_tcpID ?p) (pd_requestID ?p)) (stop_timer n t) else stop_timer n t"
  obtain t1 cb where tp: "take_pending (pd_tcpID ?p) (pd_requestID ?p) ?t = (t1, cb)" by force
  have ok1: "http_ok t1" using ok_end [OF ok n] tp by simp
  have p1: "ht_pending t1 = ht_pending t" "cb = awaited t (pd_tcpID ?p) (pd_requestID ?p)"
    and free: "awaited t1 (pd_tcpID ?p) (pd_requestID ?p) = None"
    using take_pending_simps [of "pd_tcpID ?p" "pd_requestID ?p" ?t] awaited_take [of "pd_tcpID ?p" "pd_requestID ?p" ?t] tp
    by (auto simp: stop_timer_def delete_session_def awaited_def split: if_splits)
  have "http_ok (case cb of None \<Rightarrow> t1 | Some c \<Rightarrow> wrappedCallback env [] c d t1)" for d
  proof (cases cb)
    case None with ok1 show ?thesis by simp
  next
    case (Some c)
    from awaited_okD [OF ok_parts(1) [OF ok]] Some p1(2)
    have "c < length (ht_pending t1)" "pd_tcpID (ht_pending t1 ! c) = pd_tcpID ?p" "pd_requestID (ht_pending t1 ! c) = pd_requestID ?p"
      by (simp_all add: p1(1))
    with ok_callback [OF ok1, of c "[]" env d] free Some show ?thesis by (simp add: calm_script_def)
  qed
  with True n tp show ?thesis by (simp add: request_timeout_def Let_def ok_finish)
next
  case False with ok show ?thesis by (simp add: request_timeout_def)
qed

lemma ok_frame:
  assumes ok: "http_ok t" and a: "uuid_like a"
  shows "http_ok (fst (dispatchSemanticClientResponse env a x ty bs fin t))"
proof (cases "map_of (ht_streamResp t) (stream_key a x)")
  case None with ok show ?thesis by (simp add: dispatchSemanticClientResponse_def Let_def)
next
  case (Some sess)
  define t1 where "t1 = put_session (stream_key a x) (sess\<lparr>ss_timer := None\<rparr>) (case ss_timer sess of None \<Rightarrow> t | Some n \<Rightarrow> stop_timer n t)"
  have ok1: "http_ok t1" unfolding t1_def by (rule ok_begin [OF ok map_of_SomeD [OF Some]])
  have 1: "http_ok (t1\<lparr>ht_server := s\<rparr>)" "http_ok (finishStreamResponseSession a x (t1\<lparr>ht_server := s\<rparr>))"
    if "stored_callbacks s = stored_callbacks (ht_server t1)" for s
    using that ok_server [OF ok1] ok_finish_session [OF _ a] by simp_all
  have sv: "ht_server t1 = ht_server t" by (simp add: t1_def put_session_def stop_timer_def split: option.split)
  show ?thesis unfolding dispatchSemanticClientResponse_def Let_def Some option.case t1_def [symmetric]
    by (auto split: prod.split bool.split simp: 1 http_simps sv dest!: write_conn_callbacks check_callbacks)
qed

lemma fold_stop_timer:
  "ht_pending (fold stop_timer ns t) = ht_pending t" "ht_streamResp (fold stop_timer ns t) = ht_streamResp t"
  "ht_server (fold stop_timer ns t) = ht_server t" "ht_timers (fold stop_timer ns t) m \<longleftrightarrow> m \<notin> set ns \<and> ht_timers t m"
  by (induction ns arbitrary: t) (auto simp: stop_timer_def)

lemma key_prefix: "uuid_like a \<Longrightarrow> uuid_like b \<Longrightarrow> HasPrefix (stream_key b y) (a @ '':'') \<longleftrightarrow> a = b"
proof
  assume u: "uuid_like a" "uuid_like b" and "HasPrefix (stream_key b y) (a @ '':'')"
  then have "stream_key b y = stream_key a (drop (length (a @ '':'')) (stream_key b y))"
    using append_take_drop_id [of "length (a @ '':'')" "stream_key b y"] by (simp add: HasPrefix_iff stream_key_def)
  then obtain z where "stream_key b y = stream_key a z" by blast
  with stream_key_inject [OF u(2,1)] show "a = b" by simp
qed (simp add: HasPrefix_iff stream_key_def)

lemma cleanup_effect:
  assumes ok: "http_ok t" and a: "uuid_like a"
  shows "http_ok (cleanup conn a t)"
    "awaited (cleanup conn a t) b y = (if b = a then None else awaited t b y)"
    "map_of (ht_streamResp (cleanup conn a t)) (stream_key a y) = None"
    "ht_pending (cleanup conn a t) = ht_pending t"
    "sv_out (ht_server (cleanup conn a t)) = sv_out (ht_server t) @ [ConnClosed conn]"
    "ht_streamResp (cleanup conn a t) = filter (\<lambda>(k, e). \<not> HasPrefix k (a @ '':'')) (ht_streamResp t)"
proof -
  let ?mine = "\<lambda>(k, sess). HasPrefix k (a @ '':'')"
  let ?ns = "List.map_filter (ss_timer \<circ> snd) (filter ?mine (ht_streamResp t))"
  let ?c = "cleanup conn a t"
  show p: "ht_pending ?c = ht_pending t" by (simp add: cleanup_def Let_def fold_stop_timer http_simps)
  have str: "ht_streamResp ?c = filter (Not \<circ> ?mine) (ht_streamResp t)" by (simp add: cleanup_def Let_def http_simps)
  then show "ht_streamResp ?c = filter (\<lambda>(k, e). \<not> HasPrefix k (a @ '':'')) (ht_streamResp t)" by (simp add: comp_def split_def)
  have tim: "ht_timers ?c m \<longleftrightarrow> m \<notin> set ?ns \<and> ht_timers t m" for m
    by (simp add: cleanup_def Let_def fold_stop_timer http_simps)
  have srv: "ht_server ?c = on_callbacks (callback_Remove a) (close_conn conn (ht_server t))"
    by (simp add: cleanup_def Let_def fold_stop_timer http_simps)
  show "sv_out (ht_server ?c) = sv_out (ht_server t) @ [ConnClosed conn]" by (simp add: srv on_callbacks_def server_simps)
  show aw: "awaited ?c b y = (if b = a then None else awaited t b y)" for b y
    by (simp add: awaited_def srv http_simps callback_Get_Remove)
  have at: "map_of (ht_streamResp ?c) (stream_key b y) = (if a = b then None else map_of (ht_streamResp t) (stream_key b y))"
    if b: "uuid_like b" for b y
  proof -
    have "map_of (filter (Not \<circ> ?mine) xs) (stream_key b y) = (if a = b then None else map_of xs (stream_key b y))" for xs :: "(string \<times> StreamSession) list"
      by (induction xs) (use key_prefix [OF a b] in auto)
    then show ?thesis by (simp add: str)
  qed
  show "map_of (ht_streamResp ?c) (stream_key a y) = None" by (simp add: at [OF a])
  have "timed ?c k" if k: "awaited t b y = Some k" "b \<noteq> a" for b y k
  proof -
    note m = awaited_okD [OF ok_parts(1) [OF ok] k(1)]
    have b: "uuid_like b" using pending_uuid [OF ok m(1)] m(2) by simp
    have "k \<notin> set ?ns"
    proof
      assume "k \<in> set ?ns"
      then obtain key sess where e: "(key, sess) \<in> set (ht_streamResp t)" "HasPrefix key (a @ '':'')" "ss_timer sess = Some k"
        by (auto simp: List.map_filter_def)
      obtain n where n: "n < length (ht_pending t)" "session_of n (ht_pending t ! n) (key, sess)" by (rule session_cases [OF ok e(1)])
      with e(3) have "n = k" "key = stream_key b (pd_requestID (ht_pending t ! k))" using m(2) by (auto simp: session_of_def)
      with e(2) key_prefix [OF a b] k(2) show False by simp
    qed
    with m(4) k(2) show ?thesis by (simp add: timed_def tim p m(2,3) at [OF b])
  qed
  then have "awaited_ok {} ?c"
    by (intro awaited_ok_from [OF ok_parts(1) [OF ok]]) (auto simp: aw p split: if_splits)
  moreover have "sessions_ok ?c" using ok_parts(2) [OF ok] by (auto simp: sessions_ok_def str p tim intro: distinct_map_filter)
  ultimately show "http_ok ?c" by (simp add: http_ok_but_def)
qed

lemma admit_ok:
  assumes ok: "http_ok t" and a: "admit env conn r n sc t = (t', sc', res)"
  shows "http_ok t'" "sc_tcpID sc' = sc_tcpID sc"
proof -
  have cu: "check_up clk c k s = (s', b) \<Longrightarrow> stored_callbacks s' = stored_callbacks s" for clk c k s s' b by (rule check_callbacks(1))
  have keep: "stored_callbacks (on_ctx (\<lambda>cx. cx\<lparr>cx_DomainMappings := f cx\<rparr>) s) = stored_callbacks s" for f s
    by (simp add: stored_callbacks_def on_ctx_def)
  have 1: "http_ok t'" by (rule ok_cong [OF ok])
    (use a in \<open>auto simp: admit_def Let_def http_simps keep split: if_splits option.splits prod.splits bool.splits dest!: cu\<close>)
  have 2: "sc_tcpID sc' = sc_tcpID sc"
    using a by (auto simp: admit_def Let_def split: if_splits option.splits prod.splits bool.splits)
  show "http_ok t'" "sc_tcpID sc' = sc_tcpID sc" by (fact 1, fact 2)
qed

lemma init_tcpID [simp]: "sc_tcpID (initSocketConfig t r sc) = sc_tcpID sc"
  by (simp add: initSocketConfig_def Let_def split: option.split)

lemma send_callbacks: "send_via_tunnel a send t = (t', res) \<Longrightarrow> http_ok_but K t \<Longrightarrow> http_ok_but K t' \<and> ht_pending t' = ht_pending t"
  by (auto simp: send_via_tunnel_def split: prod.splits intro!: ok_server)
    (metis fst_conv stored_callbacks_simps(10))

lemma ok_processRequest:
  assumes ok: "http_ok t" and u: "uuid_like (sc_tcpID sc)"
    and run: "processRequest env conn uuid fin data r sc t = (t', sc', res)"
  shows "http_ok t' \<and> sc_tcpID sc' = sc_tcpID sc"
proof -
  have ok0: "http_ok (t\<lparr>ht_requestCount := c\<rparr>)" for c using ok by (rule ok_cong) simp_all
  define sc1 where "sc1 = initSocketConfig (t\<lparr>ht_requestCount := ht_requestCount t + 1\<rparr>) r sc"
  have tcp1: "sc_tcpID sc1 = sc_tcpID sc" by (simp add: sc1_def)
  obtain t2 sc2 out where adm: "admit env conn r (int (length data)) sc1 (t\<lparr>ht_requestCount := ht_requestCount t + 1\<rparr>) = (t2, sc2, out)"
    by (metis prod_cases3)
  note ok2 = admit_ok [OF ok0 adm]
  show ?thesis
  proof (cases "sc_isWS sc \<or> sc_isWS sc1 \<or> (\<forall>dm. out \<noteq> Ok dm)")
    case True
    with run ok0 ok2 tcp1 adm show ?thesis
      by (cases out) (auto simp: processRequest_def Let_def sc1_def [symmetric] ok_finish split: if_splits)
  next
    case False
    then obtain dm where dm: "out = Ok dm" by blast
    define x where "x = request_id env uuid"
    define ws where "ws = (isWebSocketUpgradeRequest r \<and> canRelayWebSocket (ht_server t2) (Some dm))"
    obtain n t3 where reg: "register conn x False ws fin sc2 dm t2 = (n, t3)" by force
    have u2: "uuid_like (sc_tcpID sc2)" using u ok2(2) tcp1 by simp
    note ok3 = ok_register [OF ok2(1) u2 reg]
    have wsw: "ws_write env w m s = (s', b) \<Longrightarrow> stored_callbacks s' = stored_callbacks s" for w m s s' b
      by (metis fst_conv stored_callbacks_simps(9))
    define attempt where "attempt = send_request env dm (sc_tcpID sc2 @ '':'' @ x) data t3"
    obtain t4 sr where at: "attempt = (t4, sr)" by force
    have ok4: "http_ok t4 \<and> ht_pending t4 = ht_pending t3"
      using at ok3(1) unfolding attempt_def send_request_def
      by (auto split: option.splits prod.splits intro!: ok_server dest!: wsw send_callbacks [OF _ ok3(1)])
    have n: "n < length (ht_pending t4)" using ok3(2,5) ok4 by auto
    have "(t', sc', res) = (case (t4, sr) of (t, Sent) \<Rightarrow> (t, sc2, Returned)
        | (t, NotSent) \<Rightarrow> (send_failed env n t, sc2, Failed SendError) | (t, Stuck e) \<Rightarrow> (t, sc2, NoReturn e))"
      using run False adm dm reg at unfolding processRequest_def Let_def
      by (simp add: sc1_def [symmetric] x_def [symmetric] ws_def [symmetric] attempt_def)
    then show ?thesis using ok4 ok_send_failed [OF _ n] ok2(2) tcp1 by (auto split: send_result.splits)
  qed
qed

lemma ok_send_body:
  "send_body env a sid k reads t = (t', res) \<Longrightarrow> http_ok t \<Longrightarrow> http_ok t' \<and> ht_pending t' = ht_pending t"
proof (induction env a sid k reads t arbitrary: t' res rule: send_body.induct)
  case (1 env a sid remaining reads t)
  show ?case
  proof (cases "remaining = 0 \<or> reads = []")
    case True with 1(2,3) show ?thesis
      unfolding send_body.simps [of env a sid remaining reads t] by (auto split: if_splits)
  next
    case False
    then obtain bytes e rest where r: "reads = (bytes, e) # rest" "remaining \<noteq> 0" by (cases reads) auto
    let ?n = "min (32 * 1024) remaining"
    let ?piece = "take ?n bytes"
    let ?er = "if length bytes > ?n then (None, (drop ?n bytes, e) # rest) else (e, rest)"
    obtain e' rest' where er: "?er = (e', rest')" by force
    obtain t1 sr where at: "(if ?piece = [] then (t, Sent) else send_via_tunnel a (pa_SendHTTPRequestBody env sid ?piece
        (remaining - length ?piece = 0)) t) = (t1, sr)" by force
    have ok1: "http_ok t1 \<and> ht_pending t1 = ht_pending t"
      using at 1(3) by (auto split: if_splits dest!: send_callbacks [OF _ 1(3)])
    have run: "(t', res) = (case (t1, sr) of (t, NotSent) \<Rightarrow> (t, Failed SendError) | (t, Stuck x) \<Rightarrow> (t, NoReturn x)
        | (t, Sent) \<Rightarrow> (case e' of None \<Rightarrow> send_body env a sid (remaining - length ?piece) rest' t
            | Some EOF \<Rightarrow> if remaining - length ?piece > 0 then (t, Failed UnexpectedEOF) else (t, Returned)
            | Some OtherError \<Rightarrow> (t, Failed BodyError)))"
      using 1(2) r er at unfolding send_body.simps [of env a sid remaining] Let_def by simp
    have IH: "http_ok t' \<and> ht_pending t' = ht_pending t1" if "send_body env a sid (remaining - length ?piece) rest' t1 = (t', res)" "sr = Sent" "e' = None"
      using 1(1) [OF r(2,1) refl refl refl refl er [symmetric] refl at [symmetric] that(2,3,1)] ok1 by simp
    show ?thesis using run ok1 IH by (auto split: send_result.splits option.splits read_error.splits if_splits)
  qed
qed

lemma ok_send_streamed:
  assumes run: "send_streamed env dm sid head len reads t = (t', res)" and ok: "http_ok t"
  shows "http_ok t' \<and> ht_pending t' = ht_pending t"
proof (cases "if dm_UseNewProtocol dm then mapping_adapter (ht_server t) dm else None")
  case None with run ok show ?thesis by (simp add: send_streamed_def)
next
  case (Some a)
  obtain t1 sr where at: "send_via_tunnel a (pa_SendHTTPRequestHead (se_env env) sid (str_bytes head) (len = 0)) t = (t1, sr)"
    by force
  with run Some send_callbacks [OF at ok] show ?thesis
    by (cases sr) (auto simp: send_streamed_def dest: ok_send_body)
qed

lemma ok_processRequestStream:
  assumes ok: "http_ok t" and u: "uuid_like (sc_tcpID sc)"
    and run: "processRequestStream env conn uuid head r len reads sc t = (t', sc', res)"
  shows "http_ok t' \<and> sc_tcpID sc' = sc_tcpID sc"
proof -
  let ?bytes = "int (length head) + (if len < 0 then 0 else len)"
  have ok0: "http_ok (t\<lparr>ht_requestCount := c\<rparr>)" for c using ok by (rule ok_cong) simp_all
  obtain t2 sc2 out where adm: "admit env conn r ?bytes sc (t\<lparr>ht_requestCount := ht_requestCount t + 1\<rparr>) = (t2, sc2, out)"
    by (metis prod_cases3)
  note ok2 = admit_ok [OF ok0 adm]
  show ?thesis
  proof (cases "sc_isWS sc \<or> (\<forall>dm. out \<noteq> Ok dm)")
    case True
    with run ok0 ok2 adm show ?thesis
      by (cases out) (auto simp: processRequestStream_def Let_def split: if_splits)
  next
    case False
    then obtain dm where dm: "out = Ok dm" by blast
    define x where "x = request_id env uuid"
    obtain n t3 where reg: "register conn x True False None sc2 dm t2 = (n, t3)" by force
    have u2: "uuid_like (sc_tcpID sc2)" using u ok2(2) by simp
    note ok3 = ok_register [OF ok2(1) u2 reg]
    define sess where "sess = \<lparr>ss_conn = conn, ss_clientID = dm_ClientID dm, ss_subDomain = sc_subDomain sc2, ss_timer = Some n\<rparr>"
    define t4 where "t4 = put_session (stream_key (sc_tcpID sc2) x) sess t3"
    have "session_of n (ht_pending t3 ! n) (stream_key (sc_tcpID sc2) x, sess)"
      using ok3(2,5) by (auto simp: session_of_def sess_def)
    then have ok4: "http_ok t4" unfolding t4_def by (rule ok_new_session [OF ok3(1,3,4)])
    have n: "n < length (ht_pending t4)" using ok3(2,5) by (auto simp: t4_def put_session_def)
    obtain t5 sr where at: "send_streamed env dm (sc_tcpID sc2 @ '':'' @ x) head len reads t4 = (t5, sr)" by force
    have run': "(t', sc', res) = (case (t5, sr) of (t, Failed e) \<Rightarrow> (send_failed env n t, sc2, Failed e) | (t, res) \<Rightarrow> (t, sc2, res))"
      using run False adm dm reg at unfolding processRequestStream_def Let_def by (simp add: x_def sess_def t4_def)
    have "http_ok t5 \<and> ht_pending t5 = ht_pending t4" by (rule ok_send_streamed [OF at ok4])
    then show ?thesis using run' n ok_send_failed ok2(2) by (auto split: proc_result.splits)
  qed
qed

text \<open>Connections.\<close>

definition conn_ok :: "HttpConn \<Rightarrow> bool" where
  "conn_ok c \<longleftrightarrow> uuid_like (sc_tcpID (hc_config c))"

lemma conn_ok_simps [simp]:
  "conn_ok (c\<lparr>hc_config := sc\<rparr>) \<longleftrightarrow> uuid_like (sc_tcpID sc)"
  "conn_ok (c\<lparr>hc_config := sc, hc_phase := ph\<rparr>) \<longleftrightarrow> uuid_like (sc_tcpID sc)"
  "conn_ok \<lparr>hc_conn = conn, hc_config = sc, hc_phase = ph\<rparr> \<longleftrightarrow> uuid_like (sc_tcpID sc)"
  by (simp_all add: conn_ok_def)

lemma conn_okD [dest]: "conn_ok c \<Longrightarrow> uuid_like (sc_tcpID (hc_config c))"
  by (simp add: conn_ok_def)

lemma ok_leave: "http_ok t \<Longrightarrow> uuid_like (sc_tcpID sc) \<Longrightarrow> http_ok (fst (leave sc c t)) \<and> conn_ok (snd (leave sc c t))"
  by (simp add: leave_def cleanup_effect(1))

lemma ok_continue:
  "http_ok t \<Longrightarrow> uuid_like (sc_tcpID sc) \<Longrightarrow>
     http_ok (fst (continue_conn r c (t, sc, res))) \<and> conn_ok (snd (continue_conn r c (t, sc, res)))"
  by (simp add: continue_conn_def ok_leave split: proc_result.split)

lemma ok_buffered:
  assumes ok: "http_ok t" and c: "conn_ok c"
  shows "http_ok (fst (processOneBuffered env uuid data r c t)) \<and> conn_ok (snd (processOneBuffered env uuid data r c t))"
proof -
  obtain t' sc' res where run: "processRequest env (hc_conn c) uuid (if wants_relay t r then Some (hc_conn c) else None)
      data r (hc_config c) t = (t', sc', res)" by (metis prod_cases3)
  from ok_processRequest [OF ok _ run] c have ok': "http_ok t'" "uuid_like (sc_tcpID sc')" by auto
  show ?thesis
  proof (cases "wants_relay t r")
    case True with run ok' show ?thesis by (simp add: processOneBuffered_def split: proc_result.split)
  next
    case False with run ok_continue [OF ok'] show ?thesis by (simp add: processOneBuffered_def)
  qed
qed

lemma ok_stream_request:
  assumes ok: "http_ok t" and c: "conn_ok c"
  shows "http_ok (fst (stream_request env uuid head len reads r c t)) \<and> conn_ok (snd (stream_request env uuid head len reads r c t))"
proof -
  obtain t' sc' res where run: "processRequestStream env (hc_conn c) uuid head r len reads (hc_config c) t = (t', sc', res)"
    by (metis prod_cases3)
  from ok_processRequestStream [OF ok _ run] c have "http_ok t'" "uuid_like (sc_tcpID sc')" by auto
  with run show ?thesis by (simp add: stream_request_def ok_continue)
qed

lemma ok_first:
  "http_ok t \<Longrightarrow> uuid_like tcpID \<Longrightarrow>
     http_ok (fst (handle_first env conn tcpID uuid reads r first t)) \<and> conn_ok (snd (handle_first env conn tcpID uuid reads r first t))"
  by (simp add: handle_first_def Let_def ok_leave ok_buffered ok_stream_request split: first_request.split)

lemma ok_processOne:
  assumes ok: "http_ok t" and c: "conn_ok c"
  shows "http_ok (fst (processOne env uuid reads r c t)) \<and> conn_ok (snd (processOne env uuid reads r c t))"
  using ok_leave [OF ok conn_okD [OF c]] ok_leave [OF ok_on_server [OF ok] conn_okD [OF c]]
  by (simp add: processOne_def ok_buffered ok_stream_request ok c http_simps split: outcome.split body_error.split)

lemma ok_next:
  assumes ok: "http_ok t" and c: "conn_ok c"
  shows "http_ok (fst (handle_next env uuid reads req c t)) \<and> conn_ok (snd (handle_next env uuid reads req c t))"
  using ok_leave [OF ok conn_okD [OF c]] conn_okD [OF c]
  by (simp add: handle_next_def Let_def ok c ok_leave ok_processOne split: option.split)

lemma ok_resume: "http_ok t \<Longrightarrow> conn_ok c \<Longrightarrow> http_ok (fst (handle_resume c t)) \<and> conn_ok (snd (handle_resume c t))"
  by (simp add: handle_resume_def ok_leave conn_okD)

end
