(* ===== verification/HttpAnswers.thy ===== *)
theory HttpAnswers
  imports HttpLaws TcpFailures
begin

text \<open>
  What browsers get from the HTTP tunnel: the state stays well formed through every step, a
  waiting request is answered once, a closed connection is forgotten, streamed answers and
  uploads arrive whole and in order.
\<close>

section \<open>The state of the tunnel\<close>

definition deliver_answer :: "SrvEnv \<Rightarrow> wait_event list \<Rightarrow> string \<Rightarrow> string \<Rightarrow> string \<Rightarrow> HTTPTunnel \<Rightarrow> HTTPTunnel" where
  "deliver_answer env script a x d t =
     (case take_pending a x t of (t, Some n) \<Rightarrow> wrappedCallback env script n d t | (t, None) \<Rightarrow> t)"

text \<open>
  The steps of the tunnel. What other goroutines do to the server in between leaves the callbacks alone.
\<close>

inductive http_step :: "HTTPTunnel \<Rightarrow> HTTPTunnel \<Rightarrow> bool" where
  Connect: "uuid_like a \<Longrightarrow> http_step t (fst (handle_first env conn a uuid reads r first t))"
| NextRequest: "conn_ok c \<Longrightarrow> http_step t (fst (handle_next env uuid reads req c t))"
| Resume: "conn_ok c \<Longrightarrow> http_step t (fst (handle_resume c t))"
| Answer: "calm_script script \<Longrightarrow> http_step t (deliver_answer env script a x d t)"
| StreamFrame: "uuid_like a \<Longrightarrow> http_step t (fst (dispatchSemanticClientResponse env a x ty bs fin t))"
| Expire: "http_step t (request_timeout env n t)"
| Elsewhere: "(\<And>s. stored_callbacks (f s) = stored_callbacks s) \<Longrightarrow> http_step t (on_server f t)"

inductive_cases http_stepE: "http_step t t'"

lemma http_step_ok: "http_step t t' \<Longrightarrow> http_ok t \<Longrightarrow> http_ok t'"
  by (induction rule: http_step.induct)
    (simp_all add: ok_first ok_next ok_resume ok_answer deliver_answer_def ok_frame ok_timeout ok_on_server)

lemma http_start_ok: "stored_callbacks s = NewCallbackContainer \<Longrightarrow> http_ok (CreateHTTPTunnel s path domain)"
  by (simp add: http_ok_but_def awaited_ok_def awaited_def sessions_ok_def CreateHTTPTunnel_def callback_Get_def
      NewCallbackContainer_def)

text \<open>C7: In every state the HTTP tunnel reaches, whatever requests, answers, frames and timers come in which order:
  a stored callback is that of an existing request under that request's own connection and request id;
  every stream session has one key and belongs to a streamed request, with its connection, client and timer;
  only timers of existing requests run; and every request that still waits has its timer running, except a
  streamed one whose answer has begun.\<close>

theorem http_state_is_well_formed:
  assumes "http_step\<^sup>*\<^sup>* (CreateHTTPTunnel s path domain) t" and "stored_callbacks s = NewCallbackContainer"
  shows "(\<forall>a x n. awaited t a x = Some n \<longrightarrow> n < length (ht_pending t)
       \<and> pd_tcpID (ht_pending t ! n) = a \<and> pd_requestID (ht_pending t ! n) = x \<and> timed t n)
     \<and> distinct (map fst (ht_streamResp t))
     \<and> (\<forall>e \<in> set (ht_streamResp t). \<exists>n < length (ht_pending t). session_of n (ht_pending t ! n) e)
     \<and> (\<forall>n. ht_timers t n \<longrightarrow> n < length (ht_pending t))"
proof -
  from assms(1) have "http_ok t"
    by (induction rule: rtranclp_induct) (use assms(2) in \<open>auto intro: http_step_ok http_start_ok\<close>)
  then show ?thesis by (auto simp: http_ok_but_def awaited_ok_def sessions_ok_def)
qed

section \<open>Quiet surroundings\<close>

text \<open>Writes succeed, nobody is limited, and what happens elsewhere leaves the browsers' connections alone.\<close>

definition undisturbed :: "SrvEnv \<Rightarrow> bool" where
  "undisturbed env \<longleftrightarrow> (\<forall>c bs out. se_conn_write env c bs out = None)"

definition boundless :: "Server \<Rightarrow> bool" where
  "boundless s \<longleftrightarrow> (\<forall>c. unlimited (sv_limiter s) c)"

definition harmless_script :: "wait_event list \<Rightarrow> bool" where
  "harmless_script script \<longleftrightarrow> list_all (\<lambda>e. case e of
     Meanwhile f \<Rightarrow> (\<forall>s. stored_callbacks (f s) = stored_callbacks s \<and> sv_out (f s) = sv_out s \<and> sv_limiter (f s) = sv_limiter s)
   | _ \<Rightarrow> True) script"

lemma harmless_calm: "harmless_script script \<Longrightarrow> calm_script script"
  by (auto simp: harmless_script_def calm_script_def list_all_iff split: wait_event.split)

text \<open>What concerns connection \<open>c\<close>.\<close>

definition conn_view :: "nat \<Rightarrow> Server \<Rightarrow> byte list \<times> bool \<times> bandwidthLimiter" where
  "conn_view c s = (written c (sv_out s), ConnClosed c \<in> set (sv_out s), sv_limiter s)"

lemma conn_view_simps [http_simps]:
  "conn_view c (on_stats g s) = conn_view c s" "conn_view c (set_adapter i a s) = conn_view c s"
  "conn_view c (on_callbacks h s) = conn_view c s" "conn_view c (on_container k s) = conn_view c s"
  "conn_view c (sv_emit [HandlerDone f] s) = conn_view c s"
  "conn_view c (sv_emit [MonitorSent w m] s) = conn_view c s"
  by (simp_all add: conn_view_def server_simps on_callbacks_def on_ctx_def written_def)

lemma conn_view_ws [http_simps]: "conn_view c (fst (ws_write env ws msg s)) = conn_view c s"
  by (simp add: ws_write_def conn_view_simps)

lemma conn_view_ready [http_simps]: "conn_view c (s\<lparr>sv_ready := r\<rparr>) = conn_view c s" "conn_view c (s\<lparr>sv_relays := rs\<rparr>) = conn_view c s"
  by (simp_all add: conn_view_def)

lemma check_down_boundless: "boundless s \<Longrightarrow> check_down clk c n s = (s, True)"
  by (simp add: boundless_def check_unlimited)

lemma check_up_boundless: "boundless s \<Longrightarrow> check_up clk c n s = (s, True)"
  by (simp add: boundless_def check_unlimited)

lemma write_conn_undisturbed:
  assumes "undisturbed env"
  shows "write_conn env c bs s = (if ConnClosed c \<in> set (sv_out s) then (s, False) else (sv_emit [ConnWrote c bs] s, True))"
  using assms by (simp add: undisturbed_def write_conn_def)

lemma write_other [http_simps]: "c \<noteq> c' \<Longrightarrow> conn_view c (fst (write_conn env c' bs s)) = conn_view c s"
  by (auto simp: write_conn_def conn_view_def server_simps written_def split: option.split)

lemma close_other [http_simps]: "c \<noteq> c' \<Longrightarrow> conn_view c (close_conn c' s) = conn_view c s"
  by (auto simp: close_conn_def conn_view_def server_simps written_def)

lemma destroy_other [http_simps]: "c \<noteq> c' \<Longrightarrow> conn_view c (destroyConnection env c' s) = conn_view c s"
  by (simp add: destroyConnection_def http_simps)

lemma wait_ready_view:
  "harmless_script script \<Longrightarrow> conn_view c (fst (wait_ready cid sid m script s)) = conn_view c s"
  by (induction cid sid m script s rule: wait_ready.induct)
    (auto simp: harmless_script_def Let_def forget_ready_def conn_view_def)

lemma ensure_view:
  assumes "harmless_script script"
  shows "conn_view c (fst (ensureDataChannelForStream env script cid sid rid m s)) = conn_view c s"
proof -
  have w: "ws_write env ws msg s1 = (s2, b) \<Longrightarrow> conn_view c s2 = conn_view c s1" for ws msg s1 s2 b
    by (metis fst_conv conn_view_ws)
  show ?thesis using wait_ready_view [OF assms]
    by (auto simp: ensureDataChannelForStream_def forget_ready_def http_simps split: prod.splits bool.splits dest!: w)
qed

lemma setup_view: "conn_view c (setupTCPStreamOverWebSocket env cid sid c' a fin s) = conn_view c s"
  by (simp add: setupTCPStreamOverWebSocket_def relay_register_close_def relay_register_data_def relay_start_def
      conn_view_def set_relay_def server_simps Let_def split: option.split prod.split)

lemma websocket_relay_view:
  assumes script: "harmless_script script" and c: "c \<noteq> pd_conn p"
  shows "conn_view c (websocket_relay env script p bs s) = conn_view c s"
proof -
  have w: "write_conn env (pd_conn p) b s1 = (s2, ok) \<Longrightarrow> conn_view c s2 = conn_view c s1" for b s1 s2 ok
    by (metis fst_conv write_other [OF c])
  have e: "ensureDataChannelForStream env script cid sid rid m s1 = (s2, ok) \<Longrightarrow> conn_view c s2 = conn_view c s1"
    for cid sid rid m s1 s2 ok by (metis fst_conv ensure_view [OF script])
  show ?thesis
    by (auto simp: websocket_relay_def Let_def http_simps setup_view c split: option.splits prod.splits bool.splits dest!: w e)
qed

section \<open>One answer\<close>

lemma callback_same:
  "ht_pending (wrappedCallback env script n d t) = ht_pending t"
  "ht_streamResp (wrappedCallback env script n d t) = ht_streamResp t"
  "ht_timers (wrappedCallback env script n d t) = (ht_timers t)(n := False)"
  by (auto simp: wrappedCallback_def Let_def http_simps stop_timer_def split: prod.split bool.split)

lemma finish_view [http_simps]: "conn_view c (ht_server (call_finish fin t)) = conn_view c (ht_server t)"
  by (simp add: call_finish_def http_simps split: option.split)

lemma callback_callbacks:
  assumes "calm_script script"
  shows "stored_callbacks (ht_server (wrappedCallback env script n d t)) = stored_callbacks (ht_server t)"
  by (auto simp: wrappedCallback_def Let_def http_simps stop_timer_def websocket_relay_callbacks [OF assms]
      split: prod.split bool.split dest!: write_conn_callbacks check_callbacks)

lemma callback_view:
  assumes "harmless_script script" "boundless (ht_server t)" "c \<noteq> pd_conn (ht_pending t ! n)"
  shows "conn_view c (ht_server (wrappedCallback env script n d t)) = conn_view c (ht_server t)"
proof -
  have w: "write_conn env (pd_conn (ht_pending t ! n)) b s1 = (s2, ok) \<Longrightarrow> conn_view c s2 = conn_view c s1" for b s1 s2 ok
    by (metis fst_conv write_other [OF assms(3)])
  show ?thesis
    by (auto simp: wrappedCallback_def Let_def http_simps stop_timer_def check_down_boundless assms websocket_relay_view
        split: prod.split bool.split dest!: w)
qed

lemma callback_limiter:
  assumes "harmless_script script" "boundless (ht_server t)"
  shows "sv_limiter (ht_server (wrappedCallback env script n d t)) = sv_limiter (ht_server t)"
  using callback_view [OF assms, of "Suc (pd_conn (ht_pending t ! n))" n env d] by (simp add: conn_view_def)

lemma callback_answers:
  assumes "undisturbed env" "boundless (ht_server t)" "\<not> pd_wsUpgrade (ht_pending t ! n)"
    and "ConnClosed (pd_conn (ht_pending t ! n)) \<notin> set (sv_out (ht_server t))"
  shows "ht_server (wrappedCallback env script n d t) = sv_emit [ConnWrote (pd_conn (ht_pending t ! n)) (response_bytes d)]
      (on_stats (AddDownloadBytes (se_now env) (pd_clientID (ht_pending t ! n)) (of_nat (length (response_bytes d)))) (ht_server t))"
  using assms by (simp add: wrappedCallback_def Let_def stop_timer_def check_down_boundless write_conn_undisturbed server_simps)

datatype answer_event = Reply SrvEnv "wait_event list" string string string | Expired SrvEnv nat

fun answer_step :: "answer_event \<Rightarrow> HTTPTunnel \<Rightarrow> HTTPTunnel" where
  "answer_step (Reply env script a x d) t = deliver_answer env script a x d t"
| "answer_step (Expired env n) t = request_timeout env n t"

fun event_ok :: "answer_event \<Rightarrow> bool" where
  "event_ok (Reply env script a x d) \<longleftrightarrow> undisturbed env \<and> harmless_script script"
| "event_ok (Expired env n) \<longleftrightarrow> undisturbed env"

fun called :: "answer_event \<Rightarrow> HTTPTunnel \<Rightarrow> nat option" where
  "called (Reply env script a x d) t = awaited t a x"
| "called (Expired env n) t =
     (if ht_timers t n then awaited t (pd_tcpID (ht_pending t ! n)) (pd_requestID (ht_pending t ! n)) else None)"

fun answer_of :: "answer_event \<Rightarrow> byte list" where
  "answer_of (Reply env script a x d) = response_bytes d"
| "answer_of (Expired env n) = response_bytes (buildGatewayTimeoutResponse (se_date env))"

fun event_timer :: "answer_event \<Rightarrow> nat option" where
  "event_timer (Reply env script a x d) = None"
| "event_timer (Expired env n) = Some n"

lemma awaited_unique:
  "http_ok t \<Longrightarrow> awaited t a x = Some n \<Longrightarrow> awaited t b y = Some n \<Longrightarrow> a = b \<and> x = y"
  using awaited_okD(2,3) [OF ok_parts(1)] by metis

lemma take_server [http_simps]: "conn_view c (ht_server (fst (take_pending a x t))) = conn_view c (ht_server t)"
  by (simp add: take_pending_def http_simps split: prod.split)

text \<open>A callback taken and called.\<close>

lemma taken_effect:
  fixes env d
  assumes ok: "http_ok t" and tp: "take_pending a x t1 = (t2, cb)" and t1: "awaited t1 = awaited t" "ht_pending t1 = ht_pending t"
    "ht_server t1 = ht_server t"
    and h: "harmless_script script" and b: "boundless (ht_server t)"
  defines "t' \<equiv> (case cb of None \<Rightarrow> t2 | Some k \<Rightarrow> wrappedCallback env script k d t2)"
  shows "cb = awaited t a x" "ht_pending t' = ht_pending t"
    "awaited t' c y = (if awaited t c y = awaited t a x then None else awaited t c y)"
    "boundless (ht_server t')"
    "(\<And>k. cb = Some k \<Longrightarrow> conn \<noteq> pd_conn (ht_pending t ! k)) \<Longrightarrow> conn_view conn (ht_server t') = conn_view conn (ht_server t)"
    "ht_timers t' m = (cb \<noteq> Some m \<and> ht_timers t1 m)"
proof -
  have t2: "ht_pending t2 = ht_pending t" "ht_timers t2 = ht_timers t1" "conn_view c (ht_server t2) = conn_view c (ht_server t)"
    "awaited t2 b y = (if a = b \<and> x = y then None else awaited t b y)" for c b y
    using take_pending_simps [of a x t1] take_server [of _ a x t1] awaited_take [of a x t1] tp t1 by auto
  show cb: "cb = awaited t a x" using take_pending_simps(4) [of a x t1] tp t1 by simp
  have b2: "boundless (ht_server t2)" using t2(3) b by (simp add: boundless_def conn_view_def)
  show "ht_pending t' = ht_pending t" by (simp add: t'_def t2 callback_same split: option.split)
  show "ht_timers t' m = (cb \<noteq> Some m \<and> ht_timers t1 m)" by (auto simp: t'_def t2 callback_same split: option.split)
  show "boundless (ht_server t')"
    using callback_limiter [OF h b2] b2 by (simp add: t'_def boundless_def split: option.split)
  show "conn_view conn (ht_server t') = conn_view conn (ht_server t)" if "\<And>k. cb = Some k \<Longrightarrow> conn \<noteq> pd_conn (ht_pending t ! k)"
    using that callback_view [OF h b2] by (auto simp: t'_def t2 split: option.split)
  have "awaited t' c y = awaited t2 c y"
    using callback_callbacks [OF harmless_calm [OF h]] by (simp add: t'_def awaited_def split: option.split)
  also have "\<dots> = (if awaited t c y = awaited t a x then None else awaited t c y)"
  proof (cases "awaited t a x")
    case (Some k) with awaited_unique [OF ok this, of c y] show ?thesis by (auto simp: t2)
  qed (auto simp: t2)
  finally show "awaited t' c y = (if awaited t c y = awaited t a x then None else awaited t c y)" .
qed

lemma boundless_finish: "boundless (ht_server (call_finish f t)) = boundless (ht_server t)"
  by (simp add: call_finish_def boundless_def http_simps server_simps split: option.split)

lemma answer_step_effect:
  assumes ok: "http_ok t" and e: "event_ok e" and b: "boundless (ht_server t)"
  defines "t' \<equiv> answer_step e t"
  shows "http_ok t'" "boundless (ht_server t')" "ht_pending t' = ht_pending t"
    "awaited t' c y = (if awaited t c y = called e t then None else awaited t c y)"
    "(\<And>k. called e t = Some k \<Longrightarrow> conn \<noteq> pd_conn (ht_pending t ! k)) \<Longrightarrow> conn_view conn (ht_server t') = conn_view conn (ht_server t)"
    "called e t \<noteq> Some m \<Longrightarrow> event_timer e \<noteq> Some m \<Longrightarrow> ht_timers t' m = ht_timers t m"
proof -
  have "http_ok t' \<and> boundless (ht_server t') \<and> ht_pending t' = ht_pending t
    \<and> awaited t' c y = (if awaited t c y = called e t then None else awaited t c y)
    \<and> ((\<forall>k. called e t = Some k \<longrightarrow> conn \<noteq> pd_conn (ht_pending t ! k)) \<longrightarrow> conn_view conn (ht_server t') = conn_view conn (ht_server t))
    \<and> (called e t \<noteq> Some m \<longrightarrow> event_timer e \<noteq> Some m \<longrightarrow> ht_timers t' m = ht_timers t m)"
  proof (cases e)
    case (Reply env script a x d)
    with e have h: "harmless_script script" by simp
    obtain t2 cb where tp: "take_pending a x t = (t2, cb)" by force
    note eff = taken_effect(1) [OF ok tp refl refl refl h b] taken_effect(2-6) [OF ok tp refl refl refl h b, where env = env and d = d]
    have "t' = (case cb of None \<Rightarrow> t2 | Some k \<Rightarrow> wrappedCallback env script k d t2)"
      by (simp add: t'_def Reply deliver_answer_def tp split: option.split)
    moreover have "http_ok t'" using ok_answer [OF ok harmless_calm [OF h]] by (simp add: t'_def Reply deliver_answer_def)
    ultimately show ?thesis using eff Reply by simp
  next
    case (Expired env n)
    show ?thesis
    proof (cases "ht_timers t n")
      case False with ok b show ?thesis by (simp add: t'_def Expired request_timeout_def)
    next
      case True
      let ?p = "ht_pending t ! n"
      have n: "n < length (ht_pending t)" using True ok by (simp add: http_ok_but_def sessions_ok_def)
      define t1 where "t1 = (if pd_streamed ?p then delete_session (stream_key (pd_tcpID ?p) (pd_requestID ?p)) (stop_timer n t) else stop_timer n t)"
      obtain t2 cb where tp: "take_pending (pd_tcpID ?p) (pd_requestID ?p) t1 = (t2, cb)" by force
      have t1: "awaited t1 = awaited t" "ht_pending t1 = ht_pending t" "ht_server t1 = ht_server t"
        "ht_timers t1 = (ht_timers t)(n := False)"
        by (auto simp: t1_def awaited_def fun_eq_iff delete_session_def stop_timer_def)
      let ?r = "case cb of None \<Rightarrow> t2 | Some k \<Rightarrow> wrappedCallback env [] k (buildGatewayTimeoutResponse (se_date env)) t2"
      have t': "t' = (if pd_wsUpgrade ?p then call_finish (pd_finish ?p) ?r else ?r)"
        using True n tp t1 by (simp add: t'_def Expired request_timeout_def Let_def t1_def split: option.split)
      have h: "harmless_script []" by (simp add: harmless_script_def)
      note eff = taken_effect(1) [OF ok tp t1(1-3) h b]
        taken_effect(2-6) [OF ok tp t1(1-3) h b, where env = env and d = "buildGatewayTimeoutResponse (se_date env)"]
      have "http_ok t'" using ok_timeout [OF ok] by (simp add: t'_def Expired)
      moreover have "boundless (ht_server t')" using eff(4) by (simp add: t' boundless_finish)
      moreover have "ht_pending t' = ht_pending t" using eff(2) by (simp add: t' http_simps)
      moreover have "awaited t' c y = awaited ?r c y" by (simp add: t' awaited_def http_simps)
      moreover have "ht_timers t' m = ht_timers ?r m" by (simp add: t' http_simps)
      moreover have "conn_view conn (ht_server t') = conn_view conn (ht_server ?r)" by (simp add: t' http_simps)
      ultimately show ?thesis using eff(1,3,5,6) True Expired t1(4) by simp
    qed
  qed
  then show "http_ok t'" "boundless (ht_server t')" "ht_pending t' = ht_pending t"
    "awaited t' c y = (if awaited t c y = called e t then None else awaited t c y)"
    "(\<And>k. called e t = Some k \<Longrightarrow> conn \<noteq> pd_conn (ht_pending t ! k)) \<Longrightarrow> conn_view conn (ht_server t') = conn_view conn (ht_server t)"
    "called e t \<noteq> Some m \<Longrightarrow> event_timer e \<noteq> Some m \<Longrightarrow> ht_timers t' m = ht_timers t m"
    by blast+
qed

text \<open>The first of the events that answers request \<open>n\<close>.\<close>

fun answers_request :: "string \<Rightarrow> string \<Rightarrow> nat \<Rightarrow> answer_event \<Rightarrow> bool" where
  "answers_request a x n (Reply env script b y d) \<longleftrightarrow> b = a \<and> y = x"
| "answers_request a x n (Expired env m) \<longleftrightarrow> m = n"

definition first_answer :: "string \<Rightarrow> string \<Rightarrow> nat \<Rightarrow> answer_event list \<Rightarrow> byte list" where
  "first_answer a x n evs = (case List.find (answers_request a x n) evs of None \<Rightarrow> [] | Some e \<Rightarrow> answer_of e)"

text \<open>Nobody else who waits uses connection \<open>c\<close>.\<close>

definition sole :: "nat \<Rightarrow> nat \<Rightarrow> HTTPTunnel \<Rightarrow> bool" where
  "sole c n t \<longleftrightarrow> (\<forall>b y m. awaited t b y = Some m \<longrightarrow> m \<noteq> n \<longrightarrow> pd_conn (ht_pending t ! m) \<noteq> c)"

lemma called_awaited: "called e t = Some k \<Longrightarrow> \<exists>b y. awaited t b y = Some k"
  by (cases e) (auto split: if_splits)

lemma sole_other:
  assumes "sole c n t" "called e t = Some k" "k \<noteq> n"
  shows "c \<noteq> pd_conn (ht_pending t ! k)"
proof -
  obtain b y where "awaited t b y = Some k" using called_awaited [OF assms(2)] by blast
  with assms(1,3) show ?thesis by (auto simp: sole_def)
qed

lemma no_more_answers:
  assumes "http_ok t" "list_all event_ok evs" "boundless (ht_server t)" "sole c n t" "awaited t a x = None"
    and "\<forall>b y. awaited t b y \<noteq> Some n"
  shows "conn_view c (ht_server (fold answer_step evs t)) = conn_view c (ht_server t)"
    "awaited (fold answer_step evs t) a x = None"
proof -
  have "conn_view c (ht_server (fold answer_step evs t)) = conn_view c (ht_server t) \<and> awaited (fold answer_step evs t) a x = None"
    using assms
  proof (induction evs arbitrary: t)
    case (Cons e evs)
    note eff = answer_step_effect [OF Cons.prems(1) _ Cons.prems(3), of e]
    have e: "event_ok e" using Cons.prems(2) by simp
    have "c \<noteq> pd_conn (ht_pending t ! k)" if "called e t = Some k" for k
      using sole_other [OF Cons.prems(4) that] called_awaited [OF that] Cons.prems(6) by auto
    then have "conn_view c (ht_server (answer_step e t)) = conn_view c (ht_server t)" by (rule eff(5) [OF e])
    moreover have "sole c n (answer_step e t)" using Cons.prems(4) by (auto simp: sole_def eff(3) [OF e] eff(4) [OF e] split: if_splits)
    moreover have "awaited (answer_step e t) a x = None" "\<forall>b y. awaited (answer_step e t) b y \<noteq> Some n"
      using Cons.prems(5,6) by (auto simp: eff(4) [OF e])
    ultimately show ?case using Cons.IH [OF eff(1) [OF e] _ eff(2) [OF e]] Cons.prems(2) by simp
  qed simp
  then show "conn_view c (ht_server (fold answer_step evs t)) = conn_view c (ht_server t)"
    "awaited (fold answer_step evs t) a x = None" by blast+
qed

lemma awaited_same: "ht_server t' = ht_server t \<Longrightarrow> awaited t' = awaited t"
  by (simp add: awaited_def fun_eq_iff)

lemma take_pending_on:
  "take_pending a x t = (t', cb) \<Longrightarrow> sv_out (ht_server t') = sv_out (ht_server t) \<and> sv_limiter (ht_server t') = sv_limiter (ht_server t)"
  by (auto simp: take_pending_def on_callbacks_def http_simps server_simps split: prod.splits)

lemma answer_written:
  assumes ok: "http_ok t" and b: "boundless (ht_server t)" and e: "event_ok e" and k: "called e t = Some n"
    and ws: "\<not> pd_wsUpgrade (ht_pending t ! n)" and open_c: "ConnClosed (pd_conn (ht_pending t ! n)) \<notin> set (sv_out (ht_server t))"
  shows "written (pd_conn (ht_pending t ! n)) (sv_out (ht_server (answer_step e t)))
    = written (pd_conn (ht_pending t ! n)) (sv_out (ht_server t)) @ answer_of e"
proof -
  have go: "written (pd_conn (ht_pending t ! n)) (sv_out (ht_server (wrappedCallback env script n d t2)))
      = written (pd_conn (ht_pending t ! n)) (sv_out (ht_server t)) @ response_bytes d"
    if "take_pending a x t1 = (t2, cb)" "ht_server t1 = ht_server t" "ht_pending t1 = ht_pending t" "undisturbed env"
    for env script d a x t1 t2 cb
  proof -
    have "ht_pending t2 = ht_pending t" using take_pending_simps(1) [of a x t1] that by simp
    moreover have "boundless (ht_server t2)" "ConnClosed (pd_conn (ht_pending t ! n)) \<notin> set (sv_out (ht_server t2))"
      using take_pending_on [OF that(1)] that(2) b open_c by (simp_all add: boundless_def)
    ultimately show ?thesis
      using callback_answers [OF that(4), of t2 n script d] ws take_pending_on [OF that(1)] that(2)
      by (simp add: server_simps) (simp add: written_def)
  qed
  show ?thesis
  proof (cases e)
    case (Reply env script a x d)
    obtain t2 cb where tp: "take_pending a x t = (t2, cb)" by force
    have "cb = Some n" using take_pending_simps(4) [of a x t] tp k Reply by simp
    with go [OF tp refl refl] e Reply tp show ?thesis by (simp add: deliver_answer_def)
  next
    case (Expired env m)
    let ?p = "ht_pending t ! m"
    have m: "ht_timers t m" using k Expired by (simp split: if_splits)
    then have len: "m < length (ht_pending t)" using ok by (simp add: http_ok_but_def sessions_ok_def)
    define t1 where "t1 = (if pd_streamed ?p then delete_session (stream_key (pd_tcpID ?p) (pd_requestID ?p)) (stop_timer m t) else stop_timer m t)"
    have t1: "ht_server t1 = ht_server t" "ht_pending t1 = ht_pending t" by (auto simp: t1_def delete_session_def stop_timer_def)
    obtain t2 cb where tp: "take_pending (pd_tcpID ?p) (pd_requestID ?p) t1 = (t2, cb)" by force
    have cb: "cb = Some n" using take_pending_simps(4) [of "pd_tcpID ?p" "pd_requestID ?p" t1] tp k Expired m awaited_same [OF t1(1)] by simp
    have "written c (sv_out (ht_server (call_finish f t3))) = written c (sv_out (ht_server t3))" for c f t3
      using finish_view [of c f t3] by (simp add: conn_view_def)
    with go [OF tp t1] e Expired m len tp cb show ?thesis by (simp add: request_timeout_def Let_def t1_def [symmetric])
  qed
qed

text \<open>C6: A request that waits is answered exactly once. In any interleaving of answers of the client and of timers
  (of this request and of others), the first event for the request, its answer or its timer, decides what its connection is
  sent, that is sent once, and everything that comes later is dropped.\<close>

theorem answered_exactly_once:
  assumes "http_ok t" "boundless (ht_server t)" "list_all event_ok evs"
    and "awaited t a x = Some n" "ht_timers t n" "\<not> pd_wsUpgrade (ht_pending t ! n)"
    and "pd_conn (ht_pending t ! n) = c" "ConnClosed c \<notin> set (sv_out (ht_server t))" "sole c n t"
    and "\<forall>m < length (ht_pending t). m \<noteq> n \<longrightarrow> (pd_tcpID (ht_pending t ! m), pd_requestID (ht_pending t ! m)) \<noteq> (a, x)"
  shows "written c (sv_out (ht_server (fold answer_step evs t))) = written c (sv_out (ht_server t)) @ first_answer a x n evs
    \<and> awaited (fold answer_step evs t) a x = (if list_ex (answers_request a x n) evs then None else Some n)"
  using assms
proof (induction evs arbitrary: t)
  case (Cons e evs)
  note ok = Cons.prems(1) and unique = Cons.prems(10)
  have e: "event_ok e" "list_all event_ok evs" using Cons.prems(3) by simp_all
  note eff = answer_step_effect [OF ok e(1) Cons.prems(2)]
  have ids: "pd_tcpID (ht_pending t ! n) = a" "pd_requestID (ht_pending t ! n) = x"
    using awaited_okD(2,3) [OF ok_parts(1) [OF ok] Cons.prems(4)] by simp_all
  have called_n: "called e t = Some n \<longleftrightarrow> answers_request a x n e"
  proof (cases e)
    case (Reply env script b y d)
    with Cons.prems(4) awaited_unique [OF ok Cons.prems(4), of b y] show ?thesis by auto
  next
    case (Expired env m)
    show ?thesis
    proof (cases "ht_timers t m \<and> m \<noteq> n")
      case True
      then have "m < length (ht_pending t)" using ok by (simp add: http_ok_but_def sessions_ok_def)
      with True unique have "(pd_tcpID (ht_pending t ! m), pd_requestID (ht_pending t ! m)) \<noteq> (a, x)" by blast
      with awaited_unique [OF ok Cons.prems(4)] True Expired show ?thesis by auto
    qed (use Expired Cons.prems(4,5) ids in auto)
  qed
  have sole: "sole c n (answer_step e t)" using Cons.prems(9) by (auto simp: sole_def eff(3,4) split: if_splits)
  show ?case
  proof (cases "answers_request a x n e")
    case True
    then have k: "called e t = Some n" using called_n by simp
    have gone: "awaited (answer_step e t) a x = None" "\<forall>b y. awaited (answer_step e t) b y \<noteq> Some n"
      using Cons.prems(4) k by (auto simp: eff(4))
    note rest = no_more_answers [OF eff(1) e(2) eff(2) sole gone]
    have "written c (sv_out (ht_server (answer_step e t))) = written c (sv_out (ht_server t)) @ answer_of e"
      using answer_written [OF ok Cons.prems(2) e(1) k Cons.prems(6)] Cons.prems(7,8) by simp
    with rest True show ?thesis by (simp add: conn_view_def first_answer_def)
  next
    case False
    then have nk: "called e t \<noteq> Some n" using called_n by simp
    have "c \<noteq> pd_conn (ht_pending t ! k)" if "called e t = Some k" for k
      using sole_other [OF Cons.prems(9) that] that nk by auto
    then have same: "conn_view c (ht_server (answer_step e t)) = conn_view c (ht_server t)" by (rule eff(5))
    have tm: "event_timer e \<noteq> Some n" using False by (cases e) auto
    have "awaited (answer_step e t) a x = Some n" using Cons.prems(4) nk by (auto simp: eff(4))
    moreover have "ht_timers (answer_step e t) n" using eff(6) [OF nk tm] Cons.prems(5) by simp
    moreover have "ConnClosed c \<notin> set (sv_out (ht_server (answer_step e t)))" "written c (sv_out (ht_server (answer_step e t))) = written c (sv_out (ht_server t))"
      using same Cons.prems(8) by (simp_all add: conn_view_def)
    ultimately show ?thesis
      using Cons.IH [OF eff(1,2) e(2)] Cons.prems(6,7) unique sole False by (simp add: eff(3) first_answer_def)
  qed
qed (simp add: first_answer_def)

section \<open>Closed connections\<close>

lemma forgotten_take: "awaited t a x = None \<Longrightarrow> take_pending a x t = (t, None)"
proof -
  assume "awaited t a x = None"
  then have "callback_Take a x (cx_Callbacks (sv_ctx (ht_server t))) = (cx_Callbacks (sv_ctx (ht_server t)), None)"
    by (auto simp: awaited_def stored_callbacks_def callback_Take_def callback_Get_def split: option.splits)
  then show ?thesis by (simp add: take_pending_def on_server_def on_callbacks_def on_ctx_def)
qed

lemma leave_effect:
  assumes "http_ok t" "uuid_like (sc_tcpID sc)" "leave sc c t = (t', c')"
  shows "hc_phase c' = Gone \<and> sv_out (ht_server t') = sv_out (ht_server t) @ [ConnClosed (hc_conn c)]"
    "awaited t' b y = (if b = sc_tcpID sc then None else awaited t b y)"
    "deliver_answer env script (sc_tcpID sc) x d t' = t'"
    "dispatchSemanticClientResponse env (sc_tcpID sc) x ty bs fin t' = (t', False)"
    "n < length (ht_pending t) \<Longrightarrow> pd_tcpID (ht_pending t ! n) = sc_tcpID sc \<Longrightarrow>
       written k (sv_out (ht_server (request_timeout env n t'))) = written k (sv_out (ht_server t))"
    "uuid_like b \<Longrightarrow> b \<noteq> sc_tcpID sc \<Longrightarrow>
       map_of (ht_streamResp t') (stream_key b y) = map_of (ht_streamResp t) (stream_key b y)"
    "n < length (ht_pending t) \<Longrightarrow> pd_tcpID (ht_pending t ! n) \<noteq> sc_tcpID sc \<Longrightarrow> ht_timers t' n = ht_timers t n"
proof -
  let ?a = "sc_tcpID sc"
  have t': "t' = cleanup (hc_conn c) ?a t" "hc_phase c' = Gone" using assms(3) by (auto simp: leave_def)
  note eff = cleanup_effect [OF assms(1,2), of "hc_conn c", folded t'(1)]
  show "hc_phase c' = Gone \<and> sv_out (ht_server t') = sv_out (ht_server t) @ [ConnClosed (hc_conn c)]"
    using t'(2) eff(5) by simp
  show "awaited t' b y = (if b = ?a then None else awaited t b y)" by (rule eff(2))
  show "deliver_answer env script ?a x d t' = t'" by (simp add: deliver_answer_def forgotten_take eff(2))
  show "dispatchSemanticClientResponse env ?a x ty bs fin t' = (t', False)"
    by (simp add: dispatchSemanticClientResponse_def Let_def eff(3))
  show "written k (sv_out (ht_server (request_timeout env n t'))) = written k (sv_out (ht_server t))"
    if n: "n < length (ht_pending t)" "pd_tcpID (ht_pending t ! n) = ?a"
  proof -
    have aw: "awaited t1 ?a x = awaited t' ?a x" if "ht_server t1 = ht_server t'" for t1 x using awaited_same [OF that] by simp
    have "written k (sv_out (ht_server (call_finish f t1))) = written k (sv_out (ht_server t1))" for f t1
      using finish_view [of k f t1] by (simp add: conn_view_def)
    then have "written k (sv_out (ht_server (request_timeout env n t'))) = written k (sv_out (ht_server t'))"
      using n by (simp add: request_timeout_def Let_def eff(2,4) forgotten_take aw delete_session_def stop_timer_def)
    then show ?thesis by (simp add: eff(5)) (simp add: written_def)
  qed
  show "map_of (ht_streamResp t') (stream_key b y) = map_of (ht_streamResp t) (stream_key b y)" if b: "uuid_like b" "b \<noteq> ?a"
  proof -
    have "map_of (filter (\<lambda>(k, e). \<not> HasPrefix k (?a @ '':'')) xs) (stream_key b y) = map_of xs (stream_key b y)" for xs :: "(string \<times> StreamSession) list"
      by (induction xs) (use key_prefix [OF assms(2) b(1)] b(2) in auto)
    then show ?thesis by (simp add: eff(6))
  qed
  show "ht_timers t' n = ht_timers t n" if n: "n < length (ht_pending t)" "pd_tcpID (ht_pending t ! n) \<noteq> ?a"
  proof -
    have "ss_timer s \<noteq> Some n" if s: "(k, s) \<in> set (ht_streamResp t)" "HasPrefix k (?a @ '':'')" for k s
    proof
      assume "ss_timer s = Some n"
      moreover obtain m where "m < length (ht_pending t)" "session_of m (ht_pending t ! m) (k, s)" by (rule session_cases [OF assms(1) s(1)])
      ultimately have "k = stream_key (pd_tcpID (ht_pending t ! n)) (pd_requestID (ht_pending t ! n))" by (auto simp: session_of_def)
      with s(2) key_prefix [OF assms(2) pending_uuid [OF assms(1) n(1)]] n(2) show False by simp
    qed
    then show ?thesis unfolding t'(1)
      by (auto simp: cleanup_def Let_def fold_stop_timer http_simps List.map_filter_def)
  qed
qed

text \<open>C8: When the goroutine of a connection returns, the connection is closed, nobody waits for its requests any more and its
  stream sessions are gone: answers and frames that still come for it change nothing, its timers write
  nothing, and requests, sessions and timers of other connections are as they were.\<close>

theorem closed_connection_is_forgotten:
  assumes "http_ok t" "uuid_like (sc_tcpID sc)" "leave sc c t = (t', c')"
  shows "hc_phase c' = Gone \<and> sv_out (ht_server t') = sv_out (ht_server t) @ [ConnClosed (hc_conn c)]
    \<and> (\<forall>b y. awaited t' b y = (if b = sc_tcpID sc then None else awaited t b y))
    \<and> (\<forall>env script x d. deliver_answer env script (sc_tcpID sc) x d t' = t')
    \<and> (\<forall>env x ty bs fin. dispatchSemanticClientResponse env (sc_tcpID sc) x ty bs fin t' = (t', False))
    \<and> (\<forall>n < length (ht_pending t). if pd_tcpID (ht_pending t ! n) = sc_tcpID sc
         then \<forall>env k. written k (sv_out (ht_server (request_timeout env n t'))) = written k (sv_out (ht_server t))
         else ht_timers t' n = ht_timers t n)
    \<and> (\<forall>b y. uuid_like b \<longrightarrow> b \<noteq> sc_tcpID sc \<longrightarrow>
         map_of (ht_streamResp t') (stream_key b y) = map_of (ht_streamResp t) (stream_key b y))"
  using leave_effect [OF assms] by simp

end
