(* ===== verification/HttpTraffic.thy ===== *)
theory HttpTraffic
  imports HttpAnswers
begin

text \<open>
  What passes through the HTTP tunnel: streamed answers and uploads arrive whole and in order, requests are
  forwarded only with the right credentials and only to one tunnel, and a request and its answer
  make the round trip between a browser and the client.
\<close>

section \<open>Streamed answers\<close>

type_synonym response_frame = "byte \<times> byte list \<times> bool"

definition ends_answer :: "response_frame \<Rightarrow> bool" where
  "ends_answer = (\<lambda>(ty, bs, fin). fin \<and> (ty = MessageTypeHTTPResponseHead \<or> ty = MessageTypeHTTPResponseBody))"

definition frame_bytes :: "response_frame list \<Rightarrow> byte list" where
  "frame_bytes fs = concat (map (\<lambda>(ty, bs, fin). bs) fs)"

fun relay_frames :: "SrvEnv \<Rightarrow> string \<Rightarrow> string \<Rightarrow> response_frame list \<Rightarrow> HTTPTunnel \<Rightarrow> HTTPTunnel" where
  "relay_frames env a x [] t = t"
| "relay_frames env a x ((ty, bs, fin) # fs) t =
     relay_frames env a x fs (fst (dispatchSemanticClientResponse env a x ty bs fin t))"

text \<open>A session that can go on: its connection is open.\<close>

definition streaming :: "string \<Rightarrow> string \<Rightarrow> StreamSession \<Rightarrow> HTTPTunnel \<Rightarrow> bool" where
  "streaming a x sess t \<longleftrightarrow>
     map_of (ht_streamResp t) (stream_key a x) = Some sess
     \<and> ConnClosed (ss_conn sess) \<notin> set (sv_out (ht_server t)) \<and> boundless (ht_server t)"

lemma finish_session_same:
  "sv_out (ht_server (finishStreamResponseSession a x t)) = sv_out (ht_server t)"
  "cx_TrafficStats (sv_ctx (ht_server (finishStreamResponseSession a x t))) = cx_TrafficStats (sv_ctx (ht_server t))"
  "map_of (ht_streamResp (finishStreamResponseSession a x t)) (stream_key a x) = None"
  by (simp_all add: finishStreamResponseSession_def take_pending_def on_callbacks_def on_ctx_def http_simps server_simps
      delete_session_def delete_conv' split: prod.split)

lemma finish_session_awaited: "awaited (finishStreamResponseSession a x t) a x = None"
  by (simp add: finishStreamResponseSession_def awaited_take)

lemma one_frame:
  fixes ty bs fin
  assumes env: "undisturbed env" and s: "streaming a x sess t"
  defines "t' \<equiv> fst (dispatchSemanticClientResponse env a x ty bs fin t)"
  shows "snd (dispatchSemanticClientResponse env a x ty bs fin t)"
    "sv_out (ht_server t') = sv_out (ht_server t) @ [ConnWrote (ss_conn sess) bs]"
    "cx_TrafficStats (sv_ctx (ht_server t')) =
       AddDownloadBytes (se_now env) (ss_clientID sess) (of_nat (length bs)) (cx_TrafficStats (sv_ctx (ht_server t)))"
    "if ends_answer (ty, bs, fin) then map_of (ht_streamResp t') (stream_key a x) = None \<and> awaited t' a x = None
     else streaming a x (sess\<lparr>ss_timer := None\<rparr>) t'"
proof -
  define t1 where "t1 = put_session (stream_key a x) (sess\<lparr>ss_timer := None\<rparr>) (case ss_timer sess of None \<Rightarrow> t | Some n \<Rightarrow> stop_timer n t)"
  have t1: "ht_server t1 = ht_server t" "map_of (ht_streamResp t1) (stream_key a x) = Some (sess\<lparr>ss_timer := None\<rparr>)"
    by (auto simp: t1_def put_session_def stop_timer_def update_conv' split: option.split)
  define s' where "s' = sv_emit [ConnWrote (ss_conn sess) bs]
    (on_stats (AddDownloadBytes (se_now env) (ss_clientID sess) (of_nat (length bs))) (ht_server t))"
  have run: "dispatchSemanticClientResponse env a x ty bs fin t =
    (if ends_answer (ty, bs, fin) then finishStreamResponseSession a x (t1\<lparr>ht_server := s'\<rparr>) else t1\<lparr>ht_server := s'\<rparr>, True)"
    using s unfolding streaming_def dispatchSemanticClientResponse_def
    by (auto simp: t1_def [symmetric] Let_def t1(1) check_down_boundless write_conn_undisturbed [OF env] server_simps s'_def ends_answer_def)
  show "snd (dispatchSemanticClientResponse env a x ty bs fin t)" by (simp add: run)
  show "sv_out (ht_server t') = sv_out (ht_server t) @ [ConnWrote (ss_conn sess) bs]"
    "cx_TrafficStats (sv_ctx (ht_server t')) =
       AddDownloadBytes (se_now env) (ss_clientID sess) (of_nat (length bs)) (cx_TrafficStats (sv_ctx (ht_server t)))"
    by (simp_all add: t'_def run finish_session_same s'_def server_simps)
  show "if ends_answer (ty, bs, fin) then map_of (ht_streamResp t') (stream_key a x) = None \<and> awaited t' a x = None
     else streaming a x (sess\<lparr>ss_timer := None\<rparr>) t'"
    using s by (simp add: t'_def run finish_session_same finish_session_awaited streaming_def t1 s'_def server_simps boundless_def)
qed

lemma frames_in_order:
  assumes "undisturbed env" "streaming a x sess t" "list_all (Not \<circ> ends_answer) fs"
  shows "\<exists>sess'. streaming a x sess' (relay_frames env a x fs t) \<and> ss_conn sess' = ss_conn sess \<and> ss_clientID sess' = ss_clientID sess
    \<and> written (ss_conn sess) (sv_out (ht_server (relay_frames env a x fs t)))
        = written (ss_conn sess) (sv_out (ht_server t)) @ frame_bytes fs
    \<and> cx_TrafficStats (sv_ctx (ht_server (relay_frames env a x fs t)))
        = fold (\<lambda>(ty, bs, fin). AddDownloadBytes (se_now env) (ss_clientID sess) (of_nat (length bs))) fs (cx_TrafficStats (sv_ctx (ht_server t)))"
  using assms(2,3)
proof (induction fs arbitrary: t sess)
  case (Cons f fs)
  obtain ty bs fin where f: "f = (ty, bs, fin)" by (cases f)
  note one = one_frame [OF assms(1) Cons.prems(1), of ty bs fin]
  have "streaming a x (sess\<lparr>ss_timer := None\<rparr>) (fst (dispatchSemanticClientResponse env a x ty bs fin t))"
    using one(4) Cons.prems(2) f by simp
  from Cons.IH [OF this] Cons.prems(2) one(2,3) show ?case
    by (simp add: f frame_bytes_def) (simp add: written_def)
qed (auto simp: frame_bytes_def)

text \<open>C9: The frames of a streamed answer are written to the browser's connection one after the other, unchanged and
  complete, and counted for the client; the last one ends the session and the wait, and a frame that
  comes after it is not consumed.\<close>

theorem streamed_answer_in_order:
  assumes "undisturbed env" "streaming a x sess t" "list_all (Not \<circ> ends_answer) fs" "ends_answer f"
  defines "t' \<equiv> relay_frames env a x (fs @ [f]) t"
  shows "written (ss_conn sess) (sv_out (ht_server t')) = written (ss_conn sess) (sv_out (ht_server t)) @ frame_bytes (fs @ [f])
    \<and> cx_TrafficStats (sv_ctx (ht_server t'))
        = fold (\<lambda>(ty, bs, fin). AddDownloadBytes (se_now env) (ss_clientID sess) (of_nat (length bs))) (fs @ [f]) (cx_TrafficStats (sv_ctx (ht_server t)))
    \<and> awaited t' a x = None \<and> (\<forall>ty bs fin. dispatchSemanticClientResponse env a x ty bs fin t' = (t', False))"
proof -
  obtain ty bs fin where f: "f = (ty, bs, fin)" by (cases f)
  obtain sess' where s: "streaming a x sess' (relay_frames env a x fs t)" "ss_conn sess' = ss_conn sess" "ss_clientID sess' = ss_clientID sess"
    "written (ss_conn sess) (sv_out (ht_server (relay_frames env a x fs t))) = written (ss_conn sess) (sv_out (ht_server t)) @ frame_bytes fs"
    "cx_TrafficStats (sv_ctx (ht_server (relay_frames env a x fs t)))
        = fold (\<lambda>(ty, bs, fin). AddDownloadBytes (se_now env) (ss_clientID sess) (of_nat (length bs))) fs (cx_TrafficStats (sv_ctx (ht_server t)))"
    using frames_in_order [OF assms(1-3)] by blast
  have app: "relay_frames env a x (fs @ [(ty, bs, fin)]) t = fst (dispatchSemanticClientResponse env a x ty bs fin (relay_frames env a x fs t))" for fs
    by (induction fs arbitrary: t) auto
  note one = one_frame [OF assms(1) s(1), of ty bs fin]
  have "map_of (ht_streamResp t') (stream_key a x) = None \<and> awaited t' a x = None"
    using one(4) assms(4) by (simp add: t'_def app f)
  then show ?thesis
    using one(2,3) s(2-5) by (simp add: t'_def app f frame_bytes_def dispatchSemanticClientResponse_def Let_def) (simp add: written_def)
qed

section \<open>Streamed uploads\<close>

text \<open>The reference: the pieces a body of length \<open>L\<close> is sent in, when reading gives the byte strings \<open>bss\<close>.\<close>

function body_pieces :: "nat \<Rightarrow> byte list list \<Rightarrow> (byte list \<times> bool) list" where
  "body_pieces L bss =
     (if L = 0 then []
      else case bss of
        [] \<Rightarrow> []
      | bs # rest \<Rightarrow>
          if bs = [] then body_pieces L rest
          else let p = take (min 32768 L) bs
               in (p, length p = L) # body_pieces (L - length p) (if length bs > length p then drop (length p) bs # rest else rest))"
  by pat_completeness auto
termination
  by (relation "measure (\<lambda>(L, bss). L + length bss)") (auto simp: min_def Let_def split: if_splits)

declare body_pieces.simps [simp del]

fun send_pieces :: "Env \<Rightarrow> nat \<Rightarrow> string \<Rightarrow> (byte list \<times> bool) list \<Rightarrow> HTTPTunnel \<Rightarrow> HTTPTunnel \<times> proc_result" where
  "send_pieces env a sid [] t = (t, Returned)"
| "send_pieces env a sid ((p, fin) # ps) t =
     (case send_via_tunnel a (pa_SendHTTPRequestBody env sid p fin) t of
        (t, Sent) \<Rightarrow> send_pieces env a sid ps t
      | (t, NotSent) \<Rightarrow> (t, Failed SendError)
      | (t, Stuck x) \<Rightarrow> (t, NoReturn x))"

definition plain_reads :: "byte list list \<Rightarrow> (byte list \<times> read_error option) list" where
  "plain_reads bss = map (\<lambda>bs. (bs, None)) bss"

definition at_end :: "bool \<Rightarrow> HTTPTunnel \<times> proc_result \<Rightarrow> HTTPTunnel \<times> proc_result" where
  "at_end short r = (case r of (t, Returned) \<Rightarrow> (t, if short then Failed UnexpectedEOF else Returned) | _ \<Rightarrow> r)"

lemma at_end_simps [simp]:
  "at_end s (t, Returned) = (t, if s then Failed UnexpectedEOF else Returned)" "at_end s (t, Failed e) = (t, Failed e)"
  "at_end s (t, NoReturn x) = (t, NoReturn x)"
  by (simp_all add: at_end_def)

lemma taken_piece:
  "bs @ concat rest = take n bs @ concat (if length (take n bs) < length bs then drop (length (take n bs)) bs # rest else rest)"
proof (cases "n < length bs")
  case True
  then have "length (take n bs) = n" by simp
  with True show ?thesis by (simp del: length_take)
qed simp

lemma next_piece:
  fixes rest
  assumes "L \<noteq> 0" "bs \<noteq> []"
  defines "p \<equiv> take (min 32768 L) bs"
  defines "rest' \<equiv> (if length p < length bs then drop (length p) bs # rest else rest)"
  shows "body_pieces L (bs # rest) = (p, length p = L) # body_pieces (L - length p) rest'"
    "p \<noteq> []" "length p \<le> L" "length p \<le> 32768" "bs @ concat rest = p @ concat rest'"
    "(if length bs > min (32 * 1024) L then (None, (drop (min (32 * 1024) L) bs, None) # plain_reads rest) else (None, plain_reads rest))
      = (None :: read_error option, plain_reads rest')"
proof -
  show "body_pieces L (bs # rest) = (p, length p = L) # body_pieces (L - length p) rest'"
    unfolding body_pieces.simps [of L "bs # rest"] p_def rest'_def Let_def using assms(1,2) by (simp del: length_take)
  show "bs @ concat rest = p @ concat rest'" unfolding p_def rest'_def by (rule taken_piece)
  show "(if length bs > min (32 * 1024) L then (None, (drop (min (32 * 1024) L) bs, None) # plain_reads rest) else (None, plain_reads rest))
      = (None :: read_error option, plain_reads rest')"
    by (auto simp: p_def rest'_def plain_reads_def min_def)
qed (use assms(1,2) in \<open>auto simp: p_def\<close>)

lemma send_body_pieces:
  "send_body env a sid L (plain_reads bss) t = at_end (length (concat bss) < L) (send_pieces env a sid (body_pieces L bss) t)"
proof (induction L bss arbitrary: t rule: body_pieces.induct)
  case (1 L bss)
  show ?case
  proof (cases "L = 0 \<or> bss = []")
    case True then show ?thesis
      by (cases "L = 0") (simp_all add: send_body.simps [of env a sid L] send_body.simps [of env a sid 0]
          body_pieces.simps [of L] body_pieces.simps [of 0] plain_reads_def)
  next
    case False
    then obtain bs rest where b: "L \<noteq> 0" "bss = bs # rest" by (cases bss) auto
    show ?thesis
    proof (cases "bs = []")
      case True
      with 1(1) [OF b True] b show ?thesis
        by (simp add: send_body.simps [of env a sid L "([], None) # _"] body_pieces.simps [of L "[] # rest"] plain_reads_def Let_def)
    next
      case False
      define p where "p = take (min 32768 L) bs"
      define rest' where "rest' = (if length p < length bs then drop (length p) bs # rest else rest)"
      note np = next_piece(1) [OF b(1) False, of rest, folded p_def, folded rest'_def]
        next_piece(2-4) [OF b(1) False, folded p_def]
        next_piece(5,6) [OF b(1) False, of rest, folded p_def, folded rest'_def]
      have IH: "send_body env a sid (L - length p) (plain_reads rest') t
          = at_end (length (concat rest') < L - length p) (send_pieces env a sid (body_pieces (L - length p) rest') t)" for t
        using 1(2) [OF b False p_def] by (simp add: rest'_def)
      have short: "length (concat rest') < L - length p \<longleftrightarrow> length (concat bss) < L"
        using arg_cong [OF np(5), of length] np(3) by (simp add: b(2)) linarith
      have zero: "(L - length p = 0) = (length p = L)" using np(3) by auto
      have piece: "take (min (32 * 1024) L) bs = p" by (simp add: p_def)
      have reads: "plain_reads (bs # rest) = (bs, None) # plain_reads rest" by (simp add: plain_reads_def)
      show ?thesis
        unfolding b(2) np(1) reads send_body.simps [of env a sid L "(bs, None) # plain_reads rest"] list.case Let_def piece np(6) prod.case zero
        using b(1) np(2) by (simp add: IH short [unfolded b(2)] split: prod.split send_result.split)
    qed
  qed
qed

lemma body_pieces_facts:
  "concat (map fst (body_pieces L bss)) = take L (concat bss)
   \<and> (\<forall>(p, fin) \<in> set (body_pieces L bss). p \<noteq> [] \<and> length p \<le> 32768)
   \<and> map snd (body_pieces L bss) = replicate (length (body_pieces L bss) - 1) False
       @ (if body_pieces L bss = [] then [] else [length (concat bss) \<ge> L])"
proof (induction L bss rule: body_pieces.induct)
  case (1 L bss)
  show ?case
  proof (cases "L = 0 \<or> bss = []")
    case True then show ?thesis by (auto simp: body_pieces.simps [of L bss])
  next
    case False
    then obtain bs rest where b: "L \<noteq> 0" "bss = bs # rest" by (cases bss) auto
    show ?thesis
    proof (cases "bs = []")
      case True with 1(1) [OF b True] b show ?thesis by (simp add: body_pieces.simps [of L "[] # rest"])
    next
      case False
      define p where "p = take (min 32768 L) bs"
      define rest' where "rest' = (if length p < length bs then drop (length p) bs # rest else rest)"
      note np = next_piece(1) [OF b(1) False, of rest, folded p_def, folded rest'_def]
        next_piece(2-4) [OF b(1) False, folded p_def]
        next_piece(5,6) [OF b(1) False, of rest, folded p_def, folded rest'_def]
      let ?ps = "body_pieces (L - length p) rest'"
      note IH = 1(2) [OF b False p_def, folded rest'_def]
      have t: "take L (concat bss) = p @ take (L - length p) (concat rest')" and
        enough: "(length (concat rest') \<ge> L - length p) = (length (concat bss) \<ge> L)"
        using np(3) arg_cong [OF np(5), of length] by (simp_all add: b(2) np(5)) linarith
      show ?thesis
      proof (cases ?ps)
        case Nil
        then have z: "take (L - length p) (concat rest') = []" using IH by simp
        then have "L - length p = 0 \<or> length (concat rest') = 0" by (metis take_eq_Nil length_0_conv)
        then have "(length p = L) = (length (concat bss) \<ge> L)" using np(3) enough by linarith
        moreover note z
        ultimately show ?thesis using np(2,4) unfolding b(2) np(1) t [unfolded b(2)] Nil by simp
      next
        case (Cons q qs)
        then have "length p \<noteq> L" using np(3) by (auto simp: body_pieces.simps [of 0])
        with IH np(2,4) Cons show ?thesis unfolding b(2) np(1) t [unfolded b(2)] enough [unfolded b(2)] by simp
      qed
    qed
  qed
qed

text \<open>C10: The body of a streamed request goes out in pieces of at most 32 KiB that make up its first
  \<open>Content-Length\<close> bytes, in order, however the input arrives; the last piece, and no other, carries the end mark. If
  the input ends early, the pieces read so far are sent without an end mark and the request fails.\<close>

theorem upload_is_sent_whole:
  "send_body env a sid L (plain_reads bss) t = at_end (length (concat bss) < L) (send_pieces env a sid (body_pieces L bss) t)
   \<and> concat (map fst (body_pieces L bss)) = take L (concat bss)
   \<and> (\<forall>(p, fin) \<in> set (body_pieces L bss). p \<noteq> [] \<and> length p \<le> 32768)
   \<and> map snd (body_pieces L bss) = replicate (length (body_pieces L bss) - 1) False
       @ (if body_pieces L bss = [] then [] else [length (concat bss) \<ge> L])"
  using send_body_pieces body_pieces_facts by blast

end
