(* ===== verification/HttpAccess.thy ===== *)
theory HttpAccess
  imports HttpLaws
begin

text \<open>
  Who gets to see a browser's request: every send of the HTTP tunnel goes to the client whose
  tunnel the connection belongs to, and only for requests that carry its credentials.
\<close>

section \<open>Sends\<close>

text \<open>From \<open>s\<close> to \<open>s'\<close> nothing is sent except through adapter \<open>A\<close> and socket \<open>W\<close>.\<close>

definition sends_to :: "nat option \<Rightarrow> nat option \<Rightarrow> Server \<Rightarrow> Server \<Rightarrow> bool" where
  "sends_to A W s s' \<longleftrightarrow>
     (\<forall>i. Some i \<noteq> A \<longrightarrow> sv_adapters s' i = sv_adapters s i)
     \<and> (\<exists>evs. sv_out s' = sv_out s @ evs \<and> (\<forall>ws m. MonitorSent ws m \<in> set evs \<longrightarrow> Some ws = W))"

abbreviation silent :: "Server \<Rightarrow> Server \<Rightarrow> bool" where "silent \<equiv> sends_to None None"

lemma sends_toI: "sv_adapters s' = sv_adapters s \<Longrightarrow> sv_out s' = sv_out s @ evs \<Longrightarrow> (\<And>ws m. MonitorSent ws m \<notin> set evs) \<Longrightarrow> sends_to A W s s'"
  by (auto simp: sends_to_def)

lemma sends_to_refl [simp]: "sends_to A W s s"
  by (simp add: sends_to_def)

lemma sends_to_trans [trans]: "sends_to A W s s' \<Longrightarrow> sends_to A W s' s'' \<Longrightarrow> sends_to A W s s''"
  unfolding sends_to_def by (elim conjE exE, intro conjI) (simp, rule exI [of _ "_ @ _"], auto)

lemma silent_sends: "silent s s' \<Longrightarrow> sends_to A W s s'"
  by (auto simp: sends_to_def)

lemma silent_write: "write_conn env c bs s = (s', ok) \<Longrightarrow> silent s s'"
  by (auto simp: write_conn_def sv_emit_def split: if_splits option.splits intro!: sends_toI)

lemma silent_close: "silent s (close_conn c s)"
  by (rule sends_toI [of _ _ "[ConnClosed c]"]) (simp_all add: server_simps)

lemma silent_emit: "silent s (sv_emit [HandlerDone f] s)"
  by (rule sends_toI [of _ _ "[HandlerDone f]"]) (simp_all add: server_simps)

lemma silent_same: "sv_adapters s' = sv_adapters s \<Longrightarrow> sv_out s' = sv_out s \<Longrightarrow> silent s s'"
  by (rule sends_toI [of _ _ "[]"]) simp_all

lemma silent_destroy: "silent s (destroyConnection env c s)"
  unfolding destroyConnection_def by (rule sends_to_trans [OF silent_write silent_close]) (rule prod.collapse [symmetric])

lemma silent_answer: "silent s (writeUnauthorized env c auths s)" "silent s (writeRequestEntityTooLarge env c s)"
  unfolding writeUnauthorized_def writeRequestEntityTooLarge_def
  by (rule silent_write, rule prod.collapse [symmetric], rule sends_to_trans [OF silent_write silent_close], rule prod.collapse [symmetric])

lemma silent_check: "check_up clk k n s = (s', ok) \<Longrightarrow> silent s s'"
  using check_same(1,3) [of clk k n s] by (auto intro: silent_same)

lemma silent_finish: "silent (ht_server t) (ht_server (call_finish fin t))"
  by (auto simp: call_finish_def http_simps silent_emit split: option.split)

lemma silent_take: "silent s (ht_server (fst (take_pending a x t)))" if "silent s (ht_server t)"
proof -
  have "silent (ht_server t) (ht_server (fst (take_pending a x t)))"
    by (rule silent_same) (simp_all add: take_pending_def http_simps on_callbacks_def server_simps split: prod.split)
  with that show ?thesis by (rule sends_to_trans)
qed

lemma silent_send_failed: "silent (ht_server t) (ht_server (send_failed env n t))"
proof -
  let ?p = "ht_pending t ! n"
  define t1 where "t1 = fst (take_pending (pd_tcpID ?p) (pd_requestID ?p)
    (if pd_streamed ?p then delete_session (stream_key (pd_tcpID ?p) (pd_requestID ?p)) (stop_timer n t) else stop_timer n t))"
  have "silent (ht_server t) (ht_server t1)"
    unfolding t1_def by (rule silent_take) (simp add: delete_session_def stop_timer_def)
  also have "silent (ht_server t1) (ht_server (on_server (destroyConnection env (pd_conn ?p)) t1))"
    by (simp add: http_simps silent_destroy)
  also note silent_finish
  finally show ?thesis by (simp add: send_failed_def Let_def t1_def)
qed

lemma sends_via: "send_via_tunnel a send t = (t', res) \<Longrightarrow> sends_to (Some a) W (ht_server t) (ht_server t')"
  by (auto simp: send_via_tunnel_def send_via_def sends_to_def server_simps split: prod.splits option.splits)

lemma sends_ws: "ws_write env ws m s = (s', ok) \<Longrightarrow> sends_to A (Some ws) s s'"
  by (auto simp: ws_write_def sends_to_def server_simps split: if_splits)

lemma mapping_adapter_Some: "mapping_adapter s dm = Some a \<Longrightarrow> dm_Adapter dm = Some a"
  by (auto simp: mapping_adapter_def as_adapter_def split: option.splits if_splits)

section \<open>Requests\<close>

text \<open>What \<open>admit\<close> lets through belongs to the connection's subdomain and is authorized.\<close>

lemma admit_facts:
  assumes "admit env conn r n sc t = (t', sc', res)"
  shows "silent (ht_server t) (ht_server t')" "sc_subDomain sc' = sc_subDomain sc" "sc_domain sc' = sc_domain sc" "sc_isWS sc' = sc_isWS sc"
    "res = Ok dm \<Longrightarrow> mapping_of t (sc_subDomain sc) = Some dm \<and> isHTTPRequestAuthorized r (dm_HTTPAuths dm) \<and> dm_WSSocket dm \<noteq> None"
proof -
  have cu: "check_up clk k m (on_ctx f s) = (s', ok) \<Longrightarrow> silent s s'" for clk k m f s s' ok
    by (drule silent_check, erule sends_to_trans [rotated], rule silent_same) (simp_all add: server_simps)
  have cs: "silent s s' \<Longrightarrow> silent s (on_stats f (on_stats g s'))" for s s' f g
    by (erule sends_to_trans, rule silent_same) (simp_all add: server_simps)
  have cd: "silent s s' \<Longrightarrow> silent s (destroyConnection env conn s')" for s s'
    by (erule sends_to_trans, rule silent_destroy)
  have ctx: "silent s (on_ctx f s)" for s f by (rule silent_same) (simp_all add: server_simps)
  show "silent (ht_server t) (ht_server t')" using assms
    by (auto simp: admit_def Let_def http_simps silent_destroy silent_answer ctx cs cd split: if_splits option.splits prod.splits bool.splits
        dest!: cu)
  show "sc_subDomain sc' = sc_subDomain sc" "sc_domain sc' = sc_domain sc" "sc_isWS sc' = sc_isWS sc"
    "res = Ok dm \<Longrightarrow> mapping_of t (sc_subDomain sc) = Some dm \<and> isHTTPRequestAuthorized r (dm_HTTPAuths dm) \<and> dm_WSSocket dm \<noteq> None"
    using assms by (auto simp: admit_def Let_def split: if_splits option.splits prod.splits bool.splits)
qed

lemma sends_request:
  assumes "send_request env dm sid data t = (t', res)" "dm_WSSocket dm \<noteq> None"
  shows "sends_to (dm_Adapter dm) (dm_WSSocket dm) (ht_server t) (ht_server t')"
proof (cases "mapping_adapter (ht_server t) dm")
  case None
  with assms show ?thesis by (auto simp: send_request_def split: prod.splits dest!: sends_ws)
next
  case (Some a)
  with assms mapping_adapter_Some [OF Some] show ?thesis by (auto simp: send_request_def dest: sends_via)
qed

lemma register_server:
  "register conn x st ws fin sc dm t = (n, t') \<Longrightarrow> silent (ht_server t) (ht_server t')"
  by (auto simp: register_def Let_def http_simps on_callbacks_def server_simps intro!: silent_same)

text \<open>What the request of a connection with subdomain \<open>sub\<close> may send.\<close>

definition sends_for :: "HTTPTunnel \<Rightarrow> Request \<Rightarrow> string \<Rightarrow> HTTPTunnel \<Rightarrow> bool" where
  "sends_for t r sub t' \<longleftrightarrow> silent (ht_server t) (ht_server t')
     \<or> (\<exists>dm. mapping_of t sub = Some dm \<and> isHTTPRequestAuthorized r (dm_HTTPAuths dm)
          \<and> sends_to (dm_Adapter dm) (dm_WSSocket dm) (ht_server t) (ht_server t'))"

lemma sends_for_silent: "silent (ht_server t) (ht_server t') \<Longrightarrow> sends_for t r sub t'"
  by (simp add: sends_for_def)

lemma sends_for_then: "sends_for t r sub t' \<Longrightarrow> silent (ht_server t') (ht_server t'') \<Longrightarrow> sends_for t r sub t''"
  unfolding sends_for_def by (blast intro: sends_to_trans silent_sends)

lemma init_known: "sc_domain sc \<noteq> '''' \<Longrightarrow> initSocketConfig t r sc = sc"
  by (simp add: initSocketConfig_def)

lemma count_same: "mapping_of (t\<lparr>ht_requestCount := k\<rparr>) = mapping_of t" "initSocketConfig (t\<lparr>ht_requestCount := k\<rparr>) = initSocketConfig t"
  by (simp_all add: mapping_of_def initSocketConfig_def fun_eq_iff Let_def)

lemma processRequest_sends:
  assumes run: "processRequest env conn uuid fin data r sc t = (t', sc', res)"
  shows "sends_for t r (sc_subDomain (initSocketConfig t r sc)) t'"
    "sc_subDomain sc' = sc_subDomain (initSocketConfig t r sc) \<or> sc_isWS sc"
proof -
  define t0 where "t0 = t\<lparr>ht_requestCount := ht_requestCount t + 1\<rparr>"
  define sc1 where "sc1 = initSocketConfig t r sc"
  have t0: "ht_server t0 = ht_server t" "mapping_of t0 = mapping_of t" "initSocketConfig t0 r sc = sc1"
    by (simp_all add: t0_def sc1_def count_same)
  obtain t2 sc2 out where adm: "admit env conn r (int (length data)) sc1 t0 = (t2, sc2, out)" by (metis prod_cases3)
  note af = admit_facts [OF adm]
  have fin: "silent s (ht_server t1) \<Longrightarrow> silent s (ht_server (call_finish f t1))" for s f t1
    by (rule sends_to_trans [OF _ silent_finish])
  have "sends_for t r (sc_subDomain sc1) t' \<and> (sc_subDomain sc' = sc_subDomain sc1 \<or> sc_isWS sc)"
  proof (cases "sc_isWS sc \<or> sc_isWS sc1 \<or> (\<forall>dm. out \<noteq> Ok dm)")
    case True
    with run af(1,2) adm show ?thesis unfolding processRequest_def Let_def t0_def [symmetric] t0(3)
      by (cases out) (auto simp: t0(1) intro!: sends_for_silent fin split: if_splits)
  next
    case False
    then obtain dm where dm: "out = Ok dm" by blast
    from af(5) [OF dm] have m: "mapping_of t (sc_subDomain sc1) = Some dm" "isHTTPRequestAuthorized r (dm_HTTPAuths dm)" "dm_WSSocket dm \<noteq> None"
      by (simp_all add: t0(2))
    define ws where "ws = (isWebSocketUpgradeRequest r \<and> canRelayWebSocket (ht_server t2) (Some dm))"
    obtain n t3 where reg: "register conn (request_id env uuid) False ws fin sc2 dm t2 = (n, t3)" by force
    obtain t4 sr where at: "send_request env dm (sc_tcpID sc2 @ '':'' @ request_id env uuid) data t3 = (t4, sr)" by force
    have "silent (ht_server t) (ht_server t3)" using sends_to_trans [OF af(1) register_server [OF reg]] by (simp add: t0(1))
    from sends_to_trans [OF silent_sends [OF this] sends_request [OF at m(3)]] m(1,2)
    have s4: "sends_for t r (sc_subDomain sc1) t4" by (auto simp: sends_for_def)
    have "(t', sc', res) = (case (t4, sr) of (t, Sent) \<Rightarrow> (t, sc2, Returned)
        | (t, NotSent) \<Rightarrow> (send_failed env n t, sc2, Failed SendError) | (t, Stuck e) \<Rightarrow> (t, sc2, NoReturn e))"
      using run False adm dm reg at unfolding processRequest_def Let_def t0_def [symmetric] t0(3) by (simp add: ws_def [symmetric])
    then show ?thesis using s4 af(2) sends_for_then [OF s4 silent_send_failed] by (auto split: send_result.splits)
  qed
  then show "sends_for t r (sc_subDomain (initSocketConfig t r sc)) t'"
    "sc_subDomain sc' = sc_subDomain (initSocketConfig t r sc) \<or> sc_isWS sc" by (simp_all add: sc1_def)
qed

lemma send_body_sends:
  "send_body env a sid k reads t = (t', res) \<Longrightarrow> sends_to (Some a) W (ht_server t) (ht_server t')"
proof (induction env a sid k reads t arbitrary: t' res rule: send_body.induct)
  case (1 env a sid remaining reads t)
  show ?case
  proof (cases "remaining = 0 \<or> reads = []")
    case True with 1(2) show ?thesis
      unfolding send_body.simps [of env a sid remaining reads t] by (auto split: if_splits)
  next
    case False
    then obtain bytes e rest where r: "reads = (bytes, e) # rest" "remaining \<noteq> 0" by (cases reads) auto
    let ?n = "min (32 * 1024) remaining"
    let ?piece = "take ?n bytes"
    let ?er = "if length bytes > ?n then (None, (drop ?n bytes, e) # rest) else (e, rest)"
    obtain e' rest' where er: "?er = (e', rest')" by force
    obtain t1 sr where at: "(if ?piece = [] then (t, Sent) else send_via_tunnel a (pa_SendHTTPRequestBody env sid ?piece
        (remaining - length ?piece = 0)) t) = (t1, sr)" by force
    have s1: "sends_to (Some a) W (ht_server t) (ht_server t1)" using at by (auto split: if_splits dest: sends_via)
    have run: "(t', res) = (case (t1, sr) of (t, NotSent) \<Rightarrow> (t, Failed SendError) | (t, Stuck x) \<Rightarrow> (t, NoReturn x)
        | (t, Sent) \<Rightarrow> (case e' of None \<Rightarrow> send_body env a sid (remaining - length ?piece) rest' t
            | Some EOF \<Rightarrow> if remaining - length ?piece > 0 then (t, Failed UnexpectedEOF) else (t, Returned)
            | Some OtherError \<Rightarrow> (t, Failed BodyError)))"
      using 1(2) r er at unfolding send_body.simps [of env a sid remaining reads t] Let_def by simp
    have "sends_to (Some a) W (ht_server t1) (ht_server t')"
      if "send_body env a sid (remaining - length ?piece) rest' t1 = (t', res)" "sr = Sent" "e' = None"
      using 1(1) [OF r(2,1) refl refl refl refl er [symmetric] refl at [symmetric] that(2,3,1)] .
    with run s1 show ?thesis by (auto split: send_result.splits option.splits read_error.splits if_splits intro: sends_to_trans)
  qed
qed

lemma send_streamed_sends:
  assumes "send_streamed env dm sid head len reads t = (t', res)"
  shows "sends_to (dm_Adapter dm) W (ht_server t) (ht_server t')"
proof (cases "if dm_UseNewProtocol dm then mapping_adapter (ht_server t) dm else None")
  case None with assms show ?thesis by (simp add: send_streamed_def)
next
  case (Some a)
  then have A: "dm_Adapter dm = Some a" by (auto dest: mapping_adapter_Some split: if_splits)
  obtain t1 sr where at: "send_via_tunnel a (pa_SendHTTPRequestHead (se_env env) sid (str_bytes head) (len = 0)) t = (t1, sr)"
    by force
  note s1 = sends_via [OF at, of W]
  from assms Some at s1 show ?thesis unfolding A
    by (cases sr) (auto simp: send_streamed_def intro: sends_to_trans send_body_sends)
qed

lemma processRequestStream_sends:
  assumes run: "processRequestStream env conn uuid head r len reads sc t = (t', sc', res)"
  shows "sends_for t r (sc_subDomain sc) t'" "sc_subDomain sc' = sc_subDomain sc"
proof -
  let ?bytes = "int (length head) + (if len < 0 then 0 else len)"
  define t0 where "t0 = t\<lparr>ht_requestCount := ht_requestCount t + 1\<rparr>"
  have t0: "ht_server t0 = ht_server t" "mapping_of t0 = mapping_of t" by (simp_all add: t0_def count_same)
  obtain t2 sc2 out where adm: "admit env conn r ?bytes sc t0 = (t2, sc2, out)" by (metis prod_cases3)
  note af = admit_facts [OF adm]
  have "sends_for t r (sc_subDomain sc) t' \<and> sc_subDomain sc' = sc_subDomain sc"
  proof (cases "sc_isWS sc \<or> (\<forall>dm. out \<noteq> Ok dm)")
    case True
    with run af(1,2) adm t0(1) show ?thesis unfolding processRequestStream_def Let_def t0_def [symmetric]
      by (cases out) (auto intro!: sends_for_silent split: if_splits)
  next
    case False
    then obtain dm where dm: "out = Ok dm" by blast
    from af(5) [OF dm] have m: "mapping_of t (sc_subDomain sc) = Some dm" "isHTTPRequestAuthorized r (dm_HTTPAuths dm)"
      by (simp_all add: t0(2))
    let ?x = "request_id env uuid"
    obtain n t3 where reg: "register conn ?x True False None sc2 dm t2 = (n, t3)" by force
    define t4 where "t4 = put_session (stream_key (sc_tcpID sc2) ?x)
      \<lparr>ss_conn = conn, ss_clientID = dm_ClientID dm, ss_subDomain = sc_subDomain sc2, ss_timer = Some n\<rparr> t3"
    obtain t5 sr where at: "send_streamed env dm (sc_tcpID sc2 @ '':'' @ ?x) head len reads t4 = (t5, sr)" by force
    have "silent (ht_server t) (ht_server t4)"
      using sends_to_trans [OF af(1) register_server [OF reg]] by (simp add: t0(1) t4_def put_session_def)
    from sends_to_trans [OF silent_sends [OF this] send_streamed_sends [OF at]] m
    have s5: "sends_for t r (sc_subDomain sc) t5" by (auto simp: sends_for_def)
    have "(t', sc', res) = (case (t5, sr) of (t, Failed e) \<Rightarrow> (send_failed env n t, sc2, Failed e) | (t, res) \<Rightarrow> (t, sc2, res))"
      using run False adm dm reg at unfolding processRequestStream_def Let_def t0_def [symmetric] by (simp add: t4_def)
    then show ?thesis using s5 af(2) sends_for_then [OF s5 silent_send_failed] by (auto split: proc_result.splits)
  qed
  then show "sends_for t r (sc_subDomain sc) t'" "sc_subDomain sc' = sc_subDomain sc" by blast+
qed

section \<open>Connections\<close>

lemma silent_leave: "leave sc c t = (t', c') \<Longrightarrow> silent (ht_server t) (ht_server t')"
proof -
  assume "leave sc c t = (t', c')"
  then have "ht_server t' = on_callbacks (callback_Remove (sc_tcpID sc)) (close_conn (hc_conn c) (ht_server t))"
    by (auto simp: leave_def cleanup_def Let_def fold_stop_timer http_simps)
  moreover have "silent s (on_callbacks f (close_conn k s))" for s f k
    by (rule sends_to_trans [OF silent_close], rule silent_same) (simp_all add: on_callbacks_def server_simps)
  ultimately show ?thesis by simp
qed

lemma continue_sends:
  assumes "continue_conn r c (t1, sc, res) = (t', c')" "sends_for t r0 sub t1"
  shows "sends_for t r0 sub t' \<and> hc_config c' = sc"
  using assms sends_for_then [OF assms(2) silent_leave, of sc c]
  by (auto simp: continue_conn_def leave_def split: proc_result.splits if_splits)

lemma buffered_sends:
  assumes run: "processOneBuffered env uuid data r c t = (t', c')" and d: "sc_domain (hc_config c) \<noteq> ''''"
  shows "sends_for t r (sc_subDomain (hc_config c)) t' \<and> (sc_subDomain (hc_config c') = sc_subDomain (hc_config c) \<or> sc_isWS (hc_config c))"
proof -
  obtain t1 sc1 res where p: "processRequest env (hc_conn c) uuid (if wants_relay t r then Some (hc_conn c) else None)
      data r (hc_config c) t = (t1, sc1, res)" by (metis prod_cases3)
  note s = processRequest_sends [OF p, unfolded init_known [OF d]]
  show ?thesis
  proof (cases "wants_relay t r")
    case True with run p s show ?thesis by (auto simp: processOneBuffered_def split: proc_result.splits)
  next
    case False with run p s continue_sends [OF _ s(1), of r c sc1 res t' c'] show ?thesis by (auto simp: processOneBuffered_def)
  qed
qed

lemma stream_request_sends:
  assumes run: "stream_request env uuid head len reads r c t = (t', c')"
  shows "sends_for t r (sc_subDomain (hc_config c)) t' \<and> sc_subDomain (hc_config c') = sc_subDomain (hc_config c)"
proof -
  obtain t1 sc1 res where p: "processRequestStream env (hc_conn c) uuid head r len reads (hc_config c) t = (t1, sc1, res)"
    by (metis prod_cases3)
  note s = processRequestStream_sends [OF p]
  from run p continue_sends [OF _ s(1), of r c sc1 res t' c'] s(2) show ?thesis by (auto simp: stream_request_def)
qed

text \<open>C5: Whatever requests a connection carries, whichever way they are processed: what one of them makes the server send
  goes through the adapter or the monitor connection of the tunnel bound to the subdomain of the connection's first
  request, and only if the request carries credentials of that tunnel. No other client gets a
  byte, and an unauthorized request reaches nobody. The subdomain is not looked up again, even when a later request names
  another host.\<close>

theorem requests_reach_only_their_tunnel:
  assumes "hc_phase c = Reading" "sc_domain (hc_config c) \<noteq> ''''" "\<not> sc_isWS (hc_config c)"
    and "handle_next env uuid reads (Some r) c t = (t', c')"
  defines "sub \<equiv> sc_subDomain (hc_config c)"
  defines "new \<equiv> drop (length (sv_out (ht_server t))) (sv_out (ht_server t'))"
  shows "(\<forall>i. sv_adapters (ht_server t') i \<noteq> sv_adapters (ht_server t) i \<longrightarrow>
           (\<exists>dm. mapping_of t sub = Some dm \<and> dm_Adapter dm = Some i \<and> isHTTPRequestAuthorized r (dm_HTTPAuths dm)))
    \<and> (\<forall>ws m. MonitorSent ws m \<in> set new \<longrightarrow>
           (\<exists>dm. mapping_of t sub = Some dm \<and> dm_WSSocket dm = Some ws \<and> isHTTPRequestAuthorized r (dm_HTTPAuths dm)))
    \<and> sc_subDomain (hc_config c') = sub"
proof -
  have run: "processOne env uuid reads r c t = (t', c')"
    using assms(1-4) by (simp add: handle_next_def init_known Let_def split: if_splits)
  have "sends_for t r sub t' \<and> sc_subDomain (hc_config c') = sub"
  proof (cases "shouldStreamHTTPRequest t (hc_config c) r")
    case True
    with run stream_request_sends show ?thesis by (auto simp: processOne_def sub_def)
  next
    case False
    show ?thesis
    proof (cases "readTunnelRequestBody (rq_Body r) maxHTTPTunnelRequestBodyBytes")
      case (Ok body)
      with run False buffered_sends [OF _ assms(2)] assms(3) show ?thesis by (auto simp: processOne_def sub_def)
    next
      case (Err e)
      have "silent (ht_server t) (ht_server (on_server (writeRequestEntityTooLarge env (hc_conn c)) t))"
        by (simp add: http_simps silent_answer)
      with run False Err silent_leave [of "hc_config c" c] show ?thesis
        by (auto simp: processOne_def sub_def leave_def split: body_error.splits intro!: sends_for_silent)
          (metis leave_def sends_to_trans)+
    next
      case Panic
      with run False silent_leave [of "hc_config c" c] show ?thesis
        by (auto simp: processOne_def sub_def leave_def intro!: sends_for_silent)
    qed
  qed
  then show ?thesis unfolding sends_for_def sends_to_def new_def by (elim conjE disjE exE) (simp_all, metis)
qed

end
