(* ===== verification/HttpRoundTrip.thy ===== *)
theory HttpRoundTrip
  imports HttpTraffic HttpAccess ResponseLaws
begin

text \<open>
  The round trip of a request: from the browser's connection through the HTTP tunnel and the protocol adapter
  to the client, and back through the monitor channel and the stored callback.
\<close>

text \<open>A browser's connection that is served by tunnel \<open>dm\<close>, bound to a client with adapter \<open>a\<close>.\<close>

definition serving :: "string \<Rightarrow> DomainMapping \<Rightarrow> nat \<Rightarrow> Adapter \<Rightarrow> HttpConn \<Rightarrow> HTTPTunnel \<Rightarrow> bool" where
  "serving sub dm i a c t \<longleftrightarrow>
     hc_phase c = Reading \<and> sc_domain (hc_config c) \<noteq> '''' \<and> \<not> sc_isWS (hc_config c) \<and> conn_ok c
     \<and> sc_subDomain (hc_config c) = sub \<and> sub \<noteq> '''' \<and> mapping_of t sub = Some dm
     \<and> dm_WSSocket dm \<noteq> None \<and> dm_Adapter dm = Some i \<and> sv_adapters (ht_server t) i = Some (BinaryA a)
     \<and> \<not> (shouldUseStreaming a MessageTypeHTTPRequest \<and> ad_streamManager a \<noteq> None)
     \<and> ConnClosed (hc_conn c) \<notin> set (sv_out (ht_server t)) \<and> boundless (ht_server t) \<and> http_ok t"

lemma admitted:
  assumes "serving sub dm i a c t" "isHTTPRequestAuthorized r (dm_HTTPAuths dm)"
    and "ht_server t0 = ht_server t" "mapping_of t0 = mapping_of t"
  shows "\<exists>t2. admit env (hc_conn c) r n (hc_config c) t0 = (t2, (hc_config c)\<lparr>sc_clientID := dm_ClientID dm\<rparr>, Ok dm)
    \<and> sv_adapters (ht_server t2) = sv_adapters (ht_server t) \<and> sv_out (ht_server t2) = sv_out (ht_server t)
    \<and> sv_limiter (ht_server t2) = sv_limiter (ht_server t)"
proof -
  have b: "boundless (on_ctx f s)" if "boundless s" for f s using that by (simp add: boundless_def server_simps)
  show ?thesis
    using assms by (simp add: serving_def admit_def Let_def http_simps check_up_boundless b server_simps)
qed


end
