(* ===== verification/HttpSamples.thy ===== *)
theory HttpSamples
  imports HttpRoundTrip
begin

text \<open>
  The properties of the HTTP tunnel at concrete inputs: a server with one tunnel \<open>a\<close>, whose client has an
  adapter of the new protocol, and a connection of a browser.
\<close>

definition sample_dm :: DomainMapping where
  "sample_dm = \<lparr>dm_WSSocket = Some 1, dm_TCPSocket = None, dm_ContainerID = ''box'', dm_ClientID = ''dev'',
     dm_HTTPAuths = [], dm_Adapter = Some 3, dm_UseNewProtocol = True\<rparr>"

definition sample_tunnel :: HTTPTunnel where
  "sample_tunnel = CreateHTTPTunnel (on_ctx (\<lambda>cx. cx\<lparr>cx_DomainMappings := [''a'' \<mapsto> sample_dm]\<rparr>) sample_server) ''/_/ws'' ''ex.com''"

definition sample_config :: socketConfig where
  "sample_config = \<lparr>sc_tcpID = ''c'', sc_domain = ''a.ex.com'', sc_subDomain = ''a'', sc_isWS = False, sc_clientID = ''''\<rparr>"

definition sample_conn :: HttpConn where
  "sample_conn = \<lparr>hc_conn = 9, hc_config = sample_config, hc_phase = Reading\<rparr>"

text \<open>A later request on that connection, for another host.\<close>

definition sample_request :: Request where
  "sample_request = \<lparr>rq_Method = ''GET'', rq_RequestURI = ''/'', rq_Path = ''/'', rq_Proto = ''HTTP/1.1'', rq_Host = ''b.ex.com'',
     rq_Header = [(''Accept'', [''*''])], rq_ContentLength = -1, rq_Close = False, rq_Body = None\<rparr>"

lemma sample_tunnel_facts:
  "http_ok sample_tunnel" "boundless (ht_server sample_tunnel)" "sv_out (ht_server sample_tunnel) = []"
  "sv_adapters (ht_server sample_tunnel) = [3 \<mapsto> BinaryA official_adapter]"
  "mapping_of sample_tunnel ''a'' = Some sample_dm" "ht_pending sample_tunnel = []" "awaited sample_tunnel a x = None"
proof -
  have cbs: "stored_callbacks (on_ctx (\<lambda>cx. cx\<lparr>cx_DomainMappings := m\<rparr>) sample_server) = NewCallbackContainer" for m
    by (simp add: stored_callbacks_def on_ctx_def sample_server_def)
  show "http_ok sample_tunnel" unfolding sample_tunnel_def by (rule http_start_ok [OF cbs])
  show "boundless (ht_server sample_tunnel)"
    by (simp add: boundless_def sample_tunnel_def CreateHTTPTunnel_def server_simps sample_server_def unlimited_def
        NewBandwidthLimiter_def global_bucket_def no_limits_def client_rate_def)
  show "sv_out (ht_server sample_tunnel) = []" "sv_adapters (ht_server sample_tunnel) = [3 \<mapsto> BinaryA official_adapter]"
    "ht_pending sample_tunnel = []"
    by (simp_all add: sample_tunnel_def CreateHTTPTunnel_def server_simps sample_server_def)
  have l: "ToLower ''a'' = ''a''" by code_simp
  show "mapping_of sample_tunnel ''a'' = Some sample_dm"
    by (simp add: mapping_of_def sample_tunnel_def CreateHTTPTunnel_def server_simps domain_Get_def l)
  show "awaited sample_tunnel a x = None"
    by (simp add: awaited_def sample_tunnel_def CreateHTTPTunnel_def cbs) (simp add: callback_Get_def NewCallbackContainer_def)
qed

lemma undisturbed_sample: "undisturbed sample_srv_env"
  by (simp add: undisturbed_def sample_srv_env_def)

lemma http_state_is_well_formed_witness:
  "distinct (map fst (ht_streamResp (fst (handle_first sample_srv_env 9 ''c'' ''u'' [] sample_request (Whole [7]) sample_tunnel))))"
proof -
  have cbs: "stored_callbacks (on_ctx (\<lambda>cx. cx\<lparr>cx_DomainMappings := [''a'' \<mapsto> sample_dm]\<rparr>) sample_server) = NewCallbackContainer"
    by (simp add: stored_callbacks_def on_ctx_def sample_server_def)
  have "http_step sample_tunnel (fst (handle_first sample_srv_env 9 ''c'' ''u'' [] sample_request (Whole [7]) sample_tunnel))"
    by (rule http_step.Connect) (simp add: uuid_like_def)
  from http_state_is_well_formed [OF r_into_rtranclp [where r = http_step, OF this [unfolded sample_tunnel_def]] cbs] show ?thesis
    by (simp add: sample_tunnel_def)
qed

text \<open>One request waits.\<close>

definition waiting_tunnel :: HTTPTunnel where
  "waiting_tunnel = snd (register 9 ''r'' False False None sample_config sample_dm sample_tunnel)"

lemma waiting_facts:
  "http_ok waiting_tunnel" "boundless (ht_server waiting_tunnel)" "sv_out (ht_server waiting_tunnel) = []"
  "awaited waiting_tunnel b y = (if b = ''c'' \<and> y = ''r'' then Some 0 else None)" "ht_timers waiting_tunnel 0"
  "length (ht_pending waiting_tunnel) = 1" "pd_conn (ht_pending waiting_tunnel ! 0) = 9"
  "\<not> pd_wsUpgrade (ht_pending waiting_tunnel ! 0)"
proof -
  have reg: "register 9 ''r'' False False None sample_config sample_dm sample_tunnel = (0, waiting_tunnel)"
    by (simp add: waiting_tunnel_def register_def Let_def sample_tunnel_facts)
  have tcp: "sc_tcpID sample_config = ''c''" by (simp add: sample_config_def)
  note ok = ok_register [OF sample_tunnel_facts(1) _ reg, unfolded tcp]
  have u: "uuid_like ''c''" by (simp add: uuid_like_def)
  show "http_ok waiting_tunnel" "ht_timers waiting_tunnel 0" using ok(1,4) [OF u] by simp_all
  show "length (ht_pending waiting_tunnel) = 1" "pd_conn (ht_pending waiting_tunnel ! 0) = 9"
    "\<not> pd_wsUpgrade (ht_pending waiting_tunnel ! 0)"
    using ok(5) [OF u] by (auto simp: sample_tunnel_facts)
  have w: "ht_server waiting_tunnel = on_callbacks (callback_Set ''c'' ''r'' 0) (ht_server sample_tunnel)"
    by (simp add: waiting_tunnel_def register_def Let_def http_simps sample_tunnel_facts tcp)
  show "boundless (ht_server waiting_tunnel)" "sv_out (ht_server waiting_tunnel) = []"
    using sample_tunnel_facts(2,3) by (simp_all add: w boundless_def on_callbacks_def server_simps)
  show "awaited waiting_tunnel b y = (if b = ''c'' \<and> y = ''r'' then Some 0 else None)"
    using sample_tunnel_facts(7) by (simp add: awaited_def w http_simps callback_Get_Set)
qed

lemma answered_exactly_once_witness:
  "written 9 (sv_out (ht_server (fold answer_step
      [Reply sample_srv_env [] ''c'' ''r'' (base64Encode [1, 2]), Expired sample_srv_env 0] waiting_tunnel))) = [1, 2]"
proof -
  have ev: "list_all event_ok [Reply sample_srv_env [] ''c'' ''r'' (base64Encode [1, 2]), Expired sample_srv_env 0]"
    by (simp add: undisturbed_sample harmless_script_def)
  have aw: "awaited waiting_tunnel ''c'' ''r'' = Some 0" by (simp add: waiting_facts(4))
  have r: "response_bytes (base64Encode [1, 2]) = [1, 2]" by (simp only: response_bytes_def base64_roundtrip option.case)
  have sole: "sole 9 0 waiting_tunnel" by (simp add: sole_def waiting_facts(4))
  have ids: "\<forall>m < length (ht_pending waiting_tunnel). m \<noteq> 0 \<longrightarrow>
      (pd_tcpID (ht_pending waiting_tunnel ! m), pd_requestID (ht_pending waiting_tunnel ! m)) \<noteq> (''c'', ''r'')"
    by (simp add: waiting_facts(6))
  from answered_exactly_once [OF waiting_facts(1,2) ev aw waiting_facts(5,8,7) _ sole ids] show ?thesis
    unfolding waiting_facts(3) by (simp add: written_def first_answer_def r del: base64Encode.simps)
qed

lemma closed_connection_is_forgotten_witness:
  "deliver_answer sample_srv_env [] ''c'' ''r'' ''AQ=='' (fst (leave sample_config sample_conn waiting_tunnel))
     = fst (leave sample_config sample_conn waiting_tunnel)"
proof -
  have tcp: "sc_tcpID sample_config = ''c''" by (simp add: sample_config_def)
  have u: "uuid_like (sc_tcpID sample_config)" by (simp add: tcp uuid_like_def)
  from closed_connection_is_forgotten [OF waiting_facts(1) u prod.collapse [symmetric], of sample_conn]
  show ?thesis unfolding tcp by blast
qed

definition sample_session :: StreamSession where
  "sample_session = \<lparr>ss_conn = 9, ss_clientID = ''dev'', ss_subDomain = ''a'', ss_timer = None\<rparr>"

lemma streamed_answer_in_order_witness:
  "written 9 (sv_out (ht_server (relay_frames sample_srv_env ''c'' ''r''
      [(MessageTypeHTTPResponseHead, [1, 2], False), (MessageTypeHTTPResponseBody, [3], True)]
      (put_session (stream_key ''c'' ''r'') sample_session sample_tunnel)))) = [1, 2, 3]"
proof -
  let ?t = "put_session (stream_key ''c'' ''r'') sample_session sample_tunnel"
  have out: "sv_out (ht_server ?t) = []" by (simp add: put_session_def sample_tunnel_facts)
  have s: "streaming ''c'' ''r'' sample_session ?t"
    using sample_tunnel_facts(2) by (simp add: streaming_def out) (simp add: put_session_def update_conv')
  have fs: "list_all (Not \<circ> ends_answer) [(MessageTypeHTTPResponseHead, [1, 2], False)]" by (simp add: ends_answer_def)
  have f: "ends_answer (MessageTypeHTTPResponseBody, [3], True)" by (simp add: ends_answer_def)
  have conn: "ss_conn sample_session = 9" by (simp add: sample_session_def)
  from streamed_answer_in_order [OF undisturbed_sample s fs f] show ?thesis
    unfolding conn out by (simp add: written_def frame_bytes_def)
qed

lemma upload_is_sent_whole_witness:
  "map snd (body_pieces 3 [[1, 2], [], [3, 4]]) = [False, True]
   \<and> send_body calm 3 ''s'' 3 (plain_reads [[1, 2], [], [3, 4]]) sample_tunnel
     = at_end False (send_pieces calm 3 ''s'' [([1, 2], False), ([3], True)] sample_tunnel)"
proof -
  have p: "body_pieces 3 [[1, 2], [], [3, 4]] = [([1, 2], False), ([3], True)]"
    by (simp add: body_pieces.simps [of 3] body_pieces.simps [of "Suc 0"] body_pieces.simps [of 0])
  have l: "(length (concat [[1, 2], [], [3, 4]] :: byte list) < 3) = False" by simp
  have m: "map snd [([1, 2], False), ([3], True)] = [False, True]" by simp
  from upload_is_sent_whole [of calm 3 "''s''" 3 "[[1, 2], [], [3, 4]]" sample_tunnel] show ?thesis
    unfolding p l m by blast
qed

lemma requests_reach_only_their_tunnel_witness:
  "sv_adapters (ht_server (fst (handle_next sample_srv_env ''u'' [] (Some sample_request) sample_conn sample_tunnel))) 7 = None"
proof -
  have c: "hc_phase sample_conn = Reading" "sc_domain (hc_config sample_conn) \<noteq> ''''" "\<not> sc_isWS (hc_config sample_conn)"
    "sc_subDomain (hc_config sample_conn) = ''a''"
    by (simp_all add: sample_conn_def sample_config_def)
  have ad: "dm_Adapter sample_dm = Some 3" by (simp add: sample_dm_def)
  from requests_reach_only_their_tunnel [OF c(1-3) prod.collapse [symmetric], of sample_srv_env "''u''" "[]" sample_request sample_tunnel]
  have "sv_adapters (ht_server (fst (handle_next sample_srv_env ''u'' [] (Some sample_request) sample_conn sample_tunnel))) 7
      \<noteq> sv_adapters (ht_server sample_tunnel) 7 \<longrightarrow> dm_Adapter sample_dm = Some 7"
    unfolding c(4) sample_tunnel_facts(5) by blast
  then show ?thesis by (simp add: ad sample_tunnel_facts(4))
qed


end
