(* ===== verification/ClientState.thy ===== *)
theory ClientState
  imports TunnelSpecs HttpMessage "HOL-Library.AList"
begin

text \<open>
  The state of a running client (\<^verbatim>\<open>internal/client/client.go\<close>): its record, the timers, the writes on its
  sockets, the goroutines it starts, and the table of data channels. Sockets and timers are numbers. A write may
  fail, as the environment says; \<open>os.Exit\<close> ends the process.
\<close>

section \<open>The record\<close>

record connectionTargets =
  ct_monitorURL :: string
  ct_legacyURL :: string
  ct_dataBaseURL :: string
  ct_remoteHost :: string
  ct_allowLegacyFallback :: bool

record httpStreamSession =
  hs_conn :: nat
  hs_contentLength :: int

text \<open>The functions that \<open>time.AfterFunc\<close> is given, and the goroutines the handlers start.\<close>

datatype timer_action =
    AuthExpired | ReconnectExpired | PingDue | PingExpired
  | DataPingDue string | DataPingExpired string

datatype task =
    ForwardHTTP string "byte list" | StreamAnswer string nat
  | ForwardOverWS string string | ForwardTCP string string string
  | StartRelay string nat | RelayUpload string nat | Pipe nat nat | ReadDataChannel string nat | ReadMonitor string bool
  | RunChild TunnelSpec Options

datatype client_event =
    WsText nat json | WsBinary nat "byte list" | WsClosed nat
  | UpstreamWrote nat "byte list" | UpstreamClosed nat
  | Started task | Exited int

text \<open>
  \<open>dataConns\<close> and \<open>dataWriteMu\<close> have the same keys and are one map here; the mutexes make the writes atomic.
  \<open>tcpStreams\<close> maps a stream to its local connection, or to nil while that is being dialled. Armed timers have
  their duration and function; \<open>cl_out\<close> is everything the client has done, in order.
\<close>

record Client =
  cl_opts :: Options
  cl_monitorConn :: "nat option"
  cl_dataConns :: "(string \<times> nat) list"
  cl_authTimeout :: "nat option"
  cl_reconnectTimeout :: "nat option"
  cl_pingTimer :: "nat option"
  cl_pingTimeoutTimer :: "nat option"
  cl_dataPingTimer :: "string \<rightharpoonup> nat"
  cl_dataPingTimeoutTimer :: "string \<rightharpoonup> nat"
  cl_negotiated :: "Capabilities option"
  cl_clientId :: string
  cl_containerId :: string
  cl_pingInterval :: int
  cl_pingTimeout :: int
  cl_tcpStreams :: "string \<rightharpoonup> nat option"
  cl_sequence :: "string \<rightharpoonup> u32"
  cl_closing :: bool
  cl_heartbeatActive :: bool
  cl_monitorAuthOK :: bool
  cl_separatedChannels :: bool
  cl_httpStreams :: "string \<rightharpoonup> httpStreamSession"
  cl_targets :: connectionTargets
  cl_timers :: "(nat \<times> int \<times> timer_action) list"
  cl_nextTimer :: nat
  cl_out :: "client_event list"
  cl_exit :: "int option"

text \<open>
  The environment: the codecs, whether the n-th effect may be written on a socket and the text of the error when not,
  the clock, the two keyed hashes, and the two halves of \<open>http.ReadRequest\<close> and \<open>Request.Write\<close> that are about the
  text of a request's head.
\<close>

record ClientEnv =
  ce_codec :: Codec
  ce_write :: "nat \<Rightarrow> nat \<Rightarrow> bool"
  ce_write_error :: string
  ce_now :: int
  ce_MAC512 :: "byte list \<Rightarrow> byte list \<Rightarrow> byte list"
  ce_MAC256 :: "byte list \<Rightarrow> byte list \<Rightarrow> byte list"
  ce_parse_head :: "byte list \<Rightarrow> (Request \<times> byte list) option"
  ce_print_head :: "Request \<Rightarrow> byte list option"

definition millisecond_ns :: int where "millisecond_ns = 10 ^ 6"
definition defaultAuthTimeout :: int where "defaultAuthTimeout = 30 * second_ns"
definition defaultPingInterval :: int where "defaultPingInterval = 15 * second_ns"
definition defaultPingTimeout :: int where "defaultPingTimeout = 20 * second_ns"
definition defaultReconnectMaxRetries :: int where "defaultReconnectMaxRetries = 1000"
definition defaultReconnectInterval :: int where "defaultReconnectInterval = 3 * second_ns"

definition no_targets :: connectionTargets where
  "no_targets = \<lparr>ct_monitorURL = '''', ct_legacyURL = '''', ct_dataBaseURL = '''', ct_remoteHost = '''',
     ct_allowLegacyFallback = False\<rparr>"

definition New :: "Options \<Rightarrow> Client" where
  "New op =
     (let op = (if op_ReconnectMaxRetries op \<le> 0 then op\<lparr>op_ReconnectMaxRetries := defaultReconnectMaxRetries\<rparr> else op);
          op = (if op_ReconnectInterval op \<le> 0 then op\<lparr>op_ReconnectInterval := defaultReconnectInterval\<rparr> else op)
      in \<lparr>cl_opts = op, cl_monitorConn = None, cl_dataConns = [], cl_authTimeout = None, cl_reconnectTimeout = None,
          cl_pingTimer = None, cl_pingTimeoutTimer = None, cl_dataPingTimer = Map.empty,
          cl_dataPingTimeoutTimer = Map.empty, cl_negotiated = None, cl_clientId = '''', cl_containerId = '''',
          cl_pingInterval = defaultPingInterval, cl_pingTimeout = defaultPingTimeout, cl_tcpStreams = Map.empty,
          cl_sequence = Map.empty, cl_closing = False, cl_heartbeatActive = False, cl_monitorAuthOK = False,
          cl_separatedChannels = False, cl_httpStreams = Map.empty, cl_targets = no_targets, cl_timers = [],
          cl_nextTimer = 0, cl_out = [], cl_exit = None\<rparr>)"

section \<open>Effects\<close>

definition cl_emit :: "client_event \<Rightarrow> Client \<Rightarrow> Client" where
  "cl_emit ev c = c\<lparr>cl_out := cl_out c @ [ev]\<rparr>"

definition start_task :: "task \<Rightarrow> Client \<Rightarrow> Client" where
  "start_task k c = cl_emit (Started k) c"

definition exit_process :: "int \<Rightarrow> Client \<Rightarrow> Client" where
  "exit_process code c = (cl_emit (Exited code) c)\<lparr>cl_exit := Some code\<rparr>"

text \<open>A write on socket \<open>s\<close>; the second component is that it returned no error.\<close>

definition cl_write :: "ClientEnv \<Rightarrow> nat \<Rightarrow> client_event \<Rightarrow> Client \<Rightarrow> Client \<times> bool" where
  "cl_write env s ev c = (if ce_write env s (length (cl_out c)) then (cl_emit ev c, True) else (c, False))"

definition sendMonitorMessage :: "ClientEnv \<Rightarrow> string \<Rightarrow> json \<Rightarrow> Client \<Rightarrow> Client \<times> bool" where
  "sendMonitorMessage env event payload c =
     (case cl_monitorConn c of
        None \<Rightarrow> (c, False)
      | Some s \<Rightarrow> if cl_closing c then (c, False) else cl_write env s (WsText s (monitor_message event payload)) c)"

definition nextSequence :: "string \<Rightarrow> Client \<Rightarrow> u32 \<times> Client" where
  "nextSequence sid c =
     (let seq = (case cl_sequence c sid of None \<Rightarrow> 0 | Some n \<Rightarrow> n)
      in (seq, c\<lparr>cl_sequence := (cl_sequence c)(sid \<mapsto> seq + 1)\<rparr>))"

section \<open>Timers\<close>

text \<open>\<open>time.AfterFunc\<close> arms a timer; \<open>Stop\<close> disarms it, and does nothing when it has fired.\<close>

definition AfterFunc :: "int \<Rightarrow> timer_action \<Rightarrow> Client \<Rightarrow> Client" where
  "AfterFunc d act c = c\<lparr>cl_timers := cl_timers c @ [(cl_nextTimer c, d, act)], cl_nextTimer := cl_nextTimer c + 1\<rparr>"

definition StopTimer :: "nat \<Rightarrow> Client \<Rightarrow> Client" where
  "StopTimer n c = c\<lparr>cl_timers := filter (\<lambda>(m, d, act). m \<noteq> n) (cl_timers c)\<rparr>"

text \<open>The field or map entry that holds the timer of an action.\<close>

fun slot :: "timer_action \<Rightarrow> Client \<Rightarrow> nat option" where
  "slot AuthExpired c = cl_authTimeout c"
| "slot ReconnectExpired c = cl_reconnectTimeout c"
| "slot PingDue c = cl_pingTimer c"
| "slot PingExpired c = cl_pingTimeoutTimer c"
| "slot (DataPingDue sid) c = cl_dataPingTimer c sid"
| "slot (DataPingExpired sid) c = cl_dataPingTimeoutTimer c sid"

fun set_slot :: "timer_action \<Rightarrow> nat option \<Rightarrow> Client \<Rightarrow> Client" where
  "set_slot AuthExpired t c = c\<lparr>cl_authTimeout := t\<rparr>"
| "set_slot ReconnectExpired t c = c\<lparr>cl_reconnectTimeout := t\<rparr>"
| "set_slot PingDue t c = c\<lparr>cl_pingTimer := t\<rparr>"
| "set_slot PingExpired t c = c\<lparr>cl_pingTimeoutTimer := t\<rparr>"
| "set_slot (DataPingDue sid) t c = c\<lparr>cl_dataPingTimer := (cl_dataPingTimer c)(sid := t)\<rparr>"
| "set_slot (DataPingExpired sid) t c = c\<lparr>cl_dataPingTimeoutTimer := (cl_dataPingTimeoutTimer c)(sid := t)\<rparr>"

text \<open>The three idioms of the code: stop the timer of a field; stop it and set the field to nil (or delete the
  entry); stop it and store a new one.\<close>

definition halt :: "timer_action \<Rightarrow> Client \<Rightarrow> Client" where
  "halt act c = (case slot act c of None \<Rightarrow> c | Some n \<Rightarrow> StopTimer n c)"

definition clear_timer :: "timer_action \<Rightarrow> Client \<Rightarrow> Client" where
  "clear_timer act c = set_slot act None (halt act c)"

definition restart :: "timer_action \<Rightarrow> int \<Rightarrow> Client \<Rightarrow> Client" where
  "restart act d c = (let c = halt act c in set_slot act (Some (cl_nextTimer c)) (AfterFunc d act c))"

section \<open>Data channels\<close>

definition getDataChannel :: "string \<Rightarrow> Client \<Rightarrow> nat option" where
  "getDataChannel sid c = map_of (cl_dataConns c) sid"

definition stopDataChannelHeartbeat :: "string \<Rightarrow> Client \<Rightarrow> Client" where
  "stopDataChannelHeartbeat sid c = clear_timer (DataPingExpired sid) (clear_timer (DataPingDue sid) c)"

definition removeDataChannel :: "string \<Rightarrow> Client \<Rightarrow> Client" where
  "removeDataChannel sid c0 =
     (let c = stopDataChannelHeartbeat sid c0;
          conn = map_of (cl_dataConns c) sid;
          c = c\<lparr>cl_dataConns := AList.delete sid (cl_dataConns c)\<rparr>
      in case conn of None \<Rightarrow> c | Some s \<Rightarrow> cl_emit (WsClosed s) c)"

definition closeAllDataChannels :: "Client \<Rightarrow> Client" where
  "closeAllDataChannels c0 =
     (let c = fold stopDataChannelHeartbeat (map fst (cl_dataConns c0)) c0;
          conns = cl_dataConns c
      in fold (\<lambda>(sid, s). cl_emit (WsClosed s)) conns (c\<lparr>cl_dataConns := []\<rparr>))"

end
