(* ===== verification/ClientHeartbeat.thy ===== *)
theory ClientHeartbeat
  imports ClientState
begin

text \<open>
  The client's heartbeats (\<^verbatim>\<open>internal/client/heartbeat.go\<close>, \<^verbatim>\<open>data_channel_heartbeat.go\<close>): the ping and
  its time limit on the monitor channel, the same per stream on the data channels, the authentication timeout,
  and what happens when a timer fires. A timer function is one step.
\<close>

section \<open>The monitor channel\<close>

definition authTimeoutDuration :: "Client \<Rightarrow> int" where
  "authTimeoutDuration c =
     (if op_HealthcheckInt (cl_opts c) > 0 then op_HealthcheckInt (cl_opts c) * millisecond_ns else defaultAuthTimeout)"

definition startAuthTimeout :: "Client \<Rightarrow> Client" where
  "startAuthTimeout c = restart AuthExpired (authTimeoutDuration c) c"

definition stopHeartbeat :: "Client \<Rightarrow> Client" where
  "stopHeartbeat c = clear_timer PingExpired (clear_timer PingDue (c\<lparr>cl_heartbeatActive := False\<rparr>))"

definition schedulePing :: "int \<Rightarrow> Client \<Rightarrow> Client" where
  "schedulePing delay c =
     (if \<not> cl_heartbeatActive c \<or> cl_monitorConn c = None then c else restart PingDue (max 0 delay) c)"

definition startHeartbeat :: "Client \<Rightarrow> Client" where
  "startHeartbeat c =
     (let c = (stopHeartbeat c)\<lparr>cl_heartbeatActive := True\<rparr>;
          c = (if cl_pingInterval c \<le> 0 then c\<lparr>cl_pingInterval := defaultPingInterval\<rparr> else c);
          c = (if cl_pingTimeout c \<le> 0 then c\<lparr>cl_pingTimeout := defaultPingTimeout\<rparr> else c)
      in schedulePing 0 c)"

definition sendPing :: "ClientEnv \<Rightarrow> Client \<Rightarrow> Client" where
  "sendPing env c =
     (if \<not> cl_heartbeatActive c \<or> cl_monitorConn c = None then c
      else case sendMonitorMessage env ''ping'' JNull c of
             (c, False) \<Rightarrow> c
           | (c, True) \<Rightarrow> restart PingExpired (cl_pingTimeout c) c)"

text \<open>\<open>handleDisconnect\<close> of \<^verbatim>\<open>client.go\<close>; it also arms the timer that ends the process.\<close>

definition reconnect_limit :: "Options \<Rightarrow> int" where
  "reconnect_limit op =
     (let maxRetries = (if op_ReconnectMaxRetries op \<le> 0 then defaultReconnectMaxRetries else op_ReconnectMaxRetries op);
          retryInterval = (if op_ReconnectInterval op \<le> 0 then defaultReconnectInterval else op_ReconnectInterval op)
      in maxRetries * retryInterval + 60 * second_ns)"

definition client_handleDisconnect :: "Client \<Rightarrow> Client" where
  "client_handleDisconnect c =
     restart ReconnectExpired (reconnect_limit (cl_opts c)) (closeAllDataChannels (stopHeartbeat c))"

definition ping_timed_out :: "Client \<Rightarrow> Client" where
  "ping_timed_out c =
     (if \<not> cl_heartbeatActive c then c
      else if cl_closing c then c
      else let c = stopHeartbeat (c\<lparr>cl_closing := True\<rparr>);
               c = (case cl_monitorConn c of None \<Rightarrow> c | Some s \<Rightarrow> cl_emit (WsClosed s) c)
           in client_handleDisconnect c)"

definition handlePong :: "Client \<Rightarrow> Client" where
  "handlePong c =
     (if \<not> cl_heartbeatActive c then c else schedulePing (cl_pingInterval c) (clear_timer PingExpired c))"

section \<open>The data channels\<close>

definition scheduleDataChannelPing :: "string \<Rightarrow> int \<Rightarrow> Client \<Rightarrow> Client" where
  "scheduleDataChannelPing sid delay c = restart (DataPingDue sid) (max 0 delay) c"

definition startDataChannelHeartbeat :: "string \<Rightarrow> Client \<Rightarrow> Client" where
  "startDataChannelHeartbeat sid c =
     scheduleDataChannelPing sid 0 (halt (DataPingExpired sid) (halt (DataPingDue sid) c))"

definition sendDataChannelPing :: "ClientEnv \<Rightarrow> string \<Rightarrow> Client \<Rightarrow> Client" where
  "sendDataChannelPing env sid c =
     (case getDataChannel sid c of
        None \<Rightarrow> stopDataChannelHeartbeat sid c
      | Some s \<Rightarrow>
          let pt = (if cl_pingTimeout c \<le> 0 then defaultPingTimeout else cl_pingTimeout c) in
          case cl_write env s (WsText s (monitor_message ''ping'' JNull)) c of
            (c, False) \<Rightarrow> removeDataChannel sid c
          | (c, True) \<Rightarrow> restart (DataPingExpired sid) pt c)"

definition handleDataChannelPong :: "string \<Rightarrow> Client \<Rightarrow> Client" where
  "handleDataChannelPong sid c =
     (let c = clear_timer (DataPingExpired sid) c;
          interval = (if cl_pingInterval c \<le> 0 then defaultPingInterval else cl_pingInterval c)
      in scheduleDataChannelPing sid interval c)"

definition sendDataChannelPong :: "ClientEnv \<Rightarrow> string \<Rightarrow> Client \<Rightarrow> Client" where
  "sendDataChannelPong env sid c =
     (case getDataChannel sid c of
        None \<Rightarrow> c
      | Some s \<Rightarrow> fst (cl_write env s (WsText s (monitor_message ''pong'' JNull)) c))"

definition restartAllDataChannelHeartbeats :: "Client \<Rightarrow> Client" where
  "restartAllDataChannelHeartbeats c = fold startDataChannelHeartbeat (map fst (cl_dataConns c)) c"

text \<open>The \<open>@@CONFIG\<close> message: two integers in milliseconds; durations are 64-bit integers.\<close>

definition to_int64 :: "int \<Rightarrow> int" where
  "to_int64 n = (n + 2 ^ 63) mod 2 ^ 64 - 2 ^ 63"

definition socket_config :: "json \<Rightarrow> (int \<times> int) option" where
  "socket_config payload =
     decode_object (\<lambda>k v (a, b). if k = ''pinginterval'' then map_option (\<lambda>n. (n, b)) (int_member (\<lambda>n x. n) v a)
       else if k = ''pingtimeout'' then map_option (\<lambda>n. (a, n)) (int_member (\<lambda>n x. n) v b) else Some (a, b)) payload (0, 0)"

definition handleSocketConfig :: "json \<Rightarrow> Client \<Rightarrow> Client" where
  "handleSocketConfig payload c =
     (case socket_config payload of
        None \<Rightarrow> c
      | Some (interval, limit) \<Rightarrow>
          let c = (if interval > 0 then c\<lparr>cl_pingInterval := to_int64 (interval * millisecond_ns)\<rparr> else c);
              c = (if limit > 0 then c\<lparr>cl_pingTimeout := to_int64 (limit * millisecond_ns)\<rparr> else c)
          in restartAllDataChannelHeartbeats (startHeartbeat c))"

section \<open>A timer fires\<close>

definition run_action :: "ClientEnv \<Rightarrow> timer_action \<Rightarrow> Client \<Rightarrow> Client" where
  "run_action env act c =
     (case act of
        AuthExpired \<Rightarrow> exit_process 1 c
      | ReconnectExpired \<Rightarrow> exit_process 1 c
      | PingDue \<Rightarrow> if cl_heartbeatActive c then sendPing env c else c
      | PingExpired \<Rightarrow> ping_timed_out c
      | DataPingDue sid \<Rightarrow> sendDataChannelPing env sid c
      | DataPingExpired sid \<Rightarrow> removeDataChannel sid c)"

definition fire :: "ClientEnv \<Rightarrow> nat \<Rightarrow> Client \<Rightarrow> Client" where
  "fire env n c =
     (case filter (\<lambda>(m, d, act). m = n) (cl_timers c) of
        [] \<Rightarrow> c
      | (m, d, act) # rest \<Rightarrow> run_action env act (StopTimer n c))"

end
