(* ===== verification/UpstreamHttp.thy ===== *)
theory UpstreamHttp
  imports HttpMessage
begin

text \<open>
  The answers of the client's local server: \<open>http.Response\<close> as \<open>net/http\<close> reads and writes it, and
  \<^verbatim>\<open>internal/client/http1_response_framing.go\<close>, which gives a buffered answer a head with a length. The
  text of a head is parsed by the library; what follows it on the connection is bytes, read by the framing that
  the head declares. Trailers are not modelled.
\<close>

section \<open>Chunked encoding\<close>

definition hex_value :: "char \<Rightarrow> nat option" where
  "hex_value c =
     (let n = of_char c :: nat in
      if 48 \<le> n \<and> n \<le> 57 then Some (n - 48)
      else if 97 \<le> n \<and> n \<le> 102 then Some (n - 87)
      else if 65 \<le> n \<and> n \<le> 70 then Some (n - 55) else None)"

text \<open>\<open>parseHexUint\<close>: at least one digit and at most sixteen.\<close>

definition parse_hex :: "string \<Rightarrow> nat option" where
  "parse_hex s =
     (if s = '''' \<or> length s > 16 then None
      else map_option (foldl (\<lambda>n d. n * 16 + d) 0) (those (map hex_value s)))"

fun hex_digits :: "nat \<Rightarrow> string" where
  "hex_digits n = (if n < 16 then [hex_digit n] else hex_digits (n div 16) @ [hex_digit (n mod 16)])"

declare hex_digits.simps [simp del]

definition newline :: byte where "newline = 10"
definition crlf_bytes :: "byte list" where "crlf_bytes = [13, 10]"

text \<open>
  \<open>internal.NewChunkedReader\<close> under \<open>http.body\<close>: the decoded bytes and whether reading ends in an error. A size line
  ends with CRLF, blanks before it and an extension after a semicolon are dropped, the data is followed by CRLF,
  and after the last chunk comes an empty line or a trailer that ends with one. The limits on the length of
  size lines are not modelled.
\<close>

definition size_line :: "byte list \<Rightarrow> nat option" where
  "size_line line =
     (let s = bytes_str line in
      if s = '''' \<or> last s \<noteq> CHR 0x0D then None
      else parse_hex (takeWhile (\<lambda>c. c \<noteq> CHR '';'') (rev (dropWhile (\<lambda>c. c \<in> {CHR '' '', CHR 0x09, CHR 0x0A, CHR 0x0D}) (rev s)))))"

definition trailer_ends :: "byte list \<Rightarrow> bool" where
  "trailer_ends rest \<longleftrightarrow> take 2 rest = crlf_bytes \<or> Contains (bytes_str rest) (crlf @ crlf)"

function dechunk :: "byte list \<Rightarrow> byte list \<times> bool" where
  "dechunk bs =
     (let line = takeWhile (\<lambda>b. b \<noteq> newline) bs; rest = dropWhile (\<lambda>b. b \<noteq> newline) bs in
      if rest = [] then ([], True)
      else case size_line line of
        None \<Rightarrow> ([], True)
      | Some 0 \<Rightarrow> ([], \<not> trailer_ends (tl rest))
      | Some n \<Rightarrow>
          let data = take n (tl rest); after = drop n (tl rest) in
          if length data < n then (data, True)
          else if take 2 after \<noteq> crlf_bytes then (data, True)
          else (case dechunk (drop 2 after) of (decoded, failed) \<Rightarrow> (data @ decoded, failed)))"
  by pat_completeness auto
termination
proof (relation "measure length", goal_cases)
  case (2 bs line rest n k data after)
  then have "length rest \<le> length bs" "rest \<noteq> []" by (simp_all add: length_dropWhile_le)
  then have "length after < length bs" using 2 by (cases rest) auto
  then show ?case by simp
qed simp

declare dechunk.simps [simp del]

text \<open>\<open>internal.NewChunkedWriter\<close> on the pieces the copy loop hands it (empty ones write nothing), and its end.\<close>

definition chunk_bytes :: "byte list \<Rightarrow> byte list" where
  "chunk_bytes p = (if p = [] then [] else str_bytes (hex_digits (length p)) @ crlf_bytes @ p @ crlf_bytes)"

definition chunked_body :: "byte list list \<Rightarrow> byte list" where
  "chunked_body ps = concat (map chunk_bytes ps) @ str_bytes ''0'' @ crlf_bytes @ crlf_bytes"

section \<open>Responses\<close>

record Response =
  rp_Status :: string
  rp_StatusCode :: int
  rp_ProtoMajor :: int
  rp_ProtoMinor :: int
  rp_Header :: "(string \<times> string list) list"
  rp_ContentLength :: int
  rp_TransferEncoding :: "string list"
  rp_Close :: bool

definition bodyAllowedForStatus :: "int \<Rightarrow> bool" where
  "bodyAllowedForStatus st \<longleftrightarrow> \<not> (100 \<le> st \<and> st \<le> 199) \<and> st \<noteq> 204 \<and> st \<noteq> 304"

definition chunked :: "string list \<Rightarrow> bool" where
  "chunked te \<longleftrightarrow> (case te of [] \<Rightarrow> False | t # ts \<Rightarrow> t = ''chunked'')"

text \<open>
  Reading the body of a response that \<open>http.ReadResponse(r, nil)\<close> returned; with no request it takes the method
  for GET. \<open>rest\<close> is what follows the head on the connection, \<open>clean\<close> whether that ends with EOF rather than
  an error.
\<close>

definition body_of :: "Response \<Rightarrow> byte list \<Rightarrow> bool \<Rightarrow> byte list \<times> bool" where
  "body_of r rest clean =
     (if chunked (rp_TransferEncoding r) then (if bodyAllowedForStatus (rp_StatusCode r) then dechunk rest else ([], False))
      else if \<not> bodyAllowedForStatus (rp_StatusCode r) \<or> rp_ContentLength r = 0 then ([], False)
      else if rp_ContentLength r > 0 then
        (if nat (rp_ContentLength r) \<le> length rest then (take (nat (rp_ContentLength r)) rest, False) else (rest, True))
      else (rest, \<not> clean))"

definition is_boundary :: "char \<Rightarrow> bool" where
  "is_boundary c \<longleftrightarrow> c = CHR '' '' \<or> c = CHR '','' \<or> c = CHR 0x09"

definition hasToken :: "string \<Rightarrow> string \<Rightarrow> bool" where
  "hasToken v token \<longleftrightarrow> token \<noteq> '''' \<and> list_ex (\<lambda>sp.
     EqualFold (take (length token) (drop sp v)) token
     \<and> (sp = 0 \<or> is_boundary (v ! (sp - 1)))
     \<and> (sp + length token = length v \<or> is_boundary (v ! (sp + length token)))) [0..<Suc (length v) - length token]"

definition first_value :: "(string \<times> string list) list \<Rightarrow> string \<Rightarrow> string" where
  "first_value h key = (case map_of h key of Some (v # vs) \<Rightarrow> v | _ \<Rightarrow> '''')"

definition header_Del :: "string \<Rightarrow> (string \<times> string list) list \<Rightarrow> (string \<times> string list) list" where
  "header_Del key h = filter (\<lambda>(k, vs). k \<noteq> key) h"

definition header_Set :: "string \<Rightarrow> string \<Rightarrow> (string \<times> string list) list \<Rightarrow> (string \<times> string list) list" where
  "header_Set key v h = (key, [v]) # header_Del key h"

definition three_digits :: "int \<Rightarrow> string" where
  "three_digits n = (let s = int_text n in replicate (3 - length s) CHR ''0'' @ s)"

text \<open>\<open>Response.Write\<close> up to the body; \<open>Status\<close> is not empty in a response that was read.\<close>

definition status_line :: "Response \<Rightarrow> string" where
  "status_line r = ''HTTP/'' @ int_text (rp_ProtoMajor r) @ ''.'' @ int_text (rp_ProtoMinor r) @ '' ''
     @ three_digits (rp_StatusCode r) @ '' '' @ TrimPrefix (rp_Status r) (int_text (rp_StatusCode r) @ '' '')"

definition at_least_11 :: "Response \<Rightarrow> bool" where
  "at_least_11 r \<longleftrightarrow> rp_ProtoMajor r > 1 \<or> (rp_ProtoMajor r = 1 \<and> rp_ProtoMinor r \<ge> 1)"

definition framing_lines :: "Response \<Rightarrow> string list" where
  "framing_lines r =
     (let te = (if at_least_11 r then rp_TransferEncoding r else []);
          close = (rp_Close r \<or> (rp_ContentLength r = -1 \<and> at_least_11 r \<and> \<not> chunked (rp_TransferEncoding r)))
      in (if close \<and> \<not> hasToken (first_value (rp_Header r) ''Connection'') ''close'' then [''Connection: close''] else [])
       @ (if chunked te then [''Transfer-Encoding: chunked'']
          else if rp_ContentLength r > 0 then [''Content-Length: '' @ int_text (rp_ContentLength r)] else []))"

definition zero_length_lines :: "Response \<Rightarrow> string list" where
  "zero_length_lines r =
     (if rp_ContentLength r = 0 \<and> \<not> (at_least_11 r \<and> chunked (rp_TransferEncoding r)) \<and> bodyAllowedForStatus (rp_StatusCode r)
      then [''Content-Length: 0''] else [])"

definition kept_headers :: "(string \<times> string list) list \<Rightarrow> (string \<times> string list) list" where
  "kept_headers h = filter (\<lambda>(k, vs). k \<notin> {''Content-Length'', ''Transfer-Encoding'', ''Trailer''}) h"

definition response_head :: "Response \<Rightarrow> string" where
  "response_head r =
     status_line r @ crlf @ concat (map (\<lambda>l. l @ crlf) (framing_lines r)) @ header_lines (kept_headers (rp_Header r))
     @ concat (map (\<lambda>l. l @ crlf) (zero_length_lines r)) @ crlf"

text \<open>\<open>resp.Write\<close> of a whole response whose body is delivered in \<open>pieces\<close>: None is an error.\<close>

definition response_write :: "Response \<Rightarrow> byte list list \<Rightarrow> bool \<Rightarrow> byte list option" where
  "response_write r pieces failed =
     (let body = concat pieces in
      if failed then None
      else if at_least_11 r \<and> chunked (rp_TransferEncoding r) then Some (str_bytes (response_head r) @ chunked_body pieces)
      else if rp_ContentLength r \<ge> 0 \<and> int (length body) \<noteq> rp_ContentLength r then None
      else Some (str_bytes (response_head r) @ body))"

section \<open>The head of a buffered answer\<close>

text \<open>\<open>bytes.Index\<close>.\<close>

fun find_sub :: "string \<Rightarrow> string \<Rightarrow> nat option" where
  "find_sub sub s = (if HasPrefix s sub then Some 0 else case s of [] \<Rightarrow> None | c # cs \<Rightarrow> map_option Suc (find_sub sub cs))"

declare find_sub.simps [simp del]

definition first_line :: "string \<Rightarrow> string" where
  "first_line s = (case find_sub crlf s of None \<Rightarrow> s | Some i \<Rightarrow> take i s)"

definition first_field :: "string \<Rightarrow> string" where
  "first_field s = takeWhile (\<lambda>c. \<not> is_space c) (dropWhile is_space s)"

definition statusCodeFromResponseHead :: "string \<Rightarrow> int" where
  "statusCodeFromResponseHead head =
     (case Split (TrimSpace (first_line head)) CHR '' '' of p # q # ps \<Rightarrow> fst (Atoi q) | _ \<Rightarrow> 0)"

definition insertContentLength0IfUnframedEmpty :: "string \<Rightarrow> string" where
  "insertContentLength0IfUnframedEmpty head =
     (case find_sub (crlf @ crlf) head of
        None \<Rightarrow> head
      | Some idx \<Rightarrow>
          let hblock = take idx head; lower = ToLower hblock; code = statusCodeFromResponseHead head in
          if Contains lower (crlf @ ''content-length:'') then head
          else if Contains lower (crlf @ ''transfer-encoding:'') then head
          else if EqualFold (first_field (first_line hblock)) ''HTTP/1.0'' then head
          else if code = 0 then head
          else if code \<in> {100, 101, 102, 103, 204, 304} then head
          else take idx head @ crlf @ ''Content-Length: 0'' @ drop idx head)"

definition ensureHTTP1EmptyResponseFramed :: "string option \<Rightarrow> int \<Rightarrow> string option" where
  "ensureHTTP1EmptyResponseFramed headFromDump bodySize =
     (if bodySize > 0 then headFromDump else map_option insertContentLength0IfUnframedEmpty headFromDump)"

datatype framing_error = NilResponse | UnexpectedBody nat int

text \<open>The response as it is written: framed by its length, or by nothing where a status has no body.\<close>

definition reframed :: "Response \<Rightarrow> nat \<Rightarrow> Response" where
  "reframed r n =
     (let h = header_Del ''Transfer-Encoding'' (header_Del ''Trailer'' (rp_Header r));
          nr = r\<lparr>rp_TransferEncoding := [], rp_Close := False, rp_Header := h\<rparr>
      in if \<not> bodyAllowedForStatus (rp_StatusCode r) then
           nr\<lparr>rp_ContentLength := -1, rp_Header := header_Del ''Content-Length'' h\<rparr>
         else if n > 0 then
           nr\<lparr>rp_ContentLength := int n, rp_Header := header_Set ''Content-Length'' (decimal n) h\<rparr>
         else
           nr\<lparr>rp_ContentLength := 0, rp_Close := True,
              rp_Header := header_Set ''Connection'' ''close'' (header_Del ''Connection'' (header_Set ''Content-Length'' ''0'' h))\<rparr>)"

definition responseHeadForBufferedUpstreamBody :: "Response option \<Rightarrow> byte list \<Rightarrow> (framing_error, string) outcome" where
  "responseHeadForBufferedUpstreamBody resp body =
     (case resp of
        None \<Rightarrow> Err NilResponse
      | Some r \<Rightarrow>
          let n = length body; st = rp_StatusCode r in
          if \<not> bodyAllowedForStatus st \<and> n \<noteq> 0 then Err (UnexpectedBody n st)
          else
            let b = response_head (reframed r n) in
            Ok (if n = 0 \<and> bodyAllowedForStatus st then insertContentLength0IfUnframedEmpty b else b))"

end
