(* ===== verification/ClientHttp.thy ===== *)
theory ClientHttp
  imports ClientHeartbeat UpstreamHttp
begin

text \<open>
  HTTP on the client (\<^verbatim>\<open>internal/client/handlers.go\<close>, \<^verbatim>\<open>upstream.go\<close>): requests from the monitor channel, whole
  or as a head and body frames, go to the local server over a new connection; its answer goes back as one message
  or as a head and body frames. Dials and answers are inputs; the goroutines that wait for an answer are tasks.
\<close>

definition messageFlagFIN :: byte where "messageFlagFIN = 1"

definition maxUpBufferedResponse :: nat where "maxUpBufferedResponse = 10 * 2 ^ 20"

datatype client_error =
    JsonError | InvalidEncoding | InvalidFrame | UnexpectedType byte | UnhandledType byte | InvalidPayload payload_error
  | InvalidHead | DuplicateStream string | UnknownStream string | DialFailed string | DeadlineFailed | WriteFailed string
  | AuthenticationFailed string | NoDataChannel string | LocalWriteFailed string

type_synonym 'a client_result = "Client \<times> (client_error, 'a) outcome"

section \<open>Sending an answer\<close>

definition status_text :: "int \<Rightarrow> string" where
  "status_text code = (if code = 502 then ''Bad Gateway'' else if code = 500 then ''Internal Server Error'' else '''')"

definition error_response :: "int \<Rightarrow> string \<Rightarrow> string" where
  "error_response code msg0 =
     (let msg = (if msg0 = '''' then status_text code else msg0);
          msg = (if msg = '''' then ''Error'' else msg);
          reason = (if status_text code = '''' then ''Error'' else status_text code)
      in ''HTTP/1.1 '' @ int_text code @ '' '' @ reason @ crlf @ ''Content-Type: text/plain; charset=utf-8'' @ crlf
         @ ''Content-Length: '' @ decimal (length msg) @ crlf @ ''Connection: close'' @ crlf @ crlf @ msg)"

text \<open>A \<open>ResponseData\<close> on the monitor channel; \<open>compress\<close> is the identity.\<close>

definition compress :: "string \<Rightarrow> string option" where "compress data = Some data"
definition decompress :: "string \<Rightarrow> string option" where "decompress data = Some data"

definition send_answer :: "ClientEnv \<Rightarrow> string \<Rightarrow> byte list \<Rightarrow> Client \<Rightarrow> Client \<times> bool" where
  "send_answer env i raw c =
     (case compress (base64Encode raw) of
        None \<Rightarrow> (c, False)
      | Some data \<Rightarrow> sendMonitorMessage env ''response'' (id_data i data) c)"

definition sendTunneledHTTPErrorResponse :: "ClientEnv \<Rightarrow> string \<Rightarrow> int \<Rightarrow> string \<Rightarrow> Client \<Rightarrow> Client" where
  "sendTunneledHTTPErrorResponse env i code msg c =
     (if i = '''' then c else fst (send_answer env i (str_bytes (error_response code msg)) c))"

definition refuse_encoding :: "ClientEnv \<Rightarrow> string \<Rightarrow> Client \<Rightarrow> Client" where
  "refuse_encoding env i c = sendTunneledHTTPErrorResponse env i 502 ''invalid tunnel request encoding'' c"

definition maybeCompressSemanticResponseHead :: "ClientEnv \<Rightarrow> Client \<Rightarrow> byte list \<Rightarrow> byte list option" where
  "maybeCompressSemanticResponseHead env c bytes =
     (case cl_negotiated c of
        None \<Rightarrow> Some bytes
      | Some k \<Rightarrow>
          if \<not> has_flag k CapabilityFlagCompression \<or> bytes = [] then Some bytes
          else if receiver_algorithm k = ''gzip'' then gzip_compress (ce_codec env) bytes
          else brotli_compress (ce_codec env) bytes)"

text \<open>\<open>buildBinaryMessage\<close> panics on a stream id of more than 255 bytes: the outcome is Panic.\<close>

definition sendSemanticHTTPResponse :: "ClientEnv \<Rightarrow> byte \<Rightarrow> string \<Rightarrow> byte list \<Rightarrow> bool \<Rightarrow> Client \<Rightarrow> unit client_result" where
  "sendSemanticHTTPResponse env msgType i bytes fin c =
     (case (if msgType = MessageTypeHTTPResponseHead then maybeCompressSemanticResponseHead env c bytes else Some bytes) of
        None \<Rightarrow> (c, Err (InvalidPayload CompressFailed))
      | Some out \<Rightarrow>
          (case nextSequence i c of
             (seq, c) \<Rightarrow>
               (case buildBinaryMessage \<lparr>bm_Type = msgType, bm_StreamID = i, bm_Sequence = seq,
                       bm_Flags = (if fin then messageFlagFIN else 0), bm_Data = out\<rparr> of
                  Ok bin \<Rightarrow>
                    (case sendMonitorMessage env ''response'' (id_data i (base64Encode bin)) c of
                       (c, True) \<Rightarrow> (c, Ok ())
                     | (c, False) \<Rightarrow> (c, Err (WriteFailed (ce_write_error env))))
                | _ \<Rightarrow> (c, Panic))))"

section \<open>The local server\<close>

text \<open>
  What reading a response from the local server gives: an error with its text, or a response, the bytes that follow
  its head, the pieces in which its body is copied, and whether the connection ends with EOF.
\<close>

datatype upstream_reply =
    NoReply string
  | Reply Response "byte list" "byte list \<Rightarrow> byte list list" bool

definition response_pieces :: "byte list \<Rightarrow> byte list list" where
  "response_pieces body = map (\<lambda>i. take (32 * 1024) (drop (i * (32 * 1024)) body))
     [0..<(length body + 32 * 1024 - 1) div (32 * 1024)]"

text \<open>The body frames; the loop stops at the first that cannot be sent.\<close>

fun send_pieces :: "ClientEnv \<Rightarrow> string \<Rightarrow> byte list list \<Rightarrow> Client \<Rightarrow> unit client_result" where
  "send_pieces env i [] c = (c, Ok ())"
| "send_pieces env i (p # ps) c =
     (case sendSemanticHTTPResponse env MessageTypeHTTPResponseBody i p (ps = []) c of
        (c, Ok _) \<Rightarrow> send_pieces env i ps c
      | (c, r) \<Rightarrow> (c, r))"

definition readUpstreamAndStreamHTTPResponse ::
    "ClientEnv \<Rightarrow> upstream_reply \<Rightarrow> string \<Rightarrow> nat \<Rightarrow> Client \<Rightarrow> unit client_result" where
  "readUpstreamAndStreamHTTPResponse env reply i conn c0 =
     (let done = (\<lambda>(c, r). (cl_emit (UpstreamClosed conn) c, r));
          failed = (\<lambda>msg. done (sendTunneledHTTPErrorResponse env i 502 msg c0, Ok ()))
      in case reply of
        NoReply err \<Rightarrow> failed (''upstream read failed: '' @ err)
      | Reply resp rest pieces clean \<Rightarrow>
          (case body_of resp rest clean of
             (body, bad) \<Rightarrow>
               let slurp = take (maxUpBufferedResponse + 1) body in
               if bad \<and> length body \<le> maxUpBufferedResponse then failed ''upstream read failed: body''
               else if length slurp > maxUpBufferedResponse then failed ''upstream response too large for tunnel''
               else
                 (case responseHeadForBufferedUpstreamBody (Some resp) slurp of
                    Ok head \<Rightarrow>
                      (case sendSemanticHTTPResponse env MessageTypeHTTPResponseHead i (str_bytes head) (slurp = []) c0 of
                         (c, Ok _) \<Rightarrow> done (if slurp = [] then (c, Ok ()) else send_pieces env i (response_pieces slurp) c)
                       | (c, r) \<Rightarrow> done (c, r))
                  | _ \<Rightarrow> failed ''failed to frame upstream response'')))"

text \<open>A lower-cased text that asks for an upgrade to a WebSocket.\<close>

definition tunneledRequestIsWebSocket :: "string \<Rightarrow> bool" where
  "tunneledRequestIsWebSocket raw \<longleftrightarrow>
     Contains (ToLower raw) ''upgrade: websocket''
     \<and> list_ex (\<lambda>line. let l = TrimSpace (ToLower line) in HasPrefix l ''connection:'' \<and> Contains l ''upgrade'')
         (Split raw CHR 0x0A)"

text \<open>
  \<open>injectUpstreamBasicAuth\<close>: the request is read and written again with the header set; when either fails the
  text stays as it is. Writing reads the body, of which only what is in the text is there.
\<close>

definition request_body :: "Request \<Rightarrow> byte list \<Rightarrow> byte list \<times> bool" where
  "request_body r rest =
     (if rq_ContentLength r < 0 then dechunk rest
      else if nat (rq_ContentLength r) \<le> length rest then (take (nat (rq_ContentLength r)) rest, False)
      else (rest, True))"

definition injectUpstreamBasicAuth :: "ClientEnv \<Rightarrow> byte list \<Rightarrow> string \<Rightarrow> string \<Rightarrow> byte list" where
  "injectUpstreamBasicAuth env raw username password =
     (if TrimSpace username = '''' then raw
      else case ce_parse_head env raw of
        None \<Rightarrow> raw
      | Some (r, rest) \<Rightarrow>
          (case request_body r rest of
             (body, failed) \<Rightarrow>
               let value = ''Basic '' @ base64Encode (str_bytes (username @ '':'' @ password));
                   r = r\<lparr>rq_Header := header_Set ''Authorization'' value (rq_Header r)\<rparr>
               in case ce_print_head env r of
                    None \<Rightarrow> raw
                  | Some head \<Rightarrow> if failed then raw else head @ (if rq_ContentLength r < 0 then chunked_body [body] else body)))"

text \<open>A new connection to the local server, its deadline, and the first write on it.\<close>

datatype dial = DialError string | Dialled nat bool

definition upstream_write :: "ClientEnv \<Rightarrow> nat \<Rightarrow> byte list \<Rightarrow> Client \<Rightarrow> Client \<times> bool" where
  "upstream_write env conn bytes c = cl_write env conn (UpstreamWrote conn bytes) c"

section \<open>A whole request\<close>

definition split_first :: "string \<Rightarrow> string option" where
  "split_first i = map_option snd (split_at_first CHR '':'' i)"

definition forwardHTTPRequest :: "ClientEnv \<Rightarrow> dial \<Rightarrow> upstream_reply \<Rightarrow> string \<Rightarrow> byte list \<Rightarrow> Client \<Rightarrow> Client" where
  "forwardHTTPRequest env d reply i raw c =
     (case d of
        DialError err \<Rightarrow> sendTunneledHTTPErrorResponse env i 502 (''upstream unreachable: '' @ err) c
      | Dialled conn deadline_ok \<Rightarrow>
          let shut = cl_emit (UpstreamClosed conn);
              fail = (\<lambda>code msg c. shut (sendTunneledHTTPErrorResponse env i code msg c));
              request = injectUpstreamBasicAuth env raw (op_UpstreamUsername (cl_opts c)) (op_UpstreamPassword (cl_opts c))
          in if \<not> deadline_ok then fail 500 ''upstream deadline error'' c
             else case upstream_write env conn request c of
               (c, False) \<Rightarrow> fail 502 (''upstream write failed: '' @ ce_write_error env) c
             | (c, True) \<Rightarrow>
                 (case reply of
                    NoReply err \<Rightarrow> fail 502 (''upstream read failed: '' @ err) c
                  | Reply resp rest pieces clean \<Rightarrow>
                      (case body_of resp rest clean of
                         (body, bad) \<Rightarrow>
                           (case response_write resp (pieces body) bad of
                              None \<Rightarrow> fail 502 ''failed to read upstream response'' c
                            | Some response \<Rightarrow>
                                (case send_answer env i response c of
                                   (c, False) \<Rightarrow> shut c
                                 | (c, True) \<Rightarrow>
                                     let useDataPlane = (case cl_negotiated c of None \<Rightarrow> False | Some k \<Rightarrow> has_flag k CapabilityFlagTCPOverWS) in
                                     if useDataPlane \<and> rp_StatusCode resp = 101 \<and> tunneledRequestIsWebSocket (bytes_str request)
                                       \<and> cl_containerId c \<noteq> '''' \<and> split_first i \<noteq> None
                                     then start_task (StartRelay (cl_containerId c @ '':'' @ the (split_first i)) conn) c
                                     else shut c)))))"

definition dispatchFullHTTPRequest :: "ClientEnv \<Rightarrow> string \<Rightarrow> string \<Rightarrow> Client \<Rightarrow> unit client_result" where
  "dispatchFullHTTPRequest env i data c =
     (case (case cl_negotiated c of
              Some k \<Rightarrow> decodeNewProtocolHTTPRequestPayload (ce_codec env) data (Some k)
            | None \<Rightarrow> decodeLegacyHTTPRequestPayload (ce_codec env) data) of
        Ok raw \<Rightarrow> (start_task (ForwardHTTP i raw) c, Ok ())
      | Err e \<Rightarrow> (refuse_encoding env i c, Err (InvalidPayload e))
      | Panic \<Rightarrow> (c, Panic))"

section \<open>A request in frames\<close>

text \<open>The digits that \<open>Sscanf\<close> reads with \<open>%d\<close>; zero when there are none or they do not fit.\<close>

definition scan_int :: "string \<Rightarrow> int" where
  "scan_int s =
     (let neg = (s \<noteq> '''' \<and> hd s = CHR ''-'');
          ds = takeWhile is_digit (if s \<noteq> '''' \<and> (hd s = CHR ''-'' \<or> hd s = CHR ''+'') then tl s else s);
          n = (if neg then - digits_value ds else digits_value ds)
      in if ds = '''' \<or> n < min_int \<or> n > max_int then 0 else n)"

fun scan_headers :: "string list \<Rightarrow> int" where
  "scan_headers [] = -1"
| "scan_headers (l # ls) =
     (let line = (if l \<noteq> '''' \<and> last l = CHR 0x0D then butlast l else l); p = ''Content-Length:'' in
      if line = '''' then -1
      else if length line > length p \<and> EqualFold (take (length p) line) p then scan_int (TrimSpace (drop (length p) line))
      else scan_headers ls)"

definition parseContentLengthFromHeaders :: "string \<Rightarrow> int" where
  "parseContentLengthFromHeaders head = scan_headers (Split head CHR 0x0A)"

definition has_fin :: "BinaryMessage \<Rightarrow> bool" where
  "has_fin msg \<longleftrightarrow> bm_Flags msg AND messageFlagFIN \<noteq> 0"

definition handleHTTPRequestStreamHead :: "ClientEnv \<Rightarrow> dial \<Rightarrow> string \<Rightarrow> BinaryMessage \<Rightarrow> Client \<Rightarrow> unit client_result" where
  "handleHTTPRequestStreamHead env d i msg c =
     (case decompressTunnelSemanticHead (ce_codec env) (bm_Data msg) (cl_negotiated c) of
        None \<Rightarrow> (refuse_encoding env i c, Err InvalidHead)
      | Some head0 \<Rightarrow>
          let head = injectUpstreamBasicAuth env head0 (op_UpstreamUsername (cl_opts c)) (op_UpstreamPassword (cl_opts c)) in
          if cl_httpStreams c i \<noteq> None then (c, Err (DuplicateStream i))
          else case d of
            DialError err \<Rightarrow> (sendTunneledHTTPErrorResponse env i 502 (''upstream unreachable: '' @ err) c, Err (DialFailed err))
          | Dialled conn deadline_ok \<Rightarrow>
              if \<not> deadline_ok then
                (sendTunneledHTTPErrorResponse env i 500 ''upstream deadline error'' (cl_emit (UpstreamClosed conn) c), Err DeadlineFailed)
              else case upstream_write env conn head c of
                (c, False) \<Rightarrow>
                  (sendTunneledHTTPErrorResponse env i 502 (''upstream write failed: '' @ ce_write_error env)
                     (cl_emit (UpstreamClosed conn) c), Err (WriteFailed (ce_write_error env)))
              | (c, True) \<Rightarrow>
                  if \<not> has_fin msg then
                    (c\<lparr>cl_httpStreams := (cl_httpStreams c)(i \<mapsto> \<lparr>hs_conn = conn,
                        hs_contentLength = parseContentLengthFromHeaders (bytes_str head)\<rparr>)\<rparr>, Ok ())
                  else (start_task (StreamAnswer i conn) c, Ok ()))"

definition handleHTTPRequestStreamBody :: "ClientEnv \<Rightarrow> string \<Rightarrow> BinaryMessage \<Rightarrow> Client \<Rightarrow> unit client_result" where
  "handleHTTPRequestStreamBody env i msg c0 =
     (case cl_httpStreams c0 i of
        None \<Rightarrow> (c0, Err (UnknownStream i))
      | Some sess \<Rightarrow>
          let c = c0\<lparr>cl_httpStreams := (cl_httpStreams c0)(i := None)\<rparr> in
          (case (if bm_Data msg = [] then (c, True) else upstream_write env (hs_conn sess) (bm_Data msg) c) of
             (c, False) \<Rightarrow>
               (sendTunneledHTTPErrorResponse env i 502 (''upstream write failed: '' @ ce_write_error env)
                  (cl_emit (UpstreamClosed (hs_conn sess)) c), Err (WriteFailed (ce_write_error env)))
           | (c, True) \<Rightarrow>
               if \<not> has_fin msg then (c\<lparr>cl_httpStreams := (cl_httpStreams c)(i \<mapsto> sess)\<rparr>, Ok ())
               else (start_task (StreamAnswer i (hs_conn sess)) c, Ok ())))"

section \<open>The request message\<close>

definition decode_id_data :: "json \<Rightarrow> (string \<times> string) option" where
  "decode_id_data payload =
     decode_object (\<lambda>k v x. if k = ''id'' then str_member (\<lambda>s (a, b). (s, b)) v x
       else if k = ''data'' then str_member (\<lambda>s (a, b). (a, s)) v x else Some x) payload ('''', '''')"

definition handleHTTPRequest :: "ClientEnv \<Rightarrow> dial \<Rightarrow> json \<Rightarrow> Client \<Rightarrow> unit client_result" where
  "handleHTTPRequest env d payload c =
     (case decode_id_data payload of
        None \<Rightarrow> (c, Err JsonError)
      | Some (i, data) \<Rightarrow>
          if i = '''' then (c, Ok ())
          else case base64Decode data of
            None \<Rightarrow> (refuse_encoding env i c, Err InvalidEncoding)
          | Some rawOuter \<Rightarrow>
              (case parseBinaryMessage rawOuter of
                 Ok msg \<Rightarrow>
                   let useStream = (case cl_negotiated c of None \<Rightarrow> False | Some k \<Rightarrow> has_flag k CapabilityFlagHTTPBodyStream) in
                   if \<not> useStream \<and> bm_Type msg \<noteq> MessageTypeHTTPRequest then (c, Err (UnexpectedType (bm_Type msg)))
                   else if bm_Type msg = MessageTypeHTTPRequest then dispatchFullHTTPRequest env i data c
                   else if bm_Type msg = MessageTypeHTTPRequestHead then handleHTTPRequestStreamHead env d i msg c
                   else if bm_Type msg = MessageTypeHTTPRequestBody then handleHTTPRequestStreamBody env i msg c
                   else (c, Err (UnhandledType (bm_Type msg)))
               | _ \<Rightarrow> (refuse_encoding env i c, Err InvalidFrame)))"

end
