(* ===== verification/ClientTcp.thy ===== *)
theory ClientTcp
  imports ClientHttp
begin

text \<open>
  TCP on the client (\<^verbatim>\<open>internal/client/handlers.go\<close>): a stream of the new protocol joins a connection to the local
  server with the stream's data channel; the legacy protocol joins two connections. Dials and reads are
  inputs; each turn of a copying goroutine is a function.
\<close>

section \<open>Opening a stream\<close>

definition registerTCPStreamPlaceholder :: "string \<Rightarrow> Client \<Rightarrow> Client" where
  "registerTCPStreamPlaceholder sid c =
     (if cl_tcpStreams c sid = None then c\<lparr>cl_tcpStreams := (cl_tcpStreams c)(sid \<mapsto> None)\<rparr> else c)"

definition runTCPDataChannelRelay :: "string \<Rightarrow> nat \<Rightarrow> Client \<Rightarrow> Client" where
  "runTCPDataChannelRelay sid conn c =
     start_task (RelayUpload sid conn) (c\<lparr>cl_tcpStreams := (cl_tcpStreams c)(sid \<mapsto> Some conn)\<rparr>)"

definition forget_stream :: "string \<Rightarrow> Client \<Rightarrow> Client" where
  "forget_stream sid c = c\<lparr>cl_tcpStreams := (cl_tcpStreams c)(sid := None)\<rparr>"

definition sendTCPStreamCloseNotify :: "ClientEnv \<Rightarrow> string \<Rightarrow> Client \<Rightarrow> unit client_result" where
  "sendTCPStreamCloseNotify env sid c =
     (case nextSequence sid c of
        (seq, c) \<Rightarrow>
          (case buildBinaryMessage \<lparr>bm_Type = MessageTypeTCPClose, bm_StreamID = sid, bm_Sequence = seq, bm_Flags = 1, bm_Data = []\<rparr> of
             Ok bin \<Rightarrow>
               (case getDataChannel sid c of
                  None \<Rightarrow> (c, Err (NoDataChannel sid))
                | Some s \<Rightarrow>
                    (case cl_write env s (WsBinary s bin) c of
                       (c, True) \<Rightarrow> (c, Ok ())
                     | (c, False) \<Rightarrow> (c, Err (WriteFailed (ce_write_error env)))))
           | _ \<Rightarrow> (c, Panic)))"

text \<open>A failed notification is only logged.\<close>

definition forwardTCPConnectionOverWS :: "ClientEnv \<Rightarrow> dial \<Rightarrow> string \<Rightarrow> string \<Rightarrow> Client \<Rightarrow> unit client_result" where
  "forwardTCPConnectionOverWS env d i requestID c =
     (let sid = i @ '':'' @ requestID in
      case d of
        DialError err \<Rightarrow>
          (case sendTCPStreamCloseNotify env sid c of
             (c, Panic) \<Rightarrow> (c, Panic)
           | (c, _) \<Rightarrow> (removeDataChannel sid (forget_stream sid c), Ok ()))
      | Dialled conn _ \<Rightarrow> (runTCPDataChannelRelay sid conn c, Ok ()))"

definition connect_data :: "json \<Rightarrow> (string \<times> string \<times> string) option" where
  "connect_data payload =
     decode_object (\<lambda>k v x. if k = ''id'' then str_member (\<lambda>s (i, r, p). (s, r, p)) v x
       else if k = ''requestid'' then str_member (\<lambda>s (i, r, p). (i, s, p)) v x
       else if k = ''ip'' then str_member (\<lambda>s (i, r, p). (i, r, s)) v x else Some x) payload ('''', '''', '''')"

definition handleTCPConnect :: "json \<Rightarrow> string \<Rightarrow> Client \<Rightarrow> unit client_result" where
  "handleTCPConnect payload remoteHost c =
     (case connect_data payload of
        None \<Rightarrow> (c, Err JsonError)
      | Some (i, requestID, ip) \<Rightarrow>
          if (case cl_negotiated c of None \<Rightarrow> False | Some k \<Rightarrow> has_flag k CapabilityFlagTCPOverWS) then
            (start_task (ForwardOverWS i requestID) (registerTCPStreamPlaceholder (i @ '':'' @ requestID) c), Ok ())
          else (start_task (ForwardTCP i requestID remoteHost) c, Ok ()))"

definition ready_data :: "json \<Rightarrow> (string \<times> int) option" where
  "ready_data payload =
     decode_object (\<lambda>k v x. if k = ''host'' then str_member (\<lambda>s (h, p). (s, p)) v x
       else if k = ''port'' then int_member (\<lambda>n (h, p). (h, n)) v x else Some x) payload ('''', 0)"

definition handleTCPReady :: "json \<Rightarrow> Client \<Rightarrow> unit client_result" where
  "handleTCPReady payload c = (c, if ready_data payload = None then Err JsonError else Ok ())"

section \<open>The two directions of a stream\<close>

text \<open>\<open>cleanup\<close> of the upload goroutine, which ends it.\<close>

definition relay_cleanup :: "string \<Rightarrow> nat \<Rightarrow> Client \<Rightarrow> Client" where
  "relay_cleanup sid conn c = removeDataChannel sid (cl_emit (UpstreamClosed conn) (forget_stream sid c))"

text \<open>One turn: a read of at most 4096 bytes, or its end. The second component is that the loop goes on.\<close>

definition client_upload :: "ClientEnv \<Rightarrow> string \<Rightarrow> nat \<Rightarrow> byte list option \<Rightarrow> Client \<Rightarrow> bool client_result" where
  "client_upload env sid conn read c =
     (case read of
        None \<Rightarrow> (relay_cleanup sid conn c, Ok False)
      | Some [] \<Rightarrow> (relay_cleanup sid conn c, Ok False)
      | Some bytes \<Rightarrow>
          (case nextSequence sid c of
             (seq, c) \<Rightarrow>
               (case buildBinaryMessage \<lparr>bm_Type = MessageTypeTCPData, bm_StreamID = sid, bm_Sequence = seq, bm_Flags = 1, bm_Data = bytes\<rparr> of
                  Ok bin \<Rightarrow>
                    (case getDataChannel sid c of
                       None \<Rightarrow> (relay_cleanup sid conn c, Ok False)
                     | Some s \<Rightarrow>
                         (case cl_write env s (WsBinary s bin) c of
                            (c, True) \<Rightarrow> (c, Ok True)
                          | (c, False) \<Rightarrow> (relay_cleanup sid conn c, Ok False)))
                | _ \<Rightarrow> (c, Panic))))"

text \<open>
  \<open>handleTCPDataBinary\<close>: while the stream's connection is being dialled it looks again every 10 ms for 13 s; the list
  is what else happens between two looks. Only the data is used, never the type of the frame.
\<close>

fun await_stream :: "ClientEnv \<Rightarrow> (Client \<Rightarrow> Client) list \<Rightarrow> BinaryMessage \<Rightarrow> Client \<Rightarrow> unit client_result" where
  "await_stream env meanwhile msg c =
     (case cl_tcpStreams c (bm_StreamID msg) of
        None \<Rightarrow> (c, Ok ())
      | Some (Some conn) \<Rightarrow>
          (case upstream_write env conn (bm_Data msg) c of
             (c, True) \<Rightarrow> (c, Ok ())
           | (c, False) \<Rightarrow> (cl_emit (UpstreamClosed conn) (forget_stream (bm_StreamID msg) c), Err (LocalWriteFailed (ce_write_error env))))
      | Some None \<Rightarrow> (case meanwhile of [] \<Rightarrow> (c, Ok ()) | f # fs \<Rightarrow> await_stream env fs msg (f c)))"

declare await_stream.simps [simp del]

definition handleTCPDataBinary :: "ClientEnv \<Rightarrow> (Client \<Rightarrow> Client) list \<Rightarrow> byte list \<Rightarrow> Client \<Rightarrow> unit client_result" where
  "handleTCPDataBinary env meanwhile bytes c =
     (case parseBinaryMessage bytes of
        Ok msg \<Rightarrow> await_stream env meanwhile msg c
      | _ \<Rightarrow> (c, Err InvalidFrame))"

definition tcp_data :: "json \<Rightarrow> (string \<times> string) option" where
  "tcp_data payload =
     decode_object (\<lambda>k v x. if k = ''streamid'' then str_member (\<lambda>s (a, b). (s, b)) v x
       else if k = ''data'' then str_member (\<lambda>s (a, b). (a, s)) v x else Some x) payload ('''', '''')"

definition handleTCPData :: "ClientEnv \<Rightarrow> (Client \<Rightarrow> Client) list \<Rightarrow> json \<Rightarrow> Client \<Rightarrow> unit client_result" where
  "handleTCPData env meanwhile payload c =
     (case tcp_data payload of
        None \<Rightarrow> (c, Err JsonError)
      | Some (sid, data) \<Rightarrow>
          (case base64Decode data of
             None \<Rightarrow> (c, Err InvalidEncoding)
           | Some bytes \<Rightarrow> handleTCPDataBinary env meanwhile bytes c))"

section \<open>The legacy connection\<close>

definition tunnelTCPFlag :: string where
  "tunnelTCPFlag = ''3e55f8e5-021b-441c-8e3b-64e87ea5f263''"

definition tunnelTCPOKFlag :: string where
  "tunnelTCPOKFlag = ''3e55f8e5-021b-441c-8e3b-64e87ea5f263200'' @ [CHR 0x0A]"

definition client_hmacSHA256 :: "ClientEnv \<Rightarrow> string \<Rightarrow> string \<Rightarrow> string" where
  "client_hmacSHA256 env message secret = hex_encode (ce_MAC256 env (str_bytes secret) (str_bytes message))"

definition tcp_auth_data :: "ClientEnv \<Rightarrow> Options \<Rightarrow> string \<Rightarrow> string \<Rightarrow> byte list" where
  "tcp_auth_data env op i requestID =
     (let signedSecret = (if op_AuthType op = ''credentials'' then op_ClientSecret op else op_Token op)
      in str_bytes (tunnelTCPFlag @ i @ requestID @ client_hmacSHA256 env i signedSecret))"

text \<open>
  The dials, and the one read of the server's reply: its bytes, or an error. A buffer shorter than the flag is filled
  up with zeros.
\<close>

definition forwardTCPConnection ::
    "ClientEnv \<Rightarrow> dial \<Rightarrow> dial \<Rightarrow> byte list option \<Rightarrow> string \<Rightarrow> string \<Rightarrow> Client \<Rightarrow> Client" where
  "forwardTCPConnection env localDial remoteDial read i requestID c =
     (case localDial of
        DialError _ \<Rightarrow> c
      | Dialled localConn _ \<Rightarrow>
          (case remoteDial of
             DialError _ \<Rightarrow> cl_emit (UpstreamClosed localConn) c
           | Dialled remoteConn _ \<Rightarrow>
               let close_both = (\<lambda>c. cl_emit (UpstreamClosed remoteConn) (cl_emit (UpstreamClosed localConn) c)) in
               (case upstream_write env remoteConn (tcp_auth_data env (cl_opts c) i requestID) c of
                  (c, False) \<Rightarrow> close_both c
                | (c, True) \<Rightarrow>
                    (case read of
                       None \<Rightarrow> close_both c
                     | Some bytes \<Rightarrow>
                         let n = length tunnelTCPOKFlag in
                         if take n (bytes @ replicate n 0) \<noteq> str_bytes tunnelTCPOKFlag then close_both c
                         else
                           let c = (if length bytes > n then fst (upstream_write env localConn (drop n bytes) c) else c)
                           in start_task (Pipe remoteConn localConn) (start_task (Pipe localConn remoteConn) c)))))"

text \<open>One turn of \<open>pipeConn\<close>.\<close>

definition pipeConn :: "ClientEnv \<Rightarrow> nat \<Rightarrow> nat \<Rightarrow> byte list option \<Rightarrow> Client \<Rightarrow> Client \<times> bool" where
  "pipeConn env src dst read c =
     (let close_both = (\<lambda>c. cl_emit (UpstreamClosed src) (cl_emit (UpstreamClosed dst) c)) in
      case read of
        None \<Rightarrow> (close_both c, False)
      | Some bytes \<Rightarrow>
          (case upstream_write env dst bytes c of
             (c, True) \<Rightarrow> (c, True)
           | (c, False) \<Rightarrow> (close_both c, False)))"

end
