(* ===== verification/ClientDecode.thy ===== *)
theory ClientDecode
  imports AuthDecode
begin

text \<open>
  The messages of a login as JSON (the struct tags of \<^verbatim>\<open>internal/client/types.go\<close>): what the client writes for an
  \<open>Authentication\<close>, and how it reads an \<open>AuthenticateResponse\<close>.
\<close>

section \<open>Writing\<close>

text \<open>\<open>omitempty\<close> leaves out the zero value of a string, a number, a bool and a nil pointer or slice.\<close>

definition is_zero :: "json \<Rightarrow> bool" where
  "is_zero j \<longleftrightarrow> j = JNull \<or> j = JStr '''' \<or> j = JNum 0 \<or> j = JBool False"

definition members :: "(string \<times> bool \<times> json) list \<Rightarrow> json" where
  "members fs = JObj (map (\<lambda>(k, omit, v). (k, v)) (filter (\<lambda>(k, omit, v). \<not> (omit \<and> is_zero v)) fs))"

definition json_opt :: "('a \<Rightarrow> json) \<Rightarrow> 'a option \<Rightarrow> json" where
  "json_opt f x = (case x of None \<Rightarrow> JNull | Some y \<Rightarrow> f y)"

text \<open>A slice is null when it is nil; here the empty one stands for that.\<close>

definition json_strings :: "string list \<Rightarrow> json" where
  "json_strings ss = (if ss = [] then JNull else JArr (map JStr ss))"

definition compression_json :: "CompressionFeatures \<Rightarrow> json" where
  "compression_json f = members
     [(''algorithms'', False, json_strings (Algorithms f)), (''preferred'', True, JStr (Preferred f))]"

definition chunk_json :: "ChunkSizeFeatures \<Rightarrow> json" where
  "chunk_json f = members
     [(''min'', False, JNum (cs_Min f)), (''max'', False, JNum (cs_Max f)), (''default'', False, JNum (cs_Default f))]"

definition features_json :: "CapabilityFeatures \<Rightarrow> json" where
  "features_json f = members
     [(''compression'', True, json_opt compression_json (f_Compression f)),
      (''chunkSize'', True, json_opt chunk_json (f_ChunkSize f)),
      (''flowControl'', True, json_opt (\<lambda>w. members [(''windowSize'', False, JNum w)]) (f_FlowControl f))]"

definition capabilities_json :: "Capabilities \<Rightarrow> json" where
  "capabilities_json k = members
     [(''flags'', False, JNum (cap_Flags k)), (''version'', False, JStr (cap_Version k)),
      (''features'', True, json_opt features_json (cap_Features k))]"

definition basic_json :: "HTTPTunnelAuth \<Rightarrow> json" where
  "basic_json a = members
     [(''type'', False, JStr (ha_Type a)), (''username'', True, JStr (ha_Username a)),
      (''password'', True, JStr (ha_Password a)), (''token'', True, JStr (ha_Token a))]"

definition Marshal_Authentication :: "Authentication \<Rightarrow> json" where
  "Marshal_Authentication a = members
     [(''version'', False, JStr (at_Version a)), (''type'', False, JStr (at_Type a)), (''port'', False, JNum (at_Port a)),
      (''subDomain'', True, JStr (at_SubDomain a)), (''tunnelPort'', True, JNum (at_TunnelPort a)),
      (''timestamp'', False, JNum (at_Timestamp a)), (''authType'', True, JStr (at_AuthType a)),
      (''clientId'', True, JStr (at_ClientId a)), (''signature'', False, JStr (at_Signature a)),
      (''capabilities'', True, json_opt capabilities_json (at_Capabilities a)),
      (''opaqueChild'', True, JBool (at_OpaqueChild a)),
      (''httpIngressBasic'', True, json_opt basic_json (at_HTTPIngressBasic a))]"

section \<open>Reading\<close>

record AuthenticateResponse =
  ar_OK :: bool
  ar_Message :: string
  ar_Version :: string
  ar_URL :: string
  ar_Config :: "Config option"
  ar_ClientId :: string
  ar_ContainerId :: string

definition list_member ::
    "(string \<Rightarrow> json \<Rightarrow> 'b \<Rightarrow> 'b option) \<Rightarrow> 'b \<Rightarrow> ('b list \<Rightarrow> 'a \<Rightarrow> 'a) \<Rightarrow> json \<Rightarrow> 'a \<Rightarrow> 'a option" where
  "list_member field zero upd j x =
     (case j of
        JNull \<Rightarrow> Some (upd [] x)
      | JArr js \<Rightarrow> map_option (\<lambda>l. upd l x) (those (map (\<lambda>v. decode_object field v zero) js))
      | _ \<Rightarrow> None)"

definition zero_basic :: HTTPTunnelAuth where
  "zero_basic = \<lparr>ha_Type = '''', ha_Username = '''', ha_Password = '''', ha_Token = ''''\<rparr>"

definition rule_field :: "string \<Rightarrow> json \<Rightarrow> HTTPIncomingAuthRule \<Rightarrow> HTTPIncomingAuthRule option" where
  "rule_field k v x =
     (if k = ''enable'' then bool_member (\<lambda>b x. x\<lparr>au_Enable := b\<rparr>) v x
      else if k = ''users'' then list_member basic_field zero_basic (\<lambda>l x. x\<lparr>au_Users := l\<rparr>) v x else Some x)"

definition spec_field :: "string \<Rightarrow> json \<Rightarrow> TunnelSpec \<Rightarrow> TunnelSpec option" where
  "spec_field k v x =
     (if k = ''name'' then str_member (\<lambda>s x. x\<lparr>ts_Name := s\<rparr>) v x
      else if k = ''type'' then str_member (\<lambda>s x. x\<lparr>ts_Type := s\<rparr>) v x
      else if k = ''upstream'' then str_member (\<lambda>s x. x\<lparr>ts_Upstream := s\<rparr>) v x
      else if k = ''subdomain'' then str_member (\<lambda>s x. x\<lparr>ts_SubDomain := s\<rparr>) v x
      else if k = ''remoteport'' then int_member (\<lambda>n x. x\<lparr>ts_RemotePort := n\<rparr>) v x
      else if k = ''auth'' then ptr_member rule_field \<lparr>au_Enable = False, au_Users = []\<rparr> ts_Auth (\<lambda>p x. x\<lparr>ts_Auth := p\<rparr>) v x
      else if k = ''auths'' then list_member basic_field zero_basic (\<lambda>l x. x\<lparr>ts_Auths := l\<rparr>) v x
      else Some x)"

definition alert_field :: "string \<Rightarrow> json \<Rightarrow> AlertConfig \<Rightarrow> AlertConfig option" where
  "alert_field k v x =
     (if k = ''provider'' then str_member (\<lambda>s x. x\<lparr>al_Provider := s\<rparr>) v x
      else if k = ''url'' then str_member (\<lambda>s x. x\<lparr>al_URL := s\<rparr>) v x
      else if k = ''interval'' then int_member (\<lambda>n x. x\<lparr>al_Interval := n\<rparr>) v x else Some x)"

definition notification_field :: "string \<Rightarrow> json \<Rightarrow> NotificationConfig \<Rightarrow> NotificationConfig option" where
  "notification_field k v x =
     (if k = ''provider'' then str_member (\<lambda>s x. x\<lparr>nc_Provider := s\<rparr>) v x
      else if k = ''url'' then str_member (\<lambda>s x. x\<lparr>nc_URL := s\<rparr>) v x
      else if k = ''interval'' then int_member (\<lambda>n x. x\<lparr>nc_Interval := n\<rparr>) v x
      else if k = ''alert'' then
        ptr_member alert_field \<lparr>al_Provider = '''', al_URL = '''', al_Interval = 0\<rparr> nc_Alert (\<lambda>p x. x\<lparr>nc_Alert := p\<rparr>) v x
      else Some x)"

definition config_field :: "string \<Rightarrow> json \<Rightarrow> Config \<Rightarrow> Config option" where
  "config_field k v x =
     (if k = ''version'' then str_member (\<lambda>s x. x\<lparr>cf_Version := s\<rparr>) v x
      else if k = ''notification'' then
        ptr_member notification_field \<lparr>nc_Provider = '''', nc_URL = '''', nc_Interval = 0, nc_Alert = None\<rparr>
          cf_Notification (\<lambda>p x. x\<lparr>cf_Notification := p\<rparr>) v x
      else if k = ''negotiatedcapabilities'' then
        ptr_member capabilities_field \<lparr>cap_Flags = 0, cap_Version = '''', cap_Features = None\<rparr>
          cf_NegotiatedCapabilities (\<lambda>p x. x\<lparr>cf_NegotiatedCapabilities := p\<rparr>) v x
      else if k = ''tunnels'' then
        list_member spec_field \<lparr>ts_Name = '''', ts_Type = '''', ts_Upstream = '''', ts_SubDomain = '''', ts_RemotePort = 0,
          ts_Auth = None, ts_Auths = []\<rparr> (\<lambda>l x. x\<lparr>cf_Tunnels := l\<rparr>) v x
      else Some x)"

definition response_field :: "string \<Rightarrow> json \<Rightarrow> AuthenticateResponse \<Rightarrow> AuthenticateResponse option" where
  "response_field k v x =
     (if k = ''ok'' then bool_member (\<lambda>b x. x\<lparr>ar_OK := b\<rparr>) v x
      else if k = ''message'' then str_member (\<lambda>s x. x\<lparr>ar_Message := s\<rparr>) v x
      else if k = ''version'' then str_member (\<lambda>s x. x\<lparr>ar_Version := s\<rparr>) v x
      else if k = ''url'' then str_member (\<lambda>s x. x\<lparr>ar_URL := s\<rparr>) v x
      else if k = ''config'' then
        ptr_member config_field \<lparr>cf_Version = '''', cf_Notification = None, cf_NegotiatedCapabilities = None, cf_Tunnels = []\<rparr>
          ar_Config (\<lambda>p x. x\<lparr>ar_Config := p\<rparr>) v x
      else if k = ''clientid'' then str_member (\<lambda>s x. x\<lparr>ar_ClientId := s\<rparr>) v x
      else if k = ''containerid'' then str_member (\<lambda>s x. x\<lparr>ar_ContainerId := s\<rparr>) v x
      else Some x)"

definition Unmarshal_AuthenticateResponse :: "json \<Rightarrow> AuthenticateResponse option" where
  "Unmarshal_AuthenticateResponse payload = decode_object response_field payload
     \<lparr>ar_OK = False, ar_Message = '''', ar_Version = '''', ar_URL = '''', ar_Config = None, ar_ClientId = '''', ar_ContainerId = ''''\<rparr>"

section \<open>An authentication message survives the wire\<close>

lemma is_zero_simps [simp]:
  "is_zero JNull" "is_zero (JStr s) \<longleftrightarrow> s = ''''" "is_zero (JNum n) \<longleftrightarrow> n = 0" "is_zero (JBool b) \<longleftrightarrow> \<not> b"
  "\<not> is_zero (JObj m)" "\<not> is_zero (JArr js)"
  by (auto simp: is_zero_def)

lemma is_zero_members [simp]: "\<not> is_zero (members fs)" by (simp add: members_def)

definition int64 :: "int \<Rightarrow> bool" where "int64 n \<longleftrightarrow> min_int \<le> n \<and> n \<le> max_int"

definition fields_sorted :: "(string \<times> bool \<times> json) list \<Rightarrow> bool" where
  "fields_sorted fs \<longleftrightarrow> sorted (map fst fs)"

text \<open>Reading an object back, field by field in the order of the names.\<close>

fun decode_fields :: "(string \<Rightarrow> json \<Rightarrow> 'a \<Rightarrow> 'a option) \<Rightarrow> (string \<times> bool \<times> json) list \<Rightarrow> 'a \<Rightarrow> 'a option" where
  "decode_fields field [] x = Some x"
| "decode_fields field ((k, omit, v) # fs) x =
     (if omit \<and> is_zero v then decode_fields field fs x
      else case field (ToLower k) v x of None \<Rightarrow> None | Some y \<Rightarrow> decode_fields field fs y)"

lemma foldl_None: "foldl (\<lambda>acc (k, v). case acc of None \<Rightarrow> None | Some y \<Rightarrow> f k v y) None xs = None"
  by (induction xs) auto

lemma decode_members_sorted:
  "decode_object field (JObj (map (\<lambda>(k, omit, v). (k, v)) (filter (\<lambda>(k, omit, v). \<not> (omit \<and> is_zero v)) fs))) x
     = decode_fields field fs x" if "sorted (map fst fs)" for fs
proof -
  let ?m = "map (\<lambda>(k, omit, v). (k, v)) (filter (\<lambda>(k, omit, v). \<not> (omit \<and> is_zero v)) fs)"
  have "map fst ?m = map fst (filter (\<lambda>(k, omit, v). \<not> (omit \<and> is_zero v)) fs)" by (simp add: case_prod_unfold comp_def)
  then have "sorted (map fst ?m)" using that by (metis sorted_filter)
  then have "sort_key fst ?m = ?m" by (rule sort_key_id_if_sorted)
  then have "decode_object field (JObj ?m) x
      = foldl (\<lambda>acc (k, v). case acc of None \<Rightarrow> None | Some y \<Rightarrow> field (ToLower k) v y) (Some x) ?m"
    by (simp add: decode_object_def)
  also have "\<dots> = decode_fields field fs x"
    by (induction fs arbitrary: x) (auto simp: foldl_None split: option.split)
  finally show ?thesis .
qed

lemma decode_members:
  "decode_object field (members fs) x = decode_fields field (sort_key fst fs) x"
proof -
  let ?P = "\<lambda>(k, omit, v). \<not> (omit \<and> is_zero v)" and ?g = "\<lambda>(k :: string, omit :: bool, v :: json). (k, v)"
  have keys: "sort_key fst (map ?g xs) = map ?g (sort_key fst xs)" for xs
  proof (induction xs)
    case (Cons x xs)
    have "insort_key fst (?g x) (map ?g ys) = map ?g (insort_key fst x ys)" for ys
      by (induction ys) (auto simp: case_prod_unfold)
    with Cons show ?case by simp
  qed simp
  have "sort_key fst (map ?g (filter ?P fs)) = map ?g (filter ?P (sort_key fst fs))"
    by (simp add: keys filter_sort)
  then have "decode_object field (members fs) x = decode_object field (JObj (map ?g (filter ?P (sort_key fst fs)))) x"
    by (simp add: decode_object_def members_def filter_sort [symmetric] keys sort_key_id_if_sorted)
  then show ?thesis using decode_members_sorted [of "sort_key fst fs" field x] by simp
qed

lemma sorted_members:
  fixes a b d e f g h i j k l m :: json
  shows
  "sort_key fst [(''algorithms'', False, a), (''preferred'', True, b)] = [(''algorithms'', False, a), (''preferred'', True, b)]"
  "sort_key fst [(''min'', False, a), (''max'', False, b), (''default'', False, d)] = [(''default'', False, d), (''max'', False, b), (''min'', False, a)]"
  "sort_key fst [(''compression'', True, a), (''chunkSize'', True, b), (''flowControl'', True, d)] = [(''chunkSize'', True, b), (''compression'', True, a), (''flowControl'', True, d)]"
  "sort_key fst [(''flags'', False, a), (''version'', False, b), (''features'', True, d)] = [(''features'', True, d), (''flags'', False, a), (''version'', False, b)]"
  "sort_key fst [(''type'', False, a), (''username'', True, b), (''password'', True, d), (''token'', True, e)]
    = [(''password'', True, d), (''token'', True, e), (''type'', False, a), (''username'', True, b)]"
  "sort_key fst [(''version'', False, a), (''type'', False, b), (''port'', False, d), (''subDomain'', True, e), (''tunnelPort'', True, f),
      (''timestamp'', False, g), (''authType'', True, h), (''clientId'', True, i), (''signature'', False, j),
      (''capabilities'', True, k), (''opaqueChild'', True, l), (''httpIngressBasic'', True, m)]
    = [(''authType'', True, h), (''capabilities'', True, k), (''clientId'', True, i), (''httpIngressBasic'', True, m),
       (''opaqueChild'', True, l), (''port'', False, d), (''signature'', False, j), (''subDomain'', True, e),
       (''timestamp'', False, g), (''tunnelPort'', True, f), (''type'', False, b), (''version'', False, a)]"
  by code_simp+

lemma lower_names:
  "ToLower ''version'' = ''version''"
  "ToLower ''type'' = ''type''"
  "ToLower ''port'' = ''port''"
  "ToLower ''subDomain'' = ''subdomain''"
  "ToLower ''tunnelPort'' = ''tunnelport''"
  "ToLower ''timestamp'' = ''timestamp''"
  "ToLower ''authType'' = ''authtype''"
  "ToLower ''clientId'' = ''clientid''"
  "ToLower ''signature'' = ''signature''"
  "ToLower ''capabilities'' = ''capabilities''"
  "ToLower ''opaqueChild'' = ''opaquechild''"
  "ToLower ''httpIngressBasic'' = ''httpingressbasic''"
  "ToLower ''algorithms'' = ''algorithms''"
  "ToLower ''preferred'' = ''preferred''"
  "ToLower ''min'' = ''min''"
  "ToLower ''max'' = ''max''"
  "ToLower ''default'' = ''default''"
  "ToLower ''compression'' = ''compression''"
  "ToLower ''chunkSize'' = ''chunksize''"
  "ToLower ''flowControl'' = ''flowcontrol''"
  "ToLower ''windowSize'' = ''windowsize''"
  "ToLower ''flags'' = ''flags''"
  "ToLower ''features'' = ''features''"
  "ToLower ''username'' = ''username''"
  "ToLower ''password'' = ''password''"
  "ToLower ''token'' = ''token''"
  by code_simp+

text \<open>Every value of a message is read back, given that its numbers fit in 64 bits.\<close>

definition features_fit :: "CapabilityFeatures \<Rightarrow> bool" where
  "features_fit f \<longleftrightarrow> (case f_ChunkSize f of None \<Rightarrow> True | Some z \<Rightarrow> int64 (cs_Min z) \<and> int64 (cs_Max z) \<and> int64 (cs_Default z))
     \<and> (case f_FlowControl f of None \<Rightarrow> True | Some w \<Rightarrow> int64 w)"

definition capabilities_fit :: "Capabilities \<Rightarrow> bool" where
  "capabilities_fit k \<longleftrightarrow> int64 (cap_Flags k) \<and> (case cap_Features k of None \<Rightarrow> True | Some f \<Rightarrow> features_fit f)"

lemma strings_read: "strings_member upd (json_strings ss) x = Some (upd ss x)"
proof -
  have "strings_of (map JStr ss) = Some ss" by (induction ss) (simp_all add: strings_of_def)
  then show ?thesis by (simp add: json_strings_def strings_member_def)
qed

lemma compression_read: "decode_object compression_field (compression_json f) \<lparr>Algorithms = [], Preferred = ''''\<rparr> = Some f"
  by (cases f) (simp add: compression_json_def decode_members sorted_members compression_field_def strings_read str_member_def lower_names)

lemma chunk_read:
  assumes "int64 (cs_Min f)" "int64 (cs_Max f)" "int64 (cs_Default f)"
  shows "decode_object chunk_field (chunk_json f) \<lparr>cs_Min = 0, cs_Max = 0, cs_Default = 0\<rparr> = Some f"
  using assms by (cases f) (simp add: chunk_json_def decode_members sorted_members chunk_field_def int_member_def lower_names int64_def)

lemma window_read: "int64 w \<Longrightarrow> decode_object window_field (members [(''windowSize'', False, JNum w)]) 0 = Some w"
  by (simp add: decode_members window_field_def int_member_def lower_names int64_def)

lemma members_not: "members fs \<noteq> JNull" by (simp add: members_def)

lemma ptr_member_object: "j \<noteq> JNull \<Longrightarrow> get x = None \<Longrightarrow>
    ptr_member field zero get upd j x = map_option (\<lambda>b. upd (Some b) x) (decode_object field j zero)"
  by (cases j) (simp_all add: ptr_member_def)

lemma json_not_null [simp]: "compression_json f \<noteq> JNull" "chunk_json z \<noteq> JNull" "features_json g \<noteq> JNull"
  "capabilities_json k \<noteq> JNull" "basic_json a \<noteq> JNull"
  "\<not> is_zero (compression_json f)" "\<not> is_zero (chunk_json z)" "\<not> is_zero (features_json g)"
  "\<not> is_zero (capabilities_json k)" "\<not> is_zero (basic_json a)"
  by (simp_all add: compression_json_def chunk_json_def features_json_def capabilities_json_def basic_json_def members_not)

lemma features_read:
  assumes "features_fit f"
  shows "decode_object features_field (features_json f) \<lparr>f_Compression = None, f_ChunkSize = None, f_FlowControl = None\<rparr> = Some f"
proof (cases f)
  case (fields a b d)
  show ?thesis
    using assms unfolding fields features_json_def
    by (cases a; cases b; cases d)
      (simp_all add: decode_members sorted_members features_field_def lower_names json_opt_def ptr_member_object members_not
        compression_read chunk_read window_field_def int_member_def int64_def features_fit_def)
qed

lemma capabilities_read:
  assumes "capabilities_fit k"
  shows "decode_object capabilities_field (capabilities_json k) \<lparr>cap_Flags = 0, cap_Version = '''', cap_Features = None\<rparr> = Some k"
proof (cases k)
  case (fields a b d)
  show ?thesis
    using assms unfolding fields capabilities_json_def
    by (cases d) (simp_all add: decode_members sorted_members capabilities_field_def lower_names json_opt_def ptr_member_object
        features_read int_member_def str_member_def capabilities_fit_def int64_def)
qed

lemma basic_read: "decode_object basic_field (basic_json a) \<lparr>ha_Type = '''', ha_Username = '''', ha_Password = '''', ha_Token = ''''\<rparr> = Some a"
  by (cases a) (simp add: basic_json_def decode_members sorted_members basic_field_def lower_names str_member_def)

definition auth_fits :: "Authentication \<Rightarrow> bool" where
  "auth_fits a \<longleftrightarrow> int64 (at_Port a) \<and> int64 (at_TunnelPort a) \<and> int64 (at_Timestamp a)
     \<and> (case at_Capabilities a of None \<Rightarrow> True | Some k \<Rightarrow> capabilities_fit k)"

lemma decode_field_step:
  assumes "field (ToLower k) v x = Some y" "omit \<and> is_zero v \<Longrightarrow> y = x"
  shows "decode_fields field ((k, omit, v) # fs) x = decode_fields field fs y"
  using assms by auto

theorem authentication_roundtrip:
  assumes "auth_fits a"
  shows "Unmarshal_Authentication (Marshal_Authentication a) = Some a"
proof -
  have n: "min_int \<le> at_Port a \<and> at_Port a \<le> max_int" "min_int \<le> at_TunnelPort a \<and> at_TunnelPort a \<le> max_int"
    "min_int \<le> at_Timestamp a \<and> at_Timestamp a \<le> max_int"
    using assms by (simp_all add: auth_fits_def int64_def)
  have caps: "ptr_member capabilities_field \<lparr>cap_Flags = 0, cap_Version = '''', cap_Features = None\<rparr> at_Capabilities
      (\<lambda>p x. x\<lparr>at_Capabilities := p\<rparr>) (json_opt capabilities_json (at_Capabilities a)) x = Some (x\<lparr>at_Capabilities := at_Capabilities a\<rparr>)"
    if "at_Capabilities x = None" for x
    using assms that capabilities_read by (cases "at_Capabilities a") (simp_all add: ptr_member_object auth_fits_def json_opt_def, simp add: ptr_member_def)
  have basic: "ptr_member basic_field \<lparr>ha_Type = '''', ha_Username = '''', ha_Password = '''', ha_Token = ''''\<rparr> at_HTTPIngressBasic
      (\<lambda>p x. x\<lparr>at_HTTPIngressBasic := p\<rparr>) (json_opt basic_json (at_HTTPIngressBasic a)) x = Some (x\<lparr>at_HTTPIngressBasic := at_HTTPIngressBasic a\<rparr>)"
    if "at_HTTPIngressBasic x = None" for x
    using that basic_read by (cases "at_HTTPIngressBasic a") (simp_all add: ptr_member_object json_opt_def, simp add: ptr_member_def)
  have none: "is_zero (json_opt capabilities_json k) \<longleftrightarrow> k = None" "is_zero (json_opt basic_json b) \<longleftrightarrow> b = None" for k b
    by (cases k; cases b; simp add: json_opt_def)+
  show ?thesis
    unfolding Unmarshal_Authentication_def Marshal_Authentication_def decode_members sorted_members zero_auth_def
    by ((rule trans [OF decode_field_step],
        simp add: lower_names auth_field_def str_member_def bool_member_def int_member_def n caps basic, simp add: none)+, simp)
qed

end
