(* ===== verification/ClientTargets.thy ===== *)
theory ClientTargets
  imports ClientState GoLib
begin

text \<open>
  Where the client connects (\<^verbatim>\<open>internal/client/client.go\<close>): the URLs of the monitor channel, of the legacy channel and of
  the data channels, from \<open>--remote\<close> or from the URL of the server, and the loops that dial them. \<open>url.Parse\<close> is
  a parameter; what it returns is taken apart here. A dial gives a socket, an HTTP status, or neither.
\<close>

definition wsPath :: string where "wsPath = ''/_client''"
definition wsMonitorPath :: string where "wsMonitorPath = ''/_/monitor''"
definition wsDataPath :: string where "wsDataPath = ''/_/data''"

record URL =
  u_Scheme :: string
  u_Host :: string
  u_RawQuery :: string
  u_Fragment :: string
  u_EscapedPath :: string

datatype target_error =
    RemoteRequired | InvalidRemote | ServerRequired | InvalidServerURL | MissingSchemeOrHost | QueryOrFragment
  | UnsupportedScheme string | HostRequired

definition TrimSuffix :: "string \<Rightarrow> string \<Rightarrow> string" where
  "TrimSuffix s suffix = (if HasPrefix (rev s) (rev suffix) then take (length s - length suffix) s else s)"

definition validOptionalPort :: "string \<Rightarrow> bool" where
  "validOptionalPort port \<longleftrightarrow> port = '''' \<or> (hd port = CHR '':'' \<and> list_all is_digit (tl port))"

text \<open>\<open>URL.Hostname\<close> and \<open>URL.Port\<close>.\<close>

definition split_url_host :: "string \<Rightarrow> string \<times> string" where
  "split_url_host hp =
     (let (host, port) = (case last_index CHR '':'' hp of
            Some i \<Rightarrow> if validOptionalPort (drop i hp) then (take i hp, drop (i + 1) hp) else (hp, '''')
          | None \<Rightarrow> (hp, ''''))
      in (if host \<noteq> '''' \<and> hd host = CHR ''['' \<and> last host = CHR '']'' then butlast (tl host) else host, port))"

definition joinURLPath :: "string \<Rightarrow> string \<Rightarrow> string" where
  "joinURLPath prefix suffix =
     (let p = TrimSuffix prefix ''/'' in
      if p = '''' then suffix else if \<not> HasPrefix p ''/'' then ''/'' @ p @ suffix else p @ suffix)"

definition splitRemoteHostPort :: "string \<Rightarrow> (string \<times> string) option" where
  "splitRemoteHostPort remote =
     (case SplitHostPort remote of
        Some hp \<Rightarrow> Some hp
      | None \<Rightarrow>
          (case Split remote CHR '':'' of
             [h, p] \<Rightarrow> if h \<noteq> '''' \<and> p \<noteq> '''' then Some (h, p) else None
           | _ \<Rightarrow> None))"

definition targets_at :: "string \<Rightarrow> string \<Rightarrow> string \<Rightarrow> bool \<Rightarrow> connectionTargets" where
  "targets_at base prefix host fallback =
     \<lparr>ct_monitorURL = base @ joinURLPath prefix wsMonitorPath, ct_legacyURL = base @ joinURLPath prefix wsPath,
      ct_dataBaseURL = base @ joinURLPath prefix wsDataPath, ct_remoteHost = host, ct_allowLegacyFallback = fallback\<rparr>"

definition buildConnectionTargetsFromRemote :: "string \<Rightarrow> (target_error, connectionTargets) outcome" where
  "buildConnectionTargetsFromRemote remote =
     (let r = TrimSpace remote in
      if r = '''' then Err RemoteRequired
      else case splitRemoteHostPort r of
        None \<Rightarrow> Err InvalidRemote
      | Some (host, port) \<Rightarrow>
          let base = (if port = ''443'' then ''wss'' else ''ws'') @ ''://'' @ r in
          Ok \<lparr>ct_monitorURL = base @ wsMonitorPath, ct_legacyURL = base @ wsPath, ct_dataBaseURL = base @ wsDataPath,
              ct_remoteHost = host, ct_allowLegacyFallback = True\<rparr>)"

definition buildConnectionTargetsFromServer :: "(string \<Rightarrow> URL option) \<Rightarrow> string \<Rightarrow> (target_error, connectionTargets) outcome" where
  "buildConnectionTargetsFromServer parse serverRaw =
     (if TrimSpace serverRaw = [] then Err ServerRequired
      else case parse (TrimSpace serverRaw) of
        None \<Rightarrow> Err InvalidServerURL
      | Some u \<Rightarrow>
          if u_Scheme u = '''' \<or> u_Host u = '''' then Err MissingSchemeOrHost
          else if u_RawQuery u \<noteq> '''' \<or> u_Fragment u \<noteq> '''' then Err QueryOrFragment
          else
            let scheme = ToLower (u_Scheme u) in
            case (if scheme = ''http'' then Some ''ws'' else if scheme = ''https'' then Some ''wss''
                  else if scheme = ''ws'' \<or> scheme = ''wss'' then Some scheme else None) of
              None \<Rightarrow> Err (UnsupportedScheme (u_Scheme u))
            | Some wsScheme \<Rightarrow>
                (case split_url_host (u_Host u) of
                   (host, port0) \<Rightarrow>
                     if host = '''' then Err HostRequired
                     else
                       let port = (if port0 \<noteq> '''' then port0 else if scheme = ''http'' \<or> scheme = ''ws'' then ''80'' else ''443'');
                           trimmed = TrimSuffix (u_EscapedPath u) ''/'';
                           prefix = (if trimmed = ''/'' then '''' else trimmed)
                       in Ok (targets_at (wsScheme @ ''://'' @ JoinHostPort host port) prefix host False)))"

definition buildConnectionTargets :: "(string \<Rightarrow> URL option) \<Rightarrow> Options \<Rightarrow> (target_error, connectionTargets) outcome" where
  "buildConnectionTargets parse op =
     (if TrimSpace (op_Server op) \<noteq> '''' then buildConnectionTargetsFromServer parse (op_Server op)
      else buildConnectionTargetsFromRemote (op_Remote op))"

section \<open>Dialling\<close>

text \<open>The outcome of a dial, as a function of the URL and of how many attempts went before.\<close>

datatype ws_dial = WsUp nat | WsStatus int | WsDown

type_synonym dialer = "string \<Rightarrow> nat \<Rightarrow> ws_dial"

definition monitorMaxRetries :: nat where "monitorMaxRetries = 1024"
definition dataMaxRetries :: nat where "dataMaxRetries = 3"

definition retry_wait :: "nat \<Rightarrow> int" where "retry_wait i = int (i + 1) * 2 * second_ns"

text \<open>Attempts \<open>i\<close> up to \<open>i + n - 1\<close>: the socket, if any, and the time waited between them.\<close>

fun attempts :: "dialer \<Rightarrow> string \<Rightarrow> nat \<Rightarrow> nat \<Rightarrow> nat option \<times> int" where
  "attempts dial url i 0 = (None, 0)"
| "attempts dial url i (Suc n) =
     (case dial url i of
        WsUp s \<Rightarrow> (Some s, 0)
      | _ \<Rightarrow> (case attempts dial url (Suc i) n of
          (r, w) \<Rightarrow> (r, if n = 0 then w else retry_wait i + w)))"

definition connectMonitorChannel :: "dialer \<Rightarrow> string \<Rightarrow> Client \<Rightarrow> Client \<times> bool" where
  "connectMonitorChannel dial url c =
     (case attempts dial url 0 monitorMaxRetries of
        (Some s, _) \<Rightarrow> (c\<lparr>cl_monitorConn := Some s\<rparr>, True)
      | (None, _) \<Rightarrow> (c, False))"

text \<open>The first attempt that is not an ordinary failure decides: a socket, or a 404.\<close>

fun monitor_attempts :: "dialer \<Rightarrow> string \<Rightarrow> nat \<Rightarrow> nat \<Rightarrow> ws_dial" where
  "monitor_attempts dial url i 0 = WsDown"
| "monitor_attempts dial url i (Suc n) =
     (case dial url i of
        WsUp s \<Rightarrow> WsUp s
      | WsStatus st \<Rightarrow> if st = 404 then WsStatus 404 else monitor_attempts dial url (Suc i) n
      | WsDown \<Rightarrow> monitor_attempts dial url (Suc i) n)"

text \<open>The new protocol if it connects, the legacy one after a 404 when that is allowed; None is an error.\<close>

definition establishMonitor :: "dialer \<Rightarrow> connectionTargets \<Rightarrow> bool \<Rightarrow> Client \<Rightarrow> Client \<times> bool option" where
  "establishMonitor dial targets clientWantsV2 c =
     (let legacy = (case connectMonitorChannel dial (ct_legacyURL targets) c of
            (c, True) \<Rightarrow> (c, Some False) | (c, False) \<Rightarrow> (c, None))
      in if \<not> clientWantsV2 then legacy
         else case monitor_attempts dial (ct_monitorURL targets) 0 monitorMaxRetries of
           WsUp s \<Rightarrow> (c\<lparr>cl_monitorConn := Some s\<rparr>, Some True)
         | WsStatus _ \<Rightarrow> if ct_allowLegacyFallback targets then legacy else (c, None)
         | WsDown \<Rightarrow> (c, None))"

text \<open>\<open>connectDataChannel\<close>: the socket already there, or a new one after at most three dials.\<close>

definition connectDataChannel :: "dialer \<Rightarrow> string \<Rightarrow> string \<Rightarrow> Client \<Rightarrow> Client \<times> nat option" where
  "connectDataChannel dial sid url c =
     (case getDataChannel sid c of
        Some s \<Rightarrow> (c, Some s)
      | None \<Rightarrow>
          (case attempts dial url 0 dataMaxRetries of
             (Some s, _) \<Rightarrow> (c\<lparr>cl_dataConns := AList.update sid s (cl_dataConns c)\<rparr>, Some s)
           | (None, _) \<Rightarrow> (c, None)))"

text \<open>\<open>url.Values.Encode\<close> of three parameters, in the order of their names.\<close>

definition unreserved :: "char \<Rightarrow> bool" where
  "unreserved c \<longleftrightarrow> is_digit c \<or> c \<in> set ''-_.~''
     \<or> (let n = of_char c :: nat in (65 \<le> n \<and> n \<le> 90) \<or> (97 \<le> n \<and> n \<le> 122))"

definition upper_hex :: "nat \<Rightarrow> char" where
  "upper_hex n = char_of (if n < 10 then 48 + n else 55 + n)"

definition QueryEscape :: "string \<Rightarrow> string" where
  "QueryEscape s = concat (map (\<lambda>c. if unreserved c then [c] else if c = CHR '' '' then ''+''
     else [CHR ''%'', upper_hex (of_char c div 16), upper_hex (of_char c mod 16)]) s)"

definition data_channel_url :: "Client \<Rightarrow> string \<Rightarrow> string" where
  "data_channel_url c sid = ct_dataBaseURL (cl_targets c) @ ''?clientId='' @ QueryEscape (cl_clientId c)
     @ ''&containerId='' @ QueryEscape (cl_containerId c) @ ''&streamId='' @ QueryEscape sid"

end
