(* ===== verification/ClientSession.thy ===== *)
theory ClientSession
  imports ClientTcp ClientDecode ClientTargets
begin

text \<open>
  The client's session (\<^verbatim>\<open>internal/client/client.go\<close>, \<^verbatim>\<open>handlers.go\<close>): the login and the server's reply to it, the
  events of the monitor channel, the frames of the data channels, disconnection and reconnection. Reading a
  socket is an input; reconnecting, with its dials, is one step.
\<close>

section \<open>The login\<close>

definition client_hmacSHA512 :: "ClientEnv \<Rightarrow> string \<Rightarrow> string \<Rightarrow> string" where
  "client_hmacSHA512 env message secret = hex_encode (ce_MAC512 env (str_bytes secret) (str_bytes message))"

definition signed_secret :: "Options \<Rightarrow> string" where
  "signed_secret op =
     (if op_AuthType op = ''credentials'' then op_ClientSecret op
      else if op_AuthType op = ''token'' then op_Token op else ''public'')"

definition login_message :: "ClientEnv \<Rightarrow> Client \<Rightarrow> Authentication" where
  "login_message env c =
     (let op = cl_opts c;
          caps = (if compareVersion (op_Version op) ''2.0.0'' \<ge> 0 \<and> \<not> cl_separatedChannels c then None
                  else GetClientCapabilities (op_Version op))
      in \<lparr>at_Version = op_Version op, at_Type = op_Type op, at_Port = op_UpstreamPort op, at_SubDomain = op_SubDomain op,
          at_TunnelPort = tunnelPortFromOptions (Some op), at_Timestamp = ce_now env, at_AuthType = op_AuthType op,
          at_ClientId = op_ClientId op, at_Signature = client_hmacSHA512 env (int_text (ce_now env)) (signed_secret op),
          at_Capabilities = caps, at_OpaqueChild = op_OpaqueChild op,
          at_HTTPIngressBasic = (if EqualFold (op_Type op) ''http'' \<and> TrimSpace (op_UpstreamUsername op) \<noteq> ''''
             then Some \<lparr>ha_Type = ''basic'', ha_Username = op_UpstreamUsername op, ha_Password = op_UpstreamPassword op, ha_Token = ''''\<rparr>
             else None)\<rparr>)"

definition authenticate :: "ClientEnv \<Rightarrow> Client \<Rightarrow> Client \<times> bool" where
  "authenticate env c = sendMonitorMessage env ''authenticate'' (Marshal_Authentication (login_message env c)) c"

section \<open>The reply\<close>

definition hasLocalTunnel :: "Client \<Rightarrow> bool" where
  "hasLocalTunnel c \<longleftrightarrow> (let t = ToLower (TrimSpace (op_Type (cl_opts c))) in t = ''http'' \<or> t = ''tcp'')"

text \<open>Every other tunnel of the server's list gets a client of its own; one that is no tunnel is skipped.\<close>

definition spawn_one :: "Options \<Rightarrow> int \<Rightarrow> nat \<times> TunnelSpec \<Rightarrow> Client \<Rightarrow> Client" where
  "spawn_one op myIdx p c =
     (case p of (i, spec) \<Rightarrow>
        if myIdx \<ge> 0 \<and> int i = myIdx then c
        else case ChildOptionsFromSpec (Some op) (Some spec) of
          Ok childOpts \<Rightarrow> start_task (RunChild spec childOpts) c
        | _ \<Rightarrow> c)"

definition spawnServerConfiguredTunnels :: "AuthenticateResponse \<Rightarrow> Client \<Rightarrow> Client" where
  "spawnServerConfiguredTunnels resp c =
     (if op_OpaqueChild (cl_opts c) then c
      else case ar_Config resp of
        None \<Rightarrow> c
      | Some cfg \<Rightarrow>
          let myIdx = MatchTunnelSpecIndex (AuthSnapshotFromOptions (Some (cl_opts c))) (cf_Tunnels cfg)
          in fold (spawn_one (cl_opts c) myIdx) (enumerate 0 (cf_Tunnels cfg)) c)"

text \<open>\<open>authTimeout.Stop()\<close> on a nil timer would panic.\<close>

definition handleAuthenticateResponse :: "json \<Rightarrow> Client \<Rightarrow> unit client_result" where
  "handleAuthenticateResponse payload c =
     (case Unmarshal_AuthenticateResponse payload of
        None \<Rightarrow> (c, Err JsonError)
      | Some resp \<Rightarrow>
          if cl_authTimeout c = None then (c, Panic)
          else if \<not> ar_OK resp then (halt AuthExpired c, Err (AuthenticationFailed (ar_Message resp)))
          else
            let c = halt AuthExpired (c\<lparr>cl_monitorAuthOK := True\<rparr>);
                c = (if ar_ClientId resp \<noteq> '''' then c\<lparr>cl_clientId := ar_ClientId resp\<rparr> else c);
                c = (if ar_ContainerId resp \<noteq> '''' then c\<lparr>cl_containerId := ar_ContainerId resp\<rparr> else c);
                c = c\<lparr>cl_negotiated := (case ar_Config resp of None \<Rightarrow> None | Some cfg \<Rightarrow> cf_NegotiatedCapabilities cfg)\<rparr>
            in (spawnServerConfiguredTunnels resp c, Ok ()))"

section \<open>Reconnecting\<close>

definition close_monitor :: "Client \<Rightarrow> Client" where
  "close_monitor c = (case cl_monitorConn c of None \<Rightarrow> c | Some s \<Rightarrow> (cl_emit (WsClosed s) c)\<lparr>cl_monitorConn := None\<rparr>)"

definition begin_session :: "ClientEnv \<Rightarrow> Client \<Rightarrow> Client \<times> bool" where
  "begin_session env c = authenticate env (startAuthTimeout (startHeartbeat c))"

definition reconnect :: "ClientEnv \<Rightarrow> dialer \<Rightarrow> Client \<Rightarrow> Client \<times> bool" where
  "reconnect env dial c =
     (let c = stopHeartbeat (c\<lparr>cl_closing := False, cl_monitorAuthOK := False\<rparr>);
          c = closeAllDataChannels (close_monitor (clear_timer ReconnectExpired c));
          url = (if cl_separatedChannels c then ct_monitorURL (cl_targets c) else ct_legacyURL (cl_targets c))
      in case connectMonitorChannel dial url c of
           (c, False) \<Rightarrow> (c, False)
         | (c, True) \<Rightarrow>
             (case begin_session env c of
                (c, False) \<Rightarrow> (c, False)
              | (c, True) \<Rightarrow>
                  (clear_timer ReconnectExpired
                     (start_task (ReadMonitor (ct_remoteHost (cl_targets c)) (cl_separatedChannels c)) c), True)))"

definition tryReconnectMonitor :: "ClientEnv \<Rightarrow> dialer \<Rightarrow> Client \<Rightarrow> Client \<times> bool" where
  "tryReconnectMonitor env dial c = (if \<not> cl_monitorAuthOK c then (c, False) else reconnect env dial c)"

text \<open>A failed attempt to reconnect ends the process.\<close>

definition reconnect_or_exit :: "ClientEnv \<Rightarrow> dialer \<Rightarrow> Client \<Rightarrow> Client" where
  "reconnect_or_exit env dial c =
     (case tryReconnectMonitor env dial c of (c, True) \<Rightarrow> c | (c, False) \<Rightarrow> exit_process 1 c)"

section \<open>Reading the monitor channel\<close>

text \<open>A close frame has a code and a text; other errors of \<open>ReadJSON\<close>, of the socket or of the JSON, a text.\<close>

datatype read_failure = CloseError int string | OtherFailure string

definition publicMonitorSessionTimeoutCloseReason :: string where
  "publicMonitorSessionTimeoutCloseReason = ''public monitor session timeout''"

definition legacyPublicHTTPNoAuthTimeoutCloseReason :: string where
  "legacyPublicHTTPNoAuthTimeoutCloseReason = ''public http no-auth timeout''"

definition shouldExitOnPublicHTTPNoAuthTimeoutClose :: "read_failure \<Rightarrow> bool" where
  "shouldExitOnPublicHTTPNoAuthTimeoutClose err =
     (let s = ToLower (case err of CloseError _ t \<Rightarrow> t | OtherFailure t \<Rightarrow> t) in
      Contains s (ToLower publicMonitorSessionTimeoutCloseReason)
      \<or> Contains s (ToLower legacyPublicHTTPNoAuthTimeoutCloseReason))"

definition is_close :: "read_failure \<Rightarrow> bool" where
  "is_close err \<longleftrightarrow> (case err of
     CloseError code _ \<Rightarrow> code \<in> {1000, 1001, 1006} \<or> code \<notin> {1001, 1006} | OtherFailure _ \<Rightarrow> False)"

definition connection_lost :: "string \<Rightarrow> bool" where
  "connection_lost s \<longleftrightarrow> Contains s ''use of closed network connection'' \<or> Contains s ''connection reset by peer'' \<or> Contains s ''EOF''"

definition error_text :: "read_failure \<Rightarrow> string" where
  "error_text err = (case err of CloseError code t \<Rightarrow> ''websocket: close '' @ int_text code @ '': '' @ t | OtherFailure t \<Rightarrow> t)"

definition monitor_read_failed :: "ClientEnv \<Rightarrow> dialer \<Rightarrow> read_failure \<Rightarrow> Client \<Rightarrow> Client" where
  "monitor_read_failed env dial err c =
     (if shouldExitOnPublicHTTPNoAuthTimeoutClose err then exit_process 0 c
      else if cl_closing c then reconnect_or_exit env dial c
      else if is_close err \<or> connection_lost (error_text err) then reconnect_or_exit env dial (client_handleDisconnect c)
      else c)"

definition fatal_error :: "json \<Rightarrow> bool" where
  "fatal_error payload = (case payload of JObj m \<Rightarrow> map_of m ''fatal'' = Some (JBool True) | _ \<Rightarrow> False)"

definition stream_of :: "json \<Rightarrow> string" where
  "stream_of payload = (case payload of JObj m \<Rightarrow> get_string m ''streamId'' | _ \<Rightarrow> '''')"

definition open_data_channel :: "ClientEnv \<Rightarrow> dialer \<Rightarrow> bool \<Rightarrow> json \<Rightarrow> Client \<Rightarrow> Client" where
  "open_data_channel env dial useNewProtocol payload c =
     (if \<not> useNewProtocol \<or> cl_clientId c = '''' \<or> cl_containerId c = '''' then c
      else let sid = stream_of payload in
      if sid = '''' \<or> ct_dataBaseURL (cl_targets c) = '''' then c
      else case connectDataChannel dial sid (data_channel_url c sid) c of
        (c, None) \<Rightarrow> c
      | (c, Some s) \<Rightarrow>
          fst (sendMonitorMessage env ''data:channel:ready'' (JObj [(''streamId'', JStr sid)])
            (start_task (ReadDataChannel sid s) (registerTCPStreamPlaceholder sid c))))"

text \<open>What a turn of the loop needs from outside: the dials, and what goes on while it waits.\<close>

record ClientIO =
  io_env :: ClientEnv
  io_ws :: dialer
  io_dial :: dial
  io_remote :: dial
  io_reply :: upstream_reply
  io_read :: "byte list option"

definition crash :: "Client \<Rightarrow> Client" where "crash c = exit_process 2 c"

definition run_result :: "'a client_result \<Rightarrow> Client" where
  "run_result p = (case p of (c, Panic) \<Rightarrow> crash c | (c, _) \<Rightarrow> c)"

definition monitor_event :: "ClientIO \<Rightarrow> string \<Rightarrow> bool \<Rightarrow> string \<Rightarrow> json \<Rightarrow> Client \<Rightarrow> Client" where
  "monitor_event x remoteHost useNewProtocol event payload c =
     (let env = io_env x in
      if event = ''authenticate'' then
        (case handleAuthenticateResponse payload (clear_timer ReconnectExpired c) of
           (c, Ok _) \<Rightarrow> c
         | (c, Err _) \<Rightarrow> exit_process 1 c
         | (c, Panic) \<Rightarrow> crash c)
      else if event = ''request'' then run_result (handleHTTPRequest env (io_dial x) payload c)
      else if event = ''tcp:ready'' then run_result (handleTCPReady payload c)
      else if event = ''tcp:connect'' then run_result (handleTCPConnect payload remoteHost c)
      else if event = ''data:channel:open'' then open_data_channel env (io_ws x) useNewProtocol payload c
      else if event = ''tcp:data'' then (if useNewProtocol then c else run_result (handleTCPData env [] payload c))
      else if event = ''disconnect'' then client_handleDisconnect c
      else if event = ''error'' then (if fatal_error payload then exit_process 1 c else c)
      else if event = ''@@CONFIG'' then handleSocketConfig payload c
      else if event = ''pong'' then handlePong c
      else c)"

datatype monitor_read = MonitorMessage "json list" | MonitorFailed read_failure

definition handleMonitorMessages :: "ClientIO \<Rightarrow> string \<Rightarrow> bool \<Rightarrow> monitor_read \<Rightarrow> Client \<Rightarrow> Client" where
  "handleMonitorMessages x remoteHost useNewProtocol r c =
     (if cl_monitorConn c = None then c
      else case r of
        MonitorFailed err \<Rightarrow> monitor_read_failed (io_env x) (io_ws x) err c
      | MonitorMessage msg \<Rightarrow>
          (case msg of
             JStr event # rest \<Rightarrow> monitor_event x remoteHost useNewProtocol event (message_payload msg) c
           | _ \<Rightarrow> c))"

section \<open>Reading a data channel\<close>

datatype data_read = DataFailed | DataBinary "byte list" | DataText "json list option" | DataOther

definition data_event :: "ClientEnv \<Rightarrow> string \<Rightarrow> json list option \<Rightarrow> Client \<Rightarrow> Client" where
  "data_event env sid msg c =
     (case msg of
        Some (JStr ev # rest) \<Rightarrow>
          if ev = ''pong'' then handleDataChannelPong sid c
          else if ev = ''ping'' then sendDataChannelPong env sid c else c
      | _ \<Rightarrow> c)"

text \<open>
  A turn of \<open>handleDataChannel\<close> after its first step, which starts the heartbeat. Whatever ends it removes the channel
  and stops the heartbeat. A frame for a stream that is being dialled waits; here its turn comes when the wait is over.
\<close>

definition begin_data_channel :: "string \<Rightarrow> Client \<Rightarrow> Client" where
  "begin_data_channel sid c = startDataChannelHeartbeat sid c"

definition handleDataChannel :: "ClientEnv \<Rightarrow> string \<Rightarrow> data_read \<Rightarrow> Client \<Rightarrow> Client" where
  "handleDataChannel env sid r c =
     (case r of
        DataFailed \<Rightarrow> stopDataChannelHeartbeat sid (removeDataChannel sid c)
      | DataBinary bytes \<Rightarrow> run_result (handleTCPDataBinary env [] bytes c)
      | DataText msg \<Rightarrow> data_event env sid msg c
      | DataOther \<Rightarrow> c)"

section \<open>Running\<close>

text \<open>\<open>Run\<close> up to the point where it blocks; the second component is that it did not return an error.\<close>

definition Run :: "(string \<Rightarrow> URL option) \<Rightarrow> ClientEnv \<Rightarrow> dialer \<Rightarrow> Client \<Rightarrow> Client \<times> bool" where
  "Run parse env dial c =
     (case buildConnectionTargets parse (cl_opts c) of
        Ok targets \<Rightarrow>
          let c = c\<lparr>cl_targets := targets\<rparr> in
          (case establishMonitor dial targets (compareVersion (op_Version (cl_opts c)) ''2.0.0'' \<ge> 0) c of
             (c, None) \<Rightarrow> (c, False)
           | (c, Some new) \<Rightarrow>
               (case begin_session env (stopHeartbeat (c\<lparr>cl_separatedChannels := new\<rparr>)) of
                  (c, False) \<Rightarrow> (c, False)
                | (c, True) \<Rightarrow>
                    (start_task (ReadMonitor (ct_remoteHost targets) new) (clear_timer ReconnectExpired c), True)))
      | _ \<Rightarrow> (c, False))"

end
