(* ===== verification/HeartbeatLaws.thy ===== *)
theory HeartbeatLaws
  imports ClientHeartbeat
begin

text \<open>
  Laws of the client's timers. Every armed timer is the one its field holds, so no action is armed twice; the
  heartbeats, of the monitor channel and of each data channel, implement one abstract watchdog.
\<close>

named_theorems client_simps

section \<open>Fields\<close>

lemma slot_set_slot [client_simps]: "slot a (set_slot b t c) = (if a = b then t else slot a c)"
  by (cases a; cases b) auto

lemma set_slot_fields [client_simps]:
  "cl_opts (set_slot a t c) = cl_opts c" "cl_monitorConn (set_slot a t c) = cl_monitorConn c"
  "cl_dataConns (set_slot a t c) = cl_dataConns c" "cl_negotiated (set_slot a t c) = cl_negotiated c"
  "cl_clientId (set_slot a t c) = cl_clientId c" "cl_containerId (set_slot a t c) = cl_containerId c"
  "cl_pingInterval (set_slot a t c) = cl_pingInterval c" "cl_pingTimeout (set_slot a t c) = cl_pingTimeout c"
  "cl_tcpStreams (set_slot a t c) = cl_tcpStreams c" "cl_sequence (set_slot a t c) = cl_sequence c"
  "cl_closing (set_slot a t c) = cl_closing c" "cl_heartbeatActive (set_slot a t c) = cl_heartbeatActive c"
  "cl_monitorAuthOK (set_slot a t c) = cl_monitorAuthOK c" "cl_httpStreams (set_slot a t c) = cl_httpStreams c"
  "cl_separatedChannels (set_slot a t c) = cl_separatedChannels c" "cl_targets (set_slot a t c) = cl_targets c"
  "cl_timers (set_slot a t c) = cl_timers c" "cl_nextTimer (set_slot a t c) = cl_nextTimer c"
  "cl_out (set_slot a t c) = cl_out c" "cl_exit (set_slot a t c) = cl_exit c"
  by (cases a; simp)+

lemma halt_eq: "\<exists>ts. halt a c = c\<lparr>cl_timers := ts\<rparr>"
  by (cases "slot a c") (auto simp: halt_def StopTimer_def intro: exI [of _ "cl_timers c"])

lemma slot_timers [client_simps]:
  "slot a (c\<lparr>cl_timers := ts\<rparr>) = slot a c" "slot a (c\<lparr>cl_nextTimer := n\<rparr>) = slot a c"
  by (cases a; simp)+

lemma slot_halt [client_simps]: "slot a (halt b c) = slot a c"
  using halt_eq [of b c] by (auto simp: client_simps)

lemma slot_AfterFunc [client_simps]: "slot a (AfterFunc d b c) = slot a c"
  by (cases a) (simp_all add: AfterFunc_def)

text \<open>A function of the client's state that sees neither timers nor the fields that hold them.\<close>

definition timer_blind :: "(Client \<Rightarrow> 'a) \<Rightarrow> bool" where
  "timer_blind f \<longleftrightarrow> (\<forall>c. (\<forall>ts. f (c\<lparr>cl_timers := ts\<rparr>) = f c) \<and> (\<forall>n. f (c\<lparr>cl_nextTimer := n\<rparr>) = f c)
     \<and> (\<forall>a t. f (set_slot a t c) = f c))"

lemma timer_blind_ops:
  assumes "timer_blind f"
  shows "f (halt a c) = f c" "f (clear_timer a c) = f c" "f (restart a d c) = f c"
proof -
  show h: "f (halt a c) = f c" for a c using halt_eq [of a c] assms by (auto simp: timer_blind_def)
  show "f (clear_timer a c) = f c" using assms h by (simp add: clear_timer_def timer_blind_def)
  have "f (AfterFunc d a c) = f c" for c
  proof -
    have "AfterFunc d a c = (c\<lparr>cl_timers := cl_timers c @ [(cl_nextTimer c, d, a)]\<rparr>)\<lparr>cl_nextTimer := cl_nextTimer c + 1\<rparr>"
      by (simp add: AfterFunc_def)
    then show ?thesis using assms by (simp add: timer_blind_def)
  qed
  then show "f (restart a d c) = f c" using assms h by (simp add: restart_def timer_blind_def Let_def)
qed

lemma blind_fields:
  "timer_blind cl_opts" "timer_blind cl_monitorConn" "timer_blind cl_dataConns" "timer_blind cl_negotiated"
  "timer_blind cl_clientId" "timer_blind cl_containerId" "timer_blind cl_pingInterval" "timer_blind cl_pingTimeout"
  "timer_blind cl_tcpStreams" "timer_blind cl_sequence" "timer_blind cl_closing" "timer_blind cl_heartbeatActive"
  "timer_blind cl_monitorAuthOK" "timer_blind cl_separatedChannels" "timer_blind cl_httpStreams"
  "timer_blind cl_targets" "timer_blind cl_out" "timer_blind cl_exit"
  by (simp_all add: timer_blind_def client_simps)

lemmas timer_op_fields [client_simps] = blind_fields [THEN timer_blind_ops(1)] blind_fields [THEN timer_blind_ops(2)]
  blind_fields [THEN timer_blind_ops(3)]

section \<open>Armed timers\<close>

definition armed :: "timer_action \<Rightarrow> Client \<Rightarrow> int list" where
  "armed a c = map (\<lambda>(n, d, b). d) (filter (\<lambda>(n, d, b). b = a) (cl_timers c))"

definition slots_ok :: "Client \<Rightarrow> bool" where
  "slots_ok c \<longleftrightarrow> distinct (map fst (cl_timers c))
     \<and> (\<forall>n d a. (n, d, a) \<in> set (cl_timers c) \<longrightarrow> slot a c = Some n)
     \<and> (\<forall>a n. slot a c = Some n \<longrightarrow> n < cl_nextTimer c)
     \<and> (\<forall>a b n. slot a c = Some n \<and> slot b c = Some n \<longrightarrow> a = b)"

lemma armed_timers: "armed a (c\<lparr>cl_timers := ts\<rparr>) = map (\<lambda>(n, d, b). d) (filter (\<lambda>(n, d, b). b = a) ts)"
  by (simp add: armed_def)

lemma armed_set_slot [client_simps]: "armed a (set_slot b t c) = armed a c"
  by (simp add: armed_def client_simps)

lemma halted:
  assumes "slots_ok c"
  shows "cl_timers (halt a c) = filter (\<lambda>(n, d, b). b \<noteq> a) (cl_timers c)"
proof (cases "slot a c")
  case None
  then have "b \<noteq> a" if "(n, d, b) \<in> set (cl_timers c)" for n d b using assms that by (auto simp: slots_ok_def)
  then have "filter (\<lambda>(n, d, b). b \<noteq> a) (cl_timers c) = cl_timers c" by (auto simp: filter_id_conv)
  with None show ?thesis by (simp add: halt_def)
next
  case (Some m)
  have "(n \<noteq> m) = (b \<noteq> a)" if "(n, d, b) \<in> set (cl_timers c)" for n d b
    using assms Some that unfolding slots_ok_def by (metis option.inject)
  then have "filter (\<lambda>(n, d, b). n \<noteq> m) (cl_timers c) = filter (\<lambda>(n, d, b). b \<noteq> a) (cl_timers c)"
    by (intro filter_cong) auto
  with Some show ?thesis by (simp add: halt_def StopTimer_def)
qed

lemma armed_halt [client_simps]: "slots_ok c \<Longrightarrow> armed b (halt a c) = (if b = a then [] else armed b c)"
  by (auto simp: armed_def halted case_prod_unfold intro: filter_cong intro!: arg_cong [of _ _ "map _"])

lemma next_halt [client_simps]: "cl_nextTimer (halt a c) = cl_nextTimer c"
  using halt_eq [of a c] by auto

lemma slots_okI:
  assumes "distinct (map fst (cl_timers c))" "\<And>n d a. (n, d, a) \<in> set (cl_timers c) \<Longrightarrow> slot a c = Some n"
    and "\<And>a n. slot a c = Some n \<Longrightarrow> n < cl_nextTimer c" "\<And>a b n. slot a c = Some n \<Longrightarrow> slot b c = Some n \<Longrightarrow> a = b"
  shows "slots_ok c"
  using assms unfolding slots_ok_def by blast

lemma slots_okD:
  assumes "slots_ok c"
  shows "distinct (map fst (cl_timers c))" "(n, d, a) \<in> set (cl_timers c) \<Longrightarrow> slot a c = Some n"
    "slot a c = Some n \<Longrightarrow> n < cl_nextTimer c" "slot a c = Some n \<Longrightarrow> slot b c = Some n \<Longrightarrow> a = b"
  using assms unfolding slots_ok_def by blast+

lemma slots_ok_halt [client_simps]:
  assumes "slots_ok c" shows "slots_ok (halt a c)"
proof (rule slots_okI)
  show "distinct (map fst (cl_timers (halt a c)))"
    unfolding halted [OF assms] by (rule distinct_map_filter [OF slots_okD(1) [OF assms]])
  show "slot b (halt a c) = Some n" if "(n, d, b) \<in> set (cl_timers (halt a c))" for n d b
    using that slots_okD(2) [OF assms] by (auto simp: halted [OF assms] client_simps)
  show "n < cl_nextTimer (halt a c)" if "slot b (halt a c) = Some n" for b n
    using that slots_okD(3) [OF assms] by (simp add: client_simps)
  show "b = b'" if "slot b (halt a c) = Some n" "slot b' (halt a c) = Some n" for b b' n
    using that slots_okD(4) [OF assms] by (simp add: client_simps)
qed

lemma slots_ok_clear [client_simps]:
  assumes "slots_ok c" shows "slots_ok (clear_timer a c)"
proof (rule slots_okI)
  note h = slots_ok_halt [OF assms, of a]
  show "distinct (map fst (cl_timers (clear_timer a c)))" using slots_okD(1) [OF h] by (simp add: clear_timer_def client_simps)
  show "slot b (clear_timer a c) = Some n" if "(n, d, b) \<in> set (cl_timers (clear_timer a c))" for n d b
    using that slots_okD(2) [OF assms] by (auto simp: clear_timer_def halted [OF assms] client_simps)
  show "n < cl_nextTimer (clear_timer a c)" if "slot b (clear_timer a c) = Some n" for b n
    using that slots_okD(3) [OF assms] by (auto simp: clear_timer_def client_simps split: if_splits)
  show "b = b'" if "slot b (clear_timer a c) = Some n" "slot b' (clear_timer a c) = Some n" for b b' n
    using that slots_okD(4) [OF assms] by (auto simp: clear_timer_def client_simps split: if_splits)
qed

lemma armed_clear [client_simps]: "slots_ok c \<Longrightarrow> armed b (clear_timer a c) = (if b = a then [] else armed b c)"
  by (simp add: clear_timer_def client_simps)

lemma restart_parts:
  "cl_timers (restart a d c) = cl_timers (halt a c) @ [(cl_nextTimer c, d, a)]"
  "cl_nextTimer (restart a d c) = cl_nextTimer c + 1"
  "slot b (restart a d c) = (if b = a then Some (cl_nextTimer c) else slot b c)"
  by (simp_all add: restart_def Let_def AfterFunc_def client_simps)

lemma armed_restart [client_simps]: "slots_ok c \<Longrightarrow> armed b (restart a d c) = (if b = a then [d] else armed b c)"
  using armed_halt [of c b a] by (auto simp: armed_def restart_parts)

lemma slots_ok_restart [client_simps]:
  assumes "slots_ok c" shows "slots_ok (restart a d c)"
proof (rule slots_okI)
  note h = slots_ok_halt [OF assms, of a]
  have below: "fst x < cl_nextTimer c" if "x \<in> set (cl_timers (halt a c))" for x
    using slots_okD(3) [OF h slots_okD(2) [OF h]] that by (cases x) (auto simp: client_simps)
  show "distinct (map fst (cl_timers (restart a d c)))"
    using slots_okD(1) [OF h] below by (fastforce simp: restart_parts)
  show "slot b (restart a d c) = Some n" if "(n, d', b) \<in> set (cl_timers (restart a d c))" for n d' b
    using that slots_okD(2) [OF assms] by (auto simp: halted [OF assms] restart_parts)
  show "n < cl_nextTimer (restart a d c)" if "slot b (restart a d c) = Some n" for b n
    using that slots_okD(3) [OF assms] by (auto simp: restart_parts less_SucI split: if_splits)
  show "b = b'" if "slot b (restart a d c) = Some n" "slot b' (restart a d c) = Some n" for b b' n
    using that slots_okD(3,4) [OF assms] by (fastforce simp: restart_parts split: if_splits)
qed

lemma armed_at_most_once: "slots_ok c \<Longrightarrow> length (armed a c) \<le> 1"
proof -
  assume ok: "slots_ok c"
  let ?ts = "filter (\<lambda>(n, d, b). b = a) (cl_timers c)"
  have d: "distinct (map fst ?ts)" using ok by (simp add: slots_ok_def distinct_map_filter)
  have "fst x = the (slot a c)" if "x \<in> set ?ts" for x using that ok by (auto simp: slots_ok_def)
  then have "set (map fst ?ts) \<subseteq> {the (slot a c)}" by auto
  then have "length (map fst ?ts) \<le> 1"
    using distinct_card [OF d] card_mono [of "{the (slot a c)}" "set (map fst ?ts)"] by simp
  then show ?thesis by (simp add: armed_def)
qed

text \<open>Everything else leaves the timers alone.\<close>

definition timers_same :: "Client \<Rightarrow> Client \<Rightarrow> bool" where
  "timers_same c c' \<longleftrightarrow> cl_timers c' = cl_timers c \<and> cl_nextTimer c' = cl_nextTimer c \<and> (\<forall>a. slot a c' = slot a c)"

lemma timers_sameI:
  assumes "cl_timers c' = cl_timers c" "cl_nextTimer c' = cl_nextTimer c" "cl_authTimeout c' = cl_authTimeout c"
    "cl_reconnectTimeout c' = cl_reconnectTimeout c" "cl_pingTimer c' = cl_pingTimer c"
    "cl_pingTimeoutTimer c' = cl_pingTimeoutTimer c" "cl_dataPingTimer c' = cl_dataPingTimer c"
    "cl_dataPingTimeoutTimer c' = cl_dataPingTimeoutTimer c"
  shows "timers_same c c'"
proof -
  have "slot a c' = slot a c" for a using assms by (cases a) auto
  with assms show ?thesis by (simp add: timers_same_def)
qed

lemma timers_same_armed: "timers_same c c' \<Longrightarrow> armed a c' = armed a c"
  by (simp add: timers_same_def armed_def)

lemma timers_same_ok: "timers_same c c' \<Longrightarrow> slots_ok c' = slots_ok c"
  by (simp add: timers_same_def slots_ok_def)

lemma same_updates:
  "timers_same c (c\<lparr>cl_heartbeatActive := b\<rparr>)" "timers_same c (c\<lparr>cl_closing := b\<rparr>)" "timers_same c (c\<lparr>cl_pingInterval := n\<rparr>)"
  "timers_same c (c\<lparr>cl_pingTimeout := n\<rparr>)" "timers_same c (c\<lparr>cl_dataConns := m\<rparr>)" "timers_same c (cl_emit ev c)"
  "timers_same c (c\<lparr>cl_monitorConn := s\<rparr>)" "timers_same c (c\<lparr>cl_exit := e\<rparr>)"
  by (rule timers_sameI; simp add: cl_emit_def)+

lemmas same_timers [client_simps] = same_updates [THEN timers_same_armed] same_updates [THEN timers_same_ok]

lemma cl_emit_fields [client_simps]:
  "cl_opts (cl_emit ev c) = cl_opts c" "cl_monitorConn (cl_emit ev c) = cl_monitorConn c"
  "cl_dataConns (cl_emit ev c) = cl_dataConns c" "cl_negotiated (cl_emit ev c) = cl_negotiated c"
  "cl_clientId (cl_emit ev c) = cl_clientId c" "cl_containerId (cl_emit ev c) = cl_containerId c"
  "cl_pingInterval (cl_emit ev c) = cl_pingInterval c" "cl_pingTimeout (cl_emit ev c) = cl_pingTimeout c"
  "cl_tcpStreams (cl_emit ev c) = cl_tcpStreams c" "cl_sequence (cl_emit ev c) = cl_sequence c"
  "cl_closing (cl_emit ev c) = cl_closing c" "cl_heartbeatActive (cl_emit ev c) = cl_heartbeatActive c"
  "cl_monitorAuthOK (cl_emit ev c) = cl_monitorAuthOK c" "cl_httpStreams (cl_emit ev c) = cl_httpStreams c"
  "cl_separatedChannels (cl_emit ev c) = cl_separatedChannels c" "cl_targets (cl_emit ev c) = cl_targets c"
  "cl_exit (cl_emit ev c) = cl_exit c" "cl_out (cl_emit ev c) = cl_out c @ [ev]"
  "cl_timers (cl_emit ev c) = cl_timers c" "cl_nextTimer (cl_emit ev c) = cl_nextTimer c"
  by (simp_all add: cl_emit_def)

section \<open>The watchdog\<close>

text \<open>
  An abstract heartbeat: off; a ping due after some time; a ping sent and its answer due within some time; or
  stalled, when a ping could not be written and nothing is armed any more.
\<close>

datatype beat = Off | Due int | Awaiting int | Stalled

datatype beat_label =
    BeatNone | BeatStart | BeatStop | BeatSent int | BeatLost | BeatAnswered int | BeatExpired | BeatOpen "int option"

fun beat_step :: "beat \<Rightarrow> beat_label \<Rightarrow> beat" where
  "beat_step b BeatNone = b"
| "beat_step b BeatStart = Due 0"
| "beat_step b BeatStop = Off"
| "beat_step b (BeatSent t) = (case b of Due d \<Rightarrow> Awaiting t | _ \<Rightarrow> b)"
| "beat_step b BeatLost = (case b of Due d \<Rightarrow> Stalled | _ \<Rightarrow> b)"
| "beat_step b (BeatAnswered i) = (case b of Off \<Rightarrow> Off | _ \<Rightarrow> Due i)"
| "beat_step b BeatExpired = (case b of Awaiting t \<Rightarrow> Off | _ \<Rightarrow> b)"
| "beat_step b (BeatOpen d) = (case b of Off \<Rightarrow> (case d of None \<Rightarrow> Stalled | Some n \<Rightarrow> Due n) | _ \<Rightarrow> b)"

text \<open>A machine that implements it: every step is the abstract step of its label.\<close>

locale watchdog =
  fixes run :: "'c \<Rightarrow> 'op \<Rightarrow> 'c" and ok :: "'c \<Rightarrow> bool"
    and state :: "'c \<Rightarrow> beat" and label :: "'c \<Rightarrow> 'op \<Rightarrow> beat_label"
  assumes keeps: "ok c \<Longrightarrow> ok (run c op)"
    and refines: "ok c \<Longrightarrow> state (run c op) = beat_step (state c) (label c op)"
begin

lemma run_ok: "ok c \<Longrightarrow> ok (foldl run c ops)"
  by (induction ops arbitrary: c) (simp_all add: keeps)

lemma awaiting_from_ping:
  assumes "ok c" "state (foldl run c ops) = Awaiting t"
  shows "(state c = Awaiting t \<and> (\<forall>i < length ops. label (foldl run c (take i ops)) (ops ! i) \<notin> {BeatStart, BeatStop, BeatExpired} \<union> range BeatAnswered))
    \<or> (\<exists>pre op post. ops = pre @ op # post \<and> label (foldl run c pre) op = BeatSent t
        \<and> (\<forall>i < length post. label (foldl run c (pre @ op # take i post)) (post ! i) \<notin> {BeatStart, BeatStop, BeatExpired} \<union> range BeatAnswered))"
  using assms(2)
proof (induction ops rule: rev_induct)
  case (snoc op ops)
  let ?c = "foldl run c ops"
  have step: "beat_step (state ?c) (label ?c op) = Awaiting t"
    using snoc.prems refines [OF run_ok [OF assms(1)]] by simp
  then have quiet: "label ?c op \<notin> {BeatStart, BeatStop, BeatExpired} \<union> range BeatAnswered"
    by (cases "label ?c op"; cases "state ?c") (auto split: option.splits)
  show ?case
  proof (cases "label ?c op = BeatSent t \<and> (\<exists>d. state ?c = Due d)")
    case True then show ?thesis by (intro disjI2 exI [of _ ops] exI [of _ op] exI [of _ "[]"]) simp
  next
    case False
    with step have "state ?c = Awaiting t" by (cases "label ?c op"; cases "state ?c") (auto split: option.splits)
    from snoc.IH [OF this] show ?thesis
    proof (elim disjE exE conjE)
      fix pre o' post
      assume h: "ops = pre @ o' # post" "label (foldl run c pre) o' = BeatSent t"
        "\<forall>i < length post. label (foldl run c (pre @ o' # take i post)) (post ! i) \<notin> {BeatStart, BeatStop, BeatExpired} \<union> range BeatAnswered"
      show ?thesis
        using h quiet by (intro disjI2 exI [of _ pre] exI [of _ o'] exI [of _ "post @ [op]"])
          (auto simp: nth_append less_Suc_eq)
    qed (use quiet in \<open>auto simp: nth_append less_Suc_eq\<close>)
  qed
qed simp

end

section \<open>The client's heartbeats\<close>

definition beat_of :: "bool \<Rightarrow> int list \<Rightarrow> int list \<Rightarrow> beat" where
  "beat_of on due limit =
     (if \<not> on then Off else case (due, limit) of ([d], []) \<Rightarrow> Due d | ([], [d]) \<Rightarrow> Awaiting d | _ \<Rightarrow> Stalled)"

definition monitor_beat :: "Client \<Rightarrow> beat" where
  "monitor_beat c = beat_of (cl_heartbeatActive c) (armed PingDue c) (armed PingExpired c)"

definition data_beat :: "string \<Rightarrow> Client \<Rightarrow> beat" where
  "data_beat sid c =
     beat_of (getDataChannel sid c \<noteq> None) (armed (DataPingDue sid) c) (armed (DataPingExpired sid) c)"

definition monitor_ok :: "Client \<Rightarrow> bool" where
  "monitor_ok c \<longleftrightarrow>
     (if cl_heartbeatActive c then cl_monitorConn c \<noteq> None \<and> 0 < cl_pingInterval c \<and> 0 < cl_pingTimeout c
      else armed PingDue c = [] \<and> armed PingExpired c = [])
     \<and> (armed PingDue c = [] \<or> armed PingExpired c = []) \<and> (cl_closing c \<longrightarrow> armed PingExpired c = [])"

definition data_ok :: "string \<Rightarrow> Client \<Rightarrow> bool" where
  "data_ok sid c \<longleftrightarrow>
     (armed (DataPingDue sid) c = [] \<or> armed (DataPingExpired sid) c = [])
     \<and> (getDataChannel sid c = None \<longrightarrow> armed (DataPingExpired sid) c = [])"

definition hb_ok :: "Client \<Rightarrow> bool" where
  "hb_ok c \<longleftrightarrow> slots_ok c \<and> monitor_ok c \<and> (\<forall>sid. data_ok sid c)"

text \<open>What the heartbeat of the monitor channel, and that of one stream, depend on.\<close>

definition monitor_view :: "Client \<Rightarrow> bool \<times> nat option \<times> bool \<times> int \<times> int \<times> int list \<times> int list" where
  "monitor_view c = (cl_heartbeatActive c, cl_monitorConn c, cl_closing c, cl_pingInterval c, cl_pingTimeout c,
     armed PingDue c, armed PingExpired c)"

definition data_view :: "string \<Rightarrow> Client \<Rightarrow> nat option \<times> int list \<times> int list" where
  "data_view sid c = (getDataChannel sid c, armed (DataPingDue sid) c, armed (DataPingExpired sid) c)"

lemma monitor_view_ok: "monitor_view c' = monitor_view c \<Longrightarrow> monitor_ok c' = monitor_ok c \<and> monitor_beat c' = monitor_beat c"
  by (simp add: monitor_view_def monitor_ok_def monitor_beat_def)

lemma data_view_ok: "data_view sid c' = data_view sid c \<Longrightarrow> data_ok sid c' = data_ok sid c \<and> data_beat sid c' = data_beat sid c"
  by (simp add: data_view_def data_ok_def data_beat_def)

text \<open>The timer operations, in terms of the views.\<close>

lemma clear_views:
  assumes "slots_ok c" "\<And>sid. a \<noteq> DataPingDue sid" "\<And>sid. a \<noteq> DataPingExpired sid"
  shows "data_view sid (clear_timer a c) = data_view sid c" "data_view sid (restart a d c) = data_view sid c"
  using assms by (auto simp: data_view_def getDataChannel_def client_simps)

lemma stopped_stream [client_simps]:
  assumes "slots_ok c"
  shows "slots_ok (stopDataChannelHeartbeat sid c)"
    "armed a (stopDataChannelHeartbeat sid c) = (if a = DataPingDue sid \<or> a = DataPingExpired sid then [] else armed a c)"
  using assms by (simp_all add: stopDataChannelHeartbeat_def client_simps)

lemma blind_stopped: "timer_blind f \<Longrightarrow> f (stopDataChannelHeartbeat sid c) = f c"
  by (simp add: stopDataChannelHeartbeat_def timer_blind_ops)

lemmas stopped_fields [client_simps] = blind_fields [THEN blind_stopped]

lemma removed_stream:
  assumes "slots_ok c"
  shows "slots_ok (removeDataChannel sid c)" "cl_dataConns (removeDataChannel sid c) = AList.delete sid (cl_dataConns c)"
    "armed a (removeDataChannel sid c) = (if a = DataPingDue sid \<or> a = DataPingExpired sid then [] else armed a c)"
    "monitor_view (removeDataChannel sid c) = monitor_view c"
    "cl_out (removeDataChannel sid c) = cl_out c @ (case getDataChannel sid c of None \<Rightarrow> [] | Some s \<Rightarrow> [WsClosed s])"
  using assms
  by (auto simp: removeDataChannel_def Let_def client_simps monitor_view_def getDataChannel_def split: option.split)

lemma fold_cl_emit: "fold (\<lambda>(sid, s). cl_emit (WsClosed s)) m c = c\<lparr>cl_out := cl_out c @ map (\<lambda>(sid, s). WsClosed s) m\<rparr>"
  by (induction m arbitrary: c) (auto simp: cl_emit_def)

lemma fold_stopped:
  assumes "slots_ok c"
  shows "slots_ok (fold stopDataChannelHeartbeat sids c)"
    "armed a (fold stopDataChannelHeartbeat sids c)
      = (if \<exists>sid \<in> set sids. a = DataPingDue sid \<or> a = DataPingExpired sid then [] else armed a c)"
  using assms by (induction sids arbitrary: c) (auto simp: client_simps)

lemma blind_fold_stopped: "timer_blind f \<Longrightarrow> f (fold stopDataChannelHeartbeat sids c) = f c"
  by (induction sids arbitrary: c) (auto simp: blind_stopped)

lemmas fold_stopped_fields [client_simps] = blind_fields [THEN blind_fold_stopped]

lemma closed_all:
  assumes "slots_ok c"
  shows "slots_ok (closeAllDataChannels c)" "cl_dataConns (closeAllDataChannels c) = []"
    "armed a (closeAllDataChannels c)
      = (if \<exists>sid s. (sid, s) \<in> set (cl_dataConns c) \<and> (a = DataPingDue sid \<or> a = DataPingExpired sid) then [] else armed a c)"
    "monitor_view (closeAllDataChannels c) = monitor_view c"
    "cl_out (closeAllDataChannels c) = cl_out c @ map (\<lambda>(sid, s). WsClosed s) (cl_dataConns c)"
proof -
  let ?c = "fold stopDataChannelHeartbeat (map fst (cl_dataConns c)) c"
  have eq: "closeAllDataChannels c = ?c\<lparr>cl_dataConns := [], cl_out := cl_out c @ map (\<lambda>(sid, s). WsClosed s) (cl_dataConns c)\<rparr>"
    by (simp add: closeAllDataChannels_def Let_def fold_cl_emit client_simps)
  have same: "timers_same ?c (closeAllDataChannels c)" unfolding eq by (rule timers_sameI) simp_all
  show "slots_ok (closeAllDataChannels c)" using timers_same_ok [OF same] fold_stopped(1) [OF assms] by simp
  show armed: "armed a (closeAllDataChannels c)
      = (if \<exists>sid s. (sid, s) \<in> set (cl_dataConns c) \<and> (a = DataPingDue sid \<or> a = DataPingExpired sid) then [] else armed a c)" for a
    using timers_same_armed [OF same, of a] fold_stopped(2) [OF assms, of a "map fst (cl_dataConns c)"] by force
  show "monitor_view (closeAllDataChannels c) = monitor_view c"
    using armed [of PingDue] armed [of PingExpired] by (simp add: monitor_view_def eq client_simps)
  show "cl_dataConns (closeAllDataChannels c) = []" "cl_out (closeAllDataChannels c) = cl_out c @ map (\<lambda>(sid, s). WsClosed s) (cl_dataConns c)"
    by (simp_all add: eq)
qed

section \<open>The operations on the heartbeats\<close>

lemma view_facts:
  "monitor_view c = (on, conn, closing, i, t, due, limit) \<Longrightarrow>
     monitor_ok c = ((if on then conn \<noteq> None \<and> 0 < i \<and> 0 < t else due = [] \<and> limit = []) \<and> (due = [] \<or> limit = [])
       \<and> (closing \<longrightarrow> limit = [])) \<and> monitor_beat c = beat_of on due limit"
  by (auto simp: monitor_view_def monitor_ok_def monitor_beat_def)

lemma stopped:
  assumes "slots_ok c"
  shows "slots_ok (stopHeartbeat c)"
    "monitor_view (stopHeartbeat c) = (False, cl_monitorConn c, cl_closing c, cl_pingInterval c, cl_pingTimeout c, [], [])"
    "data_view sid (stopHeartbeat c) = data_view sid c" "cl_out (stopHeartbeat c) = cl_out c"
    "cl_dataConns (stopHeartbeat c) = cl_dataConns c"
  using assms by (simp_all add: stopHeartbeat_def monitor_view_def data_view_def getDataChannel_def client_simps)

lemma scheduled:
  assumes "slots_ok c" "cl_heartbeatActive c" "cl_monitorConn c \<noteq> None"
  shows "slots_ok (schedulePing d c)"
    "monitor_view (schedulePing d c) = (True, cl_monitorConn c, cl_closing c, cl_pingInterval c, cl_pingTimeout c,
       [max 0 d], armed PingExpired c)"
    "data_view sid (schedulePing d c) = data_view sid c" "cl_out (schedulePing d c) = cl_out c"
  using assms by (auto simp: schedulePing_def monitor_view_def data_view_def getDataChannel_def client_simps)

definition positive_or :: "int \<Rightarrow> int \<Rightarrow> int" where
  "positive_or d n = (if n \<le> 0 then d else n)"

lemma started:
  assumes "slots_ok c" "cl_monitorConn c \<noteq> None"
  shows "slots_ok (startHeartbeat c)"
    "monitor_view (startHeartbeat c) = (True, cl_monitorConn c, cl_closing c, positive_or defaultPingInterval (cl_pingInterval c),
       positive_or defaultPingTimeout (cl_pingTimeout c), [0], [])"
    "data_view sid (startHeartbeat c) = data_view sid c" "cl_out (startHeartbeat c) = cl_out c"
    "cl_dataConns (startHeartbeat c) = cl_dataConns c"
proof -
  define c1 where "c1 = (stopHeartbeat c)\<lparr>cl_heartbeatActive := True\<rparr>"
  define c2 where "c2 = (if cl_pingInterval c1 \<le> 0 then c1\<lparr>cl_pingInterval := defaultPingInterval\<rparr> else c1)"
  define c3 where "c3 = (if cl_pingTimeout c2 \<le> 0 then c2\<lparr>cl_pingTimeout := defaultPingTimeout\<rparr> else c2)"
  note s = stopped [OF assms(1)]
  have eq: "startHeartbeat c = schedulePing 0 c3" by (simp add: startHeartbeat_def Let_def c1_def c2_def c3_def)
  have ok: "slots_ok c3" using s(1) by (simp add: c1_def c2_def c3_def client_simps)
  have v: "cl_heartbeatActive c3" "cl_monitorConn c3 = cl_monitorConn c" "armed PingExpired c3 = []" "cl_closing c3 = cl_closing c"
    "cl_pingInterval c3 = positive_or defaultPingInterval (cl_pingInterval c)"
    "cl_pingTimeout c3 = positive_or defaultPingTimeout (cl_pingTimeout c)" "cl_out c3 = cl_out c"
    using s(2,4) by (simp_all add: c1_def c2_def c3_def monitor_view_def positive_or_def client_simps)
  have d: "data_view sid c3 = data_view sid c"
    using s(3) [of sid] by (simp add: c1_def c2_def c3_def data_view_def getDataChannel_def client_simps)
  have conns: "cl_dataConns (schedulePing 0 c3) = cl_dataConns c3"
    by (simp add: schedulePing_def client_simps)
  have conn: "cl_monitorConn c3 \<noteq> None" using v(2) assms(2) by simp
  show "slots_ok (startHeartbeat c)"
    "monitor_view (startHeartbeat c) = (True, cl_monitorConn c, cl_closing c, positive_or defaultPingInterval (cl_pingInterval c),
       positive_or defaultPingTimeout (cl_pingTimeout c), [0], [])"
    "data_view sid (startHeartbeat c) = data_view sid c" "cl_out (startHeartbeat c) = cl_out c"
    using scheduled [OF ok v(1) conn, where d = 0] v d unfolding eq by auto
  show "cl_dataConns (startHeartbeat c) = cl_dataConns c"
    unfolding eq conns using s(5) by (simp add: c1_def c2_def c3_def)
qed

lemma defaults_positive [simp]: "0 < defaultPingInterval" "0 < defaultPingTimeout" "0 < positive_or defaultPingInterval n"
  "0 < positive_or defaultPingTimeout n"
  by (auto simp: defaultPingInterval_def defaultPingTimeout_def second_ns_def positive_or_def)

lemma ponged:
  assumes "slots_ok c" "monitor_ok c"
  shows "slots_ok (handlePong c)" "data_view sid (handlePong c) = data_view sid c" "cl_out (handlePong c) = cl_out c"
    "monitor_ok (handlePong c)" "monitor_beat (handlePong c) = beat_step (monitor_beat c) (BeatAnswered (cl_pingInterval c))"
proof -
  let ?c = "clear_timer PingExpired c"
  have ok: "slots_ok ?c" using assms(1) by (rule slots_ok_clear)
  have "slots_ok (handlePong c) \<and> data_view sid (handlePong c) = data_view sid c \<and> cl_out (handlePong c) = cl_out c
      \<and> monitor_ok (handlePong c) \<and> monitor_beat (handlePong c) = beat_step (monitor_beat c) (BeatAnswered (cl_pingInterval c))"
  proof (cases "cl_heartbeatActive c")
    case True
    with assms(2) have conn: "cl_monitorConn c \<noteq> None" "0 < cl_pingInterval c" "0 < cl_pingTimeout c" by (auto simp: monitor_ok_def)
    have a: "cl_heartbeatActive ?c" "cl_monitorConn ?c \<noteq> None" using True conn by (simp_all add: client_simps)
    note s = scheduled [OF ok a, where d = "cl_pingInterval c"]
    have eq: "handlePong c = schedulePing (cl_pingInterval c) ?c" using True by (simp add: handlePong_def)
    have v: "monitor_view (handlePong c)
        = (True, cl_monitorConn c, cl_closing c, cl_pingInterval c, cl_pingTimeout c, [cl_pingInterval c], [])"
      using s(2) conn(2) assms(1) unfolding eq by (simp add: client_simps)
    have on: "monitor_beat c \<noteq> Off" using True by (auto simp: monitor_beat_def beat_of_def split: list.split)
    then have b: "beat_step (monitor_beat c) (BeatAnswered (cl_pingInterval c)) = Due (cl_pingInterval c)"
      by (cases "monitor_beat c") auto
    show ?thesis
      using s(1) s(3) [of sid] s(4) view_facts [OF v] conn clear_views(1) [OF assms(1), of PingExpired sid] b
      unfolding eq by (auto simp: beat_of_def client_simps)
  next
    case False
    then show ?thesis using assms by (simp add: handlePong_def monitor_beat_def beat_of_def)
  qed
  then show "slots_ok (handlePong c)" "data_view sid (handlePong c) = data_view sid c" "cl_out (handlePong c) = cl_out c"
    "monitor_ok (handlePong c)" "monitor_beat (handlePong c) = beat_step (monitor_beat c) (BeatAnswered (cl_pingInterval c))"
    by simp_all
qed

text \<open>\<open>handleDisconnect\<close> stops every heartbeat and closes every data channel.\<close>

lemma disconnected:
  assumes "slots_ok c" "data_ok sid c"
  shows "slots_ok (client_handleDisconnect c)"
    "monitor_view (client_handleDisconnect c)
       = (False, cl_monitorConn c, cl_closing c, cl_pingInterval c, cl_pingTimeout c, [], [])"
    "data_ok sid (client_handleDisconnect c)" "data_beat sid (client_handleDisconnect c) = Off"
    "cl_dataConns (client_handleDisconnect c) = []"
    "cl_out (client_handleDisconnect c) = cl_out c @ map (\<lambda>(sid, s). WsClosed s) (cl_dataConns c)"
    "armed ReconnectExpired (client_handleDisconnect c) = [reconnect_limit (cl_opts c)]"
proof -
  let ?c = "closeAllDataChannels (stopHeartbeat c)"
  note s = stopped [OF assms(1)]
  note a = closed_all [OF s(1)]
  have eq: "client_handleDisconnect c = restart ReconnectExpired (reconnect_limit (cl_opts c)) ?c"
    by (simp add: client_handleDisconnect_def)
  show "slots_ok (client_handleDisconnect c)" "cl_dataConns (client_handleDisconnect c) = []"
    "cl_out (client_handleDisconnect c) = cl_out c @ map (\<lambda>(sid, s). WsClosed s) (cl_dataConns c)"
    "armed ReconnectExpired (client_handleDisconnect c) = [reconnect_limit (cl_opts c)]"
    using a(1,2,5) s(4,5) unfolding eq by (simp_all add: client_simps)
  show v: "monitor_view (client_handleDisconnect c)
       = (False, cl_monitorConn c, cl_closing c, cl_pingInterval c, cl_pingTimeout c, [], [])"
    using a(4) s(2) a(1) unfolding eq by (simp add: monitor_view_def client_simps)
  have "armed (DataPingExpired sid) (client_handleDisconnect c) = []"
  proof (cases "getDataChannel sid c")
    case None
    then have "armed (DataPingExpired sid) c = []" using assms(2) by (simp add: data_ok_def)
    then show ?thesis using a(1,3) s(3) [of sid] unfolding eq by (simp add: data_view_def client_simps)
  next
    case (Some n)
    then have "(sid, n) \<in> set (cl_dataConns (stopHeartbeat c))" using map_of_SomeD by (fastforce simp: getDataChannel_def s(5))
    then show ?thesis using a(1,3) unfolding eq by (auto simp: client_simps)
  qed
  moreover have "getDataChannel sid (client_handleDisconnect c) = None"
    using a(1,2) unfolding eq by (simp add: getDataChannel_def client_simps)
  ultimately show "data_ok sid (client_handleDisconnect c)" "data_beat sid (client_handleDisconnect c) = Off"
    by (simp_all add: data_ok_def data_beat_def beat_of_def)
qed

section \<open>A timer fires\<close>

text \<open>The action of an armed timer.\<close>

definition action_of :: "nat \<Rightarrow> Client \<Rightarrow> timer_action option" where
  "action_of n c = (case filter (\<lambda>(m, d, act). m = n) (cl_timers c) of [] \<Rightarrow> None | (m, d, act) # rest \<Rightarrow> Some act)"

lemma fire_cases:
  assumes "slots_ok c"
  obtains "action_of n c = None" "fire env n c = c"
  | act d where "action_of n c = Some act" "armed act c = [d]" "slot act c = Some n" "fire env n c = run_action env act (halt act c)"
proof (cases "filter (\<lambda>(m, d, act). m = n) (cl_timers c)")
  case Nil then show ?thesis using that(1) by (simp add: fire_def action_of_def)
next
  case (Cons x rest)
  obtain m d act where x: "x = (m, d, act)" by (cases x)
  have "x \<in> set (filter (\<lambda>(m, d, act). m = n) (cl_timers c))" using Cons by simp
  then have mem: "(n, d, act) \<in> set (cl_timers c)" "m = n" by (auto simp: x)
  then have slot: "slot act c = Some n" using slots_okD(2) [OF assms] by blast
  have "armed act c \<noteq> []" using mem(1) by (force simp: armed_def filter_empty_conv)
  then obtain d' where "armed act c = [d']" using armed_at_most_once [OF assms, of act] by (cases "armed act c") auto
  moreover have "fire env n c = run_action env act (halt act c)" by (simp add: fire_def Cons x halt_def slot)
  moreover have "action_of n c = Some act" by (simp add: action_of_def Cons x)
  ultimately show ?thesis using that(2) slot by blast
qed

definition sends :: "ClientEnv \<Rightarrow> nat option \<Rightarrow> Client \<Rightarrow> bool" where
  "sends env s c \<longleftrightarrow> (case s of None \<Rightarrow> False | Some s \<Rightarrow> ce_write env s (length (cl_out c)))"

lemma cl_write_cases: "cl_write env s ev c = (if ce_write env s (length (cl_out c)) then (cl_emit ev c, True) else (c, False))"
  by (simp add: cl_write_def)

lemma pinged:
  assumes "slots_ok c" "monitor_ok c" "cl_heartbeatActive c" "armed PingDue c = [d]"
  shows "slots_ok (sendPing env (halt PingDue c))" "data_view sid (sendPing env (halt PingDue c)) = data_view sid c"
    "monitor_ok (sendPing env (halt PingDue c))"
    "monitor_beat (sendPing env (halt PingDue c)) = beat_step (monitor_beat c)
       (if \<not> cl_closing c \<and> sends env (cl_monitorConn c) c then BeatSent (cl_pingTimeout c) else BeatLost)"
proof -
  have m: "cl_monitorConn c \<noteq> None" "0 < cl_pingInterval c" "0 < cl_pingTimeout c" "armed PingExpired c = []"
    using assms(2-4) by (auto simp: monitor_ok_def)
  then obtain s where s: "cl_monitorConn c = Some s" by blast
  let ?h = "halt PingDue c" and ?ev = "WsText s (monitor_message ''ping'' JNull)"
  have b: "monitor_beat c = Due d" using assms(3,4) m(4) by (simp add: monitor_beat_def beat_of_def)
  have eq: "sendPing env ?h = (if \<not> cl_closing c \<and> sends env (cl_monitorConn c) c
      then restart PingExpired (cl_pingTimeout c) (cl_emit ?ev ?h) else ?h)"
    using assms(3) s by (simp add: sendPing_def sendMonitorMessage_def cl_write_cases sends_def client_simps)
  have ok: "slots_ok (cl_emit ?ev ?h)" "slots_ok ?h" using assms(1) by (simp_all add: client_simps)
  show "slots_ok (sendPing env ?h)" using ok assms(1) unfolding eq by (simp add: client_simps)
  show "data_view sid (sendPing env ?h) = data_view sid c"
    using ok assms(1) unfolding eq by (simp add: data_view_def getDataChannel_def client_simps)
  have v: "monitor_view (sendPing env ?h) = (True, Some s, cl_closing c, cl_pingInterval c, cl_pingTimeout c, [],
      if \<not> cl_closing c \<and> sends env (cl_monitorConn c) c then [cl_pingTimeout c] else [])"
    using ok assms(1,3) m(4) s unfolding eq by (simp add: monitor_view_def client_simps)
  show "monitor_ok (sendPing env ?h)" using view_facts [OF v] m by auto
  show "monitor_beat (sendPing env ?h) = beat_step (monitor_beat c)
       (if \<not> cl_closing c \<and> sends env (cl_monitorConn c) c then BeatSent (cl_pingTimeout c) else BeatLost)"
    using view_facts [OF v] by (auto simp: b beat_of_def)
qed

text \<open>The time limit of a ping: the socket is closed, the client is closing, and every heartbeat is off.\<close>

lemma timed_out:
  assumes "slots_ok c" "monitor_ok c" "data_ok sid c" "armed PingExpired c = [d]"
  shows "slots_ok (ping_timed_out (halt PingExpired c))"
    "monitor_view (ping_timed_out (halt PingExpired c)) = (False, cl_monitorConn c, True, cl_pingInterval c, cl_pingTimeout c, [], [])"
    "data_ok sid (ping_timed_out (halt PingExpired c))" "data_beat sid (ping_timed_out (halt PingExpired c)) = Off"
    "cl_out (ping_timed_out (halt PingExpired c)) = cl_out c @ (case cl_monitorConn c of None \<Rightarrow> [] | Some s \<Rightarrow> [WsClosed s])
       @ map (\<lambda>(sid, s). WsClosed s) (cl_dataConns c)"
proof -
  let ?h = "halt PingExpired c"
  have m: "cl_heartbeatActive c" "\<not> cl_closing c" "cl_monitorConn c \<noteq> None"
    using assms(2,4) by (auto simp: monitor_ok_def split: if_splits)
  then obtain s where s: "cl_monitorConn c = Some s" by blast
  define c1 where "c1 = stopHeartbeat (?h\<lparr>cl_closing := True\<rparr>)"
  define c2 where "c2 = cl_emit (WsClosed s) c1"
  have ok: "slots_ok (?h\<lparr>cl_closing := True\<rparr>)" using assms(1) by (simp add: client_simps)
  note st = stopped [OF ok, folded c1_def]
  have d1: "data_view sid c1 = data_view sid c" using st(3) [of sid] assms(1) by (simp add: data_view_def getDataChannel_def client_simps)
  have eq: "ping_timed_out ?h = client_handleDisconnect c2"
    using m st(2) s by (simp add: ping_timed_out_def Let_def c1_def [symmetric] c2_def monitor_view_def client_simps)
  have ok2: "slots_ok c2" using st(1) by (simp add: c2_def client_simps)
  have d2: "data_ok sid c2"
    using data_view_ok [of sid c2 c] d1 assms(3) by (simp add: c2_def data_view_def getDataChannel_def client_simps)
  have v2: "monitor_view c2 = (False, cl_monitorConn c, True, cl_pingInterval c, cl_pingTimeout c, [], [])"
    using st(2) by (simp add: c2_def monitor_view_def client_simps)
  note fin = disconnected [OF ok2 d2]
  show "slots_ok (ping_timed_out ?h)" "data_ok sid (ping_timed_out ?h)" "data_beat sid (ping_timed_out ?h) = Off"
    using fin unfolding eq by simp_all
  show "monitor_view (ping_timed_out ?h) = (False, cl_monitorConn c, True, cl_pingInterval c, cl_pingTimeout c, [], [])"
    using fin(2) v2 unfolding eq by (simp add: monitor_view_def)
  show "cl_out (ping_timed_out ?h) = cl_out c @ (case cl_monitorConn c of None \<Rightarrow> [] | Some s \<Rightarrow> [WsClosed s])
       @ map (\<lambda>(sid, s). WsClosed s) (cl_dataConns c)"
    using fin(6) st(4,5) s unfolding eq by (simp add: c2_def client_simps)
qed

section \<open>The heartbeat of a stream\<close>

text \<open>An operation on one stream's timers leaves the monitor and the other streams alone.\<close>

definition only_stream :: "string \<Rightarrow> Client \<Rightarrow> Client \<Rightarrow> bool" where
  "only_stream sid c c' \<longleftrightarrow> slots_ok c' \<and> monitor_view c' = monitor_view c \<and> (\<forall>t. t \<noteq> sid \<longrightarrow> data_view t c' = data_view t c)"

lemma only_stream_ops:
  assumes "slots_ok c"
  shows "a = DataPingDue sid \<or> a = DataPingExpired sid \<Longrightarrow> only_stream sid c (halt a c)"
    "a = DataPingDue sid \<or> a = DataPingExpired sid \<Longrightarrow> only_stream sid c (clear_timer a c)"
    "a = DataPingDue sid \<or> a = DataPingExpired sid \<Longrightarrow> only_stream sid c (restart a d c)"
    "only_stream sid c (cl_emit ev c)"
  using assms by (auto simp: only_stream_def monitor_view_def data_view_def getDataChannel_def client_simps)

lemma only_stream_trans: "only_stream sid c c1 \<Longrightarrow> only_stream sid c1 c2 \<Longrightarrow> only_stream sid c c2"
  by (simp add: only_stream_def)

lemma only_stream_self: "slots_ok c \<Longrightarrow> only_stream sid c c"
  by (simp add: only_stream_def)

lemma only_stream_removed: "slots_ok c \<Longrightarrow> only_stream sid c (removeDataChannel sid c)"
  by (auto simp: only_stream_def removed_stream data_view_def getDataChannel_def delete_conv)

lemma removed_beat: "slots_ok c \<Longrightarrow> data_ok sid (removeDataChannel sid c) \<and> data_beat sid (removeDataChannel sid c) = Off"
  by (simp add: data_ok_def data_beat_def beat_of_def removed_stream getDataChannel_def delete_conv)

lemma started_stream:
  assumes "slots_ok c"
  shows "only_stream sid c (startDataChannelHeartbeat sid c)" "data_ok sid (startDataChannelHeartbeat sid c)"
    "getDataChannel sid c \<noteq> None \<Longrightarrow> data_beat sid (startDataChannelHeartbeat sid c) = Due 0"
    "cl_dataConns (startDataChannelHeartbeat sid c) = cl_dataConns c"
    "cl_out (startDataChannelHeartbeat sid c) = cl_out c"
  using assms
  by (auto simp: startDataChannelHeartbeat_def scheduleDataChannelPing_def only_stream_def monitor_view_def data_view_def
      data_ok_def data_beat_def beat_of_def getDataChannel_def client_simps)

lemma ponged_stream:
  assumes "slots_ok c" "data_ok sid c"
  shows "only_stream sid c (handleDataChannelPong sid c)" "data_ok sid (handleDataChannelPong sid c)"
    "data_beat sid (handleDataChannelPong sid c)
      = beat_step (data_beat sid c) (BeatAnswered (positive_or defaultPingInterval (cl_pingInterval c)))"
    "cl_out (handleDataChannelPong sid c) = cl_out c"
proof -
  have max: "max 0 (positive_or defaultPingInterval n) = positive_or defaultPingInterval n" for n
    using defaults_positive(3) [of n] by linarith
  have eq: "handleDataChannelPong sid c = restart (DataPingDue sid) (positive_or defaultPingInterval (cl_pingInterval c))
      (clear_timer (DataPingExpired sid) c)"
    by (simp add: handleDataChannelPong_def scheduleDataChannelPing_def Let_def positive_or_def client_simps max [unfolded positive_or_def])
  show "only_stream sid c (handleDataChannelPong sid c)" "data_ok sid (handleDataChannelPong sid c)"
    "cl_out (handleDataChannelPong sid c) = cl_out c"
    using assms by (auto simp: eq only_stream_def monitor_view_def data_view_def data_ok_def getDataChannel_def client_simps)
  show "data_beat sid (handleDataChannelPong sid c)
      = beat_step (data_beat sid c) (BeatAnswered (positive_or defaultPingInterval (cl_pingInterval c)))"
    using assms(1) by (auto simp: eq data_beat_def beat_of_def getDataChannel_def client_simps split: list.split)
qed

lemma pinged_stream:
  assumes "slots_ok c" "data_ok sid c" "armed (DataPingDue sid) c = [d]"
  shows "only_stream sid c (sendDataChannelPing env sid (halt (DataPingDue sid) c))"
    "data_ok sid (sendDataChannelPing env sid (halt (DataPingDue sid) c))"
    "data_beat sid (sendDataChannelPing env sid (halt (DataPingDue sid) c)) = beat_step (data_beat sid c)
       (if sends env (getDataChannel sid c) c then BeatSent (positive_or defaultPingTimeout (cl_pingTimeout c)) else BeatStop)"
proof -
  let ?h = "halt (DataPingDue sid) c" and ?c = "sendDataChannelPing env sid (halt (DataPingDue sid) c)"
  have ok: "slots_ok ?h" "only_stream sid c ?h" using assms(1) only_stream_ops(1) [OF assms(1)] by (auto simp: client_simps)
  have "only_stream sid c ?c \<and> data_ok sid ?c \<and> data_beat sid ?c = beat_step (data_beat sid c)
       (if sends env (getDataChannel sid c) c then BeatSent (positive_or defaultPingTimeout (cl_pingTimeout c)) else BeatStop)"
  proof (cases "getDataChannel sid c")
    case None
    then have eq: "?c = stopDataChannelHeartbeat sid ?h" by (simp add: sendDataChannelPing_def getDataChannel_def client_simps)
    show ?thesis
      using None ok assms(1) unfolding eq
      by (auto simp: only_stream_def monitor_view_def data_view_def data_ok_def data_beat_def beat_of_def getDataChannel_def sends_def client_simps)
  next
    case (Some s)
    then have g: "getDataChannel sid ?h = Some s" by (simp add: getDataChannel_def client_simps)
    let ?ev = "WsText s (monitor_message ''ping'' JNull)" and ?pt = "positive_or defaultPingTimeout (cl_pingTimeout c)"
    have eq: "?c = (if sends env (getDataChannel sid c) c then restart (DataPingExpired sid) ?pt (cl_emit ?ev ?h) else removeDataChannel sid ?h)"
      using Some by (simp add: sendDataChannelPing_def g cl_write_cases sends_def positive_or_def client_simps)
    show ?thesis
    proof (cases "sends env (getDataChannel sid c) c")
      case True
      have b: "data_beat sid c = Due d" using assms(2,3) Some by (auto simp: data_beat_def beat_of_def data_ok_def)
      show ?thesis
        using True Some b ok assms(1) unfolding eq
        by (auto simp: only_stream_def monitor_view_def data_view_def data_ok_def data_beat_def beat_of_def getDataChannel_def client_simps)
    next
      case False
      then show ?thesis
        using removed_beat [OF ok(1), of sid] only_stream_trans [OF ok(2) only_stream_removed [OF ok(1)]] unfolding eq by simp
    qed
  qed
  then show "only_stream sid c ?c" "data_ok sid ?c" "data_beat sid ?c = beat_step (data_beat sid c)
       (if sends env (getDataChannel sid c) c then BeatSent (positive_or defaultPingTimeout (cl_pingTimeout c)) else BeatStop)"
    by simp_all
qed

text \<open>A stream's time limit removes that stream's channel.\<close>

lemma timed_out_stream:
  assumes "slots_ok c"
  shows "only_stream sid c (removeDataChannel sid (halt (DataPingExpired sid) c))"
    "data_ok sid (removeDataChannel sid (halt (DataPingExpired sid) c))"
    "data_beat sid (removeDataChannel sid (halt (DataPingExpired sid) c)) = Off"
  using removed_beat [of "halt (DataPingExpired sid) c" sid] only_stream_removed [of "halt (DataPingExpired sid) c" sid]
    only_stream_ops(1) [OF assms, of "DataPingExpired sid" sid] slots_ok_halt [OF assms] only_stream_trans by blast+

section \<open>New intervals\<close>

lemma fold_started_streams:
  assumes "slots_ok c" "\<And>sid. data_ok sid c"
  shows "slots_ok (fold startDataChannelHeartbeat sids c) \<and> monitor_view (fold startDataChannelHeartbeat sids c) = monitor_view c
    \<and> cl_dataConns (fold startDataChannelHeartbeat sids c) = cl_dataConns c \<and> cl_out (fold startDataChannelHeartbeat sids c) = cl_out c
    \<and> (\<forall>sid. data_ok sid (fold startDataChannelHeartbeat sids c) \<and> data_beat sid (fold startDataChannelHeartbeat sids c)
         = (if sid \<in> set sids \<and> getDataChannel sid c \<noteq> None then Due 0 else data_beat sid c))"
  using assms
proof (induction sids arbitrary: c)
  case (Cons s sids)
  let ?c = "startDataChannelHeartbeat s c"
  note st = started_stream [OF Cons.prems(1), of s]
  have ok: "slots_ok ?c" "monitor_view ?c = monitor_view c" using st(1) by (simp_all add: only_stream_def)
  have d: "data_ok sid ?c" for sid
    using st(1,2) data_view_ok [of sid ?c c] Cons.prems(2) [of sid] by (cases "sid = s") (auto simp: only_stream_def)
  have g: "getDataChannel sid ?c = getDataChannel sid c" for sid using st(4) by (simp add: getDataChannel_def)
  have b: "data_beat sid ?c = (if sid = s \<and> getDataChannel sid c \<noteq> None then Due 0 else data_beat sid c)" for sid
  proof (cases "sid = s")
    case True
    then show ?thesis using st(3) g [of s] by (auto simp: data_beat_def beat_of_def)
  next
    case False then show ?thesis using st(1) data_view_ok [of sid ?c c] by (simp add: only_stream_def)
  qed
  from Cons.IH [OF ok(1) d] ok(2) st(4,5) g b show ?case by auto
qed simp

lemma configured:
  assumes "slots_ok c" "monitor_ok c" "\<And>sid. data_ok sid c" "cl_monitorConn c \<noteq> None"
  shows "slots_ok (handleSocketConfig payload c)" "monitor_ok (handleSocketConfig payload c)"
    "data_ok sid (handleSocketConfig payload c)" "cl_out (handleSocketConfig payload c) = cl_out c"
    "monitor_beat (handleSocketConfig payload c)
      = beat_step (monitor_beat c) (if socket_config payload = None then BeatNone else BeatStart)"
    "data_beat sid (handleSocketConfig payload c) = beat_step (data_beat sid c)
       (if socket_config payload = None \<or> getDataChannel sid c = None then BeatNone else BeatStart)"
proof -
  let ?c = "handleSocketConfig payload c"
  have "slots_ok ?c \<and> monitor_ok ?c \<and> data_ok sid ?c \<and> cl_out ?c = cl_out c
    \<and> monitor_beat ?c = beat_step (monitor_beat c) (if socket_config payload = None then BeatNone else BeatStart)
    \<and> data_beat sid ?c = beat_step (data_beat sid c)
       (if socket_config payload = None \<or> getDataChannel sid c = None then BeatNone else BeatStart)"
  proof (cases "socket_config payload")
    case None then show ?thesis using assms by (simp add: handleSocketConfig_def)
  next
    case (Some p)
    obtain interval limit where p: "p = (interval, limit)" by (cases p)
    define c1 where "c1 = (if interval > 0 then c\<lparr>cl_pingInterval := to_int64 (interval * millisecond_ns)\<rparr> else c)"
    define c2 where "c2 = (if limit > 0 then c1\<lparr>cl_pingTimeout := to_int64 (limit * millisecond_ns)\<rparr> else c1)"
    have c2: "slots_ok c2" "cl_monitorConn c2 \<noteq> None" "cl_closing c2 = cl_closing c" "cl_dataConns c2 = cl_dataConns c" "cl_out c2 = cl_out c"
      using assms(1,4) by (simp_all add: c1_def c2_def client_simps)
    have v2: "data_view sid c2 = data_view sid c" for sid
      by (simp add: c1_def c2_def data_view_def getDataChannel_def client_simps)
    note st = started [OF c2(1,2)]
    have d: "data_ok sid (startHeartbeat c2)" for sid
      using data_view_ok [of sid "startHeartbeat c2" c] st(3) [of sid] v2 [of sid] assms(3) by simp
    have b: "data_beat sid (startHeartbeat c2) = data_beat sid c"
      using data_view_ok [of sid "startHeartbeat c2" c] st(3) [of sid] v2 [of sid] by simp
    have eq: "?c = fold startDataChannelHeartbeat (map fst (cl_dataConns c)) (startHeartbeat c2)"
    proof -
      have "?c = restartAllDataChannelHeartbeats (startHeartbeat c2)"
        unfolding handleSocketConfig_def Some p c2_def c1_def by (simp only: option.case prod.case Let_def)
      then show ?thesis using st(5) c2(4) by (simp add: restartAllDataChannelHeartbeats_def)
    qed
    have g: "getDataChannel sid (startHeartbeat c2) = getDataChannel sid c" using st(5) c2(4) by (simp add: getDataChannel_def)
    have keys: "sid \<in> set (map fst (cl_dataConns c)) \<longleftrightarrow> getDataChannel sid c \<noteq> None"
      by (auto simp: getDataChannel_def map_of_eq_None_iff)
    note f = fold_started_streams [OF st(1) d, of "map fst (cl_dataConns c)", folded eq]
    have v: "monitor_view ?c = (True, cl_monitorConn c2, cl_closing c2, positive_or defaultPingInterval (cl_pingInterval c2),
       positive_or defaultPingTimeout (cl_pingTimeout c2), [0], [])" using f st(2) by simp
    have db: "data_beat sid ?c = (if getDataChannel sid c \<noteq> None then Due 0 else data_beat sid c)"
      using f keys g b by auto
    show ?thesis
      using f view_facts [OF v] c2(2,5) st(4) Some db by (auto simp: beat_of_def)
  qed
  then show "slots_ok ?c" "monitor_ok ?c" "data_ok sid ?c" "cl_out ?c = cl_out c"
    "monitor_beat ?c = beat_step (monitor_beat c) (if socket_config payload = None then BeatNone else BeatStart)"
    "data_beat sid ?c = beat_step (data_beat sid c)
       (if socket_config payload = None \<or> getDataChannel sid c = None then BeatNone else BeatStart)" by simp_all
qed

end
