(* ===== verification/ClientMachine.thy ===== *)
theory ClientMachine
  imports ClientSession HeartbeatLaws
begin

text \<open>
  The client as one machine: every turn of its goroutines and every timer is a step. Its heartbeats implement the
  watchdog of \<^verbatim>\<open>HeartbeatLaws\<close> whatever else the client does in between.
\<close>

datatype client_input =
    ReadsMonitor string bool monitor_read | BeginsData string | ReadsData string data_read | TimerFires nat
  | RunsForward string "byte list" | RunsStreamAnswer string nat | RunsOverWS string string
  | RunsTCP string string | RunsRelay string nat | RunsUpload string nat | RunsPipe nat nat

text \<open>After \<open>os.Exit\<close> nothing happens any more.\<close>

definition client_step :: "Client \<Rightarrow> ClientIO \<times> client_input \<Rightarrow> Client" where
  "client_step c i =
     (if cl_exit c \<noteq> None then c
      else case i of (x, input) \<Rightarrow>
        (case input of
           ReadsMonitor host new r \<Rightarrow> handleMonitorMessages x host new r c
         | BeginsData sid \<Rightarrow> begin_data_channel sid c
         | ReadsData sid r \<Rightarrow> handleDataChannel (io_env x) sid r c
         | TimerFires n \<Rightarrow> fire (io_env x) n c
         | RunsForward i raw \<Rightarrow> forwardHTTPRequest (io_env x) (io_dial x) (io_reply x) i raw c
         | RunsStreamAnswer i conn \<Rightarrow> run_result (readUpstreamAndStreamHTTPResponse (io_env x) (io_reply x) i conn c)
         | RunsOverWS i r \<Rightarrow> run_result (forwardTCPConnectionOverWS (io_env x) (io_dial x) i r c)
         | RunsTCP i r \<Rightarrow> forwardTCPConnection (io_env x) (io_dial x) (io_remote x) (io_read x) i r c
         | RunsRelay sid conn \<Rightarrow> runTCPDataChannelRelay sid conn c
         | RunsUpload sid conn \<Rightarrow> run_result (client_upload (io_env x) sid conn (io_read x) c)
         | RunsPipe a b \<Rightarrow> fst (pipeConn (io_env x) a b (io_read x) c)))"

section \<open>What leaves the heartbeats alone\<close>

definition hb_same :: "Client \<Rightarrow> Client \<Rightarrow> bool" where
  "hb_same c c' \<longleftrightarrow> timers_same c c' \<and> cl_heartbeatActive c' = cl_heartbeatActive c \<and> cl_monitorConn c' = cl_monitorConn c
     \<and> cl_closing c' = cl_closing c \<and> cl_pingInterval c' = cl_pingInterval c \<and> cl_pingTimeout c' = cl_pingTimeout c
     \<and> cl_dataConns c' = cl_dataConns c"

lemma hb_same_refl [simp]: "hb_same c c"
  by (simp add: hb_same_def timers_same_def)

lemma hb_same_trans: "hb_same c c1 \<Longrightarrow> hb_same c1 c2 \<Longrightarrow> hb_same c c2"
  by (simp add: hb_same_def timers_same_def)

lemma hb_same_updates:
  assumes "hb_same c0 c"
  shows "hb_same c0 (cl_emit ev c)" "hb_same c0 (c\<lparr>cl_httpStreams := a\<rparr>)" "hb_same c0 (c\<lparr>cl_tcpStreams := b\<rparr>)"
    "hb_same c0 (c\<lparr>cl_sequence := d\<rparr>)" "hb_same c0 (c\<lparr>cl_negotiated := e\<rparr>)" "hb_same c0 (c\<lparr>cl_clientId := f\<rparr>)"
    "hb_same c0 (c\<lparr>cl_containerId := g\<rparr>)" "hb_same c0 (c\<lparr>cl_monitorAuthOK := h\<rparr>)" "hb_same c0 (c\<lparr>cl_exit := k\<rparr>)"
proof -
  have "timers_same c (cl_emit ev c)" "timers_same c (c\<lparr>cl_httpStreams := a\<rparr>)" "timers_same c (c\<lparr>cl_tcpStreams := b\<rparr>)"
    "timers_same c (c\<lparr>cl_sequence := d\<rparr>)" "timers_same c (c\<lparr>cl_negotiated := e\<rparr>)" "timers_same c (c\<lparr>cl_clientId := f\<rparr>)"
    "timers_same c (c\<lparr>cl_containerId := g\<rparr>)" "timers_same c (c\<lparr>cl_monitorAuthOK := h\<rparr>)" "timers_same c (c\<lparr>cl_exit := k\<rparr>)"
    by (rule timers_sameI; simp add: cl_emit_def)+
  then have "hb_same c (cl_emit ev c)" "hb_same c (c\<lparr>cl_httpStreams := a\<rparr>)" "hb_same c (c\<lparr>cl_tcpStreams := b\<rparr>)"
    "hb_same c (c\<lparr>cl_sequence := d\<rparr>)" "hb_same c (c\<lparr>cl_negotiated := e\<rparr>)" "hb_same c (c\<lparr>cl_clientId := f\<rparr>)"
    "hb_same c (c\<lparr>cl_containerId := g\<rparr>)" "hb_same c (c\<lparr>cl_monitorAuthOK := h\<rparr>)" "hb_same c (c\<lparr>cl_exit := k\<rparr>)"
    by (simp_all add: hb_same_def client_simps)
  then show "hb_same c0 (cl_emit ev c)" "hb_same c0 (c\<lparr>cl_httpStreams := a\<rparr>)" "hb_same c0 (c\<lparr>cl_tcpStreams := b\<rparr>)"
    "hb_same c0 (c\<lparr>cl_sequence := d\<rparr>)" "hb_same c0 (c\<lparr>cl_negotiated := e\<rparr>)" "hb_same c0 (c\<lparr>cl_clientId := f\<rparr>)"
    "hb_same c0 (c\<lparr>cl_containerId := g\<rparr>)" "hb_same c0 (c\<lparr>cl_monitorAuthOK := h\<rparr>)" "hb_same c0 (c\<lparr>cl_exit := k\<rparr>)"
    using assms hb_same_trans by blast+
qed

text \<open>The functions that only write, count and start tasks.\<close>

named_theorems keeps_beat

declare hb_same_updates [keeps_beat]

lemma same_start [keeps_beat]: "hb_same c0 c \<Longrightarrow> hb_same c0 (start_task k c)"
  by (simp add: start_task_def keeps_beat)

lemma same_exit [keeps_beat]: "hb_same c0 c \<Longrightarrow> hb_same c0 (exit_process n c)"
  by (simp add: exit_process_def keeps_beat)

lemma same_write [keeps_beat]: "cl_write env s ev c = (c', b) \<Longrightarrow> hb_same c0 c \<Longrightarrow> hb_same c0 c'"
  by (auto simp: cl_write_def keeps_beat split: if_splits)

lemma same_upstream [keeps_beat]: "upstream_write env s bs c = (c', b) \<Longrightarrow> hb_same c0 c \<Longrightarrow> hb_same c0 c'"
  by (auto simp: upstream_write_def intro: keeps_beat)

lemma same_send [keeps_beat]: "sendMonitorMessage env ev p c = (c', b) \<Longrightarrow> hb_same c0 c \<Longrightarrow> hb_same c0 c'"
  by (auto simp: sendMonitorMessage_def intro: keeps_beat split: option.splits if_splits)

lemma same_sequence [keeps_beat]: "nextSequence sid c = (n, c') \<Longrightarrow> hb_same c0 c \<Longrightarrow> hb_same c0 c'"
  by (auto simp: nextSequence_def Let_def intro: keeps_beat)

lemma same_answer [keeps_beat]: "send_answer env i raw c = (c', b) \<Longrightarrow> hb_same c0 c \<Longrightarrow> hb_same c0 c'"
  by (auto simp: send_answer_def intro: keeps_beat split: option.splits)

lemma same_fst: "(\<And>c' b. f c = (c', b) \<Longrightarrow> hb_same c0 c \<Longrightarrow> hb_same c0 c') \<Longrightarrow> hb_same c0 c \<Longrightarrow> hb_same c0 (fst (f c))"
  by (cases "f c") auto

lemma same_refusal [keeps_beat]: "hb_same c0 c \<Longrightarrow> hb_same c0 (sendTunneledHTTPErrorResponse env i code msg c)"
  using same_fst [of "send_answer env i (str_bytes (error_response code msg))" c c0] same_answer
  by (auto simp: sendTunneledHTTPErrorResponse_def)

lemma same_refuse [keeps_beat]: "hb_same c0 c \<Longrightarrow> hb_same c0 (refuse_encoding env i c)"
  by (simp add: refuse_encoding_def keeps_beat)

lemma same_semantic [keeps_beat]: "sendSemanticHTTPResponse env t i bs fin c = (c', r) \<Longrightarrow> hb_same c0 c \<Longrightarrow> hb_same c0 c'"
  by (auto simp: sendSemanticHTTPResponse_def intro: keeps_beat split: option.splits prod.splits outcome.splits bool.splits if_splits)

lemma same_pieces [keeps_beat]: "send_pieces env i ps c = (c', r) \<Longrightarrow> hb_same c0 c \<Longrightarrow> hb_same c0 c'"
proof (induction ps arbitrary: c)
  case (Cons p ps)
  obtain c1 r1 where s: "sendSemanticHTTPResponse env MessageTypeHTTPResponseBody i p (ps = []) c = (c1, r1)" by force
  have "hb_same c0 c1" using same_semantic [OF s] Cons.prems(2) .
  with Cons.IH [of c1] Cons.prems(1) s show ?case by (cases r1) auto
qed simp

lemma same_stream_answer [keeps_beat]:
  assumes "hb_same c0 c" "readUpstreamAndStreamHTTPResponse env reply i conn c = (c', r)"
  shows "hb_same c0 c'"
  using assms
  by (auto simp: readUpstreamAndStreamHTTPResponse_def Let_def intro: keeps_beat
      split: upstream_reply.splits prod.splits outcome.splits if_splits)

lemma same_forward [keeps_beat]: "hb_same c0 c \<Longrightarrow> hb_same c0 (forwardHTTPRequest env d reply i raw c)"
  by (auto simp: forwardHTTPRequest_def Let_def intro: keeps_beat
      split: dial.split upstream_reply.split prod.split bool.split option.split)

lemma same_dispatch [keeps_beat]: "dispatchFullHTTPRequest env i data c = (c', r) \<Longrightarrow> hb_same c0 c \<Longrightarrow> hb_same c0 c'"
  by (auto simp: dispatchFullHTTPRequest_def intro: keeps_beat split: outcome.splits)

lemma same_head [keeps_beat]: "handleHTTPRequestStreamHead env d i msg c = (c', r) \<Longrightarrow> hb_same c0 c \<Longrightarrow> hb_same c0 c'"
  by (auto simp: handleHTTPRequestStreamHead_def Let_def intro: keeps_beat
      split: option.splits dial.splits prod.splits bool.splits if_splits)

lemma same_closed_refusal [keeps_beat]:
  "hb_same c0 c \<Longrightarrow> hb_same c0 (sendTunneledHTTPErrorResponse env i code msg (cl_emit ev c))"
  by (intro same_refusal hb_same_updates)

lemma same_body [keeps_beat]: "handleHTTPRequestStreamBody env i msg c = (c', r) \<Longrightarrow> hb_same c0 c \<Longrightarrow> hb_same c0 c'"
  by (auto simp: handleHTTPRequestStreamBody_def Let_def intro: keeps_beat
      split: option.splits prod.splits bool.splits if_splits)

lemma same_request [keeps_beat]: "handleHTTPRequest env d payload c = (c', r) \<Longrightarrow> hb_same c0 c \<Longrightarrow> hb_same c0 c'"
  by (auto simp: handleHTTPRequest_def Let_def intro: keeps_beat split: option.splits prod.splits outcome.splits if_splits)

lemma same_placeholder [keeps_beat]: "hb_same c0 c \<Longrightarrow> hb_same c0 (registerTCPStreamPlaceholder sid c)"
  by (simp add: registerTCPStreamPlaceholder_def keeps_beat)

lemma same_connect [keeps_beat]: "handleTCPConnect payload host c = (c', r) \<Longrightarrow> hb_same c0 c \<Longrightarrow> hb_same c0 c'"
  by (auto simp: handleTCPConnect_def intro: keeps_beat split: option.splits prod.splits if_splits)

lemma same_ready [keeps_beat]: "handleTCPReady payload c = (c', r) \<Longrightarrow> hb_same c0 c \<Longrightarrow> hb_same c0 c'"
  by (simp add: handleTCPReady_def)

lemma same_relay [keeps_beat]: "hb_same c0 c \<Longrightarrow> hb_same c0 (runTCPDataChannelRelay sid conn c)"
  by (simp add: runTCPDataChannelRelay_def keeps_beat)

lemma same_forget [keeps_beat]: "hb_same c0 c \<Longrightarrow> hb_same c0 (forget_stream sid c)"
  by (simp add: forget_stream_def keeps_beat)

lemma same_close_notify [keeps_beat]: "sendTCPStreamCloseNotify env sid c = (c', r) \<Longrightarrow> hb_same c0 c \<Longrightarrow> hb_same c0 c'"
  by (auto simp: sendTCPStreamCloseNotify_def intro: keeps_beat split: option.splits prod.splits outcome.splits bool.splits)

lemma same_await: "await_stream env [] msg c = (c', r) \<Longrightarrow> hb_same c0 c \<Longrightarrow> hb_same c0 c'"
  by (auto simp: await_stream.simps [of env "[]"] intro: keeps_beat split: option.splits prod.splits bool.splits)

lemma same_data [keeps_beat]: "handleTCPDataBinary env [] bs c = (c', r) \<Longrightarrow> hb_same c0 c \<Longrightarrow> hb_same c0 c'"
  by (auto simp: handleTCPDataBinary_def intro: same_await split: outcome.splits)

lemma same_json_data [keeps_beat]: "handleTCPData env [] payload c = (c', r) \<Longrightarrow> hb_same c0 c \<Longrightarrow> hb_same c0 c'"
  by (auto simp: handleTCPData_def intro: keeps_beat split: option.splits)

lemma same_legacy [keeps_beat]: "hb_same c0 c \<Longrightarrow> hb_same c0 (forwardTCPConnection env d1 d2 read i r c)"
  by (auto simp: forwardTCPConnection_def Let_def intro: keeps_beat same_fst split: dial.split prod.split bool.split option.split)

lemma same_pipe [keeps_beat]: "pipeConn env a b read c = (c', r) \<Longrightarrow> hb_same c0 c \<Longrightarrow> hb_same c0 c'"
  by (auto simp: pipeConn_def Let_def intro: keeps_beat split: option.splits prod.splits bool.splits)

lemma same_result: "(\<And>c' r. f c = (c', r) \<Longrightarrow> hb_same c0 c') \<Longrightarrow> hb_same c0 (run_result (f c))"
  by (cases "f c") (auto simp: run_result_def crash_def intro: keeps_beat split: outcome.split)

text \<open>A stream that ends takes its data channel with it.\<close>

definition same_or_removed :: "string \<Rightarrow> Client \<Rightarrow> Client \<Rightarrow> bool" where
  "same_or_removed sid c c' \<longleftrightarrow> hb_same c c' \<or> (\<exists>c1. hb_same c c1 \<and> c' = removeDataChannel sid c1)"

lemma cleanup_removes: "hb_same c c1 \<Longrightarrow> same_or_removed sid c (relay_cleanup sid conn c1)"
  unfolding same_or_removed_def relay_cleanup_def
  by (intro disjI2 exI [of _ "cl_emit (UpstreamClosed conn) (forget_stream sid c1)"] conjI refl hb_same_updates same_forget)

lemma same_is: "hb_same c c' \<Longrightarrow> same_or_removed sid c c'" by (simp add: same_or_removed_def)

lemma upload_beat: "same_or_removed sid c (run_result (client_upload env sid conn read c))"
proof -
  obtain n c1 where n: "nextSequence sid c = (n, c1)" by force
  have h: "hb_same c c1" using n by (rule same_sequence) simp
  then have x: "same_or_removed sid c (crash c1)" unfolding crash_def by (intro same_is same_exit)
  have w: "same_or_removed sid c c2" "same_or_removed sid c (relay_cleanup sid conn c2)"
    if "cl_write env s ev c1 = (c2, b)" for s ev c2 b
    using same_write [OF that h] by (simp_all add: same_is cleanup_removes)
  show ?thesis
    using x cleanup_removes [OF h] cleanup_removes [of c c sid conn]
    by (auto simp: client_upload_def run_result_def n intro: w split: option.split list.split prod.split outcome.split bool.split)
qed

lemma over_ws_beat: "same_or_removed (i @ '':'' @ r) c (run_result (forwardTCPConnectionOverWS env d i r c))"
proof (cases d)
  case (DialError err)
  obtain c1 res where s: "sendTCPStreamCloseNotify env (i @ '':'' @ r) c = (c1, res)" by force
  have h: "hb_same c c1" using s by (rule same_close_notify) simp
  have r: "run_result (forwardTCPConnectionOverWS env d i r c)
      = (if res = Panic then crash c1 else removeDataChannel (i @ '':'' @ r) (forget_stream (i @ '':'' @ r) c1))"
    using s DialError by (simp add: forwardTCPConnectionOverWS_def run_result_def Let_def split: outcome.split)
  have "hb_same c (crash c1)" unfolding crash_def using h by (rule same_exit)
  moreover have "hb_same c (forget_stream (i @ '':'' @ r) c1)" using h by (rule same_forget)
  ultimately show ?thesis unfolding r same_or_removed_def by auto
next
  case (Dialled conn b)
  then show ?thesis by (simp add: forwardTCPConnectionOverWS_def run_result_def same_is keeps_beat)
qed

section \<open>The labels\<close>

definition event_of :: "Client \<Rightarrow> monitor_read \<Rightarrow> (string \<times> json) option" where
  "event_of c r =
     (case r of
        MonitorMessage (JStr ev # rest) \<Rightarrow> if cl_monitorConn c = None then None else Some (ev, message_payload (JStr ev # rest))
      | _ \<Rightarrow> None)"

definition redialled :: "ClientIO \<Rightarrow> Client \<Rightarrow> nat option" where
  "redialled x c = fst (attempts (io_ws x)
     (if cl_separatedChannels c then ct_monitorURL (cl_targets c) else ct_legacyURL (cl_targets c)) 0 monitorMaxRetries)"

text \<open>What a read error does to the heartbeat of the monitor channel.\<close>

definition failure_label :: "ClientIO \<Rightarrow> read_failure \<Rightarrow> Client \<Rightarrow> beat_label" where
  "failure_label x err c =
     (if cl_monitorConn c = None \<or> shouldExitOnPublicHTTPNoAuthTimeoutClose err then BeatNone
      else if cl_closing c \<or> is_close err \<or> connection_lost (error_text err) then
        (if cl_monitorAuthOK c then (if redialled x c = None then BeatStop else BeatStart)
         else if cl_closing c then BeatNone else BeatStop)
      else BeatNone)"

definition monitor_label :: "Client \<Rightarrow> ClientIO \<times> client_input \<Rightarrow> beat_label" where
  "monitor_label c i =
     (if cl_exit c \<noteq> None then BeatNone
      else case i of (x, input) \<Rightarrow>
        (case input of
           TimerFires n \<Rightarrow>
             (case action_of n c of
                Some PingDue \<Rightarrow>
                  if \<not> cl_closing c \<and> sends (io_env x) (cl_monitorConn c) c then BeatSent (cl_pingTimeout c) else BeatLost
              | Some PingExpired \<Rightarrow> BeatExpired
              | _ \<Rightarrow> BeatNone)
         | ReadsMonitor host new (MonitorFailed err) \<Rightarrow> failure_label x err c
         | ReadsMonitor host new r \<Rightarrow>
             (case event_of c r of
                None \<Rightarrow> BeatNone
              | Some (ev, payload) \<Rightarrow>
                  if ev = ''disconnect'' then BeatStop
                  else if ev = ''@@CONFIG'' then (if socket_config payload = None then BeatNone else BeatStart)
                  else if ev = ''pong'' then BeatAnswered (cl_pingInterval c)
                  else BeatNone)
         | _ \<Rightarrow> BeatNone))"

text \<open>A stream without a data channel is off; the other labels of its heartbeat.\<close>

definition stream_label :: "string \<Rightarrow> Client \<Rightarrow> ClientIO \<times> client_input \<Rightarrow> beat_label" where
  "stream_label sid c i =
     (case i of (x, input) \<Rightarrow>
        (case input of
           TimerFires n \<Rightarrow>
             if action_of n c = Some (DataPingDue sid) then BeatSent (positive_or defaultPingTimeout (cl_pingTimeout c)) else BeatNone
         | BeginsData t \<Rightarrow> if t = sid then BeatStart else BeatNone
         | ReadsData t (DataText (Some (JStr ev # rest))) \<Rightarrow>
             if t = sid \<and> ev = ''pong'' then BeatAnswered (positive_or defaultPingInterval (cl_pingInterval c)) else BeatNone
         | ReadsMonitor host new r \<Rightarrow>
             (case event_of c r of
                None \<Rightarrow> BeatNone
              | Some (ev, payload) \<Rightarrow>
                  if ev = ''@@CONFIG'' \<and> socket_config payload \<noteq> None then BeatStart
                  else if ev = ''data:channel:open'' then
                    BeatOpen (case armed (DataPingDue sid) c of [] \<Rightarrow> None | d # ds \<Rightarrow> Some d)
                  else BeatNone)
         | _ \<Rightarrow> BeatNone))"

definition data_label :: "string \<Rightarrow> Client \<Rightarrow> ClientIO \<times> client_input \<Rightarrow> beat_label" where
  "data_label sid c i =
     (if cl_exit c \<noteq> None then BeatNone
      else if getDataChannel sid (client_step c i) = None then BeatStop
      else stream_label sid c i)"

section \<open>Each step is the step of its label\<close>

definition step_ok :: "Client \<Rightarrow> Client \<Rightarrow> beat_label \<Rightarrow> (string \<Rightarrow> beat_label) \<Rightarrow> bool" where
  "step_ok c c' ml dl \<longleftrightarrow> hb_ok c' \<and> monitor_beat c' = beat_step (monitor_beat c) ml
     \<and> (\<forall>sid. getDataChannel sid c' \<noteq> None \<longrightarrow> data_beat sid c' = beat_step (data_beat sid c) (dl sid))"

lemma hb_same_views:
  assumes "hb_same c c'"
  shows "slots_ok c' = slots_ok c" "monitor_view c' = monitor_view c" "data_view sid c' = data_view sid c"
  using assms timers_same_ok timers_same_armed
  by (auto simp: hb_same_def monitor_view_def data_view_def getDataChannel_def)

lemma hb_same_ok: "hb_same c c' \<Longrightarrow> hb_ok c' = hb_ok c"
  using hb_same_views [of c c'] monitor_view_ok [of c' c] data_view_ok [of _ c' c] by (auto simp: hb_ok_def)

lemma step_ok_after:
  assumes "step_ok c c1 ml dl" "hb_same c1 c2"
  shows "step_ok c c2 ml dl"
proof -
  have "getDataChannel sid c2 = getDataChannel sid c1" for sid using assms(2) by (simp add: hb_same_def getDataChannel_def)
  then show ?thesis
    using assms hb_same_ok [OF assms(2)] hb_same_views(2,3) [OF assms(2)] monitor_view_ok [of c2 c1] data_view_ok [of _ c2 c1]
    by (auto simp: step_ok_def)
qed

lemma step_ok_self: "hb_ok c \<Longrightarrow> step_ok c c BeatNone (\<lambda>sid. BeatNone)"
  by (simp add: step_ok_def)

lemma same_step: "hb_ok c \<Longrightarrow> hb_same c c' \<Longrightarrow> step_ok c c' BeatNone (\<lambda>sid. BeatNone)"
  using step_ok_after step_ok_self by blast

lemma stream_step:
  assumes "hb_ok c" "only_stream t c c'" "data_ok t c'"
    and "getDataChannel t c' \<noteq> None \<Longrightarrow> data_beat t c' = beat_step (data_beat t c) l"
  shows "step_ok c c' BeatNone (\<lambda>sid. if sid = t then l else BeatNone)"
proof -
  have m: "monitor_ok c'" "monitor_beat c' = monitor_beat c"
    using assms(1,2) monitor_view_ok [of c' c] by (auto simp: only_stream_def hb_ok_def)
  have d: "data_ok sid c' \<and> (sid \<noteq> t \<longrightarrow> data_beat sid c' = data_beat sid c)" for sid
    using assms(1-3) data_view_ok [of sid c' c] by (cases "sid = t") (auto simp: only_stream_def hb_ok_def)
  then show ?thesis using m assms(2,4) by (auto simp: step_ok_def hb_ok_def only_stream_def)
qed

lemma step_ok_stream_cong: "step_ok c c' ml dl \<Longrightarrow> (\<And>sid. getDataChannel sid c' \<noteq> None \<Longrightarrow> dl sid = dl' sid) \<Longrightarrow> step_ok c c' ml dl'"
  by (simp add: step_ok_def)

lemma removed_step:
  assumes "hb_ok c" "same_or_removed t c c'"
  shows "step_ok c c' BeatNone (\<lambda>sid. BeatNone)"
proof -
  have "step_ok c (removeDataChannel t c1) BeatNone (\<lambda>sid. BeatNone)" if "hb_same c c1" for c1
  proof -
    have ok: "hb_ok c1" using hb_same_ok [OF that] assms(1) by simp
    then have s: "slots_ok c1" by (simp add: hb_ok_def)
    have "getDataChannel t (removeDataChannel t c1) = None" by (simp add: removed_stream(2) [OF s] getDataChannel_def delete_conv)
    with stream_step [OF ok only_stream_removed [OF s, of t], of BeatNone] removed_beat [OF s, of t]
    have "step_ok c1 (removeDataChannel t c1) BeatNone (\<lambda>sid. BeatNone)" by simp
    then show ?thesis
      using hb_same_views(2,3) [OF that] monitor_view_ok [of c1 c] data_view_ok [of _ c1 c] by (simp add: step_ok_def)
  qed
  with assms show ?thesis unfolding same_or_removed_def using same_step by blast
qed

text \<open>The timers that are not of a heartbeat.\<close>

definition beat_quiet :: "Client \<Rightarrow> Client \<Rightarrow> bool" where
  "beat_quiet c c' \<longleftrightarrow> slots_ok c' \<and> monitor_view c' = monitor_view c \<and> (\<forall>sid. data_view sid c' = data_view sid c)"

lemma quiet_ok:
  assumes "hb_ok c" "beat_quiet c c'"
  shows "hb_ok c'" "monitor_beat c' = monitor_beat c" "data_beat sid c' = data_beat sid c"
proof -
  have d: "data_ok sid c' = data_ok sid c \<and> data_beat sid c' = data_beat sid c" for sid
    using assms(2) by (intro data_view_ok) (simp add: beat_quiet_def)
  have m: "monitor_ok c' = monitor_ok c \<and> monitor_beat c' = monitor_beat c"
    using assms(2) by (intro monitor_view_ok) (simp add: beat_quiet_def)
  show "hb_ok c'" using assms d m by (simp add: hb_ok_def beat_quiet_def)
  show "monitor_beat c' = monitor_beat c" "data_beat sid c' = data_beat sid c" using d m by simp_all
qed

lemma quiet_step: "hb_ok c \<Longrightarrow> beat_quiet c c' \<Longrightarrow> step_ok c c' BeatNone (\<lambda>sid. BeatNone)"
  by (simp add: step_ok_def quiet_ok)

lemma beat_quiet_trans: "beat_quiet c c1 \<Longrightarrow> beat_quiet c1 c2 \<Longrightarrow> beat_quiet c c2" by (simp add: beat_quiet_def)

lemma quiet_same: "slots_ok c \<Longrightarrow> hb_same c c' \<Longrightarrow> beat_quiet c c'"
  by (simp add: beat_quiet_def hb_same_views)

definition heartbeat_action :: "timer_action \<Rightarrow> bool" where
  "heartbeat_action a \<longleftrightarrow> a \<noteq> AuthExpired \<and> a \<noteq> ReconnectExpired"

lemma quiet_timer:
  assumes "slots_ok c" "\<not> heartbeat_action a"
  shows "beat_quiet c (halt a c)" "beat_quiet c (clear_timer a c)" "beat_quiet c (restart a d c)"
  using assms by (auto simp: beat_quiet_def heartbeat_action_def monitor_view_def data_view_def getDataChannel_def client_simps)

lemma quiet_slots: "beat_quiet c c' \<Longrightarrow> slots_ok c'" by (simp add: beat_quiet_def)

lemma same_spawn_one: "hb_same c0 c \<Longrightarrow> hb_same c0 (spawn_one op i p c)"
  by (cases p) (simp add: spawn_one_def same_start split: outcome.split)

lemma same_spawned: "hb_same c (spawnServerConfiguredTunnels resp c)"
proof -
  have "hb_same c0 c \<Longrightarrow> hb_same c0 (fold (spawn_one op i) xs c)" for c0 c op i xs
    by (induction xs arbitrary: c) (simp_all add: same_spawn_one)
  then show ?thesis by (simp add: spawnServerConfiguredTunnels_def Let_def split: option.split)
qed

lemma quiet_update:
  assumes "beat_quiet c0 c"
  shows "beat_quiet c0 (c\<lparr>cl_monitorAuthOK := h\<rparr>)" "beat_quiet c0 (c\<lparr>cl_clientId := f\<rparr>)" "beat_quiet c0 (c\<lparr>cl_containerId := g\<rparr>)"
    "beat_quiet c0 (c\<lparr>cl_negotiated := e\<rparr>)" "beat_quiet c0 (spawnServerConfiguredTunnels resp c)" "beat_quiet c0 (halt AuthExpired c)"
    "beat_quiet c0 (clear_timer ReconnectExpired c)" "beat_quiet c0 (exit_process n c)" "beat_quiet c0 (start_task k c)"
proof -
  note q = beat_quiet_trans [OF assms quiet_same [OF quiet_slots [OF assms]]]
  show "beat_quiet c0 (c\<lparr>cl_monitorAuthOK := h\<rparr>)" "beat_quiet c0 (c\<lparr>cl_clientId := f\<rparr>)" "beat_quiet c0 (c\<lparr>cl_containerId := g\<rparr>)"
    "beat_quiet c0 (c\<lparr>cl_negotiated := e\<rparr>)" "beat_quiet c0 (exit_process n c)" "beat_quiet c0 (start_task k c)"
    by (rule q, simp add: hb_same_updates same_exit same_start)+
  show "beat_quiet c0 (spawnServerConfiguredTunnels resp c)" by (rule q [OF same_spawned])
  show "beat_quiet c0 (halt AuthExpired c)" "beat_quiet c0 (clear_timer ReconnectExpired c)"
    by (rule beat_quiet_trans [OF assms], rule quiet_timer [OF quiet_slots [OF assms]], simp add: heartbeat_action_def)+
qed

lemma quiet_login_reply:
  assumes "beat_quiet c0 c"
  shows "beat_quiet c0 (fst (handleAuthenticateResponse payload c))"
proof (cases "Unmarshal_AuthenticateResponse payload")
  case (Some resp)
  have "beat_quiet c0 (if b then c1\<lparr>cl_clientId := f\<rparr> else c1)" "beat_quiet c0 (if b then c1\<lparr>cl_containerId := f\<rparr> else c1)" if "beat_quiet c0 c1" for b c1 f
    using that quiet_update(2,3) by simp_all
  with Some assms show ?thesis
    unfolding handleAuthenticateResponse_def Let_def Some option.case
    by (simp add: quiet_update split del: if_split) (auto intro!: quiet_update)
qed (use assms in \<open>simp add: handleAuthenticateResponse_def\<close>)

lemma closed_all_data: "slots_ok c \<Longrightarrow> data_ok sid c \<Longrightarrow> data_ok sid (closeAllDataChannels c)"
proof -
  assume h: "slots_ok c" "data_ok sid c"
  have "armed (DataPingExpired sid) (closeAllDataChannels c) = []"
  proof (cases "getDataChannel sid c")
    case None then show ?thesis using h by (simp add: closed_all data_ok_def)
  next
    case (Some s)
    then have "(sid, s) \<in> set (cl_dataConns c)" using map_of_SomeD by (fastforce simp: getDataChannel_def)
    then show ?thesis using closed_all(3) [OF h(1)] by auto
  qed
  then show ?thesis by (simp add: data_ok_def)
qed

lemma closed_all_fields:
  "cl_separatedChannels (closeAllDataChannels c) = cl_separatedChannels c" "cl_targets (closeAllDataChannels c) = cl_targets c"
  "cl_opts (closeAllDataChannels c) = cl_opts c" "cl_exit (closeAllDataChannels c) = cl_exit c"
  "cl_monitorConn (closeAllDataChannels c) = cl_monitorConn c" "cl_monitorAuthOK (closeAllDataChannels c) = cl_monitorAuthOK c"
  by (simp_all add: closeAllDataChannels_def Let_def fold_cl_emit client_simps)

lemma closed_monitor_fields:
  "cl_separatedChannels (close_monitor c) = cl_separatedChannels c" "cl_targets (close_monitor c) = cl_targets c"
  "cl_opts (close_monitor c) = cl_opts c" "cl_exit (close_monitor c) = cl_exit c"
  by (simp_all add: close_monitor_def client_simps split: option.split)

text \<open>Reconnecting: every channel is closed, and a new monitor channel starts a new heartbeat.\<close>

lemma reconnect_step:
  assumes "hb_ok c"
  shows "step_ok c (fst (reconnect env dial c)) (if fst (attempts dial (if cl_separatedChannels c then ct_monitorURL (cl_targets c)
     else ct_legacyURL (cl_targets c)) 0 monitorMaxRetries) = None then BeatStop else BeatStart) dl"
proof -
  define c0 where "c0 = c\<lparr>cl_closing := False, cl_monitorAuthOK := False\<rparr>"
  define c1 where "c1 = clear_timer ReconnectExpired (stopHeartbeat c0)"
  define c2 where "c2 = closeAllDataChannels (close_monitor c1)"
  define url where "url = (if cl_separatedChannels c then ct_monitorURL (cl_targets c) else ct_legacyURL (cl_targets c))"
  have "timers_same c c0" unfolding c0_def by (rule timers_sameI) simp_all
  then have s0: "slots_ok c0" "data_view sid c0 = data_view sid c" for sid
    using assms timers_same_ok timers_same_armed by (auto simp: hb_ok_def data_view_def getDataChannel_def c0_def)
  note st = stopped [OF s0(1)]
  have q1: "beat_quiet (stopHeartbeat c0) c1" unfolding c1_def using quiet_timer(2) [OF st(1)] by (simp add: heartbeat_action_def)
  have "timers_same c1 (close_monitor c1)"
    by (auto simp: close_monitor_def cl_emit_def intro!: timers_sameI split: option.split)
  then have cm: "slots_ok (close_monitor c1)" "armed a (close_monitor c1) = armed a c1" for a
    using quiet_slots [OF q1] timers_same_ok timers_same_armed by blast+
  have flags: "cl_heartbeatActive c1 = False" "cl_closing c1 = False" "armed PingDue c1 = []" "armed PingExpired c1 = []"
    using q1 st(2) by (auto simp: beat_quiet_def monitor_view_def c0_def)
  have f2: "cl_heartbeatActive (close_monitor c1) = False" "cl_closing (close_monitor c1) = False" "cl_monitorConn (close_monitor c1) = None"
    "cl_dataConns (close_monitor c1) = cl_dataConns c1"
    using flags by (auto simp: close_monitor_def client_simps split: option.split)
  have d1: "data_view sid (close_monitor c1) = data_view sid c" for sid
  proof -
    have "data_view sid (close_monitor c1) = data_view sid c1" by (simp only: data_view_def getDataChannel_def cm(2) f2(4))
    also have "\<dots> = data_view sid (stopHeartbeat c0)" using q1 by (simp only: beat_quiet_def)
    also have "\<dots> = data_view sid c" by (simp only: st(3) s0(2))
    finally show ?thesis .
  qed
  have dm: "data_ok sid (close_monitor c1)" for sid
    using conjunct1 [OF data_view_ok [OF d1 [of sid]]] assms by (simp add: hb_ok_def)
  note ca = closed_all [OF cm(1), folded c2_def]
  have d2: "data_ok sid c2" for sid using closed_all_data [OF cm(1) dm] by (simp add: c2_def)
  have m2: "cl_heartbeatActive c2 = False" "cl_closing c2 = False" "cl_monitorConn c2 = None" "armed PingDue c2 = []" "armed PingExpired c2 = []"
    using ca(4) f2 cm(2) flags by (auto simp: monitor_view_def)
  have same: "cl_separatedChannels c2 = cl_separatedChannels c" "cl_targets c2 = cl_targets c"
    by (simp_all add: c2_def c1_def c0_def closed_all_fields closed_monitor_fields stopHeartbeat_def client_simps)
  have eq: "reconnect env dial c = (case connectMonitorChannel dial url c2 of
       (c, False) \<Rightarrow> (c, False)
     | (c, True) \<Rightarrow> (case begin_session env c of
          (c, False) \<Rightarrow> (c, False)
        | (c, True) \<Rightarrow> (clear_timer ReconnectExpired
             (start_task (ReadMonitor (ct_remoteHost (cl_targets c)) (cl_separatedChannels c)) c), True)))"
    unfolding reconnect_def Let_def c0_def [symmetric] c1_def [symmetric] c2_def [symmetric] same url_def by (rule refl)
  show ?thesis
  proof (cases "fst (attempts dial url 0 monitorMaxRetries)")
    case None
    then have "fst (reconnect env dial c) = c2" by (auto simp: eq connectMonitorChannel_def split: prod.splits)
    moreover have "hb_ok c2" using ca(1) m2 d2 by (simp add: hb_ok_def monitor_ok_def)
    moreover have "monitor_beat c2 = Off" by (simp add: monitor_beat_def beat_of_def m2)
    ultimately show ?thesis using None ca(2) by (simp add: step_ok_def url_def getDataChannel_def)
  next
    case (Some s)
    define c3 where "c3 = c2\<lparr>cl_monitorConn := Some s\<rparr>"
    have con: "connectMonitorChannel dial url c2 = (c3, True)"
      using Some by (auto simp: connectMonitorChannel_def c3_def split: prod.splits)
    have s3: "slots_ok c3" "cl_monitorConn c3 \<noteq> None" using ca(1) by (simp_all add: c3_def client_simps)
    have d3: "data_view sid c3 = data_view sid c2" for sid
      by (simp add: c3_def data_view_def getDataChannel_def client_simps)
    note sh = started [OF s3]
    have v: "monitor_view (startHeartbeat c3) = (True, Some s, False, positive_or defaultPingInterval (cl_pingInterval c3),
       positive_or defaultPingTimeout (cl_pingTimeout c3), [0], [])" using sh(2) m2(2) by (simp add: c3_def)
    have dd: "data_ok sid (startHeartbeat c3)" for sid
      using conjunct1 [OF data_view_ok [of sid "startHeartbeat c3" c2]] sh(3) [of sid] d3 d2 by simp
    have gone: "getDataChannel sid (startHeartbeat c3) = None" for sid
      using sh(5) ca(2) by (simp add: getDataChannel_def c3_def)
    have begun: "hb_ok (startHeartbeat c3)" "monitor_beat (startHeartbeat c3) = Due 0"
      using view_facts [OF v] sh(1) dd by (simp_all add: hb_ok_def beat_of_def)
    have q: "beat_quiet (startHeartbeat c3) (fst (reconnect env dial c))"
    proof -
      have a: "beat_quiet (startHeartbeat c3) (startAuthTimeout (startHeartbeat c3))"
        unfolding startAuthTimeout_def by (rule quiet_timer(3) [OF sh(1)]) (simp add: heartbeat_action_def)
      obtain c4 b where l: "authenticate env (startAuthTimeout (startHeartbeat c3)) = (c4, b)" by force
      have "hb_same (startAuthTimeout (startHeartbeat c3)) c4"
        using l unfolding authenticate_def by (rule same_send) simp
      with a have q4: "beat_quiet (startHeartbeat c3) c4" using beat_quiet_trans quiet_same quiet_slots by blast
      then show ?thesis using l by (auto simp: eq con begin_session_def intro: quiet_update split: bool.split)
    qed
    have "getDataChannel sid (fst (reconnect env dial c)) = None" for sid
      using q gone by (simp add: beat_quiet_def data_view_def)
    then show ?thesis using quiet_ok [OF begun(1) q] begun(2) Some by (simp add: step_ok_def url_def)
  qed
qed

section \<open>Events\<close>

definition event_label :: "string \<Rightarrow> json \<Rightarrow> Client \<Rightarrow> beat_label" where
  "event_label ev payload c =
     (if ev = ''disconnect'' then BeatStop
      else if ev = ''@@CONFIG'' then (if socket_config payload = None then BeatNone else BeatStart)
      else if ev = ''pong'' then BeatAnswered (cl_pingInterval c)
      else BeatNone)"

definition event_stream_label :: "string \<Rightarrow> string \<Rightarrow> json \<Rightarrow> Client \<Rightarrow> beat_label" where
  "event_stream_label sid ev payload c =
     (if ev = ''@@CONFIG'' \<and> socket_config payload \<noteq> None then BeatStart
      else if ev = ''data:channel:open'' then BeatOpen (case armed (DataPingDue sid) c of [] \<Rightarrow> None | d # ds \<Rightarrow> Some d)
      else BeatNone)"

lemma login_reply_step:
  assumes "hb_ok c"
  shows "step_ok c (case handleAuthenticateResponse p (clear_timer ReconnectExpired c) of
      (c, Ok _) \<Rightarrow> c | (c, Err _) \<Rightarrow> exit_process 1 c | (c, Panic) \<Rightarrow> crash c) BeatNone (\<lambda>sid. BeatNone)"
proof -
  have "slots_ok c" using assms by (simp add: hb_ok_def)
  then have "beat_quiet c (clear_timer ReconnectExpired c)" by (rule quiet_timer) (simp add: heartbeat_action_def)
  from quiet_login_reply [OF this, of p]
  show ?thesis
    by (intro quiet_step [OF assms]) (auto simp: crash_def intro: quiet_update split: prod.split outcome.split)
qed

lemma disconnect_step:
  assumes "hb_ok c"
  shows "step_ok c (client_handleDisconnect c) BeatStop dl"
proof -
  have ok: "slots_ok c" "data_ok sid c" for sid using assms by (simp_all add: hb_ok_def)
  note d = disconnected [OF ok]
  show ?thesis using d view_facts [OF d(2)] by (simp add: step_ok_def hb_ok_def beat_of_def getDataChannel_def)
qed

lemma pong_step:
  assumes "hb_ok c"
  shows "step_ok c (handlePong c) (BeatAnswered (cl_pingInterval c)) (\<lambda>sid. BeatNone)"
proof -
  have ok: "slots_ok c" "monitor_ok c" using assms by (simp_all add: hb_ok_def)
  have d: "data_ok sid (handlePong c) = data_ok sid c \<and> data_beat sid (handlePong c) = data_beat sid c" for sid
    by (rule data_view_ok [OF ponged(2) [OF ok]])
  show ?thesis using ponged(1,4,5) [OF ok] d assms by (simp add: step_ok_def hb_ok_def)
qed

lemma config_step:
  assumes "hb_ok c" "cl_monitorConn c \<noteq> None"
  shows "step_ok c (handleSocketConfig p c) (if socket_config p = None then BeatNone else BeatStart)
     (\<lambda>sid. if socket_config p \<noteq> None then BeatStart else BeatNone)"
proof -
  have ok: "slots_ok c" "monitor_ok c" "data_ok sid c" for sid using assms by (simp_all add: hb_ok_def)
  note f = configured [OF ok assms(2)]
  have g: "getDataChannel sid (handleSocketConfig p c) = None" if "getDataChannel sid c = None" "socket_config p \<noteq> None" for sid
  proof -
    have "data_beat sid (handleSocketConfig p c) = data_beat sid c" using f(6) [of sid p] that by simp
    then have "data_beat sid (handleSocketConfig p c) = Off" using that by (simp add: data_beat_def beat_of_def)
    then show ?thesis by (auto simp: data_beat_def beat_of_def split: list.splits if_splits)
  qed
  have "data_beat sid (handleSocketConfig p c) = beat_step (data_beat sid c) (if socket_config p \<noteq> None then BeatStart else BeatNone)"
    if "getDataChannel sid (handleSocketConfig p c) \<noteq> None" for sid
    using f(6) [of sid p] g [of sid] that by auto
  then show ?thesis using f(1-3,5) by (simp add: step_ok_def hb_ok_def)
qed

text \<open>A new data channel has no heartbeat until its reader starts, unless a late answer has armed a ping.\<close>

lemma open_step:
  assumes "hb_ok c"
  shows "step_ok c (open_data_channel env dial new p c) BeatNone
     (\<lambda>sid. BeatOpen (case armed (DataPingDue sid) c of [] \<Rightarrow> None | d # ds \<Rightarrow> Some d))"
proof -
  let ?dl = "\<lambda>sid. BeatOpen (case armed (DataPingDue sid) c of [] \<Rightarrow> None | d # ds \<Rightarrow> Some d)"
  have idle: "beat_step (data_beat sid c) (?dl sid) = data_beat sid c" if "getDataChannel sid c \<noteq> None" for sid
    using that by (auto simp: data_beat_def beat_of_def split: list.split)
  have self: "step_ok c c BeatNone ?dl" using assms idle by (simp add: step_ok_def)
  have conn: "step_ok c c1 BeatNone ?dl" if "connectDataChannel dial sid url c = (c1, r)" for sid url c1 r
  proof (cases "\<exists>s. c1 = c\<lparr>cl_dataConns := AList.update sid s (cl_dataConns c)\<rparr> \<and> getDataChannel sid c = None")
    case True
    then obtain s where c1: "c1 = c\<lparr>cl_dataConns := AList.update sid s (cl_dataConns c)\<rparr>" "getDataChannel sid c = None" by blast
    have m: "slots_ok c1" "monitor_view c1 = monitor_view c" "armed a c1 = armed a c" for a
      using assms by (simp_all add: c1 hb_ok_def monitor_view_def client_simps)
    have g: "getDataChannel t c1 = (if t = sid then Some s else getDataChannel t c)" for t
      by (simp add: c1(1) getDataChannel_def update_conv')
    have dok: "data_ok t c" for t using assms by (simp add: hb_ok_def)
    have d: "data_ok t c1" for t using dok [of t] by (auto simp: data_ok_def g m(3))
    have once: "length (armed a c) \<le> 1" for a using armed_at_most_once assms by (simp add: hb_ok_def)
    have "armed (DataPingExpired sid) c = []" using dok [of sid] c1(2) by (simp add: data_ok_def)
    then have new: "data_beat sid c1 = beat_step (data_beat sid c) (?dl sid)"
      using once [of "DataPingDue sid"] c1(2) by (auto simp: data_beat_def beat_of_def g m(3) split: list.split)
    have old: "data_beat t c1 = data_beat t c" if "t \<noteq> sid" for t using that by (simp add: data_beat_def g m(3))
    have "data_beat t c1 = beat_step (data_beat t c) (?dl t)" if "getDataChannel t c1 \<noteq> None" for t
      using that new old idle g by (cases "t = sid") auto
    then show ?thesis using m d assms monitor_view_ok [OF m(2)] by (simp add: step_ok_def hb_ok_def)
  next
    case False
    with that have "c1 = c" by (auto simp: connectDataChannel_def split: option.splits prod.splits)
    then show ?thesis using self by simp
  qed
  have send: "hb_same c1 (fst (sendMonitorMessage env ev j (start_task k (registerTCPStreamPlaceholder sid c1))))" for c1 ev j k sid
  proof -
    have h: "hb_same c1 (start_task k (registerTCPStreamPlaceholder sid c1))" by (simp add: same_start same_placeholder)
    show ?thesis
      by (cases "sendMonitorMessage env ev j (start_task k (registerTCPStreamPlaceholder sid c1))") (use h same_send in auto)
  qed
  show ?thesis
    using self conn step_ok_after [OF conn send] by (auto simp: open_data_channel_def Let_def split: prod.split option.split)
qed

lemma event_step:
  assumes "hb_ok c" "cl_monitorConn c \<noteq> None"
  shows "step_ok c (monitor_event x host new ev p c) (event_label ev p c) (\<lambda>sid. event_stream_label sid ev p c)"
proof -
  have same: "step_ok c (run_result (f c)) BeatNone (\<lambda>sid. BeatNone)" if "\<And>c' r. f c = (c', r) \<Longrightarrow> hb_same c c'" for f :: "Client \<Rightarrow> unit client_result"
    using same_step [OF assms(1) same_result [of f c c, OF that]] .
  have req: "step_ok c (run_result (handleHTTPRequest (io_env x) (io_dial x) p c)) BeatNone (\<lambda>sid. BeatNone)"
    by (rule same) (erule same_request, simp)
  have con: "step_ok c (run_result (handleTCPConnect p host c)) BeatNone (\<lambda>sid. BeatNone)"
    by (rule same) (erule same_connect, simp)
  have ready: "step_ok c (run_result (handleTCPReady p c)) BeatNone (\<lambda>sid. BeatNone)"
    by (rule same) (erule same_ready, simp)
  have data: "step_ok c (run_result (handleTCPData (io_env x) [] p c)) BeatNone (\<lambda>sid. BeatNone)"
    by (rule same) (erule same_json_data, simp)
  have ex: "step_ok c (exit_process 1 c) BeatNone (\<lambda>sid. BeatNone)" by (rule same_step [OF assms(1)]) (simp add: same_exit)
  note self = step_ok_self [OF assms(1)]
  note facts = login_reply_step [OF assms(1), of p] req con ready data ex self disconnect_step [OF assms(1)] pong_step [OF assms(1)]
    open_step [OF assms(1), of "io_env x" "io_ws x" new p]
  have "step_ok c (handleSocketConfig p c) BeatNone (\<lambda>sid. BeatNone)" if "socket_config p = None"
    using config_step [OF assms, of p] that by simp
  moreover have "step_ok c (handleSocketConfig p c) BeatStart (\<lambda>sid. BeatStart)" if "socket_config p \<noteq> None"
    using config_step [OF assms, of p] that by simp
  ultimately show ?thesis
    unfolding monitor_event_def Let_def event_label_def event_stream_label_def
    by (auto simp: facts)
qed

section \<open>The heartbeats implement the watchdog\<close>

lemma step_ok_trans:
  assumes "step_ok c c1 BeatNone (\<lambda>sid. BeatNone)" "step_ok c1 c2 ml dl"
    and "\<And>sid. getDataChannel sid c1 = None \<Longrightarrow> getDataChannel sid c2 = None"
  shows "step_ok c c2 ml dl"
proof -
  have "data_beat sid c2 = beat_step (data_beat sid c) (dl sid)" if "getDataChannel sid c2 \<noteq> None" for sid
  proof -
    have "getDataChannel sid c1 \<noteq> None" using that by (rule contrapos_nn) (rule assms(3))
    then have "data_beat sid c1 = data_beat sid c" using assms(1) unfolding step_ok_def by (metis beat_step.simps(1))
    then show ?thesis using that assms(2) unfolding step_ok_def by metis
  qed
  then show ?thesis using assms(1,2) by (simp add: step_ok_def)
qed

lemma data_read_step:
  assumes "hb_ok c"
  shows "step_ok c (handleDataChannel env t r c) BeatNone (\<lambda>sid. stream_label sid c (x, ReadsData t r))"
proof (cases r)
  case DataFailed
  let ?c = "removeDataChannel t c"
  have s: "slots_ok c" using assms by (simp add: hb_ok_def)
  have one: "step_ok c ?c BeatNone (\<lambda>sid. BeatNone)"
    by (rule removed_step [OF assms, of t]) (unfold same_or_removed_def, intro disjI2 exI [of _ c], simp)
  then have ok: "hb_ok ?c" "slots_ok ?c" by (simp_all add: step_ok_def hb_ok_def)
  have gone: "getDataChannel t ?c = None" by (simp add: removed_stream(2) [OF s] getDataChannel_def delete_conv)
  have fields: "getDataChannel sid (stopDataChannelHeartbeat t ?c) = getDataChannel sid ?c" for sid
    by (simp add: getDataChannel_def client_simps)
  have "only_stream t ?c (stopDataChannelHeartbeat t ?c)"
    using ok(2) by (auto simp: only_stream_def monitor_view_def data_view_def getDataChannel_def client_simps)
  moreover have "data_ok t (stopDataChannelHeartbeat t ?c)" using ok(2) by (simp add: data_ok_def client_simps)
  ultimately have "step_ok ?c (stopDataChannelHeartbeat t ?c) BeatNone (\<lambda>sid. if sid = t then BeatNone else BeatNone)"
    using gone fields by (intro stream_step [OF ok(1)]) auto
  then have "step_ok c (stopDataChannelHeartbeat t ?c) BeatNone (\<lambda>sid. BeatNone)"
    using fields by (intro step_ok_trans [OF one]) auto
  then show ?thesis by (simp add: DataFailed handleDataChannel_def stream_label_def)
next
  case (DataBinary bytes)
  have "hb_same c (run_result (handleTCPDataBinary env [] bytes c))"
    by (rule same_result) (erule same_data, simp)
  from same_step [OF assms this] show ?thesis by (simp add: DataBinary handleDataChannel_def stream_label_def)
next
  case (DataText msg)
  have s: "slots_ok c" "data_ok t c" using assms by (simp_all add: hb_ok_def)
  have pong: "step_ok c (handleDataChannelPong t c) BeatNone
      (\<lambda>sid. if sid = t then BeatAnswered (positive_or defaultPingInterval (cl_pingInterval c)) else BeatNone)"
    by (rule stream_step [OF assms ponged_stream(1-3) [OF s]])
  have "hb_same c (sendDataChannelPong env t c)"
    by (auto simp: sendDataChannelPong_def cl_write_def hb_same_updates split: option.split)
  from same_step [OF assms this] have ping: "step_ok c (sendDataChannelPong env t c) BeatNone (\<lambda>sid. BeatNone)" .
  have none: "(if P then BeatNone else BeatNone) = BeatNone" for P by simp
  show ?thesis
    using pong ping step_ok_self [OF assms]
    by (auto simp: DataText handleDataChannel_def data_event_def stream_label_def eq_commute split: option.split list.split json.split)
next
  case DataOther
  then show ?thesis using step_ok_self [OF assms] by (simp add: handleDataChannel_def stream_label_def)
qed

lemma fire_step:
  assumes "hb_ok c" "cl_exit c = None"
  shows "step_ok c (fire (io_env x) n c) (monitor_label c (x, TimerFires n)) (\<lambda>sid. stream_label sid c (x, TimerFires n))"
proof -
  have s: "slots_ok c" and m: "monitor_ok c" and d: "\<And>sid. data_ok sid c" using assms by (simp_all add: hb_ok_def)
  from s show ?thesis
  proof (cases rule: fire_cases [of c n "io_env x"])
    case 1
    then show ?thesis using step_ok_self [OF assms(1)] assms(2) by (simp add: monitor_label_def stream_label_def)
  next
    case (2 act dur)
    let ?h = "halt act c"
    have quiet_exit: "step_ok c (exit_process 1 ?h) BeatNone (\<lambda>sid. BeatNone)" if "\<not> heartbeat_action act"
      using quiet_step [OF assms(1) quiet_update(8) [OF quiet_timer(1) [OF s that]]] .
    show ?thesis
    proof (cases act)
      case AuthExpired
      then show ?thesis using 2 quiet_exit assms(2) by (simp add: run_action_def monitor_label_def stream_label_def heartbeat_action_def)
    next
      case ReconnectExpired
      then show ?thesis using 2 quiet_exit assms(2) by (simp add: run_action_def monitor_label_def stream_label_def heartbeat_action_def)
    next
      case PingDue
      have on: "cl_heartbeatActive c" using m 2(2) PingDue by (auto simp: monitor_ok_def split: if_splits)
      note p = pinged [OF s m on 2(2) [unfolded PingDue]]
      have dv: "data_ok sid (sendPing (io_env x) (halt PingDue c)) = data_ok sid c
          \<and> data_beat sid (sendPing (io_env x) (halt PingDue c)) = data_beat sid c" for sid by (rule data_view_ok [OF p(2)])
      have "fire (io_env x) n c = sendPing (io_env x) (halt PingDue c)" using 2(4) on by (simp add: PingDue run_action_def client_simps)
      then show ?thesis using p(1,3,4) dv d assms(2) 2(1)
        by (simp add: step_ok_def hb_ok_def monitor_label_def stream_label_def PingDue)
    next
      case PingExpired
      note t = timed_out [OF s m d 2(2) [unfolded PingExpired]]
      have on: "cl_heartbeatActive c" using m 2(2) PingExpired by (auto simp: monitor_ok_def split: if_splits)
      have "armed PingDue c = []" using m 2(2) PingExpired by (auto simp: monitor_ok_def)
      then have b: "monitor_beat c = Awaiting dur" using on 2(2) PingExpired by (simp add: monitor_beat_def beat_of_def)
      have gone: "getDataChannel sid (ping_timed_out (halt PingExpired c)) = None" for sid
        using t(4) [of sid] by (auto simp: data_beat_def beat_of_def split: list.splits if_splits)
      show ?thesis
        using t(1,3) view_facts [OF t(2)] gone b assms(2) 2(1,4)
        by (simp add: step_ok_def hb_ok_def monitor_label_def PingExpired run_action_def beat_of_def)
    next
      case (DataPingDue t)
      let ?c = "sendDataChannelPing (io_env x) t (halt (DataPingDue t) c)"
      note p = pinged_stream [OF s d 2(2) [unfolded DataPingDue], of "io_env x"]
      have l: "data_beat t ?c = beat_step (data_beat t c) (BeatSent (positive_or defaultPingTimeout (cl_pingTimeout c)))"
        if "getDataChannel t ?c \<noteq> None"
      proof (cases "sends (io_env x) (getDataChannel t c) c")
        case False
        then have "data_beat t ?c = Off" using p(3) by simp
        with that show ?thesis by (auto simp: data_beat_def beat_of_def split: list.splits if_splits)
      qed (use p(3) in simp)
      from stream_step [OF assms(1) p(1,2) l] show ?thesis
        using 2(1,4) assms(2) by (simp add: DataPingDue run_action_def monitor_label_def stream_label_def eq_commute)
    next
      case (DataPingExpired t)
      note p = timed_out_stream [OF s, of t]
      have "getDataChannel t (removeDataChannel t (halt (DataPingExpired t) c)) = None"
        using p(3) by (auto simp: data_beat_def beat_of_def split: list.splits if_splits)
      with stream_step [OF assms(1) p(1,2), of BeatNone]
      have "step_ok c (removeDataChannel t (halt (DataPingExpired t) c)) BeatNone (\<lambda>sid. BeatNone)" by simp
      then show ?thesis using 2(1,4) assms(2) by (simp add: DataPingExpired run_action_def monitor_label_def stream_label_def)
    qed
  qed
qed

lemma failure_step:
  assumes "hb_ok c" "cl_exit c = None" "cl_monitorConn c \<noteq> None"
  shows "step_ok c (monitor_read_failed (io_env x) (io_ws x) err c) (failure_label x err c) (\<lambda>sid. BeatNone)"
proof -
  let ?url = "if cl_separatedChannels c then ct_monitorURL (cl_targets c) else ct_legacyURL (cl_targets c)"
  have same: "step_ok c (exit_process n c) BeatNone (\<lambda>sid. BeatNone)" for n
    by (rule same_step [OF assms(1)]) (simp add: same_exit)
  have rec: "step_ok c1 (reconnect_or_exit (io_env x) (io_ws x) c1)
      (if cl_monitorAuthOK c then (if redialled x c = None then BeatStop else BeatStart) else BeatNone) (\<lambda>sid. BeatNone)"
    if "hb_ok c1" "cl_monitorAuthOK c1 = cl_monitorAuthOK c" "cl_separatedChannels c1 = cl_separatedChannels c" "cl_targets c1 = cl_targets c" for c1
  proof -
    have r: "step_ok c1 (fst (reconnect (io_env x) (io_ws x) c1)) (if redialled x c = None then BeatStop else BeatStart) (\<lambda>sid. BeatNone)"
      unfolding redialled_def that(3,4) [symmetric] by (rule reconnect_step [OF that(1)])
    have e: "hb_same (fst (reconnect (io_env x) (io_ws x) c1)) (exit_process 1 (fst (reconnect (io_env x) (io_ws x) c1)))"
      by (simp add: same_exit)
    have n: "step_ok c1 (exit_process 1 c1) BeatNone (\<lambda>sid. BeatNone)" by (rule same_step [OF that(1)]) (simp add: same_exit)
    show ?thesis
      using r step_ok_after [OF r e] n that(2)
      by (cases "reconnect (io_env x) (io_ws x) c1") (auto simp: reconnect_or_exit_def tryReconnectMonitor_def split: bool.split)
  qed
  let ?d = "client_handleDisconnect c"
  have dis: "step_ok c ?d BeatStop (\<lambda>sid. BeatNone)" using assms(1) by (rule disconnect_step)
  then have off: "hb_ok ?d" "monitor_beat ?d = Off" by (simp_all add: step_ok_def)
  have fields: "cl_monitorAuthOK ?d = cl_monitorAuthOK c" "cl_separatedChannels ?d = cl_separatedChannels c" "cl_targets ?d = cl_targets c"
    by (simp_all add: client_handleDisconnect_def stopHeartbeat_def closed_all_fields client_simps)
  have slots: "slots_ok c" "data_ok sid c" for sid using assms(1) by (simp_all add: hb_ok_def)
  have gone: "getDataChannel sid ?d = None" for sid using disconnected(5) [OF slots] by (simp add: getDataChannel_def)
  have after: "step_ok c (reconnect_or_exit (io_env x) (io_ws x) ?d)
      (if cl_monitorAuthOK c then (if redialled x c = None then BeatStop else BeatStart) else BeatStop) (\<lambda>sid. BeatNone)"
  proof -
    have r: "step_ok ?d (reconnect_or_exit (io_env x) (io_ws x) ?d)
      (if cl_monitorAuthOK c then (if redialled x c = None then BeatStop else BeatStart) else BeatNone) (\<lambda>sid. BeatNone)"
      using rec [OF off(1) fields] .
    have none: "getDataChannel sid (reconnect_or_exit (io_env x) (io_ws x) ?d) = None" for sid
    proof (rule ccontr)
      assume h: "getDataChannel sid (reconnect_or_exit (io_env x) (io_ws x) ?d) \<noteq> None"
      then have "data_beat sid (reconnect_or_exit (io_env x) (io_ws x) ?d) = data_beat sid ?d" using r by (simp add: step_ok_def)
      also have "\<dots> = Off" using gone [of sid] by (simp add: data_beat_def beat_of_def)
      finally show False using h by (auto simp: data_beat_def beat_of_def split: list.splits if_splits)
    qed
    show ?thesis using r off none by (simp add: step_ok_def split: if_splits)
  qed
  show ?thesis
    using same step_ok_self [OF assms(1)] rec [OF assms(1) refl refl refl] after assms(3)
    unfolding monitor_read_failed_def failure_label_def by (auto split: if_splits)
qed

lemma client_step_ok:
  assumes "hb_ok c" "cl_exit c = None"
  shows "step_ok c (client_step c (x, input)) (monitor_label c (x, input)) (\<lambda>sid. stream_label sid c (x, input))"
proof (cases input)
  case (ReadsMonitor host new r)
  show ?thesis
  proof (cases "cl_monitorConn c = None")
    case True
    then show ?thesis using step_ok_self [OF assms(1)] assms(2)
      by (auto simp: ReadsMonitor client_step_def handleMonitorMessages_def monitor_label_def stream_label_def event_of_def failure_label_def
          split: monitor_read.split list.split json.split)
  next
    case False
    then obtain s where conn: "cl_monitorConn c = Some s" by blast
    note fail = failure_step [OF assms False, of x] and ev = event_step [OF assms(1) False, of x host new]
    show ?thesis
    proof (cases r)
      case (MonitorFailed err)
      then show ?thesis using fail [of err] conn assms(2)
        by (simp add: ReadsMonitor client_step_def handleMonitorMessages_def monitor_label_def stream_label_def event_of_def)
    next
      case (MonitorMessage msg)
      show ?thesis
        using step_ok_self [OF assms(1)] ev conn assms(2)
        by (auto simp: ReadsMonitor MonitorMessage client_step_def handleMonitorMessages_def monitor_label_def stream_label_def event_of_def
            event_label_def event_stream_label_def split: list.split json.split)
    qed
  qed
next
  case (BeginsData t)
  have s: "slots_ok c" using assms by (simp add: hb_ok_def)
  note st = started_stream [OF s, of t]
  have g: "getDataChannel t c \<noteq> None" if "getDataChannel t (startDataChannelHeartbeat t c) \<noteq> None"
    using that st(4) by (simp add: getDataChannel_def)
  have "step_ok c (startDataChannelHeartbeat t c) BeatNone (\<lambda>sid. if sid = t then BeatStart else BeatNone)"
    by (rule stream_step [OF assms(1) st(1,2)]) (use st(3) g in simp)
  then show ?thesis using assms(2) by (simp add: BeginsData client_step_def begin_data_channel_def monitor_label_def stream_label_def eq_commute)
next
  case (ReadsData t r)
  then show ?thesis using data_read_step [OF assms(1), of "io_env x" t r x] assms(2) by (simp add: client_step_def monitor_label_def)
next
  case (TimerFires n)
  then show ?thesis using fire_step [OF assms, of x n] assms(2) by (simp add: client_step_def)
next
  case (RunsForward i raw)
  then show ?thesis using same_step [OF assms(1) same_forward [OF hb_same_refl]] assms(2)
    by (simp add: client_step_def monitor_label_def stream_label_def)
next
  case (RunsStreamAnswer i conn)
  have "hb_same c (run_result (readUpstreamAndStreamHTTPResponse (io_env x) (io_reply x) i conn c))"
    by (rule same_result) (erule same_stream_answer [OF hb_same_refl])
  from same_step [OF assms(1) this] show ?thesis using assms(2)
    by (simp add: RunsStreamAnswer client_step_def monitor_label_def stream_label_def)
next
  case (RunsOverWS i r)
  then show ?thesis using removed_step [OF assms(1) over_ws_beat] assms(2) by (simp add: client_step_def monitor_label_def stream_label_def)
next
  case (RunsTCP i r)
  then show ?thesis using same_step [OF assms(1) same_legacy [OF hb_same_refl]] assms(2)
    by (simp add: client_step_def monitor_label_def stream_label_def)
next
  case (RunsRelay sid conn)
  then show ?thesis using same_step [OF assms(1) same_relay [OF hb_same_refl]] assms(2)
    by (simp add: client_step_def monitor_label_def stream_label_def)
next
  case (RunsUpload sid conn)
  then show ?thesis using removed_step [OF assms(1) upload_beat] assms(2) by (simp add: client_step_def monitor_label_def stream_label_def)
next
  case (RunsPipe a b)
  have "hb_same c (fst (pipeConn (io_env x) a b (io_read x) c))"
    by (cases "pipeConn (io_env x) a b (io_read x) c") (auto dest: same_pipe [OF _ hb_same_refl])
  from same_step [OF assms(1) this] show ?thesis using assms(2)
    by (simp add: RunsPipe client_step_def monitor_label_def stream_label_def)
qed

lemma client_step_beats:
  assumes "hb_ok c"
  shows "hb_ok (client_step c i)" "monitor_beat (client_step c i) = beat_step (monitor_beat c) (monitor_label c i)"
    "data_beat sid (client_step c i) = beat_step (data_beat sid c) (data_label sid c i)"
proof -
  obtain x input where i: "i = (x, input)" by (cases i)
  have "hb_ok (client_step c i) \<and> monitor_beat (client_step c i) = beat_step (monitor_beat c) (monitor_label c i)
    \<and> data_beat sid (client_step c i) = beat_step (data_beat sid c) (data_label sid c i)"
  proof (cases "cl_exit c = None")
    case True
    have off: "data_beat sid c' = Off" if "getDataChannel sid c' = None" for c' using that by (simp add: data_beat_def beat_of_def)
    show ?thesis using client_step_ok [OF assms True, of x input] off True by (auto simp: i step_ok_def data_label_def)
  next
    case False
    then show ?thesis using assms by (simp add: i client_step_def monitor_label_def data_label_def)
  qed
  then show "hb_ok (client_step c i)" "monitor_beat (client_step c i) = beat_step (monitor_beat c) (monitor_label c i)"
    "data_beat sid (client_step c i) = beat_step (data_beat sid c) (data_label sid c i)" by simp_all
qed

interpretation monitor_watch: watchdog client_step hb_ok monitor_beat monitor_label
  by unfold_locales (simp_all add: client_step_beats)

interpretation stream_watch: watchdog client_step hb_ok "data_beat sid" "data_label sid" for sid
  by unfold_locales (simp_all add: client_step_beats)

end
