(* ===== verification/ClientBeats.thy ===== *)
theory ClientBeats
  imports ClientMachine
begin

text \<open>
  What a client promises about its heartbeats from its start on: the refinement of the watchdog, and that only a
  ping without an answer makes it close a channel.
\<close>

lemma hb_ok_New: "hb_ok (New op)"
proof -
  let ?op = "let op1 = (if op_ReconnectMaxRetries op \<le> 0 then op\<lparr>op_ReconnectMaxRetries := defaultReconnectMaxRetries\<rparr> else op)
    in if op_ReconnectInterval op1 \<le> 0 then op1\<lparr>op_ReconnectInterval := defaultReconnectInterval\<rparr> else op1"
  have f: "cl_timers (New op) = []" "\<not> cl_heartbeatActive (New op)" "slot a (New op) = None" for a
    by (cases a; simp add: New_def Let_def)+
  then show ?thesis by (simp add: hb_ok_def slots_ok_def monitor_ok_def data_ok_def armed_def)
qed

lemma begin_session_ok:
  assumes "hb_ok c" "\<not> cl_heartbeatActive c" "\<not> cl_closing c" "cl_monitorConn c \<noteq> None"
  shows "hb_ok (fst (begin_session env c))" "monitor_beat (fst (begin_session env c)) = Due 0"
proof -
  have s: "slots_ok c" "data_ok sid c" for sid using assms(1) by (simp_all add: hb_ok_def)
  note st = started [OF s(1) assms(4)]
  have d: "data_ok sid (startHeartbeat c)" for sid using conjunct1 [OF data_view_ok [OF st(3)]] s(2) by simp
  have h: "hb_ok (startHeartbeat c)" "monitor_beat (startHeartbeat c) = Due 0"
    using view_facts [OF st(2)] st(1) d assms(3,4) by (simp_all add: hb_ok_def beat_of_def)
  obtain c1 b where l: "authenticate env (startAuthTimeout (startHeartbeat c)) = (c1, b)" by force
  have a: "beat_quiet (startHeartbeat c) (startAuthTimeout (startHeartbeat c))"
    unfolding startAuthTimeout_def by (rule quiet_timer(3) [OF st(1)]) (simp add: heartbeat_action_def)
  have "hb_same (startAuthTimeout (startHeartbeat c)) c1" using l unfolding authenticate_def by (rule same_send) simp
  with a have "beat_quiet (startHeartbeat c) c1" using beat_quiet_trans quiet_same quiet_slots by blast
  from quiet_ok [OF h(1) this] h(2) l
  show "hb_ok (fst (begin_session env c))" "monitor_beat (fst (begin_session env c)) = Due 0" by (simp_all add: begin_session_def)
qed

lemma started_client:
  "hb_ok (fst (Run parse env dial (New op))) \<and> (snd (Run parse env dial (New op)) \<longrightarrow> monitor_beat (fst (Run parse env dial (New op))) = Due 0)"
proof -
  have start: "hb_ok (fst (begin_session env (stopHeartbeat c1))) \<and> monitor_beat (fst (begin_session env (stopHeartbeat c1))) = Due 0"
    if "hb_ok c1" "\<not> cl_closing c1" "cl_monitorConn c1 \<noteq> None" for c1
  proof -
    have s: "slots_ok c1" "data_ok sid c1" for sid using that(1) by (simp_all add: hb_ok_def)
    note st = stopped [OF s(1)]
    have d: "data_ok sid (stopHeartbeat c1)" for sid using conjunct1 [OF data_view_ok [OF st(3)]] s(2) by simp
    have "hb_ok (stopHeartbeat c1)" using st(1) view_facts [OF st(2)] d by (simp add: hb_ok_def)
    moreover have "\<not> cl_heartbeatActive (stopHeartbeat c1)" "\<not> cl_closing (stopHeartbeat c1)" "cl_monitorConn (stopHeartbeat c1) \<noteq> None"
      using st(2) that by (simp_all add: monitor_view_def)
    ultimately show ?thesis using begin_session_ok by blast
  qed
  have upd: "hb_ok (c\<lparr>cl_targets := t\<rparr>) = hb_ok c" "hb_ok (c\<lparr>cl_separatedChannels := b\<rparr>) = hb_ok c" for c t b
  proof -
    have "timers_same c (c\<lparr>cl_targets := t\<rparr>)" "timers_same c (c\<lparr>cl_separatedChannels := b\<rparr>)" by (rule timers_sameI; simp)+
    then have "hb_same c (c\<lparr>cl_targets := t\<rparr>)" "hb_same c (c\<lparr>cl_separatedChannels := b\<rparr>)" by (simp_all add: hb_same_def)
    then show "hb_ok (c\<lparr>cl_targets := t\<rparr>) = hb_ok c" "hb_ok (c\<lparr>cl_separatedChannels := b\<rparr>) = hb_ok c" using hb_same_ok by blast+
  qed
  have con: "hb_ok (c\<lparr>cl_monitorConn := Some s\<rparr>)" if "hb_ok c" for c s
    using that by (auto simp: hb_ok_def monitor_ok_def data_ok_def getDataChannel_def client_simps)
  let ?c = "\<lambda>t. (New op)\<lparr>cl_targets := t\<rparr>"
  have new: "hb_ok (?c t)" "\<not> cl_closing (?c t)" for t by (simp_all add: upd hb_ok_New) (simp add: New_def Let_def)
  have legacy: "hb_ok (fst (connectMonitorChannel dial url (?c t))) \<and> \<not> cl_closing (fst (connectMonitorChannel dial url (?c t)))
      \<and> (snd (connectMonitorChannel dial url (?c t)) \<longrightarrow> cl_monitorConn (fst (connectMonitorChannel dial url (?c t))) \<noteq> None)" for url t
    using new con [OF new(1)] by (auto simp: connectMonitorChannel_def split: prod.split option.split)
  have est: "hb_ok c1 \<and> \<not> cl_closing c1 \<and> (r \<noteq> None \<longrightarrow> cl_monitorConn c1 \<noteq> None)"
    if "establishMonitor dial t v (?c t) = (c1, r)" for t v c1 r
    using that legacy [of "ct_legacyURL t" t] new con [OF new(1)]
    by (auto simp: establishMonitor_def Let_def split: prod.splits bool.splits if_splits ws_dial.splits)
  have keep: "hb_ok (start_task k (clear_timer ReconnectExpired c)) \<and> monitor_beat (start_task k (clear_timer ReconnectExpired c)) = monitor_beat c"
    if "hb_ok c" for k c
  proof -
    have "slots_ok c" using that by (simp add: hb_ok_def)
    then have "beat_quiet c (clear_timer ReconnectExpired c)" by (rule quiet_timer) (simp add: heartbeat_action_def)
    then have "beat_quiet c (start_task k (clear_timer ReconnectExpired c))" by (rule quiet_update)
    from quiet_ok [OF that this] show ?thesis by simp
  qed
  show ?thesis
  proof (cases "buildConnectionTargets parse (cl_opts (New op))")
    case (Ok t)
    obtain c1 r where e: "establishMonitor dial t (compareVersion (op_Version (cl_opts (New op))) ''2.0.0'' \<ge> 0) (?c t) = (c1, r)"
      by (metis prod.collapse)
    show ?thesis
    proof (cases r)
      case None
      then show ?thesis using est [OF e] e Ok by (simp add: Run_def Let_def)
    next
      case (Some new)
      let ?s = "begin_session env (stopHeartbeat (c1\<lparr>cl_separatedChannels := new\<rparr>))"
      have s: "hb_ok (fst ?s) \<and> monitor_beat (fst ?s) = Due 0"
        by (rule start) (use est [OF e] Some in \<open>simp_all add: upd\<close>)
      have "Run parse env dial (New op) = (case ?s of (c, False) \<Rightarrow> (c, False)
         | (c, True) \<Rightarrow> (start_task (ReadMonitor (ct_remoteHost t) new) (clear_timer ReconnectExpired c), True))"
        using e Some Ok by (simp add: Run_def Let_def)
      then show ?thesis using s keep by (cases ?s) (auto split: bool.split)
    qed
  qed (use hb_ok_New in \<open>simp_all add: Run_def\<close>)
qed

text \<open>C11: The client's heartbeats implement the watchdog. From its start on, after any sequence of steps (messages, read
  errors, reconnections, timers, requests, streams in any order), the next step moves the heartbeat of the monitor
  channel and that of every stream's data channel exactly as the abstract machine moves on the step's label, so
  that each has at most one timer armed, a ping or the time limit of one, and none when it is off.\<close>

theorem heartbeats_implement_the_watchdog:
  "let c = foldl client_step (fst (Run parse env dial (New op))) steps in
    monitor_beat (client_step c i) = beat_step (monitor_beat c) (monitor_label c i)
    \<and> data_beat sid (client_step c i) = beat_step (data_beat sid c) (data_label sid c i)
    \<and> length (armed PingDue c) + length (armed PingExpired c) \<le> 1
    \<and> length (armed (DataPingDue sid) c) + length (armed (DataPingExpired sid) c) \<le> 1
    \<and> (monitor_beat c = Off \<longleftrightarrow> \<not> cl_heartbeatActive c)"
proof -
  define c where "c = foldl client_step (fst (Run parse env dial (New op))) steps"
  have ok: "hb_ok c" unfolding c_def by (rule monitor_watch.run_ok) (simp add: started_client)
  then have "slots_ok c" "monitor_ok c" "data_ok sid c" by (simp_all add: hb_ok_def)
  then have one: "length (armed PingDue c) + length (armed PingExpired c) \<le> 1"
    "length (armed (DataPingDue sid) c) + length (armed (DataPingExpired sid) c) \<le> 1"
    using armed_at_most_once [of c] by (auto simp: monitor_ok_def data_ok_def)
  have "monitor_beat c = Off \<longleftrightarrow> \<not> cl_heartbeatActive c" by (auto simp: monitor_beat_def beat_of_def split: list.splits)
  with one show ?thesis
    unfolding c_def [symmetric] Let_def using monitor_watch.refines [OF ok] stream_watch.refines [OF ok] by blast
qed

lemma pong_label:
  assumes "hb_ok c" "cl_exit c = None" "event_of c r = Some (''pong'', p)"
  shows "monitor_label c (x, ReadsMonitor host new r) = BeatAnswered (cl_pingInterval c)"
proof (cases r)
  case (MonitorFailed e) then show ?thesis using assms by (simp add: event_of_def)
next
  case (MonitorMessage m) then show ?thesis using assms by (simp add: monitor_label_def)
qed

text \<open>What a step labelled with a ping does.\<close>

lemma sent_label:
  assumes "hb_ok c" "monitor_label c i = BeatSent t"
  obtains x m where "i = (x, TimerFires m)" "t = cl_pingTimeout c"
    "cl_out (client_step c i) = cl_out c @ [WsText (the (cl_monitorConn c)) (monitor_message ''ping'' JNull)]"
proof -
  obtain x input where i: "i = (x, input)" by (cases i)
  have ex: "cl_exit c = None" using assms(2) by (cases "cl_exit c") (simp_all add: monitor_label_def)
  have s: "slots_ok c" "monitor_ok c" using assms(1) by (simp_all add: hb_ok_def)
  from assms(2) ex i obtain m where m: "input = TimerFires m" "action_of m c = Some PingDue" "t = cl_pingTimeout c"
    "\<not> cl_closing c" "sends (io_env x) (cl_monitorConn c) c"
    by (auto simp: monitor_label_def failure_label_def split: client_input.splits monitor_read.splits option.splits
        timer_action.splits prod.splits if_splits)
  from s(1) have "cl_out (client_step c i) = cl_out c @ [WsText (the (cl_monitorConn c)) (monitor_message ''ping'' JNull)]"
  proof (cases rule: fire_cases [of c m "io_env x"])
    case (2 act d)
    with m(2) have a: "act = PingDue" by simp
    have on: "cl_heartbeatActive c" using s(2) 2(2) a by (auto simp: monitor_ok_def split: if_splits)
    obtain w where w: "cl_monitorConn c = Some w" using m(5) by (auto simp: sends_def split: option.splits)
    show ?thesis
      using 2(4) on w m(4,5) ex
      by (simp add: i m(1) a client_step_def run_action_def sendPing_def sendMonitorMessage_def cl_write_cases sends_def client_simps)
  qed (use m(2) in simp)
  then show ?thesis using that i m(1,3) by blast
qed

text \<open>C12: A client gives a monitor channel up for silence only when its last ping went unanswered. When the time
  limit of a ping fires after a successful start, some earlier step wrote that ping, with that limit, on the monitor
  channel, and no answer was read since, nor was the heartbeat stopped or started again.\<close>

theorem only_silence_closes_the_monitor:
  assumes "Run parse env dial (New op) = (c0, True)" "c = foldl client_step c0 steps"
    and "action_of n c = Some PingExpired"
  shows "\<exists>pre x m post t. steps = pre @ (x, TimerFires m) # post
    \<and> cl_out (client_step (foldl client_step c0 pre) (x, TimerFires m))
        = cl_out (foldl client_step c0 pre) @ [WsText (the (cl_monitorConn (foldl client_step c0 pre))) (monitor_message ''ping'' JNull)]
    \<and> armed PingExpired c = [t] \<and> t = cl_pingTimeout (foldl client_step c0 pre)
    \<and> (\<forall>i < length post. \<forall>y host new r p. post ! i = (y, ReadsMonitor host new r) \<longrightarrow>
         cl_exit (foldl client_step c0 (pre @ (x, TimerFires m) # take i post)) = None \<longrightarrow>
         event_of (foldl client_step c0 (pre @ (x, TimerFires m) # take i post)) r \<noteq> Some (''pong'', p))"
proof -
  have ok0: "hb_ok c0" and b0: "monitor_beat c0 = Due 0"
    using started_client [of parse env dial op] assms(1) by simp_all
  have ok: "hb_ok (foldl client_step c0 xs)" for xs by (rule monitor_watch.run_ok [OF ok0])
  have okc: "slots_ok c" "monitor_ok c" using ok [of steps] assms(2) by (simp_all add: hb_ok_def)
  from okc(1) obtain t where t: "armed PingExpired c = [t]"
    by (cases rule: fire_cases [of c n env]) (use assms(3) in auto)
  have "cl_heartbeatActive c" "armed PingDue c = []" using okc(2) t by (auto simp: monitor_ok_def split: if_splits)
  with t have "monitor_beat (foldl client_step c0 steps) = Awaiting t" by (simp add: monitor_beat_def beat_of_def assms(2))
  from monitor_watch.awaiting_from_ping [OF ok0 this] b0
  obtain pre i post where split: "steps = pre @ i # post" "monitor_label (foldl client_step c0 pre) i = BeatSent t"
    and quiet: "\<And>j. j < length post \<Longrightarrow>
      monitor_label (foldl client_step c0 (pre @ i # take j post)) (post ! j) \<notin> {BeatStart, BeatStop, BeatExpired} \<union> range BeatAnswered"
    by auto
  from ok split(2) obtain x m where i: "i = (x, TimerFires m)" "t = cl_pingTimeout (foldl client_step c0 pre)"
    "cl_out (client_step (foldl client_step c0 pre) i)
      = cl_out (foldl client_step c0 pre) @ [WsText (the (cl_monitorConn (foldl client_step c0 pre))) (monitor_message ''ping'' JNull)]"
    by (rule sent_label)
  have "event_of (foldl client_step c0 (pre @ i # take j post)) r \<noteq> Some (''pong'', p)"
    if "j < length post" "post ! j = (y, ReadsMonitor host new r)" "cl_exit (foldl client_step c0 (pre @ i # take j post)) = None"
    for j y host new r p
    using quiet [OF that(1)] pong_label [OF ok that(3)] that(2) by (metis UnCI rangeI)
  with split(1) i t show ?thesis by blast
qed

end
