(* ===== verification/ClientSamples.thy ===== *)
theory ClientSamples
  imports ClientBeats NegotiationLaws
begin

text \<open>Concrete clients: the theorems about the client applied to them.\<close>

definition sample_client_env :: ClientEnv where
  "sample_client_env = \<lparr>ce_codec = marking_codec, ce_write = (\<lambda>s n. True), ce_write_error = ''broken pipe'', ce_now = 1000,
     ce_MAC512 = (\<lambda>k m. [1]), ce_MAC256 = (\<lambda>k m. [1]), ce_parse_head = (\<lambda>bs. None), ce_print_head = (\<lambda>r. None)\<rparr>"

definition sample_client_options :: Options where
  "sample_client_options = \<lparr>op_Type = ''http'', op_UpstreamHost = ''127.0.0.1'', op_UpstreamPort = 8080, op_UpstreamUsername = '''',
     op_UpstreamPassword = '''', op_AuthType = ''token'', op_Token = ''secret'', op_ClientId = ''dev'', op_ClientSecret = '''',
     op_SubDomain = ''app'', op_TunnelPort = 0, op_Server = '''', op_Remote = ''inlets.example:443'', op_RemoteTCPPort = 0,
     op_HealthcheckInt = 0, op_ReportURL = '''', op_Version = ''2.0.0'', op_ReconnectMaxRetries = 0, op_ReconnectInterval = 0,
     op_OpaqueChild = False\<rparr>"

definition sample_dialer :: dialer where "sample_dialer url i = WsUp 7"

definition sample_io :: ClientIO where
  "sample_io = \<lparr>io_env = sample_client_env, io_ws = sample_dialer, io_dial = Dialled 9 True, io_remote = DialError ''refused'',
     io_reply = NoReply ''EOF'', io_read = None\<rparr>"

definition running_client :: Client where
  "running_client = fst (Run (\<lambda>s. None) sample_client_env sample_dialer (New sample_client_options))"

lemma sample_client_runs:
  "snd (Run (\<lambda>s. None) sample_client_env sample_dialer (New sample_client_options))
   \<and> action_of 2 (foldl client_step running_client [(sample_io, TimerFires 0)]) = Some PingExpired"
  by code_simp

lemma only_silence_closes_the_monitor_witness:
  "\<exists>pre x m post t. [(sample_io, TimerFires 0)] = pre @ (x, TimerFires m) # post
    \<and> cl_out (client_step (foldl client_step running_client pre) (x, TimerFires m))
        = cl_out (foldl client_step running_client pre)
          @ [WsText (the (cl_monitorConn (foldl client_step running_client pre))) (monitor_message ''ping'' JNull)]
    \<and> armed PingExpired (foldl client_step running_client [(sample_io, TimerFires 0)]) = [t]"
proof -
  have run: "Run (\<lambda>s. None) sample_client_env sample_dialer (New sample_client_options) = (running_client, True)"
    using sample_client_runs by (simp add: running_client_def prod_eq_iff)
  have act: "action_of 2 (foldl client_step running_client [(sample_io, TimerFires 0)]) = Some PingExpired"
    using sample_client_runs by blast
  from only_silence_closes_the_monitor [OF run refl act] show ?thesis by blast
qed

end
