(* ===== verification/ClientAnswers.thy ===== *)
theory ClientAnswers
  imports ClientHttp ClientSamples
begin

text \<open>
  The answer to a request that came in frames (\<^verbatim>\<open>internal/client/handlers.go\<close>, \<open>readUpstreamAndStreamHTTPResponse\<close>): the client sends
  one whole answer, the head and the body of the local server in frames that the server's parser reads back, or one
  error response.
\<close>

section \<open>Pieces\<close>

lemma concat_blocks: "concat (map (\<lambda>i. take k (drop (i * k) xs)) [0..<n]) = take (n * k) xs"
proof (induction n)
  case (Suc n)
  have "take (n * k + k) xs = take (n * k) xs @ take k (drop (n * k) xs)" by (rule take_add)
  with Suc show ?case by (simp add: add.commute)
qed simp

lemma response_pieces_whole: "concat (response_pieces body) = body"
proof -
  have "length body \<le> (length body + 32 * 1024 - 1) div (32 * 1024) * (32 * 1024)"
    using div_mult_mod_eq [of "length body + 32 * 1024 - 1" "32 * 1024"] mod_less_divisor [of "32 * 1024" "length body + 32 * 1024 - 1"]
    by linarith
  then show ?thesis unfolding response_pieces_def concat_blocks by simp
qed

lemma response_pieces_size: "p \<in> set (response_pieces body) \<Longrightarrow> length p \<le> 32 * 1024"
  by (auto simp: response_pieces_def)

lemma response_pieces_Nil: "response_pieces body = [] \<longleftrightarrow> body = []"
  using response_pieces_whole [of body] by (auto simp: response_pieces_def)

section \<open>Frames\<close>

definition next_number :: "string \<Rightarrow> Client \<Rightarrow> u32" where
  "next_number i c = (case cl_sequence c i of None \<Rightarrow> 0 | Some n \<Rightarrow> n)"

definition answer_event :: "nat \<Rightarrow> string \<Rightarrow> byte list \<Rightarrow> client_event" where
  "answer_event s i bytes = WsText s (monitor_message ''response'' (id_data i (base64Encode bytes)))"

fun body_frames :: "string \<Rightarrow> u32 \<Rightarrow> byte list list \<Rightarrow> BinaryMessage list" where
  "body_frames i n [] = []"
| "body_frames i n (p # ps) =
     \<lparr>bm_Type = MessageTypeHTTPResponseBody, bm_StreamID = i, bm_Sequence = n, bm_Flags = (if ps = [] then 1 else 0), bm_Data = p\<rparr>
       # body_frames i (n + 1) ps"

definition can_answer :: "ClientEnv \<Rightarrow> nat \<Rightarrow> string \<Rightarrow> Client \<Rightarrow> bool" where
  "can_answer env s i c \<longleftrightarrow> cl_monitorConn c = Some s \<and> \<not> cl_closing c \<and> (\<forall>n. ce_write env s n) \<and> i \<noteq> '''' \<and> length i \<le> 255"

lemma sent_message:
  assumes "can_answer env s i c"
  shows "sendMonitorMessage env ''response'' payload c = (cl_emit (WsText s (monitor_message ''response'' payload)) c, True)"
  using assms by (simp add: can_answer_def sendMonitorMessage_def cl_write_def)

lemma sent_frame:
  assumes "can_answer env s i c" "length out < 2 ^ 32"
    and "(if t = MessageTypeHTTPResponseHead then maybeCompressSemanticResponseHead env c bytes else Some bytes) = Some out"
  shows "sendSemanticHTTPResponse env t i bytes fin c
    = (c\<lparr>cl_sequence := (cl_sequence c)(i \<mapsto> next_number i c + 1),
         cl_out := cl_out c @ [answer_event s i (frame_layout
           \<lparr>bm_Type = t, bm_StreamID = i, bm_Sequence = next_number i c, bm_Flags = (if fin then 1 else 0), bm_Data = out\<rparr>)]\<rparr>, Ok ())"
proof -
  let ?m = "\<lparr>bm_Type = t, bm_StreamID = i, bm_Sequence = next_number i c, bm_Flags = (if fin then 1 else 0), bm_Data = out\<rparr>"
  let ?c = "c\<lparr>cl_sequence := (cl_sequence c)(i \<mapsto> next_number i c + 1)\<rparr>"
  have "wf_frame ?m" using assms(1,2) by (simp add: wf_frame_def can_answer_def)
  then have b: "buildBinaryMessage ?m = Ok (frame_layout ?m)" by (rule client_to_server.build_layout)
  have n: "nextSequence i c = (next_number i c, ?c)" by (simp add: nextSequence_def next_number_def Let_def)
  have w: "sendMonitorMessage env ''response'' payload ?c = (cl_emit (WsText s (monitor_message ''response'' payload)) ?c, True)" for payload
    using assms(1) by (intro sent_message [of env s i]) (simp add: can_answer_def)
  show ?thesis
    unfolding sendSemanticHTTPResponse_def assms(3) option.case n prod.case messageFlagFIN_def b outcome.case w bool.case
    by (simp add: answer_event_def cl_emit_def)
qed

lemma head_is_no_body: "MessageTypeHTTPResponseBody \<noteq> MessageTypeHTTPResponseHead"
  by (simp add: MessageTypeHTTPResponseBody_def MessageTypeHTTPResponseHead_def)

lemma sent_pieces:
  assumes "can_answer env s i c" "\<forall>p\<in>set ps. length p < 2 ^ 32"
  shows "\<exists>q. send_pieces env i ps c = (c\<lparr>cl_sequence := q,
      cl_out := cl_out c @ map (\<lambda>m. answer_event s i (frame_layout m)) (body_frames i (next_number i c) ps)\<rparr>, Ok ())"
  using assms
proof (induction ps arbitrary: c)
  case (Cons p ps)
  let ?m = "\<lparr>bm_Type = MessageTypeHTTPResponseBody, bm_StreamID = i, bm_Sequence = next_number i c,
    bm_Flags = (if ps = [] then 1 else 0), bm_Data = p\<rparr>"
  let ?c = "c\<lparr>cl_sequence := (cl_sequence c)(i \<mapsto> next_number i c + 1), cl_out := cl_out c @ [answer_event s i (frame_layout ?m)]\<rparr>"
  have s: "sendSemanticHTTPResponse env MessageTypeHTTPResponseBody i p (ps = []) c = (?c, Ok ())"
    using sent_frame [OF Cons.prems(1), of p MessageTypeHTTPResponseBody p "ps = []"] Cons.prems(2) head_is_no_body by simp
  have "can_answer env s i ?c" using Cons.prems(1) by (simp add: can_answer_def)
  from Cons.IH [OF this] Cons.prems(2) obtain q where
    "send_pieces env i ps ?c = (?c\<lparr>cl_sequence := q,
      cl_out := cl_out ?c @ map (\<lambda>m. answer_event s i (frame_layout m)) (body_frames i (next_number i ?c) ps)\<rparr>, Ok ())"
    by auto
  moreover have "next_number i ?c = next_number i c + 1" by (simp add: next_number_def)
  ultimately show ?case by (intro exI [of _ q]) (simp add: s)
next
  case Nil
  show ?case by (rule exI [of _ "cl_sequence c"]) simp
qed

text \<open>What a sequence of frames is to the server: numbered in order, all of one stream, the last and only the last
  one with the flag that ends the answer.\<close>

definition one_answer :: "string \<Rightarrow> u32 \<Rightarrow> BinaryMessage list \<Rightarrow> bool" where
  "one_answer i n ms \<longleftrightarrow>
     (\<forall>j<length ms. bm_StreamID (ms ! j) = i \<and> bm_Sequence (ms ! j) = n + of_nat j \<and> (has_fin (ms ! j) \<longleftrightarrow> j = length ms - 1))"

lemma body_frames_Nil: "body_frames i n ps = [] \<longleftrightarrow> ps = []"
  by (cases ps) simp_all

lemma one_answer_Cons:
  assumes "bm_StreamID m = i" "bm_Sequence m = n" "has_fin m \<longleftrightarrow> ms = []" "one_answer i (n + 1) ms"
  shows "one_answer i n (m # ms)"
  unfolding one_answer_def
proof (intro allI impI)
  fix j
  assume "j < length (m # ms)"
  with assms show "bm_StreamID ((m # ms) ! j) = i \<and> bm_Sequence ((m # ms) ! j) = n + of_nat j
      \<and> (has_fin ((m # ms) ! j) \<longleftrightarrow> j = length (m # ms) - 1)"
    by (cases j) (auto simp: one_answer_def add.assoc)
qed

lemma body_frames_are_one_answer: "one_answer i n (body_frames i n ps)"
proof (induction ps arbitrary: n)
  case (Cons p ps)
  show ?case unfolding body_frames.simps
    by (rule one_answer_Cons) (simp_all add: Cons.IH has_fin_def messageFlagFIN_def body_frames_Nil)
qed (simp add: one_answer_def)

lemma body_frames_data:
  "concat (map bm_Data (body_frames i n ps)) = concat ps"
  "m \<in> set (body_frames i n ps) \<Longrightarrow> bm_Type m = MessageTypeHTTPResponseBody \<and> bm_StreamID m = i \<and> bm_Data m \<in> set ps"
  by (induction ps arbitrary: n) auto

section \<open>The whole answer\<close>

definition whole_answer :: "upstream_reply \<Rightarrow> (string \<times> byte list) option" where
  "whole_answer reply =
     (case reply of NoReply _ \<Rightarrow> None
      | Reply resp rest pieces clean \<Rightarrow>
          (case body_of resp rest clean of
             (body, bad) \<Rightarrow>
               if bad \<or> length body > maxUpBufferedResponse then None
               else (case responseHeadForBufferedUpstreamBody (Some resp) body of Ok head \<Rightarrow> Some (head, body) | _ \<Rightarrow> None)))"

lemma error_answer:
  assumes "can_answer env s i c"
  shows "cl_out (sendTunneledHTTPErrorResponse env i code msg c) = cl_out c @ [answer_event s i (str_bytes (error_response code msg))]"
  using assms sent_message [OF assms]
  by (simp add: sendTunneledHTTPErrorResponse_def send_answer_def compress_def answer_event_def cl_emit_def can_answer_def)

lemma failed_answer:
  assumes "can_answer env s i c" "whole_answer reply = None"
    and "readUpstreamAndStreamHTTPResponse env reply i conn c = (c', r)"
  shows "r = Ok () \<and> (\<exists>msg. cl_out c' = cl_out c @ [answer_event s i (str_bytes (error_response 502 msg)), UpstreamClosed conn])"
proof -
  have closes: "cl_out (cl_emit (UpstreamClosed conn) (sendTunneledHTTPErrorResponse env i 502 msg c))
      = cl_out c @ [answer_event s i (str_bytes (error_response 502 msg)), UpstreamClosed conn]" for msg
    by (simp add: cl_emit_def error_answer [OF assms(1)])
  show ?thesis
  proof (cases reply)
    case (NoReply err)
    with assms(3) closes show ?thesis by (auto simp: readUpstreamAndStreamHTTPResponse_def)
  next
    case (Reply resp rest pieces clean)
    obtain body bad where b: "body_of resp rest clean = (body, bad)" by force
    have slurp: "take (maxUpBufferedResponse + 1) body = body" if "length body \<le> maxUpBufferedResponse" using that by simp
    show ?thesis
      using assms(2,3) closes b slurp unfolding Reply readUpstreamAndStreamHTTPResponse_def whole_answer_def Let_def upstream_reply.case
      by (cases "length body \<le> maxUpBufferedResponse"; cases bad) (auto split: outcome.splits simp del: take_all_iff)
  qed
qed

lemma whole_answer_sent:
  assumes "can_answer env s i c" "whole_answer reply = Some (head, body)"
    and "maybeCompressSemanticResponseHead env c (str_bytes head) = Some out" "length out < 2 ^ 32"
    and "readUpstreamAndStreamHTTPResponse env reply i conn c = (c', r)"
  shows "r = Ok () \<and> cl_out c' = cl_out c @ map (\<lambda>m. answer_event s i (frame_layout m))
      (\<lparr>bm_Type = MessageTypeHTTPResponseHead, bm_StreamID = i, bm_Sequence = next_number i c,
         bm_Flags = (if body = [] then 1 else 0), bm_Data = out\<rparr> # body_frames i (next_number i c + 1) (response_pieces body))
      @ [UpstreamClosed conn]"
proof -
  obtain resp rest pieces clean where reply: "reply = Reply resp rest pieces clean"
    using assms(2) by (cases reply) (auto simp: whole_answer_def)
  have b: "body_of resp rest clean = (body, False)" "length body \<le> maxUpBufferedResponse"
    "responseHeadForBufferedUpstreamBody (Some resp) body = Ok head"
    using assms(2) by (auto simp: whole_answer_def reply split: prod.splits if_splits outcome.splits)
  then have slurp: "take (maxUpBufferedResponse + 1) body = body" by simp
  let ?h = "\<lparr>bm_Type = MessageTypeHTTPResponseHead, bm_StreamID = i, bm_Sequence = next_number i c,
    bm_Flags = (if body = [] then 1 else 0), bm_Data = out\<rparr>"
  let ?c = "c\<lparr>cl_sequence := (cl_sequence c)(i \<mapsto> next_number i c + 1), cl_out := cl_out c @ [answer_event s i (frame_layout ?h)]\<rparr>"
  have h: "sendSemanticHTTPResponse env MessageTypeHTTPResponseHead i (str_bytes head) (body = []) c = (?c, Ok ())"
    using sent_frame [OF assms(1,4), of MessageTypeHTTPResponseHead "str_bytes head" "body = []"] assms(3) by simp
  have "can_answer env s i ?c" using assms(1) by (simp add: can_answer_def)
  moreover have "\<forall>p\<in>set (response_pieces body). length p < 2 ^ 32" using response_pieces_size [of _ body] by fastforce
  ultimately obtain q where p: "send_pieces env i (response_pieces body) ?c = (?c\<lparr>cl_sequence := q,
      cl_out := cl_out ?c @ map (\<lambda>m. answer_event s i (frame_layout m)) (body_frames i (next_number i ?c) (response_pieces body))\<rparr>, Ok ())"
    using sent_pieces by blast
  have n: "next_number i ?c = next_number i c + 1" by (simp add: next_number_def)
  have run: "readUpstreamAndStreamHTTPResponse env reply i conn c
      = (cl_emit (UpstreamClosed conn) (if body = [] then ?c else fst (send_pieces env i (response_pieces body) ?c)), Ok ())"
  proof (cases "body = []")
    case True
    with b(2) show ?thesis
      unfolding readUpstreamAndStreamHTTPResponse_def reply upstream_reply.case b(1) prod.case Let_def slurp b(3) outcome.case h by simp
  next
    case False
    have "\<not> length body > maxUpBufferedResponse" using b(2) by simp
    with False show ?thesis
      unfolding readUpstreamAndStreamHTTPResponse_def reply upstream_reply.case b(1) prod.case Let_def slurp b(3) outcome.case h p
      by (simp only: if_False simp_thms prod.case fst_conv)
  qed
  show ?thesis
    using assms(5) response_pieces_Nil [of body] unfolding run p fst_conv n by (auto simp: cl_emit_def)
qed

text \<open>C13: To a request that came in frames the client gives exactly one answer, then closes its connection to the local
  server. If the server's response could be read and is not too large, the answer is whole: frames that the parser of the other
  end reads back, all of the request's stream, numbered in order, ended by the last; the first carries the
  head, compressed as it was agreed, the others the body, in order and in pieces of at most 32 KiB. If not, it is one complete
  502 response.\<close>

theorem streamed_answer_is_sent_whole:
  assumes "can_answer env s i c" "codec_ok (ce_codec env)"
    and "\<forall>head body. whole_answer reply = Some (head, body) \<longrightarrow>
           (\<exists>out. maybeCompressSemanticResponseHead env c (str_bytes head) = Some out \<and> length out < 2 ^ 32)"
    and "readUpstreamAndStreamHTTPResponse env reply i conn c = (c', r)"
  shows "r = Ok () \<and>
    (case whole_answer reply of
       Some (head, body) \<Rightarrow> \<exists>frames h ms.
         cl_out c' = cl_out c @ map (answer_event s i) frames @ [UpstreamClosed conn]
         \<and> map ParseBinaryMessage frames = map Ok (h # ms) \<and> one_answer i (next_number i c) (h # ms)
         \<and> bm_Type h = MessageTypeHTTPResponseHead
         \<and> DecompressBinaryPayloadForCapabilities (ce_codec env) (cl_negotiated c) (bm_Data h) = Some (str_bytes head)
         \<and> (\<forall>m\<in>set ms. bm_Type m = MessageTypeHTTPResponseBody \<and> length (bm_Data m) \<le> 32 * 1024)
         \<and> concat (map bm_Data ms) = body
     | None \<Rightarrow> \<exists>msg. cl_out c' = cl_out c @ [answer_event s i (str_bytes (error_response 502 msg)), UpstreamClosed conn])"
proof (cases "whole_answer reply")
  case None
  then show ?thesis using failed_answer [OF assms(1) None assms(4)] by simp
next
  case (Some w)
  obtain head body where w: "w = (head, body)" by force
  obtain out where out: "maybeCompressSemanticResponseHead env c (str_bytes head) = Some out" "length out < 2 ^ 32"
    using assms(3) Some w by blast
  note sent = whole_answer_sent [OF assms(1) Some [unfolded w] out assms(4)]
  let ?h = "\<lparr>bm_Type = MessageTypeHTTPResponseHead, bm_StreamID = i, bm_Sequence = next_number i c,
    bm_Flags = (if body = [] then 1 else 0), bm_Data = out\<rparr>"
  let ?ms = "body_frames i (next_number i c + 1) (response_pieces body)"
  have wf: "wf_frame m" if "m \<in> set (?h # ?ms)" for m
    using that assms(1) out(2) body_frames_data(2) [of m i _ "response_pieces body"] response_pieces_size [of "bm_Data m" body]
    by (auto simp: wf_frame_def can_answer_def)
  have "ParseBinaryMessage (frame_layout m) = Ok m" if "m \<in> set (?h # ?ms)" for m
    using client_to_server.parse_layout [OF wf [OF that], of "[]"] by simp
  then have parse: "map ParseBinaryMessage (map frame_layout (?h # ?ms)) = map Ok (?h # ?ms)" by simp
  have one: "one_answer i (next_number i c) (?h # ?ms)"
    by (rule one_answer_Cons)
      (simp_all add: body_frames_are_one_answer has_fin_def messageFlagFIN_def body_frames_Nil response_pieces_Nil)
  have unpacked: "DecompressBinaryPayloadForCapabilities (ce_codec env) (cl_negotiated c) out = Some (str_bytes head)"
    using out(1) codec_okD [OF assms(2)]
    by (auto simp: maybeCompressSemanticResponseHead_def DecompressBinaryPayloadForCapabilities_def decompress_by_def
        decompressGzipBytes_def decompressBrotli_def split: option.splits if_splits)
  have sizes: "\<forall>m\<in>set ?ms. bm_Type m = MessageTypeHTTPResponseBody \<and> length (bm_Data m) \<le> 32 * 1024"
    using body_frames_data(2) response_pieces_size by blast
  have data: "concat (map bm_Data ?ms) = body" by (simp add: body_frames_data(1) response_pieces_whole)
  have "cl_out c' = cl_out c @ map (answer_event s i) (map frame_layout (?h # ?ms)) @ [UpstreamClosed conn]" using sent by simp
  with parse one unpacked sizes data sent show ?thesis
    unfolding Some w option.case prod.case
    by (intro conjI exI [of _ "map frame_layout (?h # ?ms)"] exI [of _ ?h] exI [of _ ?ms]) simp_all
qed

section \<open>An answer of the local server\<close>

definition ok_response :: Response where
  "ok_response = \<lparr>rp_Status = ''200 OK'', rp_StatusCode = 200, rp_ProtoMajor = 1, rp_ProtoMinor = 1, rp_Header = [],
     rp_ContentLength = 3, rp_TransferEncoding = [], rp_Close = False\<rparr>"

definition ok_reply :: upstream_reply where "ok_reply = Reply ok_response [1, 2, 3] (\<lambda>b. [b]) True"

definition answering_client :: Client where
  "answering_client = (New sample_client_options)\<lparr>cl_monitorConn := Some 7\<rparr>"

lemma streamed_answer_is_sent_whole_witness:
  "\<exists>frames head. whole_answer ok_reply = Some (head, [1, 2, 3])
     \<and> cl_out (fst (readUpstreamAndStreamHTTPResponse sample_client_env ok_reply ''a:b'' 9 answering_client))
         = map (answer_event 7 ''a:b'') frames @ [UpstreamClosed 9]"
proof -
  have "case responseHeadForBufferedUpstreamBody (Some ok_response) [1, 2, 3] of Ok head \<Rightarrow> length head < 1000 | _ \<Rightarrow> False"
    by code_simp
  then obtain head where head: "responseHeadForBufferedUpstreamBody (Some ok_response) [1, 2, 3] = Ok head" "length head < 1000"
    by (auto split: outcome.splits)
  have "body_of ok_response [1, 2, 3] True = ([1, 2, 3], False)"
    by (simp add: body_of_def ok_response_def chunked_def bodyAllowedForStatus_def)
  moreover have "\<not> length [1, 2, 3 :: byte] > maxUpBufferedResponse" by (simp add: maxUpBufferedResponse_def)
  ultimately have w: "whole_answer ok_reply = Some (head, [1, 2, 3])" "length head < 1000"
    using head by (simp_all add: whole_answer_def ok_reply_def)
  have runs: "cl_negotiated answering_client = None" "cl_out answering_client = []"
    by (simp_all add: answering_client_def New_def Let_def)
  have a: "can_answer sample_client_env 7 ''a:b'' answering_client"
    by (simp add: can_answer_def answering_client_def New_def Let_def sample_client_env_def)
  have out: "\<forall>h b. whole_answer ok_reply = Some (h, b) \<longrightarrow>
      (\<exists>out. maybeCompressSemanticResponseHead sample_client_env answering_client (str_bytes h) = Some out \<and> length out < 2 ^ 32)"
    using w runs by (simp add: maybeCompressSemanticResponseHead_def)
  have codec: "codec_ok (ce_codec sample_client_env)" by (simp add: sample_client_env_def marking_codec_ok)
  from streamed_answer_is_sent_whole [where reply = ok_reply and conn = 9, OF a codec out prod.collapse [symmetric]] w runs show ?thesis by auto
qed

end
