(* ===== verification/AdminDiff.thy ===== *)
theory AdminDiff
  imports GoStrings "HOL-Library.Sublist"
begin

text \<open>
  The line diff of the admin console (\<open>src/internal/server/admin/service/revisions.go\<close>): the table of the
  longest common subsequence, the walk back through it, and the text. The laws: either document can be read off
  the diff, and no diff keeps more lines.
\<close>

section \<open>The code\<close>

definition splitLines :: "string \<Rightarrow> string list" where
  "splitLines s =
     (if s = '''' then []
      else let parts = Split s (CHR 0x0A) in if parts \<noteq> [] \<and> last parts = '''' then butlast parts else parts)"

record diffEdit =
  de_kind :: char
  de_text :: string

text \<open>The table: \<open>dp[i][j]\<close> for the first \<open>i\<close> and \<open>j\<close> lines, filled row by row.\<close>

definition lcs_cell :: "string list \<Rightarrow> string list \<Rightarrow> nat list list \<Rightarrow> nat \<Rightarrow> nat \<Rightarrow> nat" where
  "lcs_cell a b dp i j =
     (if a ! (i - 1) = b ! (j - 1) then dp ! (i - 1) ! (j - 1) + 1
      else if dp ! (i - 1) ! j \<ge> dp ! i ! (j - 1) then dp ! (i - 1) ! j else dp ! i ! (j - 1))"

definition fill_row :: "string list \<Rightarrow> string list \<Rightarrow> nat \<Rightarrow> nat list list \<Rightarrow> nat list list" where
  "fill_row a b i dp = fold (\<lambda>j dp. dp[i := (dp ! i)[j := lcs_cell a b dp i j]]) [1..<length b + 1] dp"

definition lcs_table :: "string list \<Rightarrow> string list \<Rightarrow> nat list list" where
  "lcs_table a b = fold (fill_row a b) [1..<length a + 1] (replicate (length a + 1) (replicate (length b + 1) 0))"

text \<open>The walk back from the corner, newest edit first; the code appends and reverses at the end.\<close>

function backtrack :: "string list \<Rightarrow> string list \<Rightarrow> nat list list \<Rightarrow> nat \<Rightarrow> nat \<Rightarrow> diffEdit list \<Rightarrow> diffEdit list" where
  "backtrack a b dp i j out =
     (if \<not> (i > 0 \<or> j > 0) then out
      else if i > 0 \<and> j > 0 \<and> a ! (i - 1) = b ! (j - 1)
      then backtrack a b dp (i - 1) (j - 1) (out @ [\<lparr>de_kind = CHR '' '', de_text = a ! (i - 1)\<rparr>])
      else if j > 0 \<and> (i = 0 \<or> dp ! i ! (j - 1) \<ge> dp ! (i - 1) ! j)
      then backtrack a b dp i (j - 1) (out @ [\<lparr>de_kind = CHR ''+'', de_text = b ! (j - 1)\<rparr>])
      else backtrack a b dp (i - 1) j (out @ [\<lparr>de_kind = CHR ''-'', de_text = a ! (i - 1)\<rparr>]))"
  by pat_completeness auto
termination by (relation "measure (\<lambda>(a, b, dp, i, j, out). i + j)") auto

declare backtrack.simps [simp del]

definition lcsDiff :: "string list \<Rightarrow> string list \<Rightarrow> diffEdit list" where
  "lcsDiff a b = rev (backtrack a b (lcs_table a b) (length a) (length b) [])"

definition UnifiedDiff :: "string \<Rightarrow> string \<Rightarrow> string" where
  "UnifiedDiff oldText newText =
     concat (map (\<lambda>e. (if de_kind e = CHR '' '' \<or> de_kind e = CHR ''-'' \<or> de_kind e = CHR ''+'' then de_kind e # de_text e else [])
                      @ [CHR 0x0A])
                 (lcsDiff (splitLines oldText) (splitLines newText)))"

section \<open>The longest common subsequence\<close>

fun lcs :: "'a list \<Rightarrow> 'a list \<Rightarrow> nat \<Rightarrow> nat \<Rightarrow> nat" where
  "lcs a b 0 j = 0"
| "lcs a b (Suc i) 0 = 0"
| "lcs a b (Suc i) (Suc j) =
     (if a ! i = b ! j then lcs a b i j + 1 else max (lcs a b i (Suc j)) (lcs a b (Suc i) j))"

lemma lcs_0 [simp]: "lcs a b i 0 = 0"
  by (cases i) auto

lemma subseq_snoc: "subseq c (xs @ [x]) \<Longrightarrow> subseq (butlast c) xs"
proof -
  assume "subseq c (xs @ [x])"
  then obtain us vs where c: "c = us @ vs" "subseq us xs" "subseq vs [x]" by (auto simp: subseq_append_iff)
  then have "length vs \<le> 1" using list_emb_length by fastforce
  then have "vs = [] \<or> (\<exists>y. vs = [y])" by (cases vs) auto
  then have "butlast c = us \<or> butlast c = butlast us" using c(1) by auto
  moreover have "subseq (butlast us) us" by (metis append_butlast_last_id butlast.simps(1) prefix_order.refl prefix_imp_subseq prefixI)
  ultimately show ?thesis using c(2) subseq_order.trans by auto
qed

lemma subseq_snoc_other: "subseq c (xs @ [x]) \<Longrightarrow> c = [] \<or> last c \<noteq> x \<Longrightarrow> subseq c xs"
proof -
  assume *: "subseq c (xs @ [x])" "c = [] \<or> last c \<noteq> x"
  then obtain us vs where c: "c = us @ vs" "subseq us xs" "subseq vs [x]" by (auto simp: subseq_append_iff)
  have "vs = []" proof (rule ccontr)
    assume v: "vs \<noteq> []"
    have "set vs \<subseteq> {x}" using list_emb_set [OF c(3)] by auto
    with v have "last vs = x" using last_in_set by fastforce
    with v *(2) c(1) show False by simp
  qed
  with c show ?thesis by simp
qed

lemma lcs_optimal:
  assumes "i \<le> length a" "j \<le> length b" "subseq c (take i a)" "subseq c (take j b)"
  shows "length c \<le> lcs a b i j"
  using assms
proof (induction a b i j arbitrary: c rule: lcs.induct)
  case (3 a b i j)
  have t: "take (Suc i) a = take i a @ [a ! i]" "take (Suc j) b = take j b @ [b ! j]"
    using "3.prems"(1,2) by (simp_all add: take_Suc_conv_app_nth)
  show ?case
  proof (cases "a ! i = b ! j")
    case True
    have "length (butlast c) \<le> lcs a b i j"
      using "3.IH"(1) [OF True] "3.prems" t subseq_snoc by (metis Suc_leD)
    with True show ?thesis by simp
  next
    case False
    then have "(c = [] \<or> last c \<noteq> a ! i) \<or> (c = [] \<or> last c \<noteq> b ! j)" by auto
    then show ?thesis
    proof
      assume "c = [] \<or> last c \<noteq> a ! i"
      then have "subseq c (take i a)" using "3.prems"(3) t(1) subseq_snoc_other by metis
      then have "length c \<le> lcs a b i (Suc j)" using "3.IH"(2) [OF False] "3.prems" by simp
      with False show ?thesis by simp
    next
      assume "c = [] \<or> last c \<noteq> b ! j"
      then have "subseq c (take j b)" using "3.prems"(4) t(2) subseq_snoc_other by metis
      then have "length c \<le> lcs a b (Suc i) j" using "3.IH"(3) [OF False] "3.prems" by simp
      with False show ?thesis by simp
    qed
  qed
qed auto

section \<open>The table holds the lengths\<close>

definition filled :: "string list \<Rightarrow> string list \<Rightarrow> nat \<Rightarrow> nat \<Rightarrow> nat list list \<Rightarrow> bool" where
  "filled a b i j dp \<longleftrightarrow>
     length dp = length a + 1 \<and> (\<forall>r\<le>length a. length (dp ! r) = length b + 1)
     \<and> (\<forall>r\<le>length a. \<forall>k\<le>length b. dp ! r ! k = (if r < i \<or> r = i \<and> k < j then lcs a b r k else 0))"

lemma filled_cell:
  assumes "filled a b (Suc i) (Suc j) dp" "i < length a" "j < length b"
  shows "lcs_cell a b dp (Suc i) (Suc j) = lcs a b (Suc i) (Suc j)"
  using assms by (auto simp: lcs_cell_def filled_def)

lemma filled_step:
  assumes "filled a b (Suc i) (Suc j) dp" "i < length a" "j < length b"
  shows "filled a b (Suc i) (Suc (Suc j)) (dp[Suc i := (dp ! Suc i)[Suc j := lcs_cell a b dp (Suc i) (Suc j)]])"
proof -
  define v where "v = lcs a b (Suc i) (Suc j)"
  have len: "length dp = length a + 1" "r \<le> length a \<Longrightarrow> length (dp ! r) = length b + 1" for r
    using assms(1) by (auto simp: filled_def)
  have val: "r \<le> length a \<Longrightarrow> k \<le> length b \<Longrightarrow> dp ! r ! k = (if r < Suc i \<or> r = Suc i \<and> k < Suc j then lcs a b r k else 0)" for r k
    using assms(1) by (auto simp: filled_def)
  have new: "dp[Suc i := (dp ! Suc i)[Suc j := v]] ! r ! k = (if r = Suc i \<and> k = Suc j then v else dp ! r ! k)"
    if "r \<le> length a" "k \<le> length b" for r k
    using that len assms(2,3) by (simp add: nth_list_update)
  have "length (dp[Suc i := (dp ! Suc i)[Suc j := v]] ! r) = length b + 1" if "r \<le> length a" for r
    using that len assms(2) by (simp add: nth_list_update)
  moreover have "dp[Suc i := (dp ! Suc i)[Suc j := v]] ! r ! k = (if r < Suc i \<or> r = Suc i \<and> k < Suc (Suc j) then lcs a b r k else 0)"
    if "r \<le> length a" "k \<le> length b" for r k
    using new [OF that] val [OF that] by (auto simp: v_def less_Suc_eq simp del: lcs.simps)
  ultimately show ?thesis unfolding filled_cell [OF assms] v_def [symmetric] filled_def using len(1) by simp
qed

lemma filled_row:
  assumes "filled a b (Suc i) 1 dp" "i < length a"
  shows "filled a b (Suc (Suc i)) 1 (fill_row a b (Suc i) dp)"
proof -
  have "k \<le> length b \<Longrightarrow>
      filled a b (Suc i) (Suc k) (fold (\<lambda>j dp. dp[Suc i := (dp ! Suc i)[j := lcs_cell a b dp (Suc i) j]]) [1..<k + 1] dp)" for k
  proof (induction k)
    case (Suc k)
    then show ?case using filled_step [OF Suc.IH assms(2)] by simp
  qed (use assms in simp)
  from this [of "length b"] have "filled a b (Suc i) (Suc (length b)) (fill_row a b (Suc i) dp)" by (simp add: fill_row_def)
  then show ?thesis by (auto simp: filled_def less_Suc_eq)
qed

lemma lcs_table_correct:
  assumes "i \<le> length a" "j \<le> length b"
  shows "lcs_table a b ! i ! j = lcs a b i j"
proof -
  have "n \<le> length a \<Longrightarrow>
      filled a b (Suc n) 1 (fold (fill_row a b) [1..<n + 1] (replicate (length a + 1) (replicate (length b + 1) 0)))" for n
  proof (induction n)
    case 0
    show ?case by (auto simp: filled_def less_Suc_eq_le simp del: replicate_Suc)
  next
    case (Suc n)
    then show ?case using filled_row [OF Suc.IH] by simp
  qed
  from this [of "length a"] assms show ?thesis by (auto simp: lcs_table_def filled_def)
qed
section \<open>The walk\<close>

lemma backtrack_steps:
  "backtrack a b dp 0 0 out = out"
  "a ! i = b ! j \<Longrightarrow> backtrack a b dp (Suc i) (Suc j) out = backtrack a b dp i j (out @ [\<lparr>de_kind = CHR '' '', de_text = a ! i\<rparr>])"
  "i = 0 \<or> (\<exists>i'. i = Suc i' \<and> a ! i' \<noteq> b ! j \<and> dp ! i ! j \<ge> dp ! i' ! Suc j) \<Longrightarrow>
     backtrack a b dp i (Suc j) out = backtrack a b dp i j (out @ [\<lparr>de_kind = CHR ''+'', de_text = b ! j\<rparr>])"
  "j = 0 \<or> (\<exists>j'. j = Suc j' \<and> a ! i \<noteq> b ! j' \<and> dp ! Suc i ! j' < dp ! i ! j) \<Longrightarrow>
     backtrack a b dp (Suc i) j out = backtrack a b dp i j (out @ [\<lparr>de_kind = CHR ''-'', de_text = a ! i\<rparr>])"
  by (subst backtrack.simps, force)+

lemma backtrack_correct:
  assumes "i \<le> length a" "j \<le> length b"
  shows "\<exists>es. backtrack a b (lcs_table a b) i j out = out @ es
    \<and> map de_text (filter (\<lambda>e. de_kind e \<noteq> CHR ''+'') (rev es)) = take i a
    \<and> map de_text (filter (\<lambda>e. de_kind e \<noteq> CHR ''-'') (rev es)) = take j b
    \<and> length (filter (\<lambda>e. de_kind e = CHR '' '') (rev es)) = lcs a b i j
    \<and> de_kind ` set es \<subseteq> {CHR '' '', CHR ''-'', CHR ''+''}"
  using assms
proof (induction "i + j" arbitrary: i j out rule: less_induct)
  case less
  consider "i = 0" "j = 0" | i' j' where "i = Suc i'" "j = Suc j'" "a ! i' = b ! j'"
    | j' where "j = Suc j'" "i = 0 \<or> (\<exists>i'. i = Suc i' \<and> a ! i' \<noteq> b ! j' \<and> lcs a b (Suc i') j' \<ge> lcs a b i' j)"
    | i' where "i = Suc i'" "j = 0 \<or> (\<exists>j'. j = Suc j' \<and> a ! i' \<noteq> b ! j' \<and> lcs a b (Suc i') j' < lcs a b i' j)"
    by (cases i; cases j) (auto, meson leI)
  then show ?case
  proof cases
    case 1
    then show ?thesis by (intro exI [of _ "[]"]) (simp add: backtrack_steps)
  next
    case (2 i' j')
    let ?e = "\<lparr>de_kind = CHR '' '', de_text = a ! i'\<rparr>"
    from less.hyps [of i' j' "out @ [?e]"] 2 less.prems obtain es where
      "backtrack a b (lcs_table a b) i' j' (out @ [?e]) = (out @ [?e]) @ es"
      "map de_text (filter (\<lambda>e. de_kind e \<noteq> CHR ''+'') (rev es)) = take i' a"
      "map de_text (filter (\<lambda>e. de_kind e \<noteq> CHR ''-'') (rev es)) = take j' b"
      "length (filter (\<lambda>e. de_kind e = CHR '' '') (rev es)) = lcs a b i' j'"
      "de_kind ` set es \<subseteq> {CHR '' '', CHR ''-'', CHR ''+''}" by auto
    with 2 less.prems show ?thesis by (intro exI [of _ "?e # es"]) (simp add: backtrack_steps take_Suc_conv_app_nth)
  next
    case (3 j')
    let ?e = "\<lparr>de_kind = CHR ''+'', de_text = b ! j'\<rparr>"
    from less.hyps [of i j' "out @ [?e]"] 3 less.prems obtain es where
      "backtrack a b (lcs_table a b) i j' (out @ [?e]) = (out @ [?e]) @ es"
      "map de_text (filter (\<lambda>e. de_kind e \<noteq> CHR ''+'') (rev es)) = take i a"
      "map de_text (filter (\<lambda>e. de_kind e \<noteq> CHR ''-'') (rev es)) = take j' b"
      "length (filter (\<lambda>e. de_kind e = CHR '' '') (rev es)) = lcs a b i j'"
      "de_kind ` set es \<subseteq> {CHR '' '', CHR ''-'', CHR ''+''}" by auto
    with 3 less.prems show ?thesis
      by (intro exI [of _ "?e # es"]) (auto simp: backtrack_steps take_Suc_conv_app_nth lcs_table_correct max_def)
  next
    case (4 i')
    let ?e = "\<lparr>de_kind = CHR ''-'', de_text = a ! i'\<rparr>"
    from less.hyps [of i' j "out @ [?e]"] 4 less.prems obtain es where
      "backtrack a b (lcs_table a b) i' j (out @ [?e]) = (out @ [?e]) @ es"
      "map de_text (filter (\<lambda>e. de_kind e \<noteq> CHR ''+'') (rev es)) = take i' a"
      "map de_text (filter (\<lambda>e. de_kind e \<noteq> CHR ''-'') (rev es)) = take j b"
      "length (filter (\<lambda>e. de_kind e = CHR '' '') (rev es)) = lcs a b i' j"
      "de_kind ` set es \<subseteq> {CHR '' '', CHR ''-'', CHR ''+''}" by auto
    with 4 less.prems show ?thesis
      by (intro exI [of _ "?e # es"]) (auto simp: backtrack_steps take_Suc_conv_app_nth lcs_table_correct max_def)
  qed
qed

lemma lcsDiff_correct:
  "map de_text (filter (\<lambda>e. de_kind e \<noteq> CHR ''+'') (lcsDiff a b)) = a"
  "map de_text (filter (\<lambda>e. de_kind e \<noteq> CHR ''-'') (lcsDiff a b)) = b"
  "length (filter (\<lambda>e. de_kind e = CHR '' '') (lcsDiff a b)) = lcs a b (length a) (length b)"
  "de_kind ` set (lcsDiff a b) \<subseteq> {CHR '' '', CHR ''-'', CHR ''+''}"
  using backtrack_correct [of "length a" a "length b" b "[]"] by (auto simp: lcsDiff_def)

section \<open>The text\<close>

lemma splitLines_free: "l \<in> set (splitLines s) \<Longrightarrow> CHR 0x0A \<notin> set l"
  using Split_char_free [of l s "CHR 0x0A"] by (auto simp: splitLines_def Let_def split: if_splits dest: in_set_butlastD)

lemma splitLines_concat:
  assumes "\<forall>l\<in>set ls. CHR 0x0A \<notin> set l"
  shows "splitLines (concat (map (\<lambda>l. l @ [CHR 0x0A]) ls)) = ls"
proof -
  have "Split (concat (map (\<lambda>l. l @ [CHR 0x0A]) ls)) (CHR 0x0A) = ls @ [[]]"
    using assms by (induction ls) (simp_all add: Split_append_sep)
  then show ?thesis by (cases ls) (auto simp: splitLines_def Let_def)
qed

definition read_diff :: "char set \<Rightarrow> string \<Rightarrow> string list" where
  "read_diff ks t = map tl (filter (\<lambda>l. l \<noteq> [] \<and> hd l \<in> ks) (splitLines t))"

lemma read_diff_UnifiedDiff:
  "read_diff ks (UnifiedDiff x y) = map de_text (filter (\<lambda>e. de_kind e \<in> ks) (lcsDiff (splitLines x) (splitLines y)))"
proof -
  let ?es = "lcsDiff (splitLines x) (splitLines y)"
  have k: "de_kind e = CHR '' '' \<or> de_kind e = CHR ''-'' \<or> de_kind e = CHR ''+''" if "e \<in> set ?es" for e
    using that lcsDiff_correct(4) [of "splitLines x" "splitLines y"] by auto
  have "de_text e \<in> set (splitLines x) \<union> set (splitLines y)" if "e \<in> set ?es" for e
  proof -
    have "e \<in> set (filter (\<lambda>e. de_kind e \<noteq> CHR ''+'') ?es) \<or> e \<in> set (filter (\<lambda>e. de_kind e \<noteq> CHR ''-'') ?es)" using that by auto
    then have "de_text e \<in> set (map de_text (filter (\<lambda>e. de_kind e \<noteq> CHR ''+'') ?es)) \<or> de_text e \<in> set (map de_text (filter (\<lambda>e. de_kind e \<noteq> CHR ''-'') ?es))"
      unfolding set_map by (elim disjE) (rule disjI1, erule imageI, rule disjI2, erule imageI)
    then show ?thesis by (simp only: lcsDiff_correct(1,2) Un_iff)
  qed
  with k have free: "\<forall>l\<in>set (map (\<lambda>e. de_kind e # de_text e) ?es). CHR 0x0A \<notin> set l"
    using splitLines_free by fastforce
  have "UnifiedDiff x y = concat (map (\<lambda>l. l @ [CHR 0x0A]) (map (\<lambda>e. de_kind e # de_text e) ?es))"
    unfolding UnifiedDiff_def map_map o_def by (intro arg_cong [of _ _ concat] map_cong refl) (use k in auto)
  then have "splitLines (UnifiedDiff x y) = map (\<lambda>e. de_kind e # de_text e) ?es" using splitLines_concat [OF free] by simp
  then show ?thesis by (simp add: read_diff_def filter_map o_def)
qed

lemma diff_lines:
  "read_diff {CHR '' '', CHR ''-''} (UnifiedDiff x y) = splitLines x"
  "read_diff {CHR '' '', CHR ''+''} (UnifiedDiff x y) = splitLines y"
proof -
  let ?es = "lcsDiff (splitLines x) (splitLines y)"
  have f: "filter (\<lambda>e. de_kind e \<in> {CHR '' '', CHR ''-''}) ?es = filter (\<lambda>e. de_kind e \<noteq> CHR ''+'') ?es"
    "filter (\<lambda>e. de_kind e \<in> {CHR '' '', CHR ''+''}) ?es = filter (\<lambda>e. de_kind e \<noteq> CHR ''-'') ?es"
    using lcsDiff_correct(4) [of "splitLines x" "splitLines y"] by (auto intro!: filter_cong)
  show "read_diff {CHR '' '', CHR ''-''} (UnifiedDiff x y) = splitLines x"
    "read_diff {CHR '' '', CHR ''+''} (UnifiedDiff x y) = splitLines y"
    by (simp_all only: read_diff_UnifiedDiff f lcsDiff_correct)
qed

lemma diff_longest:
  "subseq c (splitLines x) \<Longrightarrow> subseq c (splitLines y) \<Longrightarrow> length c \<le> length (read_diff {CHR '' ''} (UnifiedDiff x y))"
  using lcs_optimal [of "length (splitLines x)" "splitLines x" "length (splitLines y)" "splitLines y" c]
    lcsDiff_correct(3) [of "splitLines x" "splitLines y"] by (simp add: read_diff_UnifiedDiff)

text \<open>C29: A diff of the admin console contains both documents: its unchanged and removed lines are the lines of the
  old one, its unchanged and added lines those of the new one, in order; and it keeps as many lines as any
  common subsequence of the two has, so it is a shortest one.\<close>

theorem diff_is_exact_and_minimal:
  "read_diff {CHR '' '', CHR ''-''} (UnifiedDiff x y) = splitLines x
   \<and> read_diff {CHR '' '', CHR ''+''} (UnifiedDiff x y) = splitLines y
   \<and> (\<forall>c. subseq c (splitLines x) \<and> subseq c (splitLines y) \<longrightarrow> length c \<le> length (read_diff {CHR '' ''} (UnifiedDiff x y)))"
  using diff_lines(1,2) diff_longest by blast

definition sample_old :: string where "sample_old = ''a'' @ [CHR 0x0A] @ ''b'' @ [CHR 0x0A] @ ''c''"
definition sample_new :: string where "sample_new = ''a'' @ [CHR 0x0A] @ ''c'' @ [CHR 0x0A] @ ''d'' @ [CHR 0x0A]"

lemma diff_is_exact_and_minimal_witness:
  "read_diff {CHR '' '', CHR ''-''} (UnifiedDiff sample_old sample_new) = [''a'', ''b'', ''c'']
   \<and> 2 \<le> length (read_diff {CHR '' ''} (UnifiedDiff sample_old sample_new))"
proof -
  have "subseq [''a'', ''c''] (splitLines sample_old) \<and> subseq [''a'', ''c''] (splitLines sample_new)"
    by (simp add: splitLines_def sample_old_def sample_new_def)
  with diff_is_exact_and_minimal [of sample_old sample_new]
  have "read_diff {CHR '' '', CHR ''-''} (UnifiedDiff sample_old sample_new) = splitLines sample_old"
    "length [''a'', ''c''] \<le> length (read_diff {CHR '' ''} (UnifiedDiff sample_old sample_new))" by blast+
  then show ?thesis by (simp add: splitLines_def sample_old_def)
qed

end
