(* ===== verification/ServerWiring.thy ===== *)
theory ServerWiring
  imports TcpTunnel
begin

text \<open>
  How \<^verbatim>\<open>internal/server/server.go\<close> wires its parts: the routes on the shared \<open>http.ServeMux\<close> (\<open>Attach\<close> of the
  WebSocket monitor and of the HTTP tunnel, \<open>SetupStatsAPI\<close>), the statistics API
  (\<^verbatim>\<open>internal/server/utils/utils.go\<close>), and what a \<open>tunnel\<close> event of the monitor starts.
\<close>

section \<open>Routes\<close>

definition WSPath :: string where "WSPath = ''/_client''"
definition WSMonitorPath :: string where "WSMonitorPath = ''/_/monitor''"
definition WSDataPath :: string where "WSDataPath = ''/_/data''"
definition StatsPath :: string where "StatsPath = ''/api/stats''"

datatype route = LegacyMonitor | NewMonitor | DataChannel | StatsAll | StatsOf string | HTTPTunnel | Redirect string

text \<open>\<open>cleanPath\<close> of \<open>net/http\<close>: the multiplexer redirects to it whenever it differs from the path of the request.\<close>

definition clean_url_path :: "string \<Rightarrow> string" where
  "clean_url_path p =
     (if p = '''' then ''/''
      else
        let p = (if hd p = CHR ''/'' then p else CHR ''/'' # p); np = path_Clean p in
        if last p = CHR ''/'' \<and> np \<noteq> ''/''
        then (if length p = length np + 1 \<and> HasPrefix p np then p else np @ ''/'')
        else np)"

text \<open>
  The multiplexer: a pattern without a trailing slash matches that path only, one with a trailing slash every path
  below it, and the longest one wins; \<open>CONNECT\<close> requests are not redirected.
\<close>

definition matches :: "string \<Rightarrow> string \<Rightarrow> bool" where
  "matches pattern path \<longleftrightarrow> (if last pattern = CHR ''/'' then HasPrefix path pattern else path = pattern)"

definition patterns :: "(string \<times> (string \<Rightarrow> route)) list" where
  "patterns = [(WSPath, \<lambda>p. LegacyMonitor), (WSMonitorPath, \<lambda>p. NewMonitor), (WSDataPath, \<lambda>p. DataChannel),
     (''/'', \<lambda>p. HTTPTunnel), (StatsPath, \<lambda>p. StatsAll),
     (StatsPath @ ''/'', \<lambda>p. StatsOf (drop (length (StatsPath @ ''/'')) p))]"

fun longest :: "(string \<times> (string \<Rightarrow> route)) list \<Rightarrow> string \<Rightarrow> (string \<times> (string \<Rightarrow> route)) option" where
  "longest [] path = None"
| "longest ((pat, h) # ps) path =
     (case longest ps path of
        None \<Rightarrow> if matches pat path then Some (pat, h) else None
      | Some (pat', h') \<Rightarrow> if matches pat path \<and> length pat > length pat' then Some (pat, h) else Some (pat', h'))"

definition route_of :: "string \<Rightarrow> string \<Rightarrow> route option" where
  "route_of verb path =
     (if verb \<noteq> ''CONNECT'' \<and> clean_url_path path \<noteq> path then Some (Redirect (clean_url_path path))
      else map_option (\<lambda>(pat, h). h path) (longest patterns path))"

section \<open>The statistics API\<close>

datatype stats_answer = MethodNotAllowed | ClientNotFound | StatsJson stats_view

definition stats_api :: "TrafficStatsData \<Rightarrow> string \<Rightarrow> route \<Rightarrow> stats_answer option" where
  "stats_api d verb r =
     (case r of
        StatsAll \<Rightarrow> Some (if verb \<noteq> ''GET'' then MethodNotAllowed else StatsJson (GetStats '''' d))
      | StatsOf clientId \<Rightarrow> Some (if verb \<noteq> ''GET'' then MethodNotAllowed
          else case GetStats clientId d of NoStats \<Rightarrow> ClientNotFound | v \<Rightarrow> StatsJson v)
      | _ \<Rightarrow> None)"

section \<open>Tunnel events\<close>

text \<open>
  \<open>OnTunnel\<close> and the handler that \<open>New\<close> registers: the payload of an event must be a map whose type and container
  id are strings; a TCP tunnel gets its listener, an HTTP tunnel needs none.
\<close>

definition on_tunnel :: "SrvEnv \<Rightarrow> string \<Rightarrow> json \<Rightarrow> Server \<Rightarrow> Server" where
  "on_tunnel env domain data s =
     (case data of
        JObj m \<Rightarrow>
          (case (map_of m ''type'', map_of m ''containerId'') of
             (Some (JStr t), Some (JStr cid)) \<Rightarrow> if t = ''tcp'' then fst (CreateServer env cid domain s) else s
           | _ \<Rightarrow> s)
      | _ \<Rightarrow> s)"

section \<open>Laws\<close>

lemma route_of_tunnel:
  "route_of verb path = Some HTTPTunnel \<longleftrightarrow>
     (verb = ''CONNECT'' \<or> clean_url_path path = path) \<and> HasPrefix path ''/''
     \<and> path \<notin> {WSPath, WSMonitorPath, WSDataPath, StatsPath} \<and> \<not> HasPrefix path (StatsPath @ ''/'')"
proof -
  have "longest patterns path = (if HasPrefix path (StatsPath @ ''/'') then Some (StatsPath @ ''/'', \<lambda>p. StatsOf (drop (length (StatsPath @ ''/'')) p))
      else if path = StatsPath then Some (StatsPath, \<lambda>p. StatsAll)
      else if path = WSMonitorPath then Some (WSMonitorPath, \<lambda>p. NewMonitor)
      else if path = WSDataPath then Some (WSDataPath, \<lambda>p. DataChannel)
      else if path = WSPath then Some (WSPath, \<lambda>p. LegacyMonitor)
      else if HasPrefix path ''/'' then Some (''/'', \<lambda>p. HTTPTunnel) else None)"
    by (auto simp: patterns_def matches_def WSPath_def WSMonitorPath_def WSDataPath_def StatsPath_def)
  then show ?thesis by (auto simp: route_of_def)
qed

text \<open>A request reaches a tunnel exactly if its path is absolute and clean and is none of the server's own: paths with
  empty or dot segments are redirected, and the three WebSocket paths and everything at and below
  \<open>/api/stats\<close> are answered by the server itself under the name of every tunnel.\<close>

theorem which_requests_reach_a_tunnel:
  "route_of verb path = Some HTTPTunnel \<longleftrightarrow>
     (verb = ''CONNECT'' \<or> clean_url_path path = path) \<and> HasPrefix path ''/''
     \<and> path \<notin> {''/_client'', ''/_/monitor'', ''/_/data'', ''/api/stats''} \<and> \<not> HasPrefix path ''/api/stats/''"
  using route_of_tunnel by (simp add: WSPath_def WSMonitorPath_def WSDataPath_def StatsPath_def)

end
