(* ===== verification/Notifier.thy ===== *)
theory Notifier
  imports ClientTypes Json
begin

text \<open>
  Messages to a chat service (\<^verbatim>\<open>internal/server/notification/notifier.go\<close>): the body that each provider expects and the errors.
  The HTTP client is a parameter: what becomes of a POST of a body to a URL. Bodies are JSON values.
\<close>

datatype post_result = BadURL | NotSent | NotRead | Answered int string

type_synonym poster = "string \<Rightarrow> json \<Rightarrow> post_result"

datatype notify_error = UnsupportedProvider string | RequestNotCreated | RequestNotSent | ResponseNotRead | BadStatus int string

text \<open>A nil configuration gives a nil notifier.\<close>

definition NewNotifier :: "NotificationConfig option \<Rightarrow> NotificationConfig option" where
  "NewNotifier c = (case c of None \<Rightarrow> None | Some k \<Rightarrow> Some k)"

definition sendHTTPRequest :: "poster \<Rightarrow> string \<Rightarrow> json \<Rightarrow> (notify_error, unit) outcome" where
  "sendHTTPRequest post url payload =
     (case post url payload of
        BadURL \<Rightarrow> Err RequestNotCreated | NotSent \<Rightarrow> Err RequestNotSent | NotRead \<Rightarrow> Err ResponseNotRead
      | Answered status body \<Rightarrow> if status < 200 \<or> status \<ge> 300 then Err (BadStatus status body) else Ok ())"

definition blank_line :: string where "blank_line = [CHR 0x0A, CHR 0x0A]"

definition dingtalk_payload :: "string \<Rightarrow> string \<Rightarrow> json" where
  "dingtalk_payload title content =
     JObj [(''msgtype'', JStr ''markdown''),
       (''markdown'', JObj [(''title'', JStr title), (''text'', JStr (''## '' @ title @ blank_line @ content))])]"

definition feishu_payload :: "string \<Rightarrow> string \<Rightarrow> json" where
  "feishu_payload title content =
     JObj [(''msg_type'', JStr ''interactive''),
       (''card'', JObj [(''config'', JObj [(''wide_screen_mode'', JBool True)]),
          (''header'', JObj [(''title'', JObj [(''tag'', JStr ''plain_text''), (''content'', JStr title)]), (''template'', JStr ''blue'')]),
          (''elements'', JArr [JObj [(''tag'', JStr ''div''), (''text'', JObj [(''tag'', JStr ''lark_md''), (''content'', JStr content)])]])])]"

definition wecom_payload :: "string \<Rightarrow> string \<Rightarrow> json" where
  "wecom_payload title content =
     JObj [(''msgtype'', JStr ''markdown''), (''markdown'', JObj [(''content'', JStr (''# '' @ title @ blank_line @ content))])]"

definition slack_payload :: "string \<Rightarrow> string \<Rightarrow> json" where
  "slack_payload title content =
     JObj [(''text'', JStr title),
       (''blocks'', JArr [
          JObj [(''type'', JStr ''header''), (''text'', JObj [(''type'', JStr ''plain_text''), (''text'', JStr title)])],
          JObj [(''type'', JStr ''section''), (''text'', JObj [(''type'', JStr ''mrkdwn''), (''text'', JStr content)])]])]"

text \<open>The four senders differ in the payload only.\<close>

definition provider_payload :: "string \<Rightarrow> (string \<Rightarrow> string \<Rightarrow> json) option" where
  "provider_payload provider =
     (let p = ToLower provider in
      if p \<in> {''dingtalk'', ''ding''} then Some dingtalk_payload
      else if p \<in> {''feishu'', ''lark''} then Some feishu_payload
      else if p \<in> {''wecom'', ''wechat'', ''wework''} then Some wecom_payload
      else if p = ''slack'' then Some slack_payload else None)"

definition Notify :: "poster \<Rightarrow> NotificationConfig option \<Rightarrow> string \<Rightarrow> string list \<Rightarrow> (notify_error, unit) outcome" where
  "Notify post n title message =
     (case n of None \<Rightarrow> Ok ()
      | Some c \<Rightarrow>
          (case provider_payload (nc_Provider c) of
             None \<Rightarrow> Err (UnsupportedProvider (nc_Provider c))
           | Some payload \<Rightarrow> sendHTTPRequest post (nc_URL c) (payload title (Join message [CHR 0x0A]))))"

text \<open>\<open>Notification\<close> wraps a notifier; unlike \<open>Notifier.Notify\<close>, its \<open>Notify\<close> reads through its receiver.\<close>

type_synonym notification = "NotificationConfig option option"

definition NewNotification :: "NotificationConfig option \<Rightarrow> notification" where
  "NewNotification c = Some (NewNotifier c)"

lemma NewNotification_eq [simp]: "NewNotification c = Some c"
  by (cases c) (simp_all add: NewNotification_def NewNotifier_def)

definition notification_Notify :: "poster \<Rightarrow> notification \<Rightarrow> string \<Rightarrow> string list \<Rightarrow> (notify_error, unit) outcome" where
  "notification_Notify post n title message =
     (case n of None \<Rightarrow> Panic | Some None \<Rightarrow> Ok () | Some (Some c) \<Rightarrow> Notify post (Some c) title message)"

section \<open>What is sent\<close>

text \<open>The texts in a JSON value.\<close>

fun json_texts :: "json \<Rightarrow> string list" where
  "json_texts (JStr s) = [s]"
| "json_texts (JArr vs) = concat (map json_texts vs)"
| "json_texts (JObj ms) = concat (map (\<lambda>m. json_texts (snd m)) ms)"
| "json_texts _ = []"

lemma payload_has_title_and_content:
  assumes "provider_payload provider = Some payload"
  shows "(\<exists>t\<in>set (json_texts (payload title content)). \<exists>x y. t = x @ title @ y)
    \<and> (\<exists>t\<in>set (json_texts (payload title content)). \<exists>x. t = x @ content)"
proof -
  have i: "\<exists>x y. title = x @ title @ y" "\<exists>x. content = x @ content" by (rule exI [of _ "[]"], simp)+
  have d: "\<exists>x y. p @ title @ blank_line @ content = x @ title @ y" "\<exists>x. p @ title @ blank_line @ content = x @ content" for p
    by (rule exI [of _ p], rule exI [of _ "blank_line @ content"], rule refl) (rule exI [of _ "p @ title @ blank_line"], simp)
  from assms consider "payload = dingtalk_payload" | "payload = feishu_payload" | "payload = wecom_payload" | "payload = slack_payload"
    by (auto simp: provider_payload_def Let_def split: if_splits)
  then show ?thesis
  proof cases
    case 1
    then show ?thesis using i d [of "''## ''"] by (simp add: dingtalk_payload_def del: append_Cons)
  next
    case 2
    then show ?thesis using i by (simp add: feishu_payload_def)
  next
    case 3
    then show ?thesis using d [of "''# ''"] by (simp add: wecom_payload_def del: append_Cons)
  next
    case 4
    then show ?thesis using i by (simp add: slack_payload_def)
  qed
qed

lemma Notify_Ok_iff:
  "Notify post n title message = Ok () \<longleftrightarrow>
     (case n of None \<Rightarrow> True
      | Some c \<Rightarrow> \<exists>payload status body. provider_payload (nc_Provider c) = Some payload
          \<and> post (nc_URL c) (payload title (Join message [CHR 0x0A])) = Answered status body \<and> 200 \<le> status \<and> status < 300)"
  by (auto simp: Notify_def sendHTTPRequest_def split: option.splits post_result.splits)

lemma notification_Notify_panics_iff: "notification_Notify post n title message = Panic \<longleftrightarrow> n = None"
  by (auto simp: notification_Notify_def Notify_def sendHTTPRequest_def split: option.splits post_result.splits)

end
