(* ===== verification/ServerProcess.thy ===== *)
theory ServerProcess
  imports Monitor Limiter Notifier
begin

text \<open>
  The server process around the tunnels (\<^verbatim>\<open>internal/server/server.go\<close>, \<^verbatim>\<open>internal/server/admin/admin.go\<close>,
  \<^verbatim>\<open>internal/server/config/pid.go\<close>): how its parts are built from the options, the hot reload of the configuration,
  and the life of the admin console's listener. What the system answers (ports, listeners, the admin
  database, whether the console's connections become idle in time) is the argument \<open>ProcessEnv\<close>.
\<close>

section \<open>State\<close>

text \<open>\<open>GetToken\<close> functions are closures of \<open>CreateGetToken\<close> over the shared reference to the configuration.\<close>

datatype token_source = ConfigToken string

fun call_token ::
    "FileConfig option \<Rightarrow> token_source \<Rightarrow> string \<Rightarrow> string \<Rightarrow> GetTokenOptions option \<Rightarrow> (token_error, TokenResponse) outcome" where
  "call_token ref (ConfigToken version) = CreateGetToken ref version"

record CreateWebSocketOptions =
  wo_Version :: string
  wo_Domain :: string
  wo_Port :: int
  wo_Secure :: bool
  wo_Token :: token_source
  wo_Notification :: notification
  wo_PublicTTL :: int
  wo_PublicWarnLead :: int

record CreateTCPMonitorOptions =
  to_Version :: string
  to_Domain :: string
  to_Port :: int
  to_Token :: token_source

record ServerOptions =
  so_Version :: string
  so_Domain :: string
  so_Port :: int
  so_TCPPort :: int
  so_Secure :: bool
  so_Token :: token_source
  so_Notification :: "NotificationConfig option"
  so_BandwidthLimits :: "ClientBandwidthLimits option"
  so_PublicTTL :: int
  so_PublicWarnLead :: int
  so_ConfigPath :: string
  so_ReloadManager :: bool
  so_Admin :: "ResolvedAdmin option"
  so_PidFile :: string

text \<open>
  The admin server: \<open>as_httpSrv\<close> is \<open>None\<close> before \<open>Start\<close> has set \<open>httpSrv\<close>; after that it tells whether the
  listener is open.
\<close>

record AdminServer =
  as_Resolved :: ResolvedAdmin
  as_ReloadManager :: bool
  as_HTTPPort :: int
  as_TCPPort :: int
  as_Started :: int
  as_httpSrv :: "bool option"

text \<open>
  \<open>ps_ref\<close> is the configuration that \<open>config.Ref\<close> holds, \<open>ps_snapshotLoops\<close> the intervals of the goroutines
  that run \<open>runSnapshotLoop\<close>. Times are nanoseconds, 0 the zero time.
\<close>

record Process =
  ps_ctx :: Context
  ps_ref :: "FileConfig option"
  ps_limiter :: bandwidthLimiter
  ps_wsMonitor :: CreateWebSocketOptions
  ps_tcpMonitor :: CreateTCPMonitorOptions
  ps_notification :: notification
  ps_adminServer :: "AdminServer option"
  ps_startedAt :: int
  ps_options :: ServerOptions
  ps_snapshotLoops :: "int list"
  ps_http :: bool
  ps_tcp :: bool
  ps_files :: files

record ProcessEnv =
  pe_yaml :: Yaml
  pe_services :: "string \<Rightarrow> int option"
  pe_wd :: string
  pe_now :: int
  pe_pid :: nat
  pe_free_port :: "nat \<Rightarrow> int option"
  pe_listen :: "string \<Rightarrow> int \<Rightarrow> bool"
  pe_admin_db :: "string \<Rightarrow> bool"
  pe_idle_in_time :: bool
  pe_http_reachable :: bool
  pe_pid_os :: OsCalls

datatype server_error =
    PortAllocation | TCPMonitor | AdminNotEnabled | DatabasePathRequired | DatabaseFailed | AdminListen string int
  | ShutdownTimeout | AdminSettings config_error | PortNotReachable

type_synonym 'a server_result = "(server_error, 'a) outcome"

section \<open>The process id file\<close>

definition WritePIDFile :: "OsCalls \<Rightarrow> nat \<Rightarrow> string \<Rightarrow> files \<Rightarrow> files \<times> bool" where
  "WritePIDFile os pid path fs =
     (if TrimSpace path = '''' then (fs, True)
      else if path_Dir path \<noteq> ''.'' \<and> path_Dir path \<noteq> '''' \<and> \<not> os_MkdirAll os then (fs, False)
      else
        let content = str_bytes (decimal pid @ [CHR 0x0A]); tmp = path @ ''.tmp'';
            (fs, wrote) = write_file (os_WriteTmp os) tmp content fs in
        if \<not> wrote then (fs, False)
        else if os_Rename os then (fs(path := fs tmp, tmp := None), True) else (fs, False))"

definition RemovePIDFile :: "OsCalls \<Rightarrow> string \<Rightarrow> files \<Rightarrow> files" where
  "RemovePIDFile os path fs = (if TrimSpace path = '''' then fs else remove_file (os_Remove os) path fs)"

definition ReadPIDFile :: "string \<Rightarrow> files \<Rightarrow> int option" where
  "ReadPIDFile path fs =
     (case fs path of None \<Rightarrow> None
      | Some data \<Rightarrow> (case Atoi (TrimSpace (bytes_str data)) of (pid, ok) \<Rightarrow> if ok then Some pid else None))"

text \<open>\<open>SignalReload\<close>: the process that gets a SIGHUP.\<close>

definition SignalReload :: "string \<Rightarrow> files \<Rightarrow> int option" where
  "SignalReload pidFile fs = ReadPIDFile pidFile fs"

section \<open>The admin server\<close>

definition bootstrap_Init :: "ProcessEnv \<Rightarrow> string \<Rightarrow> unit server_result" where
  "bootstrap_Init env dbPath =
     (if dbPath = '''' then Err DatabasePathRequired else if pe_admin_db env dbPath then Ok () else Err DatabaseFailed)"

definition admin_New :: "ProcessEnv \<Rightarrow> ResolvedAdmin option \<Rightarrow> bool \<Rightarrow> int \<Rightarrow> int \<Rightarrow> int \<Rightarrow> AdminServer server_result" where
  "admin_New env resolved reloadManager httpPort tcpPort started =
     (case resolved of None \<Rightarrow> Err AdminNotEnabled
      | Some r \<Rightarrow>
          if \<not> ra_Enabled r then Err AdminNotEnabled
          else obind (bootstrap_Init env (ra_DatabasePath r)) (\<lambda>_.
            Ok \<lparr>as_Resolved = r, as_ReloadManager = reloadManager, as_HTTPPort = httpPort, as_TCPPort = tcpPort,
                as_Started = started, as_httpSrv = None\<rparr>))"

text \<open>\<open>Start\<close>: the server, and the interval of the snapshot loop it starts, if it does.\<close>

definition admin_Start :: "ProcessEnv \<Rightarrow> AdminServer \<Rightarrow> AdminServer \<times> int list \<times> unit server_result" where
  "admin_Start env a =
     (let a = (if as_Started a = 0 then a\<lparr>as_Started := pe_now env\<rparr> else a); r = as_Resolved a in
      if \<not> pe_listen env (ra_Host r) (ra_Port r) then (a, [], Err (AdminListen (ra_Host r) (ra_Port r)))
      else (a\<lparr>as_httpSrv := Some True\<rparr>, (if ra_SnapshotInterval r > 0 then [ra_SnapshotInterval r] else []), Ok ()))"

text \<open>
  \<open>http.Server.Shutdown\<close> closes the listener first and then waits for the connections to become idle; when the
  five seconds are over it returns the error of its context.
\<close>

definition admin_Stop :: "ProcessEnv \<Rightarrow> AdminServer \<Rightarrow> AdminServer \<times> unit server_result" where
  "admin_Stop env a =
     (case as_httpSrv a of None \<Rightarrow> (a, Ok ())
      | Some _ \<Rightarrow> (a\<lparr>as_httpSrv := Some False\<rparr>, if pe_idle_in_time env then Ok () else Err ShutdownTimeout))"

section \<open>Building and starting\<close>

definition port_or_free :: "ProcessEnv \<Rightarrow> nat \<Rightarrow> int \<Rightarrow> int server_result" where
  "port_or_free env k port =
     (if port = 0 then (case pe_free_port env k of None \<Rightarrow> Err PortAllocation | Some p \<Rightarrow> Ok p) else Ok port)"

definition server_New :: "ProcessEnv \<Rightarrow> FileConfig option \<Rightarrow> ServerOptions \<Rightarrow> files \<Rightarrow> Process server_result" where
  "server_New env ref op fs =
     obind (port_or_free env 0 (so_Port op)) (\<lambda>port.
     obind (port_or_free env 1 (so_TCPPort op)) (\<lambda>tcpPort.
       let notification = NewNotification (so_Notification op);
           ws = \<lparr>wo_Version = so_Version op, wo_Domain = so_Domain op, wo_Port = port, wo_Secure = so_Secure op,
                 wo_Token = so_Token op, wo_Notification = notification, wo_PublicTTL = so_PublicTTL op,
                 wo_PublicWarnLead = so_PublicWarnLead op\<rparr>
       in if \<not> pe_listen env ''0.0.0.0'' tcpPort then Err TCPMonitor
          else
            obind (case so_Admin op of
                None \<Rightarrow> Ok None
              | Some r \<Rightarrow> if ra_Enabled r
                  then obind (admin_New env (so_Admin op) (so_ReloadManager op) port tcpPort (pe_now env)) (\<lambda>a. Ok (Some a))
                  else Ok None) (\<lambda>adminSrv.
              Ok \<lparr>ps_ctx = \<lparr>cx_DomainMappings = NewDomainContainer, cx_Callbacks = NewCallbackContainer,
                    cx_Container = NewTunnelContainer, cx_TrafficStats = NewTrafficStatsContainer (pe_now env)\<rparr>,
                  ps_ref = ref, ps_limiter = NewBandwidthLimiter (pe_now env) (so_BandwidthLimits op), ps_wsMonitor = ws,
                  ps_tcpMonitor = \<lparr>to_Version = so_Version op, to_Domain = so_Domain op, to_Port = tcpPort, to_Token = so_Token op\<rparr>,
                  ps_notification = notification, ps_adminServer = adminSrv, ps_startedAt = 0, ps_options = op,
                  ps_snapshotLoops = [], ps_http = False, ps_tcp = True, ps_files = fs\<rparr>)))"

text \<open>\<open>Start\<close> ends with a message to the notifier, whose errors are only logged; a nil \<open>*Notification\<close> panics.\<close>

definition server_Start :: "ProcessEnv \<Rightarrow> Process \<Rightarrow> Process \<times> unit server_result" where
  "server_Start env s =
     (let s = s\<lparr>ps_startedAt := pe_now env\<rparr>;
          (s, started) = (case ps_adminServer s of None \<Rightarrow> (s, Ok ())
            | Some a \<Rightarrow> (case admin_Start env a of (a, loops, r) \<Rightarrow>
                (s\<lparr>ps_adminServer := Some a, ps_snapshotLoops := ps_snapshotLoops s @ loops\<rparr>, r)))
      in case started of
           Ok _ \<Rightarrow>
             let s = (if so_PidFile (ps_options s) = '''' then s
                      else s\<lparr>ps_files := fst (WritePIDFile (pe_pid_os env) (pe_pid env) (so_PidFile (ps_options s)) (ps_files s))\<rparr>)
             in if \<not> pe_http_reachable env then (s, Err PortNotReachable)
                else (s\<lparr>ps_http := True\<rparr>, if ps_notification s = None then Panic else Ok ())
         | Err e \<Rightarrow> (s, Err e) | Panic \<Rightarrow> (s, Panic))"

definition server_Stop :: "ProcessEnv \<Rightarrow> Process \<Rightarrow> Process" where
  "server_Stop env s =
     (let s = s\<lparr>ps_files := RemovePIDFile (pe_pid_os env) (so_PidFile (ps_options s)) (ps_files s)\<rparr>;
          s = (case ps_adminServer s of None \<Rightarrow> s | Some a \<Rightarrow> s\<lparr>ps_adminServer := Some (fst (admin_Stop env a))\<rparr>)
      in s\<lparr>ps_http := False, ps_tcp := False\<rparr>)"

definition SetReloadManager :: "Process \<Rightarrow> Process" where
  "SetReloadManager s =
     s\<lparr>ps_options := (ps_options s)\<lparr>so_ReloadManager := True\<rparr>,
       ps_adminServer := map_option (\<lambda>a. a\<lparr>as_ReloadManager := True\<rparr>) (ps_adminServer s)\<rparr>"

section \<open>Hot reload\<close>

record ApplyOptions =
  ao_GetToken :: token_source
  ao_Notification :: "NotificationConfig option"
  ao_BandwidthLimits :: "ClientBandwidthLimits option"
  ao_PublicTTL :: int
  ao_PublicWarnLead :: int

text \<open>\<open>BuildBandwidthLimits\<close> may write into the document, which the reference shares.\<close>

definition BuildApplyOptions :: "FileConfig \<Rightarrow> token_source \<Rightarrow> FileConfig option \<times> ApplyOptions" where
  "BuildApplyOptions cfg getToken =
     (let (ttl, warn) = ResolvePublicHTTPNoAuthTiming (Some cfg); (cfg', limits) = BuildBandwidthLimits (Some cfg) in
      (cfg', \<lparr>ao_GetToken = getToken, ao_Notification = fc_Notification cfg, ao_BandwidthLimits = limits,
              ao_PublicTTL = ttl, ao_PublicWarnLead = warn\<rparr>))"

definition UpdateConfig :: "ProcessEnv \<Rightarrow> ApplyOptions \<Rightarrow> Process \<Rightarrow> Process \<times> unit server_result" where
  "UpdateConfig env op s =
     (let ws = (ps_wsMonitor s)\<lparr>wo_Token := ao_GetToken op, wo_PublicTTL := ao_PublicTTL op, wo_PublicWarnLead := ao_PublicWarnLead op\<rparr>;
          notification = (case ao_Notification op of None \<Rightarrow> None | Some n \<Rightarrow> NewNotification (Some n));
          s = s\<lparr>ps_wsMonitor := ws\<lparr>wo_Notification := notification\<rparr>, ps_notification := notification\<rparr>
      in case UpdateLimits (pe_now env) (ao_BandwidthLimits op) (ps_limiter s) of
           Ok l \<Rightarrow> (s\<lparr>ps_limiter := l\<rparr>, Ok ()) | _ \<Rightarrow> (s, Panic))"

definition ReconcileAdmin :: "ProcessEnv \<Rightarrow> FileConfig \<Rightarrow> Process \<Rightarrow> Process \<times> unit server_result" where
  "ReconcileAdmin env cfg s =
     (case ResolveAdmin (pe_services env) (pe_wd env) (Some cfg) (so_ConfigPath (ps_options s)) of
        Err e \<Rightarrow> (s, Err (AdminSettings e))
      | Panic \<Rightarrow> (s, Panic)
      | Ok resolved \<Rightarrow>
          (case (case resolved of Some r \<Rightarrow> if ra_Enabled r then Some r else None | None \<Rightarrow> None) of
             None \<Rightarrow>
               (case (case ps_adminServer s of None \<Rightarrow> (s, Ok ())
                  | Some a \<Rightarrow> (case admin_Stop env a of
                      (a, Ok _) \<Rightarrow> (s\<lparr>ps_adminServer := None\<rparr>, Ok ()) | (a, r) \<Rightarrow> (s\<lparr>ps_adminServer := Some a\<rparr>, r))) of
                  (s, Ok _) \<Rightarrow> (s\<lparr>ps_options := (ps_options s)\<lparr>so_Admin := None\<rparr>\<rparr>, Ok ())
                | (s, r) \<Rightarrow> (s, r))
           | Some want \<Rightarrow>
               if ps_adminServer s \<noteq> None \<and> so_Admin (ps_options s) \<noteq> None \<and> SameListen (so_Admin (ps_options s)) (Some want)
               then (s\<lparr>ps_options := (ps_options s)\<lparr>so_Admin := Some want\<rparr>\<rparr>, Ok ())
               else
                 let s = s\<lparr>ps_adminServer := None\<rparr> in
                 (case admin_New env (Some want) (so_ReloadManager (ps_options s)) (so_Port (ps_options s))
                         (so_TCPPort (ps_options s)) (ps_startedAt s) of
                    Ok a \<Rightarrow>
                      (case admin_Start env a of (a, loops, r) \<Rightarrow>
                         (case r of
                            Ok _ \<Rightarrow> (s\<lparr>ps_adminServer := Some a, ps_snapshotLoops := ps_snapshotLoops s @ loops,
                                       ps_options := (ps_options s)\<lparr>so_Admin := Some want\<rparr>\<rparr>, Ok ())
                          | Err e \<Rightarrow> (s, Err e) | Panic \<Rightarrow> (s, Panic)))
                  | Err e \<Rightarrow> (s, Err e) | Panic \<Rightarrow> (s, Panic))))"

text \<open>
  \<open>Manager.Reload\<close> with the function that the server command passes to it: a new token function over the shared
  reference, \<open>UpdateConfig\<close>, then \<open>ReconcileAdmin\<close>.
\<close>

datatype reload_error = NoConfigPath | LoadError config_error | NotValid "ValidationError list" | ApplyError server_error

definition apply_config :: "ProcessEnv \<Rightarrow> string \<Rightarrow> FileConfig \<Rightarrow> Process \<Rightarrow> Process \<times> unit server_result" where
  "apply_config env version cfg s =
     (let (cfg', op) = BuildApplyOptions cfg (ConfigToken version); s = s\<lparr>ps_ref := cfg'\<rparr> in
      case UpdateConfig env op s of
        (s, Ok _) \<Rightarrow> ReconcileAdmin env (case cfg' of Some c \<Rightarrow> c | None \<Rightarrow> cfg) s
      | (s, r) \<Rightarrow> (s, r))"

definition process_Reload :: "ProcessEnv \<Rightarrow> string \<Rightarrow> Process \<Rightarrow> Process \<times> (reload_error, unit) outcome" where
  "process_Reload env version s =
     (let path = so_ConfigPath (ps_options s) in
      if path = '''' then (s, Err NoConfigPath)
      else case Load (pe_yaml env) path (ps_files s) of
        Err e \<Rightarrow> (s, Err (LoadError e)) | Panic \<Rightarrow> (s, Panic)
      | Ok cfg \<Rightarrow>
          (case Validate (pe_services env) (pe_wd env) (Some cfg) of
             Some errs \<Rightarrow> (s, Err (NotValid errs))
           | None \<Rightarrow>
               (case apply_config env version cfg (s\<lparr>ps_ref := Some cfg\<rparr>) of
                  (s, Ok _) \<Rightarrow> (s, Ok ()) | (s, Err e) \<Rightarrow> (s, Err (ApplyError e)) | (s, Panic) \<Rightarrow> (s, Panic))))"

end
