(* ===== verification/ServerCommand.thy ===== *)
theory ServerCommand
  imports ServerProcess
begin

text \<open>
  The commands \<open>inlets server\<close> and \<open>inlets server reload\<close> (\<^verbatim>\<open>cmd/inlets/server.go\<close>,
  \<^verbatim>\<open>internal/server/config/paths.go\<close>): where the configuration is looked for, how flags, environment and file
  are merged, and what the running command does with the signals and file events that it gets.
\<close>

definition ServerVersion :: string where "ServerVersion = ''2.0.0''"

section \<open>The configuration file\<close>

fun ReplaceAll :: "string \<Rightarrow> string \<Rightarrow> string \<Rightarrow> string" where
  "ReplaceAll [] old new = []"
| "ReplaceAll (c # cs) old new =
     (if old \<noteq> [] \<and> HasPrefix (c # cs) old then new @ ReplaceAll (drop (length old - 1) cs) old new
      else c # ReplaceAll cs old new)"

definition SearchPaths :: "string list" where
  "SearchPaths = [''{CWD}/.go-idp/inlets.yaml'', ''{CWD}/.inlets.yaml'', ''{HOME}/.go-idp/inlets/config.yaml'',
     ''{HOME}/.config/inlets.yaml'', ''{HOME}/.config/inlets.yml'', ''/etc/go-idp/inlets/config.yaml'', ''/etc/inlets/config.yaml'']"

fun first_existing :: "string \<Rightarrow> string \<Rightarrow> (string \<Rightarrow> bool) \<Rightarrow> string list \<Rightarrow> string" where
  "first_existing wd home fileExists [] = ''''"
| "first_existing wd home fileExists (template # rest) =
     (if HasPrefix template ''{CWD}'' \<and> wd = '''' \<or> HasPrefix template ''{HOME}'' \<and> home = ''''
      then first_existing wd home fileExists rest
      else
        let path = path_Clean (ReplaceAll (ReplaceAll template ''{CWD}'' wd) ''{HOME}'' home) in
        if fileExists path then path else first_existing wd home fileExists rest)"

definition FindFile :: "string \<Rightarrow> string \<Rightarrow> (string \<Rightarrow> bool) \<Rightarrow> string" where
  "FindFile wd home fileExists = first_existing wd home fileExists SearchPaths"

text \<open>
  The parsed flags. The library fills \<open>--domain\<close>, \<open>--port\<close>, \<open>--tcp-port\<close> and the notification flags from the
  command line, then from their environment variable, then from the default (8080 and 8443 for the ports).
\<close>

record ServerFlags =
  sf_domain :: string
  sf_port :: int
  sf_secure :: "bool option"   \<comment> \<open>\<open>None\<close> when the flag is not set\<close>
  sf_tcp_port :: int
  sf_config :: string
  sf_provider :: string
  sf_url :: string
  sf_env_secure :: string   \<comment> \<open>\<open>INLETS_SECURE\<close>\<close>
  sf_home :: string

definition default_flags :: ServerFlags where
  "default_flags = \<lparr>sf_domain = '''', sf_port = 8080, sf_secure = None, sf_tcp_port = 8443, sf_config = '''', sf_provider = '''',
     sf_url = '''', sf_env_secure = '''', sf_home = ''''\<rparr>"

definition resolveConfigPath :: "ProcessEnv \<Rightarrow> ServerFlags \<Rightarrow> files \<Rightarrow> string" where
  "resolveConfigPath env fl fs =
     (if sf_config fl = '''' then FindFile (pe_wd env) (sf_home fl) (\<lambda>p. fs p \<noteq> None) else sf_config fl)"

section \<open>Merging flags, environment and file\<close>

datatype command_error =
    LoadFailed config_error | Rejected "ValidationError list" | DomainRequired | BadAdmin config_error | CreateFailed server_error
  | ConfigNotFound | SignalFailed

definition merge_port :: "int \<Rightarrow> (FileConfig \<Rightarrow> int) \<Rightarrow> int \<Rightarrow> FileConfig option \<Rightarrow> int" where
  "merge_port flag field fallback cfg =
     (if flag = 0 then (case cfg of Some c \<Rightarrow> if field c > 0 then field c else fallback | None \<Rightarrow> fallback) else flag)"

definition merge_secure :: "ServerFlags \<Rightarrow> FileConfig option \<Rightarrow> bool" where
  "merge_secure fl cfg =
     (case sf_secure fl of Some b \<Rightarrow> b
      | None \<Rightarrow>
          let sec = TrimSpace (sf_env_secure fl) in
          if sec \<noteq> '''' then sec = ''true'' \<or> sec = ''1'' \<or> EqualFold sec ''yes''
          else case cfg of Some c \<Rightarrow> (case fc_Secure c of Some b \<Rightarrow> b | None \<Rightarrow> False) | None \<Rightarrow> False)"

definition merge_notification :: "ServerFlags \<Rightarrow> FileConfig option \<Rightarrow> NotificationConfig option" where
  "merge_notification fl cfg =
     (let file = (case cfg of None \<Rightarrow> None | Some c \<Rightarrow> fc_Notification c);
          provider = (if sf_provider fl = '''' then (case file of Some n \<Rightarrow> nc_Provider n | None \<Rightarrow> '''') else sf_provider fl);
          url = (if sf_url fl = '''' then (case file of Some n \<Rightarrow> nc_URL n | None \<Rightarrow> '''') else sf_url fl)
      in if provider \<noteq> '''' \<and> url \<noteq> '''' then Some \<lparr>nc_Provider = provider, nc_URL = url, nc_Interval = 0, nc_Alert = None\<rparr> else file)"

definition merge_domain :: "ServerFlags \<Rightarrow> FileConfig option \<Rightarrow> string" where
  "merge_domain fl cfg =
     (let d = TrimSpace (sf_domain fl) in
      if d = '''' then (case cfg of Some c \<Rightarrow> TrimSpace (fc_Domain c) | None \<Rightarrow> '''') else d)"

definition pid_file :: "ResolvedAdmin option \<Rightarrow> string \<Rightarrow> string" where
  "pid_file adminResolved configPath =
     (case adminResolved of
        Some r \<Rightarrow> if ra_PidFile r \<noteq> '''' then ra_PidFile r else if configPath \<noteq> '''' then configPath @ ''.pid'' else ''''
      | None \<Rightarrow> if configPath \<noteq> '''' then configPath @ ''.pid'' else '''')"

definition load_config :: "ProcessEnv \<Rightarrow> string \<Rightarrow> files \<Rightarrow> (command_error, FileConfig option) outcome" where
  "load_config env configPath fs =
     (if configPath = '''' then Ok None
      else case Load (pe_yaml env) configPath fs of
        Err e \<Rightarrow> Err (LoadFailed e) | Panic \<Rightarrow> Panic
      | Ok c \<Rightarrow> (case Validate (pe_services env) (pe_wd env) (Some c) of Some errs \<Rightarrow> Err (Rejected errs) | None \<Rightarrow> Ok (Some c)))"

text \<open>The options that \<open>serverRunAction\<close> passes to \<open>server.New\<close>, and the configuration that the reference holds.\<close>

definition server_options ::
    "ProcessEnv \<Rightarrow> ServerFlags \<Rightarrow> files \<Rightarrow> (command_error, FileConfig option \<times> ServerOptions) outcome" where
  "server_options env fl fs =
     (let configPath = resolveConfigPath env fl fs in
      obind (load_config env configPath fs) (\<lambda>cfg.
        if merge_domain fl cfg = '''' then Err DomainRequired
        else
          let (cfg', limits) = BuildBandwidthLimits cfg; (ttl, warn) = ResolvePublicHTTPNoAuthTiming cfg in
          case ResolveAdmin (pe_services env) (pe_wd env) cfg configPath of
            Err e \<Rightarrow> Err (BadAdmin e) | Panic \<Rightarrow> Panic
          | Ok adminResolved \<Rightarrow>
              Ok (cfg', \<lparr>so_Version = ServerVersion, so_Domain = merge_domain fl cfg,
                so_Port = merge_port (sf_port fl) fc_Port 8080 cfg, so_TCPPort = merge_port (sf_tcp_port fl) fc_TCPPort 8443 cfg,
                so_Secure = merge_secure fl cfg, so_Token = ConfigToken ServerVersion, so_Notification = merge_notification fl cfg,
                so_BandwidthLimits = limits, so_PublicTTL = ttl, so_PublicWarnLead = warn, so_ConfigPath = configPath,
                so_ReloadManager = False, so_Admin = adminResolved, so_PidFile = pid_file adminResolved configPath\<rparr>)))"

section \<open>The running command\<close>

text \<open>
  \<open>serverRunAction\<close> up to its loop: the server, with the reload manager attached. \<open>Start\<close> runs in its own
  goroutine and ends the process if it fails.
\<close>

definition create_server :: "ProcessEnv \<Rightarrow> ServerFlags \<Rightarrow> files \<Rightarrow> (command_error, Process) outcome" where
  "create_server env fl fs =
     obind (server_options env fl fs) (\<lambda>(cfg, op).
       case server_New env cfg op fs of Ok s \<Rightarrow> Ok (SetReloadManager s) | Err e \<Rightarrow> Err (CreateFailed e) | Panic \<Rightarrow> Panic)"

datatype server_signal = Started | Hangup | FileWritten | Terminate

datatype running = Running Process | Exited int Process | Crashed Process

text \<open>
  One event: \<open>Start\<close>, a hang-up, the debounced write of the configuration file (\<open>watchConfigFile\<close>, whose timer calls
  \<open>Reload\<close>), or an interrupt. A panic in any of these goroutines ends the process.
\<close>

definition run_signal :: "running \<Rightarrow> ProcessEnv \<times> server_signal \<Rightarrow> running" where
  "run_signal r x =
     (case (r, x) of
        (Running s, (env, Started)) \<Rightarrow>
          (case server_Start env s of (s, Ok _) \<Rightarrow> Running s | (s, Err _) \<Rightarrow> Exited 1 s | (s, Panic) \<Rightarrow> Crashed s)
      | (Running s, (env, Terminate)) \<Rightarrow> Exited 0 (server_Stop env s)
      | (Running s, (env, _)) \<Rightarrow>
          (case process_Reload env ServerVersion s of (s, Panic) \<Rightarrow> Crashed s | (s, _) \<Rightarrow> Running s)
      | _ \<Rightarrow> r)"

text \<open>\<open>serverReloadAction\<close>: the process id that gets the signal.\<close>

definition serverReloadAction :: "ProcessEnv \<Rightarrow> ServerFlags \<Rightarrow> files \<Rightarrow> (command_error, int) outcome" where
  "serverReloadAction env fl fs =
     (let configPath = resolveConfigPath env fl fs in
      if configPath = '''' then Err ConfigNotFound
      else case Load (pe_yaml env) configPath fs of
        Err e \<Rightarrow> Err (LoadFailed e) | Panic \<Rightarrow> Panic
      | Ok cfg \<Rightarrow>
          let pidFile = (if fc_Admin cfg \<noteq> None
            then (case ResolveAdmin (pe_services env) (pe_wd env) (Some cfg) configPath of
                Ok (Some r) \<Rightarrow> if ra_PidFile r \<noteq> '''' then ra_PidFile r else configPath @ ''.pid''
              | _ \<Rightarrow> configPath @ ''.pid'')
            else configPath @ ''.pid'')
          in case SignalReload pidFile fs of None \<Rightarrow> Err SignalFailed | Some pid \<Rightarrow> Ok pid)"

end
