(* ===== verification/ProcessLaws.thy ===== *)
theory ProcessLaws
  imports ServerProcess ConfigLaws
begin

text \<open>What a hot reload does to the running server, when it panics, and how the admin console's listener lives.\<close>

section \<open>The admin console\<close>

lemma admin_New_Ok:
  "admin_New env resolved rm hp tp t = Ok a \<longleftrightarrow>
     (\<exists>r. resolved = Some r \<and> ra_Enabled r \<and> bootstrap_Init env (ra_DatabasePath r) = Ok ()
        \<and> a = \<lparr>as_Resolved = r, as_ReloadManager = rm, as_HTTPPort = hp, as_TCPPort = tp, as_Started = t, as_httpSrv = None\<rparr>)"
  by (cases resolved; cases "bootstrap_Init env (ra_DatabasePath (the resolved))") (auto simp: admin_New_def)

lemma admin_New_not_Panic: "admin_New env resolved rm hp tp t \<noteq> Panic"
  by (auto simp: admin_New_def bootstrap_Init_def split: option.splits if_splits)

lemma admin_Start_cases:
  assumes "admin_Start env a = (a', loops, r)"
  shows "r \<noteq> Panic" "as_Resolved a' = as_Resolved a"
    "r = Ok () \<Longrightarrow> as_httpSrv a' = Some True \<and> loops = (if ra_SnapshotInterval (as_Resolved a) > 0 then [ra_SnapshotInterval (as_Resolved a)] else [])"
  using assms by (auto simp: admin_Start_def Let_def split: if_splits)

text \<open>The console runs with the settings the options hold, or there is none.\<close>

definition admin_ok :: "Process \<Rightarrow> bool" where
  "admin_ok s \<longleftrightarrow>
     (\<forall>a. ps_adminServer s = Some a \<longrightarrow> as_httpSrv a = Some True \<and> SameListen (so_Admin (ps_options s)) (Some (as_Resolved a)))"

definition admin_as_wanted :: "Process \<Rightarrow> ResolvedAdmin option \<Rightarrow> bool" where
  "admin_as_wanted s want \<longleftrightarrow>
     (case want of None \<Rightarrow> ps_adminServer s = None
      | Some r \<Rightarrow> \<exists>a. ps_adminServer s = Some a \<and> as_httpSrv a = Some True \<and> SameListen (Some r) (Some (as_Resolved a)))"

lemma SameListen_sym: "SameListen r r' = SameListen r' r"
  by (auto simp: SameListen_def split: option.splits)

lemma SameListen_trans: "SameListen (Some r) x \<Longrightarrow> SameListen x y \<Longrightarrow> SameListen (Some r) y"
  by (auto simp: SameListen_def split: option.splits)

lemma ResolveAdmin_enabled: "ResolveAdmin services wd cfg path = Ok (Some r) \<Longrightarrow> ra_Enabled r"
  by (auto simp: ResolveAdmin_def outcome_simps Let_def split: option.splits if_splits prod.splits)

lemma ReconcileAdmin_Ok:
  assumes "ReconcileAdmin env cfg s = (s', Ok ())" "admin_ok s"
  shows "\<exists>want. ResolveAdmin (pe_services env) (pe_wd env) (Some cfg) (so_ConfigPath (ps_options s)) = Ok want
    \<and> admin_as_wanted s' want \<and> admin_ok s' \<and> so_Admin (ps_options s') = want"
    "s' = s\<lparr>ps_adminServer := ps_adminServer s', ps_options := (ps_options s)\<lparr>so_Admin := so_Admin (ps_options s')\<rparr>,
            ps_snapshotLoops := ps_snapshotLoops s'\<rparr>"
    "\<exists>new. ps_snapshotLoops s' = ps_snapshotLoops s @ new"
proof -
  let ?ra = "ResolveAdmin (pe_services env) (pe_wd env) (Some cfg) (so_ConfigPath (ps_options s))"
  obtain want where want: "?ra = Ok want" using assms(1) by (cases ?ra) (simp_all add: ReconcileAdmin_def)
  have "(admin_as_wanted s' want \<and> admin_ok s' \<and> so_Admin (ps_options s') = want)
    \<and> s' = s\<lparr>ps_adminServer := ps_adminServer s', ps_options := (ps_options s)\<lparr>so_Admin := so_Admin (ps_options s')\<rparr>,
            ps_snapshotLoops := ps_snapshotLoops s'\<rparr>
    \<and> (\<exists>new. ps_snapshotLoops s' = ps_snapshotLoops s @ new)"
  proof (cases want)
    case None
    with want assms show ?thesis
      by (auto simp: ReconcileAdmin_def admin_as_wanted_def admin_ok_def admin_Stop_def split: option.splits prod.splits outcome.splits if_splits)
  next
    case (Some r)
    have en: "ra_Enabled r" using want Some ResolveAdmin_enabled by blast
    have self: "SameListen (Some r) (Some r)" by (simp add: SameListen_def)
    show ?thesis
    proof (cases "ps_adminServer s \<noteq> None \<and> so_Admin (ps_options s) \<noteq> None \<and> SameListen (so_Admin (ps_options s)) (Some r)")
      case True
      then have s': "s' = s\<lparr>ps_options := (ps_options s)\<lparr>so_Admin := Some r\<rparr>\<rparr>"
        using assms(1) want Some en by (simp add: ReconcileAdmin_def)
      obtain a where a: "ps_adminServer s = Some a" using True by auto
      with assms(2) have "as_httpSrv a = Some True" "SameListen (so_Admin (ps_options s)) (Some (as_Resolved a))"
        by (simp_all add: admin_ok_def)
      then have "SameListen (Some r) (Some (as_Resolved a))"
        using True SameListen_sym SameListen_trans by metis
      with s' a \<open>as_httpSrv a = Some True\<close> Some show ?thesis by (simp add: admin_as_wanted_def admin_ok_def)
    next
      case False
      let ?new = "admin_New env (Some r) (so_ReloadManager (ps_options s)) (so_Port (ps_options s)) (so_TCPPort (ps_options s)) (ps_startedAt s)"
      have "ReconcileAdmin env cfg s = (case ?new of
          Ok a \<Rightarrow> (case admin_Start env a of (a, loops, r') \<Rightarrow>
            (case r' of
               Ok _ \<Rightarrow> (s\<lparr>ps_adminServer := Some a, ps_snapshotLoops := ps_snapshotLoops s @ loops, ps_options := (ps_options s)\<lparr>so_Admin := Some r\<rparr>\<rparr>, Ok ())
             | Err e \<Rightarrow> (s\<lparr>ps_adminServer := None\<rparr>, Err e) | Panic \<Rightarrow> (s\<lparr>ps_adminServer := None\<rparr>, Panic)))
        | Err e \<Rightarrow> (s\<lparr>ps_adminServer := None\<rparr>, Err e) | Panic \<Rightarrow> (s\<lparr>ps_adminServer := None\<rparr>, Panic))"
        unfolding ReconcileAdmin_def want Some outcome.case option.case if_P [OF en] if_not_P [OF False] Let_def
        by (simp split: outcome.split prod.split)
      note eqn = this [unfolded assms(1)]
      then obtain a where a: "?new = Ok a" by (cases ?new) simp_all
      obtain a' loops q where st: "admin_Start env a = (a', loops, q)" by (cases "admin_Start env a") auto
      have q: "q = Ok ()" and s': "s' = s\<lparr>ps_adminServer := Some a', ps_snapshotLoops := ps_snapshotLoops s @ loops,
            ps_options := (ps_options s)\<lparr>so_Admin := Some r\<rparr>\<rparr>"
        using eqn a st by (auto split: outcome.splits)
      have "as_Resolved a' = r" "as_httpSrv a' = Some True"
        using admin_Start_cases(2,3) [OF st] q a by (auto simp: admin_New_Ok)
      with s' Some self show ?thesis by (simp add: admin_as_wanted_def admin_ok_def)
    qed
  qed
  with want show "\<exists>want. ?ra = Ok want \<and> admin_as_wanted s' want \<and> admin_ok s' \<and> so_Admin (ps_options s') = want"
    "s' = s\<lparr>ps_adminServer := ps_adminServer s', ps_options := (ps_options s)\<lparr>so_Admin := so_Admin (ps_options s')\<rparr>,
            ps_snapshotLoops := ps_snapshotLoops s'\<rparr>"
    "\<exists>new. ps_snapshotLoops s' = ps_snapshotLoops s @ new" by blast+
qed

lemma ReconcileAdmin_not_Panic: "snd (ReconcileAdmin env cfg s) \<noteq> Panic"
proof -
  have "ResolveAdmin (pe_services env) (pe_wd env) (Some cfg) (so_ConfigPath (ps_options s)) \<noteq> Panic" by (rule ResolveAdmin_no_panic)
  then show ?thesis
    by (auto simp: ReconcileAdmin_def admin_Stop_def admin_New_not_Panic Let_def
        dest: admin_Start_cases(1) split: outcome.splits option.splits prod.splits if_splits)
qed

section \<open>Reloading\<close>

lemma UpdateConfig_fields:
  assumes "UpdateConfig env op s = (s', r)"
  shows "ps_adminServer s' = ps_adminServer s" "ps_options s' = ps_options s" "ps_ref s' = ps_ref s"
    "ps_tcpMonitor s' = ps_tcpMonitor s" "ps_files s' = ps_files s" "ps_startedAt s' = ps_startedAt s" "ps_snapshotLoops s' = ps_snapshotLoops s"
    "ps_notification s' = map_option Some (ao_Notification op)"
    "ps_wsMonitor s' = (ps_wsMonitor s)\<lparr>wo_Token := ao_GetToken op, wo_PublicTTL := ao_PublicTTL op,
        wo_PublicWarnLead := ao_PublicWarnLead op, wo_Notification := map_option Some (ao_Notification op)\<rparr>"
    "r = Ok () \<Longrightarrow> UpdateLimits (pe_now env) (ao_BandwidthLimits op) (ps_limiter s) = Ok (ps_limiter s')"
    "r = Panic \<longleftrightarrow> UpdateLimits (pe_now env) (ao_BandwidthLimits op) (ps_limiter s) = Panic" "r = Ok () \<or> r = Panic"
  using assms by (auto simp: UpdateConfig_def Let_def UpdateLimits_def split: option.splits if_splits)

lemma BuildBandwidthLimits_Some:
  "\<exists>c limits. BuildBandwidthLimits (Some cfg) = (Some c, limits) \<and> fc_Admin c = fc_Admin cfg \<and> fc_Notification c = fc_Notification cfg"
  by (auto simp: BuildBandwidthLimits_def Let_def split: option.splits)

lemma ResolveAdmin_cong: "fc_Admin c = fc_Admin cfg \<Longrightarrow> ResolveAdmin services wd (Some c) path = ResolveAdmin services wd (Some cfg) path"
  by (simp add: ResolveAdmin_def)


text \<open>A hot reload panics exactly when the file holds an accepted document with a client whose bandwidth limit is
  null: nothing checks for it before the limiter reads through the pointer. The reload of the file watcher and of
  the signal handler has nobody to recover, so the server process ends.\<close>

theorem reload_panics_iff:
  "snd (process_Reload env version s) = Panic \<longleftrightarrow>
     (\<exists>cfg limits. so_ConfigPath (ps_options s) \<noteq> '''' \<and> Load (pe_yaml env) (so_ConfigPath (ps_options s)) (ps_files s) = Ok cfg
        \<and> Validate (pe_services env) (pe_wd env) (Some cfg) = None
        \<and> snd (BuildBandwidthLimits (Some cfg)) = Some limits \<and> None \<in> snd ` set (ByClientId limits))"
proof -
  have load: "Load (pe_yaml env) path fs \<noteq> Panic" for path fs by (auto simp: Load_def split: option.splits)
  have limits: "UpdateLimits now l bl = Panic \<longleftrightarrow> (\<exists>limits. l = Some limits \<and> None \<in> snd ` set (ByClientId limits))" for now l bl
    by (cases l) (auto simp: UpdateLimits_def no_limits_def list_ex_iff image_iff Let_def, force+)
  have ap: "snd (apply_config env version cfg s) = Panic \<longleftrightarrow>
      (\<exists>limits. snd (BuildBandwidthLimits (Some cfg)) = Some limits \<and> None \<in> snd ` set (ByClientId limits))" for cfg s
  proof -
    obtain c l where b: "BuildBandwidthLimits (Some cfg) = (Some c, l)" using BuildBandwidthLimits_Some by blast
    obtain ttl warn where t: "ResolvePublicHTTPNoAuthTiming (Some cfg) = (ttl, warn)" by force
    let ?op = "\<lparr>ao_GetToken = ConfigToken version, ao_Notification = fc_Notification cfg, ao_BandwidthLimits = l, ao_PublicTTL = ttl, ao_PublicWarnLead = warn\<rparr>"
    obtain s1 r1 where u: "UpdateConfig env ?op (s\<lparr>ps_ref := Some c\<rparr>) = (s1, r1)" by force
    have "apply_config env version cfg s = (case r1 of Ok _ \<Rightarrow> ReconcileAdmin env c s1 | _ \<Rightarrow> (s1, r1))"
      by (simp add: apply_config_def BuildApplyOptions_def t b u split: outcome.split)
    with UpdateConfig_fields(11,12) [OF u] ReconcileAdmin_not_Panic [of env c s1] limits [of "pe_now env" l] b
    show ?thesis by (cases r1) auto
  qed
  let ?path = "so_ConfigPath (ps_options s)"
  show ?thesis
  proof (cases "Load (pe_yaml env) ?path (ps_files s)")
    case (Ok cfg)
    then have p: "?path \<noteq> []" by (auto simp: Load_def split: if_splits)
    show ?thesis
    proof (cases "Validate (pe_services env) (pe_wd env) (Some cfg)")
      case None
      have "snd (process_Reload env version s) = Panic \<longleftrightarrow> snd (apply_config env version cfg (s\<lparr>ps_ref := Some cfg\<rparr>)) = Panic"
        using p Ok None by (simp add: process_Reload_def Let_def split: prod.split outcome.split)
      with ap p Ok None show ?thesis by simp
    qed (use p Ok in \<open>simp add: process_Reload_def Let_def\<close>)
  qed (use load in \<open>simp_all add: process_Reload_def Let_def\<close>)
qed

end
