(* ===== verification/CommandLaws.thy ===== *)
theory CommandLaws
  imports ServerCommand ProcessLaws TunnelSpecs
begin

text \<open>
  The server command: the process id file finds the server, a running server never works with a rejected document,
  and the console that is switched off through itself stays dead.
\<close>

section \<open>The process id file\<close>

lemma written_pid_is_read:
  assumes "WritePIDFile os pid path fs = (fs', True)" "TrimSpace path \<noteq> ''''" "int pid \<le> max_int"
  shows "ReadPIDFile path fs' = Some (int pid)" "p \<noteq> path \<Longrightarrow> p \<noteq> path @ ''.tmp'' \<Longrightarrow> fs' p = fs p"
proof -
  have "TrimSpace (decimal pid @ [CHR 0x0A]) = decimal pid"
  proof -
    obtain c cs where c: "decimal pid = c # cs" "is_digit c" using decimal_digits [of pid] by (cases "decimal pid") auto
    have d: "is_digit (last (decimal pid))" using decimal_digits [of pid] c by (metis last_in_set list.discI list_all_iff)
    have "trim_left (decimal pid @ [CHR 0x0A]) = decimal pid @ [CHR 0x0A]"
      using c digit_no_space by (simp add: trim_left_def)
    moreover have "trim_left (CHR 0x0A # rev (decimal pid)) = rev (decimal pid)"
    proof -
      obtain x xs where r: "rev (decimal pid) = x # xs" using c(1) by (cases "rev (decimal pid)") auto
      then have "is_digit x" using d by (metis hd_rev list.sel(1) last_rev)
      with r digit_no_space [of x] show ?thesis by (auto simp: trim_left_def is_space_def)
    qed
    ultimately show ?thesis by (simp add: TrimSpace_def)
  qed
  with assms show "ReadPIDFile path fs' = Some (int pid)" "p \<noteq> path \<Longrightarrow> p \<noteq> path @ ''.tmp'' \<Longrightarrow> fs' p = fs p"
    by (auto simp: WritePIDFile_def ReadPIDFile_def write_file_def Let_def Atoi_decimal split: if_splits write_outcome.splits)
qed

lemma create_server_Ok:
  assumes "create_server env fl fs = Ok s"
  shows "\<exists>cfg want. load_config env (resolveConfigPath env fl fs) fs = Ok cfg
    \<and> ResolveAdmin (pe_services env) (pe_wd env) cfg (resolveConfigPath env fl fs) = Ok want
    \<and> ps_ref s = fst (BuildBandwidthLimits cfg) \<and> ps_files s = fs
    \<and> so_ConfigPath (ps_options s) = resolveConfigPath env fl fs
    \<and> so_PidFile (ps_options s) = pid_file want (resolveConfigPath env fl fs) \<and> so_Admin (ps_options s) = want
    \<and> wo_Token (ps_wsMonitor s) = ConfigToken ServerVersion \<and> to_Token (ps_tcpMonitor s) = ConfigToken ServerVersion
    \<and> wo_Domain (ps_wsMonitor s) = merge_domain fl cfg \<and> merge_domain fl cfg \<noteq> ''''
    \<and> (merge_port (sf_port fl) fc_Port 8080 cfg \<noteq> 0 \<longrightarrow> wo_Port (ps_wsMonitor s) = merge_port (sf_port fl) fc_Port 8080 cfg)
    \<and> (merge_port (sf_tcp_port fl) fc_TCPPort 8443 cfg \<noteq> 0 \<longrightarrow> to_Port (ps_tcpMonitor s) = merge_port (sf_tcp_port fl) fc_TCPPort 8443 cfg)
    \<and> (case ps_adminServer s of None \<Rightarrow> want = None
       | Some a \<Rightarrow> want = Some (as_Resolved a) \<and> as_httpSrv a = None \<and> as_ReloadManager a)
    \<and> ps_snapshotLoops s = []"
proof -
  let ?path = "resolveConfigPath env fl fs"
  obtain cfg op where so: "server_options env fl fs = Ok (cfg, op)"
    using assms by (cases "server_options env fl fs") (auto simp: create_server_def)
  obtain s0 where n: "server_New env cfg op fs = Ok s0" and s: "s = SetReloadManager s0"
    using assms so by (auto simp: create_server_def split: outcome.splits)
  obtain doc where doc: "load_config env ?path fs = Ok doc" using so
    by (cases "load_config env ?path fs") (auto simp: server_options_def Let_def)
  obtain c' limits ttl warn where b: "BuildBandwidthLimits doc = (c', limits)" "ResolvePublicHTTPNoAuthTiming doc = (ttl, warn)" by force
  have dom: "merge_domain fl doc \<noteq> ''''" using so doc by (auto simp: server_options_def Let_def)
  obtain want where want: "ResolveAdmin (pe_services env) (pe_wd env) doc ?path = Ok want"
    using so doc dom b ResolveAdmin_no_panic [of "pe_services env" "pe_wd env" doc ?path]
    by (cases "ResolveAdmin (pe_services env) (pe_wd env) doc ?path") (auto simp: server_options_def Let_def)
  have op: "cfg = c'" "op = \<lparr>so_Version = ServerVersion, so_Domain = merge_domain fl doc,
      so_Port = merge_port (sf_port fl) fc_Port 8080 doc, so_TCPPort = merge_port (sf_tcp_port fl) fc_TCPPort 8443 doc,
      so_Secure = merge_secure fl doc, so_Token = ConfigToken ServerVersion, so_Notification = merge_notification fl doc,
      so_BandwidthLimits = limits, so_PublicTTL = ttl, so_PublicWarnLead = warn, so_ConfigPath = ?path,
      so_ReloadManager = False, so_Admin = want, so_PidFile = pid_file want ?path\<rparr>"
    using so doc dom b want by (simp_all add: server_options_def Let_def)
  from n obtain port tcpPort adm where p: "port_or_free env 0 (so_Port op) = Ok port" "port_or_free env 1 (so_TCPPort op) = Ok tcpPort"
    and a: "(case so_Admin op of None \<Rightarrow> Ok None
              | Some r \<Rightarrow> if ra_Enabled r
                  then obind (admin_New env (so_Admin op) (so_ReloadManager op) port tcpPort (pe_now env)) (\<lambda>a. Ok (Some a))
                  else Ok None) = (Ok adm :: AdminServer option server_result)"
    and s0: "ps_ref s0 = cfg" "ps_files s0 = fs" "ps_options s0 = op" "ps_adminServer s0 = adm" "ps_snapshotLoops s0 = []"
      "wo_Token (ps_wsMonitor s0) = so_Token op" "to_Token (ps_tcpMonitor s0) = so_Token op" "wo_Domain (ps_wsMonitor s0) = so_Domain op"
      "wo_Port (ps_wsMonitor s0) = port" "to_Port (ps_tcpMonitor s0) = tcpPort"
    by (auto simp: server_New_def Let_def obind_Ok_iff split: if_splits)
  have "case adm of None \<Rightarrow> want = None | Some a \<Rightarrow> want = Some (as_Resolved a) \<and> as_httpSrv a = None"
    using a op(2) want ResolveAdmin_enabled by (cases want) (auto simp: obind_Ok_iff admin_New_Ok)
  with doc want b op s0 p dom show ?thesis
    by (auto simp: s SetReloadManager_def port_or_free_def split: option.splits if_splits)
qed

text \<open>The reload command finds the running server: with the configuration file that the server was started with, and as
  long as that file has not changed, it signals the process that wrote the process id file, wherever the
  document puts that file.\<close>

theorem reload_command_signals_the_server:
  assumes "create_server env fl fs = Ok s" "server_Start env s = (s', Ok ())"
    and "WritePIDFile (pe_pid_os env) (pe_pid env) (so_PidFile (ps_options s)) fs = (fs', True)"
    and "TrimSpace (so_PidFile (ps_options s)) \<noteq> ''''" "int (pe_pid env) \<le> max_int"
    and "so_ConfigPath (ps_options s) \<notin> {so_PidFile (ps_options s), so_PidFile (ps_options s) @ ''.tmp''}"
    and "sf_config fl' = so_ConfigPath (ps_options s)" "sf_config fl' \<noteq> ''''"
  shows "serverReloadAction env fl' (ps_files s') = Ok (int (pe_pid env))"
proof -
  let ?path = "so_ConfigPath (ps_options s)" and ?pid = "so_PidFile (ps_options s)"
  from create_server_Ok [OF assms(1)] obtain cfg want where c: "load_config env ?path fs = Ok cfg"
    "ResolveAdmin (pe_services env) (pe_wd env) cfg ?path = Ok want" "ps_files s = fs" "?pid = pid_file want ?path" by metis
  have path: "?path \<noteq> ''''" using assms(7,8) by simp
  obtain doc where doc: "cfg = Some doc" "Load (pe_yaml env) ?path fs = Ok doc"
    using c(1) path by (auto simp: load_config_def split: outcome.splits option.splits)
  have "ps_files s' = fs'"
  proof -
    have "?pid \<noteq> ''''" using assms(4) by (auto simp: TrimSpace_def trim_left_def)
    with assms(2,3) c(3) show ?thesis
      by (auto simp: server_Start_def Let_def split: option.splits prod.splits outcome.splits if_splits)
  qed
  moreover have "Load (pe_yaml env) ?path fs' = Ok doc"
    using doc(2) written_pid_is_read(2) [OF assms(3-5), of ?path] assms(6) path by (simp add: Load_def split: if_splits)
  moreover have "?pid = (if fc_Admin doc \<noteq> None
      then (case ResolveAdmin (pe_services env) (pe_wd env) (Some doc) ?path of
          Ok (Some r) \<Rightarrow> if ra_PidFile r \<noteq> '''' then ra_PidFile r else ?path @ ''.pid'' | _ \<Rightarrow> ?path @ ''.pid'')
      else ?path @ ''.pid'')"
    using c(2,4) doc(1) path by (auto simp: pid_file_def ResolveAdmin_def split: option.splits)
  ultimately show ?thesis
    using written_pid_is_read(1) [OF assms(3-5)] assms(7) path
    by (simp add: serverReloadAction_def Let_def resolveConfigPath_def SignalReload_def del: if_split)
qed

section \<open>A running server\<close>

lemma ReconcileAdmin_keeps:
  assumes "ReconcileAdmin env cfg s = (s', r)"
  shows "ps_ref s' = ps_ref s" "ps_wsMonitor s' = ps_wsMonitor s" "ps_tcpMonitor s' = ps_tcpMonitor s" "ps_files s' = ps_files s"
    "pe_idle_in_time env \<Longrightarrow> admin_ok s \<Longrightarrow> admin_ok s'"
proof -
  have "ps_ref s' = ps_ref s \<and> ps_wsMonitor s' = ps_wsMonitor s \<and> ps_tcpMonitor s' = ps_tcpMonitor s \<and> ps_files s' = ps_files s
    \<and> (r \<noteq> Ok () \<longrightarrow> pe_idle_in_time env \<longrightarrow> s' = s \<or> ps_adminServer s' = None)"
    using assms by (auto simp: ReconcileAdmin_def admin_Stop_def Let_def split: outcome.splits option.splits prod.splits if_splits)
  moreover from this have "pe_idle_in_time env \<Longrightarrow> admin_ok s \<Longrightarrow> admin_ok s'"
    using ReconcileAdmin_Ok(1) [of env cfg s s'] assms by (cases "r = Ok ()") (auto simp: admin_ok_def)
  ultimately show "ps_ref s' = ps_ref s" "ps_wsMonitor s' = ps_wsMonitor s" "ps_tcpMonitor s' = ps_tcpMonitor s" "ps_files s' = ps_files s"
    "pe_idle_in_time env \<Longrightarrow> admin_ok s \<Longrightarrow> admin_ok s'" by blast+
qed

definition same_server :: "Process \<Rightarrow> Process \<Rightarrow> bool" where
  "same_server s s' \<longleftrightarrow>
     wo_Domain (ps_wsMonitor s') = wo_Domain (ps_wsMonitor s) \<and> wo_Port (ps_wsMonitor s') = wo_Port (ps_wsMonitor s)
     \<and> wo_Token (ps_wsMonitor s') = wo_Token (ps_wsMonitor s) \<and> ps_tcpMonitor s' = ps_tcpMonitor s"

lemma process_Reload_keeps:
  assumes "process_Reload env ServerVersion s = (s', r)" "wo_Token (ps_wsMonitor s) = ConfigToken ServerVersion"
  shows "same_server s s'" "pe_idle_in_time env \<Longrightarrow> admin_ok s \<Longrightarrow> admin_ok s'"
    "ps_ref s' = ps_ref s \<or> (\<exists>cfg. Validate (pe_services env) (pe_wd env) (Some cfg) = None \<and> ps_ref s' = fst (BuildBandwidthLimits (Some cfg)))"
proof -
  let ?goal = "same_server s s' \<and> (pe_idle_in_time env \<longrightarrow> admin_ok s \<longrightarrow> admin_ok s')
    \<and> (ps_ref s' = ps_ref s \<or> (\<exists>cfg. Validate (pe_services env) (pe_wd env) (Some cfg) = None \<and> ps_ref s' = fst (BuildBandwidthLimits (Some cfg))))"
  have ?goal
  proof (cases "\<exists>cfg. so_ConfigPath (ps_options s) \<noteq> [] \<and> Load (pe_yaml env) (so_ConfigPath (ps_options s)) (ps_files s) = Ok cfg
      \<and> Validate (pe_services env) (pe_wd env) (Some cfg) = None")
    case False
    then have "s' = s" using assms(1) by (auto simp: process_Reload_def Let_def split: outcome.splits option.splits if_splits)
    then show ?thesis by (simp add: same_server_def)
  next
    case True
    then obtain cfg where cfg: "so_ConfigPath (ps_options s) \<noteq> []" "Load (pe_yaml env) (so_ConfigPath (ps_options s)) (ps_files s) = Ok cfg"
      "Validate (pe_services env) (pe_wd env) (Some cfg) = None" by blast
    obtain c l where b: "BuildBandwidthLimits (Some cfg) = (Some c, l)" using BuildBandwidthLimits_Some by blast
    obtain ttl warn where t: "ResolvePublicHTTPNoAuthTiming (Some cfg) = (ttl, warn)" by force
    let ?op = "\<lparr>ao_GetToken = ConfigToken ServerVersion, ao_Notification = fc_Notification cfg, ao_BandwidthLimits = l, ao_PublicTTL = ttl, ao_PublicWarnLead = warn\<rparr>"
    obtain s1 r1 where u: "UpdateConfig env ?op (s\<lparr>ps_ref := Some c\<rparr>) = (s1, r1)" by force
    note f = UpdateConfig_fields [OF u]
    have ap: "apply_config env ServerVersion cfg (s\<lparr>ps_ref := Some cfg\<rparr>) = (case r1 of Ok _ \<Rightarrow> ReconcileAdmin env c s1 | _ \<Rightarrow> (s1, r1))"
      by (simp add: apply_config_def BuildApplyOptions_def t b u split: outcome.split)
    have "s' = fst (case r1 of Ok _ \<Rightarrow> ReconcileAdmin env c s1 | _ \<Rightarrow> (s1, r1))"
      using assms(1) cfg unfolding process_Reload_def Let_def by (auto simp: ap split: outcome.splits prod.splits)
    moreover obtain s2 r2 where rc: "ReconcileAdmin env c s1 = (s2, r2)" by force
    ultimately have "s' = s2 \<or> s' = s1" using f(12) by auto
    moreover have "same_server s s1" "admin_ok s \<Longrightarrow> admin_ok s1" "ps_ref s1 = Some c"
      using f assms(2) by (simp_all add: same_server_def admin_ok_def)
    moreover have "same_server s1 s2" using ReconcileAdmin_keeps [OF rc] by (simp add: same_server_def)
    ultimately show ?thesis using ReconcileAdmin_keeps [OF rc] b cfg(3) by (auto simp: same_server_def intro!: exI [of _ cfg])
  qed
  then show "same_server s s'" "pe_idle_in_time env \<Longrightarrow> admin_ok s \<Longrightarrow> admin_ok s'"
    "ps_ref s' = ps_ref s \<or> (\<exists>cfg. Validate (pe_services env) (pe_wd env) (Some cfg) = None \<and> ps_ref s' = fst (BuildBandwidthLimits (Some cfg)))"
    by blast+
qed

lemma running_server:
  assumes "create_server env fl fs = Ok s" "server_Start env s = (s1, Ok ())"
    and "foldl run_signal (Running s1) xs = Running s'" "\<forall>(e, x)\<in>set xs. pe_idle_in_time e \<and> x \<noteq> Started"
  shows "admin_ok s'" "same_server s s'"
    "call_token (ps_ref s') (wo_Token (ps_wsMonitor s')) = CreateGetToken (ps_ref s') ServerVersion"
    "call_token (ps_ref s') (to_Token (ps_tcpMonitor s')) = CreateGetToken (ps_ref s') ServerVersion"
    "ps_ref s' = ps_ref s \<or> (\<exists>e\<in>fst ` set xs. \<exists>cfg. Validate (pe_services e) (pe_wd e) (Some cfg) = None \<and> ps_ref s' = fst (BuildBandwidthLimits (Some cfg)))"
proof -
  from create_server_Ok [OF assms(1)] obtain want where c: "so_Admin (ps_options s) = want"
    "wo_Token (ps_wsMonitor s) = ConfigToken ServerVersion" "to_Token (ps_tcpMonitor s) = ConfigToken ServerVersion"
    "case ps_adminServer s of None \<Rightarrow> want = None | Some a \<Rightarrow> want = Some (as_Resolved a) \<and> as_httpSrv a = None \<and> as_ReloadManager a" by blast
  have s1: "admin_ok s1" "same_server s s1" "ps_ref s1 = ps_ref s"
  proof -
    have "same_server s s1 \<and> ps_ref s1 = ps_ref s \<and> admin_ok s1"
    proof (cases "ps_adminServer s")
      case None
      with assms(2) show ?thesis by (auto simp: server_Start_def Let_def admin_ok_def same_server_def split: if_splits)
    next
      case (Some a)
      obtain a' loops r where st: "admin_Start env a = (a', loops, r)" by (cases "admin_Start env a") auto
      with assms(2) Some have r: "r = Ok ()" by (auto simp: server_Start_def Let_def split: outcome.splits)
      note ac = admin_Start_cases [OF st]
      from r ac(3) have "as_httpSrv a' = Some True" by simp
      moreover have "SameListen (so_Admin (ps_options s)) (Some (as_Resolved a'))" using c(1,4) Some ac(2) by (simp add: SameListen_def)
      ultimately show ?thesis using assms(2) Some st r by (auto simp: server_Start_def Let_def admin_ok_def same_server_def split: if_splits)
    qed
    then show "admin_ok s1" "same_server s s1" "ps_ref s1 = ps_ref s" by blast+
  qed
  have stuck: "foldl run_signal r xs = r" if "\<forall>t. r \<noteq> Running t" for r xs
    using that by (induction xs) (auto simp: run_signal_def split: running.splits)
  have "admin_ok s' \<and> same_server s s' \<and> (ps_ref s' = ps_ref s \<or> (\<exists>e\<in>fst ` set xs. \<exists>cfg. Validate (pe_services e) (pe_wd e) (Some cfg) = None
      \<and> ps_ref s' = fst (BuildBandwidthLimits (Some cfg))))"
    using assms(3,4)
  proof (induction xs arbitrary: s' rule: rev_induct)
    case Nil
    then show ?case using s1 by simp
  next
    case (snoc y ys)
    obtain e x where y: "y = (e, x)" by force
    obtain t where t: "foldl run_signal (Running s1) ys = Running t"
      using snoc.prems(1) stuck [of _ "[y]"] by (cases "foldl run_signal (Running s1) ys") auto
    from snoc.IH [OF t] snoc.prems(2) have ih: "admin_ok t" "same_server s t" "ps_ref t = ps_ref s \<or> (\<exists>e\<in>fst ` set ys. \<exists>cfg.
      Validate (pe_services e) (pe_wd e) (Some cfg) = None \<and> ps_ref t = fst (BuildBandwidthLimits (Some cfg)))" by auto
    have idle: "pe_idle_in_time e" "x \<noteq> Started" using snoc.prems(2) y by auto
    have step: "run_signal (Running t) (e, x) = Running s'" using snoc.prems(1) t y by simp
    obtain r where rl: "process_Reload e ServerVersion t = (s', r)"
      using step idle(2) by (cases x) (auto simp: run_signal_def split: prod.splits outcome.splits)
    have tok: "wo_Token (ps_wsMonitor t) = ConfigToken ServerVersion" using ih(2) c(2) by (simp add: same_server_def)
    note k = process_Reload_keeps [OF rl tok]
    have "same_server s s'" using ih(2) k(1) by (simp add: same_server_def)
    moreover define S where "S = fst ` set ys"
    then have "fst ` set (ys @ [y]) = insert e S" using y by simp
    ultimately show ?case
      using k(2) [OF idle(1) ih(1)] k(3) ih(3) [folded S_def] by (elim disjE) (simp_all only: bex_simps(5), auto)
  qed
  then show ok: "admin_ok s'" "same_server s s'"
    "ps_ref s' = ps_ref s \<or> (\<exists>e\<in>fst ` set xs. \<exists>cfg. Validate (pe_services e) (pe_wd e) (Some cfg) = None \<and> ps_ref s' = fst (BuildBandwidthLimits (Some cfg)))"
    by blast+
  show "call_token (ps_ref s') (wo_Token (ps_wsMonitor s')) = CreateGetToken (ps_ref s') ServerVersion"
    "call_token (ps_ref s') (to_Token (ps_tcpMonitor s')) = CreateGetToken (ps_ref s') ServerVersion"
    using ok(2) c(2,3) by (simp_all add: same_server_def)
qed

text \<open>C23: Whatever reloads it gets, by signal or by writes to its file, successful or not, a server that keeps running
  works with the document it was started with or with one that validation has accepted; its monitor and its
  TCP channel ask the same document for secrets; its domain and ports stay; and if it has a console, the
  console listens where the settings in force say. (The connections of the console are idle when it is stopped.)\<close>

theorem running_server_is_consistent:
  assumes "create_server env fl fs = Ok s" "server_Start env s = (s1, Ok ())"
    and "foldl run_signal (Running s1) xs = Running s'" "\<forall>(e, x)\<in>set xs. pe_idle_in_time e \<and> x \<noteq> Started"
  shows "admin_ok s' \<and> same_server s s'
    \<and> call_token (ps_ref s') (wo_Token (ps_wsMonitor s')) = CreateGetToken (ps_ref s') ServerVersion
    \<and> call_token (ps_ref s') (to_Token (ps_tcpMonitor s')) = CreateGetToken (ps_ref s') ServerVersion
    \<and> (ps_ref s' = ps_ref s \<or> (\<exists>e\<in>fst ` set xs. \<exists>cfg. Validate (pe_services e) (pe_wd e) (Some cfg) = None
          \<and> ps_ref s' = fst (BuildBandwidthLimits (Some cfg))))"
  using running_server [OF assms] by blast

section \<open>The console switched off through itself\<close>

definition console_listens :: "Process \<Rightarrow> bool" where
  "console_listens s \<longleftrightarrow> (\<exists>a. ps_adminServer s = Some a \<and> as_httpSrv a = Some True)"

lemma console_disabled:
  assumes "console_listens s" "so_Admin (ps_options s) = Some r" "\<not> pe_idle_in_time env"
    and "snd (process_Reload env version s) \<noteq> Panic" "so_ConfigPath (ps_options s) = path" "path \<noteq> ''''"
    and "Load (pe_yaml env) path (ps_files s) = Ok cfg" "Validate (pe_services env) (pe_wd env) (Some cfg) = None"
    and "ResolveAdmin (pe_services env) (pe_wd env) (Some cfg) path = Ok None"
  shows "snd (process_Reload env version s) = Err (ApplyError ShutdownTimeout)"
    "\<not> console_listens (fst (process_Reload env version s))"
    "process_Reload env' version ((fst (process_Reload env version s))\<lparr>ps_files := fs'\<rparr>) = (s2, Ok ()) \<Longrightarrow>
     Load (pe_yaml env') path fs' = Ok cfg' \<Longrightarrow> ResolveAdmin (pe_services env') (pe_wd env') (Some cfg') path = Ok (Some r') \<Longrightarrow>
     SameListen (Some r) (Some r') \<Longrightarrow> \<not> console_listens s2"
proof -
  have split: "process_Reload e version t = (case UpdateConfig e op (t\<lparr>ps_ref := Some c\<rparr>) of
      (s1, Ok _) \<Rightarrow> (case ReconcileAdmin e c s1 of (s2, Ok _) \<Rightarrow> (s2, Ok ()) | (s2, Err e) \<Rightarrow> (s2, Err (ApplyError e)) | (s2, Panic) \<Rightarrow> (s2, Panic))
    | (s1, Err e) \<Rightarrow> (s1, Err (ApplyError e)) | (s1, Panic) \<Rightarrow> (s1, Panic))"
    if "BuildApplyOptions doc (ConfigToken version) = (Some c, op)" "so_ConfigPath (ps_options t) = path"
      "Load (pe_yaml e) path (ps_files t) = Ok doc" "Validate (pe_services e) (pe_wd e) (Some doc) = None" for e t doc c op
    using that assms(6) by (auto simp: process_Reload_def apply_config_def Let_def split: prod.splits outcome.splits)
  have opts: "\<exists>c op. BuildApplyOptions doc (ConfigToken version) = (Some c, op) \<and> fc_Admin c = fc_Admin doc" for doc
    using BuildBandwidthLimits_Some [of doc] by (auto simp: BuildApplyOptions_def split: prod.splits)
  obtain a where a: "ps_adminServer s = Some a" "as_httpSrv a = Some True" using assms(1) by (auto simp: console_listens_def)
  obtain c op where op: "BuildApplyOptions cfg (ConfigToken version) = (Some c, op)" "fc_Admin c = fc_Admin cfg" using opts by blast
  obtain s1 r1 where u: "UpdateConfig env op (s\<lparr>ps_ref := Some c\<rparr>) = (s1, r1)" by force
  note f = UpdateConfig_fields [OF u]
  have r1: "r1 = Ok ()" using assms(4) f(12) split [OF op(1) assms(5,7,8)] by (auto simp: u)
  let ?s2 = "s1\<lparr>ps_adminServer := Some (a\<lparr>as_httpSrv := Some False\<rparr>)\<rparr>"
  have "ReconcileAdmin env c s1 = (?s2, Err ShutdownTimeout)"
    using assms(3,5,9) ResolveAdmin_cong [OF op(2)] f(1,2) a by (simp add: ReconcileAdmin_def admin_Stop_def)
  then have rl: "process_Reload env version s = (?s2, Err (ApplyError ShutdownTimeout))"
    using split [OF op(1) assms(5,7,8)] by (simp add: u r1)
  then show "snd (process_Reload env version s) = Err (ApplyError ShutdownTimeout)"
    "\<not> console_listens (fst (process_Reload env version s))" by (simp_all add: console_listens_def)
  assume again: "process_Reload env' version ((fst (process_Reload env version s))\<lparr>ps_files := fs'\<rparr>) = (s2, Ok ())"
    "Load (pe_yaml env') path fs' = Ok cfg'" "ResolveAdmin (pe_services env') (pe_wd env') (Some cfg') path = Ok (Some r')"
    "SameListen (Some r) (Some r')"
  let ?t = "?s2\<lparr>ps_files := fs'\<rparr>"
  have t: "so_ConfigPath (ps_options ?t) = path" "ps_files ?t = fs'" using f(2) assms(5) by simp_all
  have valid: "Validate (pe_services env') (pe_wd env') (Some cfg') = None"
    using again(1) [unfolded rl fst_conv] again(2) t assms(6)
    unfolding process_Reload_def [of env' version ?t] Let_def t by (auto split: option.splits)
  obtain c' op' where op': "BuildApplyOptions cfg' (ConfigToken version) = (Some c', op')" "fc_Admin c' = fc_Admin cfg'" using opts by blast
  obtain s3 r3 where u': "UpdateConfig env' op' (?t\<lparr>ps_ref := Some c'\<rparr>) = (s3, r3)" by force
  note f' = UpdateConfig_fields [OF u']
  have "ReconcileAdmin env' c' s3 = (s3\<lparr>ps_options := (ps_options s3)\<lparr>so_Admin := Some r'\<rparr>\<rparr>, Ok ())"
    using again(3,4) ResolveAdmin_cong [OF op'(2)] ResolveAdmin_enabled [OF again(3)] f'(1,2) f(2) assms(2,5)
    by (simp add: ReconcileAdmin_def)
  with again(1) split [OF op'(1) t(1) _ valid] again(2) t(2) u' f'(12) have "s2 = s3\<lparr>ps_options := (ps_options s3)\<lparr>so_Admin := Some r'\<rparr>\<rparr>"
    by (auto simp: rl)
  then show "\<not> console_listens s2" using f'(1) by (simp add: console_listens_def)
qed

text \<open>C25: A document that disables the console, saved through the console, is answered with an error: stopping the server
  waits for the request that asked for it. The listener is closed all the same, but the settings in force
  still name it, so a later document that enables the console again at the same address is applied without an
  error and without a listener.\<close>

theorem console_disabled_through_itself:
  assumes "console_listens s" "so_Admin (ps_options s) = Some r" "\<not> pe_idle_in_time env"
    and "snd (process_Reload env version s) \<noteq> Panic" "so_ConfigPath (ps_options s) = path" "path \<noteq> ''''"
    and "Load (pe_yaml env) path (ps_files s) = Ok cfg" "Validate (pe_services env) (pe_wd env) (Some cfg) = None"
    and "ResolveAdmin (pe_services env) (pe_wd env) (Some cfg) path = Ok None"
  shows "snd (process_Reload env version s) = Err (ApplyError ShutdownTimeout)
    \<and> \<not> console_listens (fst (process_Reload env version s))
    \<and> (\<forall>env' fs' cfg' r' s2.
         process_Reload env' version ((fst (process_Reload env version s))\<lparr>ps_files := fs'\<rparr>) = (s2, Ok ())
         \<and> Load (pe_yaml env') path fs' = Ok cfg'
         \<and> ResolveAdmin (pe_services env') (pe_wd env') (Some cfg') path = Ok (Some r') \<and> SameListen (Some r) (Some r')
         \<longrightarrow> \<not> console_listens s2)"
  using console_disabled [OF assms] by blast

end
