(* ===== verification/ProcessSamples.thy ===== *)
theory ProcessSamples
  imports CommandLaws
begin

text \<open>A concrete server with two documents, one with a console and one without: the laws of the process applied to it.\<close>

definition console_config :: FileConfig where
  "console_config = sample_config\<lparr>fc_Admin := Some \<lparr>ad_Enabled = True, ad_Listen = ''127.0.0.1:9090'', ad_DatabasePath = '''',
     ad_PidFile = '''', ad_SnapshotInterval = '''', ad_UIBasePath = ''''\<rparr>\<rparr>"

definition two_documents :: Yaml where
  "two_documents = \<lparr>yaml_Marshal = (\<lambda>c. None),
     yaml_Unmarshal = (\<lambda>d. if d = [1] then Some console_config else if d = [2] then Some sample_config else None)\<rparr>"

definition sample_process_env :: ProcessEnv where
  "sample_process_env = \<lparr>pe_yaml = two_documents, pe_services = (\<lambda>s. None), pe_wd = ''/'', pe_now = 5, pe_pid = 42,
     pe_free_port = (\<lambda>k. None), pe_listen = (\<lambda>h p. True), pe_admin_db = (\<lambda>p. True), pe_idle_in_time = True,
     pe_http_reachable = True, pe_pid_os = good_os\<rparr>"

definition busy_env :: ProcessEnv where "busy_env = sample_process_env\<lparr>pe_idle_in_time := False\<rparr>"

definition sample_flags :: ServerFlags where "sample_flags = default_flags\<lparr>sf_config := ''/c.yaml''\<rparr>"

definition sample_files :: files where "sample_files = [''/c.yaml'' \<mapsto> [1]]"

definition get_Ok :: "('e, 'a) outcome \<Rightarrow> 'a" where "get_Ok r = (case r of Ok x \<Rightarrow> x)"

definition created :: Process where "created = get_Ok (create_server sample_process_env sample_flags sample_files)"
definition serving :: Process where "serving = fst (server_Start sample_process_env created)"

text \<open>What these runs evaluate to, in one go.\<close>

lemma sample_runs:
  "is_Ok (create_server sample_process_env sample_flags sample_files)
   \<and> snd (server_Start sample_process_env created) = Ok ()
   \<and> so_PidFile (ps_options created) = ''/c.yaml.pid'' \<and> so_ConfigPath (ps_options created) = ''/c.yaml''
   \<and> TrimSpace ''/c.yaml.pid'' \<noteq> []
   \<and> (case foldl run_signal (Running serving) [(sample_process_env, Hangup), (sample_process_env, FileWritten)] of Running _ \<Rightarrow> True | _ \<Rightarrow> False)
   \<and> (case ps_adminServer serving of
        Some a \<Rightarrow> as_httpSrv a = Some True \<and> SameListen (so_Admin (ps_options serving)) (Some (as_Resolved a)) | None \<Rightarrow> False)
   \<and> snd (process_Reload sample_process_env ServerVersion serving) = Ok ()
   \<and> so_Admin (ps_options serving) \<noteq> None \<and> so_ConfigPath (ps_options serving) = ''/c.yaml''
   \<and> snd (process_Reload busy_env ServerVersion (serving\<lparr>ps_files := [''/c.yaml'' \<mapsto> [2]]\<rparr>)) \<noteq> Panic"
  by code_simp

lemma created_Ok: "create_server sample_process_env sample_flags sample_files = Ok created"
  using sample_runs by (auto simp: created_def get_Ok_def is_Ok_iff)

lemma serving_Ok: "server_Start sample_process_env created = (serving, Ok ())"
  using sample_runs by (simp add: serving_def prod_eq_iff)

lemma reload_command_signals_the_server_witness:
  "serverReloadAction sample_process_env sample_flags (ps_files serving) = Ok 42"
proof -
  have pid: "so_PidFile (ps_options created) = ''/c.yaml.pid''" "so_ConfigPath (ps_options created) = ''/c.yaml''" using sample_runs by blast+
  have os: "pe_pid_os sample_process_env = good_os" "pe_pid sample_process_env = 42" by (simp_all add: sample_process_env_def)
  have w: "WritePIDFile (pe_pid_os sample_process_env) (pe_pid sample_process_env) (so_PidFile (ps_options created)) sample_files
      = (fst (WritePIDFile good_os 42 ''/c.yaml.pid'' sample_files), True)"
    unfolding pid os by (simp add: prod_eq_iff WritePIDFile_def write_file_def good_os_def Let_def)
  have "TrimSpace (so_PidFile (ps_options created)) \<noteq> ''''" unfolding pid using sample_runs by blast
  from reload_command_signals_the_server [OF created_Ok serving_Ok w this, of sample_flags] show ?thesis
    by (simp add: pid os max_int_def sample_flags_def)
qed

lemma running_server_is_consistent_witness:
  "\<exists>s'. foldl run_signal (Running serving) [(sample_process_env, Hangup), (sample_process_env, FileWritten)] = Running s' \<and> admin_ok s'"
proof -
  let ?xs = "[(sample_process_env, Hangup), (sample_process_env, FileWritten)]"
  have "case foldl run_signal (Running serving) ?xs of Running _ \<Rightarrow> True | _ \<Rightarrow> False" using sample_runs by blast
  then obtain s' where "foldl run_signal (Running serving) ?xs = Running s'"
    by (cases "foldl run_signal (Running serving) ?xs") auto
  with running_server_is_consistent [OF created_Ok serving_Ok this] show ?thesis by (simp add: sample_process_env_def)
qed

lemma serving_admin: "case ps_adminServer serving of Some a \<Rightarrow> as_httpSrv a = Some True \<and> SameListen (so_Admin (ps_options serving)) (Some (as_Resolved a)) | None \<Rightarrow> False"
  using sample_runs by blast


definition disabling :: Process where "disabling = serving\<lparr>ps_files := [''/c.yaml'' \<mapsto> [2]]\<rparr>"

lemma console_disabled_through_itself_witness:
  "snd (process_Reload busy_env ServerVersion disabling) = Err (ApplyError ShutdownTimeout)
   \<and> \<not> console_listens (fst (process_Reload busy_env ServerVersion disabling))"
proof -
  have up: "console_listens disabling" using serving_admin by (auto simp: console_listens_def disabling_def split: option.splits)
  obtain r where r: "so_Admin (ps_options disabling) = Some r" using sample_runs by (auto simp: disabling_def)
  have np: "snd (process_Reload busy_env ServerVersion disabling) \<noteq> Panic" unfolding disabling_def using sample_runs by blast
  have path: "so_ConfigPath (ps_options disabling) = ''/c.yaml''" using sample_runs by (simp add: disabling_def)
  have load: "Load (pe_yaml busy_env) ''/c.yaml'' (ps_files disabling) = Ok sample_config"
    by (simp add: Load_def busy_env_def sample_process_env_def two_documents_def disabling_def)
  have valid: "Validate (pe_services busy_env) (pe_wd busy_env) (Some sample_config) = None"
    using sample_config_valid by (simp add: busy_env_def sample_process_env_def)
  have none: "ResolveAdmin (pe_services busy_env) (pe_wd busy_env) (Some sample_config) ''/c.yaml'' = Ok None"
    by (simp add: ResolveAdmin_def sample_config_def)
  have busy: "\<not> pe_idle_in_time busy_env" by (simp add: busy_env_def)
  from console_disabled_through_itself [OF up r busy np path _ load valid none] show ?thesis by simp
qed

end
