(* ===== verification/AdminService.thy ===== *)
theory AdminService
  imports ServerProcess AdminDiff
begin

text \<open>
  The services and handlers of the admin console (\<^verbatim>\<open>internal/server/admin/service/\<close>, \<^verbatim>\<open>internal/server/admin/handler/\<close>):
  saving and restoring the configuration with its history, the audit log, the views of the running server, and
  the answers of the API. The database library is a parameter, the record \<open>Gorm\<close>; its documented laws are the
  predicate \<open>gorm_ok\<close>.
\<close>

section \<open>The tables\<close>

record ConfigRevision =
  cr_ID :: nat
  cr_CreatedAt :: int
  cr_Actor :: string
  cr_ClientIP :: string
  cr_Summary :: string
  cr_YAML :: string
  cr_BytesSize :: nat

record AuditLog =
  al_ID :: nat
  al_Action :: string
  al_Summary :: string
  al_Actor :: string
  al_ClientIP :: string
  al_Diff :: string
  al_CreatedAt :: int

record MetricSnapshot =
  ms_UploadBytes :: i64
  ms_DownloadBytes :: i64
  ms_Requests :: i64
  ms_Connections :: i64
  ms_SessionCount :: nat

record 'db Gorm =
  db_create_revision :: "ConfigRevision \<Rightarrow> 'db \<Rightarrow> 'db \<times> nat option"
  db_recent_revisions :: "int \<Rightarrow> 'db \<Rightarrow> ConfigRevision list option"
  db_revision :: "nat \<Rightarrow> 'db \<Rightarrow> ConfigRevision option"
  db_count_revisions :: "'db \<Rightarrow> nat option"
  db_oldest_revisions :: "nat \<Rightarrow> 'db \<Rightarrow> nat list option"
  db_delete_revisions :: "nat list \<Rightarrow> 'db \<Rightarrow> 'db"
  db_create_audit :: "AuditLog \<Rightarrow> 'db \<Rightarrow> 'db \<times> bool"
  db_recent_audits :: "int \<Rightarrow> 'db \<Rightarrow> AuditLog list option"
  db_create_snapshot :: "MetricSnapshot \<Rightarrow> 'db \<Rightarrow> 'db \<times> bool"
  db_recent_snapshots :: "int \<Rightarrow> 'db \<Rightarrow> MetricSnapshot list option"

text \<open>
  The laws: rows are kept in the order of their creation and get fresh ids; a failed creation changes nothing; a query by
  id finds the row; counting, picking the oldest and deleting do what they say; the tables are separate.
\<close>

definition gorm_ok :: "'db Gorm \<Rightarrow> ('db \<Rightarrow> ConfigRevision list) \<Rightarrow> ('db \<Rightarrow> AuditLog list) \<Rightarrow> bool" where
  "gorm_ok g revs audits \<longleftrightarrow>
     (\<forall>d. distinct (map cr_ID (revs d)))
     \<and> (\<forall>r d d' i. db_create_revision g r d = (d', Some i) \<longrightarrow>
          (\<exists>t. revs d' = revs d @ [r\<lparr>cr_ID := i, cr_CreatedAt := t\<rparr>]) \<and> audits d' = audits d)
     \<and> (\<forall>r d d'. db_create_revision g r d = (d', None) \<longrightarrow> revs d' = revs d \<and> audits d' = audits d)
     \<and> (\<forall>i d. db_revision g i d = find (\<lambda>r. cr_ID r = i) (revs d))
     \<and> (\<forall>d n. db_count_revisions g d = Some n \<longrightarrow> n = length (revs d))
     \<and> (\<forall>k d ids. db_oldest_revisions g k d = Some ids \<longrightarrow> ids = map cr_ID (take k (revs d)))
     \<and> (\<forall>ids d. revs (db_delete_revisions g ids d) = filter (\<lambda>r. cr_ID r \<notin> set ids) (revs d) \<and> audits (db_delete_revisions g ids d) = audits d)
     \<and> (\<forall>a d d' ok. db_create_audit g a d = (d', ok) \<longrightarrow>
          revs d' = revs d \<and> (if ok then \<exists>i t. audits d' = audits d @ [a\<lparr>al_ID := i, al_CreatedAt := t\<rparr>] else audits d' = audits d))
     \<and> (\<forall>m d. revs (fst (db_create_snapshot g m d)) = revs d \<and> audits (fst (db_create_snapshot g m d)) = audits d)"

record 'db Console =
  co_process :: Process
  co_db :: 'db

section \<open>Revisions and audit\<close>

definition maxRevisions :: nat where "maxRevisions = 200"

datatype admin_error =
    RevisionNotSaved | RevisionNotFound | NotWritten save_error | NotReloaded reload_error | NoReloadManager | DatabaseError
  | InvalidBody | YamlRequired | InvalidRevisionId | NotLoaded config_error

type_synonym ('db, 'a) admin_result = "'db Console \<times> (admin_error, 'a) outcome"

text \<open>\<open>RevisionService.Save\<close>; its \<open>cleanup\<close> runs in a goroutine of its own and is a step of its own here.\<close>

definition revision_Save :: "'db Gorm \<Rightarrow> string \<Rightarrow> string \<Rightarrow> string \<Rightarrow> string \<Rightarrow> 'db Console \<Rightarrow> ('db, nat) admin_result" where
  "revision_Save g yamlText summary actor clientIP c =
     (case db_create_revision g \<lparr>cr_ID = 0, cr_CreatedAt = 0, cr_Actor = actor, cr_ClientIP = clientIP, cr_Summary = summary,
             cr_YAML = yamlText, cr_BytesSize = length yamlText\<rparr> (co_db c) of
        (d, None) \<Rightarrow> (c\<lparr>co_db := d\<rparr>, Err RevisionNotSaved)
      | (d, Some i) \<Rightarrow> (c\<lparr>co_db := d\<rparr>, Ok i))"

definition clamp_limit :: "int \<Rightarrow> int" where
  "clamp_limit limit = (let limit = (if limit \<le> 0 then 50 else limit) in if limit > 200 then 200 else limit)"

definition revision_List :: "'db Gorm \<Rightarrow> int \<Rightarrow> 'db Console \<Rightarrow> ConfigRevision list option" where
  "revision_List g limit c = db_recent_revisions g (clamp_limit limit) (co_db c)"

definition revision_cleanup :: "'db Gorm \<Rightarrow> 'db Console \<Rightarrow> 'db Console" where
  "revision_cleanup g c =
     (case db_count_revisions g (co_db c) of None \<Rightarrow> c
      | Some count \<Rightarrow>
          if count \<le> maxRevisions then c
          else case db_oldest_revisions g (count - maxRevisions) (co_db c) of
            None \<Rightarrow> c
          | Some ids \<Rightarrow> if ids \<noteq> [] then c\<lparr>co_db := db_delete_revisions g ids (co_db c)\<rparr> else c)"

definition audit_Record :: "'db Gorm \<Rightarrow> string \<Rightarrow> string \<Rightarrow> string \<Rightarrow> string \<Rightarrow> string \<Rightarrow> 'db Console \<Rightarrow> 'db Console" where
  "audit_Record g act summary actor clientIP diff c =
     c\<lparr>co_db := fst (db_create_audit g \<lparr>al_ID = 0, al_Action = act, al_Summary = summary, al_Actor = actor, al_ClientIP = clientIP,
         al_Diff = diff, al_CreatedAt = 0\<rparr> (co_db c))\<rparr>"

definition audit_List :: "'db Gorm \<Rightarrow> int \<Rightarrow> 'db Console \<Rightarrow> AuditLog list option" where
  "audit_List g limit c = db_recent_audits g (clamp_limit limit) (co_db c)"

section \<open>Saving and restoring the configuration\<close>

record SaveRawInput =
  si_Raw :: string
  si_Summary :: string
  si_Actor :: string
  si_ClientIP :: string

text \<open>The file calls of the save are \<open>os\<close>; \<open>reload\<close> tells whether the service has a reload manager.\<close>

definition console_path :: "'db Console \<Rightarrow> string" where
  "console_path c = so_ConfigPath (ps_options (co_process c))"

definition LoadRaw :: "string \<Rightarrow> files \<Rightarrow> byte list option" where
  "LoadRaw path fs = (if path = '''' then None else fs path)"

definition write_and_reload ::
    "ProcessEnv \<Rightarrow> OsCalls \<Rightarrow> string \<Rightarrow> bool \<Rightarrow> string \<Rightarrow> 'r \<Rightarrow> 'db Console \<Rightarrow> ('db, 'r) admin_result" where
  "write_and_reload env os version reload raw result c =
     (case SaveRawAtomic (pe_yaml env) (pe_services env) (pe_wd env) os (console_path c) (str_bytes raw) (ps_files (co_process c)) of
        (fs, r) \<Rightarrow>
          let c = c\<lparr>co_process := (co_process c)\<lparr>ps_files := fs\<rparr>\<rparr> in
          (case r of
             Err e \<Rightarrow> (c, Err (NotWritten e)) | Panic \<Rightarrow> (c, Panic)
           | Ok _ \<Rightarrow>
               if \<not> reload then (c, Ok result)
               else case process_Reload env version (co_process c) of
                 (p, Ok _) \<Rightarrow> (c\<lparr>co_process := p\<rparr>, Ok result)
               | (p, Err e) \<Rightarrow> (c\<lparr>co_process := p\<rparr>, Err (NotReloaded e))
               | (p, Panic) \<Rightarrow> (c\<lparr>co_process := p\<rparr>, Panic)))"

definition old_text :: "'db Console \<Rightarrow> string" where
  "old_text c = (case LoadRaw (console_path c) (ps_files (co_process c)) of Some bs \<Rightarrow> bytes_str bs | None \<Rightarrow> '''')"

definition SaveRaw ::
    "'db Gorm \<Rightarrow> ProcessEnv \<Rightarrow> OsCalls \<Rightarrow> string \<Rightarrow> bool \<Rightarrow> SaveRawInput \<Rightarrow> 'db Console \<Rightarrow> ('db, nat \<times> string) admin_result" where
  "SaveRaw g env os version reload i c =
     (let diff = UnifiedDiff (old_text c) (si_Raw i) in
      case revision_Save g (si_Raw i) (si_Summary i) (si_Actor i) (si_ClientIP i) c of
        (c, Ok rv) \<Rightarrow> write_and_reload env os version reload (si_Raw i) (rv, diff) c
      | (c, Err e) \<Rightarrow> (c, Err e) | (c, Panic) \<Rightarrow> (c, Panic))"

definition Restore ::
    "'db Gorm \<Rightarrow> ProcessEnv \<Rightarrow> OsCalls \<Rightarrow> string \<Rightarrow> bool \<Rightarrow> nat \<Rightarrow> SaveRawInput \<Rightarrow> 'db Console \<Rightarrow> ('db, nat \<times> string) admin_result" where
  "Restore g env os version reload revID i c =
     (case db_revision g revID (co_db c) of
        None \<Rightarrow> (c, Err RevisionNotFound)
      | Some rv \<Rightarrow>
          let summary = (if si_Summary i = '''' then ''restored from #'' @ decimal revID else si_Summary i);
              diff = UnifiedDiff (old_text c) (cr_YAML rv) in
          (case revision_Save g (cr_YAML rv) summary (si_Actor i) (si_ClientIP i) c of
             (c, Ok created) \<Rightarrow> write_and_reload env os version reload (cr_YAML rv) (created, diff) c
           | (c, Err e) \<Rightarrow> (c, Err e) | (c, Panic) \<Rightarrow> (c, Panic)))"

definition maskConfigSecrets :: "FileConfig \<Rightarrow> FileConfig" where
  "maskConfigSecrets cfg =
     cfg\<lparr>fc_Token := (if fc_Token cfg \<noteq> '''' then ''***'' else fc_Token cfg),
         fc_Clients := map (\<lambda>k. if cc_ClientSecret k \<noteq> '''' then k\<lparr>cc_ClientSecret := ''***''\<rparr> else k) (fc_Clients cfg)\<rparr>"

definition Document :: "ProcessEnv \<Rightarrow> bool \<Rightarrow> 'db Console \<Rightarrow> (config_error, FileConfig) outcome" where
  "Document env maskSecrets c =
     (case Load (pe_yaml env) (console_path c) (ps_files (co_process c)) of
        Ok cfg \<Rightarrow> Ok (if maskSecrets then maskConfigSecrets cfg else cfg) | Err e \<Rightarrow> Err e | Panic \<Rightarrow> Panic)"

section \<open>Views of the running server\<close>

record SessionView =
  vw_ContainerID :: string
  vw_ClientID :: string
  vw_Type :: string
  vw_AuthType :: string
  vw_Version :: string
  vw_PublicEntry :: string
  vw_SourcePort :: "int option"
  vw_UseNewProtocol :: bool
  vw_ConfigIndex :: "int option"
  vw_ConfigMatch :: string
  vw_MatchIssues :: "string list"

fun find_match :: "nat \<Rightarrow> ClientConfig list \<Rightarrow> string \<Rightarrow> (nat \<times> string list \<times> string) option" where
  "find_match i [] clientId = None"
| "find_match i (k # ks) clientId =
     (if cc_ClientID k \<noteq> clientId then find_match (i + 1) ks clientId
      else if TrimSpace (cc_ClientSecret k) = '''' then Some (i, [''client secret in YAML is empty''], ''partial'')
      else Some (i, [], ''exact''))"

text \<open>\<open>quoted\<close> is the \<open>%q\<close> form of a string.\<close>

definition findClientMatch :: "(string \<Rightarrow> string) \<Rightarrow> FileConfig option \<Rightarrow> TunnelMapping \<Rightarrow> int \<times> string list \<times> string" where
  "findClientMatch quoted cfg tm =
     (case cfg of None \<Rightarrow> (-1, [], ''missing'')
      | Some k \<Rightarrow>
          if tm_ClientId tm = '''' \<or> HasPrefix (tm_ClientId tm) ''anonymous''
          then (-1, [''anonymous client id (no credential auth)''], ''missing'')
          else case find_match 0 (fc_Clients k) (tm_ClientId tm) of
            Some (i, issues, status) \<Rightarrow> (int i, issues, status)
          | None \<Rightarrow> (-1, [''client id '' @ quoted (tm_ClientId tm) @ '' not in YAML''], ''missing''))"

definition url_scheme :: "bool \<Rightarrow> string" where "url_scheme secure = (if secure then ''https'' else ''http'')"

definition publicEntry :: "bool \<Rightarrow> string \<Rightarrow> TunnelMapping \<Rightarrow> string" where
  "publicEntry secure domain tm =
     (if tm_Type tm = ''http'' then url_scheme secure @ ''://*.'' @ domain
      else case tm_SourcePort tm of Some p \<Rightarrow> ''0.0.0.0:'' @ int_text p | None \<Rightarrow> '''')"

text \<open>
  One session; Go ranges over the maps in any order, so when several names are bound to a container the one that
  counts is \<open>sub_of\<close>, any of them.
\<close>

definition session_view ::
    "(string \<Rightarrow> string) \<Rightarrow> bool \<Rightarrow> string \<Rightarrow> FileConfig option \<Rightarrow> (string \<Rightarrow> string option) \<Rightarrow> string \<Rightarrow> TunnelMapping \<Rightarrow> SessionView" where
  "session_view quoted secure domain cfg sub_of cid tm =
     (let (idx, issues, status) = findClientMatch quoted cfg tm in
      \<lparr>vw_ContainerID = cid, vw_ClientID = tm_ClientId tm, vw_Type = tm_Type tm, vw_AuthType = tm_AuthType tm, vw_Version = tm_Version tm,
       vw_PublicEntry = (case sub_of cid of Some sub \<Rightarrow> url_scheme secure @ ''://'' @ sub @ ''.'' @ domain | None \<Rightarrow> publicEntry secure domain tm),
       vw_SourcePort = tm_SourcePort tm, vw_UseNewProtocol = tm_UseNewProtocol tm,
       vw_ConfigIndex = (if cfg = None then None else Some idx), vw_ConfigMatch = status,
       vw_MatchIssues = (if cfg = None then [] else issues)\<rparr>)"

definition bound_name :: "domains \<Rightarrow> (string \<Rightarrow> string option) \<Rightarrow> bool" where
  "bound_name hosts sub_of \<longleftrightarrow>
     (\<forall>cid. case sub_of cid of
        Some sub \<Rightarrow> cid \<noteq> '''' \<and> (\<exists>dm. hosts sub = Some dm \<and> dm_ContainerID dm = cid)
      | None \<Rightarrow> cid = '''' \<or> (\<forall>sub dm. hosts sub = Some dm \<longrightarrow> dm_ContainerID dm \<noteq> cid))"

definition Sessions ::
    "(string \<Rightarrow> string) \<Rightarrow> (string \<Rightarrow> string option) \<Rightarrow> Process \<Rightarrow> string \<Rightarrow> SessionView option" where
  "Sessions quoted sub_of p cid =
     map_option (session_view quoted (so_Secure (ps_options p)) (so_Domain (ps_options p))
       (if so_ReloadManager (ps_options p) then ps_ref p else None) sub_of cid) (tunnel_ListAll (cx_Container (ps_ctx p)) cid)"

definition Domains :: "Process \<Rightarrow> string \<Rightarrow> (string \<times> string) option" where
  "Domains p sub = map_option (\<lambda>dm. (sub, dm_ClientID dm)) (domain_GetAll (cx_DomainMappings (ps_ctx p)) sub)"

definition stats_row :: "TrafficStats \<Rightarrow> i64 \<times> i64 \<times> i64 \<times> i64" where
  "stats_row g = (s_UploadBytes g, s_DownloadBytes g, s_Requests g, s_Connections g)"

definition StatsGlobal :: "Process \<Rightarrow> (i64 \<times> i64 \<times> i64 \<times> i64) option" where
  "StatsGlobal p = (case GetStats '''' (cx_TrafficStats (ps_ctx p)) of AllStats d \<Rightarrow> Some (stats_row (sd_Global d)) | _ \<Rightarrow> None)"

definition StatsByClient :: "Process \<Rightarrow> string \<Rightarrow> (i64 \<times> i64 \<times> i64 \<times> i64) option" where
  "StatsByClient p cid =
     (case GetStats '''' (cx_TrafficStats (ps_ctx p)) of AllStats d \<Rightarrow> map_option stats_row (sd_ByClientId d cid) | _ \<Rightarrow> None)"

definition RecordSnapshot :: "'db Gorm \<Rightarrow> nat \<Rightarrow> 'db Console \<Rightarrow> 'db Console \<times> bool" where
  "RecordSnapshot g sessions c =
     (case GetStats '''' (cx_TrafficStats (ps_ctx (co_process c))) of
        AllStats d \<Rightarrow>
          (case db_create_snapshot g \<lparr>ms_UploadBytes = s_UploadBytes (sd_Global d), ms_DownloadBytes = s_DownloadBytes (sd_Global d),
                  ms_Requests = s_Requests (sd_Global d), ms_Connections = s_Connections (sd_Global d), ms_SessionCount = sessions\<rparr> (co_db c) of
             (d, ok) \<Rightarrow> (c\<lparr>co_db := d\<rparr>, ok))
      | _ \<Rightarrow> (c, True))"

definition ShortContainerID :: "string \<Rightarrow> string" where
  "ShortContainerID cid =
     (let s = TrimSpace cid in
      if length s \<le> 12 then s
      else take 4 s @ map char_of [226, 128, 166 :: nat] @ drop (length s - 4) s)"

section \<open>The API\<close>

text \<open>
  A request: what \<open>BindJSON\<close> makes of its body (the fields \<open>yaml\<close> and \<open>summary\<close>), what is left of the body to read after
  that, the query, and where it comes from. The answers are a status and either data or an error.
\<close>

record ApiRequest =
  rq_Bound :: "(string \<times> string) option"
  rq_Rest :: "string option"
  rq_Query :: "string \<Rightarrow> string"
  rq_Param :: string
  rq_Header :: "string \<Rightarrow> string"
  rq_ClientIP :: string

datatype api_answer =
    ApiSaved nat | ApiValid "ValidationError list" | ApiParseError | ApiReloaded | ApiDocument FileConfig | ApiRaw string
  | ApiRevisions "ConfigRevision list" | ApiRevision ConfigRevision | ApiAudit "AuditLog list" | ApiHistory "MetricSnapshot list"
  | ApiFail int admin_error

fun first_header :: "(string \<Rightarrow> string) \<Rightarrow> string list \<Rightarrow> string" where
  "first_header h [] = ''gateway''"
| "first_header h (n # ns) = (if TrimSpace (h n) \<noteq> '''' then TrimSpace (h n) else first_header h ns)"

definition actorFromRequest :: "ApiRequest \<Rightarrow> string" where
  "actorFromRequest r = first_header (rq_Header r) [''X-Forwarded-User'', ''X-Auth-Request-User'', ''X-User'']"

definition config_body :: "ApiRequest \<Rightarrow> (admin_error, string \<times> string) outcome" where
  "config_body r =
     obind (case rq_Bound r of
         Some b \<Rightarrow> Ok b
       | None \<Rightarrow> (case rq_Rest r of Some raw \<Rightarrow> if raw = '''' then Err InvalidBody else Ok (raw, '''') | None \<Rightarrow> Err InvalidBody))
       (\<lambda>(yaml, summary). if yaml = '''' then Err YamlRequired else Ok (yaml, summary))"

definition ValidateConfig :: "ProcessEnv \<Rightarrow> ApiRequest \<Rightarrow> api_answer" where
  "ValidateConfig env r =
     (case config_body r of
        Ok (yaml, _) \<Rightarrow>
          (case yaml_Unmarshal (pe_yaml env) (str_bytes yaml) of
             None \<Rightarrow> ApiParseError
           | Some cfg \<Rightarrow> ApiValid (ValidateWithDetails (pe_services env) (pe_wd env) (Some cfg)))
      | Err e \<Rightarrow> ApiFail 400 e | Panic \<Rightarrow> ApiFail 500 InvalidBody)"

text \<open>A panic of a handler ends the request without an answer: \<open>None\<close>.\<close>

definition PutConfig ::
    "'db Gorm \<Rightarrow> ProcessEnv \<Rightarrow> OsCalls \<Rightarrow> string \<Rightarrow> bool \<Rightarrow> ApiRequest \<Rightarrow> 'db Console \<Rightarrow> 'db Console \<times> api_answer option" where
  "PutConfig g env os version reload r c =
     (case config_body r of
        Err e \<Rightarrow> (c, Some (ApiFail 400 e)) | Panic \<Rightarrow> (c, None)
      | Ok (yaml, summary) \<Rightarrow>
          (case SaveRaw g env os version reload \<lparr>si_Raw = yaml, si_Summary = summary, si_Actor = actorFromRequest r, si_ClientIP = rq_ClientIP r\<rparr> c of
             (c, Ok (rv, diff)) \<Rightarrow>
               (audit_Record g ''config.save'' ''config file updated'' (actorFromRequest r) (rq_ClientIP r) diff c, Some (ApiSaved rv))
           | (c, Err e) \<Rightarrow> (c, Some (ApiFail 400 e)) | (c, Panic) \<Rightarrow> (c, None)))"

text \<open>\<open>ParseUint\<close> of the path parameter: decimal digits, at most 64 bits.\<close>

definition parse_id :: "string \<Rightarrow> nat option" where
  "parse_id s = (if s \<noteq> '''' \<and> list_all is_digit s \<and> digits_value s < 2 ^ 64 then Some (nat (digits_value s)) else None)"

definition RestoreRevision ::
    "'db Gorm \<Rightarrow> ProcessEnv \<Rightarrow> OsCalls \<Rightarrow> string \<Rightarrow> bool \<Rightarrow> ApiRequest \<Rightarrow> 'db Console \<Rightarrow> 'db Console \<times> api_answer option" where
  "RestoreRevision g env os version reload r c =
     (case parse_id (rq_Param r) of
        None \<Rightarrow> (c, Some (ApiFail 400 InvalidRevisionId))
      | Some fromID \<Rightarrow>
          let summary = (case rq_Bound r of Some (_, summary) \<Rightarrow> summary | None \<Rightarrow> '''') in
          (case Restore g env os version reload fromID
                  \<lparr>si_Raw = '''', si_Summary = summary, si_Actor = actorFromRequest r, si_ClientIP = rq_ClientIP r\<rparr> c of
             (c, Ok (rv, diff)) \<Rightarrow>
               (audit_Record g ''config.restore'' (''restored from #'' @ decimal fromID) (actorFromRequest r) (rq_ClientIP r)
                  (''{'' @ [CHR 0x22] @ ''fromId'' @ [CHR 0x22] @ '':'' @ decimal fromID @ '','' @ [CHR 0x22] @ ''toId'' @ [CHR 0x22] @ '':''
                     @ decimal rv @ ''}'') c, Some (ApiSaved rv))
           | (c, Err e) \<Rightarrow> (c, Some (ApiFail (if e = RevisionNotFound then 404 else 500) e)) | (c, Panic) \<Rightarrow> (c, None)))"

definition api_Reload ::
    "'db Gorm \<Rightarrow> ProcessEnv \<Rightarrow> string \<Rightarrow> bool \<Rightarrow> ApiRequest \<Rightarrow> 'db Console \<Rightarrow> 'db Console \<times> api_answer option" where
  "api_Reload g env version reload r c =
     (if \<not> reload then (c, Some (ApiFail 503 NoReloadManager))
      else case process_Reload env version (co_process c) of
        (p, Ok _) \<Rightarrow> (audit_Record g ''config.reload'' ''configuration reloaded'' (actorFromRequest r) (rq_ClientIP r) '''' (c\<lparr>co_process := p\<rparr>),
                     Some ApiReloaded)
      | (p, Err e) \<Rightarrow> (c\<lparr>co_process := p\<rparr>, Some (ApiFail 400 (NotReloaded e)))
      | (p, Panic) \<Rightarrow> (c\<lparr>co_process := p\<rparr>, None))"

definition query_limit :: "int \<Rightarrow> bool \<Rightarrow> ApiRequest \<Rightarrow> int" where
  "query_limit fallback positive r =
     (let v = rq_Query r ''limit'' in
      if v = '''' then fallback
      else case Atoi v of (n, ok) \<Rightarrow> if ok \<and> (positive \<longrightarrow> n > 0) then n else fallback)"

definition GetConfig :: "ProcessEnv \<Rightarrow> ApiRequest \<Rightarrow> 'db Console \<Rightarrow> api_answer" where
  "GetConfig env r c =
     (case Document env (rq_Query r ''maskSecrets'' \<noteq> ''false'') c of
        Ok cfg \<Rightarrow> ApiDocument cfg | Err e \<Rightarrow> ApiFail 500 (NotLoaded e) | Panic \<Rightarrow> ApiFail 500 DatabaseError)"

definition GetConfigRaw :: "'db Console \<Rightarrow> api_answer" where
  "GetConfigRaw c =
     (case LoadRaw (console_path c) (ps_files (co_process c)) of
        Some bs \<Rightarrow> ApiRaw (bytes_str bs) | None \<Rightarrow> ApiFail 500 (NotLoaded ReadFailed))"

definition ListRevisions :: "'db Gorm \<Rightarrow> ApiRequest \<Rightarrow> 'db Console \<Rightarrow> api_answer" where
  "ListRevisions g r c =
     (case revision_List g (query_limit 20 True r) c of
        Some rows \<Rightarrow> ApiRevisions (map (\<lambda>row. row\<lparr>cr_YAML := ''''\<rparr>) rows) | None \<Rightarrow> ApiFail 500 DatabaseError)"

definition GetRevision :: "'db Gorm \<Rightarrow> ApiRequest \<Rightarrow> 'db Console \<Rightarrow> api_answer" where
  "GetRevision g r c =
     (case parse_id (rq_Param r) of
        None \<Rightarrow> ApiFail 400 InvalidRevisionId
      | Some i \<Rightarrow> (case db_revision g i (co_db c) of Some row \<Rightarrow> ApiRevision row | None \<Rightarrow> ApiFail 404 RevisionNotFound))"

definition AuditList :: "'db Gorm \<Rightarrow> ApiRequest \<Rightarrow> 'db Console \<Rightarrow> api_answer" where
  "AuditList g r c =
     (case audit_List g (query_limit 50 False r) c of Some rows \<Rightarrow> ApiAudit rows | None \<Rightarrow> ApiFail 500 DatabaseError)"

definition StatsHistory :: "'db Gorm \<Rightarrow> ApiRequest \<Rightarrow> 'db Console \<Rightarrow> api_answer" where
  "StatsHistory g r c =
     (case db_recent_snapshots g (query_limit 48 True r) (co_db c) of Some rows \<Rightarrow> ApiHistory rows | None \<Rightarrow> ApiFail 500 DatabaseError)"

end
