(* ===== verification/AdminLaws.thy ===== *)
theory AdminLaws
  imports AdminService CommandLaws
begin

text \<open>
  What the admin console promises: a saved document is on disk, in force, in the history and in the audit log; a
  document that was saved can be restored as long as fewer than two hundred came after it; and a document that is
  refused stays in the history all the same.
\<close>

section \<open>The database\<close>

lemma gorm_okD:
  assumes "gorm_ok g revs audits"
  shows "distinct (map cr_ID (revs d))"
    "db_create_revision g r d = (d', Some i) \<Longrightarrow> (\<exists>t. revs d' = revs d @ [r\<lparr>cr_ID := i, cr_CreatedAt := t\<rparr>]) \<and> audits d' = audits d"
    "db_create_revision g r d = (d', None) \<Longrightarrow> revs d' = revs d \<and> audits d' = audits d"
    "db_revision g i d = find (\<lambda>r. cr_ID r = i) (revs d)"
    "db_count_revisions g d = Some n \<Longrightarrow> n = length (revs d)"
    "db_oldest_revisions g k d = Some ids \<Longrightarrow> ids = map cr_ID (take k (revs d))"
    "revs (db_delete_revisions g ids d) = filter (\<lambda>r. cr_ID r \<notin> set ids) (revs d)"
    "db_create_audit g a d = (d', ok) \<Longrightarrow>
       revs d' = revs d \<and> (if ok then \<exists>i t. audits d' = audits d @ [a\<lparr>al_ID := i, al_CreatedAt := t\<rparr>] else audits d' = audits d)"
    "db_create_snapshot g m d = (d', ok) \<Longrightarrow> revs d' = revs d"
  using assms unfolding gorm_ok_def by (simp_all only:, (metis fst_conv)+)

lemma filter_not_in_take:
  "distinct (map f xs) \<Longrightarrow> filter (\<lambda>x. f x \<notin> set (map f (take k xs))) xs = drop k xs"
proof -
  assume d: "distinct (map f xs)"
  have "distinct (map f (take k xs @ drop k xs))" using d by simp
  then have disj: "set (map f (take k xs)) \<inter> set (map f (drop k xs)) = {}" by (simp only: map_append distinct_append)
  have "filter (\<lambda>x. f x \<notin> set (map f (take k xs))) (take k xs @ drop k xs) = [] @ drop k xs"
    unfolding filter_append
    by (intro arg_cong2 [of _ _ _ _ "(@)"]) (use disj in \<open>auto simp: filter_empty_conv filter_id_conv\<close>)
  then show ?thesis by simp
qed

lemma find_distinct:
  "distinct (map f xs) \<Longrightarrow> x \<in> set xs \<Longrightarrow> find (\<lambda>y. f y = f x) xs = Some x"
  by (induction xs) (auto simp: image_iff)

lemma revision_cleanup_revs:
  assumes "gorm_ok g revs audits"
  shows "\<exists>k. revs (co_db (revision_cleanup g c)) = drop k (revs (co_db c)) \<and> (k = 0 \<or> length (revs (co_db c)) = k + maxRevisions)"
    "co_process (revision_cleanup g c) = co_process c"
proof -
  note g = gorm_okD [OF assms]
  show "\<exists>k. revs (co_db (revision_cleanup g c)) = drop k (revs (co_db c)) \<and> (k = 0 \<or> length (revs (co_db c)) = k + maxRevisions)"
  proof (cases "\<exists>count ids. db_count_revisions g (co_db c) = Some count \<and> maxRevisions < count
      \<and> db_oldest_revisions g (count - maxRevisions) (co_db c) = Some ids \<and> ids \<noteq> []")
    case True
    then obtain count ids where c: "db_count_revisions g (co_db c) = Some count" "maxRevisions < count"
      "db_oldest_revisions g (count - maxRevisions) (co_db c) = Some ids" "ids \<noteq> []" by blast
    have "revs (co_db (revision_cleanup g c)) = drop (count - maxRevisions) (revs (co_db c))"
      using c g(6) [OF c(3)] filter_not_in_take [OF g(1)] by (simp add: revision_cleanup_def g(7))
    with c(2) g(5) [OF c(1)] show ?thesis by (intro exI [of _ "count - maxRevisions"]) auto
  next
    case False
    then have "revision_cleanup g c = c" by (auto simp: revision_cleanup_def not_le split: option.splits)
    then show ?thesis by (intro exI [of _ 0]) simp
  qed
  show "co_process (revision_cleanup g c) = co_process c" by (simp add: revision_cleanup_def split: option.split)
qed

lemma audit_Record_effect:
  assumes "gorm_ok g revs audits"
  shows "revs (co_db (audit_Record g act summary actor ip diff c)) = revs (co_db c)"
    "co_process (audit_Record g act summary actor ip diff c) = co_process c"
    "audits (co_db (audit_Record g act summary actor ip diff c)) = audits (co_db c)
     \<or> (\<exists>i t. audits (co_db (audit_Record g act summary actor ip diff c)) = audits (co_db c)
          @ [\<lparr>al_ID = i, al_Action = act, al_Summary = summary, al_Actor = actor, al_ClientIP = ip, al_Diff = diff, al_CreatedAt = t\<rparr>])"
proof -
  let ?row = "\<lparr>al_ID = 0, al_Action = act, al_Summary = summary, al_Actor = actor, al_ClientIP = ip, al_Diff = diff, al_CreatedAt = 0\<rparr>"
  obtain d ok where d: "db_create_audit g ?row (co_db c) = (d, ok)" by force
  note e = gorm_okD(8) [OF assms d]
  show "revs (co_db (audit_Record g act summary actor ip diff c)) = revs (co_db c)"
    "co_process (audit_Record g act summary actor ip diff c) = co_process c"
    "audits (co_db (audit_Record g act summary actor ip diff c)) = audits (co_db c)
     \<or> (\<exists>i t. audits (co_db (audit_Record g act summary actor ip diff c)) = audits (co_db c)
          @ [\<lparr>al_ID = i, al_Action = act, al_Summary = summary, al_Actor = actor, al_ClientIP = ip, al_Diff = diff, al_CreatedAt = t\<rparr>])"
    using e d by (auto simp: audit_Record_def split: if_splits)
qed

section \<open>Writing and reloading\<close>

lemma process_Reload_options:
  assumes "process_Reload env version s = (s', r)"
  shows "so_ConfigPath (ps_options s') = so_ConfigPath (ps_options s)" "ps_files s' = ps_files s"
proof -
  have opts: "so_ConfigPath (ps_options t') = so_ConfigPath (ps_options t)" if "ReconcileAdmin env cfg t = (t', x)" for cfg t t' x
    using that by (auto simp: ReconcileAdmin_def Let_def split: outcome.splits option.splits prod.splits if_splits)
  have apply_keeps: "so_ConfigPath (ps_options t') = so_ConfigPath (ps_options t) \<and> ps_files t' = ps_files t"
    if "apply_config env version cfg t = (t', x)" for cfg t t' x
  proof -
    obtain c op where op: "BuildApplyOptions cfg (ConfigToken version) = (c, op)" by force
    obtain t1 r1 where u: "UpdateConfig env op (t\<lparr>ps_ref := c\<rparr>) = (t1, r1)" by force
    note f = UpdateConfig_fields(2,5) [OF u]
    show ?thesis using that op u f opts ReconcileAdmin_keeps(4)
      by (auto simp: apply_config_def split: outcome.splits)
  qed
  show "so_ConfigPath (ps_options s') = so_ConfigPath (ps_options s)" "ps_files s' = ps_files s"
    using assms apply_keeps by (auto simp: process_Reload_def Let_def split: if_splits outcome.splits option.splits prod.splits)
qed

lemma SaveRawAtomic_Ok:
  assumes "SaveRawAtomic y services wd os path raw fs = (fs', Ok u)"
  shows "fs' path = Some raw" "path \<noteq> ''''" "\<exists>cfg. yaml_Unmarshal y raw = Some cfg \<and> Validate services wd (Some cfg) = None"
  using assms writeFileAtomic_effect [of os path raw fs]
  by (auto simp: SaveRawAtomic_def save_result_def prod_eq_iff split: if_splits option.splits outcome.splits)

lemma write_and_reload_effect:
  assumes "write_and_reload env os version reload raw result c = (c', r)"
  shows "co_db c' = co_db c" "console_path c' = console_path c"
    "r = Ok x \<Longrightarrow> x = result"
    "r = Ok x \<Longrightarrow> ps_files (co_process c') (console_path c) = Some (str_bytes raw)"
    "r = Ok x \<Longrightarrow> reload \<Longrightarrow> \<exists>cfg. yaml_Unmarshal (pe_yaml env) (str_bytes raw) = Some cfg
       \<and> Validate (pe_services env) (pe_wd env) (Some cfg) = None \<and> ps_ref (co_process c') = fst (BuildBandwidthLimits (Some cfg))"
    "r \<noteq> Err RevisionNotFound"
proof -
  obtain fs w where w: "SaveRawAtomic (pe_yaml env) (pe_services env) (pe_wd env) os (console_path c) (str_bytes raw) (ps_files (co_process c)) = (fs, w)"
    by force
  let ?p = "(co_process c)\<lparr>ps_files := fs\<rparr>"
  obtain p q where rl: "process_Reload env version ?p = (p, q)" by force
  note o = process_Reload_options [OF rl]
  show "co_db c' = co_db c" "console_path c' = console_path c" "r = Ok x \<Longrightarrow> x = result"
    "r = Ok x \<Longrightarrow> ps_files (co_process c') (console_path c) = Some (str_bytes raw)" "r \<noteq> Err RevisionNotFound"
    using assms w rl o SaveRawAtomic_Ok(1) [of _ _ _ os]
    by (auto simp: write_and_reload_def console_path_def Let_def split: outcome.splits if_splits)
  assume r: "r = Ok x" "reload"
  then have ok: "is_Ok w" "q = Ok ()" "co_process c' = p"
    using assms w rl by (auto simp: write_and_reload_def is_Ok_iff Let_def split: outcome.splits if_splits)
  obtain u where u: "w = Ok u" using ok(1) by (auto simp: is_Ok_iff)
  note s = SaveRawAtomic_Ok [OF w [unfolded u]]
  obtain cfg where cfg: "yaml_Unmarshal (pe_yaml env) (str_bytes raw) = Some cfg" "Validate (pe_services env) (pe_wd env) (Some cfg) = None"
    using s(3) by blast
  have load: "Load (pe_yaml env) (so_ConfigPath (ps_options ?p)) (ps_files ?p) = Ok cfg"
    using s(1,2) cfg by (simp add: Load_def console_path_def)
  obtain d l where b: "BuildBandwidthLimits (Some cfg) = (Some d, l)" using BuildBandwidthLimits_Some by blast
  obtain op where op: "BuildApplyOptions cfg (ConfigToken version) = (Some d, op)"
    using b by (cases "ResolvePublicHTTPNoAuthTiming (Some cfg)") (simp add: BuildApplyOptions_def)
  obtain t r1 where t: "UpdateConfig env op (?p\<lparr>ps_ref := Some d\<rparr>) = (t, r1)" by force
  have "ps_ref p = Some d"
    using rl ok(2) load cfg s(2) op t UpdateConfig_fields(3,12) [OF t] ReconcileAdmin_keeps(1) [of env d t]
    by (auto simp: process_Reload_def apply_config_def console_path_def Let_def split: if_splits outcome.splits prod.splits)
  with cfg ok(3) b show "\<exists>cfg. yaml_Unmarshal (pe_yaml env) (str_bytes raw) = Some cfg
       \<and> Validate (pe_services env) (pe_wd env) (Some cfg) = None \<and> ps_ref (co_process c') = fst (BuildBandwidthLimits (Some cfg))" by simp
qed


section \<open>Saving\<close>

text \<open>A row of the history for a document.\<close>

definition row_for :: "SaveRawInput \<Rightarrow> string \<Rightarrow> string \<Rightarrow> ConfigRevision \<Rightarrow> bool" where
  "row_for i yaml summary row \<longleftrightarrow>
     cr_YAML row = yaml \<and> cr_Summary row = summary \<and> cr_Actor row = si_Actor i \<and> cr_ClientIP row = si_ClientIP i"

lemma revision_Save_effect:
  assumes "gorm_ok g revs audits" "revision_Save g yaml summary (si_Actor i) (si_ClientIP i) c = (c', r)"
  shows "r = Ok rv \<Longrightarrow> \<exists>row. revs (co_db c') = revs (co_db c) @ [row] \<and> cr_ID row = rv \<and> row_for i yaml summary row"
    "\<forall>rv. r \<noteq> Ok rv \<Longrightarrow> revs (co_db c') = revs (co_db c) \<and> r = Err RevisionNotSaved" "audits (co_db c') = audits (co_db c)"
    "co_process c' = co_process c"
  using assms(2) gorm_okD(2,3) [OF assms(1)]
  by (fastforce simp: revision_Save_def row_for_def split: prod.splits option.splits)+

lemma save_then_write:
  assumes "gorm_ok g revs audits"
    and "(case revision_Save g yaml summary (si_Actor i) (si_ClientIP i) c of
        (c, Ok rv) \<Rightarrow> write_and_reload env os version reload yaml (rv, d) c
      | (c, Err e) \<Rightarrow> (c, Err e) | (c, Panic) \<Rightarrow> (c, Panic)) = (c', r)"
  shows "\<exists>new. revs (co_db c') = revs (co_db c) @ new \<and> length new \<le> 1" "audits (co_db c') = audits (co_db c)"
    "console_path c' = console_path c" "r \<noteq> Err RevisionNotFound"
    "r = Ok (rv, diff) \<Longrightarrow> diff = d \<and> ps_files (co_process c') (console_path c) = Some (str_bytes yaml)
       \<and> (\<exists>row. revs (co_db c') = revs (co_db c) @ [row] \<and> cr_ID row = rv \<and> row_for i yaml summary row)"
    "r = Ok (rv, diff) \<Longrightarrow> reload \<Longrightarrow> \<exists>cfg. yaml_Unmarshal (pe_yaml env) (str_bytes yaml) = Some cfg
       \<and> Validate (pe_services env) (pe_wd env) (Some cfg) = None \<and> ps_ref (co_process c') = fst (BuildBandwidthLimits (Some cfg))"
proof -
  obtain c1 q where s: "revision_Save g yaml summary (si_Actor i) (si_ClientIP i) c = (c1, q)" by force
  note e = revision_Save_effect [OF assms(1) s]
  have path: "console_path c1 = console_path c" using e(4) by (simp add: console_path_def)
  consider "r = Err RevisionNotSaved" "c' = c1" "revs (co_db c1) = revs (co_db c)"
    | x row where "write_and_reload env os version reload yaml (x, d) c1 = (c', r)"
        "revs (co_db c1) = revs (co_db c) @ [row]" "cr_ID row = x" "row_for i yaml summary row"
  proof (cases q)
    case (Ok x)
    with that(2) e(1) [OF Ok] assms(2) s show ?thesis by auto
  qed (use that(1) e(2) assms(2) s in auto)
  then have "(\<exists>new. revs (co_db c') = revs (co_db c) @ new \<and> length new \<le> 1) \<and> audits (co_db c') = audits (co_db c)
    \<and> console_path c' = console_path c \<and> r \<noteq> Err RevisionNotFound
    \<and> (\<forall>rv diff. r = Ok (rv, diff) \<longrightarrow> diff = d \<and> ps_files (co_process c') (console_path c) = Some (str_bytes yaml)
       \<and> (\<exists>row. revs (co_db c') = revs (co_db c) @ [row] \<and> cr_ID row = rv \<and> row_for i yaml summary row)
       \<and> (reload \<longrightarrow> (\<exists>cfg. yaml_Unmarshal (pe_yaml env) (str_bytes yaml) = Some cfg
       \<and> Validate (pe_services env) (pe_wd env) (Some cfg) = None \<and> ps_ref (co_process c') = fst (BuildBandwidthLimits (Some cfg)))))"
  proof cases
    case 1
    then show ?thesis using e(3) path by simp
  next
    case (2 x row)
    note we = write_and_reload_effect [OF 2(1), unfolded path]
    show ?thesis
    proof (intro conjI allI impI)
      show "\<exists>new. revs (co_db c') = revs (co_db c) @ new \<and> length new \<le> 1" using we(1) 2(2) by simp
      show "audits (co_db c') = audits (co_db c)" "console_path c' = console_path c" using we(1,2) e(3) by simp_all
      show "r \<noteq> Err RevisionNotFound" by (rule we(6))
      fix rv diff
      assume r: "r = Ok (rv, diff)"
      from we(3) [OF r] have "rv = x" "diff = d" by simp_all
      then show "diff = d" "\<exists>row. revs (co_db c') = revs (co_db c) @ [row] \<and> cr_ID row = rv \<and> row_for i yaml summary row"
        using we(1) 2(2-4) by simp_all
      show "ps_files (co_process c') (console_path c) = Some (str_bytes yaml)" by (rule we(4) [OF r])
      assume reload
      show "\<exists>cfg. yaml_Unmarshal (pe_yaml env) (str_bytes yaml) = Some cfg
       \<and> Validate (pe_services env) (pe_wd env) (Some cfg) = None \<and> ps_ref (co_process c') = fst (BuildBandwidthLimits (Some cfg))"
        by (rule we(5) [OF r \<open>reload\<close>])
    qed
  qed
  then show "\<exists>new. revs (co_db c') = revs (co_db c) @ new \<and> length new \<le> 1" "audits (co_db c') = audits (co_db c)"
    "console_path c' = console_path c" "r \<noteq> Err RevisionNotFound"
    "r = Ok (rv, diff) \<Longrightarrow> diff = d \<and> ps_files (co_process c') (console_path c) = Some (str_bytes yaml)
       \<and> (\<exists>row. revs (co_db c') = revs (co_db c) @ [row] \<and> cr_ID row = rv \<and> row_for i yaml summary row)"
    "r = Ok (rv, diff) \<Longrightarrow> reload \<Longrightarrow> \<exists>cfg. yaml_Unmarshal (pe_yaml env) (str_bytes yaml) = Some cfg
       \<and> Validate (pe_services env) (pe_wd env) (Some cfg) = None \<and> ps_ref (co_process c') = fst (BuildBandwidthLimits (Some cfg))"
    by blast+
qed

lemma SaveRaw_unfold:
  assumes "SaveRaw g env os version reload i c = (c', r)"
  shows "(case revision_Save g (si_Raw i) (si_Summary i) (si_Actor i) (si_ClientIP i) c of
        (k, Ok rv) \<Rightarrow> write_and_reload env os version reload (si_Raw i) (rv, UnifiedDiff (old_text c) (si_Raw i)) k
      | (k, Err e) \<Rightarrow> (k, Err e) | (k, Panic) \<Rightarrow> (k, Panic)) = (c', r)"
  using assms unfolding SaveRaw_def Let_def by assumption

lemmas SaveRaw_effect = save_then_write [OF _ SaveRaw_unfold]

lemma Restore_effect:
  assumes "gorm_ok g revs audits" "Restore g env os version reload revID i c = (c', r)"
  shows "\<exists>new. revs (co_db c') = revs (co_db c) @ new \<and> length new \<le> 1" "console_path c' = console_path c"
    "row \<in> set (revs (co_db c)) \<Longrightarrow> cr_ID row = revID \<Longrightarrow> r \<noteq> Err RevisionNotFound \<and>
       (\<forall>x. r = Ok x \<longrightarrow> ps_files (co_process c') (console_path c) = Some (str_bytes (cr_YAML row)))"
proof -
  let ?goal = "(\<exists>new. revs (co_db c') = revs (co_db c) @ new \<and> length new \<le> 1) \<and> console_path c' = console_path c \<and>
    (\<forall>row\<in>set (revs (co_db c)). cr_ID row = revID \<longrightarrow> r \<noteq> Err RevisionNotFound \<and>
       (\<forall>x. r = Ok x \<longrightarrow> ps_files (co_process c') (console_path c) = Some (str_bytes (cr_YAML row))))"
  have ?goal
  proof (cases "db_revision g revID (co_db c)")
    case None
    then have "c' = c" "\<forall>row\<in>set (revs (co_db c)). cr_ID row \<noteq> revID"
      using assms(2) None gorm_okD(4) [OF assms(1)] find_None_iff [of "\<lambda>r. cr_ID r = revID" "revs (co_db c)"] by (simp_all add: Restore_def)
    then show ?thesis by auto
  next
    case (Some old)
    have old: "old = row" if "row \<in> set (revs (co_db c))" "cr_ID row = revID" for row
      using find_distinct [OF gorm_okD(1) [OF assms(1)] that(1)] that(2) Some gorm_okD(4) [OF assms(1)] by simp
    define summary where "summary = (if si_Summary i = [] then ''restored from #'' @ decimal revID else si_Summary i)"
    have run: "(case revision_Save g (cr_YAML old) summary (si_Actor i) (si_ClientIP i) c of
        (k, Ok rv) \<Rightarrow> write_and_reload env os version reload (cr_YAML old) (rv, UnifiedDiff (old_text c) (cr_YAML old)) k
      | (k, Err e) \<Rightarrow> (k, Err e) | (k, Panic) \<Rightarrow> (k, Panic)) = (c', r)"
      using assms(2) Some unfolding Restore_def Let_def summary_def by simp
    note e = save_then_write [OF assms(1) run]
    show ?thesis
    proof (intro conjI ballI impI allI)
      show "\<exists>new. revs (co_db c') = revs (co_db c) @ new \<and> length new \<le> 1" "console_path c' = console_path c" "r \<noteq> Err RevisionNotFound"
        using e(1,3,4) by blast+
      fix row x
      assume "row \<in> set (revs (co_db c))" "cr_ID row = revID" "r = Ok x"
      then show "ps_files (co_process c') (console_path c) = Some (str_bytes (cr_YAML row))"
        using e(5) [of "fst x" "snd x"] old by simp
    qed
  qed
  then show "\<exists>new. revs (co_db c') = revs (co_db c) @ new \<and> length new \<le> 1" "console_path c' = console_path c"
    "row \<in> set (revs (co_db c)) \<Longrightarrow> cr_ID row = revID \<Longrightarrow> r \<noteq> Err RevisionNotFound \<and>
       (\<forall>x. r = Ok x \<longrightarrow> ps_files (co_process c') (console_path c) = Some (str_bytes (cr_YAML row)))"
    by blast+
qed

lemma save_recorded:
  assumes "gorm_ok g revs audits" "PutConfig g env os version True r c = (c', Some (ApiSaved rv))"
  shows "\<exists>raw summary cfg row. config_body r = Ok (raw, summary)
    \<and> ps_files (co_process c') (console_path c) = Some (str_bytes raw)
    \<and> yaml_Unmarshal (pe_yaml env) (str_bytes raw) = Some cfg \<and> Validate (pe_services env) (pe_wd env) (Some cfg) = None
    \<and> ps_ref (co_process c') = fst (BuildBandwidthLimits (Some cfg))
    \<and> revs (co_db c') = revs (co_db c) @ [row] \<and> cr_ID row = rv \<and> cr_YAML row = raw \<and> cr_Summary row = summary
    \<and> cr_Actor row = actorFromRequest r \<and> cr_ClientIP row = rq_ClientIP r
    \<and> (audits (co_db c') = audits (co_db c)
       \<or> (\<exists>a. audits (co_db c') = audits (co_db c) @ [a] \<and> al_Action a = ''config.save'' \<and> al_Actor a = actorFromRequest r
            \<and> read_diff {CHR '' '', CHR ''-''} (al_Diff a) = splitLines (old_text c)
            \<and> read_diff {CHR '' '', CHR ''+''} (al_Diff a) = splitLines raw))"
proof -
  obtain raw summary where body: "config_body r = Ok (raw, summary)"
    using assms(2) by (auto simp: PutConfig_def split: outcome.splits)
  let ?i = "\<lparr>si_Raw = raw, si_Summary = summary, si_Actor = actorFromRequest r, si_ClientIP = rq_ClientIP r\<rparr>"
  obtain c1 q where s: "SaveRaw g env os version True ?i c = (c1, q)" by force
  obtain diff where q: "q = Ok (rv, diff)"
    and c': "c' = audit_Record g ''config.save'' ''config file updated'' (actorFromRequest r) (rq_ClientIP r) diff c1"
    using assms(2) body s by (auto simp: PutConfig_def split: outcome.splits)
  note e = SaveRaw_effect [OF assms(1) s]
  note a = audit_Record_effect [OF assms(1), of "''config.save''" "''config file updated''" "actorFromRequest r" "rq_ClientIP r" diff c1, folded c']
  obtain row where row: "revs (co_db c1) = revs (co_db c) @ [row]" "cr_ID row = rv" "row_for ?i raw summary row" using e(5) [OF q] by auto
  obtain cfg where cfg: "yaml_Unmarshal (pe_yaml env) (str_bytes raw) = Some cfg" "Validate (pe_services env) (pe_wd env) (Some cfg) = None"
    "ps_ref (co_process c1) = fst (BuildBandwidthLimits (Some cfg))" using e(6) [OF q] by auto
  have diff: "read_diff {CHR '' '', CHR ''-''} diff = splitLines (old_text c)" "read_diff {CHR '' '', CHR ''+''} diff = splitLines raw"
    using e(5) [OF q] diff_lines by simp_all
  have aud: "audits (co_db c') = audits (co_db c)
       \<or> (\<exists>a. audits (co_db c') = audits (co_db c) @ [a] \<and> al_Action a = ''config.save'' \<and> al_Actor a = actorFromRequest r
            \<and> read_diff {CHR '' '', CHR ''-''} (al_Diff a) = splitLines (old_text c)
            \<and> read_diff {CHR '' '', CHR ''+''} (al_Diff a) = splitLines raw)"
    using a(3) e(2) diff by auto
  show ?thesis
    using body e(5) [OF q] row cfg a(1,2) aud by (intro exI [of _ raw] exI [of _ summary] exI [of _ cfg] exI [of _ row]) (simp add: row_for_def)
qed


section \<open>Refused documents\<close>

text \<open>C28: The history is written before the document is looked at: one that validation refuses changes neither the file
  nor the server, and is answered with an error, but it has become the newest row of the history.\<close>

theorem refused_documents_stay_in_the_history:
  assumes "gorm_ok g revs audits" "config_body r = Ok (raw, summary)"
    and "\<And>cfg. yaml_Unmarshal (pe_yaml env) (str_bytes raw) = Some cfg \<Longrightarrow> Validate (pe_services env) (pe_wd env) (Some cfg) \<noteq> None"
    and "PutConfig g env os version reload r c = (c', answer)"
  shows "(\<exists>e. answer = Some (ApiFail 400 e)) \<and> co_process c' = co_process c \<and> audits (co_db c') = audits (co_db c)
    \<and> (answer = Some (ApiFail 400 RevisionNotSaved)
       \<or> (\<exists>row. revs (co_db c') = revs (co_db c) @ [row] \<and> cr_YAML row = raw))"
proof -
  let ?i = "\<lparr>si_Raw = raw, si_Summary = summary, si_Actor = actorFromRequest r, si_ClientIP = rq_ClientIP r\<rparr>"
  obtain c1 q where s: "revision_Save g raw summary (actorFromRequest r) (rq_ClientIP r) c = (c1, q)" by force
  note e = revision_Save_effect [OF assms(1), of raw summary ?i, simplified, OF s]
  have w: "\<exists>x. write_and_reload env os version reload raw z k = (k, Err (NotWritten x))" for z :: "nat \<times> string" and k :: "'a Console"
    using assms(3)
    by (cases "yaml_Unmarshal (pe_yaml env) (str_bytes raw)") (auto simp: write_and_reload_def SaveRawAtomic_def Let_def split: option.split)
  show ?thesis
  proof (cases q)
    case (Ok x)
    obtain y where y: "write_and_reload env os version reload raw (x, UnifiedDiff (old_text c) raw) c1 = (c1, Err (NotWritten y))"
      using w by blast
    with assms(2,4) s Ok have "c' = c1" "answer = Some (ApiFail 400 (NotWritten y))"
      by (simp_all add: PutConfig_def SaveRaw_def Let_def)
    moreover obtain row where "revs (co_db c1) = revs (co_db c) @ [row]" "row_for ?i raw summary row" using e(1) [OF Ok] by blast
    ultimately show ?thesis using e(3,4) by (auto simp: row_for_def)
  next
    case (Err z)
    then have "q = Err RevisionNotSaved" using e(2) by simp
    with assms(2,4) s e(3,4) show ?thesis by (auto simp: PutConfig_def SaveRaw_def Let_def)
  next
    case Panic
    with e(2) show ?thesis by simp
  qed
qed


section \<open>The history\<close>

text \<open>What happens to a console: requests to its API, the clean-up after a save, a snapshot, and whatever else the
  server does meanwhile, so long as it keeps the path of its configuration.\<close>

datatype console_op =
    SaveOp ApiRequest | RestoreOp ApiRequest | ReloadOp ApiRequest | CleanupOp | SnapshotOp nat | ServerOp "Process \<Rightarrow> Process"

fun is_save :: "console_op \<Rightarrow> bool" where
  "is_save (SaveOp r) = True"
| "is_save (RestoreOp r) = True"
| "is_save _ = False"

fun console_step :: "'db Gorm \<Rightarrow> bool \<Rightarrow> 'db Console \<Rightarrow> ProcessEnv \<times> OsCalls \<times> console_op \<Rightarrow> 'db Console" where
  "console_step g reload c (env, os, SaveOp r) = fst (PutConfig g env os ServerVersion reload r c)"
| "console_step g reload c (env, os, RestoreOp r) = fst (RestoreRevision g env os ServerVersion reload r c)"
| "console_step g reload c (env, os, ReloadOp r) = fst (api_Reload g env ServerVersion reload r c)"
| "console_step g reload c (env, os, CleanupOp) = revision_cleanup g c"
| "console_step g reload c (env, os, SnapshotOp n) = fst (RecordSnapshot g n c)"
| "console_step g reload c (env, os, ServerOp f) =
     (if so_ConfigPath (ps_options (f (co_process c))) = console_path c then c\<lparr>co_process := f (co_process c)\<rparr> else c)"

definition grown :: "nat \<Rightarrow> 'a list \<Rightarrow> 'a list \<Rightarrow> bool" where
  "grown n xs ys \<longleftrightarrow> (\<exists>k new. ys = drop k (xs @ new) \<and> length new \<le> n \<and> (k = 0 \<or> maxRevisions \<le> length ys))"

lemma grown_refl [intro]: "grown 0 xs xs"
  unfolding grown_def by (intro exI [of _ 0] exI [of _ "[]"]) simp

lemma grown_append: "grown n xs ys \<Longrightarrow> length new \<le> m \<Longrightarrow> grown (n + m) xs (ys @ new)"
  unfolding grown_def
proof (elim exE conjE)
  fix k old
  assume a: "length new \<le> m" "ys = drop k (xs @ old)" "length old \<le> n" "k = 0 \<or> maxRevisions \<le> length ys"
  have "ys @ new = drop k (xs @ old @ new)" if "k \<le> length (xs @ old)" using a(2) that by simp
  moreover have "0 < maxRevisions" by (simp add: maxRevisions_def)
  then have "k \<le> length (xs @ old)" using a(2,4) by (cases "k \<le> length (xs @ old)") auto
  ultimately show "\<exists>k' new'. ys @ new = drop k' (xs @ new') \<and> length new' \<le> n + m \<and> (k' = 0 \<or> maxRevisions \<le> length (ys @ new))"
    using a by (intro exI [of _ k] exI [of _ "old @ new"]) auto
qed

lemma grown_drop: "grown n xs ys \<Longrightarrow> k = 0 \<or> length ys = k + maxRevisions \<Longrightarrow> grown n xs (drop k ys)"
  unfolding grown_def
proof (elim exE conjE)
  fix j new
  assume a: "k = 0 \<or> length ys = k + maxRevisions" "ys = drop j (xs @ new)" "length new \<le> n" "j = 0 \<or> maxRevisions \<le> length ys"
  then show "\<exists>k' new'. drop k ys = drop k' (xs @ new') \<and> length new' \<le> n \<and> (k' = 0 \<or> maxRevisions \<le> length (drop k ys))"
    by (intro exI [of _ "k + j"] exI [of _ new]) (simp add: add.commute del: drop_append, linarith)
qed

lemma grown_keeps: "grown n xs ys \<Longrightarrow> n < maxRevisions \<Longrightarrow> xs \<noteq> [] \<Longrightarrow> last xs \<in> set ys"
  unfolding grown_def
proof (elim exE conjE)
  fix k new
  assume a: "n < maxRevisions" "xs \<noteq> []" "ys = drop k (xs @ new)" "length new \<le> n" "k = 0 \<or> maxRevisions \<le> length ys"
  then have k: "k < length xs" by (cases "k = 0") auto
  then have "drop k xs \<noteq> []" "last (drop k xs) = last xs" by (simp_all add: last_drop)
  then have "last xs \<in> set (drop k xs)" using last_in_set by metis
  with a(3) show "last xs \<in> set ys" by simp
qed

lemma console_step_grows:
  assumes "gorm_ok g revs audits" "grown n xs (revs (co_db c))"
  shows "grown (n + (if is_save (snd (snd x)) then 1 else 0)) xs (revs (co_db (console_step g reload c x)))
    \<and> console_path (console_step g reload c x) = console_path c"
proof -
  obtain env os y where x: "x = (env, os, y)" by (cases x) auto
  note audit = audit_Record_effect(1,2) [OF assms(1)]
  have path_audit: "console_path (audit_Record g a b d e f k) = console_path k" for a b d e f k
    using audit(2) by (simp add: console_path_def)
  have none: "grown (n + 0) xs (revs (co_db c))" "grown (n + 1) xs (revs (co_db c))"
    using assms(2) grown_append [OF assms(2), of "[]" 1] by simp_all
  show ?thesis
  proof (cases y)
    case (SaveOp r)
    have "\<exists>new. revs (co_db (fst (PutConfig g env os ServerVersion reload r c))) = revs (co_db c) @ new \<and> length new \<le> 1"
      "console_path (fst (PutConfig g env os ServerVersion reload r c)) = console_path c"
      using SaveRaw_effect(1,3) [OF assms(1)] audit(1) path_audit by (auto simp: PutConfig_def split: outcome.splits prod.splits)
    with grown_append [OF assms(2), of _ 1] SaveOp x show ?thesis by fastforce
  next
    case (RestoreOp r)
    have "\<exists>new. revs (co_db (fst (RestoreRevision g env os ServerVersion reload r c))) = revs (co_db c) @ new \<and> length new \<le> 1"
      "console_path (fst (RestoreRevision g env os ServerVersion reload r c)) = console_path c"
      using Restore_effect(1,2) [OF assms(1)] audit(1) path_audit
      by (auto simp: RestoreRevision_def Let_def split: outcome.splits prod.splits option.splits)
    with grown_append [OF assms(2), of _ 1] RestoreOp x show ?thesis by fastforce
  next
    case (ReloadOp r)
    then show ?thesis
      using assms(2) x audit(1) path_audit process_Reload_options(1)
      by (auto simp: api_Reload_def console_path_def split: outcome.splits prod.splits)
  next
    case CleanupOp
    obtain k where "revs (co_db (revision_cleanup g c)) = drop k (revs (co_db c))" "k = 0 \<or> length (revs (co_db c)) = k + maxRevisions"
      using revision_cleanup_revs(1) [OF assms(1), of c] by blast
    with grown_drop [OF assms(2)] revision_cleanup_revs(2) [OF assms(1)] CleanupOp x show ?thesis by (simp add: console_path_def)
  next
    case (SnapshotOp m)
    then show ?thesis
      using assms(2) x gorm_okD(9) [OF assms(1)] by (auto simp: RecordSnapshot_def console_path_def split: stats_view.splits prod.splits)
  next
    case (ServerOp f)
    then show ?thesis using assms(2) x by (simp add: console_path_def)
  qed
qed

lemma console_run_grows:
  assumes "gorm_ok g revs audits"
  shows "grown (length (filter (\<lambda>x. is_save (snd (snd x))) ops)) (revs (co_db c)) (revs (co_db (foldl (console_step g reload) c ops)))
    \<and> console_path (foldl (console_step g reload) c ops) = console_path c"
proof (induction ops rule: rev_induct)
  case (snoc x xs)
  then show ?case
    using console_step_grows [OF assms, of "length (filter (\<lambda>x. is_save (snd (snd x))) xs)" "revs (co_db c)" "foldl (console_step g reload) c xs" x reload]
    by (auto split: if_splits)
qed auto


end
