(* ===== verification/AdminSamples.thy ===== *)
theory AdminSamples
  imports AdminLaws ProcessSamples
begin

text \<open>A database of two lists, and the laws of the admin console applied to the concrete server with it.\<close>

type_synonym lists = "ConfigRevision list \<times> AuditLog list"

definition list_revs :: "lists \<Rightarrow> ConfigRevision list" where
  "list_revs d = (if distinct (map cr_ID (fst d)) then fst d else [])"

definition fresh_id :: "ConfigRevision list \<Rightarrow> nat" where "fresh_id rows = Suc (sum_list (map cr_ID rows))"

definition list_gorm :: "lists Gorm" where
  "list_gorm = \<lparr>
     db_create_revision = (\<lambda>r d. ((list_revs d @ [r\<lparr>cr_ID := fresh_id (list_revs d), cr_CreatedAt := 7\<rparr>], snd d), Some (fresh_id (list_revs d)))),
     db_recent_revisions = (\<lambda>n d. Some (take (nat n) (rev (list_revs d)))),
     db_revision = (\<lambda>i d. find (\<lambda>r. cr_ID r = i) (list_revs d)),
     db_count_revisions = (\<lambda>d. Some (length (list_revs d))),
     db_oldest_revisions = (\<lambda>k d. Some (map cr_ID (take k (list_revs d)))),
     db_delete_revisions = (\<lambda>ids d. (filter (\<lambda>r. cr_ID r \<notin> set ids) (list_revs d), snd d)),
     db_create_audit = (\<lambda>a d. ((list_revs d, snd d @ [a\<lparr>al_ID := Suc (length (snd d)), al_CreatedAt := 7\<rparr>]), True)),
     db_recent_audits = (\<lambda>n d. Some (take (nat n) (rev (snd d)))),
     db_create_snapshot = (\<lambda>m d. ((list_revs d, snd d), True)),
     db_recent_snapshots = (\<lambda>n d. Some [])\<rparr>"

lemma fresh_id: "fresh_id rows \<notin> cr_ID ` set rows"
proof -
  have "cr_ID r \<le> sum_list (map cr_ID rows)" if "r \<in> set rows" for r using that by (induction rows) auto
  then show ?thesis by (force simp: fresh_id_def)
qed

lemma list_gorm_ok: "gorm_ok list_gorm list_revs snd"
proof -
  have d: "distinct (map cr_ID (list_revs d))" for d by (simp add: list_revs_def)
  have r: "list_revs (rows, as) = rows" if "distinct (map cr_ID rows)" for rows as using that by (simp add: list_revs_def)
  have a: "list_revs (list_revs d @ [q\<lparr>cr_ID := fresh_id (list_revs d), cr_CreatedAt := 7\<rparr>], as)
      = list_revs d @ [q\<lparr>cr_ID := fresh_id (list_revs d), cr_CreatedAt := 7\<rparr>]" for q d as
    using d [of d] fresh_id [of "list_revs d"] by (intro r) simp
  have f: "list_revs (filter P (list_revs d), as) = filter P (list_revs d)" for P d as
    using distinct_map_filter [OF d [of d]] by (intro r)
  show ?thesis unfolding gorm_ok_def list_gorm_def by (auto simp: d a f r)
qed

definition console :: "lists Console" where "console = \<lparr>co_process = serving, co_db = ([], [])\<rparr>"

definition save_request :: ApiRequest where
  "save_request = \<lparr>rq_Bound = Some ([CHR 0x01], ''why''), rq_Rest = None, rq_Query = (\<lambda>k. ''''), rq_Param = '''',
     rq_Header = (\<lambda>h. if h = ''X-User'' then ''ann'' else ''''), rq_ClientIP = ''10.0.0.9''\<rparr>"

definition broken_request :: ApiRequest where "broken_request = save_request\<lparr>rq_Bound := Some ([CHR 0x03], ''oops'')\<rparr>"

definition restore_request :: ApiRequest where "restore_request = save_request\<lparr>rq_Bound := None, rq_Param := ''1''\<rparr>"

definition saved_console :: "lists Console" where
  "saved_console = fst (PutConfig list_gorm sample_process_env good_os ServerVersion True save_request console)"

definition later_ops :: "(ProcessEnv \<times> OsCalls \<times> console_op) list" where
  "later_ops = [(sample_process_env, good_os, SaveOp broken_request), (sample_process_env, good_os, CleanupOp)]"

text \<open>What these requests evaluate to, in one go.\<close>

lemma sample_requests:
  "snd (PutConfig list_gorm sample_process_env good_os ServerVersion True save_request console) = Some (ApiSaved 1)
   \<and> config_body save_request = Ok ([CHR 0x01], ''why'') \<and> actorFromRequest save_request = ''ann''
   \<and> config_body broken_request = Ok ([CHR 0x03], ''oops'')
   \<and> yaml_Unmarshal (pe_yaml sample_process_env) (str_bytes [CHR 0x03]) = None
   \<and> (case snd (PutConfig list_gorm sample_process_env good_os ServerVersion True broken_request console) of
        Some (ApiFail _ RevisionNotSaved) \<Rightarrow> False | _ \<Rightarrow> True)
   \<and> snd (RestoreRevision list_gorm sample_process_env good_os ServerVersion True restore_request
        (foldl (console_step list_gorm True) saved_console later_ops)) = Some (ApiSaved 4)
   \<and> rq_Param restore_request = decimal 1 \<and> byte_of_char CHR 0x01 = 1"
  by code_simp

lemma saved_Ok: "PutConfig list_gorm sample_process_env good_os ServerVersion True save_request console = (saved_console, Some (ApiSaved 1))"
  using sample_requests by (simp add: saved_console_def prod_eq_iff)


lemma refused_documents_stay_in_the_history_witness:
  "\<exists>row. list_revs (co_db (fst (PutConfig list_gorm sample_process_env good_os ServerVersion True broken_request console))) = [row]
     \<and> cr_YAML row = [CHR 0x03]"
proof -
  have b: "config_body broken_request = Ok ([CHR 0x03], ''oops'')"
    and y: "yaml_Unmarshal (pe_yaml sample_process_env) (str_bytes [CHR 0x03]) = None" using sample_requests by blast+
  have "case snd (PutConfig list_gorm sample_process_env good_os ServerVersion True broken_request console) of
      Some (ApiFail _ RevisionNotSaved) \<Rightarrow> False | _ \<Rightarrow> True" using sample_requests by blast
  moreover have "list_revs (co_db console) = []" by (simp add: console_def list_revs_def)
  ultimately show ?thesis
    using refused_documents_stay_in_the_history [OF list_gorm_ok b _ prod.collapse [symmetric], of sample_process_env good_os ServerVersion True console] y
    by (auto split: option.splits)
qed


end
