(* ===== verification/ClientCommand.thy ===== *)
theory ClientCommand
  imports ClientTargets Config
begin

text \<open>
  The command \<open>inlets client\<close> (\<^verbatim>\<open>cmd/inlets/client.go\<close>): how the flags and the configuration file become the options of
  the client. \<open>url.Parse\<close> is a parameter, as is the reading of the YAML file. A flag is \<open>None\<close> when it is not
  set, neither on the command line nor by its environment variable.
\<close>

section \<open>Inputs\<close>

record ClientFileConfig =
  cf_Type :: string
  cf_Upstream :: string
  cf_Port :: int
  cf_Token :: string
  cf_Credentials :: string
  cf_ClientID :: string
  cf_ClientSecret :: string
  cf_HTTP :: "(string \<times> (string \<times> string) option) option"   \<comment> \<open>\<open>subDomain\<close>, and user name and password of \<open>auth\<close>\<close>
  cf_TCPPort :: "int option"
  cf_Server :: string
  cf_Remote :: string
  cf_RemoteTCPPort :: int
  cf_HealthcheckInt :: int
  cf_ReportURL :: string
  cf_Legacy :: bool

text \<open>\<open>fl_config\<close> to \<open>fl_client_secret\<close> are flags of \<open>client\<close>, the others of its subcommands \<open>http\<close> and \<open>tcp\<close>.\<close>

record ClientFlags =
  fl_config :: string
  fl_token :: "string option"
  fl_credentials :: "string option"
  fl_server :: "string option"
  fl_remote :: "string option"
  fl_remote_tcp_port :: "int option"
  fl_healthcheck :: "int option"
  fl_report_url :: "string option"
  fl_legacy :: "bool option"
  fl_client_id :: "string option"
  fl_client_secret :: "string option"
  fl_args :: "string list"
  fl_sub_domain :: "string option"
  fl_username :: "string option"
  fl_password :: "string option"
  fl_port :: "int option"
  fl_env_sub_domain :: string

datatype client_command_error =
    ConfigUnreadable | BadUpstream | BadUpstreamPort | ServerEmpty | ServerUnparsable | ServerNotFull | ServerScheme
  | ServerQuery | ServerHost | ServerWithLegacy | RemoteWithoutLegacy | BothIdAndSecret | BadCredentials
  | CoordinatorNeedsAuth | OneUpstream | BadType | UpstreamRequired | PublicNeedsHttp

type_synonym 'a command_result = "(client_command_error, 'a) outcome"

section \<open>Arguments\<close>

text \<open>\<open>^(\d+|.+:\d+)$\<close>: the digits after the last colon, if there is one; a dot matches no line feed.\<close>

definition parseUpstreamArg :: "string \<Rightarrow> (string \<times> int) command_result" where
  "parseUpstreamArg arg =
     (let digits = (\<lambda>s. s \<noteq> '''' \<and> list_all is_digit s);
          pair = (case last_index CHR '':'' arg of
              Some i \<Rightarrow> i > 0 \<and> CHR 0x0A \<notin> set (take i arg) \<and> digits (drop (i + 1) arg) | None \<Rightarrow> False)
      in if \<not> (digits arg \<or> pair) then Err BadUpstream
         else if digits arg then (case Atoi arg of (p, ok) \<Rightarrow> if ok then Ok (''127.0.0.1'', p) else Err BadUpstreamPort)
         else case Split arg CHR '':'' of
           [h, p] \<Rightarrow> (case Atoi p of (p, ok) \<Rightarrow> if ok then Ok (h, p) else Err BadUpstreamPort)
         | _ \<Rightarrow> Err BadUpstream)"

text \<open>
  \<open>URL.String\<close> for a URL of scheme, host and path: \<open>escape\<close> of \<open>net/url\<close> in its modes for hosts and for paths. The
  path is taken for unescaped, so a percent sign in it is escaped again.
\<close>

definition url_escape :: "string \<Rightarrow> string \<Rightarrow> string" where
  "url_escape allowed s = concat (map (\<lambda>c. if unreserved c \<or> c \<in> set allowed then [c]
     else [CHR ''%'', upper_hex (of_char c div 16), upper_hex (of_char c mod 16)]) s)"

definition host_chars :: string where "host_chars = ''!$&()*+,;=:[]<>'' @ [CHR 0x27, CHR 0x22]"
definition path_chars :: string where "path_chars = ''$&+,/:;=@''"

definition escaped_path :: "string \<Rightarrow> string" where
  "escaped_path path = (if path = ''*'' then ''*'' else url_escape path_chars path)"

definition url_String :: "string \<Rightarrow> string \<Rightarrow> string \<Rightarrow> string" where
  "url_String scheme host path =
     (let p = escaped_path path in
      scheme @ ''://'' @ url_escape host_chars host @ (if p \<noteq> '''' \<and> hd p \<noteq> CHR ''/'' \<and> host \<noteq> '''' then ''/'' else '''') @ p)"

definition parseServerArg :: "(string \<Rightarrow> URL option) \<Rightarrow> string \<Rightarrow> string command_result" where
  "parseServerArg parse serverArg =
     (if TrimSpace serverArg = '''' then Err ServerEmpty
      else case parse (TrimSpace serverArg) of
        None \<Rightarrow> Err ServerUnparsable
      | Some u \<Rightarrow>
          if u_Scheme u = '''' \<or> u_Host u = '''' then Err ServerNotFull
          else
            let scheme = ToLower (u_Scheme u) in
            if scheme \<noteq> ''http'' \<and> scheme \<noteq> ''https'' then Err ServerScheme
            else if u_RawQuery u \<noteq> '''' \<or> u_Fragment u \<noteq> '''' then Err ServerQuery
            else (case split_url_host (u_Host u) of (host, port) \<Rightarrow>
              if host = '''' then Err ServerHost
              else
                let port = (if port = '''' then (if scheme = ''https'' then ''443'' else ''80'') else port);
                    path = TrimSuffix (u_EscapedPath u) ''/'';
                    path = (if path = ''/'' then '''' else path)
                in Ok (url_String scheme (JoinHostPort host port) path)))"

definition validateTransportMode :: "bool \<Rightarrow> bool \<Rightarrow> bool \<Rightarrow> bool \<Rightarrow> unit command_result" where
  "validateTransportMode legacy serverConfigured remoteConfigured remoteTCPConfigured =
     (if serverConfigured \<and> legacy then Err ServerWithLegacy
      else if \<not> legacy \<and> (remoteConfigured \<or> remoteTCPConfigured) then Err RemoteWithoutLegacy else Ok ())"

definition split_credentials :: "string \<Rightarrow> (string \<times> string) option" where
  "split_credentials cred =
     (if CHR '':'' \<in> set cred
      then Some (takeWhile (\<lambda>c. c \<noteq> CHR '':'') cred, tl (dropWhile (\<lambda>c. c \<noteq> CHR '':'') cred)) else None)"

definition resolveClientAuth :: "string \<Rightarrow> string \<Rightarrow> string \<Rightarrow> string \<Rightarrow> (string \<times> string \<times> string) command_result" where
  "resolveClientAuth clientID clientSecret credentials token =
     (let cid = TrimSpace clientID; csec = TrimSpace clientSecret; cred = TrimSpace credentials in
      if cid \<noteq> '''' \<and> csec \<noteq> '''' then Ok (''credentials'', cid, csec)
      else if cid \<noteq> '''' \<or> csec \<noteq> '''' then Err BothIdAndSecret
      else if cred \<noteq> '''' then
        (case split_credentials cred of
           None \<Rightarrow> Err BadCredentials
         | Some (i, s) \<Rightarrow>
             if TrimSpace i = '''' \<or> TrimSpace s = '''' then Err BadCredentials else Ok (''credentials'', TrimSpace i, TrimSpace s))
      else if TrimSpace token \<noteq> '''' then Ok (''token'', '''', '''')
      else Ok (''public'', '''', ''''))"

definition mergeStringFlag :: "string option \<Rightarrow> string \<Rightarrow> string" where
  "mergeStringFlag flag fileValue = (case flag of Some v \<Rightarrow> TrimSpace v | None \<Rightarrow> TrimSpace fileValue)"

section \<open>The options\<close>

text \<open>The local variables of \<open>buildClientOptions\<close>.\<close>

record Draft =
  dr_tunnelType :: string
  dr_upstream :: "string \<times> int"
  dr_port :: int
  dr_subDomain :: string
  dr_token :: string
  dr_credentials :: string
  dr_server :: string
  dr_remote :: string
  dr_remoteTCPPort :: int
  dr_healthcheckInt :: int
  dr_reportURL :: string
  dr_legacy :: bool
  dr_user :: string
  dr_pass :: string
  dr_clientID :: string
  dr_clientSecret :: string
  dr_serverConfigured :: bool
  dr_remoteConfigured :: bool
  dr_remoteTCPConfigured :: bool

definition initial_draft :: Draft where
  "initial_draft = \<lparr>dr_tunnelType = '''', dr_upstream = ('''', 0), dr_port = 0, dr_subDomain = '''', dr_token = '''',
     dr_credentials = '''', dr_server = '''', dr_remote = ''inlets.zcorky.com:443'', dr_remoteTCPPort = 8443,
     dr_healthcheckInt = 30000, dr_reportURL = '''', dr_legacy = False, dr_user = '''', dr_pass = '''', dr_clientID = '''',
     dr_clientSecret = '''', dr_serverConfigured = False, dr_remoteConfigured = False, dr_remoteTCPConfigured = False\<rparr>"

definition read_file :: "ClientFileConfig \<Rightarrow> Draft \<Rightarrow> Draft command_result" where
  "read_file cfg d =
     (let cfgType = TrimSpace (cf_Type cfg); up = TrimSpace (cf_Upstream cfg) in
      obind (if up = '''' then Ok (dr_upstream d) else parseUpstreamArg up) (\<lambda>upstream.
        Ok (d\<lparr>dr_tunnelType := (if cfgType = '''' then dr_tunnelType d else cfgType), dr_upstream := upstream,
          dr_port := (case cf_TCPPort cfg of
              Some p \<Rightarrow> if p > 0 then p else if cf_Port cfg > 0 \<and> EqualFold cfgType ''tcp'' then cf_Port cfg else dr_port d
            | None \<Rightarrow> if cf_Port cfg > 0 \<and> EqualFold cfgType ''tcp'' then cf_Port cfg else dr_port d),
          dr_token := TrimSpace (cf_Token cfg), dr_credentials := TrimSpace (cf_Credentials cfg),
          dr_clientID := TrimSpace (cf_ClientID cfg), dr_clientSecret := TrimSpace (cf_ClientSecret cfg),
          dr_server := (if TrimSpace (cf_Server cfg) = '''' then dr_server d else TrimSpace (cf_Server cfg)),
          dr_serverConfigured := (dr_serverConfigured d \<or> TrimSpace (cf_Server cfg) \<noteq> ''''),
          dr_remote := (if TrimSpace (cf_Remote cfg) = '''' then dr_remote d else TrimSpace (cf_Remote cfg)),
          dr_remoteConfigured := (dr_remoteConfigured d \<or> TrimSpace (cf_Remote cfg) \<noteq> ''''),
          dr_remoteTCPPort := (if cf_RemoteTCPPort cfg > 0 then cf_RemoteTCPPort cfg else dr_remoteTCPPort d),
          dr_remoteTCPConfigured := (dr_remoteTCPConfigured d \<or> cf_RemoteTCPPort cfg > 0),
          dr_healthcheckInt := (if cf_HealthcheckInt cfg > 0 then cf_HealthcheckInt cfg else dr_healthcheckInt d),
          dr_reportURL := TrimSpace (cf_ReportURL cfg), dr_legacy := cf_Legacy cfg,
          dr_user := (case cf_HTTP cfg of Some (_, Some (u, _)) \<Rightarrow> TrimSpace u | _ \<Rightarrow> dr_user d),
          dr_pass := (case cf_HTTP cfg of Some (_, Some (_, p)) \<Rightarrow> TrimSpace p | _ \<Rightarrow> dr_pass d),
          dr_subDomain := (case cf_HTTP cfg of
              Some (sub, _) \<Rightarrow> if cfgType = '''' \<or> EqualFold cfgType ''http'' then TrimSpace sub else dr_subDomain d
            | None \<Rightarrow> dr_subDomain d)\<rparr>)))"

definition flag_or :: "'a option \<Rightarrow> 'a \<Rightarrow> 'a" where
  "flag_or flag v = (case flag of Some x \<Rightarrow> x | None \<Rightarrow> v)"

definition read_flags :: "ClientFlags \<Rightarrow> Draft \<Rightarrow> Draft" where
  "read_flags fl d =
     d\<lparr>dr_token := flag_or (fl_token fl) (dr_token d), dr_credentials := flag_or (fl_credentials fl) (dr_credentials d),
       dr_server := flag_or (fl_server fl) (dr_server d), dr_serverConfigured := (dr_serverConfigured d \<or> fl_server fl \<noteq> None),
       dr_remote := flag_or (fl_remote fl) (dr_remote d), dr_remoteConfigured := (dr_remoteConfigured d \<or> fl_remote fl \<noteq> None),
       dr_remoteTCPPort := flag_or (fl_remote_tcp_port fl) (dr_remoteTCPPort d),
       dr_remoteTCPConfigured := (dr_remoteTCPConfigured d \<or> fl_remote_tcp_port fl \<noteq> None),
       dr_healthcheckInt := flag_or (fl_healthcheck fl) (dr_healthcheckInt d),
       dr_reportURL := flag_or (fl_report_url fl) (dr_reportURL d), dr_legacy := flag_or (fl_legacy fl) (dr_legacy d),
       dr_clientID := mergeStringFlag (fl_client_id fl) (dr_clientID d),
       dr_clientSecret := mergeStringFlag (fl_client_secret fl) (dr_clientSecret d)\<rparr>"

text \<open>Which server: normalised when it was configured, the default for the new protocol when not.\<close>

definition resolve_server :: "(string \<Rightarrow> URL option) \<Rightarrow> Draft \<Rightarrow> Draft command_result" where
  "resolve_server parse d =
     obind (if dr_serverConfigured d then parseServerArg parse (dr_server d) else Ok (dr_server d)) (\<lambda>server.
     obind (validateTransportMode (dr_legacy d) (dr_serverConfigured d) (dr_remoteConfigured d) (dr_remoteTCPConfigured d)) (\<lambda>_.
       Ok (d\<lparr>dr_server := (if \<not> dr_legacy d \<and> \<not> dr_serverConfigured d then ''https://inlets.zcorky.com'' else server)\<rparr>)))"

definition coordinator_auth :: "string \<Rightarrow> Draft \<Rightarrow> unit command_result" where
  "coordinator_auth sub d =
     (if sub \<noteq> '''' then Ok ()
      else obind (resolveClientAuth (dr_clientID d) (dr_clientSecret d) (dr_credentials d) (dr_token d)) (\<lambda>(authType, _).
        if authType = ''public'' then Err CoordinatorNeedsAuth else Ok ()))"

definition read_subcommand :: "ClientFlags \<Rightarrow> string \<Rightarrow> Draft \<Rightarrow> Draft command_result" where
  "read_subcommand fl sub d =
     (if sub = ''http'' \<or> sub = ''tcp'' then
        (case fl_args fl of
           [arg] \<Rightarrow> obind (parseUpstreamArg arg) (\<lambda>upstream.
             let d = d\<lparr>dr_upstream := upstream, dr_tunnelType := sub\<rparr> in
             Ok (if sub = ''http''
                 then d\<lparr>dr_subDomain := flag_or (fl_sub_domain fl) (dr_subDomain d), dr_user := flag_or (fl_username fl) (dr_user d),
                        dr_pass := flag_or (fl_password fl) (dr_pass d)\<rparr>
                 else d))
         | _ \<Rightarrow> Err OneUpstream)
      else Ok d)"

definition check_type :: "string \<Rightarrow> Draft \<Rightarrow> unit command_result" where
  "check_type sub d =
     (let known = (dr_tunnelType d = ''http'' \<or> dr_tunnelType d = ''tcp'') in
      if sub \<noteq> '''' \<and> \<not> known then Err BadType
      else if dr_tunnelType d \<noteq> '''' \<and> \<not> known then Err BadType
      else if dr_tunnelType d \<noteq> '''' \<and> snd (dr_upstream d) \<le> 0 then Err UpstreamRequired else Ok ())"

definition finish_draft :: "ClientFlags \<Rightarrow> string \<Rightarrow> Draft \<Rightarrow> Draft" where
  "finish_draft fl sub d =
     (let d = (if dr_tunnelType d = ''http'' \<and> TrimSpace (dr_subDomain d) = '''' \<and> sub = ''''
               then d\<lparr>dr_subDomain := TrimSpace (fl_env_sub_domain fl)\<rparr> else d);
          d = (if dr_tunnelType d \<noteq> ''http'' then d\<lparr>dr_subDomain := '''', dr_user := '''', dr_pass := ''''\<rparr> else d)
      in if sub = ''tcp'' then d\<lparr>dr_port := flag_or (fl_port fl) (dr_port d)\<rparr> else d)"

definition options_of :: "Draft \<Rightarrow> string \<times> string \<times> string \<Rightarrow> Options" where
  "options_of d auth =
     (case auth of (authType, clientId, clientSecret) \<Rightarrow>
      \<lparr>op_Type = dr_tunnelType d, op_UpstreamHost = fst (dr_upstream d), op_UpstreamPort = snd (dr_upstream d),
       op_UpstreamUsername = (if dr_tunnelType d = ''http'' then dr_user d else ''''),
       op_UpstreamPassword = (if dr_tunnelType d = ''http'' then dr_pass d else ''''), op_AuthType = authType,
       op_Token = dr_token d, op_ClientId = clientId, op_ClientSecret = clientSecret, op_SubDomain = dr_subDomain d,
       op_TunnelPort = dr_port d, op_Server = dr_server d, op_Remote = dr_remote d, op_RemoteTCPPort = dr_remoteTCPPort d,
       op_HealthcheckInt = dr_healthcheckInt d, op_ReportURL = dr_reportURL d,
       op_Version = (if dr_legacy d then ''1.2.0'' else ''2.0.0''), op_ReconnectMaxRetries = 0, op_ReconnectInterval = 0,
       op_OpaqueChild = False\<rparr>)"

definition buildClientOptions ::
    "(string \<Rightarrow> URL option) \<Rightarrow> (string \<Rightarrow> ClientFileConfig option) \<Rightarrow> ClientFlags \<Rightarrow> string \<Rightarrow> Options command_result" where
  "buildClientOptions parse load fl sub =
     (let configPath = TrimSpace (fl_config fl) in
      obind (if configPath = '''' then Ok initial_draft
             else case load configPath of None \<Rightarrow> Err ConfigUnreadable | Some cfg \<Rightarrow> read_file cfg initial_draft) (\<lambda>d.
      obind (resolve_server parse (read_flags fl d)) (\<lambda>d.
      obind (coordinator_auth sub d) (\<lambda>_.
      obind (read_subcommand fl sub d) (\<lambda>d.
      obind (check_type sub d) (\<lambda>_.
        let d = finish_draft fl sub d in
        obind (resolveClientAuth (dr_clientID d) (dr_clientSecret d) (dr_credentials d) (dr_token d)) (\<lambda>auth.
          if fst auth = ''public'' \<and> dr_tunnelType d \<noteq> ''http'' then Err PublicNeedsHttp else Ok (options_of d auth))))))))"

end
