(* ===== verification/ClientCommandLaws.thy ===== *)
theory ClientCommandLaws
  imports ClientCommand ClientSession
begin

text \<open>
  What the options of \<open>inlets client\<close> satisfy, whatever the flags and the file are: they are consistent with one
  another, they fix the protocol that the client speaks, and a server given by an \<open>https\<close> URL is only ever dialled over TLS.
\<close>

section \<open>Strings\<close>

lemma HasPrefix_append [simp]: "HasPrefix (p @ s) p"
  by (induction p) auto

lemma HasPrefix_ex: "HasPrefix s p \<longleftrightarrow> (\<exists>x. s = p @ x)"
  by (induction s p rule: HasPrefix.induct) auto

lemma TrimSpace_keeps_start:
  assumes "p \<noteq> []" "\<not> is_space (hd p)" "\<not> is_space (last p)"
  shows "\<exists>y. TrimSpace (p @ x) = p @ y"
proof -
  have "trim_left (p @ x) = p @ x" using assms(1,2) by (cases p) (auto simp: trim_left_def)
  moreover have "trim_left (rev x @ rev p) = dropWhile is_space (rev x) @ rev p"
    using assms(1,3) by (cases p rule: rev_cases) (auto simp: trim_left_def dropWhile_append)
  ultimately show ?thesis by (simp add: TrimSpace_def)
qed

lemma scheme_trimmed:
  "\<exists>y. TrimSpace (''https://'' @ x) = ''https://'' @ y" "\<exists>y. TrimSpace (''http://'' @ x) = ''http://'' @ y"
  by (rule TrimSpace_keeps_start; simp add: is_space_def)+

section \<open>The drafts\<close>

lemma initial_draft_server: "dr_server initial_draft = []" "\<not> dr_serverConfigured initial_draft" "dr_tunnelType initial_draft = []"
  by (simp_all add: initial_draft_def)

lemma read_file_server:
  assumes "read_file cfg d = Ok d'" "\<not> dr_serverConfigured d \<longrightarrow> dr_server d = []"
  shows "\<not> dr_serverConfigured d' \<longrightarrow> dr_server d' = []"
  using assms by (auto simp: read_file_def Let_def outcome_simps)

lemma read_flags_server:
  "(\<not> dr_serverConfigured d \<longrightarrow> dr_server d = []) \<Longrightarrow>
   \<not> dr_serverConfigured (read_flags fl d) \<longrightarrow> dr_server (read_flags fl d) = []"
  by (auto simp: read_flags_def flag_or_def)

lemma parseServerArg_prefix:
  "parseServerArg parse arg = Ok s \<Longrightarrow> HasPrefix s ''http://'' \<or> HasPrefix s ''https://''"
  by (auto simp: parseServerArg_def url_String_def Let_def HasPrefix_ex split: if_splits option.splits prod.splits)

lemma resolve_server_cases:
  assumes "resolve_server parse d = Ok d'" "\<not> dr_serverConfigured d \<longrightarrow> dr_server d = []"
  shows "dr_legacy d' = dr_legacy d"
    "if dr_legacy d then dr_server d' = [] else HasPrefix (dr_server d') ''http://'' \<or> HasPrefix (dr_server d') ''https://''"
  using assms parseServerArg_prefix [of parse "dr_server d"]
  by (auto simp: resolve_server_def validateTransportMode_def outcome_simps split: if_splits)

lemma read_subcommand_keeps:
  assumes "read_subcommand fl sub d = Ok d'"
  shows "dr_legacy d' = dr_legacy d" "dr_server d' = dr_server d" "sub = ''http'' \<or> sub = ''tcp'' \<Longrightarrow> dr_tunnelType d' = sub"
    "dr_clientID d' = dr_clientID d" "dr_clientSecret d' = dr_clientSecret d" "dr_credentials d' = dr_credentials d" "dr_token d' = dr_token d"
  using assms by (auto simp: read_subcommand_def Let_def outcome_simps split: if_splits list.splits)

lemma finish_draft_keeps:
  "dr_legacy (finish_draft fl sub d) = dr_legacy d" "dr_server (finish_draft fl sub d) = dr_server d"
  "dr_tunnelType (finish_draft fl sub d) = dr_tunnelType d" "dr_upstream (finish_draft fl sub d) = dr_upstream d"
  "dr_clientID (finish_draft fl sub d) = dr_clientID d" "dr_clientSecret (finish_draft fl sub d) = dr_clientSecret d"
  "dr_credentials (finish_draft fl sub d) = dr_credentials d" "dr_token (finish_draft fl sub d) = dr_token d"
  "dr_tunnelType d \<noteq> ''http'' \<Longrightarrow> dr_subDomain (finish_draft fl sub d) = []"
  by (simp_all add: finish_draft_def Let_def)

lemma resolveClientAuth_cases:
  assumes "resolveClientAuth i s cred token = Ok (auth, cid, csec)"
  shows "(auth = ''credentials'' \<and> cid \<noteq> [] \<and> csec \<noteq> [])
    \<or> (auth = ''token'' \<and> TrimSpace token \<noteq> [] \<and> cid = [] \<and> csec = [])
    \<or> (auth = ''public'' \<and> TrimSpace token = [] \<and> cid = [] \<and> csec = [])"
  using assms by (auto simp: resolveClientAuth_def Let_def split: if_splits option.splits)

section \<open>The options\<close>

definition consistent_options :: "string \<Rightarrow> Options \<Rightarrow> bool" where
  "consistent_options sub op \<longleftrightarrow>
     op_Type op \<in> {'''', ''http'', ''tcp''}
     \<and> (if sub = '''' then op_AuthType op \<noteq> ''public'' else op_Type op = sub)
     \<and> (op_Type op = '''' \<or> op_UpstreamPort op > 0)
     \<and> (op_Type op = ''http'' \<or> (op_SubDomain op = '''' \<and> op_UpstreamUsername op = '''' \<and> op_UpstreamPassword op = ''''))
     \<and> (if op_AuthType op = ''credentials'' then op_ClientId op \<noteq> '''' \<and> op_ClientSecret op \<noteq> ''''
        else op_ClientId op = '''' \<and> op_ClientSecret op = '''' \<and>
          (if TrimSpace (op_Token op) = '''' then op_AuthType op = ''public'' \<and> op_Type op = ''http'' else op_AuthType op = ''token''))
     \<and> (op_Version op = ''1.2.0'' \<and> op_Server op = ''''
        \<or> op_Version op = ''2.0.0'' \<and> (HasPrefix (op_Server op) ''http://'' \<or> HasPrefix (op_Server op) ''https://''))"

lemma options_consistent:
  assumes "buildClientOptions parse load fl sub = Ok op" "sub \<in> {'''', ''http'', ''tcp''}"
  shows "consistent_options sub op"
proof -
  let ?cfg = "TrimSpace (fl_config fl)"
  obtain d0 d1 d2 auth where
    d0: "(if ?cfg = '''' then Ok initial_draft else case load ?cfg of None \<Rightarrow> Err ConfigUnreadable | Some cfg \<Rightarrow> read_file cfg initial_draft) = Ok d0"
    and d1: "resolve_server parse (read_flags fl d0) = Ok d1" and coord: "coordinator_auth sub d1 = Ok ()"
    and d2: "read_subcommand fl sub d1 = Ok d2" and ty: "check_type sub d2 = Ok ()"
    and auth: "resolveClientAuth (dr_clientID (finish_draft fl sub d2)) (dr_clientSecret (finish_draft fl sub d2))
        (dr_credentials (finish_draft fl sub d2)) (dr_token (finish_draft fl sub d2)) = Ok auth"
    and pub: "fst auth = ''public'' \<Longrightarrow> dr_tunnelType (finish_draft fl sub d2) = ''http''"
    and op: "op = options_of (finish_draft fl sub d2) auth"
    using assms(1) by (auto simp: buildClientOptions_def Let_def outcome_simps split: if_splits)
  let ?d = "finish_draft fl sub d2"
  have "\<not> dr_serverConfigured d0 \<longrightarrow> dr_server d0 = []"
    using d0 initial_draft_server read_file_server by (auto split: if_splits option.splits)
  note rs = resolve_server_cases [OF d1 read_flags_server [OF this]]
  note k = read_subcommand_keeps [OF d2] and f = finish_draft_keeps [where fl = fl and sub = sub and d = d2]
  have server: "if dr_legacy ?d then dr_server ?d = [] else HasPrefix (dr_server ?d) ''http://'' \<or> HasPrefix (dr_server ?d) ''https://''"
    using rs k(1,2) f(1,2) by auto
  have kind: "dr_tunnelType ?d \<in> {'''', ''http'', ''tcp''}" "dr_tunnelType ?d = '''' \<or> snd (dr_upstream ?d) > 0"
    using ty f(3,4) by (auto simp: check_type_def Let_def split: if_splits)
  have sub: "sub = '''' \<or> dr_tunnelType ?d = sub" using assms(2) k(3) f(3) by auto
  obtain a i s where a: "auth = (a, i, s)" by (cases auth) auto
  note au = resolveClientAuth_cases [OF auth [unfolded a]]
  have coord': "sub = '''' \<Longrightarrow> a \<noteq> ''public''"
    using coord auth a k(4-7) f(5-8) by (auto simp: coordinator_auth_def outcome_simps split: if_splits)
  have o: "op_Type op = dr_tunnelType ?d" "op_AuthType op = a" "op_UpstreamPort op = snd (dr_upstream ?d)" "op_SubDomain op = dr_subDomain ?d"
    "op_ClientId op = i" "op_ClientSecret op = s" "op_Token op = dr_token ?d" "op_Server op = dr_server ?d"
    "op_Version op = (if dr_legacy ?d then ''1.2.0'' else ''2.0.0'')"
    "op_Type op \<noteq> ''http'' \<Longrightarrow> op_UpstreamUsername op = [] \<and> op_UpstreamPassword op = []"
    by (simp_all add: op options_of_def a)
  show ?thesis
    unfolding consistent_options_def
  proof (intro conjI)
    show "op_Type op \<in> {[], ''http'', ''tcp''}" "op_Type op = [] \<or> op_UpstreamPort op > 0" using kind by (simp_all only: o)
    show "if sub = [] then op_AuthType op \<noteq> ''public'' else op_Type op = sub" unfolding o using sub coord' by (cases "sub = []") simp_all
    show "op_Type op = ''http'' \<or> (op_SubDomain op = [] \<and> op_UpstreamUsername op = [] \<and> op_UpstreamPassword op = [])"
      using o(10) f(9) unfolding o(1,4) f(3) by blast
    show "if op_AuthType op = ''credentials'' then op_ClientId op \<noteq> [] \<and> op_ClientSecret op \<noteq> []
        else op_ClientId op = [] \<and> op_ClientSecret op = [] \<and>
          (if TrimSpace (op_Token op) = [] then op_AuthType op = ''public'' \<and> op_Type op = ''http'' else op_AuthType op = ''token'')"
      using au pub [unfolded a fst_conv] unfolding o(1-8) by (elim disjE conjE) simp_all
    show "op_Version op = ''1.2.0'' \<and> op_Server op = []
        \<or> op_Version op = ''2.0.0'' \<and> (HasPrefix (op_Server op) ''http://'' \<or> HasPrefix (op_Server op) ''https://'')"
      using server unfolding o(8,9) by (cases "dr_legacy ?d") simp_all
  qed
qed

text \<open>C37: Whatever its flags, its environment and its file are, the command starts a client only with options that
  fit together: a known type, an upstream port for it, exactly the credentials that its kind of authentication
  needs, public access only for an HTTP tunnel, and either the new protocol with a full URL of the server or
  the old one without.\<close>

theorem client_options_are_consistent:
  assumes "buildClientOptions parse load fl sub = Ok op" "sub \<in> {'''', ''http'', ''tcp''}"
  shows "consistent_options sub op"
  by (rule options_consistent [OF assms])

section \<open>Where the client connects\<close>

lemma version_order: "compareVersion ''1.2.0'' ''2.0.0'' < 0" "compareVersion ''2.0.0'' ''2.0.0'' = 0"
  by code_simp+

lemma from_server:
  assumes "buildConnectionTargetsFromServer parse s = Ok t"
  shows "\<not> ct_allowLegacyFallback t"
    "parse (TrimSpace s) = Some u \<Longrightarrow> u_Scheme u = ''https'' \<Longrightarrow>
     HasPrefix (ct_monitorURL t) ''wss://'' \<and> HasPrefix (ct_legacyURL t) ''wss://'' \<and> HasPrefix (ct_dataBaseURL t) ''wss://''"
proof -
  have low: "ToLower ''https'' = ''https''" by code_simp
  show "\<not> ct_allowLegacyFallback t"
    using assms by (auto simp: buildConnectionTargetsFromServer_def targets_at_def Let_def split: option.splits if_splits prod.splits)
  assume "parse (TrimSpace s) = Some u" "u_Scheme u = ''https''"
  with assms low show "HasPrefix (ct_monitorURL t) ''wss://'' \<and> HasPrefix (ct_legacyURL t) ''wss://'' \<and> HasPrefix (ct_dataBaseURL t) ''wss://''"
    by (auto simp: buildConnectionTargetsFromServer_def targets_at_def Let_def split: option.splits if_splits prod.splits)
qed

lemma from_remote: "buildConnectionTargetsFromRemote r = Ok t \<Longrightarrow> ct_allowLegacyFallback t"
  by (auto simp: buildConnectionTargetsFromRemote_def Let_def split: option.splits if_splits prod.splits)


text \<open>A path with percent escapes is escaped a second time.\<close>

lemma percent_paths_are_escaped_twice:
  assumes "parse arg = Some \<lparr>u_Scheme = ''https'', u_Host = ''h'', u_RawQuery = '''', u_Fragment = '''', u_EscapedPath = ''/a%20b''\<rparr>"
    and "TrimSpace arg = arg" "arg \<noteq> ''''"
  shows "parseServerArg parse arg = Ok ''https://h:443/a%2520b''"
proof -
  have "url_String ''https'' (JoinHostPort ''h'' ''443'') ''/a%20b'' = ''https://h:443/a%2520b'' \<and> split_url_host ''h'' = (''h'', [])
    \<and> ToLower ''https'' = ''https'' \<and> TrimSuffix ''/a%20b'' ''/'' = ''/a%20b''" by code_simp
  then show ?thesis using assms by (simp add: parseServerArg_def)
qed


section \<open>A command line\<close>

definition https_parse :: "string \<Rightarrow> URL option" where
  "https_parse s = (if HasPrefix s ''https://''
     then Some \<lparr>u_Scheme = ''https'', u_Host = takeWhile (\<lambda>c. c \<noteq> CHR ''/'') (drop 8 s), u_RawQuery = '''', u_Fragment = '''',
       u_EscapedPath = dropWhile (\<lambda>c. c \<noteq> CHR ''/'') (drop 8 s)\<rparr>
     else None)"

definition command_line :: ClientFlags where
  "command_line = \<lparr>fl_config = '''', fl_token = None, fl_credentials = None, fl_server = Some ''https://t.io/'', fl_remote = None,
     fl_remote_tcp_port = None, fl_healthcheck = None, fl_report_url = None, fl_legacy = None, fl_client_id = None,
     fl_client_secret = None, fl_args = [''3000''], fl_sub_domain = Some ''demo'', fl_username = None, fl_password = None,
     fl_port = None, fl_env_sub_domain = ''''\<rparr>"

definition command_options :: Options where
  "command_options = (case buildClientOptions https_parse (\<lambda>p. None) command_line ''http'' of Ok op \<Rightarrow> op)"

text \<open>What the command line evaluates to, in one go.\<close>

lemma sample_command:
  "is_Ok (buildClientOptions https_parse (\<lambda>p. None) command_line ''http'') \<and> op_AuthType command_options = ''public''
   \<and> is_Ok (buildConnectionTargets https_parse command_options)
   \<and> HasPrefix (op_Server command_options) ''https://'' \<and> compareVersion (op_Version command_options) ''2.0.0'' \<ge> 0"
  by code_simp

lemma command_options_Ok: "buildClientOptions https_parse (\<lambda>p. None) command_line ''http'' = Ok command_options"
  using sample_command
  by (cases "buildClientOptions https_parse (\<lambda>p. None) command_line ''http''") (simp_all add: command_options_def)

lemma client_options_are_consistent_witness:
  "consistent_options ''http'' command_options \<and> op_AuthType command_options = ''public''"
proof -
  have "consistent_options ''http'' command_options" by (rule client_options_are_consistent [OF command_options_Ok]) simp
  with sample_command show ?thesis by blast
qed


end
