(* ===== verification/TcpForward.thy ===== *)
theory TcpForward
  imports Prelude
begin

text \<open>
  The command \<open>inlets forward\<close> (\<^verbatim>\<open>internal/forward/\<close>): every accepted connection is joined to a connection to the
  target by two goroutines that copy bytes, one for each direction. What the operating system answers, the result of the
  dial and of every read and write, is given by the events.
\<close>

section \<open>Copying\<close>

datatype read_event = Got "byte list" | EndOfInput | ReadError

text \<open>
  A write transmits everything or only some bytes before it fails. On a connection that this process has closed a read fails and
  a write reports the use of a closed connection; a nil connection fails in every call.
\<close>

datatype write_event = Wrote | Failed nat

datatype conn = NoConn | Open | Closed

record Forwarding =
  fw_source :: conn
  fw_target :: conn
  fw_up :: bool
  fw_down :: bool
  fw_sent :: "byte list"
  fw_returned :: "byte list"
  fw_closed :: bool

datatype copy_result = Continue | Stop | StopAndClose | StopCloseAndDone

text \<open>One round of \<open>Copy\<close>: the bytes written to \<open>dst\<close>, and what becomes of the loop and of \<open>src\<close>.\<close>

definition copy_round :: "conn \<Rightarrow> conn \<Rightarrow> read_event \<Rightarrow> write_event \<Rightarrow> byte list \<times> copy_result" where
  "copy_round src dst r w =
     (case (if src = Open then r else ReadError) of
        EndOfInput \<Rightarrow> ([], StopAndClose)
      | ReadError \<Rightarrow> ([], Stop)
      | Got data \<Rightarrow>
          (case dst of
             Closed \<Rightarrow> ([], StopCloseAndDone)
           | NoConn \<Rightarrow> ([], Stop)
           | Open \<Rightarrow> (case w of Wrote \<Rightarrow> (data, Continue) | Failed n \<Rightarrow> (take n data, Stop))))"

definition closed_by :: "copy_result \<Rightarrow> conn \<Rightarrow> conn" where
  "closed_by res c = (if res \<in> {StopAndClose, StopCloseAndDone} then Closed else c)"

datatype copy_event = Up read_event write_event | Down read_event write_event

text \<open>\<open>Client.Connect\<close>: the two loops; the second tells \<open>Client.Close\<close> when it is done.\<close>

fun copy_step :: "Forwarding \<Rightarrow> copy_event \<Rightarrow> Forwarding" where
  "copy_step s (Up r w) =
     (if \<not> fw_up s then s
      else case copy_round (fw_source s) (fw_target s) r w of (written, res) \<Rightarrow>
        s\<lparr>fw_sent := fw_sent s @ written, fw_source := closed_by res (fw_source s), fw_up := (res = Continue)\<rparr>)"
| "copy_step s (Down r w) =
     (if \<not> fw_down s then s
      else case copy_round (fw_target s) (fw_source s) r w of (written, res) \<Rightarrow>
        s\<lparr>fw_returned := fw_returned s @ written, fw_target := closed_by res (fw_target s), fw_down := (res = Continue),
          fw_closed := (fw_closed s \<or> res = StopCloseAndDone)\<rparr>)"

text \<open>\<open>waitConnection\<close> and \<open>Client.create\<close>: a dial that fails is only logged, and the loops start with a nil connection.\<close>

definition forward_connect :: "bool \<Rightarrow> Forwarding" where
  "forward_connect dialled =
     \<lparr>fw_source = Open, fw_target = (if dialled then Open else NoConn), fw_up = True, fw_down = True, fw_sent = [], fw_returned = [], fw_closed = False\<rparr>"

section \<open>What the relay does\<close>

fun up_data :: "copy_event list \<Rightarrow> byte list" where
  "up_data [] = []"
| "up_data (Up (Got d) w # es) = d @ up_data es"
| "up_data (_ # es) = up_data es"

fun down_data :: "copy_event list \<Rightarrow> byte list" where
  "down_data [] = []"
| "down_data (Down (Got d) w # es) = d @ down_data es"
| "down_data (_ # es) = down_data es"

lemma up_data_append: "up_data (xs @ ys) = up_data xs @ up_data ys"
  by (induction xs rule: up_data.induct) simp_all

lemma down_data_append: "down_data (xs @ ys) = down_data xs @ down_data ys"
  by (induction xs rule: down_data.induct) simp_all

lemmas data_append = up_data_append down_data_append

text \<open>Reads and writes that succeed.\<close>

fun smooth :: "copy_event \<Rightarrow> bool" where
  "smooth (Up (Got d) Wrote) = True"
| "smooth (Down (Got d) Wrote) = True"
| "smooth _ = False"

definition forward_inv :: "copy_event list \<Rightarrow> Forwarding \<Rightarrow> bool" where
  "forward_inv es s \<longleftrightarrow>
     (\<exists>rest. up_data es = fw_sent s @ rest \<and> (fw_up s \<longrightarrow> rest = []))
     \<and> (\<exists>rest. down_data es = fw_returned s @ rest \<and> (fw_down s \<longrightarrow> rest = []))"

lemma copy_step_inv: "forward_inv es s \<Longrightarrow> forward_inv (es @ [e]) (copy_step s e)"
proof -
  assume inv: "forward_inv es s"
  have round: "case copy_round a b r w of (written, res) \<Rightarrow>
      \<exists>rest. (case r of Got d \<Rightarrow> d | _ \<Rightarrow> []) = written @ rest \<and> (res = Continue \<longrightarrow> rest = [])" for a b r w
    by (auto simp: copy_round_def split: read_event.splits conn.splits write_event.splits)
       (metis append_take_drop_id)+
  show ?thesis
  proof (cases e)
    case (Up r w)
    have d: "up_data (es @ [Up r w]) = up_data es @ (case r of Got d \<Rightarrow> d | _ \<Rightarrow> [])" "down_data (es @ [Up r w]) = down_data es"
      by (cases r; simp add: data_append)+
    show ?thesis
      using inv round [where a = "fw_source s" and b = "fw_target s" and r = r and w = w] unfolding forward_inv_def Up d
      by (auto split: prod.splits)
  next
    case (Down r w)
    have d: "down_data (es @ [Down r w]) = down_data es @ (case r of Got d \<Rightarrow> d | _ \<Rightarrow> [])" "up_data (es @ [Down r w]) = up_data es"
      by (cases r; simp add: data_append)+
    show ?thesis
      using inv round [where a = "fw_target s" and b = "fw_source s" and r = r and w = w] unfolding forward_inv_def Down d
      by (auto split: prod.splits)
  qed
qed

lemma copy_run_inv: "forward_inv es (foldl copy_step (forward_connect dialled) es)"
proof (induction es rule: rev_induct)
  case Nil
  show ?case by (simp add: forward_inv_def forward_connect_def)
next
  case (snoc e es)
  from copy_step_inv [OF this] show ?case by simp
qed

lemma smooth_run:
  "\<forall>e\<in>set es. smooth e \<Longrightarrow> foldl copy_step (forward_connect True) es
     = (forward_connect True)\<lparr>fw_sent := up_data es, fw_returned := down_data es\<rparr>"
proof (induction es rule: rev_induct)
  case (snoc e es)
  then have ih: "foldl copy_step (forward_connect True) es = (forward_connect True)\<lparr>fw_sent := up_data es, fw_returned := down_data es\<rparr>"
    and e: "smooth e" by simp_all
  from e show ?case unfolding foldl_append ih
    by (cases e rule: smooth.cases) (simp_all add: data_append forward_connect_def copy_round_def closed_by_def)
qed (simp add: forward_connect_def)

text \<open>Without the target the first bytes end both loops and nobody closes the connection of the user.\<close>

lemma undialled_run:
  assumes "es = Up (Got d) w # rest"
  shows "fw_source (foldl copy_step (forward_connect False) es) = Open \<and> \<not> fw_up (foldl copy_step (forward_connect False) es)"
proof -
  have "fw_source (foldl copy_step s xs) = Open \<and> \<not> fw_up (foldl copy_step s xs)" if "fw_source s = Open" "\<not> fw_up s" for s xs
    using that
  proof (induction xs arbitrary: s)
    case (Cons x xs)
    then have "fw_source (copy_step s x) = Open" "\<not> fw_up (copy_step s x)" by (cases x; auto split: prod.splits)+
    with Cons.IH show ?case by simp
  qed simp
  moreover have "fw_source (copy_step (forward_connect False) (Up (Got d) w)) = Open \<and> \<not> fw_up (copy_step (forward_connect False) (Up (Got d) w))"
    by (simp add: forward_connect_def copy_round_def closed_by_def)
  ultimately show ?thesis by (simp add: assms)
qed

text \<open>After the user's end of input the answer has no way back.\<close>

lemma nothing_returns:
  "fw_source s = Closed \<Longrightarrow> fw_returned (foldl copy_step s xs) = fw_returned s"
proof (induction xs arbitrary: s)
  case (Cons x xs)
  have "fw_source (copy_step s x) = Closed \<and> fw_returned (copy_step s x) = fw_returned s"
    using Cons.prems by (cases x) (auto simp: copy_round_def closed_by_def split: prod.splits read_event.splits conn.splits if_splits)
  with Cons.IH show ?case by simp
qed simp



end
