(* ===== verification/Spec2Isabelle.thy ===== *)
theory Spec2Isabelle
  imports StreamingLaws LimiterLaws Containers Stats TunnelSpecs Legacy ConfigLaws WorldLaws ResponseLaws TcpFailures HttpSamples ClientAnswers AdminDiff ServerWiring ProcessSamples AdminSamples ClientCommandLaws TcpForward
begin

text \<open>
  inlets publishes local HTTP and TCP services under names and ports of a public server. This development models
  the Go implementation: the server (\<^verbatim>\<open>src/internal/server/\<close>), the client (\<^verbatim>\<open>src/internal/client/\<close>), the parts they
  share and the commands (\<^verbatim>\<open>src/cmd/inlets/\<close>). The properties, C1 to C40, stand in the theories of the parts that
  they are about, each with a witness at a concrete input where it has hypotheses.

  \<^bold>\<open>How the parts interact.\<close> A client opens a WebSocket, the monitor channel, and authenticates with an HMAC of a
  timestamp. The server looks up its secret, negotiates capabilities, makes a protocol adapter, binds its
  subdomain or opens its TCP port. A browser's request at \<open>name.domain\<close> goes through the HTTP tunnel and the
  adapter as a binary frame, whole or in chunks, to the client, which forwards it to the local service; the answer comes
  back on the monitor channel and is handed to the callback or to the stream session of its request. Bytes of a TCP user travel
  on a data channel of their own, or over a second, signed TCP connection for old clients. Registries, statistics
  and limits are shared by all of them. The server process reloads its configuration while it runs; its admin
  console edits that configuration and keeps its history.

  \<^bold>\<open>How the code is represented.\<close> A struct is a record with the fields that the code reads, an operation of the
  same name (with the component's name in front where it clashes) takes the state and returns it updated.
  \<open>Prelude.outcome\<close> has the three ways a call ends: \<open>Ok\<close>, \<open>Err\<close> for an error value, \<open>Panic\<close> for a run-time panic, so
  reads out of the range of a slice and of nil pointers are branches of the model. Bytes and counters are words of their width,
  Go strings are byte strings, maps are functions to options, or association lists where order or duplicates matter.
  Times are integers of nanoseconds. Sockets are written through logs of what was sent; what a peer, a timer, a dial or the operating system
  does is an argument or an event. Work that goroutines share is cut into the steps that the code runs under one lock or on
  one message, and the laws quantify over every order of the steps.

  \<^bold>\<open>The theories.\<close>

  \<^item> \<^verbatim>\<open>Prelude\<close>: outcomes, slices, big-endian numbers, and two interfaces: \<open>op_machine\<close>, a component driven by a list of operations with
    an invariant, and \<open>admission\<close>, a counter that grants or refuses. \<^verbatim>\<open>GoStrings\<close>, \<^verbatim>\<open>GoLib\<close>, \<^verbatim>\<open>Base64\<close>, \<^verbatim>\<open>Json\<close>: what the code uses of Go's library.

  \<^item> Frames and streams: \<^verbatim>\<open>BinaryFrame\<close> (\<^verbatim>\<open>protocol/binary.go\<close>, \<^verbatim>\<open>client/utils.go\<close>; the interface \<open>frame_link\<close> holds in both
    directions), \<^verbatim>\<open>FlowControl\<close> (\<^verbatim>\<open>flow_controller.go\<close>), \<^verbatim>\<open>StreamManager\<close> and \<^verbatim>\<open>Reassembly\<close> (\<^verbatim>\<open>stream_manager.go\<close>). Laws in \<^verbatim>\<open>FrameLaws\<close>:
    round trips, reassembly in any order, bounded windows, behaviour on arbitrary bytes, termination of the splitting loop.

  \<^item> Encodings and negotiation: \<^verbatim>\<open>Payloads\<close> (\<^verbatim>\<open>compression.go\<close>, \<^verbatim>\<open>legacytunnel/codec.go\<close>, \<^verbatim>\<open>http_tunnel_decode.go\<close>), \<^verbatim>\<open>Capabilities\<close>
    (versions and \<open>negotiateCapabilities\<close>); laws in \<^verbatim>\<open>NegotiationLaws\<close>. Gzip and Brotli are parameters with the hypothesis that they decompress
    what they compressed.

  \<^item> The adapter (\<^verbatim>\<open>protocol/binary.go\<close>): \<^verbatim>\<open>Adapter\<close>, \<^verbatim>\<open>AdapterSend\<close>, \<^verbatim>\<open>AdapterReceive\<close>; both ends together in \<^verbatim>\<open>TunnelLink\<close>; laws in \<^verbatim>\<open>TunnelLaws\<close>
    (requests arrive, roles stay apart, TCP bytes keep to their channel) and \<^verbatim>\<open>StreamingLaws\<close> (chunked messages, with and without flow control).
    \<^verbatim>\<open>Legacy\<close> is the adapter of the old protocol (\<^verbatim>\<open>protocol/legacy.go\<close>).

  \<^item> Shared state: \<^verbatim>\<open>Containers\<close> (\<^verbatim>\<open>server/container/\<close>; the interface \<open>keyed_store\<close> holds for all three registries), \<^verbatim>\<open>Stats\<close>
    (\<^verbatim>\<open>stats/traffic.go\<close>), \<^verbatim>\<open>Limiter\<close> with \<^verbatim>\<open>LimiterLaws\<close> (\<^verbatim>\<open>limiter/bandwidth.go\<close>; amounts are rational, the code has float64).

  \<^item> Configuration: \<^verbatim>\<open>Config\<close> and \<^verbatim>\<open>ConfigLaws\<close> (\<^verbatim>\<open>server/config/\<close>: the document, its validation, the secrets it answers with, atomic saving,
    reloading). YAML is a pair of functions.

  \<^item> The monitor channel (\<^verbatim>\<open>channels/monitor/\<close>): \<^verbatim>\<open>ClientTypes\<close>, \<^verbatim>\<open>AuthDecode\<close>, \<^verbatim>\<open>Monitor\<close>; laws in \<^verbatim>\<open>MonitorLaws\<close>, \<^verbatim>\<open>SessionLaws\<close> (who is let in, what a refused login
    changes), \<^verbatim>\<open>ResponseLaws\<close> (responses, public sessions, panics) and \<^verbatim>\<open>WorldLaws\<close> (many connections as a step relation:
    live sessions keep their names, ended ones leave nothing). HMAC is a parameter; nothing is assumed of it.

  \<^item> TCP: \<^verbatim>\<open>ServerState\<close>, \<^verbatim>\<open>TcpTunnel\<close> (\<^verbatim>\<open>tunnel/tcp.go\<close>), \<^verbatim>\<open>DataChannel\<close> (\<^verbatim>\<open>channels/data/\<close>); laws in \<^verbatim>\<open>TcpLaws\<close>, \<^verbatim>\<open>TcpFailures\<close>.

  \<^item> HTTP: \<^verbatim>\<open>HttpMessage\<close>, \<^verbatim>\<open>HttpTunnel\<close>, \<^verbatim>\<open>HttpServe\<close> (\<^verbatim>\<open>tunnel/http.go\<close>); laws in \<^verbatim>\<open>HttpLaws\<close> (what each operation keeps), \<^verbatim>\<open>HttpAnswers\<close> (the step relation
    of the tunnel, answered once), \<^verbatim>\<open>HttpAccess\<close> (who sees a request), \<^verbatim>\<open>HttpTraffic\<close> (streams in order), \<^verbatim>\<open>HttpRoundTrip\<close> (browser to client and
    back); \<^verbatim>\<open>HttpSamples\<close> has the witnesses.

  \<^item> The client: \<^verbatim>\<open>TunnelSpecs\<close> (rows of tunnels that the server declares), \<^verbatim>\<open>ClientState\<close>, \<^verbatim>\<open>ClientHeartbeat\<close>, \<^verbatim>\<open>UpstreamHttp\<close>, \<^verbatim>\<open>ClientHttp\<close>, \<^verbatim>\<open>ClientTcp\<close>,
    \<^verbatim>\<open>ClientDecode\<close>, \<^verbatim>\<open>ClientTargets\<close>, \<^verbatim>\<open>ClientSession\<close>. \<^verbatim>\<open>HeartbeatLaws\<close> states an abstract watchdog as a locale; \<^verbatim>\<open>ClientMachine\<close> makes one machine of the
    whole client and interprets the locale on it, for the monitor channel and for every data channel; \<^verbatim>\<open>ClientBeats\<close> has the
    resulting properties, \<^verbatim>\<open>ClientSamples\<close> the witnesses, \<^verbatim>\<open>ClientAnswers\<close> the one whole answer to a streamed request. \<^verbatim>\<open>ClientCommand\<close> and \<^verbatim>\<open>ClientCommandLaws\<close>: from flags and file to options, and what the
    options guarantee of the connections.

  \<^item> The server process: \<^verbatim>\<open>ServerProcess\<close> (\<^verbatim>\<open>server.go\<close>, \<^verbatim>\<open>admin/admin.go\<close>, \<^verbatim>\<open>config/pid.go\<close>), \<^verbatim>\<open>Notifier\<close>, \<^verbatim>\<open>ServerWiring\<close> (the routes), \<^verbatim>\<open>ServerCommand\<close>
    (\<^verbatim>\<open>cmd/inlets/server.go\<close>); laws in \<^verbatim>\<open>ProcessLaws\<close>, \<^verbatim>\<open>CommandLaws\<close>, witnesses in \<^verbatim>\<open>ProcessSamples\<close>.

  \<^item> The admin console: \<^verbatim>\<open>AdminDiff\<close> (the line diff and its optimality), \<^verbatim>\<open>AdminService\<close> (services and API), \<^verbatim>\<open>AdminLaws\<close>, \<^verbatim>\<open>AdminSamples\<close>. The
    database library is a record of its calls with documented laws (\<open>gorm_ok\<close>); the witness has a concrete one.

  \<^item> \<^verbatim>\<open>TcpForward\<close>: the copy loops of \<open>inlets forward\<close> (\<^verbatim>\<open>internal/forward/\<close>).

  \<^bold>\<open>Loops and bounds.\<close> Loops are structural recursion or functions with a measure. The splitting loop, which need not
  end, is a \<open>partial_function\<close>; C36 says for which sizes it returns. The wait for a send slot and the dial loops have the
  numbers of attempts that the code has. The table of the diff and the backtracking end by the sum of their indices. No fuel is used.

  \<^bold>\<open>Not modelled.\<close> The listeners and read loops themselves, which only pass on what arrives (\<open>setupEventListeners\<close>,
  \<^verbatim>\<open>forward/server.go\<close>, \<open>pipeConnections\<close>); the texts of logs, of error messages and of notifications; \<open>FormatStats\<close>; the static description of the
  settings and the assets of the admin pages (\<^verbatim>\<open>schema.go\<close>, \<^verbatim>\<open>admin/static/\<close>); the dispatch of commands and the parsing of command
  lines, which are a library's; the script with demonstration data. Libraries that the code calls, that is net/http's parsing, gorilla/websocket,
  gorm, YAML, compression and cryptography, are parameters.
\<close>

end
